(* ===== verification/Isdn_Prelude.thy ===== *)
theory Isdn_Prelude
  imports Main "HOL-Library.Word" "HOL-Library.Monad_Syntax"
begin

text \<open>
  What every component of the development shares: the widths of the C integers, the socket
  buffers (\<open>struct sk_buff\<close>) as far as the ISDN code uses them, the part of the kernel the code
  asks for memory, time and randomness, total-correctness triples for handlers that may crash, and
  the arithmetic of sequence numbers and ring indices.

  A handler that can dereference a null pointer, read outside a buffer or divide by zero returns
  an option: \<open>None\<close> is the kernel fault.
\<close>

unbundle bit_operations_syntax

type_synonym u8 = "8 word"
type_synonym u16 = "16 word"
type_synonym u32 = "32 word"

named_theorems frame_simps \<open>fields an operation leaves unchanged\<close>
named_theorems handler_ok \<open>one total-correctness fact per protocol handler\<close>

subsection \<open>Faults\<close>

text \<open>\<open>wpo m Q\<close>: the computation \<open>m\<close> does not fault and its result satisfies \<open>Q\<close>.\<close>

definition wpo :: "'s option \<Rightarrow> ('s \<Rightarrow> bool) \<Rightarrow> bool" where
  "wpo m Q = (case m of None \<Rightarrow> False | Some s \<Rightarrow> Q s)"

lemma wpo_Some [simp]: "wpo (Some s) Q = Q s"
  by (simp add: wpo_def)

lemma wpo_None [simp]: "\<not> wpo None Q"
  by (simp add: wpo_def)

lemma wpo_bind [simp]: "wpo (Option.bind m f) Q = wpo m (\<lambda>s. wpo (f s) Q)"
  by (cases m) (simp_all add: wpo_def)

lemma wpo_mono: "wpo m Q \<Longrightarrow> (\<And>s. Q s \<Longrightarrow> R s) \<Longrightarrow> wpo m R"
  by (cases m) (simp_all add: wpo_def)

lemma wpo_iff: "wpo m Q \<longleftrightarrow> (\<exists>s. m = Some s \<and> Q s)"
  by (cases m) (simp_all add: wpo_def)

lemma wpo_if [simp]: "wpo (if b then m else n) Q = (if b then wpo m Q else wpo n Q)"
  by simp

text \<open>Partial correctness: if the computation does not fault, its result satisfies \<open>Q\<close>.\<close>

definition wlp :: "'s option \<Rightarrow> ('s \<Rightarrow> bool) \<Rightarrow> bool" where
  "wlp m Q = (\<forall>s. m = Some s \<longrightarrow> Q s)"

lemma wlpD: "wlp m Q \<Longrightarrow> m = Some s \<Longrightarrow> Q s"
  by (simp add: wlp_def)

lemma wlp_Some [simp]: "wlp (Some s) Q = Q s"
  by (simp add: wlp_def)

lemma wlp_None [simp]: "wlp None Q"
  by (simp add: wlp_def)

lemma wlp_bindI: "wlp m R \<Longrightarrow> (\<And>s. R s \<Longrightarrow> wlp (f s) Q) \<Longrightarrow> wlp (m \<bind> f) Q"
  by (cases m) (simp_all add: wlp_def)

lemma wlp_bind_any: "(\<And>s. wlp (f s) Q) \<Longrightarrow> wlp (m \<bind> f) Q"
  by (cases m) (simp_all add: wlp_def)

lemma wlp_LetI: "R x \<Longrightarrow> (\<And>y. R y \<Longrightarrow> wlp (f y) Q) \<Longrightarrow> wlp (Let x f) Q"
  by simp

lemma wlp_Let_any: "(\<And>y. wlp (f y) Q) \<Longrightarrow> wlp (Let x f) Q"
  by simp

lemma wlp_ifI: "wlp m Q \<Longrightarrow> wlp n Q \<Longrightarrow> wlp (if b then m else n) Q"
  by simp

text \<open>A read of a byte inside the valid data of a buffer; outside it the read is a fault.\<close>

definition rd :: "u8 list \<Rightarrow> nat \<Rightarrow> u8 option" where
  "rd d i = (if i < length d then Some (d ! i) else None)"

lemma rd_in [simp]: "i < length d \<Longrightarrow> rd d i = Some (d ! i)"
  by (simp add: rd_def)

subsection \<open>Socket buffers\<close>

text \<open>
  \<open>skb_head\<close> is the room before the data (\<open>skb->data - skb->head\<close>), \<open>skb_bytes\<close> the \<open>skb->len\<close>
  bytes from \<open>skb->data\<close> on.
\<close>

record sk_buff =
  skb_head :: nat
  skb_bytes :: "u8 list"
  skb_pkt_type :: nat

definition skb_len :: "sk_buff \<Rightarrow> nat" where
  "skb_len skb = length (skb_bytes skb)"

text \<open>\<open>skb_pull\<close> does nothing (it returns NULL) when fewer than \<open>n\<close> bytes are there.\<close>

definition skb_pull :: "nat \<Rightarrow> sk_buff \<Rightarrow> sk_buff" where
  "skb_pull n skb =
     (if n \<le> skb_len skb
      then skb\<lparr>skb_head := skb_head skb + n, skb_bytes := drop n (skb_bytes skb)\<rparr> else skb)"

text \<open>\<open>skb_push\<close> of a header runs into \<open>skb_under_panic\<close> when there is no room for it.\<close>

definition skb_push :: "u8 list \<Rightarrow> sk_buff \<Rightarrow> sk_buff option" where
  "skb_push h skb =
     (if length h \<le> skb_head skb
      then Some (skb\<lparr>skb_head := skb_head skb - length h, skb_bytes := h @ skb_bytes skb\<rparr>)
      else None)"

text \<open>A fresh buffer from \<open>alloc_skb\<close>, filled by \<open>skb_put\<close>.\<close>

definition skb_new :: "nat \<Rightarrow> u8 list \<Rightarrow> sk_buff" where
  "skb_new reserve d = \<lparr>skb_head = reserve, skb_bytes = d, skb_pkt_type = 0\<rparr>"

lemma skb_bytes_pull [simp]:
  "n \<le> length (skb_bytes skb) \<Longrightarrow> skb_bytes (skb_pull n skb) = drop n (skb_bytes skb)"
  by (simp add: skb_pull_def skb_len_def)

lemma skb_new_sel [simp]:
  "skb_head (skb_new r d) = r" "skb_bytes (skb_new r d) = d" "skb_pkt_type (skb_new r d) = 0"
  by (simp_all add: skb_new_def)

subsection \<open>The kernel: memory, time, randomness\<close>

text \<open>
  \<open>k_allocs\<close> lists the outcomes of the next memory allocations (after the list they succeed), and
  \<open>k_clones\<close> those of the copies a sender keeps of its frames, which the code does not check:
  two lists, so that one kind can fail and the other not.
  \<open>k_jiffies\<close> and \<open>k_hz\<close> are the clock, \<open>k_random\<close> the words \<open>get_random_bytes\<close> will return.
\<close>

record kenv =
  k_allocs :: "bool list"
  k_clones :: "bool list"
  k_jiffies :: u32
  k_hz :: int
  k_random :: "u32 list"

definition k_alloc :: "kenv \<Rightarrow> bool \<times> kenv" where
  "k_alloc k = (case k_allocs k of [] \<Rightarrow> (True, k) | b # bs \<Rightarrow> (b, k\<lparr>k_allocs := bs\<rparr>))"

definition k_clone :: "kenv \<Rightarrow> bool \<times> kenv" where
  "k_clone k = (case k_clones k of [] \<Rightarrow> (True, k) | b # bs \<Rightarrow> (b, k\<lparr>k_clones := bs\<rparr>))"

definition k_rand :: "kenv \<Rightarrow> u32 \<times> kenv" where
  "k_rand k = (case k_random k of [] \<Rightarrow> (0, k) | x # xs \<Rightarrow> (x, k\<lparr>k_random := xs\<rparr>))"

text \<open>No allocation of the run fails.\<close>

definition mem_ok :: "kenv \<Rightarrow> bool" where
  "mem_ok k \<longleftrightarrow> False \<notin> set (k_allocs k)"

lemma mem_ok_alloc: "mem_ok k \<Longrightarrow> fst (k_alloc k) \<and> mem_ok (snd (k_alloc k))"
  by (cases "k_allocs k") (auto simp: mem_ok_def k_alloc_def)

lemma mem_ok_allocD [simp]:
  "mem_ok k \<Longrightarrow> fst (k_alloc k)" "mem_ok k \<Longrightarrow> mem_ok (snd (k_alloc k))"
  by (simp_all add: mem_ok_alloc)

text \<open>No copy of a frame fails. Other allocations may.\<close>

definition clones_ok :: "kenv \<Rightarrow> bool" where
  "clones_ok k \<longleftrightarrow> False \<notin> set (k_clones k)"

lemma clones_ok_env [simp]:
  "clones_ok k \<Longrightarrow> fst (k_clone k)" "clones_ok k \<Longrightarrow> clones_ok (snd (k_clone k))"
  "clones_ok (snd (k_alloc k)) = clones_ok k" "clones_ok (snd (k_rand k)) = clones_ok k"
  by (auto simp: clones_ok_def k_clone_def k_alloc_def k_rand_def split: list.split)

subsection \<open>Primitives between the layers\<close>

text \<open>
  \<open>hisax.h\<close> codes a primitive as \<open>name | kind\<close>. \<open>prim_num\<close> is that number. The kind is in the two
  low bits and every name is a multiple of 4, so a pair and its number determine each other
  (\<open>prim_num_inj\<close>) and the \<open>switch\<close> statements of the code are case distinctions on pairs.
\<close>

datatype pr_name =
    HW_ENABLE | HW_RESET | HW_POWERUP | HW_DEACTIVATE | HW_INFO1 | HW_INFO2
  | HW_INFO3 | HW_INFO4_P8 | HW_INFO4_P10 | HW_RSYNC | HW_TESTLOOP
  | PH_ACTIVATE | PH_DEACTIVATE | PH_DATA | PH_PULL | PH_TESTLOOP | PH_PAUSE
  | DL_ESTABLISH | DL_RELEASE | DL_DATA | DL_FLUSH | DL_UNIT_DATA
  | MDL_ASSIGN | MDL_REMOVE | MDL_ERROR

datatype pr_kind = REQUEST | CONFIRM | INDICATION | RESPONSE

type_synonym prim = "pr_name \<times> pr_kind"

primrec pr_name_num :: "pr_name \<Rightarrow> nat" where
  "pr_name_num HW_ENABLE = 0x0000"
| "pr_name_num HW_RESET = 0x0004"
| "pr_name_num HW_POWERUP = 0x0008"
| "pr_name_num HW_DEACTIVATE = 0x0018"
| "pr_name_num HW_INFO1 = 0x0010"
| "pr_name_num HW_INFO2 = 0x0020"
| "pr_name_num HW_INFO3 = 0x0030"
| "pr_name_num HW_INFO4_P8 = 0x0040"
| "pr_name_num HW_INFO4_P10 = 0x0048"
| "pr_name_num HW_RSYNC = 0x0060"
| "pr_name_num HW_TESTLOOP = 0x0070"
| "pr_name_num PH_ACTIVATE = 0x0100"
| "pr_name_num PH_DEACTIVATE = 0x0110"
| "pr_name_num PH_DATA = 0x0120"
| "pr_name_num PH_PULL = 0x0130"
| "pr_name_num PH_TESTLOOP = 0x0140"
| "pr_name_num PH_PAUSE = 0x0150"
| "pr_name_num DL_ESTABLISH = 0x0200"
| "pr_name_num DL_RELEASE = 0x0210"
| "pr_name_num DL_DATA = 0x0220"
| "pr_name_num DL_FLUSH = 0x0224"
| "pr_name_num DL_UNIT_DATA = 0x0230"
| "pr_name_num MDL_ASSIGN = 0x0280"
| "pr_name_num MDL_REMOVE = 0x0284"
| "pr_name_num MDL_ERROR = 0x0288"

primrec pr_kind_num :: "pr_kind \<Rightarrow> nat" where
  "pr_kind_num REQUEST = 0"
| "pr_kind_num CONFIRM = 1"
| "pr_kind_num INDICATION = 2"
| "pr_kind_num RESPONSE = 3"

definition prim_num :: "prim \<Rightarrow> nat" where
  "prim_num p = (pr_name_num (fst p) OR pr_kind_num (snd p))"

lemma pr_name_num_inj: "pr_name_num a = pr_name_num b \<Longrightarrow> a = b"
  by (cases a; cases b; simp)

lemma pr_kind_num_inj: "pr_kind_num a = pr_kind_num b \<Longrightarrow> a = b"
  by (cases a; cases b; simp)

lemma prim_num_add: "prim_num p = pr_name_num (fst p) + pr_kind_num (snd p)"
  by (cases "fst p"; cases "snd p"; simp add: prim_num_def)

lemma prim_num_inj: "prim_num p = prim_num q \<Longrightarrow> p = q"
proof -
  assume eq: "prim_num p = prim_num q"
  have m: "pr_name_num a mod 4 = 0" for a by (cases a) simp_all
  have k: "pr_kind_num a < 4" for a by (cases a) simp_all
  have "pr_kind_num (snd p) = pr_kind_num (snd q)"
    using eq m[of "fst p"] m[of "fst q"] k[of "snd p"] k[of "snd q"]
    unfolding prim_num_add by presburger
  moreover from this have "pr_name_num (fst p) = pr_name_num (fst q)"
    using eq by (simp add: prim_num_add)
  ultimately show "p = q"
    by (intro prod_eqI pr_name_num_inj pr_kind_num_inj)
qed

text \<open>The SAPIs and the group TEI of \<open>hisax.h\<close>.\<close>

definition TEI_SAPI :: u8 where "TEI_SAPI = 63"
definition CTRL_SAPI :: u8 where "CTRL_SAPI = 0"
definition GROUP_TEI :: u8 where "GROUP_TEI = 127"

subsection \<open>Loops over a list\<close>

text \<open>A loop that runs \<open>f\<close> on the elements of a list in order and stops at a fault.\<close>

primrec each :: "('i \<Rightarrow> 's \<Rightarrow> 's option) \<Rightarrow> 'i list \<Rightarrow> 's \<Rightarrow> 's option" where
  "each f [] s = Some s"
| "each f (i # is) s = do { s \<leftarrow> f i s; each f is s }"

lemma each_inv:
  assumes "I s" "\<And>i s. i \<in> set is \<Longrightarrow> I s \<Longrightarrow> wpo (f i s) I"
  shows "wpo (each f is s) I"
  using assms
proof (induction "is" arbitrary: s)
  case Nil
  then show ?case by simp
next
  case (Cons i "is")
  have "wpo (f i s) I" using Cons.prems by simp
  then show ?case
    unfolding each.simps wpo_bind by (rule wpo_mono) (rule Cons.IH, simp_all add: Cons.prems)
qed

subsection \<open>Octets\<close>

lemma unat_u8: "unat (b :: u8) < 256"
proof -
  have "unat b < 2 ^ LENGTH(8)" by (rule unsigned_less)
  then show ?thesis by simp
qed

lemma unat_ucast_u32 [simp]: "unat (ucast (b :: u8) :: u32) = unat b"
  using unat_u8 [of b] by (simp add: unsigned_ucast_eq take_bit_nat_eq_self)

subsection \<open>Sequence numbers\<close>

text \<open>
  The code subtracts 32-bit sequence numbers and reduces the difference modulo 8 or 128. On
  numbers below the modulus the wrap-around of the subtraction does no harm, because the modulus
  divides \<open>2 ^ 32\<close>.
\<close>

definition seq_modulus :: "u32 \<Rightarrow> bool" where
  "seq_modulus m \<longleftrightarrow> m = 8 \<or> m = 128"

lemma seq_modulus_unat: "seq_modulus m \<Longrightarrow> unat m = 8 \<or> unat m = 128"
  by (auto simp: seq_modulus_def)

lemma mult_sub_mod:
  fixes d k m :: nat
  assumes "d \<le> m" "0 < k"
  shows "(m * k - d) mod m = (m - d) mod m"
proof -
  obtain j where k: "k = Suc j" using assms(2) gr0_implies_Suc by blast
  have "m * k - d = m * j + (m - d)" using assms(1) by (simp add: k)
  then show ?thesis by simp
qed

lemma unat_sub_mod:
  assumes "seq_modulus m" "a < m" "b < m"
  shows "unat ((a - b) mod m) = (unat a + unat m - unat b) mod unat m"
proof -
  have ab: "unat a < unat m" "unat b < unat m"
    using assms by (simp_all add: word_less_nat_alt)
  have m: "unat m = 8 \<or> unat m = 128"
    using assms(1) by (rule seq_modulus_unat)
  show ?thesis
  proof (cases "b \<le> a")
    case True
    then have "unat (a - b) = unat a - unat b \<and> unat b \<le> unat a"
      by (simp add: unat_sub word_le_nat_alt)
    note le = this
    have "unat a + unat m - unat b = (unat a - unat b) + unat m" using le by simp
    then have "(unat a + unat m - unat b) mod unat m = (unat a - unat b) mod unat m"
      by (simp only: mod_add_self2)
    then show ?thesis using le by (simp add: unat_mod)
  next
    case False
    then have lt: "unat a < unat b"
      by (simp add: word_le_nat_alt)
    then have "unat (a - b) = 2 ^ 32 - (unat b - unat a)"
      by (simp add: unat_sub_if' word_le_nat_alt)
    also have "\<dots> mod unat m = (unat m - (unat b - unat a)) mod unat m"
      using m
    proof
      assume "unat m = 8"
      then show ?thesis
        using mult_sub_mod [of "unat b - unat a" 8 536870912] ab by simp
    next
      assume "unat m = 128"
      then show ?thesis
        using mult_sub_mod [of "unat b - unat a" 128 33554432] ab by simp
    qed
    finally show ?thesis using lt by (simp add: unat_mod add.commute)
  qed
qed

lemma unat_inc_mod:
  assumes "seq_modulus m" "a < m"
  shows "unat ((a + 1) mod m) = (unat a + 1) mod unat m"
proof -
  have "unat a < unat m" using assms(2) by (simp add: word_less_nat_alt)
  moreover have "unat m = 8 \<or> unat m = 128" using assms(1) by (rule seq_modulus_unat)
  ultimately have "unat (a + 1) = unat a + 1"
    by (subst unat_add_lem [THEN iffD1]) auto
  then show ?thesis by (simp add: unat_mod)
qed

lemma mod_less_seq: "seq_modulus m \<Longrightarrow> a mod m < m"
  by (auto simp: seq_modulus_def word_less_nat_alt unat_mod)

subsection \<open>Rings\<close>

text \<open>Consecutive slots of a ring of \<open>w\<close> entries, from \<open>b\<close> on.\<close>

lemma ring_inj_le:
  fixes i j b w :: nat
  assumes "i \<le> j" "j < w" "(b + j) mod w = (b + i) mod w"
  shows "i = j"
proof -
  have "w dvd (b + j) - (b + i)"
    using assms(1,3) mod_eq_dvd_iff_nat [of "b + i" "b + j" w] by simp
  then have "w dvd j - i" by simp
  moreover have "j - i < w" using assms(2) by simp
  ultimately have "j - i = 0" using nat_dvd_not_less by blast
  then show ?thesis using assms(1) by simp
qed

lemma ring_inj:
  fixes i j b w :: nat
  assumes "i < w" "j < w" "(b + i) mod w = (b + j) mod w"
  shows "i = j"
proof (cases "i \<le> j")
  case True
  then show ?thesis using assms(2) assms(3) [symmetric] by (rule ring_inj_le)
next
  case False
  then have "j \<le> i" by simp
  then show ?thesis using assms(1,3) by (rule ring_inj_le [symmetric])
qed

end
