(* ===== verification/Hisax_Fsm.thy ===== *)
theory Hisax_Fsm
  imports Isdn_Prelude
begin

text \<open>
  The table-driven state machines of the HiSax driver (\<open>hisax/fsm.c\<close>): building the jump matrix
  from a list of nodes, dispatching an event, and the timers that deliver an event later. A
  routine is a function on the state of the component that owns the machine; \<open>None\<close> is a kernel
  fault. The locale \<open>fsm_table\<close> is the contract between a table and its users: routines that keep
  an invariant from the state they are registered for make every dispatched event keep it.
\<close>

subsection \<open>Nodes and the jump matrix\<close>

datatype 'r FsmNode = FsmNode (nd_state: nat) (nd_event: nat) (nd_routine: 'r)

record 'r Fsm =
  jumpmatrix :: "'r option list"
  state_count :: nat
  event_count :: nat

definition ENOMEM :: int where
  "ENOMEM = 12"

text \<open>The loop of \<open>FsmNew\<close>: nodes out of range are reported and skipped.\<close>

fun FsmNew_fill :: "nat \<Rightarrow> nat \<Rightarrow> 'r FsmNode list \<Rightarrow> 'r option list \<Rightarrow> 'r option list" where
  "FsmNew_fill sc ec [] jm = jm"
| "FsmNew_fill sc ec (n # ns) jm =
     (if sc \<le> nd_state n \<or> ec \<le> nd_event n then FsmNew_fill sc ec ns jm
      else FsmNew_fill sc ec ns (jm[sc * nd_event n + nd_state n := Some (nd_routine n)]))"

definition FsmNew :: "bool \<Rightarrow> nat \<Rightarrow> nat \<Rightarrow> 'r FsmNode list \<Rightarrow> int + 'r Fsm" where
  "FsmNew kmalloc_ok sc ec fnlist =
     (if \<not> kmalloc_ok then Inl (- ENOMEM)
      else Inr \<lparr>jumpmatrix = FsmNew_fill sc ec fnlist (replicate (sc * ec) None),
                state_count = sc, event_count = ec\<rparr>)"

text \<open>The machine that a successful \<open>FsmNew\<close> leaves.\<close>

definition fsm_of :: "nat \<Rightarrow> nat \<Rightarrow> 'r FsmNode list \<Rightarrow> 'r Fsm" where
  "fsm_of sc ec fnlist =
     \<lparr>jumpmatrix = FsmNew_fill sc ec fnlist (replicate (sc * ec) None),
      state_count = sc, event_count = ec\<rparr>"

lemma FsmNew_ok: "FsmNew True sc ec fnlist = Inr (fsm_of sc ec fnlist)"
  by (simp add: FsmNew_def fsm_of_def)

subsection \<open>Dispatch\<close>

text \<open>
  \<open>FsmEvent\<close> returns 0 when a routine ran, and a non-zero value when the event is out of range or
  the state has no routine for it (the caller then still owns the argument).
\<close>

definition FsmEvent ::
  "('a \<Rightarrow> 's \<Rightarrow> 's option) Fsm \<Rightarrow> ('s \<Rightarrow> nat) \<Rightarrow> nat \<Rightarrow> 'a \<Rightarrow> 's \<Rightarrow> (int \<times> 's) option" where
  "FsmEvent fsm st event arg s =
     (if state_count fsm \<le> st s \<or> event_count fsm \<le> event then Some (1, s)
      else case jumpmatrix fsm ! (state_count fsm * event + st s) of
             Some r \<Rightarrow> map_option (\<lambda>s'. (0, s')) (r arg s)
           | None \<Rightarrow> Some (1, s))"

subsection \<open>What the jump matrix holds\<close>

text \<open>The specification of a table: the last node in range for a state and an event.\<close>

definition fsm_lookup :: "'r FsmNode list \<Rightarrow> nat \<Rightarrow> nat \<Rightarrow> 'r option" where
  "fsm_lookup fnlist s e =
     map_of (rev (map (\<lambda>n. ((nd_state n, nd_event n), nd_routine n)) fnlist)) (s, e)"

lemma fsm_lookup_Nil [simp]: "fsm_lookup [] s e = None"
  by (simp add: fsm_lookup_def)

lemma fsm_lookup_snoc:
  "fsm_lookup (ns @ [n]) s e =
     (if nd_state n = s \<and> nd_event n = e then Some (nd_routine n) else fsm_lookup ns s e)"
  by (auto simp: fsm_lookup_def)

lemma matrix_index_inj:
  assumes "s < sc" "s' < sc" "sc * e + s = sc * e' + (s' :: nat)"
  shows "s = s' \<and> e = e'"
proof -
  have "(sc * e + s) mod sc = (sc * e' + s') mod sc" using assms(3) by simp
  then have "s = s'" using assms(1,2) by simp
  then show ?thesis using assms by auto
qed

lemma matrix_index_bound:
  assumes "s < sc" "e < ec"
  shows "sc * e + s < sc * (ec :: nat)"
proof -
  have "sc * e + s < sc * Suc e" using assms(1) by simp
  also have "\<dots> \<le> sc * ec" using assms(2) by (intro mult_le_mono2) simp
  finally show ?thesis .
qed

lemma length_FsmNew_fill [simp]: "length (FsmNew_fill sc ec ns jm) = length jm"
  by (induction sc ec ns jm rule: FsmNew_fill.induct) simp_all

lemma FsmNew_fill_append:
  "FsmNew_fill sc ec (ms @ ns) jm = FsmNew_fill sc ec ns (FsmNew_fill sc ec ms jm)"
  by (induction ms arbitrary: jm) simp_all

lemma FsmNew_fill_nth:
  assumes "s < sc" "e < ec" "length jm = sc * ec"
  shows "FsmNew_fill sc ec ns jm ! (sc * e + s) =
    (case fsm_lookup ns s e of Some r \<Rightarrow> Some r | None \<Rightarrow> jm ! (sc * e + s))"
proof (induction ns rule: rev_induct)
  case Nil
  then show ?case by simp
next
  case (snoc n ns)
  show ?case
  proof (cases "sc \<le> nd_state n \<or> ec \<le> nd_event n")
    case True
    then show ?thesis using snoc assms by (auto simp: FsmNew_fill_append fsm_lookup_snoc)
  next
    case False
    then have "sc * nd_event n + nd_state n < sc * ec"
      using matrix_index_bound [of "nd_state n" sc "nd_event n" ec] by simp
    moreover have "sc * nd_event n + nd_state n = sc * e + s \<longleftrightarrow> nd_state n = s \<and> nd_event n = e"
      using matrix_index_inj [of "nd_state n" sc s "nd_event n" e] False assms(1) by auto
    ultimately show ?thesis
      using snoc assms(3) False
      by (auto simp: FsmNew_fill_append fsm_lookup_snoc nth_list_update)
  qed
qed

lemma fsm_of_nth:
  "s < sc \<Longrightarrow> e < ec \<Longrightarrow> jumpmatrix (fsm_of sc ec ns) ! (sc * e + s) = fsm_lookup ns s e"
  using matrix_index_bound [of s sc e ec]
  by (simp add: fsm_of_def FsmNew_fill_nth split: option.split)

lemma FsmEvent_fsm_of:
  "FsmEvent (fsm_of sc ec ns) st e a s =
     (if sc \<le> st s \<or> ec \<le> e then Some (1, s)
      else case fsm_lookup ns (st s) e of
             Some r \<Rightarrow> map_option (\<lambda>s'. (0, s')) (r a s)
           | None \<Rightarrow> Some (1, s))"
  using fsm_of_nth [of "st s" sc e ec ns] by (simp add: FsmEvent_def fsm_of_def)

lemma fsm_lookup_SomeD:
  "fsm_lookup ns s e = Some r \<Longrightarrow> \<exists>n \<in> set ns. nd_state n = s \<and> nd_event n = e \<and> nd_routine n = r"
  by (induction ns rule: rev_induct) (auto simp: fsm_lookup_snoc split: if_splits)

lemma fsm_lookup_NoneD:
  "fsm_lookup ns s e = None \<Longrightarrow> n \<in> set ns \<Longrightarrow> \<not> (nd_state n = s \<and> nd_event n = e)"
  by (induction ns rule: rev_induct) (auto simp: fsm_lookup_snoc split: if_splits)

text \<open>A table without two nodes for the same state and event.\<close>

definition fsm_distinct :: "'r FsmNode list \<Rightarrow> bool" where
  "fsm_distinct ns = distinct (map (\<lambda>n. (nd_state n, nd_event n)) ns)"

lemma fsm_lookup_distinct:
  assumes "fsm_distinct ns" "n \<in> set ns"
  shows "fsm_lookup ns (nd_state n) (nd_event n) = Some (nd_routine n)"
proof -
  let ?al = "map (\<lambda>n. ((nd_state n, nd_event n), nd_routine n)) ns"
  have "distinct (map fst (rev ?al))"
    using assms(1) by (simp add: fsm_distinct_def rev_map [symmetric] comp_def)
  moreover have "((nd_state n, nd_event n), nd_routine n) \<in> set (rev ?al)"
    using assms(2) by auto
  ultimately show ?thesis
    unfolding fsm_lookup_def by (rule map_of_is_SomeI)
qed

subsection \<open>The contract of a table\<close>

text \<open>
  \<open>pre e a s\<close> is what the component guarantees when it raises event \<open>e\<close> with argument \<open>a\<close>;
  \<open>inv\<close> is what must hold afterwards. A state without a routine for the event must already
  satisfy it.
\<close>

locale fsm_table =
  fixes sc ec :: nat
    and fnlist :: "('a \<Rightarrow> 's \<Rightarrow> 's option) FsmNode list"
    and st :: "'s \<Rightarrow> nat"
    and pre :: "nat \<Rightarrow> 'a \<Rightarrow> 's \<Rightarrow> bool"
    and inv :: "'s \<Rightarrow> bool"
  assumes routine_ok:
      "\<And>n a s. n \<in> set fnlist \<Longrightarrow> nd_state n = st s \<Longrightarrow> pre (nd_event n) a s \<Longrightarrow>
         wpo (nd_routine n a s) inv"
    and no_routine_ok:
      "\<And>e a s. (\<forall>n \<in> set fnlist. \<not> (nd_state n = st s \<and> nd_event n = e)) \<Longrightarrow> pre e a s \<Longrightarrow> inv s"
    and in_range: "\<And>n. n \<in> set fnlist \<Longrightarrow> nd_state n < sc \<and> nd_event n < ec"
begin

lemma event_ok:
  assumes "pre e a s"
  shows "wpo (FsmEvent (fsm_of sc ec fnlist) st e a s) (\<lambda>(r, s'). inv s')"
proof (cases "sc \<le> st s \<or> ec \<le> e")
  case True
  then have "\<forall>n \<in> set fnlist. \<not> (nd_state n = st s \<and> nd_event n = e)"
    using in_range by fastforce
  then have "inv s" using assms by (rule no_routine_ok)
  then show ?thesis using True by (simp add: FsmEvent_fsm_of)
next
  case False
  show ?thesis
  proof (cases "fsm_lookup fnlist (st s) e")
    case None
    then have "\<forall>n \<in> set fnlist. \<not> (nd_state n = st s \<and> nd_event n = e)"
      by (intro ballI) (rule fsm_lookup_NoneD [OF None])
    then have "inv s" using assms by (rule no_routine_ok)
    then show ?thesis using False None by (simp add: FsmEvent_fsm_of)
  next
    case (Some r)
    obtain n where n: "n \<in> set fnlist" "nd_state n = st s" "nd_event n = e" "nd_routine n = r"
      using fsm_lookup_SomeD [OF Some] by auto
    have "wpo (r a s) inv" using routine_ok [OF n(1,2), of a] n(3,4) assms by simp
    then show ?thesis using False Some by (auto simp: FsmEvent_fsm_of wpo_iff)
  qed
qed

end

subsection \<open>Timers\<close>

text \<open>
  \<open>struct FsmTimer\<close>: the kernel timer is pending or not, and when it expires it raises
  \<open>tm_event\<close> on its machine. Every timer of the modelled components has a NULL argument.
\<close>

record FsmTimer =
  tl_pending :: bool
  tl_expires :: u32
  tm_event :: nat

definition FsmInitTimer :: "FsmTimer \<Rightarrow> FsmTimer" where
  "FsmInitTimer ft = ft\<lparr>tl_pending := False\<rparr>"

definition FsmDelTimer :: "FsmTimer \<Rightarrow> FsmTimer" where
  "FsmDelTimer ft = ft\<lparr>tl_pending := False\<rparr>"

definition timer_expires :: "kenv \<Rightarrow> int \<Rightarrow> u32" where
  "timer_expires k millisec = k_jiffies k + of_int (millisec * k_hz k div 1000)"

text \<open>\<open>FsmAddTimer\<close> refuses (-1) a timer that is already pending.\<close>

definition FsmAddTimer :: "kenv \<Rightarrow> int \<Rightarrow> nat \<Rightarrow> FsmTimer \<Rightarrow> int \<times> FsmTimer" where
  "FsmAddTimer k millisec event ft =
     (if tl_pending ft then (-1, ft)
      else (0, ft\<lparr>tl_pending := True, tm_event := event, tl_expires := timer_expires k millisec\<rparr>))"

definition FsmRestartTimer :: "kenv \<Rightarrow> int \<Rightarrow> nat \<Rightarrow> FsmTimer \<Rightarrow> FsmTimer" where
  "FsmRestartTimer k millisec event ft =
     ft\<lparr>tl_pending := True, tm_event := event, tl_expires := timer_expires k millisec\<rparr>"

lemma pending_timer [simp]:
  "tl_pending (snd (FsmAddTimer k ms ev ft))"
  "tl_pending (FsmRestartTimer k ms ev ft)"
  "\<not> tl_pending (FsmDelTimer ft)"
  "\<not> tl_pending (FsmInitTimer ft)"
  by (simp_all add: FsmAddTimer_def FsmRestartTimer_def FsmDelTimer_def FsmInitTimer_def)

end
