(* ===== verification/Hisax_L2.thy ===== *)
theory Hisax_L2
  imports Hisax_Fsm
begin

text \<open>
  Layer 2 of the D- and X.75 channels, \<open>hisax/isdnl2.c\<close>: the Q.921 (LAPD) and LAPB data link
  procedures with their eight states. This theory is the model alone: the state of a link, the
  frame tests and error checks, the handlers in the order of the source, the state table, and the
  entry points for primitives from layer 1 and layer 3.

  A call to another layer or to the management entity is recorded in \<open>l2_outs\<close>, in order.
\<close>

subsection \<open>The state of a link\<close>

datatype l2flag =
    FLG_LAPB | FLG_LAPD | FLG_ORIG | FLG_MOD128 | FLG_PEND_REL | FLG_L3_INIT | FLG_T200_RUN
  | FLG_ACK_PEND | FLG_REJEXC | FLG_OWN_BUSY | FLG_PEER_BUSY | FLG_DCHAN_BUSY | FLG_L1_ACTIV
  | FLG_ESTAB_PEND | FLG_PTP | FLG_FIXED_TEI | FLG_L2BLOCK

text \<open>
  The calls out of layer 2: \<open>st->l2.l2l1\<close>, \<open>st->l2.l2l3\<close>, \<open>st->l2.l2tei\<close>, \<open>st->ma.layer\<close> with an
  error letter, and \<open>st->lli.l2writewakeup\<close> with a length.
\<close>

datatype l2out =
    L2L1 prim "sk_buff option"
  | L2L3 prim "sk_buff option"
  | L2TEI prim
  | MA prim nat
  | WAKEUP nat

text \<open>The \<open>void *arg\<close> of an event.\<close>

datatype l2arg = NoArg | Skb sk_buff | ErrArg nat | TeiArg int

definition MAX_WINDOW :: nat where
  "MAX_WINDOW = 8"

definition PACKET_NOACK :: nat where
  "PACKET_NOACK = 250"

record Layer2 =
  l2_tei :: int
  l2_sap :: int
  l2_maxlen :: int
  l2_flag :: "l2flag \<Rightarrow> bool"
  l2_vs :: u32
  l2_va :: u32
  l2_vr :: u32
  l2_rc :: int
  l2_window :: nat
  l2_sow :: nat
  l2_windowar :: "sk_buff option list"
  l2_i_queue :: "sk_buff list"
  l2_ui_queue :: "sk_buff list"
  l2_m_state :: nat
  l2_t200 :: FsmTimer
  l2_t203 :: FsmTimer
  l2_T200 :: int
  l2_N200 :: int
  l2_T203 :: int
  l2_writewakeup :: bool
  l2_tx_cnt :: int
  l2_env :: kenv
  l2_outs :: "l2out list"

abbreviation (input) ST_L2_1 :: nat where "ST_L2_1 \<equiv> 0"
abbreviation (input) ST_L2_2 :: nat where "ST_L2_2 \<equiv> 1"
abbreviation (input) ST_L2_3 :: nat where "ST_L2_3 \<equiv> 2"
abbreviation (input) ST_L2_4 :: nat where "ST_L2_4 \<equiv> 3"
abbreviation (input) ST_L2_5 :: nat where "ST_L2_5 \<equiv> 4"
abbreviation (input) ST_L2_6 :: nat where "ST_L2_6 \<equiv> 5"
abbreviation (input) ST_L2_7 :: nat where "ST_L2_7 \<equiv> 6"
abbreviation (input) ST_L2_8 :: nat where "ST_L2_8 \<equiv> 7"
abbreviation (input) L2_STATE_COUNT :: nat where "L2_STATE_COUNT \<equiv> 8"

abbreviation (input) EV_L2_UI :: nat where "EV_L2_UI \<equiv> 0"
abbreviation (input) EV_L2_SABME :: nat where "EV_L2_SABME \<equiv> 1"
abbreviation (input) EV_L2_DISC :: nat where "EV_L2_DISC \<equiv> 2"
abbreviation (input) EV_L2_DM :: nat where "EV_L2_DM \<equiv> 3"
abbreviation (input) EV_L2_UA :: nat where "EV_L2_UA \<equiv> 4"
abbreviation (input) EV_L2_FRMR :: nat where "EV_L2_FRMR \<equiv> 5"
abbreviation (input) EV_L2_SUPER :: nat where "EV_L2_SUPER \<equiv> 6"
abbreviation (input) EV_L2_I :: nat where "EV_L2_I \<equiv> 7"
abbreviation (input) EV_L2_DL_DATA :: nat where "EV_L2_DL_DATA \<equiv> 8"
abbreviation (input) EV_L2_ACK_PULL :: nat where "EV_L2_ACK_PULL \<equiv> 9"
abbreviation (input) EV_L2_DL_UNIT_DATA :: nat where "EV_L2_DL_UNIT_DATA \<equiv> 10"
abbreviation (input) EV_L2_DL_ESTABLISH_REQ :: nat where "EV_L2_DL_ESTABLISH_REQ \<equiv> 11"
abbreviation (input) EV_L2_DL_RELEASE_REQ :: nat where "EV_L2_DL_RELEASE_REQ \<equiv> 12"
abbreviation (input) EV_L2_MDL_ASSIGN :: nat where "EV_L2_MDL_ASSIGN \<equiv> 13"
abbreviation (input) EV_L2_MDL_REMOVE :: nat where "EV_L2_MDL_REMOVE \<equiv> 14"
abbreviation (input) EV_L2_MDL_ERROR :: nat where "EV_L2_MDL_ERROR \<equiv> 15"
abbreviation (input) EV_L1_DEACTIVATE :: nat where "EV_L1_DEACTIVATE \<equiv> 16"
abbreviation (input) EV_L2_T200 :: nat where "EV_L2_T200 \<equiv> 17"
abbreviation (input) EV_L2_T203 :: nat where "EV_L2_T203 \<equiv> 18"
abbreviation (input) EV_L2_SET_OWN_BUSY :: nat where "EV_L2_SET_OWN_BUSY \<equiv> 19"
abbreviation (input) EV_L2_CLEAR_OWN_BUSY :: nat where "EV_L2_CLEAR_OWN_BUSY \<equiv> 20"
abbreviation (input) EV_L2_FRAME_ERROR :: nat where "EV_L2_FRAME_ERROR \<equiv> 21"
abbreviation (input) L2_EVENT_COUNT :: nat where "L2_EVENT_COUNT \<equiv> 22"

text \<open>The control octets of \<open>isdnl2.h\<close> (\<open>F_\<close> keeps them apart from the tests below).\<close>

abbreviation (input) F_RR :: u8 where "F_RR \<equiv> 0x01"
abbreviation (input) F_RNR :: u8 where "F_RNR \<equiv> 0x05"
abbreviation (input) F_REJ :: u8 where "F_REJ \<equiv> 0x09"
abbreviation (input) F_SABME :: u8 where "F_SABME \<equiv> 0x6f"
abbreviation (input) F_SABM :: u8 where "F_SABM \<equiv> 0x2f"
abbreviation (input) F_DM :: u8 where "F_DM \<equiv> 0x0f"
abbreviation (input) F_UI :: u8 where "F_UI \<equiv> 0x03"
abbreviation (input) F_DISC :: u8 where "F_DISC \<equiv> 0x43"
abbreviation (input) F_UA :: u8 where "F_UA \<equiv> 0x63"
abbreviation (input) F_FRMR :: u8 where "F_FRMR \<equiv> 0x87"

abbreviation (input) CMD :: bool where "CMD \<equiv> False"
abbreviation (input) RSP :: bool where "RSP \<equiv> True"

subsection \<open>Flags, outputs, timers\<close>

abbreviation test_bit :: "l2flag \<Rightarrow> Layer2 \<Rightarrow> bool" where
  "test_bit f s \<equiv> l2_flag s f"

definition set_bit2 :: "l2flag \<Rightarrow> Layer2 \<Rightarrow> Layer2" where
  "set_bit2 f s = s\<lparr>l2_flag := (l2_flag s)(f := True)\<rparr>"

definition clear_bit2 :: "l2flag \<Rightarrow> Layer2 \<Rightarrow> Layer2" where
  "clear_bit2 f s = s\<lparr>l2_flag := (l2_flag s)(f := False)\<rparr>"

definition emit :: "l2out \<Rightarrow> Layer2 \<Rightarrow> Layer2" where
  "emit out s = s\<lparr>l2_outs := l2_outs s @ [out]\<rparr>"

text \<open>The copies that are not checked for success.\<close>

definition clone_skb2 :: "Layer2 \<Rightarrow> bool \<times> Layer2" where
  "clone_skb2 s = (fst (k_clone (l2_env s)), s\<lparr>l2_env := snd (k_clone (l2_env s))\<rparr>)"

definition alloc_skb2 :: "Layer2 \<Rightarrow> bool \<times> Layer2" where
  "alloc_skb2 s = (fst (k_alloc (l2_env s)), s\<lparr>l2_env := snd (k_alloc (l2_env s))\<rparr>)"

definition FsmChangeState2 :: "nat \<Rightarrow> Layer2 \<Rightarrow> Layer2" where
  "FsmChangeState2 newstate s = s\<lparr>l2_m_state := newstate\<rparr>"

definition add_t200 :: "Layer2 \<Rightarrow> Layer2" where
  "add_t200 s = s\<lparr>l2_t200 := snd (FsmAddTimer (l2_env s) (l2_T200 s) EV_L2_T200 (l2_t200 s))\<rparr>"

definition add_t203 :: "Layer2 \<Rightarrow> Layer2" where
  "add_t203 s = s\<lparr>l2_t203 := snd (FsmAddTimer (l2_env s) (l2_T203 s) EV_L2_T203 (l2_t203 s))\<rparr>"

definition restart_t203 :: "Layer2 \<Rightarrow> Layer2" where
  "restart_t203 s = s\<lparr>l2_t203 := FsmRestartTimer (l2_env s) (l2_T203 s) EV_L2_T203 (l2_t203 s)\<rparr>"

definition del_t203 :: "Layer2 \<Rightarrow> Layer2" where
  "del_t203 s = s\<lparr>l2_t203 := FsmDelTimer (l2_t203 s)\<rparr>"

definition purge_i :: "Layer2 \<Rightarrow> Layer2" where
  "purge_i s = s\<lparr>l2_i_queue := []\<rparr>"

definition purge_ui :: "Layer2 \<Rightarrow> Layer2" where
  "purge_ui s = s\<lparr>l2_ui_queue := []\<rparr>"

definition ma_error :: "nat \<Rightarrow> Layer2 \<Rightarrow> Layer2" where
  "ma_error c s = emit (MA (MDL_ERROR, INDICATION) c) s"

definition charno :: "char \<Rightarrow> nat" where
  "charno c = of_char c"

subsection \<open>Busy conditions and the window\<close>

definition set_peer_busy :: "Layer2 \<Rightarrow> Layer2" where
  "set_peer_busy s =
     (let s = set_bit2 FLG_PEER_BUSY s
      in if l2_i_queue s \<noteq> [] \<or> l2_ui_queue s \<noteq> [] then set_bit2 FLG_L2BLOCK s else s)"

definition clear_peer_busy :: "Layer2 \<Rightarrow> Layer2" where
  "clear_peer_busy s =
     (if test_bit FLG_PEER_BUSY s then clear_bit2 FLG_L2BLOCK (clear_bit2 FLG_PEER_BUSY s)
      else s)"

definition InitWin :: "Layer2 \<Rightarrow> Layer2" where
  "InitWin s = s\<lparr>l2_windowar := replicate MAX_WINDOW None\<rparr>"

text \<open>\<open>freewin1\<close> also returns how many buffers it freed.\<close>

definition freewin1 :: "Layer2 \<Rightarrow> nat \<times> Layer2" where
  "freewin1 s = (length (filter (\<lambda>w. w \<noteq> None) (l2_windowar s)),
                 s\<lparr>l2_windowar := map (\<lambda>w. None) (l2_windowar s)\<rparr>)"

definition freewin :: "Layer2 \<Rightarrow> Layer2" where
  "freewin s = snd (freewin1 s)"

definition ReleaseWin :: "Layer2 \<Rightarrow> Layer2" where
  "ReleaseWin s = snd (freewin1 s)"

definition l2_modulus :: "Layer2 \<Rightarrow> u32" where
  "l2_modulus s = (if test_bit FLG_MOD128 s then 128 else 8)"

text \<open>\<open>(vs - va) % modulus\<close>: the number of outstanding I frames.\<close>

definition l2_dist :: "Layer2 \<Rightarrow> u32 \<Rightarrow> nat" where
  "l2_dist s nr = unat ((nr - l2_va s) mod l2_modulus s)"

definition cansend :: "Layer2 \<Rightarrow> bool" where
  "cansend s \<longleftrightarrow> l2_dist s (l2_vs s) < l2_window s \<and> \<not> test_bit FLG_PEER_BUSY s"

definition clear_exception :: "Layer2 \<Rightarrow> Layer2" where
  "clear_exception s =
     clear_peer_busy (clear_bit2 FLG_OWN_BUSY (clear_bit2 FLG_REJEXC (clear_bit2 FLG_ACK_PEND s)))"

definition l2headersize :: "Layer2 \<Rightarrow> bool \<Rightarrow> nat" where
  "l2headersize s ui =
     (if test_bit FLG_MOD128 s \<and> \<not> ui then 2 else 1) + (if test_bit FLG_LAPD s then 2 else 1)"

definition l2addrsize :: "Layer2 \<Rightarrow> nat" where
  "l2addrsize s = (if test_bit FLG_LAPD s then 2 else 1)"

definition sethdraddr :: "Layer2 \<Rightarrow> bool \<Rightarrow> u8 list" where
  "sethdraddr s rsp =
     (if test_bit FLG_LAPD s
      then [push_bit 2 (of_int (l2_sap s)) OR (if rsp then 2 else 0),
            push_bit 1 (of_int (l2_tei s)) OR 1]
      else let crbit = (if test_bit FLG_ORIG s then \<not> rsp else rsp)
           in if crbit then [1] else [3])"

definition enqueue_super :: "sk_buff \<Rightarrow> Layer2 \<Rightarrow> Layer2" where
  "enqueue_super skb s =
     (let s = (if test_bit FLG_LAPB s
               then s\<lparr>l2_tx_cnt := l2_tx_cnt s + int (skb_len skb)\<rparr> else s)
      in emit (L2L1 (PH_DATA, REQUEST) (Some skb)) s)"

subsection \<open>Frame tests\<close>

definition IsUI :: "u8 \<Rightarrow> bool" where "IsUI d \<longleftrightarrow> d AND 0xef = F_UI"
definition IsUA :: "u8 \<Rightarrow> bool" where "IsUA d \<longleftrightarrow> d AND 0xef = F_UA"
definition IsDM :: "u8 \<Rightarrow> bool" where "IsDM d \<longleftrightarrow> d AND 0xef = F_DM"
definition IsDISC :: "u8 \<Rightarrow> bool" where "IsDISC d \<longleftrightarrow> d AND 0xef = F_DISC"
definition IsFRMR :: "u8 \<Rightarrow> bool" where "IsFRMR d \<longleftrightarrow> d AND 0xef = F_FRMR"

definition IsRR :: "u8 \<Rightarrow> Layer2 \<Rightarrow> bool" where
  "IsRR d s = (if test_bit FLG_MOD128 s then d = F_RR else d AND 0xf = 1)"

definition IsSFrame :: "u8 \<Rightarrow> Layer2 \<Rightarrow> bool" where
  "IsSFrame d s =
     (let d = (if test_bit FLG_MOD128 s then d else d AND 0xf)
      in d AND 0xf3 = 1 \<and> d AND 0x0c \<noteq> 0x0c)"

definition IsSABME :: "u8 \<Rightarrow> Layer2 \<Rightarrow> bool" where
  "IsSABME d s =
     (let d = d AND NOT 0x10 in if test_bit FLG_MOD128 s then d = F_SABME else d = F_SABM)"

definition IsREJ :: "u8 \<Rightarrow> Layer2 \<Rightarrow> bool" where
  "IsREJ d s = (if test_bit FLG_MOD128 s then d = F_REJ else d AND 0xf = F_REJ)"

definition IsRNR :: "u8 \<Rightarrow> Layer2 \<Rightarrow> bool" where
  "IsRNR d s = (if test_bit FLG_MOD128 s then d = F_RNR else d AND 0xf = F_RNR)"

subsection \<open>Frame checks: 0 or the letter of the MDL error\<close>

text \<open>The command/response bit, seen from the side that did or did not originate the call.\<close>

definition rsp_bit :: "Layer2 \<Rightarrow> u8 \<Rightarrow> bool" where
  "rsp_bit s d0 = (let rsp = d0 AND 2 \<noteq> 0 in if test_bit FLG_ORIG s then \<not> rsp else rsp)"

definition iframe_error :: "Layer2 \<Rightarrow> sk_buff \<Rightarrow> nat option" where
  "iframe_error s skb = do {
     d0 \<leftarrow> rd (skb_bytes skb) 0;
     let i = l2addrsize s + (if test_bit FLG_MOD128 s then 2 else 1);
     Some (if rsp_bit s d0 then charno CHR ''L''
           else if skb_len skb < i then charno CHR ''N''
           else if l2_maxlen s < int (skb_len skb) - int i then charno CHR ''O''
           else 0)
   }"

definition super_error :: "Layer2 \<Rightarrow> sk_buff \<Rightarrow> nat option" where
  "super_error s skb =
     Some (if skb_len skb \<noteq> l2addrsize s + (if test_bit FLG_MOD128 s then 2 else 1)
           then charno CHR ''N'' else 0)"

definition unnum_error :: "Layer2 \<Rightarrow> sk_buff \<Rightarrow> bool \<Rightarrow> nat option" where
  "unnum_error s skb wantrsp = do {
     d0 \<leftarrow> rd (skb_bytes skb) 0;
     Some (if rsp_bit s d0 \<noteq> wantrsp then charno CHR ''L''
           else if skb_len skb \<noteq> l2addrsize s + 1 then charno CHR ''N''
           else 0)
   }"

definition UI_error :: "Layer2 \<Rightarrow> sk_buff \<Rightarrow> nat option" where
  "UI_error s skb = do {
     d0 \<leftarrow> rd (skb_bytes skb) 0;
     Some (if rsp_bit s d0 then charno CHR ''L''
           else if int (skb_len skb) > l2_maxlen s + int (l2addrsize s) + 1 then charno CHR ''O''
           else 0)
   }"

definition FRMR_error :: "Layer2 \<Rightarrow> sk_buff \<Rightarrow> nat option" where
  "FRMR_error s skb = do {
     d0 \<leftarrow> rd (skb_bytes skb) 0;
     let headers = l2addrsize s + 1;
     Some (if \<not> rsp_bit s d0 then charno CHR ''L''
           else if skb_len skb < headers + (if test_bit FLG_MOD128 s then 5 else 3)
           then charno CHR ''N''
           else 0)
   }"

end
