(* ===== verification/Hisax_L3_Msg.thy ===== *)
theory Hisax_L3_Msg
  imports Isdn_Prelude
begin

text \<open>
  The parsers for layer 3 messages in \<open>hisax/isdnl3.c\<close>: call references and the search for an
  information element. A message is the memory from its first octet on; a read outside it is a
  fault. The reference definition is a list of elements and its encoding.
\<close>

subsection \<open>Call references\<close>

definition getcallref :: "u8 list \<Rightarrow> int option" where
  "getcallref d = do {
     b \<leftarrow> rd d 1;
     if b AND 0xfe \<noteq> 0 then Some (-2)
     else if 0xf AND b = 0 then Some (-1)
     else do { cr \<leftarrow> rd d 2; Some (uint cr) }
   }"

definition newcallref :: "int \<Rightarrow> int" where
  "newcallref OrigCallRef = (if OrigCallRef = 127 then 1 else OrigCallRef + 1)"

text \<open>A started system hands out call references from 1 to 127, each 127 calls apart.\<close>

lemma newcallref_range: "0 \<le> r \<Longrightarrow> r \<le> 127 \<Longrightarrow> 1 \<le> newcallref r \<and> newcallref r \<le> 127"
  by (simp add: newcallref_def)

lemma newcallref_iter:
  assumes "0 \<le> r" "r \<le> 127"
  shows "(newcallref ^^ Suc n) r = (r + int n) mod 127 + 1"
proof (induction n)
  case 0
  show ?case using assms by (cases "r = 127") (auto simp: newcallref_def)
next
  case (Suc n)
  let ?k = "(r + int n) mod 127"
  have "0 \<le> ?k" "?k \<le> 126" by simp_all
  have "(r + int (Suc n)) mod 127 = (?k + 1) mod 127"
    unfolding mod_add_left_eq by (simp add: algebra_simps)
  also have "\<dots> = (if ?k = 126 then 0 else ?k + 1)"
    using \<open>0 \<le> ?k\<close> \<open>?k \<le> 126\<close> by (auto intro: mod_pos_pos_trivial)
  finally show ?case using Suc by (simp add: newcallref_def)
qed

subsection \<open>Information elements\<close>

text \<open>The two codeset variables after the shift test at an octet.\<close>

definition shift_codeset :: "u8 \<Rightarrow> u8 \<times> u8 \<Rightarrow> u8 \<times> u8" where
  "shift_codeset b cs =
     (if b AND 0xf0 = 0x90
      then (b AND 0x07, if b AND 0x08 = 0 then b AND 0x07 else snd cs) else cs)"

function findie_loop :: "u8 list \<Rightarrow> nat \<Rightarrow> u8 \<Rightarrow> u8 \<Rightarrow> nat \<Rightarrow> u8 \<times> u8 \<Rightarrow> nat option option" where
  "findie_loop d sz ie wanted_set p cs =
     (if sz \<le> p then Some None
      else do {
        b \<leftarrow> rd d p;
        let cs = shift_codeset b cs;
        if b AND 0x80 \<noteq> 0 then findie_loop d sz ie wanted_set (Suc p) cs
        else if fst cs = wanted_set \<and> b = ie then
          (if sz - p < 2 then Some None
           else do {
             l \<leftarrow> rd d (Suc p);
             if sz - (p + 2) < unat l then Some None else Some (Some p)
           })
        else if fst cs = wanted_set \<and> ie < b then Some None
        else do {
          l \<leftarrow> rd d (Suc p);
          findie_loop d sz ie wanted_set (p + 2 + unat l) (snd cs, snd cs)
        }
      })"
  by pat_completeness auto

termination by (relation "measure (\<lambda>(d, sz, ie, ws, p, cs). sz - p)") auto

declare findie_loop.simps [simp del]

text \<open>\<open>Some None\<close> is the NULL pointer, \<open>Some (Some i)\<close> a pointer to the element at offset \<open>i\<close>.\<close>

definition findie :: "u8 list \<Rightarrow> nat \<Rightarrow> u8 \<Rightarrow> u8 \<Rightarrow> nat option option" where
  "findie d sz ie wanted_set = do {
     l \<leftarrow> rd d 1;
     findie_loop d sz ie wanted_set (3 + unat (l AND 0xf)) (0, 0)
   }"

subsection \<open>Bounds\<close>

text \<open>
  The search reads at most one octet behind the message: the length of an element whose code is
  the last octet. A result lies in the message with all its contents.
\<close>

lemma findie_loop_bounds:
  assumes "Suc sz \<le> length d"
  shows "\<exists>r. findie_loop d sz ie ws p cs = Some r \<and>
    (\<forall>i. r = Some i \<longrightarrow> p \<le> i \<and> i + 2 + unat (d ! Suc i) \<le> sz \<and> d ! i = ie)"
  using assms
proof (induction d sz ie ws p cs rule: findie_loop.induct)
  case (1 d sz ie ws p cs)
  show ?case
  proof (cases "sz \<le> p")
    case True
    then show ?thesis by (subst findie_loop.simps) simp
  next
    case False
    let ?b = "d ! p" and ?l = "d ! Suc p"
    let ?cs = "shift_codeset ?b cs"
    have rd: "rd d p = Some ?b" "rd d (Suc p) = Some ?l" using 1(3) False by simp_all
    consider "?b AND 0x80 \<noteq> 0" | "?b AND 0x80 = 0" "fst ?cs = ws \<and> ?b = ie"
      | "?b AND 0x80 = 0" "\<not> (fst ?cs = ws \<and> ?b = ie)" "fst ?cs = ws \<and> ie < ?b"
      | "?b AND 0x80 = 0" "\<not> (fst ?cs = ws \<and> ?b = ie)" "\<not> (fst ?cs = ws \<and> ie < ?b)" by blast
    then show ?thesis
    proof cases
      case 1
      then have eq: "findie_loop d sz ie ws p cs = findie_loop d sz ie ws (Suc p) ?cs"
        using False rd by (subst findie_loop.simps) (simp add: Let_def)
      have "\<exists>r. findie_loop d sz ie ws (Suc p) ?cs = Some r \<and>
          (\<forall>i. r = Some i \<longrightarrow> Suc p \<le> i \<and> i + 2 + unat (d ! Suc i) \<le> sz \<and> d ! i = ie)"
        using "1.IH"(1) [OF False rd(1) refl 1 "1.prems"] .
      then show ?thesis unfolding eq by auto
    next
      case 2
      then show ?thesis using False rd by (subst findie_loop.simps) (auto simp: Let_def)
    next
      case 3
      then show ?thesis using False rd by (subst findie_loop.simps) (simp add: Let_def)
    next
      case 4
      then have eq: "findie_loop d sz ie ws p cs =
          findie_loop d sz ie ws (p + 2 + unat ?l) (snd ?cs, snd ?cs)"
        using False rd by (subst findie_loop.simps) (simp only: Let_def if_False bind.bind_lunit 4, simp)
      have "\<exists>r. findie_loop d sz ie ws (p + 2 + unat ?l) (snd ?cs, snd ?cs) = Some r \<and>
          (\<forall>i. r = Some i \<longrightarrow> p + 2 + unat ?l \<le> i \<and> i + 2 + unat (d ! Suc i) \<le> sz \<and> d ! i = ie)"
        using "1.IH"(2) [OF False rd(1) refl _ 4(2,3) rd(2) "1.prems"] 4(1) by simp
      then show ?thesis unfolding eq by auto
    qed
  qed
qed

lemma findie_bounds:
  assumes "Suc sz \<le> length d" "1 < length d"
  shows "\<exists>r. findie d sz ie ws = Some r \<and>
    (\<forall>i. r = Some i \<longrightarrow> i + 2 + unat (d ! Suc i) \<le> sz \<and> d ! i = ie)"
proof -
  have "rd d 1 = Some (d ! 1)" using assms(2) by simp
  then show ?thesis
    using findie_loop_bounds [OF assms(1), of ie ws "3 + unat (d ! 1 AND 0xf)" "(0, 0)"]
    by (auto simp: findie_def)
qed

text \<open>The octet behind the message is read: a message that ends with the code of an element.\<close>

lemma findie_overread: "findie [0x08, 0x01, 0x81, 0x05, 0x04] 5 0x08 0 = None"
  by code_simp

subsection \<open>Messages as lists of elements\<close>

text \<open>Single-octet elements have bit 8 set and are no shift; the others carry a length.\<close>

datatype element = Single u8 | Element u8 "u8 list"

primrec ie_ok :: "element \<Rightarrow> bool" where
  "ie_ok (Single b) \<longleftrightarrow> b AND 0x80 \<noteq> 0 \<and> b AND 0xf0 \<noteq> 0x90"
| "ie_ok (Element c bs) \<longleftrightarrow> c AND 0x80 = 0 \<and> length bs < 256"

primrec ie_enc :: "element \<Rightarrow> u8 list" where
  "ie_enc (Single b) = [b]"
| "ie_enc (Element c bs) = c # of_nat (length bs) # bs"

text \<open>What \<open>findie\<close> is meant to find: elements come in the order of their codes.\<close>

fun ie_find :: "u8 \<Rightarrow> nat \<Rightarrow> element list \<Rightarrow> nat option" where
  "ie_find ie p [] = None"
| "ie_find ie p (Single b # es) = ie_find ie (Suc p) es"
| "ie_find ie p (Element c bs # es) =
     (if c = ie then Some p else if ie < c then None else ie_find ie (p + 2 + length bs) es)"

lemma unat_of_nat_u8: "n < 256 \<Longrightarrow> unat (of_nat n :: u8) = n"
  by (simp add: unat_of_nat take_bit_eq_mod)

lemma no_shift: "c AND 0x80 = 0 \<Longrightarrow> c AND 0xf0 \<noteq> (0x90 :: u8)"
proof
  assume a: "c AND 0x80 = 0" and b: "c AND 0xf0 = (0x90 :: u8)"
  have "bit (c AND 0xf0) 7" unfolding b by simp
  then have "bit (c AND 0x80) 7" by (simp add: bit_and_iff)
  then show False using a by simp
qed

lemma findie_loop_finds:
  assumes "list_all ie_ok es" "d = pre @ concat (map ie_enc es)" "p = length pre"
  shows "findie_loop (d @ rest) (length d) ie 0 p (0, 0) = Some (ie_find ie p es)"
  using assms
proof (induction es arbitrary: pre p)
  case Nil
  then show ?case by (subst findie_loop.simps) simp
next
  case (Cons e es)
  show ?case
  proof (cases e)
    case (Single b)
    then have ok: "b AND 0x80 \<noteq> 0" "b AND 0xf0 \<noteq> 0x90" using Cons.prems(1) by simp_all
    have d: "d = pre @ b # concat (map ie_enc es)" using Cons.prems(2) Single by simp
    then have "rd (d @ rest) p = Some b" "\<not> length d \<le> p" using Cons.prems(3) by (simp_all add: nth_append)
    then have "findie_loop (d @ rest) (length d) ie 0 p (0, 0) =
        findie_loop (d @ rest) (length d) ie 0 (Suc p) (0, 0)"
      using ok by (subst findie_loop.simps) (simp add: shift_codeset_def)
    also have "\<dots> = Some (ie_find ie (Suc p) es)"
      by (rule Cons.IH [of "pre @ [b]"]) (use Cons.prems d Single in simp_all)
    finally show ?thesis using Single by simp
  next
    case (Element c bs)
    then have ok: "c AND 0x80 = 0" "length bs < 256" using Cons.prems(1) by simp_all
    have d: "d = pre @ c # of_nat (length bs) # bs @ concat (map ie_enc es)"
      using Cons.prems(2) Element by simp
    have rd: "rd (d @ rest) p = Some c" "rd (d @ rest) (Suc p) = Some (of_nat (length bs))"
      and len: "\<not> length d \<le> p" "\<not> length d - p < 2" "\<not> length d - (p + 2) < length bs"
      using Cons.prems(3) d by (simp_all add: nth_append rd_def)
    have unat: "unat (of_nat (length bs) :: u8) = length bs" using ok(2) by (rule unat_of_nat_u8)
    have "findie_loop (d @ rest) (length d) ie 0 p (0, 0) =
        (if c = ie then Some (Some p) else if ie < c then Some None
         else findie_loop (d @ rest) (length d) ie 0 (p + 2 + length bs) (0, 0))"
      using ok(1) rd len unat no_shift [OF ok(1)]
      by (subst findie_loop.simps) (simp add: shift_codeset_def Let_def)
    moreover have "findie_loop (d @ rest) (length d) ie 0 (p + 2 + length bs) (0, 0) =
        Some (ie_find ie (p + 2 + length bs) es)"
      by (rule Cons.IH [of "pre @ c # of_nat (length bs) # bs"]) (use Cons.prems d Element in simp_all)
    ultimately show ?thesis using Element by simp
  qed
qed

text \<open>A message: discriminator, call reference, type, elements.\<close>

definition l3_message :: "u8 \<Rightarrow> u8 list \<Rightarrow> u8 \<Rightarrow> element list \<Rightarrow> u8 list" where
  "l3_message pd cref mt es = [pd, of_nat (length cref)] @ cref @ [mt] @ concat (map ie_enc es)"

lemma findie_finds:
  assumes "list_all ie_ok es" "length cref < 16"
  shows "findie (l3_message pd cref mt es @ rest) (length (l3_message pd cref mt es)) ie 0 =
    Some (ie_find ie (3 + length cref) es)"
proof -
  let ?d = "l3_message pd cref mt es"
  have l: "unat ((of_nat (length cref) :: u8) AND 0xf) = length cref"
  proof -
    have "(of_nat (length cref) :: u8) AND 0xf = take_bit 4 (of_nat (length cref))"
      by (simp add: take_bit_eq_mask mask_numeral)
    also have "\<dots> = of_nat (take_bit 4 (length cref))" by (simp add: take_bit_of_nat)
    also have "take_bit 4 (length cref) = length cref"
      using assms(2) by (simp add: take_bit_nat_eq_self)
    finally show ?thesis using assms(2) by (simp add: unat_of_nat_u8)
  qed
  have "findie (?d @ rest) (length ?d) ie 0 =
      findie_loop (?d @ rest) (length ?d) ie 0 (3 + length cref) (0, 0)"
    using l by (simp add: findie_def l3_message_def rd_def nth_append)
  also have "\<dots> = Some (ie_find ie (3 + length cref) es)"
    by (rule findie_loop_finds [of _ _ "[pd, of_nat (length cref)] @ cref @ [mt]"])
      (use assms(1) in \<open>simp_all add: l3_message_def\<close>)
  finally show ?thesis .
qed

text \<open>In a list in the order of its codes the first element of a code is found wherever it is.\<close>

fun ie_codes :: "element list \<Rightarrow> u8 list" where
  "ie_codes [] = []"
| "ie_codes (Single b # es) = ie_codes es"
| "ie_codes (Element c bs # es) = c # ie_codes es"

lemma ie_find_sorted:
  "sorted (ie_codes es) \<Longrightarrow> ie_find ie p es \<noteq> None \<longleftrightarrow> ie \<in> set (ie_codes es)"
  by (induction ie p es rule: ie_find.induct) (auto simp: not_less)

end
