(* ===== verification/Hisax_L3.thy ===== *)
theory Hisax_L3
  imports Hisax_Fsm Hisax_L2 Hisax_L3_Msg
begin

text \<open>
  The data link control of layer 3, \<open>hisax/isdnl3.c\<close>: it brings layer 2 up when a call needs it,
  keeps messages back until it is up, and takes it down when the last call is gone. The calls of a
  stack are a list of processes; a process is named by its address. Calls to layer 2 (\<open>l3l2\<close>) and
  to the protocol (\<open>l3ml3\<close>) are operations on the same state.
\<close>

subsection \<open>State\<close>

text \<open>The primitives between layer 3 and the call control (\<open>hisax.h\<close>), and the timers of a process.\<close>

datatype cc_name =
  CC_SETUP | CC_RESUME | CC_MORE_INFO | CC_IGNORE | CC_REJECT | CC_SETUP_COMPL | CC_PROCEEDING
| CC_ALERTING | CC_PROGRESS | CC_CONNECT | CC_CHARGE | CC_NOTIFY | CC_DISCONNECT | CC_RELEASE
| CC_SUSPEND | CC_PROCEED_SEND | CC_REDIR | CC_T302 | CC_T303 | CC_T304 | CC_T305 | CC_T308_1
| CC_T308_2 | CC_T309 | CC_T310 | CC_T313 | CC_T318 | CC_T319 | CC_TSPID | CC_NOSETUP_RSP
| CC_SETUP_ERR | CC_SUSPEND_ERR | CC_RESUME_ERR | CC_CONNECT_ERR | CC_RELEASE_ERR | CC_RESTART
| CC_TDSS1_IO | CC_TNI1_IO

type_synonym cc_prim = "cc_name \<times> pr_kind"

record L3Timer =
  lt_pending :: bool
  lt_expires :: u32
  lt_event :: cc_prim

text \<open>Numbers are C strings in arrays of 32 octets; a process names its channel by an index.\<close>

record setup_parm =
  su_phone :: "u8 list"
  su_eazmsn :: "u8 list"
  su_si1 :: u8
  su_si2 :: u8
  su_plan :: u8
  su_screen :: u8

record l3_process =
  p_addr :: nat
  p_callref :: int
  p_state :: nat
  p_timer :: L3Timer
  p_N303 :: int
  p_cause :: u8
  p_loc :: u8
  p_diag :: "u8 list"
  p_bchannel :: int
  p_chargeinfo :: int
  p_setup :: setup_parm
  p_moderate :: u8
  p_chan :: "nat option"
  p_redir_result :: u32
  p_invoke_id :: u8
  p_ll_id :: u32
  p_remote_operation :: u8
  p_proc :: int
  p_remote_result :: u32
  p_uus1_data :: "u8 list"

record Layer3 =
  l3_m_state :: nat
  l3_m_timer :: FsmTimer
  l3_squeue :: "sk_buff list"
  l3_proc :: "l3_process list"
  l3_global :: "l3_process option"
  l3_N303 :: int
  l3_protocol :: nat
  l3_next_addr :: nat
  l3_fresh :: "nat \<Rightarrow> l3_process"
  l3_kenv :: kenv

record 's l3_ops =
  op_l3l2 :: "prim \<Rightarrow> sk_buff option \<Rightarrow> 's \<Rightarrow> 's option"
  op_l3ml3 :: "prim \<Rightarrow> nat \<Rightarrow> 's \<Rightarrow> 's option"
  op_l2flag :: "l2flag \<Rightarrow> 's \<Rightarrow> bool"

abbreviation (input) ISDN_PTYPE_NI1 :: nat where "ISDN_PTYPE_NI1 \<equiv> 4"

abbreviation (input) ST_L3_LC_REL :: nat where "ST_L3_LC_REL \<equiv> 0"
abbreviation (input) ST_L3_LC_ESTAB_WAIT :: nat where "ST_L3_LC_ESTAB_WAIT \<equiv> 1"
abbreviation (input) ST_L3_LC_REL_DELAY :: nat where "ST_L3_LC_REL_DELAY \<equiv> 2"
abbreviation (input) ST_L3_LC_REL_WAIT :: nat where "ST_L3_LC_REL_WAIT \<equiv> 3"
abbreviation (input) ST_L3_LC_ESTAB :: nat where "ST_L3_LC_ESTAB \<equiv> 4"
abbreviation (input) L3_STATE_COUNT :: nat where "L3_STATE_COUNT \<equiv> 5"

abbreviation (input) EV_ESTABLISH_REQ :: nat where "EV_ESTABLISH_REQ \<equiv> 0"
abbreviation (input) EV_ESTABLISH_IND :: nat where "EV_ESTABLISH_IND \<equiv> 1"
abbreviation (input) EV_ESTABLISH_CNF :: nat where "EV_ESTABLISH_CNF \<equiv> 2"
abbreviation (input) EV_RELEASE_REQ :: nat where "EV_RELEASE_REQ \<equiv> 3"
abbreviation (input) EV_RELEASE_CNF :: nat where "EV_RELEASE_CNF \<equiv> 4"
abbreviation (input) EV_RELEASE_IND :: nat where "EV_RELEASE_IND \<equiv> 5"
abbreviation (input) EV_TIMEOUT :: nat where "EV_TIMEOUT \<equiv> 6"
abbreviation (input) L3_EVENT_COUNT :: nat where "L3_EVENT_COUNT \<equiv> 7"

definition DREL_TIMER_VALUE :: int where "DREL_TIMER_VALUE = 40000"
definition MAX_HEADER_LEN :: nat where "MAX_HEADER_LEN = 4"

definition l3_change :: "nat \<Rightarrow> 'z Layer3_scheme \<Rightarrow> 'z Layer3_scheme" where
  "l3_change n c = c\<lparr>l3_m_state := n\<rparr>"

definition l3_add_timer :: "'z Layer3_scheme \<Rightarrow> 'z Layer3_scheme" where
  "l3_add_timer c =
     c\<lparr>l3_m_timer := snd (FsmAddTimer (l3_kenv c) DREL_TIMER_VALUE EV_TIMEOUT (l3_m_timer c))\<rparr>"

definition l3_del_timer :: "'z Layer3_scheme \<Rightarrow> 'z Layer3_scheme" where
  "l3_del_timer c = c\<lparr>l3_m_timer := FsmDelTimer (l3_m_timer c)\<rparr>"

subsection \<open>Buffers and process timers\<close>

text \<open>A buffer for a message has room for the header of layer 2.\<close>

definition l3_alloc_skb :: "u8 list \<Rightarrow> kenv \<Rightarrow> sk_buff option \<times> kenv" where
  "l3_alloc_skb d k =
     (case k_alloc k of (ok, k) \<Rightarrow> (if ok then Some (skb_new MAX_HEADER_LEN d) else None, k))"

definition newl3state :: "nat \<Rightarrow> l3_process \<Rightarrow> l3_process" where
  "newl3state n p = p\<lparr>p_state := n\<rparr>"

definition L3InitTimer :: "l3_process \<Rightarrow> l3_process" where
  "L3InitTimer p = p\<lparr>p_timer := (p_timer p)\<lparr>lt_pending := False\<rparr>\<rparr>"

definition L3DelTimer :: "l3_process \<Rightarrow> l3_process" where
  "L3DelTimer p = p\<lparr>p_timer := (p_timer p)\<lparr>lt_pending := False\<rparr>\<rparr>"

definition L3AddTimer :: "kenv \<Rightarrow> int \<Rightarrow> cc_prim \<Rightarrow> l3_process \<Rightarrow> int \<times> l3_process" where
  "L3AddTimer k millisec event p =
     (if lt_pending (p_timer p) then (-1, p)
      else (0, p\<lparr>p_timer := \<lparr>lt_pending = True, lt_expires = timer_expires k millisec,
                             lt_event = event\<rparr>\<rparr>))"

definition StopAllL3Timer :: "l3_process \<Rightarrow> l3_process" where
  "StopAllL3Timer p = L3DelTimer p"

subsection \<open>Processes\<close>

fun find_proc :: "int \<Rightarrow> l3_process list \<Rightarrow> l3_process option" where
  "find_proc cr [] = None"
| "find_proc cr (p # ps) = (if p_callref p = cr then Some p else find_proc cr ps)"

definition getl3proc :: "'z Layer3_scheme \<Rightarrow> int \<Rightarrow> l3_process option" where
  "getl3proc c cr = find_proc cr (l3_proc c)"

text \<open>
  A new process goes to the end of the list. \<open>kmalloc\<close> returns an address no live process has; its
  memory is not cleared, so the fields that are not set keep what was there (\<open>l3_fresh\<close>).
\<close>

definition new_l3_process :: "int \<Rightarrow> 'z Layer3_scheme \<Rightarrow> nat option \<times> 'z Layer3_scheme" where
  "new_l3_process cr c =
     (case k_alloc (l3_kenv c) of (ok, k) \<Rightarrow>
        if \<not> ok then (None, c\<lparr>l3_kenv := k\<rparr>)
        else (let a = l3_next_addr c;
                  p = L3InitTimer ((l3_fresh c a)\<lparr>p_addr := a, p_callref := cr, p_state := 0,
                                                 p_chan := None, p_N303 := l3_N303 c\<rparr>)
              in (Some a, c\<lparr>l3_kenv := k, l3_next_addr := Suc a, l3_proc := l3_proc c @ [p]\<rparr>)))"

text \<open>The address of the process behind one in the list, if that one is there.\<close>

fun next_proc :: "nat \<Rightarrow> l3_process list \<Rightarrow> nat option option" where
  "next_proc a [] = None"
| "next_proc a (p # ps) =
     (if p_addr p = a then Some (case ps of [] \<Rightarrow> None | q # qs \<Rightarrow> Some (p_addr q))
      else next_proc a ps)"

text \<open>
  \<open>l3ml3p\<close> calls the protocol for every process. It remembers the address of the next process
  before each call, because the call may free the process; if that next one is gone when its turn
  comes, the loop reads freed memory.
\<close>

partial_function (option) l3ml3p_loop ::
  "'z Layer3_scheme l3_ops \<Rightarrow> prim \<Rightarrow> nat option \<Rightarrow> 'z Layer3_scheme \<Rightarrow> 'z Layer3_scheme option" where
  "l3ml3p_loop up pr p c =
     (case p of
        None \<Rightarrow> Some c
      | Some a \<Rightarrow> do {
          np \<leftarrow> next_proc a (l3_proc c);
          c \<leftarrow> op_l3ml3 up pr a c;
          l3ml3p_loop up pr np c
        })"

declare l3ml3p_loop.simps [code]

definition l3ml3p ::
  "'z Layer3_scheme l3_ops \<Rightarrow> prim \<Rightarrow> 'z Layer3_scheme \<Rightarrow> 'z Layer3_scheme option" where
  "l3ml3p up pr c =
     l3ml3p_loop up pr (case l3_proc c of [] \<Rightarrow> None | p # ps \<Rightarrow> Some (p_addr p)) c"

subsection \<open>Handlers\<close>

text \<open>The loop that sends what was kept back; it tells whether it sent anything.\<close>

partial_function (option) flush_squeue ::
  "'z Layer3_scheme l3_ops \<Rightarrow> bool \<Rightarrow> 'z Layer3_scheme \<Rightarrow> (bool \<times> 'z Layer3_scheme) option" where
  "flush_squeue up dequeued c =
     (case l3_squeue c of
        [] \<Rightarrow> Some (dequeued, c)
      | skb # q \<Rightarrow> do {
          c \<leftarrow> op_l3l2 up (DL_DATA, REQUEST) (Some skb) (c\<lparr>l3_squeue := q\<rparr>);
          flush_squeue up True c
        })"

declare flush_squeue.simps [code]

type_synonym 'z l3_handler = "unit \<Rightarrow> 'z Layer3_scheme \<Rightarrow> 'z Layer3_scheme option"

definition lc_activate :: "'z Layer3_scheme l3_ops \<Rightarrow> 'z l3_handler" where
  "lc_activate up arg c = op_l3l2 up (DL_ESTABLISH, REQUEST) None (l3_change ST_L3_LC_ESTAB_WAIT c)"

definition lc_connect ::
  "'z Layer3_scheme l3_ops \<Rightarrow> (nat \<Rightarrow> 'z Layer3_scheme \<Rightarrow> 'z Layer3_scheme option) \<Rightarrow> 'z l3_handler" where
  "lc_connect up event arg c = do {
     (dequeued, c) \<leftarrow> flush_squeue up False (l3_change ST_L3_LC_ESTAB c);
     if l3_proc c = [] \<and> dequeued then event EV_RELEASE_REQ c
     else l3ml3p up (DL_ESTABLISH, INDICATION) c
   }"

definition lc_connected ::
  "'z Layer3_scheme l3_ops \<Rightarrow> (nat \<Rightarrow> 'z Layer3_scheme \<Rightarrow> 'z Layer3_scheme option) \<Rightarrow> 'z l3_handler" where
  "lc_connected up event arg c = do {
     (dequeued, c) \<leftarrow> flush_squeue up False (l3_change ST_L3_LC_ESTAB (l3_del_timer c));
     if l3_proc c = [] \<and> dequeued then event EV_RELEASE_REQ c
     else l3ml3p up (DL_ESTABLISH, CONFIRM) c
   }"

definition lc_start_delay :: "'z l3_handler" where
  "lc_start_delay arg c = Some (l3_add_timer (l3_change ST_L3_LC_REL_DELAY c))"

definition lc_start_delay_check :: "'z l3_handler" where
  "lc_start_delay_check arg c =
     (let c = l3_change ST_L3_LC_REL_DELAY c in
      Some (if l3_protocol c \<noteq> ISDN_PTYPE_NI1 then l3_add_timer c else c))"

definition lc_release_req :: "'z Layer3_scheme l3_ops \<Rightarrow> 'z l3_handler" where
  "lc_release_req up arg c =
     (if op_l2flag up FLG_L2BLOCK c then Some (l3_add_timer c)
      else op_l3l2 up (DL_RELEASE, REQUEST) None (l3_change ST_L3_LC_REL_WAIT c))"

definition lc_release_ind :: "'z Layer3_scheme l3_ops \<Rightarrow> 'z l3_handler" where
  "lc_release_ind up arg c =
     l3ml3p up (DL_RELEASE, INDICATION) ((l3_change ST_L3_LC_REL (l3_del_timer c))\<lparr>l3_squeue := []\<rparr>)"

definition lc_release_cnf :: "'z Layer3_scheme l3_ops \<Rightarrow> 'z l3_handler" where
  "lc_release_cnf up arg c =
     l3ml3p up (DL_RELEASE, CONFIRM) ((l3_change ST_L3_LC_REL c)\<lparr>l3_squeue := []\<rparr>)"

definition L3FnList ::
  "'z Layer3_scheme l3_ops \<Rightarrow> (nat \<Rightarrow> 'z Layer3_scheme \<Rightarrow> 'z Layer3_scheme option) \<Rightarrow>
   'z l3_handler FsmNode list" where
  "L3FnList up event =
    [FsmNode ST_L3_LC_REL EV_ESTABLISH_REQ (lc_activate up),
     FsmNode ST_L3_LC_REL EV_ESTABLISH_IND (lc_connect up event),
     FsmNode ST_L3_LC_REL EV_ESTABLISH_CNF (lc_connect up event),
     FsmNode ST_L3_LC_ESTAB_WAIT EV_ESTABLISH_CNF (lc_connected up event),
     FsmNode ST_L3_LC_ESTAB_WAIT EV_RELEASE_REQ lc_start_delay,
     FsmNode ST_L3_LC_ESTAB_WAIT EV_RELEASE_IND (lc_release_ind up),
     FsmNode ST_L3_LC_ESTAB EV_RELEASE_IND (lc_release_ind up),
     FsmNode ST_L3_LC_ESTAB EV_RELEASE_REQ lc_start_delay_check,
     FsmNode ST_L3_LC_REL_DELAY EV_RELEASE_IND (lc_release_ind up),
     FsmNode ST_L3_LC_REL_DELAY EV_ESTABLISH_REQ (lc_connected up event),
     FsmNode ST_L3_LC_REL_DELAY EV_TIMEOUT (lc_release_req up),
     FsmNode ST_L3_LC_REL_WAIT EV_RELEASE_CNF (lc_release_cnf up),
     FsmNode ST_L3_LC_REL_WAIT EV_ESTABLISH_REQ (lc_activate up)]"

text \<open>A handler can raise one more event, which no handler nests further.\<close>

primrec l3_event ::
  "nat \<Rightarrow> 'z Layer3_scheme l3_ops \<Rightarrow> nat \<Rightarrow> 'z Layer3_scheme \<Rightarrow> 'z Layer3_scheme option" where
  "l3_event 0 up ev c = None"
| "l3_event (Suc depth) up ev c =
     map_option snd (FsmEvent (fsm_of L3_STATE_COUNT L3_EVENT_COUNT (L3FnList up (l3_event depth up)))
                       l3_m_state ev () c)"

abbreviation l3_fsm_event ::
  "'z Layer3_scheme l3_ops \<Rightarrow> nat \<Rightarrow> 'z Layer3_scheme \<Rightarrow> 'z Layer3_scheme option" where
  "l3_fsm_event \<equiv> l3_event 2"

definition l3_expire ::
  "'z Layer3_scheme l3_ops \<Rightarrow> 'z Layer3_scheme \<Rightarrow> 'z Layer3_scheme option" where
  "l3_expire up c =
     (if tl_pending (l3_m_timer c) then l3_fsm_event up (tm_event (l3_m_timer c)) (l3_del_timer c)
      else Some c)"

subsection \<open>Releasing processes\<close>

definition remove_proc :: "nat \<Rightarrow> l3_process list \<Rightarrow> l3_process list" where
  "remove_proc a ps = filter (\<lambda>p. p_addr p \<noteq> a) ps"

text \<open>
  The process is taken out of the list. If it was the only one and layer 2 is not point to point,
  the link is released, unless messages wait for it.
\<close>

definition release_l3_process ::
  "'z Layer3_scheme l3_ops \<Rightarrow> nat \<Rightarrow> 'z Layer3_scheme \<Rightarrow> 'z Layer3_scheme option" where
  "release_l3_process up a c =
     (if a \<notin> p_addr ` set (l3_proc c) then Some c
      else (let head = (p_addr (hd (l3_proc c)) = a);
                c = c\<lparr>l3_proc := remove_proc a (l3_proc c)\<rparr>
            in if head \<and> l3_proc c = [] \<and> \<not> op_l2flag up FLG_PTP c \<and> l3_squeue c = []
               then l3_fsm_event up
                      (if l3_protocol c \<noteq> ISDN_PTYPE_NI1 then EV_RELEASE_REQ else EV_RELEASE_IND) c
               else Some c))"

subsection \<open>Entry points\<close>

definition l3_msg ::
  "'z Layer3_scheme l3_ops \<Rightarrow> prim \<Rightarrow> sk_buff option \<Rightarrow> 'z Layer3_scheme \<Rightarrow> 'z Layer3_scheme option" where
  "l3_msg up pr arg c =
     (if pr = (DL_DATA, REQUEST) then
        (case arg of
           None \<Rightarrow> None
         | Some skb \<Rightarrow>
             if l3_m_state c = ST_L3_LC_ESTAB then op_l3l2 up pr (Some skb) c
             else l3_fsm_event up EV_ESTABLISH_REQ (c\<lparr>l3_squeue := l3_squeue c @ [skb]\<rparr>))
      else if pr = (DL_ESTABLISH, REQUEST) then l3_fsm_event up EV_ESTABLISH_REQ c
      else if pr = (DL_ESTABLISH, CONFIRM) then l3_fsm_event up EV_ESTABLISH_CNF c
      else if pr = (DL_ESTABLISH, INDICATION) then l3_fsm_event up EV_ESTABLISH_IND c
      else if pr = (DL_RELEASE, INDICATION) then l3_fsm_event up EV_RELEASE_IND c
      else if pr = (DL_RELEASE, CONFIRM) then l3_fsm_event up EV_RELEASE_CNF c
      else if pr = (DL_RELEASE, REQUEST) then l3_fsm_event up EV_RELEASE_REQ c
      else Some c)"

definition isdnl3_trans ::
  "'z Layer3_scheme l3_ops \<Rightarrow> prim \<Rightarrow> sk_buff option \<Rightarrow> 'z Layer3_scheme \<Rightarrow> 'z Layer3_scheme option" where
  "isdnl3_trans up pr arg c = op_l3l2 up pr arg c"

subsection \<open>Setup and release\<close>

text \<open>The part of \<open>setstack_l3dc\<close> and \<open>setstack_l3bc\<close> before a protocol takes the stack over.\<close>

definition setstack_l3bc :: "'z Layer3_scheme \<Rightarrow> 'z Layer3_scheme" where
  "setstack_l3bc c =
     c\<lparr>l3_proc := [], l3_global := None, l3_squeue := [], l3_m_state := ST_L3_LC_REL\<rparr>"

definition setstack_l3dc :: "'z Layer3_scheme \<Rightarrow> 'z Layer3_scheme" where
  "setstack_l3dc c =
     c\<lparr>l3_proc := [], l3_global := None, l3_squeue := [], l3_m_state := ST_L3_LC_REL,
       l3_m_timer := FsmInitTimer (l3_m_timer c)\<rparr>"

partial_function (option) release_all ::
  "'z Layer3_scheme l3_ops \<Rightarrow> 'z Layer3_scheme \<Rightarrow> 'z Layer3_scheme option" where
  "release_all up c =
     (case l3_proc c of
        [] \<Rightarrow> Some c
      | p # ps \<Rightarrow> do { c \<leftarrow> release_l3_process up (p_addr p) c; release_all up c })"

declare release_all.simps [code]

definition releasestack_isdnl3 ::
  "'z Layer3_scheme l3_ops \<Rightarrow> 'z Layer3_scheme \<Rightarrow> 'z Layer3_scheme option" where
  "releasestack_isdnl3 up c = do {
     c \<leftarrow> release_all up c;
     Some ((l3_del_timer (c\<lparr>l3_global := None\<rparr>))\<lparr>l3_squeue := []\<rparr>)
   }"

definition Isdnl3New ::
  "bool \<Rightarrow> 'z Layer3_scheme l3_ops \<Rightarrow> int + 'z l3_handler Fsm" where
  "Isdnl3New kmalloc_ok up =
     FsmNew kmalloc_ok L3_STATE_COUNT L3_EVENT_COUNT (L3FnList up (l3_event 1 up))"

end
