(* ===== verification/Hisax_Dss1_Ie.thy ===== *)
theory Hisax_Dss1_Ie
  imports Hisax_L3_Msg
begin

text \<open>
  The octet level of the EURO/DSS1 protocol, \<open>hisax/l3dss1.c\<close>: message types and information
  elements, the tables of the elements a message may carry and the check against them, the
  elements a handler reads, and the coding of the service indicators. A received message is the
  memory from its first octet on, together with its length; a read outside that memory is a fault.
\<close>

subsection \<open>Codes (\<open>l3dss1.h\<close>)\<close>

abbreviation (input) MT_ALERTING :: u8 where "MT_ALERTING \<equiv> 0x01"
abbreviation (input) MT_CALL_PROCEEDING :: u8 where "MT_CALL_PROCEEDING \<equiv> 0x02"
abbreviation (input) MT_CONNECT :: u8 where "MT_CONNECT \<equiv> 0x07"
abbreviation (input) MT_CONNECT_ACKNOWLEDGE :: u8 where "MT_CONNECT_ACKNOWLEDGE \<equiv> 0x0f"
abbreviation (input) MT_PROGRESS :: u8 where "MT_PROGRESS \<equiv> 0x03"
abbreviation (input) MT_SETUP :: u8 where "MT_SETUP \<equiv> 0x05"
abbreviation (input) MT_SETUP_ACKNOWLEDGE :: u8 where "MT_SETUP_ACKNOWLEDGE \<equiv> 0x0d"
abbreviation (input) MT_RESUME :: u8 where "MT_RESUME \<equiv> 0x26"
abbreviation (input) MT_RESUME_ACKNOWLEDGE :: u8 where "MT_RESUME_ACKNOWLEDGE \<equiv> 0x2e"
abbreviation (input) MT_RESUME_REJECT :: u8 where "MT_RESUME_REJECT \<equiv> 0x22"
abbreviation (input) MT_SUSPEND :: u8 where "MT_SUSPEND \<equiv> 0x25"
abbreviation (input) MT_SUSPEND_ACKNOWLEDGE :: u8 where "MT_SUSPEND_ACKNOWLEDGE \<equiv> 0x2d"
abbreviation (input) MT_SUSPEND_REJECT :: u8 where "MT_SUSPEND_REJECT \<equiv> 0x21"
abbreviation (input) MT_USER_INFORMATION :: u8 where "MT_USER_INFORMATION \<equiv> 0x20"
abbreviation (input) MT_DISCONNECT :: u8 where "MT_DISCONNECT \<equiv> 0x45"
abbreviation (input) MT_RELEASE :: u8 where "MT_RELEASE \<equiv> 0x4d"
abbreviation (input) MT_RELEASE_COMPLETE :: u8 where "MT_RELEASE_COMPLETE \<equiv> 0x5a"
abbreviation (input) MT_RESTART :: u8 where "MT_RESTART \<equiv> 0x46"
abbreviation (input) MT_RESTART_ACKNOWLEDGE :: u8 where "MT_RESTART_ACKNOWLEDGE \<equiv> 0x4e"
abbreviation (input) MT_CONGESTION_CONTROL :: u8 where "MT_CONGESTION_CONTROL \<equiv> 0x79"
abbreviation (input) MT_INFORMATION :: u8 where "MT_INFORMATION \<equiv> 0x7b"
abbreviation (input) MT_FACILITY :: u8 where "MT_FACILITY \<equiv> 0x62"
abbreviation (input) MT_NOTIFY :: u8 where "MT_NOTIFY \<equiv> 0x6e"
abbreviation (input) MT_STATUS :: u8 where "MT_STATUS \<equiv> 0x7d"
abbreviation (input) MT_STATUS_ENQUIRY :: u8 where "MT_STATUS_ENQUIRY \<equiv> 0x75"

abbreviation (input) IE_SEGMENT :: nat where "IE_SEGMENT \<equiv> 0x00"
abbreviation (input) IE_BEARER :: "'a::numeral" where "IE_BEARER \<equiv> 0x04"
abbreviation (input) IE_CAUSE :: "'a::numeral" where "IE_CAUSE \<equiv> 0x08"
abbreviation (input) IE_CALL_ID :: "'a::numeral" where "IE_CALL_ID \<equiv> 0x10"
abbreviation (input) IE_CALL_STATE :: "'a::numeral" where "IE_CALL_STATE \<equiv> 0x14"
abbreviation (input) IE_CHANNEL_ID :: "'a::numeral" where "IE_CHANNEL_ID \<equiv> 0x18"
abbreviation (input) IE_FACILITY :: "'a::numeral" where "IE_FACILITY \<equiv> 0x1c"
abbreviation (input) IE_PROGRESS :: "'a::numeral" where "IE_PROGRESS \<equiv> 0x1e"
abbreviation (input) IE_NET_FAC :: "'a::numeral" where "IE_NET_FAC \<equiv> 0x20"
abbreviation (input) IE_NOTIFY :: "'a::numeral" where "IE_NOTIFY \<equiv> 0x27"
abbreviation (input) IE_DISPLAY :: "'a::numeral" where "IE_DISPLAY \<equiv> 0x28"
abbreviation (input) IE_DATE :: "'a::numeral" where "IE_DATE \<equiv> 0x29"
abbreviation (input) IE_KEYPAD :: "'a::numeral" where "IE_KEYPAD \<equiv> 0x2c"
abbreviation (input) IE_SIGNAL :: "'a::numeral" where "IE_SIGNAL \<equiv> 0x34"
abbreviation (input) IE_INFORATE :: "'a::numeral" where "IE_INFORATE \<equiv> 0x40"
abbreviation (input) IE_E2E_TDELAY :: "'a::numeral" where "IE_E2E_TDELAY \<equiv> 0x42"
abbreviation (input) IE_TDELAY_SEL :: "'a::numeral" where "IE_TDELAY_SEL \<equiv> 0x43"
abbreviation (input) IE_PACK_BINPARA :: "'a::numeral" where "IE_PACK_BINPARA \<equiv> 0x44"
abbreviation (input) IE_PACK_WINSIZE :: "'a::numeral" where "IE_PACK_WINSIZE \<equiv> 0x45"
abbreviation (input) IE_PACK_SIZE :: "'a::numeral" where "IE_PACK_SIZE \<equiv> 0x46"
abbreviation (input) IE_CUG :: "'a::numeral" where "IE_CUG \<equiv> 0x47"
abbreviation (input) IE_REV_CHARGE :: "'a::numeral" where "IE_REV_CHARGE \<equiv> 0x4a"
abbreviation (input) IE_CONNECT_PN :: "'a::numeral" where "IE_CONNECT_PN \<equiv> 0x4c"
abbreviation (input) IE_CONNECT_SUB :: "'a::numeral" where "IE_CONNECT_SUB \<equiv> 0x4d"
abbreviation (input) IE_CALLING_PN :: "'a::numeral" where "IE_CALLING_PN \<equiv> 0x6c"
abbreviation (input) IE_CALLING_SUB :: "'a::numeral" where "IE_CALLING_SUB \<equiv> 0x6d"
abbreviation (input) IE_CALLED_PN :: "'a::numeral" where "IE_CALLED_PN \<equiv> 0x70"
abbreviation (input) IE_CALLED_SUB :: "'a::numeral" where "IE_CALLED_SUB \<equiv> 0x71"
abbreviation (input) IE_REDIR_NR :: "'a::numeral" where "IE_REDIR_NR \<equiv> 0x74"
abbreviation (input) IE_TRANS_SEL :: "'a::numeral" where "IE_TRANS_SEL \<equiv> 0x78"
abbreviation (input) IE_RESTART_IND :: "'a::numeral" where "IE_RESTART_IND \<equiv> 0x79"
abbreviation (input) IE_LLC :: "'a::numeral" where "IE_LLC \<equiv> 0x7c"
abbreviation (input) IE_HLC :: "'a::numeral" where "IE_HLC \<equiv> 0x7d"
abbreviation (input) IE_USER_USER :: "'a::numeral" where "IE_USER_USER \<equiv> 0x7e"
abbreviation (input) IE_COMPLETE :: "'a::numeral" where "IE_COMPLETE \<equiv> 0xa1"
abbreviation (input) IE_MANDATORY :: nat where "IE_MANDATORY \<equiv> 0x100"
abbreviation (input) IE_MANDATORY_1 :: nat where "IE_MANDATORY_1 \<equiv> 0x200"

abbreviation (input) ERR_IE_COMPREHENSION :: int where "ERR_IE_COMPREHENSION \<equiv> 1"
abbreviation (input) ERR_IE_UNRECOGNIZED :: int where "ERR_IE_UNRECOGNIZED \<equiv> -1"
abbreviation (input) ERR_IE_LENGTH :: int where "ERR_IE_LENGTH \<equiv> -2"
abbreviation (input) ERR_IE_SEQUENCE :: int where "ERR_IE_SEQUENCE \<equiv> -3"

text \<open>\<open>MsgHead\<close>: discriminator, call reference (-1 is the dummy one), message type.\<close>

definition MsgHead :: "int \<Rightarrow> u8 \<Rightarrow> u8 list" where
  "MsgHead cref mty =
     [0x8] @ (if cref = -1 then [0x0] else [0x1, word_of_int cref XOR 0x80]) @ [mty]"

subsection \<open>Which elements a message may carry\<close>

text \<open>The lists end with -1 in the code; here they end.\<close>

definition ie_ALERTING :: "nat list" where
  "ie_ALERTING = [IE_BEARER, IE_CHANNEL_ID OR IE_MANDATORY_1, IE_FACILITY, IE_PROGRESS, IE_DISPLAY,
     IE_SIGNAL, IE_HLC, IE_USER_USER]"

definition ie_CALL_PROCEEDING :: "nat list" where
  "ie_CALL_PROCEEDING = [IE_BEARER, IE_CHANNEL_ID OR IE_MANDATORY_1, IE_FACILITY, IE_PROGRESS,
     IE_DISPLAY, IE_HLC]"

definition ie_CONNECT :: "nat list" where
  "ie_CONNECT = [IE_BEARER, IE_CHANNEL_ID OR IE_MANDATORY_1, IE_FACILITY, IE_PROGRESS, IE_DISPLAY,
     IE_DATE, IE_SIGNAL, IE_CONNECT_PN, IE_CONNECT_SUB, IE_LLC, IE_HLC, IE_USER_USER]"

definition ie_CONNECT_ACKNOWLEDGE :: "nat list" where
  "ie_CONNECT_ACKNOWLEDGE = [IE_CHANNEL_ID, IE_DISPLAY, IE_SIGNAL]"

definition ie_DISCONNECT :: "nat list" where
  "ie_DISCONNECT = [IE_CAUSE OR IE_MANDATORY, IE_FACILITY, IE_PROGRESS, IE_DISPLAY, IE_SIGNAL,
     IE_USER_USER]"

definition ie_INFORMATION :: "nat list" where
  "ie_INFORMATION = [IE_COMPLETE, IE_DISPLAY, IE_KEYPAD, IE_SIGNAL, IE_CALLED_PN]"

definition ie_NOTIFY :: "nat list" where
  "ie_NOTIFY = [IE_BEARER, IE_NOTIFY OR IE_MANDATORY, IE_DISPLAY]"

definition ie_PROGRESS :: "nat list" where
  "ie_PROGRESS = [IE_BEARER, IE_CAUSE, IE_FACILITY, IE_PROGRESS OR IE_MANDATORY, IE_DISPLAY, IE_HLC,
     IE_USER_USER]"

definition ie_RELEASE :: "nat list" where
  "ie_RELEASE = [IE_CAUSE OR IE_MANDATORY_1, IE_FACILITY, IE_DISPLAY, IE_SIGNAL, IE_USER_USER]"

definition ie_RESUME_ACKNOWLEDGE :: "nat list" where
  "ie_RESUME_ACKNOWLEDGE = [IE_CHANNEL_ID OR IE_MANDATORY, IE_FACILITY, IE_DISPLAY]"

definition ie_RESUME_REJECT :: "nat list" where
  "ie_RESUME_REJECT = [IE_CAUSE OR IE_MANDATORY, IE_DISPLAY]"

definition ie_SETUP :: "nat list" where
  "ie_SETUP = [IE_COMPLETE, IE_BEARER OR IE_MANDATORY, IE_CHANNEL_ID OR IE_MANDATORY, IE_FACILITY,
     IE_PROGRESS, IE_NET_FAC, IE_DISPLAY, IE_KEYPAD, IE_SIGNAL, IE_CALLING_PN, IE_CALLING_SUB,
     IE_CALLED_PN, IE_CALLED_SUB, IE_REDIR_NR, IE_LLC, IE_HLC, IE_USER_USER]"

definition ie_SETUP_ACKNOWLEDGE :: "nat list" where
  "ie_SETUP_ACKNOWLEDGE = [IE_CHANNEL_ID OR IE_MANDATORY, IE_FACILITY, IE_PROGRESS, IE_DISPLAY,
     IE_SIGNAL]"

definition ie_STATUS :: "nat list" where
  "ie_STATUS = [IE_CAUSE OR IE_MANDATORY, IE_CALL_STATE OR IE_MANDATORY, IE_DISPLAY]"

definition ie_STATUS_ENQUIRY :: "nat list" where
  "ie_STATUS_ENQUIRY = [IE_DISPLAY]"

definition ie_SUSPEND_ACKNOWLEDGE :: "nat list" where
  "ie_SUSPEND_ACKNOWLEDGE = [IE_DISPLAY, IE_FACILITY]"

definition ie_SUSPEND_REJECT :: "nat list" where
  "ie_SUSPEND_REJECT = [IE_CAUSE OR IE_MANDATORY, IE_DISPLAY]"

definition ie_FACILITY :: "nat list" where
  "ie_FACILITY = [IE_FACILITY OR IE_MANDATORY, IE_DISPLAY]"

definition comp_required :: "nat list" where
  "comp_required = [1,2,3,5,6,7,9,10,11,14,15]"

definition l3_valid_states :: "nat list" where
  "l3_valid_states = [0,1,2,3,4,6,7,8,9,10,11,12,15,17,19,25]"

definition max_ie_len :: "(nat \<times> int) list" where
  "max_ie_len =
    [(IE_SEGMENT, 4), (IE_BEARER, 12), (IE_CAUSE, 32), (IE_CALL_ID, 10), (IE_CALL_STATE, 3),
     (IE_CHANNEL_ID, 34), (IE_FACILITY, 255), (IE_PROGRESS, 4), (IE_NET_FAC, 255), (IE_NOTIFY, 3),
     (IE_DISPLAY, 82), (IE_DATE, 8), (IE_KEYPAD, 34), (IE_SIGNAL, 3), (IE_INFORATE, 6),
     (IE_E2E_TDELAY, 11), (IE_TDELAY_SEL, 5), (IE_PACK_BINPARA, 3), (IE_PACK_WINSIZE, 4),
     (IE_PACK_SIZE, 4), (IE_CUG, 7), (IE_REV_CHARGE, 3), (IE_CALLING_PN, 24), (IE_CALLING_SUB, 23),
     (IE_CALLED_PN, 24), (IE_CALLED_SUB, 23), (IE_REDIR_NR, 255), (IE_TRANS_SEL, 255),
     (IE_RESTART_IND, 3), (IE_LLC, 18), (IE_HLC, 5), (IE_USER_USER, 131)]"

definition getmax_ie_len :: "u8 \<Rightarrow> int" where
  "getmax_ie_len ie = (case map_of max_ie_len (unat ie) of Some l \<Rightarrow> l | None \<Rightarrow> 255)"

text \<open>The position of an element in a list, from 1; negative for an element of one octet.\<close>

fun ie_in_set_from :: "int \<Rightarrow> u8 \<Rightarrow> nat list \<Rightarrow> int" where
  "ie_in_set_from ret ie [] = 0"
| "ie_in_set_from ret ie (e # es) =
     (if e AND 0xff = unat ie then (if ie AND 0x80 \<noteq> 0 then - ret else ret)
      else ie_in_set_from (ret + 1) ie es)"

definition ie_in_set :: "u8 \<Rightarrow> nat list \<Rightarrow> int" where
  "ie_in_set ie checklist = ie_in_set_from 1 ie checklist"

subsection \<open>The check of a received message\<close>

record ie_check =
  ck_codeset :: u8
  ck_old :: u8
  ck_lock :: bool
  ck_oldpos :: int
  ck_seq :: nat
  ck_len :: nat
  ck_compr :: nat
  ck_ureg :: nat

text \<open>The tests on the code of an element, in codeset 0.\<close>

definition check_code :: "nat list \<Rightarrow> u8 \<Rightarrow> ie_check \<Rightarrow> ie_check" where
  "check_code cl b s =
     (if ck_codeset s \<noteq> 0 then s
      else (let newpos = ie_in_set b cl in
            if newpos \<noteq> 0
            then (if newpos > 0
                  then (if newpos < ck_oldpos s then s\<lparr>ck_seq := Suc (ck_seq s)\<rparr>
                        else s\<lparr>ck_oldpos := newpos\<rparr>)
                  else s)
            else if ie_in_set b comp_required \<noteq> 0 then s\<lparr>ck_compr := Suc (ck_compr s)\<rparr>
            else s\<lparr>ck_ureg := Suc (ck_ureg s)\<rparr>))"

text \<open>The test on its length, and the end of a shift that does not lock.\<close>

definition check_length :: "u8 \<Rightarrow> int \<Rightarrow> ie_check \<Rightarrow> ie_check" where
  "check_length ie l s =
     (let s = (if ck_codeset s = 0 \<and> getmax_ie_len ie < l then s\<lparr>ck_len := Suc (ck_len s)\<rparr> else s)
      in if \<not> ck_lock s then s\<lparr>ck_codeset := ck_old s, ck_lock := True\<rparr> else s)"

function check_loop :: "u8 list \<Rightarrow> nat \<Rightarrow> nat list \<Rightarrow> nat \<Rightarrow> ie_check \<Rightarrow> ie_check option" where
  "check_loop d sz cl p s =
     (if sz \<le> p then Some s
      else do {
        b \<leftarrow> rd d p;
        if b AND 0xf0 = 0x90
        then check_loop d sz cl (Suc p)
               (s\<lparr>ck_old := ck_codeset s, ck_codeset := b AND 7, ck_lock := (b AND 0x08 = 0)\<rparr>)
        else if b AND 0x80 \<noteq> 0
        then check_loop d sz cl (Suc p) (check_length b 1 (check_code cl b s))
        else do {
          l \<leftarrow> rd d (Suc p);
          check_loop d sz cl (p + 2 + unat l) (check_length b (uint l + 2) (check_code cl b s))
        }
      })"
  by pat_completeness auto

termination by (relation "measure (\<lambda>(d, sz, cl, p, s). sz - p)") auto

declare check_loop.simps [simp del]

definition check_infoelements :: "u8 list \<Rightarrow> nat \<Rightarrow> nat list \<Rightarrow> int option" where
  "check_infoelements d sz checklist = do {
     l \<leftarrow> rd d 1;
     mt \<leftarrow> rd d (2 + unat (l AND 0xf));
     s \<leftarrow> check_loop d sz checklist (3 + unat (l AND 0xf))
       \<lparr>ck_codeset = 0, ck_old = 0, ck_lock = True, ck_oldpos = 0, ck_seq = 0, ck_len = 0,
        ck_compr = 0, ck_ureg = 0\<rparr>;
     Some (if ck_compr s \<noteq> 0 then ERR_IE_COMPREHENSION
           else if ck_ureg s \<noteq> 0 then ERR_IE_UNRECOGNIZED
           else if ck_len s \<noteq> 0 then ERR_IE_LENGTH
           else if ck_seq s \<noteq> 0 then ERR_IE_SEQUENCE
           else 0)
   }"

subsection \<open>Reading elements\<close>

text \<open>\<open>findie\<close> in codeset 0, as every handler of the protocol calls it.\<close>

abbreviation find_ie :: "u8 list \<Rightarrow> nat \<Rightarrow> u8 \<Rightarrow> nat option option" where
  "find_ie d sz ie \<equiv> findie d sz ie 0"

definition l3dss1_get_channel_id :: "u8 list \<Rightarrow> nat \<Rightarrow> int option" where
  "l3dss1_get_channel_id d sz = do {
     r \<leftarrow> find_ie d sz IE_CHANNEL_ID;
     case r of
       None \<Rightarrow> Some (-1)
     | Some i \<Rightarrow> do {
         l \<leftarrow> rd d (i + 1);
         if l \<noteq> 1 then Some (-2)
         else do {
           b \<leftarrow> rd d (i + 2);
           if b AND 0x60 \<noteq> 0 then Some (-3) else Some (uint (b AND 0x3))
         }
       }
   }"

text \<open>
  The value of the cause element: the result, the cause, the location, the diagnostics. \<open>l\<close> is an
  octet; the two subtractions are guarded.
\<close>

record cause_ie =
  ci_ret :: int
  ci_cause :: u8
  ci_loc :: u8
  ci_diag :: "u8 list"

definition rd_list :: "u8 list \<Rightarrow> nat \<Rightarrow> nat \<Rightarrow> u8 list option" where
  "rd_list d i n = (if n = 0 \<or> i + n \<le> length d then Some (take n (drop i d)) else None)"

definition cause_rest :: "u8 list \<Rightarrow> nat \<Rightarrow> u8 \<Rightarrow> cause_ie \<Rightarrow> cause_ie option" where
  "cause_rest d p l s =
     (if l = 0 then Some (s\<lparr>ci_ret := 4\<rparr>)
      else do {
        cause \<leftarrow> rd d p;
        let s = s\<lparr>ci_cause := cause\<rparr>;
        if cause AND 0x80 = 0 then Some (s\<lparr>ci_ret := 3\<rparr>)
        else do {
          let n = min (unat (l - 1)) 6;
          diag \<leftarrow> rd_list d (p + 1) n;
          Some (s\<lparr>ci_diag := diag @ drop n (ci_diag s)\<rparr>)
        }
      })"

definition l3dss1_get_cause :: "u8 list \<Rightarrow> nat \<Rightarrow> u8 list \<Rightarrow> cause_ie option" where
  "l3dss1_get_cause d sz diag = do {
     let s = \<lparr>ci_ret = 0, ci_cause = 31, ci_loc = 0, ci_diag = diag\<rparr>;
     r \<leftarrow> find_ie d sz IE_CAUSE;
     case r of
       None \<Rightarrow> Some (s\<lparr>ci_ret := -1\<rparr>)
     | Some i \<Rightarrow> do {
         l \<leftarrow> rd d (i + 1);
         if 30 < l then Some (s\<lparr>ci_ret := 1\<rparr>)
         else if l = 0 then Some (s\<lparr>ci_ret := 2\<rparr>)
         else do {
           loc \<leftarrow> rd d (i + 2);
           let s = s\<lparr>ci_loc := loc\<rparr>;
           if l - 1 \<noteq> 0 \<and> loc AND 0x80 = 0
           then cause_rest d (i + 4) (l - 2) s
           else cause_rest d (i + 3) (l - 1) s
         }
       }
   }"

text \<open>
  \<open>iecpy\<close> copies the contents of an element from \<open>ieoffset\<close> on. With contents shorter than
  \<open>ieoffset\<close> its count is negative and it copies on through the whole memory: a fault.
\<close>

definition iecpy :: "u8 list \<Rightarrow> nat \<Rightarrow> nat \<Rightarrow> u8 list option" where
  "iecpy d iestart ieoffset = do {
     l \<leftarrow> rd d (iestart + 1);
     if unat l < ieoffset then None
     else rd_list d (iestart + ieoffset + 2) (unat l - ieoffset)
   }"

subsection \<open>C strings in arrays\<close>

definition cstr :: "u8 list \<Rightarrow> u8 list option" where
  "cstr arr = (if 0 \<in> set arr then Some (takeWhile (\<lambda>b. b \<noteq> 0) arr) else None)"

text \<open>Writing a string and its end at an offset; outside the array is a fault.\<close>

definition put_str :: "u8 list \<Rightarrow> nat \<Rightarrow> u8 list \<Rightarrow> u8 list option" where
  "put_str arr k s =
     (if k + length s < length arr then Some (take k arr @ s @ [0] @ drop (k + length s + 1) arr)
      else None)"

definition strcat :: "u8 list \<Rightarrow> u8 list \<Rightarrow> u8 list option" where
  "strcat arr s = do { t \<leftarrow> cstr arr; put_str arr (length t) (takeWhile (\<lambda>b. b \<noteq> 0) s) }"

subsection \<open>Service indicators\<close>

definition EncodeASyncParams :: "u8 \<Rightarrow> u8 list" where
  "EncodeASyncParams si2 =
     (let p2 = 0x80 + (if si2 AND 32 \<noteq> 0 then 16 else 24) + (if si2 AND 16 \<noteq> 0 then 96 else 32) +
               (if si2 AND 8 \<noteq> 0 then 2 else 3);
          p0 = [66, 88, 87, 67, 69, 72, 73, 75] ! unat (si2 AND 0x07)
      in [p0, 0x40, p2])"

definition EncodeSyncParams :: "u8 \<Rightarrow> u8 \<Rightarrow> u8" where
  "EncodeSyncParams si2 ai =
     (if si2 = 0 then ai + 2 else if si2 = 1 then ai + 24 else if si2 = 2 then ai + 23
      else if si2 = 3 then ai + 3 else if si2 = 4 then ai + 5 else if si2 = 5 then ai + 8
      else if si2 = 6 then ai + 9 else if si2 = 7 then ai + 11 else if si2 = 8 then ai + 14
      else if si2 = 9 then ai + 15 else if si2 = 15 then ai + 40 else ai)"

definition DecodeASyncParams :: "u8 \<Rightarrow> u8 \<Rightarrow> u8 \<Rightarrow> u8" where
  "DecodeASyncParams si2 p5 p7 =
     (let rate = (if p5 = 88 then 1 else if p5 = 87 then 2 else if p5 = 67 then 3
                  else if p5 = 69 then 4 else if p5 = 72 then 5 else if p5 = 73 then 6
                  else if p5 = 75 then 7 else 0);
          info = p7 AND 0x7f
      in si2 + rate + (if info AND 16 \<noteq> 0 \<and> info AND 8 = 0 then 32 else 0) +
         (if info AND 96 = 96 then 16 else 0) + (if info AND 2 \<noteq> 0 \<and> info AND 1 = 0 then 8 else 0))"

definition DecodeSyncParams :: "u8 \<Rightarrow> u8 \<Rightarrow> u8" where
  "DecodeSyncParams si2 info =
     (let i = info AND 0x7f in
      if i = 40 then si2 + 15 else if i = 15 then si2 + 9 else if i = 14 then si2 + 8
      else if i = 11 then si2 + 7 else if i = 9 then si2 + 6 else if i = 8 then si2 + 5
      else if i = 5 then si2 + 4 else if i = 3 then si2 + 3 else if i = 23 then si2 + 2
      else if i = 24 then si2 + 1 else si2)"

text \<open>The octets 4, 5 and 7 of the element are read without a look at its length.\<close>

definition DecodeSI2 :: "u8 list \<Rightarrow> nat \<Rightarrow> u8 option" where
  "DecodeSI2 d sz = do {
     r \<leftarrow> find_ie d sz 0x7c;
     case r of
       None \<Rightarrow> Some 0
     | Some i \<Rightarrow> do {
         p4 \<leftarrow> rd d (i + 4);
         p1 \<leftarrow> rd d (i + 1);
         if p4 AND 0x0f = 0x01 then
           (if p1 = 0x04 then do { p5 \<leftarrow> rd d (i + 5); Some (DecodeSyncParams 160 p5) }
            else if p1 = 0x06 then do {
              p5 \<leftarrow> rd d (i + 5);
              p7 \<leftarrow> rd d (i + 7);
              Some (DecodeASyncParams 192 p5 p7)
            }
            else Some 0)
         else if p4 AND 0x0f = 0x08 then
           (if p1 > 3 then do { p5 \<leftarrow> rd d (i + 5); Some (DecodeSyncParams 176 p5) } else Some 0)
         else Some 0
       }
   }"

end
