(* ===== verification/Hisax_Dss1.thy ===== *)
theory Hisax_Dss1
  imports Hisax_L3 Hisax_Dss1_Ie
begin

text \<open>
  The EURO/DSS1 call protocol, \<open>hisax/l3dss1.c\<close>: what a stack and a process keep, invoke
  identifiers, sending, and the handlers for requests of the call control and for timers. A
  handler gets the address of its process; it faults when that process has been freed. Calls to
  the call control (\<open>l3l4\<close>, \<open>statcallb\<close>) are recorded in order; what they lead to comes back as a
  later request.
\<close>

subsection \<open>State\<close>

record Channel =
  ch_chan :: nat
  ch_setup :: setup_parm
  ch_proc :: "nat option"

datatype dss1_out =
  L3L4 cc_prim nat
| StatDisplay nat "u8 list"
| StatInvokeRes u8 u32 int "u8 list"
| StatInvokeErr u8 u32 int u32
| StatInvokeBrd int int "u8 list"

record Dss1 = Layer3 +
  d_last_invoke_id :: u8
  d_invoke_used :: "u8 list"
  d_OrigCallRef :: int
  d_chan :: "nat \<Rightarrow> Channel"
  d_garbage :: u8
  d_out :: "dss1_out list"

abbreviation (input) T302 :: int where "T302 \<equiv> 15000"
abbreviation (input) T303 :: int where "T303 \<equiv> 4000"
abbreviation (input) T304 :: int where "T304 \<equiv> 30000"
abbreviation (input) T305 :: int where "T305 \<equiv> 30000"
abbreviation (input) T308 :: int where "T308 \<equiv> 4000"
abbreviation (input) T309 :: int where "T309 \<equiv> 40000"
abbreviation (input) T310 :: int where "T310 \<equiv> 30000"
abbreviation (input) T313 :: int where "T313 \<equiv> 4000"
abbreviation (input) T318 :: int where "T318 \<equiv> 4000"
abbreviation (input) T319 :: int where "T319 \<equiv> 4000"

abbreviation (input) NO_CAUSE :: u8 where "NO_CAUSE \<equiv> 254"

subsection \<open>Access to a process\<close>

text \<open>The process with an address: a call of the stack, or the one of the global call reference.\<close>

definition pc_get :: "nat \<Rightarrow> 'z Layer3_scheme \<Rightarrow> l3_process option" where
  "pc_get a c =
     (case List.find (\<lambda>p. p_addr p = a) (l3_proc c) of
        Some p \<Rightarrow> Some p
      | None \<Rightarrow> (case l3_global c of
                  Some g \<Rightarrow> if p_addr g = a then Some g else None
                | None \<Rightarrow> None))"

definition at_addr :: "nat \<Rightarrow> (l3_process \<Rightarrow> l3_process) \<Rightarrow> l3_process \<Rightarrow> l3_process" where
  "at_addr a f p = (if p_addr p = a then f p else p)"

definition pc_upd :: "nat \<Rightarrow> (l3_process \<Rightarrow> l3_process) \<Rightarrow> 'z Layer3_scheme \<Rightarrow> 'z Layer3_scheme" where
  "pc_upd a f c = c\<lparr>l3_proc := map (at_addr a f) (l3_proc c),
                    l3_global := map_option (at_addr a f) (l3_global c)\<rparr>"

definition pc_mod ::
  "nat \<Rightarrow> (l3_process \<Rightarrow> l3_process) \<Rightarrow> 'z Layer3_scheme \<Rightarrow> 'z Layer3_scheme option" where
  "pc_mod a f c = do { p \<leftarrow> pc_get a c; Some (pc_upd a f c) }"

abbreviation new_state :: "nat \<Rightarrow> nat \<Rightarrow> 'z Layer3_scheme \<Rightarrow> 'z Layer3_scheme option" where
  "new_state a n \<equiv> pc_mod a (newl3state n)"

abbreviation del_timer :: "nat \<Rightarrow> 'z Layer3_scheme \<Rightarrow> 'z Layer3_scheme option" where
  "del_timer a \<equiv> pc_mod a L3DelTimer"

definition add_timer ::
  "nat \<Rightarrow> int \<Rightarrow> cc_prim \<Rightarrow> 'z Layer3_scheme \<Rightarrow> 'z Layer3_scheme option" where
  "add_timer a ms ev c = pc_mod a (\<lambda>p. snd (L3AddTimer (l3_kenv c) ms ev p)) c"

abbreviation set_cause :: "nat \<Rightarrow> u8 \<Rightarrow> 'z Layer3_scheme \<Rightarrow> 'z Layer3_scheme option" where
  "set_cause a x \<equiv> pc_mod a (\<lambda>p. p\<lparr>p_cause := x\<rparr>)"

definition l3l4 :: "cc_prim \<Rightarrow> nat \<Rightarrow> 'z Dss1_scheme \<Rightarrow> 'z Dss1_scheme" where
  "l3l4 pr a c = c\<lparr>d_out := d_out c @ [L3L4 pr a]\<rparr>"

definition statcallb :: "dss1_out \<Rightarrow> 'z Dss1_scheme \<Rightarrow> 'z Dss1_scheme" where
  "statcallb ic c = c\<lparr>d_out := d_out c @ [ic]\<rparr>"

subsection \<open>Invoke identifiers\<close>

definition invoke_bit :: "u8 list \<Rightarrow> u8 \<Rightarrow> bool" where
  "invoke_bit used r = (used ! unat (drop_bit 3 r) AND push_bit (unat (r AND 7)) 1 \<noteq> 0)"

text \<open>The second loop: the next free identifier from \<open>r\<close> on.\<close>

partial_function (option) next_free_id :: "u8 list \<Rightarrow> u8 \<Rightarrow> u8 option" where
  "next_free_id used r = (if invoke_bit used r then next_free_id used (r + 1) else Some r)"

declare next_free_id.simps [code]

text \<open>The first loop counts to 32 while the octet of \<open>retval\<close> is full; it never moves \<open>retval\<close>.\<close>

fun search_octet :: "nat \<Rightarrow> u8 list \<Rightarrow> u8 \<Rightarrow> u8 \<Rightarrow> nat \<times> u8" where
  "search_octet 0 used retval lst = (0, lst)"
| "search_octet (Suc i) used retval lst =
     (if used ! unat (drop_bit 3 retval) = 0xFF
      then search_octet i used retval ((retval AND 0xF8) + 8)
      else (Suc i, lst))"

definition new_invoke_id :: "'z Dss1_scheme \<Rightarrow> (u8 \<times> 'z Dss1_scheme) option" where
  "new_invoke_id c = do {
     let used = d_invoke_used c;
     let retval = d_last_invoke_id c + 1;
     let (i, lst) = search_octet 32 used retval (d_last_invoke_id c);
     retval \<leftarrow> if i \<noteq> 0 then next_free_id used retval else Some 0;
     let n = unat (drop_bit 3 retval);
     Some (retval, c\<lparr>d_last_invoke_id := retval,
                     d_invoke_used := used[n := used ! n OR push_bit (unat (retval AND 7)) 1]\<rparr>)
   }"

definition free_invoke_id :: "u8 \<Rightarrow> 'z Dss1_scheme \<Rightarrow> 'z Dss1_scheme" where
  "free_invoke_id ii c =
     (if ii = 0 then c
      else (let used = d_invoke_used c; n = unat (drop_bit 3 ii) in
            c\<lparr>d_invoke_used := used[n := used ! n AND NOT (push_bit (unat (ii AND 7)) 1)]\<rparr>))"

subsection \<open>Processes\<close>

definition dss1_new_l3_process :: "int \<Rightarrow> 'z Dss1_scheme \<Rightarrow> nat option \<times> 'z Dss1_scheme" where
  "dss1_new_l3_process cr c =
     (case new_l3_process cr c of
        (None, c) \<Rightarrow> (None, c)
      | (Some a, c) \<Rightarrow>
          (Some a, pc_upd a (\<lambda>p. p\<lparr>p_invoke_id := 0, p_remote_operation := 0,
                                   p_uus1_data := (p_uus1_data p)[0 := 0]\<rparr>) c))"

definition dss1_release_l3_process ::
  "'z Dss1_scheme l3_ops \<Rightarrow> nat \<Rightarrow> 'z Dss1_scheme \<Rightarrow> 'z Dss1_scheme option" where
  "dss1_release_l3_process up a c = do {
     p \<leftarrow> pc_get a c;
     release_l3_process up a (free_invoke_id (p_invoke_id p) c)
   }"

definition l3dss1_search_dummy_proc :: "int \<Rightarrow> 'z Dss1_scheme \<Rightarrow> nat option" where
  "l3dss1_search_dummy_proc ii c =
     (if ii = 0 then None
      else map_option p_addr
             (List.find (\<lambda>p. p_callref p = -1 \<and> uint (p_invoke_id p) = ii) (l3_proc c)))"

subsection \<open>Sending\<close>

text \<open>A handler that gets no buffer returns at once.\<close>

definition alloc_then ::
  "u8 list \<Rightarrow> (sk_buff \<Rightarrow> 'z Layer3_scheme \<Rightarrow> 'z Layer3_scheme option) \<Rightarrow>
   'z Layer3_scheme \<Rightarrow> 'z Layer3_scheme option" where
  "alloc_then d k c =
     (case l3_alloc_skb d (l3_kenv c) of
        (None, e) \<Rightarrow> Some (c\<lparr>l3_kenv := e\<rparr>)
      | (Some skb, e) \<Rightarrow> k skb (c\<lparr>l3_kenv := e\<rparr>))"

abbreviation l3_send ::
  "'z Layer3_scheme l3_ops \<Rightarrow> sk_buff \<Rightarrow> 'z Layer3_scheme \<Rightarrow> 'z Layer3_scheme option" where
  "l3_send up skb \<equiv> l3_msg up (DL_DATA, REQUEST) (Some skb)"

text \<open>Four octets are sent even with the dummy call reference, whose head has three.\<close>

definition l3dss1_message ::
  "'z Dss1_scheme l3_ops \<Rightarrow> nat \<Rightarrow> u8 \<Rightarrow> 'z Dss1_scheme \<Rightarrow> 'z Dss1_scheme option" where
  "l3dss1_message up a mt c = do {
     p \<leftarrow> pc_get a c;
     alloc_then (MsgHead (p_callref p) mt @ (if p_callref p = -1 then [d_garbage c] else []))
       (l3_send up) c
   }"

definition cause_element :: "u8 \<Rightarrow> u8 list" where
  "cause_element cause = [IE_CAUSE, 0x2, 0x80, cause OR 0x80]"

definition l3dss1_message_cause ::
  "'z Dss1_scheme l3_ops \<Rightarrow> nat \<Rightarrow> u8 \<Rightarrow> u8 \<Rightarrow> 'z Dss1_scheme \<Rightarrow> 'z Dss1_scheme option" where
  "l3dss1_message_cause up a mt cause c = do {
     p \<leftarrow> pc_get a c;
     alloc_then (MsgHead (p_callref p) mt @ cause_element cause) (l3_send up) c
   }"

definition l3dss1_status_send ::
  "'z Dss1_scheme l3_ops \<Rightarrow> nat \<Rightarrow> 'z Dss1_scheme \<Rightarrow> 'z Dss1_scheme option" where
  "l3dss1_status_send up a c = do {
     p \<leftarrow> pc_get a c;
     alloc_then (MsgHead (p_callref p) MT_STATUS @ cause_element (p_cause p) @
               [IE_CALL_STATE, 0x1, of_nat (p_state p) AND 0x3f]) (l3_send up) c
   }"

definition l3dss1_msg_without_setup ::
  "'z Dss1_scheme l3_ops \<Rightarrow> nat \<Rightarrow> 'z Dss1_scheme \<Rightarrow> 'z Dss1_scheme option" where
  "l3dss1_msg_without_setup up a c = do {
     p \<leftarrow> pc_get a c;
     if p_cause p \<in> {81, 88, 96, 100, 101}
     then alloc_then (MsgHead (p_callref p) MT_RELEASE_COMPLETE @ cause_element (p_cause p))
            (\<lambda>skb c. do { c \<leftarrow> l3_send up skb c; dss1_release_l3_process up a c }) c
     else Some c
   }"

text \<open>The user-to-user data of a process, kept as a C string.\<close>

definition uus_set :: "l3_process \<Rightarrow> bool" where
  "uus_set p \<longleftrightarrow> (case p_uus1_data p of [] \<Rightarrow> False | b # _ \<Rightarrow> b \<noteq> 0)"

definition uus_element :: "u8 list \<Rightarrow> u8 list" where
  "uus_element s = (if s = [] then [] else [IE_USER_USER, of_nat (length s) + 1, 0x04] @ s)"

definition uus_clear :: "l3_process \<Rightarrow> l3_process" where
  "uus_clear p = p\<lparr>p_uus1_data := (p_uus1_data p)[0 := 0]\<rparr>"

definition l3dss1_msg_with_uus ::
  "'z Dss1_scheme l3_ops \<Rightarrow> nat \<Rightarrow> u8 \<Rightarrow> 'z Dss1_scheme \<Rightarrow> 'z Dss1_scheme option" where
  "l3dss1_msg_with_uus up a cmd c = do {
     p \<leftarrow> pc_get a c;
     s \<leftarrow> cstr (p_uus1_data p);
     c \<leftarrow> pc_mod a uus_clear c;
     alloc_then (MsgHead (p_callref p) cmd @ uus_element s) (l3_send up) c
   }"

definition send_uus ::
  "'z Dss1_scheme l3_ops \<Rightarrow> nat \<Rightarrow> u8 \<Rightarrow> 'z Dss1_scheme \<Rightarrow> 'z Dss1_scheme option" where
  "send_uus up a mt c = do {
     p \<leftarrow> pc_get a c;
     if \<not> uus_set p then l3dss1_message up a mt c else l3dss1_msg_with_uus up a mt c
   }"

subsection \<open>The SETUP message\<close>

definition isdigit :: "u8 \<Rightarrow> bool" where
  "isdigit b \<longleftrightarrow> 48 \<le> b \<and> b \<le> 57"

text \<open>
  A number may start with a letter: C or P ask for a channel, R and D set the screening. The
  result is the index where the number goes on, the channel octet and the screening octet.
\<close>

definition number_prefix :: "u8 list \<Rightarrow> (nat \<times> u8 \<times> u8) option" where
  "number_prefix teln = do {
     b \<leftarrow> rd teln 0;
     if b = 0 \<or> isdigit b then Some (0, 0, 0x80)
     else if 0x5f AND b = 67 \<or> 0x5f AND b = 80 then do {
       b1 \<leftarrow> rd teln 1;
       Some (2, (if 0x5f AND b = 67 then 0x08 else 0) OR 0x80 OR (if b1 = 49 then 0x01 else 0x02), 0x80)
     }
     else Some (1, 0, if 0x5f AND b = 82 then 0xA0 else 0x80)
   }"

text \<open>The part before the first dot and the subaddress behind it.\<close>

definition split_sub :: "u8 list \<Rightarrow> u8 list \<times> u8 list option" where
  "split_sub s = (takeWhile (\<lambda>b. b \<noteq> 46) s,
     if 46 \<in> set s then Some (tl (dropWhile (\<lambda>b. b \<noteq> 46) s)) else None)"

definition ia5 :: "u8 list \<Rightarrow> u8 list" where
  "ia5 s = map (\<lambda>b. b AND 0x7f) s"

definition sub_element :: "u8 \<Rightarrow> u8 list option \<Rightarrow> u8 list" where
  "sub_element ie sub =
     (case sub of None \<Rightarrow> [] | Some s \<Rightarrow> [ie, of_nat (length s) + 2, 0x80, 0x50] @ ia5 s)"

definition bearer_octets :: "u8 \<Rightarrow> u8 list" where
  "bearer_octets si1 = (if si1 = 1 then [0x3, 0x90, 0x90, 0xa3] else [0x2, 0x88, 0x90])"

definition calling_element :: "u8 \<Rightarrow> u8 list \<Rightarrow> u8 list" where
  "calling_element screen num =
     (if num = [] then []
      else [IE_CALLING_PN, of_nat (length num) + (if screen \<noteq> 0 then 2 else 1)] @
           (if screen \<noteq> 0 then [0x01, screen] else [0x81]) @ ia5 num)"

definition llc_element :: "u8 \<Rightarrow> u8 \<Rightarrow> u8 list" where
  "llc_element si1 si2 =
     (if 160 \<le> si2 \<and> si2 \<le> 175
      then [IE_LLC, 0x04, 0x88, 0x90, 0x21, EncodeSyncParams (si2 - 160) 0x80]
      else if 176 \<le> si2 \<and> si2 \<le> 191
      then [IE_LLC, 0x05, 0x88, 0x90, 0x28, EncodeSyncParams (si2 - 176) 0, 0x82]
      else if 192 \<le> si2 then [IE_LLC, 0x06, 0x88, 0x90, 0x21] @ EncodeASyncParams (si2 - 192)
      else [IE_LLC] @ bearer_octets si1)"

text \<open>The message is built in a buffer of 128 octets on the stack.\<close>

definition setup_message :: "int \<Rightarrow> setup_parm \<Rightarrow> u8 list option" where
  "setup_message cref su = do {
     phone \<leftarrow> cstr (su_phone su);
     let send_keypad = (42 \<in> set phone \<or> 35 \<in> set phone);
     (k, channel, screen) \<leftarrow>
       if send_keypad then Some (length phone, 0, 0x80) else number_prefix (su_phone su);
     teln \<leftarrow> cstr (drop k (su_phone su));
     msn \<leftarrow> cstr (su_eazmsn su);
     let m =
       MsgHead cref MT_SETUP @ (if send_keypad then [] else [0xa1]) @
       [IE_BEARER] @ bearer_octets (su_si1 su) @
       (if send_keypad then [IE_KEYPAD, of_nat (length phone)] @ ia5 phone else []) @
       (if channel \<noteq> 0 then [IE_CHANNEL_ID, 1, channel] else []) @
       calling_element screen (fst (split_sub msn)) @ sub_element IE_CALLING_SUB (snd (split_sub msn)) @
       (if send_keypad then []
        else [IE_CALLED_PN, of_nat (length (fst (split_sub teln))) + 1, 0x81] @
             ia5 (fst (split_sub teln)) @ sub_element IE_CALLED_SUB (snd (split_sub teln))) @
       llc_element (su_si1 su) (su_si2 su);
     if length m \<le> 128 then Some m else None
   }"

end
