(* ===== verification/Hisax_Dss1_Down.thy ===== *)
theory Hisax_Dss1_Down
  imports Hisax_Dss1
begin

text \<open>
  The part of \<open>hisax/l3dss1.c\<close> that call control and timers drive: the handlers of
  \<open>downstatelist\<close> and \<open>dss1down\<close>, and the commands for remote operations outside a call.
\<close>

subsection \<open>Requests of the call control\<close>

definition l3dss1_setup_req ::
  "'z Dss1_scheme l3_ops \<Rightarrow> nat \<Rightarrow> 'z Dss1_scheme \<Rightarrow> 'z Dss1_scheme option" where
  "l3dss1_setup_req up a c = do {
     p \<leftarrow> pc_get a c;
     m \<leftarrow> setup_message (p_callref p) (p_setup p);
     alloc_then m (\<lambda>skb c. do {
       c \<leftarrow> del_timer a c;
       c \<leftarrow> add_timer a T303 (CC_T303, REQUEST) c;
       c \<leftarrow> new_state a 1 c;
       l3_send up skb c
     }) c
   }"

definition l3dss1_release_req ::
  "'z Dss1_scheme l3_ops \<Rightarrow> nat \<Rightarrow> 'z Dss1_scheme \<Rightarrow> 'z Dss1_scheme option" where
  "l3dss1_release_req up a c = do {
     c \<leftarrow> pc_mod a StopAllL3Timer c;
     c \<leftarrow> new_state a 19 c;
     c \<leftarrow> send_uus up a MT_RELEASE c;
     add_timer a T308 (CC_T308_1, REQUEST) c
   }"

definition l3dss1_reset ::
  "'z Dss1_scheme l3_ops \<Rightarrow> nat \<Rightarrow> 'z Dss1_scheme \<Rightarrow> 'z Dss1_scheme option" where
  "l3dss1_reset up a c = dss1_release_l3_process up a c"

definition the_cause :: "u8 \<Rightarrow> l3_process \<Rightarrow> u8" where
  "the_cause cause p = (if p_cause p \<noteq> NO_CAUSE then p_cause p else cause)"

definition l3dss1_disconnect_req ::
  "'z Dss1_scheme l3_ops \<Rightarrow> nat \<Rightarrow> 'z Dss1_scheme \<Rightarrow> 'z Dss1_scheme option" where
  "l3dss1_disconnect_req up a c = do {
     c \<leftarrow> pc_mod a StopAllL3Timer c;
     p \<leftarrow> pc_get a c;
     s \<leftarrow> cstr (p_uus1_data p);
     c \<leftarrow> pc_mod a uus_clear c;
     alloc_then (MsgHead (p_callref p) MT_DISCONNECT @ cause_element (the_cause 16 p) @ uus_element s)
       (\<lambda>skb c. do {
          c \<leftarrow> new_state a 11 c;
          c \<leftarrow> l3_send up skb c;
          add_timer a T305 (CC_T305, REQUEST) c
        }) c
   }"

definition l3dss1_setup_rsp ::
  "'z Dss1_scheme l3_ops \<Rightarrow> nat \<Rightarrow> 'z Dss1_scheme \<Rightarrow> 'z Dss1_scheme option" where
  "l3dss1_setup_rsp up a c = do {
     p \<leftarrow> pc_get a c;
     if p_bchannel p = 0 then l3dss1_disconnect_req up a c
     else do {
       c \<leftarrow> new_state a 8 c;
       c \<leftarrow> l3dss1_message up a MT_CONNECT c;
       c \<leftarrow> del_timer a c;
       add_timer a T313 (CC_T313, REQUEST) c
     }
   }"

definition l3dss1_reject_req ::
  "'z Dss1_scheme l3_ops \<Rightarrow> nat \<Rightarrow> 'z Dss1_scheme \<Rightarrow> 'z Dss1_scheme option" where
  "l3dss1_reject_req up a c = do {
     p \<leftarrow> pc_get a c;
     alloc_then (MsgHead (p_callref p) MT_RELEASE_COMPLETE @ cause_element (the_cause 21 p))
       (\<lambda>skb c. do {
          c \<leftarrow> l3_send up skb c;
          c \<leftarrow> new_state a 0 (l3l4 (CC_RELEASE, INDICATION) a c);
          dss1_release_l3_process up a c
        }) c
   }"

definition l3dss1_alert_req ::
  "'z Dss1_scheme l3_ops \<Rightarrow> nat \<Rightarrow> 'z Dss1_scheme \<Rightarrow> 'z Dss1_scheme option" where
  "l3dss1_alert_req up a c = do { c \<leftarrow> new_state a 7 c; send_uus up a MT_ALERTING c }"

definition l3dss1_proceed_req ::
  "'z Dss1_scheme l3_ops \<Rightarrow> nat \<Rightarrow> 'z Dss1_scheme \<Rightarrow> 'z Dss1_scheme option" where
  "l3dss1_proceed_req up a c = do {
     c \<leftarrow> new_state a 9 c;
     c \<leftarrow> l3dss1_message up a MT_CALL_PROCEEDING c;
     Some (l3l4 (CC_PROCEED_SEND, INDICATION) a c)
   }"

definition l3dss1_setup_ack_req ::
  "'z Dss1_scheme l3_ops \<Rightarrow> nat \<Rightarrow> 'z Dss1_scheme \<Rightarrow> 'z Dss1_scheme option" where
  "l3dss1_setup_ack_req up a c = do {
     c \<leftarrow> new_state a 25 c;
     c \<leftarrow> del_timer a c;
     c \<leftarrow> add_timer a T302 (CC_T302, REQUEST) c;
     l3dss1_message up a MT_SETUP_ACKNOWLEDGE c
   }"

text \<open>
  The first octet of the number is the length of a call identity. The two requests differ in
  where they take it from: the channel for SUSPEND, the process for RESUME.
\<close>

definition call_identity :: "u8 list \<Rightarrow> u8 list option option" where
  "call_identity msg = do {
     l \<leftarrow> rd msg 0;
     if l = 0 then Some (Some [])
     else if l \<le> 10 then do { i \<leftarrow> rd_list msg 1 (unat l); Some (Some ([IE_CALL_ID, l] @ i)) }
     else Some None
   }"

definition pc_chan :: "l3_process \<Rightarrow> 'z Dss1_scheme \<Rightarrow> setup_parm option" where
  "pc_chan p c = map_option (\<lambda>ch. ch_setup (d_chan c ch)) (p_chan p)"

definition l3dss1_suspend_req ::
  "'z Dss1_scheme l3_ops \<Rightarrow> nat \<Rightarrow> 'z Dss1_scheme \<Rightarrow> 'z Dss1_scheme option" where
  "l3dss1_suspend_req up a c = do {
     p \<leftarrow> pc_get a c;
     su \<leftarrow> pc_chan p c;
     r \<leftarrow> call_identity (su_phone su);
     case r of
       None \<Rightarrow> Some c
     | Some ident \<Rightarrow>
         alloc_then (MsgHead (p_callref p) MT_SUSPEND @ ident) (\<lambda>skb c. do {
           c \<leftarrow> l3_send up skb c;
           c \<leftarrow> new_state a 15 c;
           add_timer a T319 (CC_T319, REQUEST) c
         }) c
   }"

definition l3dss1_resume_req ::
  "'z Dss1_scheme l3_ops \<Rightarrow> nat \<Rightarrow> 'z Dss1_scheme \<Rightarrow> 'z Dss1_scheme option" where
  "l3dss1_resume_req up a c = do {
     p \<leftarrow> pc_get a c;
     r \<leftarrow> call_identity (su_phone (p_setup p));
     case r of
       None \<Rightarrow> Some c
     | Some ident \<Rightarrow>
         alloc_then (MsgHead (p_callref p) MT_RESUME @ ident) (\<lambda>skb c. do {
           c \<leftarrow> l3_send up skb c;
           c \<leftarrow> new_state a 17 c;
           add_timer a T318 (CC_T318, REQUEST) c
         }) c
   }"

definition l3dss1_restart ::
  "'z Dss1_scheme l3_ops \<Rightarrow> nat \<Rightarrow> 'z Dss1_scheme \<Rightarrow> 'z Dss1_scheme option" where
  "l3dss1_restart up a c = do {
     c \<leftarrow> del_timer a c;
     dss1_release_l3_process up a (l3l4 (CC_RELEASE, INDICATION) a c)
   }"

definition l3dss1_dummy :: "nat \<Rightarrow> 'z Dss1_scheme \<Rightarrow> 'z Dss1_scheme option" where
  "l3dss1_dummy a c = Some c"

subsection \<open>Deflection\<close>

definition redir_facility :: "u8 \<Rightarrow> u8 list \<Rightarrow> u8 list option \<Rightarrow> u8 \<Rightarrow> u8 list" where
  "redir_facility invoke phone sub screen =
     (let len_phone = of_nat (length phone);
          len_sub = (case sub of None \<Rightarrow> 0 | Some s \<Rightarrow> of_nat (length s) + 2) in
      [0x1c, len_phone + len_sub + 2 + 2 + 8 + 3 + 3, 0x91, 0xa1,
       len_phone + len_sub + 2 + 2 + 8 + 3, 0x02, 0x01, invoke, 0x02, 0x01, 0x0D,
       0x30, len_phone + 2 + 2 + 3 + len_sub, 0x30, len_phone + 2 + len_sub, 0x80, len_phone] @ phone @
      (case sub of None \<Rightarrow> [] | Some s \<Rightarrow> [0x04, of_nat (length s)] @ s) @
      [0x01, 0x01, screen])"

definition l3dss1_redir_req ::
  "'z Dss1_scheme l3_ops \<Rightarrow> nat \<Rightarrow> 'z Dss1_scheme \<Rightarrow> 'z Dss1_scheme option" where
  "l3dss1_redir_req up a c = do {
     p \<leftarrow> pc_get a c;
     su \<leftarrow> pc_chan p c;
     eaz \<leftarrow> cstr (su_eazmsn su);
     uus \<leftarrow> put_str (p_uus1_data p) 0 eaz;
     c \<leftarrow> pc_mod a (\<lambda>p. p\<lparr>p_uus1_data := uus\<rparr>) c;
     phone \<leftarrow> cstr (su_phone su);
     if phone = [] then do {
       c \<leftarrow> set_cause a (-1) c;
       l3dss1_disconnect_req up a c
     }
     else do {
       let c = (if p_invoke_id p \<noteq> 0 then free_invoke_id (p_invoke_id p) c else c);
       (ii, c) \<leftarrow> new_invoke_id c;
       c \<leftarrow> pc_mod a (\<lambda>p. p\<lparr>p_invoke_id := ii\<rparr>) c;
       if ii = 0 then Some c
       else do {
         let m = MsgHead (p_callref p) MT_FACILITY @
           redir_facility ii (fst (split_sub phone)) (snd (split_sub phone)) (su_screen su);
         if 128 < length m then None else alloc_then m (l3_send up) c
       }
     }
   }"

definition l3dss1_redir_req_early ::
  "'z Dss1_scheme l3_ops \<Rightarrow> nat \<Rightarrow> 'z Dss1_scheme \<Rightarrow> 'z Dss1_scheme option" where
  "l3dss1_redir_req_early up a c = do { c \<leftarrow> l3dss1_proceed_req up a c; l3dss1_redir_req up a c }"

subsection \<open>Timers\<close>

definition timed_out :: "nat \<Rightarrow> u8 \<Rightarrow> 'z Layer3_scheme \<Rightarrow> 'z Layer3_scheme option" where
  "timed_out a cause = pc_mod a (\<lambda>p. p\<lparr>p_loc := 0, p_cause := cause\<rparr>)"

definition l3dss1_t302 ::
  "'z Dss1_scheme l3_ops \<Rightarrow> nat \<Rightarrow> 'z Dss1_scheme \<Rightarrow> 'z Dss1_scheme option" where
  "l3dss1_t302 up a c = do {
     c \<leftarrow> del_timer a c;
     c \<leftarrow> timed_out a 28 c;
     c \<leftarrow> l3dss1_disconnect_req up a c;
     Some (l3l4 (CC_SETUP_ERR, REQUEST) a c)
   }"

definition l3dss1_t303 ::
  "'z Dss1_scheme l3_ops \<Rightarrow> nat \<Rightarrow> 'z Dss1_scheme \<Rightarrow> 'z Dss1_scheme option" where
  "l3dss1_t303 up a c = do {
     p \<leftarrow> pc_get a c;
     if p_N303 p > 0 then do {
       c \<leftarrow> pc_mod a (\<lambda>p. p\<lparr>p_N303 := p_N303 p - 1\<rparr>) c;
       c \<leftarrow> del_timer a c;
       l3dss1_setup_req up a c
     }
     else do {
       c \<leftarrow> del_timer a c;
       c \<leftarrow> l3dss1_message_cause up a MT_RELEASE_COMPLETE 102 c;
       dss1_release_l3_process up a (l3l4 (CC_NOSETUP_RSP, REQUEST) a c)
     }
   }"

definition l3dss1_t304 ::
  "'z Dss1_scheme l3_ops \<Rightarrow> nat \<Rightarrow> 'z Dss1_scheme \<Rightarrow> 'z Dss1_scheme option" where
  "l3dss1_t304 up a c = do {
     c \<leftarrow> del_timer a c;
     c \<leftarrow> timed_out a 102 c;
     c \<leftarrow> l3dss1_disconnect_req up a c;
     Some (l3l4 (CC_SETUP_ERR, REQUEST) a c)
   }"

definition l3dss1_t305 ::
  "'z Dss1_scheme l3_ops \<Rightarrow> nat \<Rightarrow> 'z Dss1_scheme \<Rightarrow> 'z Dss1_scheme option" where
  "l3dss1_t305 up a c = do {
     c \<leftarrow> del_timer a c;
     p \<leftarrow> pc_get a c;
     alloc_then (MsgHead (p_callref p) MT_RELEASE @ cause_element (the_cause 16 p))
       (\<lambda>skb c. do {
          c \<leftarrow> new_state a 19 c;
          c \<leftarrow> l3_send up skb c;
          add_timer a T308 (CC_T308_1, REQUEST) c
        }) c
   }"

definition l3dss1_t310 ::
  "'z Dss1_scheme l3_ops \<Rightarrow> nat \<Rightarrow> 'z Dss1_scheme \<Rightarrow> 'z Dss1_scheme option" where
  "l3dss1_t310 up a c = do {
     c \<leftarrow> del_timer a c;
     c \<leftarrow> timed_out a 102 c;
     c \<leftarrow> l3dss1_disconnect_req up a c;
     Some (l3l4 (CC_SETUP_ERR, REQUEST) a c)
   }"

definition l3dss1_t313 ::
  "'z Dss1_scheme l3_ops \<Rightarrow> nat \<Rightarrow> 'z Dss1_scheme \<Rightarrow> 'z Dss1_scheme option" where
  "l3dss1_t313 up a c = do {
     c \<leftarrow> del_timer a c;
     c \<leftarrow> timed_out a 102 c;
     c \<leftarrow> l3dss1_disconnect_req up a c;
     Some (l3l4 (CC_CONNECT_ERR, REQUEST) a c)
   }"

definition l3dss1_t308_1 ::
  "'z Dss1_scheme l3_ops \<Rightarrow> nat \<Rightarrow> 'z Dss1_scheme \<Rightarrow> 'z Dss1_scheme option" where
  "l3dss1_t308_1 up a c = do {
     c \<leftarrow> new_state a 19 c;
     c \<leftarrow> del_timer a c;
     c \<leftarrow> l3dss1_message up a MT_RELEASE c;
     add_timer a T308 (CC_T308_2, REQUEST) c
   }"

definition l3dss1_t308_2 ::
  "'z Dss1_scheme l3_ops \<Rightarrow> nat \<Rightarrow> 'z Dss1_scheme \<Rightarrow> 'z Dss1_scheme option" where
  "l3dss1_t308_2 up a c = do {
     c \<leftarrow> del_timer a c;
     dss1_release_l3_process up a (l3l4 (CC_RELEASE_ERR, REQUEST) a c)
   }"

definition l3dss1_t318 ::
  "'z Dss1_scheme l3_ops \<Rightarrow> nat \<Rightarrow> 'z Dss1_scheme \<Rightarrow> 'z Dss1_scheme option" where
  "l3dss1_t318 up a c = do {
     c \<leftarrow> del_timer a c;
     c \<leftarrow> timed_out a 102 c;
     c \<leftarrow> new_state a 19 (l3l4 (CC_RESUME_ERR, REQUEST) a c);
     c \<leftarrow> l3dss1_message up a MT_RELEASE c;
     add_timer a T308 (CC_T308_1, REQUEST) c
   }"

definition l3dss1_t319 ::
  "'z Dss1_scheme l3_ops \<Rightarrow> nat \<Rightarrow> 'z Dss1_scheme \<Rightarrow> 'z Dss1_scheme option" where
  "l3dss1_t319 up a c = do {
     c \<leftarrow> del_timer a c;
     c \<leftarrow> timed_out a 102 c;
     new_state a 10 (l3l4 (CC_SUSPEND_ERR, REQUEST) a c)
   }"

definition l3dss1_io_timer ::
  "'z Dss1_scheme l3_ops \<Rightarrow> nat \<Rightarrow> 'z Dss1_scheme \<Rightarrow> 'z Dss1_scheme option" where
  "l3dss1_io_timer up a c = do {
     c \<leftarrow> del_timer a c;
     p \<leftarrow> pc_get a c;
     c \<leftarrow> pc_mod a (\<lambda>p. p\<lparr>p_invoke_id := 0\<rparr>) (free_invoke_id (p_invoke_id p) c);
     dss1_release_l3_process up a
       (statcallb (StatInvokeErr (p_invoke_id p) (p_ll_id p) (p_proc p) (-1)) c)
   }"

subsection \<open>When the link changes\<close>

definition l3dss1_dl_reset ::
  "'z Dss1_scheme l3_ops \<Rightarrow> nat \<Rightarrow> 'z Dss1_scheme \<Rightarrow> 'z Dss1_scheme option" where
  "l3dss1_dl_reset up a c = do {
     c \<leftarrow> timed_out a 0x29 c;
     c \<leftarrow> l3dss1_disconnect_req up a c;
     Some (l3l4 (CC_SETUP_ERR, REQUEST) a c)
   }"

text \<open>This one does not free the invoke identifier of the process.\<close>

definition l3dss1_dl_release ::
  "'z Dss1_scheme l3_ops \<Rightarrow> nat \<Rightarrow> 'z Dss1_scheme \<Rightarrow> 'z Dss1_scheme option" where
  "l3dss1_dl_release up a c = do {
     c \<leftarrow> new_state a 0 c;
     c \<leftarrow> timed_out a 0x1b c;
     release_l3_process up a (l3l4 (CC_RELEASE, INDICATION) a c)
   }"

definition l3dss1_dl_reestablish ::
  "'z Dss1_scheme l3_ops \<Rightarrow> nat \<Rightarrow> 'z Dss1_scheme \<Rightarrow> 'z Dss1_scheme option" where
  "l3dss1_dl_reestablish up a c = do {
     c \<leftarrow> del_timer a c;
     c \<leftarrow> add_timer a T309 (CC_T309, REQUEST) c;
     l3_msg up (DL_ESTABLISH, REQUEST) None c
   }"

definition l3dss1_dl_reest_status ::
  "'z Dss1_scheme l3_ops \<Rightarrow> nat \<Rightarrow> 'z Dss1_scheme \<Rightarrow> 'z Dss1_scheme option" where
  "l3dss1_dl_reest_status up a c = do {
     c \<leftarrow> del_timer a c;
     c \<leftarrow> set_cause a 0x1F c;
     l3dss1_status_send up a c
   }"

subsection \<open>Tables and dispatch\<close>

text \<open>A row: the states it is for, the primitive, the handler.\<close>

datatype ('p, 'r) stateentry =
  stateentry (se_state: "nat list") (se_primitive: 'p) (se_rout: 'r)

definition ALL_STATES :: "nat list" where
  "ALL_STATES = [0..<26]"

text \<open>The first row for the primitive and the state.\<close>

definition find_entry :: "('p, 'r) stateentry list \<Rightarrow> 'p \<Rightarrow> nat \<Rightarrow> 'r option" where
  "find_entry tbl pr st =
     map_option se_rout (List.find (\<lambda>e. se_primitive e = pr \<and> st \<in> set (se_state e)) tbl)"

type_synonym 'z dss1_rout = "nat \<Rightarrow> 'z Dss1_scheme \<Rightarrow> 'z Dss1_scheme option"

definition downstatelist ::
  "'z Dss1_scheme l3_ops \<Rightarrow> (cc_prim, 'z dss1_rout) stateentry list" where
  "downstatelist up =
    [stateentry [0] (CC_SETUP, REQUEST) (l3dss1_setup_req up),
     stateentry [0] (CC_RESUME, REQUEST) (l3dss1_resume_req up),
     stateentry [1, 2, 3, 4, 6, 7, 8, 9, 10, 25] (CC_DISCONNECT, REQUEST) (l3dss1_disconnect_req up),
     stateentry [12] (CC_RELEASE, REQUEST) (l3dss1_release_req up),
     stateentry ALL_STATES (CC_RESTART, REQUEST) (l3dss1_restart up),
     stateentry [6, 25] (CC_IGNORE, REQUEST) (l3dss1_reset up),
     stateentry [6, 25] (CC_REJECT, REQUEST) (l3dss1_reject_req up),
     stateentry [6, 25] (CC_PROCEED_SEND, REQUEST) (l3dss1_proceed_req up),
     stateentry [6] (CC_MORE_INFO, REQUEST) (l3dss1_setup_ack_req up),
     stateentry [25] (CC_MORE_INFO, REQUEST) l3dss1_dummy,
     stateentry [6, 9, 25] (CC_ALERTING, REQUEST) (l3dss1_alert_req up),
     stateentry [6, 7, 9, 25] (CC_SETUP, RESPONSE) (l3dss1_setup_rsp up),
     stateentry [10] (CC_SUSPEND, REQUEST) (l3dss1_suspend_req up),
     stateentry [7, 9, 25] (CC_REDIR, REQUEST) (l3dss1_redir_req up),
     stateentry [6] (CC_REDIR, REQUEST) (l3dss1_redir_req_early up),
     stateentry [9, 25] (CC_DISCONNECT, REQUEST) (l3dss1_disconnect_req up),
     stateentry [25] (CC_T302, REQUEST) (l3dss1_t302 up),
     stateentry [1] (CC_T303, REQUEST) (l3dss1_t303 up),
     stateentry [2] (CC_T304, REQUEST) (l3dss1_t304 up),
     stateentry [3] (CC_T310, REQUEST) (l3dss1_t310 up),
     stateentry [8] (CC_T313, REQUEST) (l3dss1_t313 up),
     stateentry [11] (CC_T305, REQUEST) (l3dss1_t305 up),
     stateentry [15] (CC_T319, REQUEST) (l3dss1_t319 up),
     stateentry [17] (CC_T318, REQUEST) (l3dss1_t318 up),
     stateentry [19] (CC_T308_1, REQUEST) (l3dss1_t308_1 up),
     stateentry [19] (CC_T308_2, REQUEST) (l3dss1_t308_2 up),
     stateentry [10] (CC_T309, REQUEST) (l3dss1_dl_release up)]"

definition manstatelist ::
  "'z Dss1_scheme l3_ops \<Rightarrow> (prim, 'z dss1_rout) stateentry list" where
  "manstatelist up =
    [stateentry [2] (DL_ESTABLISH, INDICATION) (l3dss1_dl_reset up),
     stateentry [10] (DL_ESTABLISH, CONFIRM) (l3dss1_dl_reest_status up),
     stateentry [10] (DL_RELEASE, INDICATION) (l3dss1_dl_reestablish up),
     stateentry ALL_STATES (DL_RELEASE, INDICATION) (l3dss1_dl_release up)]"

definition dss1man ::
  "'z Dss1_scheme l3_ops \<Rightarrow> prim \<Rightarrow> nat \<Rightarrow> 'z Dss1_scheme \<Rightarrow> 'z Dss1_scheme option" where
  "dss1man up pr a c = do {
     p \<leftarrow> pc_get a c;
     case find_entry (manstatelist up) pr (p_state p) of
       None \<Rightarrow> Some c
     | Some rout \<Rightarrow> rout a c
   }"

definition newcallref_st :: "'z Dss1_scheme \<Rightarrow> int \<times> 'z Dss1_scheme" where
  "newcallref_st c =
     (let r = newcallref (d_OrigCallRef c) in (r, c\<lparr>d_OrigCallRef := r\<rparr>))"

text \<open>A new call takes the numbers of its channel, and the channel learns its process.\<close>

definition attach_channel :: "nat \<Rightarrow> nat \<Rightarrow> int \<Rightarrow> 'z Dss1_scheme \<Rightarrow> 'z Dss1_scheme" where
  "attach_channel ch a cr c =
     pc_upd a (\<lambda>p. p\<lparr>p_chan := Some ch, p_setup := ch_setup (d_chan c ch), p_callref := cr\<rparr>)
       (c\<lparr>d_chan := (d_chan c)(ch := (d_chan c ch)\<lparr>ch_proc := Some a\<rparr>)\<rparr>)"

datatype down_arg = ArgNone | ArgChan nat | ArgProc nat

definition dss1down_proc ::
  "'z Dss1_scheme l3_ops \<Rightarrow> cc_prim \<Rightarrow> nat \<Rightarrow> 'z Dss1_scheme \<Rightarrow> 'z Dss1_scheme option" where
  "dss1down_proc up pr a c = do {
     p \<leftarrow> pc_get a c;
     if pr = (CC_TDSS1_IO, REQUEST) then l3dss1_io_timer up a c
     else case find_entry (downstatelist up) pr (p_state p) of
       None \<Rightarrow> Some c
     | Some rout \<Rightarrow> rout a c
   }"

definition dss1down ::
  "'z Dss1_scheme l3_ops \<Rightarrow> cc_prim \<Rightarrow> down_arg \<Rightarrow> 'z Dss1_scheme \<Rightarrow> 'z Dss1_scheme option" where
  "dss1down up pr arg c =
     (if pr = (CC_SETUP, REQUEST) \<or> pr = (CC_RESUME, REQUEST) then
        (case arg of
           ArgChan ch \<Rightarrow>
             (case newcallref_st c of (r, c) \<Rightarrow>
                let cr = word_of_int r OR 0x80 in
                case dss1_new_l3_process (uint (cr :: u8)) c of
                  (None, c) \<Rightarrow> Some c
                | (Some a, c) \<Rightarrow> dss1down_proc up pr a (attach_channel ch a (uint cr) c))
         | _ \<Rightarrow> None)
      else
        (case arg of
           ArgProc a \<Rightarrow> dss1down_proc up pr a c
         | ArgNone \<Rightarrow> Some c
         | ArgChan ch \<Rightarrow> None))"

text \<open>The request for the link comes with a primitive of layer 2.\<close>

definition dss1down_link ::
  "'z Dss1_scheme l3_ops \<Rightarrow> 'z Dss1_scheme \<Rightarrow> 'z Dss1_scheme option" where
  "dss1down_link up c = l3_msg up (DL_ESTABLISH, REQUEST) None c"

text \<open>\<open>L3ExpireTimer\<close>: the timer of a process is a request of its own.\<close>

definition L3ExpireTimer ::
  "'z Dss1_scheme l3_ops \<Rightarrow> nat \<Rightarrow> 'z Dss1_scheme \<Rightarrow> 'z Dss1_scheme option" where
  "L3ExpireTimer up a c = do {
     p \<leftarrow> pc_get a c;
     if lt_pending (p_timer p)
     then dss1down up (lt_event (p_timer p)) (ArgProc a) (pc_upd a L3DelTimer c)
     else Some c
   }"

text \<open>
  The operations a protocol gives layer 3. The protocol itself calls layer 3 again; the second
  level of that is enough, since a call from the inner level reaches no process.
\<close>

primrec dss1_ops :: "'z Dss1_scheme l3_ops \<Rightarrow> nat \<Rightarrow> 'z Dss1_scheme l3_ops" where
  "dss1_ops dn 0 = dn\<lparr>op_l3ml3 := \<lambda>pr a c. None\<rparr>"
| "dss1_ops dn (Suc n) = dn\<lparr>op_l3ml3 := dss1man (dss1_ops dn n)\<rparr>"

subsection \<open>Remote operations outside a call\<close>

text \<open>
  The loop that is meant to count the octets of \<open>proc\<close> steps its own variable up after each shift;
  from a positive number on it never reaches zero.
\<close>

partial_function (option) proc_len_loop :: "int \<Rightarrow> nat option" where
  "proc_len_loop i = (if i = 0 then Some 1 else proc_len_loop (drop_bit 8 i + 1))"

declare proc_len_loop.simps [code]

record dss1_io =
  io_datalen :: int
  io_proc :: int
  io_timeout :: int
  io_ll_id :: u32
  io_hl_id :: int
  io_data :: "u8 list"

datatype dss1_cmd = DSS1_CMD_INVOKE dss1_io | DSS1_CMD_INVOKE_ABORT dss1_io | DSS1_CMD_OTHER

definition invoke_message :: "u8 \<Rightarrow> nat \<Rightarrow> int \<Rightarrow> u8 list \<Rightarrow> u8 list" where
  "invoke_message ii proc_len proc data =
     (let l = of_nat (length data + proc_len + 8) in
      MsgHead (-1) MT_FACILITY @
      [0x1C, l, 0x91, 0xA1, l - 3, 0x02, 0x01, ii, 0x02, of_nat proc_len] @
      map (\<lambda>i. word_of_int (drop_bit (i - 1) proc)) (rev [1..<Suc proc_len]) @ data)"

text \<open>The result is the return value; the second one is the identifier handed back.\<close>

definition l3dss1_cmd_invoke ::
  "'z Dss1_scheme l3_ops \<Rightarrow> dss1_io \<Rightarrow> 'z Dss1_scheme \<Rightarrow> (int \<times> int \<times> 'z Dss1_scheme) option" where
  "l3dss1_cmd_invoke up io c =
     (if io_datalen io < 0 then Some (-2, io_hl_id io, c)
      else do {
        proc_len \<leftarrow> proc_len_loop (drop_bit 8 (io_proc io));
        if 255 < io_datalen io + int proc_len + 8 then Some (-2, io_hl_id io, c)
        else do {
          (ii, c) \<leftarrow> new_invoke_id c;
          if ii = 0 then Some (0, io_hl_id io, c)
          else do {
            data \<leftarrow> rd_list (io_data io) 0 (nat (io_datalen io));
            let (pc, c) = (if io_timeout io > 0 then dss1_new_l3_process (-1) c else (None, c));
            if io_timeout io > 0 \<and> pc = None then Some (-2, io_hl_id io, free_invoke_id ii c)
            else do {
              a \<leftarrow> pc;
              c \<leftarrow> pc_mod a (\<lambda>p. p\<lparr>p_ll_id := io_ll_id io, p_proc := io_proc io\<rparr>) c;
              let (skb, e) = l3_alloc_skb (invoke_message ii proc_len (io_proc io) data) (l3_kenv c);
              let c = c\<lparr>l3_kenv := e\<rparr>;
              case skb of
                None \<Rightarrow> do {
                  c \<leftarrow> dss1_release_l3_process up a (free_invoke_id ii c);
                  Some (-2, io_hl_id io, c)
                }
              | Some skb \<Rightarrow> do {
                  c \<leftarrow> pc_mod a (\<lambda>p. p\<lparr>p_invoke_id := ii\<rparr>) c;
                  c \<leftarrow> add_timer a (io_timeout io) (CC_TDSS1_IO, REQUEST) c;
                  c \<leftarrow> l3_send up skb c;
                  Some (0, uint ii, c)
                }
            }
          }
        }
      })"

definition l3dss1_cmd_abort ::
  "'z Dss1_scheme l3_ops \<Rightarrow> dss1_io \<Rightarrow> 'z Dss1_scheme \<Rightarrow> (int \<times> int \<times> 'z Dss1_scheme) option" where
  "l3dss1_cmd_abort up io c =
     (case l3dss1_search_dummy_proc (io_hl_id io) c of
        None \<Rightarrow> Some (-2, io_hl_id io, c)
      | Some a \<Rightarrow> do {
          c \<leftarrow> del_timer a c;
          c \<leftarrow> dss1_release_l3_process up a c;
          Some (0, io_hl_id io, c)
        })"

definition l3dss1_cmd_global ::
  "'z Dss1_scheme l3_ops \<Rightarrow> dss1_cmd \<Rightarrow> 'z Dss1_scheme \<Rightarrow> (int \<times> int \<times> 'z Dss1_scheme) option" where
  "l3dss1_cmd_global up cmd c =
     (case cmd of
        DSS1_CMD_INVOKE io \<Rightarrow> l3dss1_cmd_invoke up io c
      | DSS1_CMD_INVOKE_ABORT io \<Rightarrow> l3dss1_cmd_abort up io c
      | DSS1_CMD_OTHER \<Rightarrow> Some (-1, 0, c))"

subsection \<open>Setting a stack up\<close>

definition setstack_dss1 :: "'z Dss1_scheme \<Rightarrow> 'z Dss1_scheme" where
  "setstack_dss1 c =
     (let c = c\<lparr>l3_N303 := 1, d_last_invoke_id := 0, d_invoke_used := 1 # replicate 31 0\<rparr> in
      case k_alloc (l3_kenv c) of (ok, k) \<Rightarrow>
        if \<not> ok then c\<lparr>l3_kenv := k, l3_global := None\<rparr>
        else (let a = l3_next_addr c;
                  g = L3InitTimer ((l3_fresh c a)\<lparr>p_addr := a, p_state := 0, p_callref := 0,
                                                 p_N303 := 1, p_invoke_id := 0\<rparr>)
              in c\<lparr>l3_kenv := k, l3_next_addr := Suc a, l3_global := Some g\<rparr>))"

end
