(* ===== verification/Hisax_Callc.thy ===== *)
theory Hisax_Callc
  imports Hisax_Dss1_Down
begin

text \<open>
  The call control of HiSax, \<open>hisax/callc.c\<close>: between the link level of the kernel, which dials,
  accepts and hangs up, and the D and B channel stacks of a card. Every channel has a state machine
  of 13 states and two timers. The calls that a channel makes are recorded in order: to the link
  level (\<open>LL\<close>), to the D channel protocol (\<open>L4L3\<close>), to its B channel stack and to the card. What
  they lead to comes back in a later event. A call of the D channel is an object of the protocol
  below; the channel has a pointer to it, which may dangle.
\<close>

subsection \<open>State\<close>

datatype card_info = MDL_INFO_SETUP | MDL_INFO_CONN | MDL_INFO_REL

datatype ll_stat =
  STAT_ICALL bool setup_parm
| STAT_ICALL_LEASED bool string string
| STAT_ALERT | STAT_PROCEED | STAT_DCONN
| STAT_BCONN "u8 list"
| STAT_CINF string
| STAT_REDIR u32
| STAT_CAUSE string
| STAT_BHUP | STAT_DHUP
| STAT_BSENT int
| STAT_DISCH bool

datatype b_kind = B_X75 | B_TRANS

datatype callc_out =
  LL ll_stat
| L4L3 cc_prim down_arg
| CardMsg card_info
| BL4L3 prim
| BC_SetStack bool
| SetStack b_kind bool
| BC_Close
| RelStack b_kind
| RcvSkb sk_buff
| BData prim sk_buff
| AuxInd "u8 list"

text \<open>What \<open>init_b_st\<close> sets in the stack of the B channel.\<close>

record BSt =
  bs_bc :: int
  bs_mode :: nat
  bs_orig :: bool
  bs_maxlen :: nat
  bs_window :: nat
  bs_T200 :: int
  bs_N200 :: int
  bs_T203 :: int
  bs_delay :: int

record LliChan =
  li_state :: nat
  li_drel :: FsmTimer
  li_dial :: FsmTimer
  li_incoming :: bool
  li_l2_protocol :: nat
  li_l2_active :: nat
  li_l3_protocol :: nat
  li_data_open :: bool
  li_proc :: "nat option"
  li_setup :: setup_parm
  li_start_b :: bool
  li_leased :: bool
  li_b_st :: BSt
  li_conmsg :: "u8 list option"
  li_tx_cnt :: nat
  li_b_alloc :: bool
  li_d_st :: bool
  li_out :: "callc_out list"

text \<open>The D channel stack, as far as call control changes it.\<close>

record DSt =
  dt_ptp :: bool
  dt_fixed :: bool
  dt_tei :: int
  dt_leased :: bool
  dt_alive :: bool
  dt_out :: "prim list"

text \<open>
  A card: its channels and D channel stacks (\<open>cc_two\<close>: \<open>FLG_TWO_DCHAN\<close>), the processes of the
  protocol that are alive, and the environment: what the link level answers to an incoming call
  (\<open>cc_answer\<close>, with the setup it may have changed), whether the driver accepts a B channel stack
  (\<open>cc_bcset\<close>), memory and time.
\<close>

record Callc =
  cc_ch :: "LliChan list"
  cc_dst :: "DSt list"
  cc_two :: bool
  cc_chanlimit :: nat
  cc_myid :: nat
  cc_protocol :: nat
  cc_auxcmd :: "int option"
  cc_elsa :: bool
  cc_procs :: "l3_process list"
  cc_next :: nat
  cc_fresh :: "nat \<Rightarrow> l3_process"
  cc_answer :: "nat \<Rightarrow> int \<times> setup_parm"
  cc_bcset :: "nat \<Rightarrow> bool"
  cc_kenv :: kenv
  cc_use :: int

abbreviation (input) ST_NULL :: nat where "ST_NULL \<equiv> 0"
abbreviation (input) ST_OUT_DIAL :: nat where "ST_OUT_DIAL \<equiv> 1"
abbreviation (input) ST_IN_WAIT_LL :: nat where "ST_IN_WAIT_LL \<equiv> 2"
abbreviation (input) ST_IN_ALERT_SENT :: nat where "ST_IN_ALERT_SENT \<equiv> 3"
abbreviation (input) ST_IN_WAIT_CONN_ACK :: nat where "ST_IN_WAIT_CONN_ACK \<equiv> 4"
abbreviation (input) ST_WAIT_BCONN :: nat where "ST_WAIT_BCONN \<equiv> 5"
abbreviation (input) ST_ACTIVE :: nat where "ST_ACTIVE \<equiv> 6"
abbreviation (input) ST_WAIT_BRELEASE :: nat where "ST_WAIT_BRELEASE \<equiv> 7"
abbreviation (input) ST_WAIT_BREL_DISC :: nat where "ST_WAIT_BREL_DISC \<equiv> 8"
abbreviation (input) ST_WAIT_DCOMMAND :: nat where "ST_WAIT_DCOMMAND \<equiv> 9"
abbreviation (input) ST_WAIT_DRELEASE :: nat where "ST_WAIT_DRELEASE \<equiv> 10"
abbreviation (input) ST_WAIT_D_REL_CNF :: nat where "ST_WAIT_D_REL_CNF \<equiv> 11"
abbreviation (input) ST_IN_PROCEED_SEND :: nat where "ST_IN_PROCEED_SEND \<equiv> 12"
abbreviation (input) CC_STATE_COUNT :: nat where "CC_STATE_COUNT \<equiv> 13"

abbreviation (input) EV_DIAL :: nat where "EV_DIAL \<equiv> 0"
abbreviation (input) EV_SETUP_CNF :: nat where "EV_SETUP_CNF \<equiv> 1"
abbreviation (input) EV_ACCEPTB :: nat where "EV_ACCEPTB \<equiv> 2"
abbreviation (input) EV_DISCONNECT_IND :: nat where "EV_DISCONNECT_IND \<equiv> 3"
abbreviation (input) EV_RELEASE :: nat where "EV_RELEASE \<equiv> 4"
abbreviation (input) EV_LEASED :: nat where "EV_LEASED \<equiv> 5"
abbreviation (input) EV_LEASED_REL :: nat where "EV_LEASED_REL \<equiv> 6"
abbreviation (input) EV_SETUP_IND :: nat where "EV_SETUP_IND \<equiv> 7"
abbreviation (input) EV_ACCEPTD :: nat where "EV_ACCEPTD \<equiv> 8"
abbreviation (input) EV_SETUP_CMPL_IND :: nat where "EV_SETUP_CMPL_IND \<equiv> 9"
abbreviation (input) EV_BC_EST :: nat where "EV_BC_EST \<equiv> 10"
abbreviation (input) EV_WRITEBUF :: nat where "EV_WRITEBUF \<equiv> 11"
abbreviation (input) EV_HANGUP :: nat where "EV_HANGUP \<equiv> 12"
abbreviation (input) EV_BC_REL :: nat where "EV_BC_REL \<equiv> 13"
abbreviation (input) EV_CINF :: nat where "EV_CINF \<equiv> 14"
abbreviation (input) EV_SUSPEND :: nat where "EV_SUSPEND \<equiv> 15"
abbreviation (input) EV_RESUME :: nat where "EV_RESUME \<equiv> 16"
abbreviation (input) EV_NOSETUP_RSP :: nat where "EV_NOSETUP_RSP \<equiv> 17"
abbreviation (input) EV_SETUP_ERR :: nat where "EV_SETUP_ERR \<equiv> 18"
abbreviation (input) EV_CONNECT_ERR :: nat where "EV_CONNECT_ERR \<equiv> 19"
abbreviation (input) EV_PROCEED :: nat where "EV_PROCEED \<equiv> 20"
abbreviation (input) EV_ALERT :: nat where "EV_ALERT \<equiv> 21"
abbreviation (input) EV_REDIR :: nat where "EV_REDIR \<equiv> 22"
abbreviation (input) EV_ALERTING :: nat where "EV_ALERTING \<equiv> 23"
abbreviation (input) EV_PROCEEDING :: nat where "EV_PROCEEDING \<equiv> 24"
abbreviation (input) CC_EVENT_COUNT :: nat where "CC_EVENT_COUNT \<equiv> 25"

abbreviation (input) MAX_WAITING_CALLS :: nat where "MAX_WAITING_CALLS \<equiv> 2"
abbreviation (input) ISDN_PTYPE_EURO :: nat where "ISDN_PTYPE_EURO \<equiv> 2"

abbreviation (input) ISDN_PROTO_L2_X75I :: nat where "ISDN_PROTO_L2_X75I \<equiv> 0"
abbreviation (input) ISDN_PROTO_L2_HDLC :: nat where "ISDN_PROTO_L2_HDLC \<equiv> 3"
abbreviation (input) ISDN_PROTO_L2_TRANS :: nat where "ISDN_PROTO_L2_TRANS \<equiv> 4"
abbreviation (input) ISDN_PROTO_L2_MODEM :: nat where "ISDN_PROTO_L2_MODEM \<equiv> 10"
abbreviation (input) ISDN_PROTO_L2_FAX :: nat where "ISDN_PROTO_L2_FAX \<equiv> 11"
abbreviation (input) ISDN_PROTO_L2_HDLC_56K :: nat where "ISDN_PROTO_L2_HDLC_56K \<equiv> 12"

definition HSCX_BUFMAX :: nat where "HSCX_BUFMAX = 4096"
definition MAX_DATA_SIZE :: nat where "MAX_DATA_SIZE = HSCX_BUFMAX - 4"
definition MAX_DATA_MEM :: nat where "MAX_DATA_MEM = HSCX_BUFMAX + 64"

subsection \<open>Access\<close>

abbreviation ch_at :: "nat \<Rightarrow> Callc \<Rightarrow> LliChan" where
  "ch_at k c \<equiv> cc_ch c ! k"

definition upd_ch :: "nat \<Rightarrow> (LliChan \<Rightarrow> LliChan) \<Rightarrow> Callc \<Rightarrow> Callc" where
  "upd_ch k f c = c\<lparr>cc_ch := (cc_ch c)[k := f (ch_at k c)]\<rparr>"

definition out_ch :: "nat \<Rightarrow> callc_out \<Rightarrow> Callc \<Rightarrow> Callc" where
  "out_ch k o1 = upd_ch k (\<lambda>l. l\<lparr>li_out := li_out l @ [o1]\<rparr>)"

definition set_fi :: "nat \<Rightarrow> nat \<Rightarrow> Callc \<Rightarrow> Callc" where
  "set_fi k n = upd_ch k (\<lambda>l. l\<lparr>li_state := n\<rparr>)"

definition HL_LL :: "nat \<Rightarrow> ll_stat \<Rightarrow> Callc \<Rightarrow> Callc" where
  "HL_LL k st = out_ch k (LL st)"

definition del_drel :: "nat \<Rightarrow> Callc \<Rightarrow> Callc" where
  "del_drel k = upd_ch k (\<lambda>l. l\<lparr>li_drel := FsmDelTimer (li_drel l)\<rparr>)"

definition del_dial :: "nat \<Rightarrow> Callc \<Rightarrow> Callc" where
  "del_dial k = upd_ch k (\<lambda>l. l\<lparr>li_dial := FsmDelTimer (li_dial l)\<rparr>)"

definition card_msg :: "nat \<Rightarrow> card_info \<Rightarrow> Callc \<Rightarrow> Callc" where
  "card_msg k i = out_ch k (CardMsg i)"

text \<open>The D channel stack of a channel: all channels share the first, unless there are two.\<close>

definition dst_ix :: "nat \<Rightarrow> Callc \<Rightarrow> nat" where
  "dst_ix k c = (if cc_two c \<and> k = 1 then 1 else 0)"

text \<open>The process of a channel. A null pointer and a freed process are a fault.\<close>

definition find_pc :: "nat \<Rightarrow> Callc \<Rightarrow> l3_process option" where
  "find_pc a c = List.find (\<lambda>p. p_addr p = a) (cc_procs c)"

definition proc_at :: "nat \<Rightarrow> Callc \<Rightarrow> l3_process option" where
  "proc_at k c = (case li_proc (ch_at k c) of None \<Rightarrow> None | Some a \<Rightarrow> find_pc a c)"

definition upd_pc :: "nat \<Rightarrow> (l3_process \<Rightarrow> l3_process) \<Rightarrow> Callc \<Rightarrow> Callc" where
  "upd_pc a f c = c\<lparr>cc_procs := map (at_addr a f) (cc_procs c)\<rparr>"

text \<open>\<open>if (chanp->proc) chanp->proc->para.cause = x\<close>\<close>

definition proc_cause :: "nat \<Rightarrow> u8 \<Rightarrow> Callc \<Rightarrow> Callc option" where
  "proc_cause k x c =
     (case li_proc (ch_at k c) of
        None \<Rightarrow> Some c
      | Some a \<Rightarrow> do { p \<leftarrow> find_pc a c; Some (upd_pc a (\<lambda>p. p\<lparr>p_cause := x\<rparr>) c) })"

definition proc_arg :: "nat \<Rightarrow> Callc \<Rightarrow> down_arg" where
  "proc_arg k c = (case li_proc (ch_at k c) of None \<Rightarrow> ArgNone | Some a \<Rightarrow> ArgProc a)"

text \<open>
  A new call of the protocol: \<open>dss1down\<close> allocates its process and stores it in the channel, or
  leaves the channel as it was. A D channel in leased mode knows no calls.
\<close>

definition new_call :: "nat \<Rightarrow> Callc \<Rightarrow> Callc" where
  "new_call k c =
     (case k_alloc (cc_kenv c) of (ok, kv) \<Rightarrow>
        if \<not> ok then c\<lparr>cc_kenv := kv\<rparr>
        else (let a = cc_next c;
                  p = (cc_fresh c a)\<lparr>p_addr := a, p_chan := Some k, p_setup := li_setup (ch_at k c)\<rparr>
              in upd_ch k (\<lambda>l. l\<lparr>li_proc := Some a\<rparr>)
                   (c\<lparr>cc_kenv := kv, cc_next := Suc a, cc_procs := cc_procs c @ [p]\<rparr>)))"

definition d_l4l3 :: "nat \<Rightarrow> cc_prim \<Rightarrow> down_arg \<Rightarrow> Callc \<Rightarrow> Callc" where
  "d_l4l3 k pr arg c =
     (if dt_leased (cc_dst c ! dst_ix k c) then c
      else (let c = out_ch k (L4L3 pr arg) c in
            if pr = (CC_SETUP, REQUEST) \<or> pr = (CC_RESUME, REQUEST) then new_call k c else c))"

text \<open>The call that the link level may take: its answer, and the setup after it.\<close>

definition statcallb_icall :: "nat \<Rightarrow> ll_stat \<Rightarrow> Callc \<Rightarrow> int \<times> setup_parm \<times> Callc" where
  "statcallb_icall k st c =
     (case cc_answer c 0 of (r, su) \<Rightarrow>
        (r, su, HL_LL k st (c\<lparr>cc_answer := (\<lambda>n. cc_answer c (Suc n))\<rparr>)))"

subsection \<open>Numbers in status messages\<close>

definition hex_digit :: "nat \<Rightarrow> char" where
  "hex_digit n = ''0123456789ABCDEF'' ! (n mod 16)"

definition hex2 :: "u8 \<Rightarrow> string" where
  "hex2 b = [hex_digit (unat b div 16), hex_digit (unat b)]"

fun dec_nat :: "nat \<Rightarrow> string" where
  "dec_nat n = (if n < 10 then [] else dec_nat (n div 10)) @ [hex_digit (n mod 10)]"

declare dec_nat.simps [simp del]

definition dec_int :: "int \<Rightarrow> string" where
  "dec_int i = (if i < 0 then ''-'' @ dec_nat (nat (- i)) else dec_nat (nat i))"

subsection \<open>The B channel stack\<close>

definition b_kind_of :: "nat \<Rightarrow> b_kind option" where
  "b_kind_of p =
     (if p = ISDN_PROTO_L2_X75I then Some B_X75
      else if p \<in> {ISDN_PROTO_L2_HDLC, ISDN_PROTO_L2_HDLC_56K, ISDN_PROTO_L2_TRANS,
                   ISDN_PROTO_L2_MODEM, ISDN_PROTO_L2_FAX} then Some B_TRANS
      else None)"

definition release_b_st :: "nat \<Rightarrow> Callc \<Rightarrow> Callc" where
  "release_b_st k c =
     (if li_start_b (ch_at k c) then
        (let c = out_ch k BC_Close (upd_ch k (\<lambda>l. l\<lparr>li_start_b := False\<rparr>) c) in
         case b_kind_of (li_l2_active (ch_at k c)) of
           Some kd \<Rightarrow> out_ch k (RelStack kd) c
         | None \<Rightarrow> c)
      else c)"

definition b_mode :: "nat \<Rightarrow> nat \<Rightarrow> nat" where
  "b_mode p old =
     (if p = ISDN_PROTO_L2_X75I \<or> p = ISDN_PROTO_L2_HDLC then 2
      else if p = ISDN_PROTO_L2_HDLC_56K then 4
      else if p = ISDN_PROTO_L2_TRANS then 1
      else if p = ISDN_PROTO_L2_MODEM then 8
      else if p = ISDN_PROTO_L2_FAX then 9
      else old)"

definition init_b_st :: "nat \<Rightarrow> bool \<Rightarrow> Callc \<Rightarrow> Callc option" where
  "init_b_st k incoming c = do {
     bc \<leftarrow> (if li_leased (ch_at k c) then Some (int (k mod 2))
           else do { p \<leftarrow> proc_at k c; Some (p_bchannel p - 1) });
     let proto = li_l2_active (ch_at k c);
     let c = upd_ch k (\<lambda>l. l\<lparr>li_b_st := (li_b_st l)\<lparr>bs_bc := bc, bs_mode := b_mode proto (bs_mode (li_b_st l))\<rparr>,
                            li_conmsg := None\<rparr>) c;
     let ok = cc_bcset c 0;
     let c = out_ch k (BC_SetStack ok) (c\<lparr>cc_bcset := (\<lambda>n. cc_bcset c (Suc n))\<rparr>);
     if \<not> ok then Some c
     else do {
       let c = upd_ch k (\<lambda>l. l\<lparr>li_b_st := (li_b_st l)\<lparr>bs_maxlen := MAX_DATA_SIZE, bs_orig := \<not> incoming,
                 bs_T200 := 1000, bs_window := 7, bs_N200 := 4, bs_T203 := 5000\<rparr>\<rparr>) c;
       let c = (case b_kind_of proto of Some kd \<Rightarrow> out_ch k (SetStack kd (\<not> incoming)) c | None \<Rightarrow> c);
       Some (upd_ch k (\<lambda>l. l\<lparr>li_start_b := True\<rparr>) c)
     }
   }"

definition b_l4l3 :: "nat \<Rightarrow> prim \<Rightarrow> Callc \<Rightarrow> Callc" where
  "b_l4l3 k pr = out_ch k (BL4L3 pr)"

end
