(* ===== verification/Hisax_Callc_Fsm.thy ===== *)
theory Hisax_Callc_Fsm
  imports Hisax_Callc
begin

text \<open>
  The routines of the call control (\<open>hisax/callc.c\<close>) and its state table \<open>fnlist\<close>. Every routine works
  on the channel \<open>k\<close>; the argument of the event is used by none of them.
\<close>

type_synonym lli_rout = "nat \<Rightarrow> Callc \<Rightarrow> Callc option"

subsection \<open>Clearing\<close>

definition lli_deliver_cause :: lli_rout where
  "lli_deliver_cause k c =
     (if li_proc (ch_at k c) = None then Some c
      else do {
        p \<leftarrow> proc_at k c;
        if p_cause p = NO_CAUSE then Some c
        else Some (HL_LL k (STAT_CAUSE ((if cc_protocol c = ISDN_PTYPE_EURO then ''E'' else '''') @
                 hex2 (p_loc p AND 0x7f) @ hex2 (p_cause p AND 0x7f))) c)
      })"

definition lli_close :: "nat \<Rightarrow> Callc \<Rightarrow> Callc" where
  "lli_close k c =
     card_msg k MDL_INFO_REL (upd_ch k (\<lambda>l. l\<lparr>li_start_b := False\<rparr>) (set_fi k ST_NULL c))"

definition lli_leased_hup :: "nat \<Rightarrow> Callc \<Rightarrow> Callc" where
  "lli_leased_hup k c =
     lli_close k (HL_LL k STAT_DHUP (HL_LL k (STAT_CAUSE ''L0010'') c))"

definition lli_disconnect_with :: "u8 \<Rightarrow> lli_rout" where
  "lli_disconnect_with cause k c =
     (if li_leased (ch_at k c) then Some (lli_leased_hup k c)
      else do {
        c \<leftarrow> proc_cause k cause (set_fi k ST_WAIT_DRELEASE c);
        Some (d_l4l3 k (CC_DISCONNECT, REQUEST) (proc_arg k c) c)
      })"

definition lli_disconnect_req :: lli_rout where
  "lli_disconnect_req = lli_disconnect_with 0x10"

definition lli_disconnect_reject :: lli_rout where
  "lli_disconnect_reject = lli_disconnect_with 0x15"

definition lli_dhup_close :: lli_rout where
  "lli_dhup_close k c =
     (if li_leased (ch_at k c) then Some (lli_leased_hup k c)
      else do {
        c \<leftarrow> lli_deliver_cause k c;
        Some (lli_close k (HL_LL k STAT_DHUP c))
      })"

text \<open>
  \<open>ALERT_REJECT\<close> is defined (as 0), so that \<open>#ifndef ALERT_REJECT\<close> compiles the other branch: the
  call is alerted, and hung up by a timer 40 ms later.
\<close>

definition lli_reject_req :: lli_rout where
  "lli_reject_req k c =
     (if li_leased (ch_at k c) then Some (lli_leased_hup k c)
      else (let c = upd_ch k (\<lambda>l. l\<lparr>li_drel := FsmRestartTimer (cc_kenv c) 40 EV_HANGUP (li_drel l)\<rparr>) c;
                c = set_fi k ST_IN_ALERT_SENT c
            in Some (d_l4l3 k (CC_ALERTING, REQUEST) (proc_arg k c) c)))"

definition lli_start_disc :: lli_rout where
  "lli_start_disc k c =
     (if li_leased (ch_at k c) then Some (lli_leased_hup k c) else lli_disconnect_req k c)"

definition lli_rel_b_disc :: lli_rout where
  "lli_rel_b_disc k c = lli_start_disc k (release_b_st k c)"

definition lli_bhup_disc :: lli_rout where
  "lli_bhup_disc k c = lli_rel_b_disc k (HL_LL k STAT_BHUP c)"

definition data_closed :: "nat \<Rightarrow> Callc \<Rightarrow> Callc" where
  "data_closed k = upd_ch k (\<lambda>l. l\<lparr>li_data_open := False\<rparr>)"

definition lli_disconn_bchan :: lli_rout where
  "lli_disconn_bchan k c =
     Some (b_l4l3 k (DL_RELEASE, REQUEST) (set_fi k ST_WAIT_BRELEASE (data_closed k c)))"

definition lli_bhup_rel_b :: lli_rout where
  "lli_bhup_rel_b k c =
     Some (release_b_st k (HL_LL k STAT_BHUP (data_closed k (set_fi k ST_WAIT_DCOMMAND c))))"

definition lli_release_bchan :: lli_rout where
  "lli_release_bchan k c =
     Some (b_l4l3 k (DL_RELEASE, REQUEST) (set_fi k ST_WAIT_BREL_DISC (data_closed k c)))"

definition lli_rel_b_dhup :: lli_rout where
  "lli_rel_b_dhup k c = lli_dhup_close k (release_b_st k c)"

definition lli_bhup_dhup :: lli_rout where
  "lli_bhup_dhup k c = lli_rel_b_dhup k (HL_LL k STAT_BHUP c)"

definition lli_abort :: lli_rout where
  "lli_abort k c = lli_bhup_dhup k (b_l4l3 k (DL_RELEASE, REQUEST) (data_closed k c))"

definition lli_release_req :: lli_rout where
  "lli_release_req k c =
     Some (if li_leased (ch_at k c) then lli_leased_hup k c
           else (let c = set_fi k ST_WAIT_D_REL_CNF c in
                 d_l4l3 k (CC_RELEASE, REQUEST) (proc_arg k c) c))"

definition lli_rel_b_release_req :: lli_rout where
  "lli_rel_b_release_req k c = lli_release_req k (release_b_st k c)"

definition lli_bhup_release_req :: lli_rout where
  "lli_bhup_release_req k c = lli_rel_b_release_req k (HL_LL k STAT_BHUP c)"

subsection \<open>Calls\<close>

definition lli_leased_in :: lli_rout where
  "lli_leased_in k c =
     (if \<not> li_leased (ch_at k c) then Some c
      else (case statcallb_icall k (STAT_ICALL_LEASED (2 \<le> k) (dec_nat (k + 1)) (''LEASED'' @ dec_nat (cc_myid c)))
                   (set_fi k ST_IN_WAIT_LL (card_msg k MDL_INFO_SETUP c)) of
             (ret, su, c) \<Rightarrow>
               Some (if ret = 0 then set_fi k ST_NULL (card_msg k MDL_INFO_REL c) else c)))"

definition lli_init_bchan_out :: lli_rout where
  "lli_init_bchan_out k c = do {
     c \<leftarrow> init_b_st k False (HL_LL k STAT_DCONN (set_fi k ST_WAIT_BCONN c));
     Some (b_l4l3 k (DL_ESTABLISH, REQUEST) c)
   }"

definition lli_start_call :: "cc_prim \<Rightarrow> lli_rout" where
  "lli_start_call pr k c =
     (let c = del_dial k (del_drel k c);
          c = upd_ch k (\<lambda>l. l\<lparr>li_l2_active := li_l2_protocol l, li_incoming := False\<rparr>) c;
          c = card_msg k MDL_INFO_SETUP c
      in if li_leased (ch_at k c) then lli_init_bchan_out k c
         else Some (d_l4l3 k pr (ArgChan k) (set_fi k ST_OUT_DIAL c)))"

definition lli_prep_dialout :: lli_rout where
  "lli_prep_dialout = lli_start_call (CC_SETUP, REQUEST)"

definition lli_resume :: lli_rout where
  "lli_resume = lli_start_call (CC_RESUME, REQUEST)"

definition lli_alerting :: lli_rout where
  "lli_alerting k c = Some (HL_LL k STAT_ALERT c)"

definition lli_proceeding :: lli_rout where
  "lli_proceeding k c = Some (HL_LL k STAT_PROCEED c)"

definition lli_go_active :: lli_rout where
  "lli_go_active k c =
     (let c = upd_ch k (\<lambda>l. l\<lparr>li_data_open := True\<rparr>) (set_fi k ST_ACTIVE c);
          num = (case li_conmsg (ch_at k c) of Some m \<Rightarrow> m | None \<Rightarrow> [])
      in Some (card_msg k MDL_INFO_CONN (HL_LL k (STAT_BCONN num) c)))"

definition lli_deliver_call :: lli_rout where
  "lli_deliver_call k c = do {
     let c = set_fi k ST_IN_WAIT_LL (card_msg k MDL_INFO_SETUP c);
     p \<leftarrow> proc_at k c;
     case statcallb_icall k (STAT_ICALL (2 \<le> k) (p_setup p)) c of
       (ret, su, c) \<Rightarrow>
         Some (if ret = 1 then
                 (let c = set_fi k ST_IN_ALERT_SENT (del_drel k c)
                  in d_l4l3 k (CC_ALERTING, REQUEST) (proc_arg k c) c)
               else if ret = 5 \<or> ret = 4 then
                 (let c = set_fi k ST_IN_PROCEED_SEND (del_drel k c);
                      c = d_l4l3 k (CC_PROCEED_SEND, REQUEST) (proc_arg k c) c
                  in if ret = 5
                     then d_l4l3 k (CC_REDIR, REQUEST) (proc_arg k c)
                            (upd_ch k (\<lambda>l. l\<lparr>li_setup := su\<rparr>) c)
                     else c)
               else if ret = 2 then c
               else if ret = 3 then
                 (let c = del_drel k c in d_l4l3 k (CC_MORE_INFO, REQUEST) (proc_arg k c) c)
               else set_fi k ST_NULL (card_msg k MDL_INFO_REL
                      (d_l4l3 k (CC_IGNORE, REQUEST) (proc_arg k c) c)))
   }"

definition lli_send_dconnect :: lli_rout where
  "lli_send_dconnect k c =
     Some (d_l4l3 k (CC_SETUP, RESPONSE) (proc_arg k c) (set_fi k ST_IN_WAIT_CONN_ACK c))"

definition lli_send_alert :: lli_rout where
  "lli_send_alert k c =
     Some (d_l4l3 k (CC_ALERTING, REQUEST) (proc_arg k c) (set_fi k ST_IN_ALERT_SENT c))"

definition lli_send_redir :: lli_rout where
  "lli_send_redir k c = Some (d_l4l3 k (CC_REDIR, REQUEST) (proc_arg k c) c)"

definition lli_init_bchan_in :: lli_rout where
  "lli_init_bchan_in k c = do {
     let c = HL_LL k STAT_DCONN (set_fi k ST_WAIT_BCONN c);
     let c = upd_ch k (\<lambda>l. l\<lparr>li_l2_active := li_l2_protocol l, li_incoming := True\<rparr>) c;
     c \<leftarrow> init_b_st k True c;
     Some (b_l4l3 k (DL_ESTABLISH, REQUEST) c)
   }"

definition lli_setup_rsp :: lli_rout where
  "lli_setup_rsp k c =
     (if li_leased (ch_at k c) then lli_init_bchan_in k c
      else Some (d_l4l3 k (CC_SETUP, RESPONSE) (proc_arg k c) (set_fi k ST_IN_WAIT_CONN_ACK c)))"

definition lli_suspend :: lli_rout where
  "lli_suspend k c = Some (d_l4l3 k (CC_SUSPEND, REQUEST) (proc_arg k c) c)"

definition lli_charge_info :: lli_rout where
  "lli_charge_info k c = do {
     p \<leftarrow> proc_at k c;
     Some (HL_LL k (STAT_CINF (dec_int (p_chargeinfo p))) c)
   }"

subsection \<open>Errors\<close>

definition lli_dchan_not_ready :: lli_rout where
  "lli_dchan_not_ready k c = Some (HL_LL k STAT_DHUP c)"

definition lli_no_setup_rsp :: lli_rout where
  "lli_no_setup_rsp k c = Some (lli_close k (HL_LL k STAT_DHUP c))"

definition lli_error :: lli_rout where
  "lli_error k c = Some (set_fi k ST_WAIT_DRELEASE c)"

definition lli_failure_l :: lli_rout where
  "lli_failure_l k c =
     (let c = HL_LL k STAT_DHUP (HL_LL k (STAT_CAUSE (''L'' @ hex2 0 @ hex2 0x2f)) (set_fi k ST_NULL c))
      in Some (card_msg k MDL_INFO_REL (upd_ch k (\<lambda>l. l\<lparr>li_start_b := False\<rparr>) c)))"

definition lli_rel_b_fail :: lli_rout where
  "lli_rel_b_fail k c = lli_failure_l k (release_b_st k c)"

definition lli_bhup_fail :: lli_rout where
  "lli_bhup_fail k c = lli_rel_b_fail k (HL_LL k STAT_BHUP c)"

definition lli_failure_a :: lli_rout where
  "lli_failure_a k c = lli_bhup_fail k (b_l4l3 k (DL_RELEASE, REQUEST) (data_closed k c))"

subsection \<open>The state table\<close>

abbreviation row :: "nat \<Rightarrow> nat \<Rightarrow> lli_rout \<Rightarrow> nat \<Rightarrow> (unit \<Rightarrow> Callc \<Rightarrow> Callc option) FsmNode" where
  "row s e r k \<equiv> FsmNode s e (\<lambda>_. r k)"

definition fnlist :: "nat \<Rightarrow> (unit \<Rightarrow> Callc \<Rightarrow> Callc option) FsmNode list" where
  "fnlist k =
    [row ST_NULL EV_DIAL lli_prep_dialout k,
     row ST_NULL EV_RESUME lli_resume k,
     row ST_NULL EV_SETUP_IND lli_deliver_call k,
     row ST_NULL EV_LEASED lli_leased_in k,
     row ST_OUT_DIAL EV_SETUP_CNF lli_init_bchan_out k,
     row ST_OUT_DIAL EV_HANGUP lli_disconnect_req k,
     row ST_OUT_DIAL EV_DISCONNECT_IND lli_release_req k,
     row ST_OUT_DIAL EV_RELEASE lli_dhup_close k,
     row ST_OUT_DIAL EV_NOSETUP_RSP lli_no_setup_rsp k,
     row ST_OUT_DIAL EV_PROCEEDING lli_proceeding k,
     row ST_OUT_DIAL EV_ALERTING lli_alerting k,
     row ST_OUT_DIAL EV_SETUP_ERR lli_error k,
     row ST_IN_WAIT_LL EV_LEASED_REL lli_failure_l k,
     row ST_IN_WAIT_LL EV_ACCEPTD lli_setup_rsp k,
     row ST_IN_WAIT_LL EV_HANGUP lli_reject_req k,
     row ST_IN_WAIT_LL EV_DISCONNECT_IND lli_release_req k,
     row ST_IN_WAIT_LL EV_RELEASE lli_dhup_close k,
     row ST_IN_WAIT_LL EV_SETUP_IND lli_deliver_call k,
     row ST_IN_WAIT_LL EV_SETUP_ERR lli_error k,
     row ST_IN_ALERT_SENT EV_SETUP_CMPL_IND lli_init_bchan_in k,
     row ST_IN_ALERT_SENT EV_ACCEPTD lli_send_dconnect k,
     row ST_IN_ALERT_SENT EV_HANGUP lli_disconnect_reject k,
     row ST_IN_ALERT_SENT EV_DISCONNECT_IND lli_release_req k,
     row ST_IN_ALERT_SENT EV_RELEASE lli_dhup_close k,
     row ST_IN_ALERT_SENT EV_REDIR lli_send_redir k,
     row ST_IN_PROCEED_SEND EV_REDIR lli_send_redir k,
     row ST_IN_PROCEED_SEND EV_ALERT lli_send_alert k,
     row ST_IN_PROCEED_SEND EV_ACCEPTD lli_send_dconnect k,
     row ST_IN_PROCEED_SEND EV_HANGUP lli_disconnect_reject k,
     row ST_IN_PROCEED_SEND EV_DISCONNECT_IND lli_dhup_close k,
     row ST_IN_ALERT_SENT EV_RELEASE lli_dhup_close k,
     row ST_IN_WAIT_CONN_ACK EV_SETUP_CMPL_IND lli_init_bchan_in k,
     row ST_IN_WAIT_CONN_ACK EV_HANGUP lli_disconnect_req k,
     row ST_IN_WAIT_CONN_ACK EV_DISCONNECT_IND lli_release_req k,
     row ST_IN_WAIT_CONN_ACK EV_RELEASE lli_dhup_close k,
     row ST_IN_WAIT_CONN_ACK EV_CONNECT_ERR lli_error k,
     row ST_WAIT_BCONN EV_BC_EST lli_go_active k,
     row ST_WAIT_BCONN EV_BC_REL lli_rel_b_disc k,
     row ST_WAIT_BCONN EV_HANGUP lli_rel_b_disc k,
     row ST_WAIT_BCONN EV_DISCONNECT_IND lli_rel_b_release_req k,
     row ST_WAIT_BCONN EV_RELEASE lli_rel_b_dhup k,
     row ST_WAIT_BCONN EV_LEASED_REL lli_rel_b_fail k,
     row ST_WAIT_BCONN EV_CINF lli_charge_info k,
     row ST_ACTIVE EV_CINF lli_charge_info k,
     row ST_ACTIVE EV_BC_REL lli_bhup_rel_b k,
     row ST_ACTIVE EV_SUSPEND lli_suspend k,
     row ST_ACTIVE EV_HANGUP lli_disconn_bchan k,
     row ST_ACTIVE EV_DISCONNECT_IND lli_release_bchan k,
     row ST_ACTIVE EV_RELEASE lli_abort k,
     row ST_ACTIVE EV_LEASED_REL lli_failure_a k,
     row ST_WAIT_BRELEASE EV_BC_REL lli_bhup_disc k,
     row ST_WAIT_BRELEASE EV_DISCONNECT_IND lli_bhup_release_req k,
     row ST_WAIT_BRELEASE EV_RELEASE lli_bhup_dhup k,
     row ST_WAIT_BRELEASE EV_LEASED_REL lli_bhup_fail k,
     row ST_WAIT_BREL_DISC EV_BC_REL lli_bhup_release_req k,
     row ST_WAIT_BREL_DISC EV_RELEASE lli_bhup_dhup k,
     row ST_WAIT_DCOMMAND EV_HANGUP lli_start_disc k,
     row ST_WAIT_DCOMMAND EV_DISCONNECT_IND lli_release_req k,
     row ST_WAIT_DCOMMAND EV_RELEASE lli_dhup_close k,
     row ST_WAIT_DCOMMAND EV_LEASED_REL lli_failure_l k,
     row ST_WAIT_DRELEASE EV_RELEASE lli_dhup_close k,
     row ST_WAIT_DRELEASE EV_DIAL lli_dchan_not_ready k,
     row ST_WAIT_D_REL_CNF EV_RELEASE lli_dhup_close k,
     row ST_WAIT_D_REL_CNF EV_DIAL lli_dchan_not_ready k]"

text \<open>\<open>FsmEvent (&chanp->fi, event, arg)\<close>; a channel outside the array is a fault.\<close>

definition lli_event :: "nat \<Rightarrow> nat \<Rightarrow> Callc \<Rightarrow> Callc option" where
  "lli_event k ev c =
     (if k < length (cc_ch c)
      then map_option snd (FsmEvent (fsm_of CC_STATE_COUNT CC_EVENT_COUNT (fnlist k))
             (\<lambda>c. li_state (ch_at k c)) ev () c)
      else None)"

end
