(* ===== verification/Hisax_Callc_Cmd.thy ===== *)
theory Hisax_Callc_Cmd
  imports Hisax_Callc_Fsm Hisax_L2
begin

text \<open>
  The ways into the call control (\<open>hisax/callc.c\<close>): what the D channel protocol and the B channel
  stacks report, the commands and data of the link level, leased lines, and setting up and freeing
  the channels of a card.
\<close>

subsection \<open>Choosing a channel\<close>

text \<open>The loop looks at \<open>n\<close> channels from \<open>p\<close> on; outside the array it reads foreign memory.\<close>

fun free_scan :: "nat \<Rightarrow> nat \<Rightarrow> Callc \<Rightarrow> nat option option" where
  "free_scan 0 p c = Some None"
| "free_scan (Suc n) p c =
     (if length (cc_ch c) \<le> p then None
      else if li_state (ch_at p c) = ST_NULL then Some (Some p)
      else free_scan n (Suc p) c)"

text \<open>\<open>u\<close> is the channel whose stack the call came in on.\<close>

definition selectfreechannel :: "nat \<Rightarrow> int \<Rightarrow> Callc \<Rightarrow> nat option option" where
  "selectfreechannel u bch c =
     (if bch = 0 then free_scan MAX_WAITING_CALLS (u + 2) c
      else (case free_scan (cc_chanlimit c - (if cc_two c then 1 else 0)) u c of
              None \<Rightarrow> None
            | Some (Some p) \<Rightarrow> Some (Some p)
            | Some None \<Rightarrow> free_scan MAX_WAITING_CALLS (u + 2) c))"

subsection \<open>From the D channel\<close>

definition l3l4_event :: "cc_prim \<Rightarrow> nat option" where
  "l3l4_event pr =
     (if pr = (CC_MORE_INFO, INDICATION) then Some EV_SETUP_IND
      else if pr = (CC_DISCONNECT, INDICATION) then Some EV_DISCONNECT_IND
      else if pr = (CC_RELEASE, CONFIRM) then Some EV_RELEASE
      else if pr = (CC_SUSPEND, CONFIRM) then Some EV_RELEASE
      else if pr = (CC_RESUME, CONFIRM) then Some EV_SETUP_CNF
      else if pr = (CC_RESUME_ERR, REQUEST) then Some EV_RELEASE
      else if pr = (CC_RELEASE, INDICATION) then Some EV_RELEASE
      else if pr = (CC_SETUP_COMPL, INDICATION) then Some EV_SETUP_CMPL_IND
      else if pr = (CC_SETUP, CONFIRM) then Some EV_SETUP_CNF
      else if pr = (CC_CHARGE, INDICATION) then Some EV_CINF
      else if pr = (CC_NOSETUP_RSP, REQUEST) then Some EV_NOSETUP_RSP
      else if pr = (CC_SETUP_ERR, REQUEST) then Some EV_SETUP_ERR
      else if pr = (CC_CONNECT_ERR, REQUEST) then Some EV_CONNECT_ERR
      else if pr = (CC_RELEASE_ERR, REQUEST) then Some EV_RELEASE
      else if pr = (CC_PROCEEDING, INDICATION) then Some EV_PROCEEDING
      else if pr = (CC_ALERTING, INDICATION) then Some EV_ALERTING
      else None)"

definition stat_redir_result :: "nat \<Rightarrow> u32 \<Rightarrow> Callc \<Rightarrow> Callc" where
  "stat_redir_result k result = HL_LL k (STAT_REDIR result)"

definition dchan_l3l4 :: "nat \<Rightarrow> cc_prim \<Rightarrow> nat option \<Rightarrow> Callc \<Rightarrow> Callc option" where
  "dchan_l3l4 u pr pc c =
     (case pc of None \<Rightarrow> Some c | Some a \<Rightarrow> do {
        p \<leftarrow> find_pc a c;
        if pr = (CC_SETUP, INDICATION) then do {
          r \<leftarrow> selectfreechannel u (p_bchannel p) c;
          case r of
            None \<Rightarrow> Some (d_l4l3 u (CC_REJECT, REQUEST) (ArgProc a) (upd_pc a (\<lambda>p. p\<lparr>p_cause := 0x11\<rparr>) c))
          | Some k \<Rightarrow>
              lli_event k EV_SETUP_IND
                (upd_pc a (\<lambda>p. p\<lparr>p_chan := Some k\<rparr>) (upd_ch k (\<lambda>l. l\<lparr>li_proc := Some a\<rparr>) c))
        }
        else case p_chan p of
          None \<Rightarrow> Some c
        | Some k \<Rightarrow>
            (case l3l4_event pr of
               Some ev \<Rightarrow> lli_event k ev c
             | None \<Rightarrow> Some (if pr = (CC_REDIR, INDICATION) then stat_redir_result k (p_redir_result p) c
                             else c))
      })"

subsection \<open>From the B channel\<close>

definition lldata_handler :: "nat \<Rightarrow> prim \<Rightarrow> sk_buff \<Rightarrow> Callc \<Rightarrow> Callc option" where
  "lldata_handler k pr skb c =
     (if pr = (DL_DATA, INDICATION) then
        Some (if li_data_open (ch_at k c) then out_ch k (RcvSkb skb) c else c)
      else if pr = (DL_ESTABLISH, INDICATION) \<or> pr = (DL_ESTABLISH, CONFIRM) then lli_event k EV_BC_EST c
      else if pr = (DL_RELEASE, INDICATION) \<or> pr = (DL_RELEASE, CONFIRM) then lli_event k EV_BC_REL c
      else Some c)"

definition lltrans_handler :: "nat \<Rightarrow> prim \<Rightarrow> sk_buff \<Rightarrow> Callc \<Rightarrow> Callc option" where
  "lltrans_handler k pr skb c =
     (if pr = (PH_DATA, INDICATION) then
        Some (if li_data_open (ch_at k c) then out_ch k (RcvSkb skb) c else c)
      else if pr = (PH_ACTIVATE, INDICATION) \<or> pr = (PH_ACTIVATE, CONFIRM) then lli_event k EV_BC_EST c
      else if pr = (PH_DEACTIVATE, INDICATION) \<or> pr = (PH_DEACTIVATE, CONFIRM) then lli_event k EV_BC_REL c
      else Some c)"

definition ll_writewakeup :: "nat \<Rightarrow> int \<Rightarrow> Callc \<Rightarrow> Callc" where
  "ll_writewakeup k len = HL_LL k (STAT_BSENT len)"

subsection \<open>Leased lines\<close>

definition dt_upd :: "nat \<Rightarrow> (DSt \<Rightarrow> DSt) \<Rightarrow> Callc \<Rightarrow> Callc" where
  "dt_upd d f c = c\<lparr>cc_dst := (cc_dst c)[d := f (cc_dst c ! d)]\<rparr>"

definition leased_l4l3 :: "nat \<Rightarrow> prim \<Rightarrow> Callc \<Rightarrow> Callc" where
  "leased_l4l3 d pr c =
     (if pr = (DL_ESTABLISH, REQUEST)
      then dt_upd d (\<lambda>s. s\<lparr>dt_out := dt_out s @ [(PH_ACTIVATE, REQUEST)]\<rparr>) c else c)"

text \<open>\<open>chanp->d_st->lli.l4l3 (chanp->d_st, DL_ESTABLISH | REQUEST, NULL)\<close>\<close>

definition d_establish :: "nat \<Rightarrow> Callc \<Rightarrow> Callc" where
  "d_establish d c =
     (if dt_leased (cc_dst c ! d) then leased_l4l3 d (DL_ESTABLISH, REQUEST) c
      else dt_upd d (\<lambda>s. s\<lparr>dt_out := dt_out s @ [(DL_ESTABLISH, REQUEST)]\<rparr>) c)"

definition leased_l1l2 :: "nat \<Rightarrow> prim \<Rightarrow> Callc \<Rightarrow> Callc option" where
  "leased_l1l2 u pr c =
     (let ks = [u ..< u + (if cc_two c then 1 else 2)] in
      if pr = (PH_ACTIVATE, INDICATION) \<or> pr = (PH_ACTIVATE, CONFIRM)
      then each (\<lambda>k. lli_event k EV_LEASED) ks c
      else if pr = (PH_DEACTIVATE, INDICATION) \<or> pr = (PH_DEACTIVATE, CONFIRM)
      then each (\<lambda>k. lli_event k EV_LEASED_REL) ks c
      else Some c)"

subsection \<open>Commands of the link level\<close>

record capi_msg =
  cm_Length :: nat
  cm_Command :: u8
  cm_Subcommand :: u8
  cm_para :: "u8 list"

text \<open>With \<open>ISDN_CMD_PROT_IO\<close> comes what \<open>l4l3_proto\<close> of the protocol returns for it.\<close>

datatype ll_cmd =
  CMD_SETEAZ nat | CMD_SETL2 nat | CMD_SETL3 nat
| CMD_DIAL nat setup_parm | CMD_ACCEPTB nat | CMD_ACCEPTD nat setup_parm | CMD_HANGUP nat
| CMD_CAPI nat capi_msg | CMD_LOCK | CMD_UNLOCK | CMD_IOCTL nat u32
| CMD_PROCEED nat | CMD_ALERT nat | CMD_REDIR nat setup_parm | CMD_PROT_IO nat int | CMD_OTHER

text \<open>
  \<open>strncpy\<close>: copies up to the end of the string and fills up with zeros. It is a fault to read behind
  the source or to write behind the destination.
\<close>

definition strncpy :: "u8 list \<Rightarrow> u8 list \<Rightarrow> nat \<Rightarrow> u8 list option" where
  "strncpy dst src n =
     (let s = takeWhile (\<lambda>b. b \<noteq> 0) (take n src) in
      if length dst < n \<or> (length src < n \<and> 0 \<notin> set src) then None
      else Some (s @ replicate (n - length s) 0 @ drop n dst))"

definition restart_dial :: "nat \<Rightarrow> int \<Rightarrow> nat \<Rightarrow> Callc \<Rightarrow> Callc" where
  "restart_dial k ms ev c =
     upd_ch k (\<lambda>l. l\<lparr>li_dial := snd (FsmAddTimer (cc_kenv c) ms ev (li_dial l))\<rparr>) (del_dial k c)"

definition lli_got_fac_req :: "nat \<Rightarrow> capi_msg \<Rightarrow> Callc \<Rightarrow> Callc option" where
  "lli_got_fac_req k cm c = do {
     p0 \<leftarrow> rd (cm_para cm) 0;
     p1 \<leftarrow> rd (cm_para cm) 1;
     p2 \<leftarrow> rd (cm_para cm) 2;
     p3 \<leftarrow> rd (cm_para cm) 3;
     p4 \<leftarrow> rd (cm_para cm) 4;
     n \<leftarrow> rd (cm_para cm) 5;
     if p0 \<noteq> 3 \<or> p1 \<noteq> 0 \<or> p2 < 3 \<or> p4 \<noteq> 0 \<or> p3 \<noteq> 4 \<and> p3 \<noteq> 5 then Some c
     else do {
       ph \<leftarrow> strncpy (su_phone (li_setup (ch_at k c))) (drop 5 (cm_para cm)) (unat n + 1);
       let c = upd_ch k (\<lambda>l. l\<lparr>li_setup := (li_setup l)\<lparr>su_phone := ph\<rparr>\<rparr>) c;
       if p3 = 4 then lli_event k EV_SUSPEND c
       else if li_state (ch_at k c) = ST_NULL then lli_event k EV_RESUME c
       else Some (restart_dial k 80 EV_RESUME c)
     }
   }"

definition lli_got_manufacturer :: "nat \<Rightarrow> capi_msg \<Rightarrow> Callc \<Rightarrow> Callc" where
  "lli_got_manufacturer k cm c = (if cc_elsa c then out_ch k (AuxInd (cm_para cm)) c else c)"

abbreviation (input) EINVAL :: int where "EINVAL \<equiv> 22"

text \<open>\<open>set_channel_limit\<close>: the link level is told channel by channel and may refuse.\<close>

primrec limit_loop :: "nat list \<Rightarrow> int \<Rightarrow> Callc \<Rightarrow> int \<times> Callc" where
  "limit_loop [] chanmax c = (0, c)"
| "limit_loop (ii # is) chanmax c =
     (case statcallb_icall ii (STAT_DISCH (int ii < chanmax)) c of
        (r, su, c) \<Rightarrow>
          if r \<noteq> 0 then (- EINVAL, c)
          else limit_loop is chanmax
                 (if int ii < chanmax then c\<lparr>cc_chanlimit := cc_chanlimit c + 1\<rparr> else c))"

definition set_channel_limit :: "int \<Rightarrow> Callc \<Rightarrow> int \<times> Callc" where
  "set_channel_limit chanmax c =
     (if chanmax < 0 \<or> 2 < chanmax then (- EINVAL, c)
      else limit_loop [0, 1] chanmax (c\<lparr>cc_chanlimit := 0\<rparr>))"

text \<open>What only changes debugging is left out: 0, 1, 11 and 13.\<close>

definition HiSax_ioctl :: "nat \<Rightarrow> u32 \<Rightarrow> Callc \<Rightarrow> int \<times> Callc" where
  "HiSax_ioctl n num c =
     (if n = 0 \<or> n = 1 \<or> n = 11 \<or> n = 13 then (0, c)
      else if n = 2 then
        (let delay = (\<lambda>l. l\<lparr>li_b_st := (li_b_st l)\<lparr>bs_delay := sint num\<rparr>\<rparr>)
         in (0, upd_ch 1 delay (upd_ch 0 delay c)))
      else if n = 3 then (0, c\<lparr>cc_use := cc_use c - int (unat num)\<rparr>)
      else if n = 4 then (0, c\<lparr>cc_use := cc_use c + int (unat num)\<rparr>)
      else if n = 5 then
        (if num < 1 \<or> 2 < num then (0, c)
         else (let k = unat num - 1;
                   c = upd_ch k (\<lambda>l. l\<lparr>li_leased := True\<rparr>) c;
                   d = dst_ix k c
               in (0, d_establish d (dt_upd d (\<lambda>s. s\<lparr>dt_leased := True\<rparr>) c))))
      else if n = 6 then (0, dt_upd 0 (\<lambda>s. s\<lparr>dt_out := dt_out s @ [(PH_TESTLOOP, REQUEST)]\<rparr>) c)
      else if n = 7 then
        (if cc_two c then (0, c)
         else if num \<noteq> 0 then
           (0, d_establish 0 (dt_upd 0 (\<lambda>s. s\<lparr>dt_ptp := True, dt_fixed := True, dt_tei := 0\<rparr>) c))
         else (0, dt_upd 0 (\<lambda>s. s\<lparr>dt_ptp := False, dt_fixed := False\<rparr>) c))
      else if n = 8 then
        (let d = dst_ix (unat (num AND 1)) c;
             tei = drop_bit 1 num
         in (0, d_establish d (dt_upd d (\<lambda>s. if tei = 127 then s\<lparr>dt_fixed := False, dt_tei := -1\<rparr>
                  else s\<lparr>dt_fixed := True, dt_tei := sint tei\<rparr>) c)))
      else if n = 10 then set_channel_limit (sint num) c
      else (case cc_auxcmd c of Some r \<Rightarrow> (r, c) | None \<Rightarrow> (- EINVAL, c)))"

text \<open>A command to a channel that does not exist works on foreign memory.\<close>

definition on_ch :: "nat \<Rightarrow> (Callc \<Rightarrow> Callc option) \<Rightarrow> Callc \<Rightarrow> (int \<times> Callc) option" where
  "on_ch k f c = (if k < length (cc_ch c) then map_option (\<lambda>c. (0, c)) (f c) else None)"

definition eaz_zero :: "setup_parm \<Rightarrow> setup_parm" where
  "eaz_zero su =
     (if su_eazmsn su ! 0 = 48 \<and> su_eazmsn su ! 1 = 0
      then su\<lparr>su_eazmsn := (su_eazmsn su)[0 := 0]\<rparr> else su)"

definition HiSax_command :: "ll_cmd \<Rightarrow> Callc \<Rightarrow> (int \<times> Callc) option" where
  "HiSax_command ic c =
     (case ic of
        CMD_SETEAZ k \<Rightarrow> Some (0, c)
      | CMD_SETL2 arg \<Rightarrow> on_ch (arg mod 256) (\<lambda>c. Some (upd_ch (arg mod 256)
          (\<lambda>l. l\<lparr>li_l2_protocol := arg div 256\<rparr>) c)) c
      | CMD_SETL3 arg \<Rightarrow> on_ch (arg mod 256) (\<lambda>c. Some (upd_ch (arg mod 256)
          (\<lambda>l. l\<lparr>li_l3_protocol := arg div 256\<rparr>) c)) c
      | CMD_DIAL arg su \<Rightarrow> on_ch (arg mod 256) (\<lambda>c.
          let k = arg mod 256; c = upd_ch k (\<lambda>l. l\<lparr>li_setup := eaz_zero su\<rparr>) c in
          if li_state (ch_at k c) = ST_NULL then lli_event k EV_DIAL c
          else Some (restart_dial k 50 EV_DIAL c)) c
      | CMD_ACCEPTB k \<Rightarrow> on_ch k (lli_event k EV_ACCEPTB) c
      | CMD_ACCEPTD k su \<Rightarrow> on_ch k (\<lambda>c. lli_event k EV_ACCEPTD (upd_ch k (\<lambda>l. l\<lparr>li_setup := su\<rparr>) c)) c
      | CMD_HANGUP k \<Rightarrow> on_ch k (lli_event k EV_HANGUP) c
      | CMD_CAPI k cm \<Rightarrow> on_ch k (\<lambda>c.
          if cm_Length cm < 8 then Some c
          else if cm_Command cm = 0x80 then
            (if cm_Subcommand cm = 0x80 then lli_got_fac_req k cm c else Some c)
          else if cm_Command cm = 0xff then
            (if cm_Subcommand cm = 0x80 then Some (lli_got_manufacturer k cm c) else Some c)
          else Some c) c
      | CMD_LOCK \<Rightarrow> Some (0, c\<lparr>cc_use := cc_use c + 1\<rparr>)
      | CMD_UNLOCK \<Rightarrow> Some (0, c\<lparr>cc_use := cc_use c - 1\<rparr>)
      | CMD_IOCTL n num \<Rightarrow> Some (HiSax_ioctl n num c)
      | CMD_PROCEED k \<Rightarrow> on_ch k (lli_event k EV_PROCEED) c
      | CMD_ALERT k \<Rightarrow> on_ch k (lli_event k EV_ALERT) c
      | CMD_REDIR k su \<Rightarrow> on_ch k (\<lambda>c. lli_event k EV_REDIR (upd_ch k (\<lambda>l. l\<lparr>li_setup := su\<rparr>) c)) c
      | CMD_PROT_IO prot r \<Rightarrow> Some (if prot mod 256 = cc_protocol c then r else - EINVAL, c)
      | CMD_OTHER \<Rightarrow> Some (case cc_auxcmd c of Some r \<Rightarrow> r | None \<Rightarrow> - EINVAL, c))"

subsection \<open>Data of the link level\<close>

abbreviation (input) EIO :: int where "EIO \<equiv> 5"

definition HiSax_writebuf_skb :: "nat \<Rightarrow> bool \<Rightarrow> sk_buff \<Rightarrow> Callc \<Rightarrow> (int \<times> Callc) option" where
  "HiSax_writebuf_skb k ack skb c =
     (if length (cc_ch c) \<le> k then None
      else let l = ch_at k c; len = skb_len skb in
      Some (if \<not> li_data_open l then (- EIO, c)
            else if MAX_DATA_SIZE < len then (- EINVAL, c)
            else if len = 0 then (0, c)
            else if MAX_DATA_MEM < len + li_tx_cnt l then (0, c)
            else (case k_alloc (cc_kenv c) of (ok, kv) \<Rightarrow>
              let c = c\<lparr>cc_kenv := kv\<rparr> in
              if \<not> ok then (0, c)
              else (let nskb = (if ack then skb else skb\<lparr>skb_pkt_type := PACKET_NOACK\<rparr>) in
                (int len,
                 if li_l2_active l = ISDN_PROTO_L2_X75I
                 then out_ch k (BData (DL_DATA, REQUEST) nskb) c
                 else out_ch k (BData (PH_DATA, REQUEST) nskb)
                        (upd_ch k (\<lambda>l. l\<lparr>li_tx_cnt := li_tx_cnt l + len\<rparr>) c))))))"

subsection \<open>Timers, setup and release\<close>

text \<open>\<open>FsmExpireTimer\<close> of the two timers of a channel.\<close>

definition expire_dial :: "nat \<Rightarrow> Callc \<Rightarrow> Callc option" where
  "expire_dial k c =
     (if tl_pending (li_dial (ch_at k c)) then lli_event k (tm_event (li_dial (ch_at k c))) (del_dial k c)
      else Some c)"

definition expire_drel :: "nat \<Rightarrow> Callc \<Rightarrow> Callc option" where
  "expire_drel k c =
     (if tl_pending (li_drel (ch_at k c)) then lli_event k (tm_event (li_drel (ch_at k c))) (del_drel k c)
      else Some c)"

definition alloc_cc :: "Callc \<Rightarrow> bool \<times> Callc" where
  "alloc_cc c = (fst (k_alloc (cc_kenv c)), c\<lparr>cc_kenv := snd (k_alloc (cc_kenv c))\<rparr>)"

definition init_d_st :: "nat \<Rightarrow> Callc \<Rightarrow> int \<times> Callc" where
  "init_d_st k c =
     (case alloc_cc c of (ok, c) \<Rightarrow>
        if \<not> ok then (- ENOMEM, upd_ch k (\<lambda>l. l\<lparr>li_d_st := False\<rparr>) c)
        else (0, dt_upd (dst_ix k c) (\<lambda>s. s\<lparr>dt_ptp := False, dt_fixed := False, dt_tei := -1,
                   dt_leased := False, dt_alive := True\<rparr>) (upd_ch k (\<lambda>l. l\<lparr>li_d_st := True\<rparr>) c)))"

definition init_chan :: "nat \<Rightarrow> Callc \<Rightarrow> int \<times> Callc" where
  "init_chan k c =
     (case alloc_cc (upd_ch k (\<lambda>l. l\<lparr>li_incoming := False, li_start_b := False, li_leased := False\<rparr>) c) of
        (ok, c) \<Rightarrow>
          if \<not> ok then (- ENOMEM, upd_ch k (\<lambda>l. l\<lparr>li_b_alloc := False\<rparr>) c)
          else (let c = upd_ch k (\<lambda>l. l\<lparr>li_b_alloc := True, li_b_st := (li_b_st l)\<lparr>bs_delay := 300\<rparr>,
                      li_state := ST_NULL, li_dial := FsmInitTimer (li_dial l),
                      li_drel := FsmInitTimer (li_drel l)\<rparr>) c;
                    (err, c) = (if k = 0 \<or> cc_two c \<and> k < 2 then init_d_st k c
                                else (0, upd_ch k (\<lambda>l. l\<lparr>li_d_st := li_d_st (ch_at 0 c)\<rparr>) c))
                in if err \<noteq> 0 then (err, c) else (0, upd_ch k (\<lambda>l. l\<lparr>li_data_open := False\<rparr>) c)))"

primrec init_chans :: "nat list \<Rightarrow> Callc \<Rightarrow> int \<times> Callc" where
  "init_chans [] c = (0, c)"
| "init_chans (k # ks) c =
     (case init_chan k c of (err, c) \<Rightarrow> if err \<noteq> 0 then (err, c) else init_chans ks c)"

definition CallcNewChan :: "Callc \<Rightarrow> int \<times> Callc" where
  "CallcNewChan c =
     (case init_chans [0 ..< 2 + MAX_WAITING_CALLS] c of
        (err, c) \<Rightarrow>
          if err \<noteq> 0 then (err, c)
          else (0, if dt_ptp (cc_dst c ! 0) then d_establish 0 c else c))"

definition release_d_st :: "nat \<Rightarrow> Callc \<Rightarrow> Callc" where
  "release_d_st k c =
     (if \<not> li_d_st (ch_at k c) then c
      else dt_upd (dst_ix k c) (\<lambda>s. s\<lparr>dt_alive := False\<rparr>) (upd_ch k (\<lambda>l. l\<lparr>li_d_st := False\<rparr>) c))"

definition free_chan :: "nat \<Rightarrow> Callc \<Rightarrow> Callc" where
  "free_chan i c =
     (let c = del_dial i (del_drel i c);
          c = (if i \<noteq> 0 \<or> cc_two c then release_d_st i c else c);
          c = (if li_b_alloc (ch_at i c)
               then upd_ch i (\<lambda>l. l\<lparr>li_b_alloc := False\<rparr>) (release_b_st i c) else c)
      in if i \<noteq> 0 \<or> cc_two c then release_d_st i c
         else upd_ch i (\<lambda>l. l\<lparr>li_d_st := False\<rparr>) c)"

definition CallcFreeChan :: "Callc \<Rightarrow> Callc" where
  "CallcFreeChan c = free_chan 1 (free_chan 0 c)"

end
