(* ===== verification/Hisax_Callc_Inv.thy ===== *)
theory Hisax_Callc_Inv
  imports Hisax_Callc_Cmd
begin

text \<open>
  What the call control keeps: the link level sees of each channel a run of an abstract protocol
  (\<open>ll_path\<close>), the B channel stack is opened and closed in turn and released the way it was set up
  (\<open>bc_run\<close>), data pass in the active state only, and a channel that is in use has a process that is
  alive.
\<close>

subsection \<open>What the link level sees\<close>

datatype ll_phase = P_Idle | P_Out | P_In | P_DConn | P_BConn | P_BDown | P_Clear

text \<open>The phases a channel may pass to without a message, and those a message leads to.\<close>

fun quiet :: "ll_phase \<Rightarrow> ll_phase list" where
  "quiet P_Idle = [P_Idle, P_Out, P_Clear]"
| "quiet P_Out = [P_Out, P_Clear]"
| "quiet P_In = [P_In, P_Idle, P_Out, P_Clear]"
| "quiet P_DConn = [P_DConn, P_Clear]"
| "quiet P_BConn = [P_BConn]"
| "quiet P_BDown = [P_BDown, P_Clear]"
| "quiet P_Clear = [P_Clear]"

fun says :: "ll_phase \<Rightarrow> ll_stat \<Rightarrow> ll_phase list" where
  "says p (STAT_ICALL w su) = (if p = P_Idle \<or> p = P_In then [P_In] else [])"
| "says p (STAT_ICALL_LEASED w e ph) = (if p = P_Idle then [P_In] else [])"
| "says p STAT_ALERT = (if p = P_Out then [P_Out] else [])"
| "says p STAT_PROCEED = (if p = P_Out then [P_Out] else [])"
| "says p STAT_DCONN = (if p = P_Out \<or> p = P_In then [P_DConn] else [])"
| "says p (STAT_BCONN num) = (if p = P_DConn then [P_BConn] else [])"
| "says p (STAT_CINF num) = (if p = P_DConn \<or> p = P_BConn then [p] else [])"
| "says p (STAT_CAUSE num) = (if p = P_Idle \<or> p = P_BConn then [] else [p])"
| "says p STAT_BHUP = (if p = P_BConn then [P_BDown] else [])"
| "says p STAT_DHUP =
     (if p = P_Clear then [P_Idle, P_Clear] else if p = P_Idle \<or> p = P_BConn then [] else [P_Idle])"
| "says p (STAT_REDIR r) = [p]"
| "says p (STAT_BSENT n) = [p]"
| "says p (STAT_DISCH b) = [p]"

fun ll_path :: "ll_phase \<Rightarrow> ll_stat list \<Rightarrow> ll_phase \<Rightarrow> bool" where
  "ll_path p [] q = (q \<in> set (quiet p))"
| "ll_path p (s # xs) q = list_ex (\<lambda>r. list_ex (\<lambda>t. ll_path t xs q) (says r s)) (quiet p)"

lemma quiet_trans: "q \<in> set (quiet p) \<Longrightarrow> r \<in> set (quiet q) \<Longrightarrow> r \<in> set (quiet p)"
  by (cases p; cases q) auto

lemma ll_path_quiet: "q \<in> set (quiet p) \<Longrightarrow> ll_path q xs r \<Longrightarrow> ll_path p xs r"
  by (cases xs) (auto simp: list_ex_iff intro: quiet_trans)

lemma ll_path_append: "ll_path p xs q \<Longrightarrow> ll_path q ys r \<Longrightarrow> ll_path p (xs @ ys) r"
proof (induction p xs q rule: ll_path.induct)
  case (1 p q)
  then show ?case by (simp add: ll_path_quiet)
next
  case (2 p s xs q)
  then show ?case by (simp add: list_ex_iff) blast
qed

definition lls :: "callc_out list \<Rightarrow> ll_stat list" where
  "lls os = List.map_filter (\<lambda>o1. case o1 of LL s \<Rightarrow> Some s | _ \<Rightarrow> None) os"

lemma lls_simps [simp]:
  "lls [] = []" "lls (LL s # os) = s # lls os" "lls (L4L3 pr x # os) = lls os"
  "lls (CardMsg i # os) = lls os" "lls (BL4L3 p # os) = lls os" "lls (BC_SetStack b # os) = lls os"
  "lls (SetStack kd b # os) = lls os" "lls (BC_Close # os) = lls os" "lls (RelStack kd # os) = lls os"
  "lls (RcvSkb skb # os) = lls os" "lls (BData p skb # os) = lls os" "lls (AuxInd ps # os) = lls os"
  "lls (os @ os') = lls os @ lls os'"
  by (simp_all add: lls_def map_filter_def)

definition phase :: "nat \<Rightarrow> ll_phase" where
  "phase st =
     (if st = ST_OUT_DIAL then P_Out
      else if st \<in> {ST_IN_WAIT_LL, ST_IN_ALERT_SENT, ST_IN_WAIT_CONN_ACK, ST_IN_PROCEED_SEND} then P_In
      else if st = ST_WAIT_BCONN then P_DConn
      else if st \<in> {ST_ACTIVE, ST_WAIT_BRELEASE, ST_WAIT_BREL_DISC} then P_BConn
      else if st = ST_WAIT_DCOMMAND then P_BDown
      else if st \<in> {ST_WAIT_DRELEASE, ST_WAIT_D_REL_CNF} then P_Clear
      else P_Idle)"

subsection \<open>The B channel stack\<close>

datatype b_phase = BClosed | BOpen "b_kind option" | BRel b_kind

definition bc_next :: "b_phase \<Rightarrow> callc_out \<Rightarrow> b_phase option" where
  "bc_next s o1 =
     (case o1 of
        BC_SetStack ok \<Rightarrow> if s = BClosed then Some (if ok then BOpen None else BClosed) else None
      | SetStack kd b \<Rightarrow> if s = BOpen None then Some (BOpen (Some kd)) else None
      | BC_Close \<Rightarrow> (case s of BOpen (Some kd) \<Rightarrow> Some (BRel kd) | BOpen None \<Rightarrow> Some BClosed | _ \<Rightarrow> None)
      | RelStack kd \<Rightarrow> if s = BRel kd then Some BClosed else None
      | _ \<Rightarrow> Some s)"

fun bc_go :: "b_phase option \<Rightarrow> callc_out list \<Rightarrow> b_phase option" where
  "bc_go s [] = s"
| "bc_go s (o1 # os) = bc_go (s \<bind> (\<lambda>s. bc_next s o1)) os"

lemma bc_go_append [simp]: "bc_go s (xs @ ys) = bc_go (bc_go s xs) ys"
  by (induction s xs rule: bc_go.induct) simp_all

abbreviation bc_run :: "callc_out list \<Rightarrow> b_phase option" where
  "bc_run \<equiv> bc_go (Some BClosed)"

lemma bc_next_simps [simp]:
  "bc_next s (LL st) = Some s" "bc_next s (L4L3 pr x) = Some s" "bc_next s (CardMsg i) = Some s"
  "bc_next s (BL4L3 p) = Some s" "bc_next s (RcvSkb skb) = Some s" "bc_next s (BData p skb) = Some s"
  "bc_next s (AuxInd ps) = Some s"
  "bc_next BClosed (BC_SetStack ok) = Some (if ok then BOpen None else BClosed)"
  "bc_next (BOpen None) (SetStack kd b) = Some (BOpen (Some kd))"
  "bc_next (BOpen (Some kd)) BC_Close = Some (BRel kd)" "bc_next (BOpen None) BC_Close = Some BClosed"
  "bc_next (BRel kd) (RelStack kd) = Some BClosed"
  by (simp_all add: bc_next_def)

subsection \<open>The invariant\<close>

definition l_ok :: "LliChan \<Rightarrow> bool" where
  "l_ok l \<longleftrightarrow>
     li_state l < CC_STATE_COUNT \<and>
     (li_start_b l \<longrightarrow> li_state l \<in> {ST_WAIT_BCONN, ST_ACTIVE, ST_WAIT_BRELEASE, ST_WAIT_BREL_DISC}) \<and>
     (li_data_open l \<longleftrightarrow> li_state l = ST_ACTIVE) \<and>
     ll_path P_Idle (lls (li_out l)) (phase (li_state l)) \<and>
     bc_run (li_out l) = Some (if li_start_b l then BOpen (b_kind_of (li_l2_active l)) else BClosed) \<and>
     (tl_pending (li_dial l) \<longrightarrow> tm_event (li_dial l) \<in> {EV_DIAL, EV_RESUME}) \<and>
     (tl_pending (li_drel l) \<longrightarrow> tm_event (li_drel l) = EV_HANGUP)"

definition owned :: "nat \<Rightarrow> Callc \<Rightarrow> bool" where
  "owned k c \<longleftrightarrow> (\<exists>p \<in> set (cc_procs c). li_proc (ch_at k c) = Some (p_addr p) \<and> p_chan p = Some k)"

definition callc_inv :: "Callc \<Rightarrow> bool" where
  "callc_inv c \<longleftrightarrow>
     length (cc_ch c) = 2 + MAX_WAITING_CALLS \<and> length (cc_dst c) = 2 \<and> cc_chanlimit c \<le> 2 \<and>
     list_all l_ok (cc_ch c) \<and>
     distinct (map p_addr (cc_procs c)) \<and>
     (\<forall>p \<in> set (cc_procs c). p_addr p < cc_next c \<and> (\<forall>k. p_chan p = Some k \<longrightarrow> k < 2 + MAX_WAITING_CALLS)) \<and>
     mem_ok (cc_kenv c) \<and>
     (\<forall>k < 2 + MAX_WAITING_CALLS.
        li_state (ch_at k c) \<noteq> ST_NULL \<and> \<not> li_leased (ch_at k c) \<longrightarrow> owned k c)"

subsection \<open>Changing one channel\<close>

lemma upd_ch_sel [simp]:
  "cc_dst (upd_ch k f c) = cc_dst c" "cc_two (upd_ch k f c) = cc_two c"
  "cc_chanlimit (upd_ch k f c) = cc_chanlimit c" "cc_protocol (upd_ch k f c) = cc_protocol c"
  "cc_procs (upd_ch k f c) = cc_procs c" "cc_next (upd_ch k f c) = cc_next c"
  "cc_fresh (upd_ch k f c) = cc_fresh c" "cc_answer (upd_ch k f c) = cc_answer c"
  "cc_bcset (upd_ch k f c) = cc_bcset c" "cc_kenv (upd_ch k f c) = cc_kenv c"
  "cc_elsa (upd_ch k f c) = cc_elsa c" "cc_myid (upd_ch k f c) = cc_myid c"
  "length (cc_ch (upd_ch k f c)) = length (cc_ch c)"
  by (simp_all add: upd_ch_def)

lemma ch_at_upd [simp]:
  "k < length (cc_ch c) \<Longrightarrow> ch_at k (upd_ch k f c) = f (ch_at k c)"
  "j \<noteq> k \<Longrightarrow> ch_at j (upd_ch k f c) = ch_at j c"
  by (simp_all add: upd_ch_def)

lemma upd_upd [simp]: "upd_ch k f (upd_ch k g c) = upd_ch k (\<lambda>l. f (g l)) c"
  by (cases "k < length (cc_ch c)") (simp_all add: upd_ch_def list_update_beyond)

text \<open>The environment and the causes of processes move out of the way.\<close>

lemma upd_ch_env [simp]:
  "upd_ch k f (c\<lparr>cc_answer := x\<rparr>) = (upd_ch k f c)\<lparr>cc_answer := x\<rparr>"
  "upd_ch k f (c\<lparr>cc_bcset := y\<rparr>) = (upd_ch k f c)\<lparr>cc_bcset := y\<rparr>"
  "upd_ch k f (upd_pc a g c) = upd_pc a g (upd_ch k f c)"
  by (simp_all add: upd_ch_def upd_pc_def)

lemma upd_pc_sel [simp]:
  "cc_ch (upd_pc a g c) = cc_ch c" "cc_dst (upd_pc a g c) = cc_dst c" "cc_two (upd_pc a g c) = cc_two c"
  "cc_kenv (upd_pc a g c) = cc_kenv c" "cc_chanlimit (upd_pc a g c) = cc_chanlimit c" "cc_protocol (upd_pc a g c) = cc_protocol c"
  by (simp_all add: upd_pc_def)

lemma owned_cong:
  "cc_procs c' = cc_procs c \<Longrightarrow> li_proc (ch_at k c') = li_proc (ch_at k c) \<Longrightarrow> owned k c' = owned k c"
  by (simp add: owned_def)

lemma callc_inv_env [simp]:
  "callc_inv (c\<lparr>cc_answer := x\<rparr>) = callc_inv c" "callc_inv (c\<lparr>cc_bcset := y\<rparr>) = callc_inv c"
  by (simp_all add: callc_inv_def owned_def)

lemma callc_inv_pc:
  assumes "\<And>p. p_addr (g p) = p_addr p \<and> p_chan (g p) = p_chan p"
  shows "callc_inv (upd_pc a g c) = callc_inv c"
proof -
  have addr: "p_addr (at_addr a g p) = p_addr p" "p_chan (at_addr a g p) = p_chan p" for p
    using assms by (simp_all add: at_addr_def)
  have "owned k (upd_pc a g c) = owned k c" for k
    by (simp add: owned_def upd_pc_def addr)
  then show ?thesis by (simp add: callc_inv_def upd_pc_def addr comp_def)
qed

lemma callc_inv_cause [simp]: "callc_inv (upd_pc a (\<lambda>p. p\<lparr>p_cause := x\<rparr>) c) = callc_inv c"
  by (rule callc_inv_pc) simp

lemma inv_upd:
  assumes "callc_inv c" "k < length (cc_ch c)" "l_ok (f (ch_at k c))"
    "li_state (f (ch_at k c)) \<noteq> ST_NULL \<Longrightarrow> \<not> li_leased (f (ch_at k c)) \<Longrightarrow>
       li_state (ch_at k c) \<noteq> ST_NULL \<and> \<not> li_leased (ch_at k c) \<and>
       li_proc (f (ch_at k c)) = li_proc (ch_at k c) \<or> owned k (upd_ch k f c)"
  shows "callc_inv (upd_ch k f c)"
proof -
  have own: "owned j (upd_ch k f c)"
    if "j < 2 + MAX_WAITING_CALLS" "li_state (ch_at j (upd_ch k f c)) \<noteq> ST_NULL"
      "\<not> li_leased (ch_at j (upd_ch k f c))" for j
  proof (cases "j = k")
    case True
    then show ?thesis
      using assms(1,2,4) that by (auto simp: callc_inv_def owned_def)
  next
    case False
    then show ?thesis using assms(1) that by (auto simp: callc_inv_def owned_def)
  qed
  have "list_all l_ok (cc_ch (upd_ch k f c))"
    using assms(1-3) by (auto simp: callc_inv_def upd_ch_def list_all_length nth_list_update)
  then show ?thesis using assms(1) own by (simp add: callc_inv_def)
qed

lemma l_okD:
  assumes "callc_inv c" "k < length (cc_ch c)"
  shows "l_ok (ch_at k c)"
  using assms by (simp add: callc_inv_def list_all_length)

end
