(* ===== verification/Hisax_Callc_Run.thy ===== *)
theory Hisax_Callc_Run
  imports Hisax_Callc_Inv
begin

text \<open>
  The routines of the call control, run on a sound card: a routine is followed call by call
  (\<open>mid\<close>), its end is one of a few (\<open>close_end\<close>, \<open>clear_end\<close>, \<open>bconn_end\<close>), and the
  table as a whole interprets the contract of a state machine.
\<close>

subsection \<open>Running a routine\<close>

lemmas ch_ops =
  out_ch_def set_fi_def HL_LL_def del_drel_def del_dial_def card_msg_def data_closed_def b_l4l3_def
  lli_close_def lli_leased_hup_def

definition d_out :: "cc_prim \<Rightarrow> down_arg \<Rightarrow> bool \<Rightarrow> callc_out list" where
  "d_out pr arg b = (if b then [] else [L4L3 pr arg])"

lemma d_out_simps [simp]: "lls (d_out pr arg b) = []" "bc_go s (d_out pr arg b) = s"
  by (cases s; simp add: d_out_def)+

lemma d_l4l3_req:
  "pr \<noteq> (CC_SETUP, REQUEST) \<Longrightarrow> pr \<noteq> (CC_RESUME, REQUEST) \<Longrightarrow>
     d_l4l3 k pr arg c =
       upd_ch k (\<lambda>l. l\<lparr>li_out := li_out l @ d_out pr arg (dt_leased (cc_dst c ! dst_ix k c))\<rparr>) c"
  by (auto simp: d_l4l3_def ch_ops d_out_def upd_ch_def)

text \<open>The step of a channel: what it puts out must fit the state it was in and the one it reaches.\<close>

definition l_step :: "LliChan \<Rightarrow> LliChan \<Rightarrow> bool" where
  "l_step l l' \<longleftrightarrow>
     li_state l' < CC_STATE_COUNT \<and>
     (li_start_b l' \<longrightarrow> li_state l' \<in> {ST_WAIT_BCONN, ST_ACTIVE, ST_WAIT_BRELEASE, ST_WAIT_BREL_DISC}) \<and>
     (li_data_open l' \<longleftrightarrow> li_state l' = ST_ACTIVE) \<and>
     (\<exists>os. li_out l' = li_out l @ os \<and> ll_path (phase (li_state l)) (lls os) (phase (li_state l')) \<and>
        bc_go (Some (if li_start_b l then BOpen (b_kind_of (li_l2_active l)) else BClosed)) os =
          Some (if li_start_b l' then BOpen (b_kind_of (li_l2_active l')) else BClosed)) \<and>
     (tl_pending (li_dial l') \<longrightarrow> li_dial l' = li_dial l) \<and>
     (tl_pending (li_drel l') \<longrightarrow> li_drel l' = li_drel l \<or> tm_event (li_drel l') = EV_HANGUP)"

lemma l_ok_step: "l_ok l \<Longrightarrow> l_step l l' \<Longrightarrow> l_ok l'"
proof -
  assume ok: "l_ok l" and st: "l_step l l'"
  from st obtain os where os: "li_out l' = li_out l @ os" "ll_path (phase (li_state l)) (lls os) (phase (li_state l'))"
    "bc_go (Some (if li_start_b l then BOpen (b_kind_of (li_l2_active l)) else BClosed)) os =
       Some (if li_start_b l' then BOpen (b_kind_of (li_l2_active l')) else BClosed)"
    unfolding l_step_def by blast
  have okl: "ll_path P_Idle (lls (li_out l)) (phase (li_state l))"
    "bc_run (li_out l) = Some (if li_start_b l then BOpen (b_kind_of (li_l2_active l)) else BClosed)"
    "tl_pending (li_dial l) \<longrightarrow> tm_event (li_dial l) \<in> {EV_DIAL, EV_RESUME}"
    "tl_pending (li_drel l) \<longrightarrow> tm_event (li_drel l) = EV_HANGUP"
    using ok unfolding l_ok_def by blast+
  have "ll_path P_Idle (lls (li_out l')) (phase (li_state l'))"
    unfolding os(1) lls_simps by (rule ll_path_append [OF okl(1) os(2)])
  moreover have "bc_run (li_out l') = Some (if li_start_b l' then BOpen (b_kind_of (li_l2_active l')) else BClosed)"
    unfolding os(1) bc_go_append okl(2) by (rule os(3))
  moreover have "tl_pending (li_dial l') \<longrightarrow> tm_event (li_dial l') \<in> {EV_DIAL, EV_RESUME}"
    "tl_pending (li_drel l') \<longrightarrow> tm_event (li_drel l') = EV_HANGUP"
    using okl(3,4) st unfolding l_step_def by metis+
  ultimately show "l_ok l'" using st unfolding l_ok_def l_step_def by blast
qed

definition here :: "nat \<Rightarrow> nat list \<Rightarrow> Callc \<Rightarrow> bool" where
  "here k ss c \<longleftrightarrow> callc_inv c \<and> k < length (cc_ch c) \<and> li_state (ch_at k c) \<in> set ss"

text \<open>A channel that is not idle, is leased or has just been given its call.\<close>

definition busy :: "nat \<Rightarrow> Callc \<Rightarrow> bool" where
  "busy k c \<longleftrightarrow> li_state (ch_at k c) \<noteq> ST_NULL \<or> li_leased (ch_at k c) \<or> owned k c"

lemma here_wp:
  assumes "here k ss c"
    "l_ok (ch_at k c) \<Longrightarrow> li_state (ch_at k c) \<in> set ss \<Longrightarrow> l_step (ch_at k c) (f (ch_at k c))"
    "busy k c" "li_leased (f (ch_at k c)) = li_leased (ch_at k c)" "li_proc (f (ch_at k c)) = li_proc (ch_at k c)"
  shows "callc_inv (upd_ch k f c)"
proof (rule inv_upd)
  show "callc_inv c" "k < length (cc_ch c)" using assms(1) by (simp_all add: here_def)
  then have "l_ok (ch_at k c)" by (rule l_okD)
  then show "l_ok (f (ch_at k c))" using assms(1,2) l_ok_step by (simp add: here_def)
  show "li_state (f (ch_at k c)) \<noteq> ST_NULL \<Longrightarrow> \<not> li_leased (f (ch_at k c)) \<Longrightarrow>
    li_state (ch_at k c) \<noteq> ST_NULL \<and> \<not> li_leased (ch_at k c) \<and>
    li_proc (f (ch_at k c)) = li_proc (ch_at k c) \<or> owned k (upd_ch k f c)"
    using assms(1,3-5) by (auto simp: busy_def owned_def here_def)
qed

lemmas l_run = l_step_def l_ok_def phase_def

subsection \<open>Pieces of routines\<close>

lemma find_pc_upd [simp]: "find_pc a (upd_ch k f c) = find_pc a c"
  by (simp add: find_pc_def)

lemma find_pc_Some: "p \<in> set (cc_procs c) \<Longrightarrow> \<exists>q. find_pc (p_addr p) c = Some q"
proof -
  have "p \<in> set ps \<Longrightarrow> \<exists>q. List.find (\<lambda>q. p_addr q = p_addr p) ps = Some q" for ps
    by (induction ps) auto
  then show "p \<in> set (cc_procs c) \<Longrightarrow> \<exists>q. find_pc (p_addr p) c = Some q" by (simp add: find_pc_def)
qed

lemma owned_proc: "owned k c \<Longrightarrow> \<exists>a p. li_proc (ch_at k c) = Some a \<and> find_pc a c = Some p"
  using find_pc_Some by (fastforce simp: owned_def)

lemma here_proc:
  assumes "here k ss c" "busy k c" "\<not> li_leased (ch_at k c)"
  obtains a p where "li_proc (ch_at k c) = Some a" "find_pc a c = Some p"
proof -
  have "owned k c" using assms by (auto simp: here_def callc_inv_def busy_def)
  then show thesis using owned_proc that by blast
qed

definition rel_out :: "bool \<Rightarrow> nat \<Rightarrow> callc_out list" where
  "rel_out b n = (if b then BC_Close # (case b_kind_of n of Some kd \<Rightarrow> [RelStack kd] | None \<Rightarrow> []) else [])"

lemma rel_out_simps [simp]:
  "lls (rel_out b n) = []" "rel_out False n = []"
  "bc_go (Some (BOpen (b_kind_of n))) (rel_out True n) = Some BClosed"
  "bc_go (Some (if b then BOpen (b_kind_of n) else BClosed)) (rel_out b n) = Some BClosed"
  by (auto simp: rel_out_def split: option.split)

lemma upd_ch_cong: "f (ch_at k c) = g (ch_at k c) \<Longrightarrow> upd_ch k f c = upd_ch k g c"
  by (simp add: upd_ch_def)

lemma upd_ch_id: "f (ch_at k c) = ch_at k c \<Longrightarrow> upd_ch k f c = c"
  by (simp add: upd_ch_def)

definition rel_b :: "LliChan \<Rightarrow> LliChan" where
  "rel_b l = l\<lparr>li_start_b := False, li_out := li_out l @ rel_out (li_start_b l) (li_l2_active l)\<rparr>"

lemma release_b_st_upd: "k < length (cc_ch c) \<Longrightarrow> release_b_st k c = upd_ch k rel_b c"
proof (cases "li_start_b (ch_at k c)")
  case False
  then have "upd_ch k rel_b c = c" by (intro upd_ch_id) (simp add: rel_b_def)
  then show ?thesis using False by (simp add: release_b_st_def)
next
  case True
  assume "k < length (cc_ch c)"
  then show ?thesis
    using True unfolding release_b_st_def
    by (cases "b_kind_of (li_l2_active (ch_at k c))")
      (auto simp: ch_ops Let_def rel_b_def rel_out_def intro!: upd_ch_cong)
qed

definition init_out :: "bool \<Rightarrow> nat \<Rightarrow> bool \<Rightarrow> callc_out list" where
  "init_out ok n incoming = BC_SetStack ok #
     (if ok then (case b_kind_of n of Some kd \<Rightarrow> [SetStack kd (\<not> incoming)] | None \<Rightarrow> []) else [])"

lemma init_out_simps [simp]:
  "lls (init_out ok n i) = []"
  "bc_go (Some BClosed) (init_out ok n i) = Some (if ok then BOpen (b_kind_of n) else BClosed)"
  by (auto simp: init_out_def split: option.split)

lemma init_b_wp:
  assumes "k < length (cc_ch c)" "\<not> li_leased (ch_at k c) \<Longrightarrow> \<exists>p. proc_at k c = Some p"
    "\<And>F y ok. (\<And>l. li_state (F l) = li_state l \<and> li_out (F l) = li_out l @ init_out ok (li_l2_active (ch_at k c)) incoming \<and>
        li_start_b (F l) = (ok \<or> li_start_b l) \<and> li_data_open (F l) = li_data_open l \<and>
        li_l2_active (F l) = li_l2_active l \<and> li_dial (F l) = li_dial l \<and> li_drel (F l) = li_drel l \<and>
        li_leased (F l) = li_leased l \<and> li_proc (F l) = li_proc l) \<Longrightarrow>
      Q ((upd_ch k F c)\<lparr>cc_bcset := y\<rparr>)"
  shows "wpo (init_b_st k incoming c) Q"
proof -
  have bc: "wpo (if li_leased (ch_at k c) then Some (int (k mod 2))
      else do { p \<leftarrow> proc_at k c; Some (p_bchannel p - 1) }) (\<lambda>_. True)"
    using assms(2) by auto
  then obtain b where b: "(if li_leased (ch_at k c) then Some (int (k mod 2))
      else do { p \<leftarrow> proc_at k c; Some (p_bchannel p - 1) }) = Some b"
    by (auto simp: wpo_iff)
  show ?thesis
    unfolding init_b_st_def b bind.bind_lunit
    using assms(1)
    by (cases "cc_bcset c 0"; cases "b_kind_of (li_l2_active (ch_at k c))")
      (auto simp: Let_def ch_ops init_out_def intro!: assms(3))
qed

subsection \<open>In the middle of a routine\<close>

text \<open>
  A routine runs on the channel \<open>k\<close> from \<open>c\<close>; it has got to \<open>c'\<close>, and the link level has seen the
  channel in the phase \<open>ph\<close> last.
\<close>

definition mid :: "nat \<Rightarrow> nat list \<Rightarrow> ll_phase \<Rightarrow> Callc \<Rightarrow> Callc \<Rightarrow> bool" where
  "mid k ss ph c c' \<longleftrightarrow>
     here k ss c \<and> busy k c \<and>
     (\<exists>G os. c' = upd_ch k G c \<and>
       (let l = ch_at k c; l' = G l in
        li_out l' = li_out l @ os \<and> ll_path (phase (li_state l)) (lls os) ph \<and>
        bc_go (Some (if li_start_b l then BOpen (b_kind_of (li_l2_active l)) else BClosed)) os =
          Some (if li_start_b l' then BOpen (b_kind_of (li_l2_active l')) else BClosed) \<and>
        (tl_pending (li_dial l') \<longrightarrow> li_dial l' = li_dial l) \<and>
        (tl_pending (li_drel l') \<longrightarrow> li_drel l' = li_drel l \<or> tm_event (li_drel l') = EV_HANGUP) \<and>
        li_leased l' = li_leased l \<and>
        li_proc l' = li_proc l))"

lemma quiet_refl [simp]: "p \<in> set (quiet p)"
  by (cases p) simp_all

lemma mid_start: "here k ss c \<Longrightarrow> busy k c \<Longrightarrow> mid k ss (phase (li_state (ch_at k c))) c c"
  unfolding mid_def
  by (intro conjI exI [of _ "\<lambda>l. l"] exI [of _ "[]"]) (simp_all add: Let_def upd_ch_id)

lemma mid_len: "mid k ss ph c c' \<Longrightarrow> k < length (cc_ch c')"
  by (auto simp: mid_def here_def)

text \<open>Going on.\<close>

lemma mid_upd:
  assumes "mid k ss ph c c'" "li_out (F (ch_at k c')) = li_out (ch_at k c') @ os" "ll_path ph (lls os) ph'"
    "bc_go (Some (if li_start_b (ch_at k c') then BOpen (b_kind_of (li_l2_active (ch_at k c'))) else BClosed)) os =
       Some (if li_start_b (F (ch_at k c')) then BOpen (b_kind_of (li_l2_active (F (ch_at k c')))) else BClosed)"
    "tl_pending (li_dial (F (ch_at k c'))) \<longrightarrow> li_dial (F (ch_at k c')) = li_dial (ch_at k c')"
    "tl_pending (li_drel (F (ch_at k c'))) \<longrightarrow>
       li_drel (F (ch_at k c')) = li_drel (ch_at k c') \<or> tm_event (li_drel (F (ch_at k c'))) = EV_HANGUP"
    "li_leased (F (ch_at k c')) = li_leased (ch_at k c')" "li_proc (F (ch_at k c')) = li_proc (ch_at k c')"
  shows "mid k ss ph' c (upd_ch k F c')"
proof -
  from assms(1) obtain G os1 where G: "here k ss c" "busy k c" "c' = upd_ch k G c"
    "li_out (G (ch_at k c)) = li_out (ch_at k c) @ os1" "ll_path (phase (li_state (ch_at k c))) (lls os1) ph"
    "bc_go (Some (if li_start_b (ch_at k c) then BOpen (b_kind_of (li_l2_active (ch_at k c))) else BClosed)) os1 =
       Some (if li_start_b (G (ch_at k c)) then BOpen (b_kind_of (li_l2_active (G (ch_at k c)))) else BClosed)"
    "tl_pending (li_dial (G (ch_at k c))) \<longrightarrow> li_dial (G (ch_at k c)) = li_dial (ch_at k c)"
    "tl_pending (li_drel (G (ch_at k c))) \<longrightarrow>
       li_drel (G (ch_at k c)) = li_drel (ch_at k c) \<or> tm_event (li_drel (G (ch_at k c))) = EV_HANGUP"
    "li_leased (G (ch_at k c)) = li_leased (ch_at k c)" "li_proc (G (ch_at k c)) = li_proc (ch_at k c)"
    unfolding mid_def Let_def by blast
  have c': "ch_at k c' = G (ch_at k c)" using G(1,3) by (simp add: here_def)
  have "ll_path (phase (li_state (ch_at k c))) (lls (os1 @ os)) ph'"
    unfolding lls_simps by (rule ll_path_append [OF G(5) assms(3)])
  moreover have "upd_ch k F c' = upd_ch k (\<lambda>l. F (G l)) c" by (simp add: G(3))
  ultimately show ?thesis
    unfolding mid_def Let_def
    by (intro conjI G(1,2) exI [of _ "\<lambda>l. F (G l)"] exI [of _ "os1 @ os"])
      (use assms(2-) [unfolded c'] G(4-) in \<open>simp_all, metis?\<close>)
qed

text \<open>Coming to the end.\<close>

lemma mid_done:
  assumes "mid k ss ph c c'" "ph = phase (li_state (ch_at k c'))" "li_state (ch_at k c') < CC_STATE_COUNT"
    "li_start_b (ch_at k c') \<Longrightarrow> li_state (ch_at k c') \<in> {ST_WAIT_BCONN, ST_ACTIVE, ST_WAIT_BRELEASE, ST_WAIT_BREL_DISC}"
    "li_data_open (ch_at k c') \<longleftrightarrow> li_state (ch_at k c') = ST_ACTIVE"
  shows "callc_inv c'"
proof -
  from assms(1) obtain G os1 where G: "here k ss c" "busy k c" "c' = upd_ch k G c"
    "li_out (G (ch_at k c)) = li_out (ch_at k c) @ os1" "ll_path (phase (li_state (ch_at k c))) (lls os1) ph"
    "bc_go (Some (if li_start_b (ch_at k c) then BOpen (b_kind_of (li_l2_active (ch_at k c))) else BClosed)) os1 =
       Some (if li_start_b (G (ch_at k c)) then BOpen (b_kind_of (li_l2_active (G (ch_at k c)))) else BClosed)"
    "tl_pending (li_dial (G (ch_at k c))) \<longrightarrow> li_dial (G (ch_at k c)) = li_dial (ch_at k c)"
    "tl_pending (li_drel (G (ch_at k c))) \<longrightarrow>
       li_drel (G (ch_at k c)) = li_drel (ch_at k c) \<or> tm_event (li_drel (G (ch_at k c))) = EV_HANGUP"
    "li_leased (G (ch_at k c)) = li_leased (ch_at k c)" "li_proc (G (ch_at k c)) = li_proc (ch_at k c)"
    unfolding mid_def Let_def by blast
  have c': "ch_at k c' = G (ch_at k c)" using G(1,3) by (simp add: here_def)
  have "l_step (ch_at k c) (G (ch_at k c))"
    unfolding l_step_def using assms(2-) [unfolded c'] G(4-8) by (intro conjI exI [of _ os1]) simp_all
  then show ?thesis
    unfolding G(3) by (intro here_wp [OF G(1)] G(2,9,10))
qed

lemma mid_inv: "mid k ss ph c c' \<Longrightarrow> callc_inv c \<and> k < length (cc_ch c) \<and> li_state (ch_at k c) \<in> set ss"
  by (simp add: mid_def here_def)

lemma mid_proc:
  assumes "mid k ss ph c c'" "\<not> li_leased (ch_at k c')"
  obtains a p where "li_proc (ch_at k c') = Some a" "find_pc a c' = Some p"
proof -
  from assms(1) obtain G where G: "here k ss c" "busy k c" "c' = upd_ch k G c"
    "li_leased (G (ch_at k c)) = li_leased (ch_at k c)" "li_proc (G (ch_at k c)) = li_proc (ch_at k c)"
    unfolding mid_def Let_def by blast
  then show thesis using here_proc [OF G(1,2)] assms(2) that by (auto simp: here_def)
qed

lemma mid_out:
  "mid k ss ph c c' \<Longrightarrow> ll_path ph (lls [o1]) ph' \<Longrightarrow> (\<forall>s. bc_next s o1 = Some s) \<Longrightarrow> mid k ss ph' c (out_ch k o1 c')"
  unfolding out_ch_def by (erule mid_upd [where os = "[o1]"]) simp_all

lemma mid_set: "mid k ss ph c c' \<Longrightarrow> mid k ss ph c (set_fi k n c')"
  unfolding set_fi_def by (erule mid_upd [where os = "[]"]) simp_all

lemma mid_quiet: "mid k ss ph c c' \<Longrightarrow> ph' \<in> set (quiet ph) \<Longrightarrow> mid k ss ph' c c'"
  using mid_upd [of k ss ph c c' "\<lambda>l. l" "[]" ph'] by (simp add: upd_ch_id)

lemma mid_closed: "mid k ss ph c c' \<Longrightarrow> mid k ss ph c (data_closed k c')"
  unfolding data_closed_def by (erule mid_upd [where os = "[]"]) simp_all

lemma mid_rel: "mid k ss ph c c' \<Longrightarrow> mid k ss ph c (release_b_st k c')"
  unfolding release_b_st_upd [OF mid_len]
  by (erule mid_upd [where os = "rel_out (li_start_b (ch_at k c')) (li_l2_active (ch_at k c'))"])
    (simp_all add: rel_b_def)


lemma mid_d:
  "mid k ss ph c c' \<Longrightarrow> pr \<noteq> (CC_SETUP, REQUEST) \<Longrightarrow> pr \<noteq> (CC_RESUME, REQUEST) \<Longrightarrow>
     mid k ss ph c (d_l4l3 k pr arg c')"
  unfolding d_l4l3_req
  by (erule mid_upd [where os = "d_out pr arg (dt_leased (cc_dst c' ! dst_ix k c'))"]) simp_all

lemma len_ops [simp]:
  "length (cc_ch (out_ch k o1 c)) = length (cc_ch c)" "length (cc_ch (set_fi k n c)) = length (cc_ch c)"
  "length (cc_ch (HL_LL k st c)) = length (cc_ch c)" "length (cc_ch (card_msg k i c)) = length (cc_ch c)"
  "length (cc_ch (data_closed k c)) = length (cc_ch c)" "length (cc_ch (b_l4l3 k p c)) = length (cc_ch c)"
  "k < length (cc_ch c) \<Longrightarrow> length (cc_ch (release_b_st k c)) = length (cc_ch c)"
  by (simp_all add: ch_ops release_b_st_upd)

lemma ch_at_ops [simp]:
  assumes "k < length (cc_ch c)"
  shows
  "ch_at k (out_ch k o1 c) = (ch_at k c)\<lparr>li_out := li_out (ch_at k c) @ [o1]\<rparr>"
  "ch_at k (HL_LL k st c) = (ch_at k c)\<lparr>li_out := li_out (ch_at k c) @ [LL st]\<rparr>"
  "ch_at k (card_msg k i c) = (ch_at k c)\<lparr>li_out := li_out (ch_at k c) @ [CardMsg i]\<rparr>"
  "ch_at k (b_l4l3 k p c) = (ch_at k c)\<lparr>li_out := li_out (ch_at k c) @ [BL4L3 p]\<rparr>"
  "ch_at k (set_fi k n c) = (ch_at k c)\<lparr>li_state := n\<rparr>"
  "ch_at k (data_closed k c) = (ch_at k c)\<lparr>li_data_open := False\<rparr>"
  "ch_at k (release_b_st k c) = rel_b (ch_at k c)"
  using assms by (simp_all add: ch_ops release_b_st_upd)

lemma rel_b_sel [simp]:
  "li_state (rel_b l) = li_state l" "\<not> li_start_b (rel_b l)" "li_data_open (rel_b l) = li_data_open l"
  "li_leased (rel_b l) = li_leased l" "li_proc (rel_b l) = li_proc l"
  by (simp_all add: rel_b_def)

lemma mid_LL: "mid k ss ph c c' \<Longrightarrow> ll_path ph [st] ph' \<Longrightarrow> mid k ss ph' c (HL_LL k st c')"
  unfolding HL_LL_def by (erule mid_out) simp_all

lemma mid_card: "mid k ss ph c c' \<Longrightarrow> mid k ss ph c (card_msg k i c')"
  unfolding card_msg_def by (erule mid_out) simp_all

lemma mid_b: "mid k ss ph c c' \<Longrightarrow> mid k ss ph c (b_l4l3 k p c')"
  unfolding b_l4l3_def by (erule mid_out) simp_all

lemma mid_start_b:
  "mid k ss ph c c' \<Longrightarrow> \<not> li_start_b (ch_at k c') \<Longrightarrow> mid k ss ph c (upd_ch k (\<lambda>l. l\<lparr>li_start_b := False\<rparr>) c')"
  by (erule mid_upd [where os = "[]"]) simp_all

subsection \<open>The ends of the routines\<close>

text \<open>Phases in which the link level may be told that the call is gone.\<close>

definition closing :: "ll_phase \<Rightarrow> bool" where
  "closing ph \<longleftrightarrow> ph \<noteq> P_Idle \<and> ph \<noteq> P_BConn"

lemma closing_says: "closing ph \<Longrightarrow> ll_path ph [STAT_DHUP] P_Idle" "closing ph \<Longrightarrow> ll_path ph [STAT_CAUSE x] ph"
  by (cases ph; simp add: closing_def)+

definition shut :: "nat \<Rightarrow> Callc \<Rightarrow> bool" where
  "shut k c \<longleftrightarrow> \<not> li_start_b (ch_at k c) \<and> \<not> li_data_open (ch_at k c)"

lemma close_end: "mid k ss P_Idle c c' \<Longrightarrow> shut k c' \<Longrightarrow> callc_inv (lli_close k c')"
  unfolding lli_close_def
  by (rule mid_done, rule mid_card, rule mid_start_b, erule mid_set)
    (simp_all add: mid_len shut_def phase_def)

lemma leased_hup_end: "mid k ss ph c c' \<Longrightarrow> closing ph \<Longrightarrow> shut k c' \<Longrightarrow> callc_inv (lli_leased_hup k c')"
  unfolding lli_leased_hup_def
  by (rule close_end, rule mid_LL, erule mid_LL, erule closing_says, erule closing_says)
    (simp add: mid_len shut_def)

lemma deliver_cause_end:
  assumes "mid k ss ph c c'" "closing ph" "\<not> li_leased (ch_at k c')" "shut k c'"
    "\<And>c''. mid k ss ph c c'' \<Longrightarrow> shut k c'' \<Longrightarrow> Q c''"
  shows "wpo (lli_deliver_cause k c') Q"
proof -
  obtain a p where p: "li_proc (ch_at k c') = Some a" "find_pc a c' = Some p"
    using mid_proc [OF assms(1,3)] by blast
  have "mid k ss ph c (HL_LL k (STAT_CAUSE x) c')" "shut k (HL_LL k (STAT_CAUSE x) c')" for x
    using assms(1,2,4) by (auto intro: mid_LL closing_says simp: shut_def mid_len)
  then show ?thesis
    using p assms(1,4,5) by (simp add: lli_deliver_cause_def proc_at_def)
qed

lemma dhup_close_end:
  assumes "mid k ss ph c c'" "closing ph" "shut k c'"
  shows "wpo (lli_dhup_close k c') callc_inv"
proof (cases "li_leased (ch_at k c')")
  case True
  then show ?thesis using leased_hup_end [OF assms] by (simp add: lli_dhup_close_def)
next
  case False
  have "wpo (lli_deliver_cause k c') (\<lambda>c''. callc_inv (lli_close k (HL_LL k STAT_DHUP c'')))"
    by (rule deliver_cause_end [OF assms(1,2) False assms(3)])
      (rule close_end, erule mid_LL, rule closing_says [OF assms(2)], simp add: shut_def mid_len)
  then show ?thesis using False by (simp add: lli_dhup_close_def)
qed

lemma clear_end:
  assumes "mid k ss ph c c'" "P_Clear \<in> set (quiet ph)" "shut k c'" "n = ST_WAIT_DRELEASE \<or> n = ST_WAIT_D_REL_CNF"
    "pr \<noteq> (CC_SETUP, REQUEST)" "pr \<noteq> (CC_RESUME, REQUEST)"
  shows "callc_inv (d_l4l3 k pr arg (set_fi k n c'))"
proof (rule mid_done)
  show "mid k ss P_Clear c (d_l4l3 k pr arg (set_fi k n c'))"
    using assms by (intro mid_d mid_set mid_quiet [OF assms(1)])
  have "li_state (ch_at k (d_l4l3 k pr arg (set_fi k n c'))) = n"
    "li_start_b (ch_at k (d_l4l3 k pr arg (set_fi k n c'))) = li_start_b (ch_at k c')"
    "li_data_open (ch_at k (d_l4l3 k pr arg (set_fi k n c'))) = li_data_open (ch_at k c')"
    using mid_len [OF assms(1)] by (simp_all add: d_l4l3_req assms(5,6))
  then show "P_Clear = phase (li_state (ch_at k (d_l4l3 k pr arg (set_fi k n c'))))"
    "li_state (ch_at k (d_l4l3 k pr arg (set_fi k n c'))) < CC_STATE_COUNT"
    "li_start_b (ch_at k (d_l4l3 k pr arg (set_fi k n c'))) \<Longrightarrow> li_state (ch_at k (d_l4l3 k pr arg (set_fi k n c')))
       \<in> {ST_WAIT_BCONN, ST_ACTIVE, ST_WAIT_BRELEASE, ST_WAIT_BREL_DISC}"
    "li_data_open (ch_at k (d_l4l3 k pr arg (set_fi k n c'))) \<longleftrightarrow>
       li_state (ch_at k (d_l4l3 k pr arg (set_fi k n c'))) = ST_ACTIVE"
    using assms(3,4) by (auto simp: phase_def shut_def)
qed


lemma closing_clear: "closing ph \<Longrightarrow> P_Clear \<in> set (quiet ph)"
  by (cases ph) (simp_all add: closing_def)

lemma d_l4l3_pc [simp]:
  "pr \<noteq> (CC_SETUP, REQUEST) \<Longrightarrow> pr \<noteq> (CC_RESUME, REQUEST) \<Longrightarrow>
     d_l4l3 k pr arg (upd_pc a g c) = upd_pc a g (d_l4l3 k pr arg c)"
  by (simp add: d_l4l3_req dst_ix_def)

lemma disconnect_end:
  assumes "mid k ss ph c c'" "closing ph" "shut k c'"
  shows "wpo (lli_disconnect_with x k c') callc_inv"
proof (cases "li_leased (ch_at k c')")
  case True
  then show ?thesis using leased_hup_end [OF assms] by (simp add: lli_disconnect_with_def)
next
  case False
  obtain a p where p: "li_proc (ch_at k c') = Some a" "find_pc a c' = Some p"
    using mid_proc [OF assms(1) False] by blast
  have "find_pc a (set_fi k ST_WAIT_DRELEASE c') = Some p" using p(2) by (simp add: set_fi_def)
  then show ?thesis
    using p(1) False clear_end [OF assms(1) closing_clear [OF assms(2)] assms(3)] mid_len [OF assms(1)]
    by (simp add: lli_disconnect_with_def proc_cause_def)
qed

lemma release_req_end:
  assumes "mid k ss ph c c'" "closing ph" "shut k c'"
  shows "wpo (lli_release_req k c') callc_inv"
  using leased_hup_end [OF assms] clear_end [OF assms(1) closing_clear [OF assms(2)] assms(3)]
  by (simp add: lli_release_req_def Let_def)

lemma start_disc_end:
  assumes "mid k ss ph c c'" "closing ph" "shut k c'"
  shows "wpo (lli_start_disc k c') callc_inv"
  using leased_hup_end [OF assms] disconnect_end [OF assms]
  by (simp add: lli_start_disc_def lli_disconnect_req_def)

lemma failure_end:
  assumes "mid k ss ph c c'" "closing ph" "shut k c'"
  shows "wpo (lli_failure_l k c') callc_inv"
proof -
  let ?c = "HL_LL k STAT_DHUP (HL_LL k (STAT_CAUSE (''L'' @ hex2 0 @ hex2 0x2f)) (set_fi k ST_NULL c'))"
  have "mid k ss P_Idle c ?c"
    by (rule mid_LL, rule mid_LL, rule mid_set [OF assms(1)]) (rule closing_says [OF assms(2)])+
  then have "callc_inv (card_msg k MDL_INFO_REL (upd_ch k (\<lambda>l. l\<lparr>li_start_b := False\<rparr>) ?c))"
    by (intro mid_done [OF mid_card [OF mid_start_b]])
      (use assms(3) mid_len [OF assms(1)] in \<open>simp_all add: shut_def phase_def\<close>)
  then show ?thesis by (simp add: lli_failure_l_def Let_def)
qed

subsection \<open>The routines\<close>

text \<open>A routine of a row for the state \<open>n\<close>.\<close>

lemma at_start:
  assumes "here k [n] c" "n \<noteq> 0"
  shows "mid k [n] (phase n) c c" "l_ok (ch_at k c)" "li_state (ch_at k c) = n" "k < length (cc_ch c)"
  using assms mid_start [OF assms(1)] l_okD [of c k] by (auto simp: here_def busy_def)

lemma at_shut: "here k [n] c \<Longrightarrow> n \<notin> {5, 6, 7, 8} \<Longrightarrow> shut k c"
  using l_okD [of c k] by (auto simp: here_def l_ok_def shut_def)

lemma phase_closing: "n \<in> {1, 2, 3, 4, 5, 9, 10, 11, 12} \<Longrightarrow> closing (phase n)"
  by (auto simp: closing_def phase_def)

lemma closing_rows:
  assumes "here k [n] c" "n \<in> {1, 2, 3, 4, 9, 10, 11, 12}"
  shows "wpo (lli_disconnect_with x k c) callc_inv" "wpo (lli_release_req k c) callc_inv"
    "wpo (lli_dhup_close k c) callc_inv" "wpo (lli_start_disc k c) callc_inv" "wpo (lli_failure_l k c) callc_inv"
    "wpo (lli_no_setup_rsp k c) callc_inv"
proof -
  have n: "n \<noteq> 0" "n \<notin> {5, 6, 7, 8}" using assms(2) by auto
  have cl: "closing (phase n)" by (rule phase_closing) (use assms(2) in auto)
  note end_at = at_start(1) [OF assms(1) n(1)] cl at_shut [OF assms(1) n(2)]
  show "wpo (lli_disconnect_with x k c) callc_inv" by (rule disconnect_end [OF end_at])
  show "wpo (lli_release_req k c) callc_inv" by (rule release_req_end [OF end_at])
  show "wpo (lli_dhup_close k c) callc_inv" by (rule dhup_close_end [OF end_at])
  show "wpo (lli_start_disc k c) callc_inv" by (rule start_disc_end [OF end_at])
  show "wpo (lli_failure_l k c) callc_inv" by (rule failure_end [OF end_at])
  have "callc_inv (lli_close k (HL_LL k STAT_DHUP c))"
    by (rule close_end, rule mid_LL [OF end_at(1)], rule closing_says [OF cl])
      (use end_at(3) at_start(4) [OF assms(1) n(1)] in \<open>simp add: shut_def\<close>)
  then show "wpo (lli_no_setup_rsp k c) callc_inv" by (simp add: lli_no_setup_rsp_def)
qed

lemma bchan_rows:
  assumes "here k [n] c" "n = 5"
  shows "wpo (lli_rel_b_disc k c) callc_inv" "wpo (lli_rel_b_release_req k c) callc_inv"
    "wpo (lli_rel_b_dhup k c) callc_inv" "wpo (lli_rel_b_fail k c) callc_inv"
proof -
  have n: "n \<noteq> 0" using assms(2) by simp
  have cl: "closing (phase n)" by (rule phase_closing) (use assms(2) in simp)
  have "shut k (release_b_st k c)"
    using at_start(2-4) [OF assms(1) n] assms(2) by (simp add: shut_def l_ok_def)
  note end_at = mid_rel [OF at_start(1) [OF assms(1) n]] cl this
  show "wpo (lli_rel_b_disc k c) callc_inv"
    unfolding lli_rel_b_disc_def by (rule start_disc_end [OF end_at])
  show "wpo (lli_rel_b_release_req k c) callc_inv"
    unfolding lli_rel_b_release_req_def by (rule release_req_end [OF end_at])
  show "wpo (lli_rel_b_dhup k c) callc_inv"
    unfolding lli_rel_b_dhup_def by (rule dhup_close_end [OF end_at])
  show "wpo (lli_rel_b_fail k c) callc_inv"
    unfolding lli_rel_b_fail_def by (rule failure_end [OF end_at])
qed

text \<open>With the B channel up, the link level is told first that it goes down.\<close>

lemma bhup_rows:
  assumes "mid k ss P_BConn c c'" "\<not> li_data_open (ch_at k c')"
  shows "wpo (lli_bhup_disc k c') callc_inv" "wpo (lli_bhup_release_req k c') callc_inv"
    "wpo (lli_bhup_dhup k c') callc_inv" "wpo (lli_bhup_fail k c') callc_inv"
proof -
  have "mid k ss P_BDown c (release_b_st k (HL_LL k STAT_BHUP c'))"
    by (rule mid_rel, rule mid_LL [OF assms(1)]) simp
  moreover have "closing P_BDown" by (simp add: closing_def)
  moreover have "shut k (release_b_st k (HL_LL k STAT_BHUP c'))"
    using assms(2) mid_len [OF assms(1)] by (simp add: shut_def)
  ultimately have end_at: "mid k ss P_BDown c (release_b_st k (HL_LL k STAT_BHUP c'))" "closing P_BDown"
    "shut k (release_b_st k (HL_LL k STAT_BHUP c'))" .
  show "wpo (lli_bhup_disc k c') callc_inv"
    unfolding lli_bhup_disc_def lli_rel_b_disc_def by (rule start_disc_end [OF end_at])
  show "wpo (lli_bhup_release_req k c') callc_inv"
    unfolding lli_bhup_release_req_def lli_rel_b_release_req_def by (rule release_req_end [OF end_at])
  show "wpo (lli_bhup_dhup k c') callc_inv"
    unfolding lli_bhup_dhup_def lli_rel_b_dhup_def by (rule dhup_close_end [OF end_at])
  show "wpo (lli_bhup_fail k c') callc_inv"
    unfolding lli_bhup_fail_def lli_rel_b_fail_def by (rule failure_end [OF end_at])
qed

lemma waiting_rows:
  assumes "here k [n] c" "n = 7 \<or> n = 8"
  shows "wpo (lli_bhup_disc k c) callc_inv" "wpo (lli_bhup_release_req k c) callc_inv"
    "wpo (lli_bhup_dhup k c) callc_inv" "wpo (lli_bhup_fail k c) callc_inv"
proof -
  have n: "n \<noteq> 0" "phase n = P_BConn" using assms(2) by (auto simp: phase_def)
  have "\<not> li_data_open (ch_at k c)" using at_start(2,3) [OF assms(1) n(1)] assms(2) by (auto simp: l_ok_def)
  note end_at = bhup_rows [OF at_start(1) [OF assms(1) n(1), unfolded n(2)] this]
  show "wpo (lli_bhup_disc k c) callc_inv" "wpo (lli_bhup_release_req k c) callc_inv"
    "wpo (lli_bhup_dhup k c) callc_inv" "wpo (lli_bhup_fail k c) callc_inv"
    by (rule end_at)+
qed


lemma active_rows:
  assumes "here k [n] c" "n = 6"
  shows "wpo (lli_abort k c) callc_inv" "wpo (lli_failure_a k c) callc_inv"
    "wpo (lli_bhup_rel_b k c) callc_inv" "wpo (lli_disconn_bchan k c) callc_inv"
    "wpo (lli_release_bchan k c) callc_inv" "wpo (lli_suspend k c) callc_inv"
proof -
  have n: "n \<noteq> 0" "phase n = P_BConn" using assms(2) by (auto simp: phase_def)
  note st = at_start(1) [OF assms(1) n(1), unfolded n(2)] at_start(2-4) [OF assms(1) n(1)]
  have open6: "li_data_open (ch_at k c)" using st(2,3) assms(2) by (simp add: l_ok_def)
  have hup: "mid k [n] P_BConn c (b_l4l3 k (DL_RELEASE, REQUEST) (data_closed k c))"
    "\<not> li_data_open (ch_at k (b_l4l3 k (DL_RELEASE, REQUEST) (data_closed k c)))"
    using st(4) by (simp_all add: mid_b mid_closed st(1))
  show "wpo (lli_abort k c) callc_inv" unfolding lli_abort_def by (rule bhup_rows(3) [OF hup])
  show "wpo (lli_failure_a k c) callc_inv" unfolding lli_failure_a_def by (rule bhup_rows(4) [OF hup])
  have "mid k [n] P_BDown c (release_b_st k (HL_LL k STAT_BHUP (data_closed k (set_fi k ST_WAIT_DCOMMAND c))))"
    by (rule mid_rel, rule mid_LL, rule mid_closed, rule mid_set [OF st(1)]) simp
  then show "wpo (lli_bhup_rel_b k c) callc_inv"
    unfolding lli_bhup_rel_b_def wpo_Some by (rule mid_done) (use st(4) in \<open>simp_all add: phase_def\<close>)
  have wait: "callc_inv (b_l4l3 k (DL_RELEASE, REQUEST) (set_fi k m (data_closed k c)))"
    if "m = ST_WAIT_BRELEASE \<or> m = ST_WAIT_BREL_DISC" for m
    by (rule mid_done, rule mid_b, rule mid_set, rule mid_closed [OF st(1)])
      (use st(4) that in \<open>auto simp: phase_def\<close>)
  show "wpo (lli_disconn_bchan k c) callc_inv" "wpo (lli_release_bchan k c) callc_inv"
    by (simp_all add: lli_disconn_bchan_def lli_release_bchan_def wait)
  have "callc_inv (d_l4l3 k (CC_SUSPEND, REQUEST) (proc_arg k c) c)"
    by (rule mid_done, rule mid_d [OF st(1)])
      (use st(3,4) assms(2) open6 in \<open>simp_all add: d_l4l3_req phase_def\<close>)
  then show "wpo (lli_suspend k c) callc_inv" by (simp add: lli_suspend_def)
qed

text \<open>Rows that leave the channel without a B channel stack in another state of the same phase.\<close>

lemma stay_rows:
  assumes "here k [n] c" "n \<in> {2, 3, 12}" "m \<in> {2, 3, 4, 12}" "pr \<noteq> (CC_SETUP, REQUEST)" "pr \<noteq> (CC_RESUME, REQUEST)"
  shows "callc_inv (d_l4l3 k pr arg (set_fi k m c))" "callc_inv (d_l4l3 k pr arg c)"
proof -
  have n: "n \<noteq> 0" "phase n = P_In" using assms(2) by (auto simp: phase_def)
  note st = at_start(1) [OF assms(1) n(1), unfolded n(2)] at_start(2-4) [OF assms(1) n(1)]
  have sh: "shut k c" by (rule at_shut [OF assms(1)]) (use assms(2) in auto)
  show "callc_inv (d_l4l3 k pr arg (set_fi k m c))"
    by (rule mid_done, rule mid_d [OF mid_set [OF st(1)] assms(4,5)])
      (use assms(3) st(4) sh in \<open>auto simp: d_l4l3_req assms(4,5) phase_def shut_def\<close>)
  show "callc_inv (d_l4l3 k pr arg c)"
    by (rule mid_done, rule mid_d [OF st(1) assms(4,5)])
      (use assms(2) st(3,4) sh in \<open>auto simp: d_l4l3_req assms(4,5) phase_def shut_def\<close>)
qed

lemma reject_row: "here k [2] c \<Longrightarrow> wpo (lli_reject_req k c) callc_inv"
proof -
  assume h: "here k [2] c"
  note st = at_start [OF h] at_shut [OF h]
  have hup: "callc_inv (lli_leased_hup k c)"
    by (rule leased_hup_end [OF st(1)]) (use st(5) in \<open>simp_all add: phase_closing\<close>)
  let ?c = "set_fi k ST_IN_ALERT_SENT
    (upd_ch k (\<lambda>l. l\<lparr>li_drel := FsmRestartTimer (cc_kenv c) 40 EV_HANGUP (li_drel l)\<rparr>) c)"
  have "mid k [2] (phase 2) c ?c"
    by (rule mid_set, rule mid_upd [OF st(1), where os = "[]"]) (simp_all add: FsmRestartTimer_def)
  then have "callc_inv (d_l4l3 k (CC_ALERTING, REQUEST) arg ?c)" for arg
    by (intro mid_done [OF mid_d]) (use st in \<open>simp_all add: d_l4l3_req phase_def shut_def\<close>)
  then show ?thesis using hup by (simp add: lli_reject_req_def Let_def)
qed

lemma error_row: "here k [n] c \<Longrightarrow> n \<in> {1, 2, 4} \<Longrightarrow> wpo (lli_error k c) callc_inv"
proof -
  assume h: "here k [n] c" and n: "n \<in> {1, 2, 4}"
  then have n0: "n \<noteq> 0" "n \<notin> {5, 6, 7, 8}" "closing (phase n)" by (auto intro: phase_closing)
  have "mid k [n] P_Clear c (set_fi k ST_WAIT_DRELEASE c)"
    by (rule mid_set, rule mid_quiet [OF at_start(1) [OF h n0(1)]], rule closing_clear [OF n0(3)])
  then show ?thesis
    unfolding lli_error_def wpo_Some
    by (rule mid_done) (use at_shut [OF h n0(2)] at_start(4) [OF h n0(1)] in \<open>simp_all add: phase_def shut_def\<close>)
qed

lemma says_row:
  assumes "here k [n] c" "n \<noteq> 0" "ll_path (phase n) [s] (phase n)"
  shows "callc_inv (HL_LL k s c)"
proof (rule mid_done)
  note st = at_start [OF assms(1,2)]
  show "mid k [n] (phase n) c (HL_LL k s c)" by (rule mid_LL [OF st(1) assms(3)])
  show "phase n = phase (li_state (ch_at k (HL_LL k s c)))"
    "li_state (ch_at k (HL_LL k s c)) < CC_STATE_COUNT"
    "li_start_b (ch_at k (HL_LL k s c)) \<Longrightarrow> li_state (ch_at k (HL_LL k s c)) \<in>
       {ST_WAIT_BCONN, ST_ACTIVE, ST_WAIT_BRELEASE, ST_WAIT_BREL_DISC}"
    "li_data_open (ch_at k (HL_LL k s c)) \<longleftrightarrow> li_state (ch_at k (HL_LL k s c)) = ST_ACTIVE"
    using st(2-4) by (simp_all add: l_ok_def)
qed

lemma says_rows:
  "here k [1] c \<Longrightarrow> wpo (lli_alerting k c) callc_inv" "here k [1] c \<Longrightarrow> wpo (lli_proceeding k c) callc_inv"
  "here k [n] c \<Longrightarrow> n = 10 \<or> n = 11 \<Longrightarrow> wpo (lli_dchan_not_ready k c) callc_inv"
  by (auto simp: lli_alerting_def lli_proceeding_def lli_dchan_not_ready_def phase_def intro!: says_row)

lemma charge_row:
  assumes "here k [n] c" "n = 5 \<or> n = 6" "\<exists>p. proc_at k c = Some p"
  shows "wpo (lli_charge_info k c) callc_inv"
proof -
  have "callc_inv (HL_LL k (STAT_CINF s) c)" for s
    by (rule says_row [OF assms(1)]) (use assms(2) in \<open>auto simp: phase_def\<close>)
  then show ?thesis using assms(3) by (auto simp: lli_charge_info_def)
qed

lemma go_active_row: "here k [5] c \<Longrightarrow> wpo (lli_go_active k c) callc_inv"
proof -
  assume h: "here k [5] c"
  note st = at_start [OF h]
  let ?c = "upd_ch k (\<lambda>l. l\<lparr>li_data_open := True\<rparr>) (set_fi k ST_ACTIVE c)"
  have "mid k [5] P_DConn c ?c"
    by (rule mid_upd [OF mid_set [OF st(1)], where os = "[]"]) (simp_all add: phase_def)
  then have "mid k [5] P_BConn c (card_msg k MDL_INFO_CONN (HL_LL k (STAT_BCONN num) ?c))" for num
    by (intro mid_card) (erule mid_LL, simp)
  then have "callc_inv (card_msg k MDL_INFO_CONN (HL_LL k (STAT_BCONN num) ?c))" for num
    by (rule mid_done) (use st(4) in \<open>simp_all add: phase_def\<close>)
  then show ?thesis by (simp add: lli_go_active_def Let_def)
qed


subsection \<open>Setting a call up\<close>

text \<open>The B channel is told to come up; \<open>act\<close> is the change of the channel before.\<close>

lemma bconn_end:
  assumes "mid k ss ph c c'" "ph = P_Out \<or> ph = P_In" "shut k c'"
    "\<And>l. act l = l \<or> act l = l\<lparr>li_l2_active := li_l2_protocol l, li_incoming := True\<rparr>"
  shows "wpo (init_b_st k i (upd_ch k act (HL_LL k STAT_DCONN (set_fi k ST_WAIT_BCONN c'))))
    (\<lambda>c. callc_inv (b_l4l3 k (DL_ESTABLISH, REQUEST) c))"
proof -
  let ?c = "upd_ch k act (HL_LL k STAT_DCONN (set_fi k ST_WAIT_BCONN c'))"
  note len = mid_len [OF assms(1)]
  have actD: "li_out (act l) = li_out l" "li_start_b (act l) = li_start_b l" "li_dial (act l) = li_dial l"
    "li_drel (act l) = li_drel l" "li_leased (act l) = li_leased l" "li_proc (act l) = li_proc l"
    "li_state (act l) = li_state l" "li_data_open (act l) = li_data_open l" for l
    using assms(4) [of l] by (elim disjE; simp)+
  have "mid k ss P_DConn c (HL_LL k STAT_DCONN (set_fi k ST_WAIT_BCONN c'))"
    using assms(2) by (intro mid_LL [OF mid_set [OF assms(1)]]) auto
  then have m: "mid k ss P_DConn c ?c"
    by (rule mid_upd [where os = "[]"]) (use assms(3) len in \<open>simp_all add: actD shut_def\<close>)
  have c: "li_state (ch_at k ?c) = ST_WAIT_BCONN" "\<not> li_start_b (ch_at k ?c)" "\<not> li_data_open (ch_at k ?c)"
    using assms(3) len by (simp_all add: actD shut_def)
  show ?thesis
  proof (rule init_b_wp)
    show "k < length (cc_ch ?c)" using len by simp
    show "\<exists>p. proc_at k ?c = Some p" if "\<not> li_leased (ch_at k ?c)"
      by (rule mid_proc [OF m that]) (auto simp: proc_at_def)
  next
    fix F :: "LliChan \<Rightarrow> LliChan" and y ok
    assume F: "\<And>l. li_state (F l) = li_state l \<and> li_out (F l) = li_out l @ init_out ok (li_l2_active (ch_at k ?c)) i \<and>
        li_start_b (F l) = (ok \<or> li_start_b l) \<and> li_data_open (F l) = li_data_open l \<and>
        li_l2_active (F l) = li_l2_active l \<and> li_dial (F l) = li_dial l \<and> li_drel (F l) = li_drel l \<and>
        li_leased (F l) = li_leased l \<and> li_proc (F l) = li_proc l"
    have "mid k ss P_DConn c (upd_ch k F ?c)"
      by (rule mid_upd [OF m, where os = "init_out ok (li_l2_active (ch_at k ?c)) i"])
        (use c F in simp_all)
    then have "callc_inv (b_l4l3 k (DL_ESTABLISH, REQUEST) (upd_ch k F ?c))"
      by (intro mid_done [OF mid_b]) (use c F len in \<open>simp_all add: phase_def\<close>)
    then show "callc_inv (b_l4l3 k (DL_ESTABLISH, REQUEST) ((upd_ch k F ?c)\<lparr>cc_bcset := y\<rparr>))"
      by (simp add: b_l4l3_def out_ch_def)
  qed
qed

lemma init_bchan_rows:
  assumes "here k [n] c"
  shows "n = 1 \<Longrightarrow> wpo (lli_init_bchan_out k c) callc_inv"
    and "n \<in> {2, 3, 4} \<Longrightarrow> wpo (lli_init_bchan_in k c) callc_inv"
proof -
  have "wpo (init_b_st k False (upd_ch k (\<lambda>l. l) (HL_LL k STAT_DCONN (set_fi k ST_WAIT_BCONN c))))
      (\<lambda>c. callc_inv (b_l4l3 k (DL_ESTABLISH, REQUEST) c))" if "n = 1"
    by (rule bconn_end [OF at_start(1) [OF assms]]) (use that at_shut [OF assms] in \<open>simp_all add: phase_def\<close>)
  then show "n = 1 \<Longrightarrow> wpo (lli_init_bchan_out k c) callc_inv"
    by (simp add: lli_init_bchan_out_def upd_ch_id)
  show "wpo (lli_init_bchan_in k c) callc_inv" if "n \<in> {2, 3, 4}"
    unfolding lli_init_bchan_in_def Let_def wpo_bind wpo_Some
    by (rule bconn_end [OF at_start(1) [OF assms]])
      (use that at_shut [OF assms] in \<open>auto simp: phase_def\<close>)
qed

lemma setup_rsp_row:
  assumes "here k [2] c"
  shows "wpo (lli_setup_rsp k c) callc_inv"
  using init_bchan_rows(2) [OF assms] stay_rows(1) [OF assms, of 4 "(CC_SETUP, RESPONSE)"]
  by (simp add: lli_setup_rsp_def)

lemma in_rows:
  assumes "here k [n] c" "n \<in> {3, 12}"
  shows "wpo (lli_send_dconnect k c) callc_inv" "wpo (lli_send_alert k c) callc_inv" "wpo (lli_send_redir k c) callc_inv"
proof -
  have n: "n \<in> {2, 3, 12}" using assms(2) by auto
  show "wpo (lli_send_dconnect k c) callc_inv" "wpo (lli_send_alert k c) callc_inv" "wpo (lli_send_redir k c) callc_inv"
    using stay_rows [OF assms(1) n, of _ "(CC_SETUP, RESPONSE)"] stay_rows [OF assms(1) n, of 3 "(CC_ALERTING, REQUEST)"]
      stay_rows [OF assms(1) n, of 3 "(CC_REDIR, REQUEST)"]
    by (simp_all add: lli_send_dconnect_def lli_send_alert_def lli_send_redir_def)
qed


lemma answer_ops [simp]:
  "cc_answer (set_fi k n c) = cc_answer c" "cc_answer (card_msg k i c) = cc_answer c"
  by (simp_all add: ch_ops)

lemma env_ops [simp]:
  "HL_LL k st (c\<lparr>cc_answer := x\<rparr>) = (HL_LL k st c)\<lparr>cc_answer := x\<rparr>"
  "set_fi k n (c\<lparr>cc_answer := x\<rparr>) = (set_fi k n c)\<lparr>cc_answer := x\<rparr>"
  "card_msg k i (c\<lparr>cc_answer := x\<rparr>) = (card_msg k i c)\<lparr>cc_answer := x\<rparr>"
  "del_drel k (c\<lparr>cc_answer := x\<rparr>) = (del_drel k c)\<lparr>cc_answer := x\<rparr>"
  "pr \<noteq> (CC_SETUP, REQUEST) \<Longrightarrow> pr \<noteq> (CC_RESUME, REQUEST) \<Longrightarrow>
     d_l4l3 k pr arg (c\<lparr>cc_answer := x\<rparr>) = (d_l4l3 k pr arg c)\<lparr>cc_answer := x\<rparr>"
  by (simp_all add: ch_ops d_l4l3_req dst_ix_def)

lemma leased_in_row:
  assumes "here k [0] c"
  shows "wpo (lli_leased_in k c) callc_inv"
proof (cases "li_leased (ch_at k c)")
  case False
  then show ?thesis using assms by (simp add: lli_leased_in_def here_def)
next
  case True
  have st: "li_state (ch_at k c) = 0" "k < length (cc_ch c)" "shut k c"
    using assms at_shut [OF assms] by (simp_all add: here_def)
  have "mid k [0] (phase 0) c c" using mid_start [OF assms] True st(1) by (simp add: busy_def)
  then have m: "mid k [0] P_In c (HL_LL k (STAT_ICALL_LEASED w e ph) (set_fi k ST_IN_WAIT_LL (card_msg k MDL_INFO_SETUP c)))"
    for w e ph by (intro mid_LL [OF mid_set [OF mid_card]]) (auto simp: phase_def)
  have "callc_inv (HL_LL k (STAT_ICALL_LEASED w e ph) (set_fi k ST_IN_WAIT_LL (card_msg k MDL_INFO_SETUP c)))" for w e ph
    by (rule mid_done [OF m]) (use st(2,3) in \<open>simp_all add: phase_def shut_def\<close>)
  moreover have "callc_inv (set_fi k ST_NULL (card_msg k MDL_INFO_REL
      (HL_LL k (STAT_ICALL_LEASED w e ph) (set_fi k ST_IN_WAIT_LL (card_msg k MDL_INFO_SETUP c)))))" for w e ph
    by (rule mid_done, rule mid_set, rule mid_card, rule mid_quiet [OF m, of P_Idle], simp)
      (use st(2,3) in \<open>simp_all add: phase_def shut_def\<close>)
  ultimately show ?thesis
    using True by (cases "cc_answer c 0") (auto simp: lli_leased_in_def statcallb_icall_def)
qed

lemma proc_at_upd:
  "k < length (cc_ch c) \<Longrightarrow> (\<And>l. li_proc (f l) = li_proc l) \<Longrightarrow> proc_at k (upd_ch k f c) = proc_at k c"
  by (cases "li_proc (ch_at k c)") (simp_all add: proc_at_def)

lemma mid_del_drel: "mid k ss ph c c' \<Longrightarrow> mid k ss ph c (del_drel k c')"
  unfolding del_drel_def by (erule mid_upd [where os = "[]"]) simp_all

lemma deliver_call_row:
  assumes "here k [n] c" "n = 0 \<or> n = 2" "busy k c" "proc_at k c = Some p"
  shows "wpo (lli_deliver_call k c) callc_inv"
proof -
  have st: "li_state (ch_at k c) = n" "k < length (cc_ch c)" using assms(1) by (simp_all add: here_def)
  have sh: "shut k c" by (rule at_shut [OF assms(1)]) (use assms(2) in auto)
  let ?c = "HL_LL k (STAT_ICALL (2 \<le> k) (p_setup p)) (set_fi k ST_IN_WAIT_LL (card_msg k MDL_INFO_SETUP c))"
  have "mid k [n] (phase n) c c" using mid_start [OF assms(1,3)] st(1) by simp
  then have m: "mid k [n] P_In c ?c"
    by (intro mid_LL [OF mid_set [OF mid_card]]) (use assms(2) in \<open>auto simp: phase_def\<close>)
  have fin: "callc_inv c'" if "mid k [n] P_In c c'" "li_state (ch_at k c') \<in> {2, 3, 12}" "shut k c'" for c'
    by (rule mid_done [OF that(1)]) (use that(2,3) in \<open>auto simp: phase_def shut_def\<close>)
  have c: "k < length (cc_ch ?c)" "li_state (ch_at k ?c) = 2" "shut k ?c" using st sh by (simp_all add: shut_def)
  have c1: "callc_inv (d_l4l3 k (CC_ALERTING, REQUEST) arg (set_fi k ST_IN_ALERT_SENT (del_drel k ?c)))" for arg
    by (rule fin, intro mid_d mid_set mid_del_drel m) (use c in \<open>simp_all add: d_l4l3_req ch_ops shut_def\<close>)
  have m4: "mid k [n] P_In c (d_l4l3 k (CC_PROCEED_SEND, REQUEST) arg (set_fi k ST_IN_PROCEED_SEND (del_drel k ?c)))" for arg
    by (intro mid_d mid_set mid_del_drel m) simp_all
  have c4: "callc_inv (d_l4l3 k (CC_PROCEED_SEND, REQUEST) arg (set_fi k ST_IN_PROCEED_SEND (del_drel k ?c)))" for arg
    by (rule fin [OF m4]) (use c in \<open>simp_all add: d_l4l3_req ch_ops shut_def\<close>)
  have c5: "callc_inv (d_l4l3 k (CC_REDIR, REQUEST) arg' (upd_ch k (\<lambda>l. l\<lparr>li_setup := su\<rparr>)
      (d_l4l3 k (CC_PROCEED_SEND, REQUEST) arg (set_fi k ST_IN_PROCEED_SEND (del_drel k ?c)))))" for arg arg' su
    by (rule fin, rule mid_d, rule mid_upd [OF m4, where os = "[]"])
      (use c in \<open>simp_all add: d_l4l3_req ch_ops shut_def\<close>)
  have c3: "callc_inv (d_l4l3 k (CC_MORE_INFO, REQUEST) arg (del_drel k ?c))" for arg
    by (rule fin, intro mid_d mid_del_drel m) (use c in \<open>simp_all add: d_l4l3_req ch_ops shut_def\<close>)
  have c0: "callc_inv (set_fi k ST_NULL (card_msg k MDL_INFO_REL (d_l4l3 k (CC_IGNORE, REQUEST) arg ?c)))" for arg
    by (rule mid_done, rule mid_set, rule mid_card, rule mid_quiet [of _ _ P_In _ _ P_Idle], rule mid_d [OF m])
      (use c in \<open>simp_all add: d_l4l3_req ch_ops shut_def phase_def\<close>)
  have "proc_at k (set_fi k ST_IN_WAIT_LL (card_msg k MDL_INFO_SETUP c)) = Some p"
    using assms(4) st(2) by (simp add: ch_ops proc_at_upd)
  then show ?thesis
    using fin [OF m] c c0 c1 c3 c4 c5
    by (cases "cc_answer c 0") (simp add: lli_deliver_call_def statcallb_icall_def Let_def)
qed


lemma new_call_inv:
  assumes "callc_inv c" "k < length (cc_ch c)" "l_ok (G (ch_at k c))"
  shows "callc_inv (new_call k (upd_ch k G c))"
proof -
  let ?c = "upd_ch k G c" and ?a = "cc_next c"
  have len: "length (cc_ch c) = 4" and k4: "k < 4" using assms(1,2) by (simp_all add: callc_inv_def)
  obtain kv where kv: "k_alloc (cc_kenv c) = (True, kv)" "mem_ok kv"
    using assms(1) mem_ok_alloc [of "cc_kenv c"] by (cases "k_alloc (cc_kenv c)") (simp add: callc_inv_def)
  define p where "p = (cc_fresh c ?a)\<lparr>p_addr := ?a, p_chan := Some k, p_setup := li_setup (ch_at k ?c)\<rparr>"
  define c' where "c' = upd_ch k (\<lambda>l. l\<lparr>li_proc := Some ?a\<rparr>)
    (?c\<lparr>cc_kenv := kv, cc_next := Suc ?a, cc_procs := cc_procs c @ [p]\<rparr>)"
  have eq: "new_call k ?c = c'" by (simp add: new_call_def kv c'_def p_def Let_def)
  have p: "p_addr p = ?a" "p_chan p = Some k" by (simp_all add: p_def)
  have ch: "cc_ch c' = (cc_ch c)[k := (G (ch_at k c))\<lparr>li_proc := Some ?a\<rparr>]"
    using assms(2) by (simp add: c'_def upd_ch_def)
  have rest: "cc_procs c' = cc_procs c @ [p]" "cc_next c' = Suc ?a" "cc_kenv c' = kv" "cc_dst c' = cc_dst c" "cc_chanlimit c' = cc_chanlimit c"
    by (simp_all add: c'_def)
  have "l_ok ((G (ch_at k c))\<lparr>li_proc := Some ?a\<rparr>)" using assms(3) by (simp add: l_ok_def)
  then have "list_all l_ok (cc_ch c')"
    using assms(1) set_update_subset_insert [of "cc_ch c" k "(G (ch_at k c))\<lparr>li_proc := Some ?a\<rparr>"]
    unfolding ch callc_inv_def list_all_iff by blast
  moreover have "owned j c'" if "j < 4" "li_state (ch_at j c') \<noteq> ST_NULL" "\<not> li_leased (ch_at j c')" for j
  proof (cases "j = k")
    case True
    then show ?thesis using p assms(2) by (simp add: owned_def rest ch)
  next
    case False
    then show ?thesis using assms(1) that by (auto simp: owned_def rest ch callc_inv_def)
  qed
  moreover have "?a \<notin> p_addr ` set (cc_procs c)" using assms(1) by (auto simp: callc_inv_def)
  ultimately show ?thesis
    unfolding eq using assms(1) p kv(2) k4 len by (auto simp: callc_inv_def rest ch less_Suc_eq)
qed

lemma start_call_row:
  assumes "here k [0] c" "li_leased (ch_at k c) \<or> \<not> dt_leased (cc_dst c ! dst_ix k c)"
    "pr = (CC_SETUP, REQUEST) \<or> pr = (CC_RESUME, REQUEST)"
  shows "wpo (lli_start_call pr k c) callc_inv"
proof -
  let ?c = "card_msg k MDL_INFO_SETUP (upd_ch k (\<lambda>l. l\<lparr>li_l2_active := li_l2_protocol l, li_incoming := False\<rparr>)
    (del_dial k (del_drel k c)))"
  have st: "li_state (ch_at k c) = 0" "k < length (cc_ch c)" "shut k c" "callc_inv c"
    using assms(1) at_shut [OF assms(1)] by (simp_all add: here_def)
  have leased: "li_leased (ch_at k ?c) = li_leased (ch_at k c)" using st(2) by (simp add: ch_ops)
  show ?thesis
  proof (cases "li_leased (ch_at k c)")
    case True
    have "mid k [0] (phase 0) c c" using mid_start [OF assms(1)] True st(1) by (simp add: busy_def)
    then have "mid k [0] (phase 0) c (upd_ch k (\<lambda>l. l\<lparr>li_l2_active := li_l2_protocol l, li_incoming := False\<rparr>)
        (del_dial k (del_drel k c)))"
      unfolding del_dial_def del_drel_def upd_upd
      by (rule mid_upd [where os = "[]"]) (use st(3) in \<open>simp_all add: shut_def\<close>)
    then have m: "mid k [0] P_Out c ?c"
      by (rule mid_quiet [OF mid_card]) (simp add: phase_def)
    have "wpo (init_b_st k False (upd_ch k (\<lambda>l. l) (HL_LL k STAT_DCONN (set_fi k ST_WAIT_BCONN ?c))))
        (\<lambda>c. callc_inv (b_l4l3 k (DL_ESTABLISH, REQUEST) c))"
      by (rule bconn_end [OF m]) (use st(2,3) in \<open>simp_all add: shut_def ch_ops\<close>)
    then show ?thesis
      using True leased by (simp add: lli_start_call_def Let_def lli_init_bchan_out_def upd_ch_id)
  next
    case False
    define G :: "LliChan \<Rightarrow> LliChan" where "G = (\<lambda>l. l\<lparr>li_drel := FsmDelTimer (li_drel l), li_dial := FsmDelTimer (li_dial l),
      li_l2_active := li_l2_protocol l, li_incoming := False, li_state := ST_OUT_DIAL,
      li_out := li_out l @ [CardMsg MDL_INFO_SETUP, L4L3 pr (ArgChan k)]\<rparr>)"
    have "l_step (ch_at k c) (G (ch_at k c))"
      using st(1,3) by (auto simp: l_step_def G_def shut_def phase_def)
    then have "callc_inv (new_call k (upd_ch k G c))"
      by (intro new_call_inv st(2,4) l_ok_step [OF l_okD [OF st(4,2)]])
    moreover have "lli_start_call pr k c = Some (new_call k (upd_ch k G c))"
      using False assms(2,3) leased
      by (auto simp: lli_start_call_def Let_def d_l4l3_def ch_ops G_def dst_ix_def)
    ultimately show ?thesis by simp
  qed
qed


subsection \<open>The machine\<close>

text \<open>
  What an event needs: a channel is dialled on a D channel that knows calls, a call is offered and
  charged with a process that is alive.
\<close>

definition ev_ok :: "nat \<Rightarrow> nat \<Rightarrow> Callc \<Rightarrow> bool" where
  "ev_ok k e c \<longleftrightarrow> callc_inv c \<and> k < length (cc_ch c) \<and>
     (e = EV_DIAL \<or> e = EV_RESUME \<longrightarrow> li_leased (ch_at k c) \<or> \<not> dt_leased (cc_dst c ! dst_ix k c)) \<and>
     (e = EV_SETUP_IND \<longrightarrow> busy k c \<and> (\<exists>p. proc_at k c = Some p)) \<and>
     (e = EV_CINF \<longrightarrow> (\<exists>p. proc_at k c = Some p))"

lemma fnlist_range: "n \<in> set (fnlist k) \<Longrightarrow> nd_state n < CC_STATE_COUNT \<and> nd_event n < CC_EVENT_COUNT"
  by (auto simp: fnlist_def)

lemma start_rows:
  assumes "here k [0] c" "li_leased (ch_at k c) \<or> \<not> dt_leased (cc_dst c ! dst_ix k c)"
  shows "wpo (lli_prep_dialout k c) callc_inv" "wpo (lli_resume k c) callc_inv"
  using start_call_row [OF assms] by (simp_all add: lli_prep_dialout_def lli_resume_def)

lemma deliver_row:
  "here k [n] c \<Longrightarrow> n = 0 \<or> n = 2 \<Longrightarrow> busy k c \<Longrightarrow> \<exists>p. proc_at k c = Some p \<Longrightarrow> wpo (lli_deliver_call k c) callc_inv"
  by (elim exE) (rule deliver_call_row)

lemmas lli_rows = closing_rows bchan_rows waiting_rows active_rows error_row says_rows charge_row
  init_bchan_rows in_rows deliver_row reject_row go_active_row setup_rsp_row leased_in_row start_rows

lemma lli_rows_ok:
  assumes "n \<in> set (fnlist k)" "nd_state n = li_state (ch_at k c)" "ev_ok k (nd_event n) c"
  shows "wpo (nd_routine n () c) callc_inv"
proof -
  have h: "here k [nd_state n] c" using assms(2,3) by (simp add: here_def ev_ok_def)
  show ?thesis
    using assms(1) h assms(3)
    unfolding fnlist_def list.set insert_iff empty_iff
    apply (elim disjE FalseE; hypsubst)
    apply (simp_all only: FsmNode.sel lli_disconnect_req_def lli_disconnect_reject_def)
    apply (erule lli_rows; simp add: ev_ok_def)+
    done
qed

lemma ev_ok_inv: "ev_ok k e c \<Longrightarrow> callc_inv c"
  by (simp add: ev_ok_def)

interpretation lli_table:
  fsm_table CC_STATE_COUNT CC_EVENT_COUNT "fnlist k" "\<lambda>c. li_state (ch_at k c)" "\<lambda>e a c. ev_ok k e c" callc_inv for k
  by unfold_locales (simp_all add: lli_rows_ok ev_ok_inv fnlist_range)

lemma lli_event_ok: "ev_ok k ev c \<Longrightarrow> wpo (lli_event k ev c) callc_inv"
  using lli_table.event_ok [of k ev c "()"]
  by (auto simp: lli_event_def wpo_iff ev_ok_def)

end
