(* ===== verification/Hisax_Callc_Step.thy ===== *)
theory Hisax_Callc_Step
  imports Hisax_Callc_Run
begin

text \<open>
  What happens to the call control of a card, and that none of it is a fault. The environment keeps
  the contract of the D channel protocol: it frees a process in the step in which it tells call
  control that the call is gone (\<open>cc_free\<close>), or when no channel works with it.
\<close>

subsection \<open>Steps\<close>

definition cc_free :: "cc_prim list" where
  "cc_free = [(CC_RELEASE, CONFIRM), (CC_RELEASE, INDICATION), (CC_RELEASE_ERR, REQUEST),
     (CC_SUSPEND, CONFIRM), (CC_RESUME_ERR, REQUEST), (CC_NOSETUP_RSP, REQUEST)]"

definition free_pc :: "nat \<Rightarrow> Callc \<Rightarrow> Callc" where
  "free_pc a c = c\<lparr>cc_procs := filter (\<lambda>p. p_addr p \<noteq> a) (cc_procs c)\<rparr>"

text \<open>A channel can be dialled when it is leased or its D channel knows calls.\<close>

definition dial_ok :: "nat \<Rightarrow> Callc \<Rightarrow> bool" where
  "dial_ok k c \<longleftrightarrow> k < length (cc_ch c) \<and> (li_leased (ch_at k c) \<or> \<not> dt_leased (cc_dst c ! dst_ix k c))"

text \<open>
  A CAPI facility message of 50 octets. The identity of a suspend or resume (\<open>para[3]\<close> 4 or 5), which
  \<open>lli_got_fac_req\<close> copies with its length octet, must be shorter than the 32 octets of the phone
  number; the source does not look (\<open>facility_overruns\<close>). A resume dials.
\<close>

definition fac_ok :: "nat \<Rightarrow> capi_msg \<Rightarrow> Callc \<Rightarrow> bool" where
  "fac_ok k cm c \<longleftrightarrow> length (cm_para cm) = 50 \<and>
     (cm_para cm ! 3 \<in> {4, 5} \<longrightarrow> unat (cm_para cm ! 5) < min 32 (length (su_phone (li_setup (ch_at k c))))) \<and>
     (cm_para cm ! 3 = 5 \<longrightarrow> dial_ok k c)"

text \<open>The channels of a command exist (the source does not look: \<open>command_out_of_range\<close>).\<close>

definition cmd_ok :: "ll_cmd \<Rightarrow> Callc \<Rightarrow> bool" where
  "cmd_ok ic c =
     (case ic of
        CMD_SETL2 arg \<Rightarrow> arg mod 256 < length (cc_ch c)
      | CMD_SETL3 arg \<Rightarrow> arg mod 256 < length (cc_ch c)
      | CMD_DIAL arg su \<Rightarrow> dial_ok (arg mod 256) c
      | CMD_CAPI k cm \<Rightarrow> k < length (cc_ch c) \<and> fac_ok k cm c
      | CMD_ACCEPTB k \<Rightarrow> k < length (cc_ch c) | CMD_ACCEPTD k su \<Rightarrow> k < length (cc_ch c)
      | CMD_HANGUP k \<Rightarrow> k < length (cc_ch c) | CMD_PROCEED k \<Rightarrow> k < length (cc_ch c)
      | CMD_ALERT k \<Rightarrow> k < length (cc_ch c) | CMD_REDIR k su \<Rightarrow> k < length (cc_ch c)
      | _ \<Rightarrow> True)"

text \<open>
  What is told about the process \<open>p\<close> reaches a channel that can hear it: it is not a leased one, it
  has this process when a number or a charge is for it, and it has a row for the end of the call.
\<close>

definition told_ok :: "cc_prim \<Rightarrow> l3_process \<Rightarrow> Callc \<Rightarrow> bool" where
  "told_ok pr p c \<longleftrightarrow> pr \<noteq> (CC_SETUP, INDICATION) \<and> pr \<notin> set cc_free \<and>
     (\<forall>k. p_chan p = Some k \<and> (pr = (CC_MORE_INFO, INDICATION) \<or> pr = (CC_CHARGE, INDICATION)) \<longrightarrow>
        li_proc (ch_at k c) = Some (p_addr p))"

definition heard :: "cc_prim \<Rightarrow> l3_process \<Rightarrow> Callc \<Rightarrow> bool" where
  "heard pr p c \<longleftrightarrow> pr \<in> set cc_free \<and>
     (\<forall>k. p_chan p = Some k \<and> li_proc (ch_at k c) = Some (p_addr p) \<and> li_state (ch_at k c) \<noteq> ST_NULL \<longrightarrow>
        li_leased (ch_at k c) \<or>
        li_state (ch_at k c) \<noteq> ST_IN_PROCEED_SEND \<and>
        (pr = (CC_NOSETUP_RSP, REQUEST) \<longrightarrow> li_state (ch_at k c) = ST_OUT_DIAL))"

text \<open>
  A call that comes in on the stack of channel \<open>u\<close>. On the second D channel \<open>selectfreechannel\<close> has one
  B channel and one place to wait inside the array; it leaves the array when both are taken
  (\<open>second_dchan_overruns\<close>).
\<close>

definition place_ok :: "nat \<Rightarrow> int \<Rightarrow> Callc \<Rightarrow> bool" where
  "place_ok u bch c \<longleftrightarrow> u = 0 \<or> u = 1 \<and> cc_two c \<and>
     (bch \<noteq> 0 \<and> 1 < cc_chanlimit c \<and> li_state (ch_at 1 c) = ST_NULL \<or> li_state (ch_at 3 c) = ST_NULL)"

inductive callc_step :: "Callc \<Rightarrow> Callc option \<Rightarrow> bool" where
  command: "cmd_ok ic c \<Longrightarrow> callc_step c (map_option snd (HiSax_command ic c))"
| data: "k < length (cc_ch c) \<Longrightarrow> callc_step c (map_option snd (HiSax_writebuf_skb k ack skb c))"
| dial_timer: "dial_ok k c \<Longrightarrow> callc_step c (expire_dial k c)"
| drel_timer: "k < length (cc_ch c) \<Longrightarrow> callc_step c (expire_drel k c)"
| call_in: "p \<in> set (cc_procs c) \<Longrightarrow> p_chan p = None \<Longrightarrow> place_ok u (p_bchannel p) c \<Longrightarrow>
     callc_step c (dchan_l3l4 u (CC_SETUP, INDICATION) (Some (p_addr p)) c)"
| told: "p \<in> set (cc_procs c) \<Longrightarrow> told_ok pr p c \<Longrightarrow> callc_step c (dchan_l3l4 u pr (Some (p_addr p)) c)"
| ended: "p \<in> set (cc_procs c) \<Longrightarrow> heard pr p c \<Longrightarrow>
     callc_step c (map_option (free_pc (p_addr p)) (dchan_l3l4 u pr (Some (p_addr p)) c))"
| gone: "(\<forall>k < length (cc_ch c). li_proc (ch_at k c) = Some a \<longrightarrow> li_state (ch_at k c) = ST_NULL) \<Longrightarrow>
     callc_step c (Some (free_pc a c))"
| born: "p_addr p = cc_next c \<Longrightarrow> p_chan p = None \<Longrightarrow>
     callc_step c (Some (c\<lparr>cc_procs := cc_procs c @ [p], cc_next := Suc (cc_next c)\<rparr>))"
| changed: "callc_step c (Some (upd_pc a (\<lambda>p. p\<lparr>p_cause := x, p_loc := y, p_chargeinfo := z, p_bchannel := b,
     p_setup := su, p_redir_result := r\<rparr>) c))"
| b_x75: "k < length (cc_ch c) \<Longrightarrow> callc_step c (lldata_handler k pr skb c)"
| b_trans: "k < length (cc_ch c) \<Longrightarrow> callc_step c (lltrans_handler k pr skb c)"
| wakeup: "k < length (cc_ch c) \<Longrightarrow> callc_step c (Some (ll_writewakeup k n c))"
| leased: "u < 2 \<Longrightarrow> callc_step c (leased_l1l2 u pr c)"

text \<open>
  The memory of a card before its channels are set up. Its allocations succeed (\<open>mem_ok\<close>): a call that
  \<open>dss1down\<close> cannot allocate leaves the channel with the process of its last call (\<open>stale_call_faults\<close>).
\<close>

definition callc_fresh :: "Callc \<Rightarrow> bool" where
  "callc_fresh c \<longleftrightarrow> length (cc_ch c) = 2 + MAX_WAITING_CALLS \<and> length (cc_dst c) = 2 \<and>
     cc_chanlimit c \<le> 2 \<and> cc_procs c = [] \<and> (\<forall>l \<in> set (cc_ch c). li_out l = [])"

inductive callc_reach :: "Callc \<Rightarrow> bool" where
  boot: "callc_fresh c \<Longrightarrow> mem_ok (cc_kenv c) \<Longrightarrow> callc_reach (snd (CallcNewChan c))"
| step: "callc_reach c \<Longrightarrow> callc_step c (Some c') \<Longrightarrow> callc_reach c'"

inductive_cases callc_stepE: "callc_step c r"

subsection \<open>Small steps\<close>

lemma mid_any:
  assumes "callc_inv c" "k < length (cc_ch c)" "li_out (F (ch_at k c)) = li_out (ch_at k c) @ os"
    "ll_path (phase (li_state (ch_at k c))) (lls os) (phase (li_state (ch_at k c)))"
    "\<And>s. bc_go (Some s) os = Some s"
    "li_state (F (ch_at k c)) = li_state (ch_at k c)" "li_start_b (F (ch_at k c)) = li_start_b (ch_at k c)"
    "li_data_open (F (ch_at k c)) = li_data_open (ch_at k c)" "li_l2_active (F (ch_at k c)) = li_l2_active (ch_at k c)"
    "tl_pending (li_dial (F (ch_at k c))) \<longrightarrow> li_dial (F (ch_at k c)) = li_dial (ch_at k c) \<or>
       tm_event (li_dial (F (ch_at k c))) \<in> {EV_DIAL, EV_RESUME}"
    "tl_pending (li_drel (F (ch_at k c))) \<longrightarrow> li_drel (F (ch_at k c)) = li_drel (ch_at k c)"
    "li_leased (ch_at k c) \<longrightarrow> li_leased (F (ch_at k c))" "li_proc (F (ch_at k c)) = li_proc (ch_at k c)"
  shows "callc_inv (upd_ch k F c)"
proof (rule inv_upd [OF assms(1,2)])
  have ok: "l_ok (ch_at k c)" by (rule l_okD [OF assms(1,2)])
  have "ll_path P_Idle (lls (li_out (F (ch_at k c)))) (phase (li_state (ch_at k c)))"
    unfolding assms(3) lls_simps
    by (rule ll_path_append [OF _ assms(4)]) (use ok in \<open>simp add: l_ok_def\<close>)
  moreover have "bc_run (li_out (F (ch_at k c))) = bc_run (li_out (ch_at k c))"
    unfolding assms(3) bc_go_append using ok assms(5) by (simp only: l_ok_def)
  ultimately show "l_ok (F (ch_at k c))"
    using ok assms(10,11) unfolding l_ok_def assms(6-9) by (elim conjE, intro conjI) auto
  show "li_state (ch_at k c) \<noteq> ST_NULL \<and> \<not> li_leased (ch_at k c) \<and>
      li_proc (F (ch_at k c)) = li_proc (ch_at k c) \<or> owned k (upd_ch k F c)"
    if "li_state (F (ch_at k c)) \<noteq> ST_NULL" "\<not> li_leased (F (ch_at k c))"
    using that assms(6,12,13) by simp
qed

lemma say_any: "ll_path ph [STAT_REDIR x] ph" "ll_path ph [STAT_BSENT n] ph" "ll_path ph [STAT_DISCH b] ph"
  by (cases ph; simp)+

lemma lli_event_any: "callc_inv c \<Longrightarrow> k < length (cc_ch c) \<Longrightarrow>
    ev \<noteq> EV_DIAL \<Longrightarrow> ev \<noteq> EV_RESUME \<Longrightarrow> ev \<noteq> EV_SETUP_IND \<Longrightarrow> ev \<noteq> EV_CINF \<Longrightarrow> wpo (lli_event k ev c) callc_inv"
  by (rule lli_event_ok) (simp add: ev_ok_def)


text \<open>The end of a call leaves the channel idle, and everything else as it was.\<close>

definition closed_by :: "nat \<Rightarrow> Callc \<Rightarrow> Callc \<Rightarrow> bool" where
  "closed_by k c c' \<longleftrightarrow> (\<exists>F. c' = upd_ch k F c \<and> (\<forall>l. li_state (F l) = ST_NULL \<and> li_proc (F l) = li_proc l))"

lemma closed_byI: "c' = upd_ch k F c \<Longrightarrow> (\<And>l. li_state (F l) = ST_NULL \<and> li_proc (F l) = li_proc l) \<Longrightarrow> closed_by k c c'"
  unfolding closed_by_def by blast

lemma closed_by_after:
  assumes "closed_by k (upd_ch k G c) c'" "\<And>l. li_proc (G l) = li_proc l"
  shows "closed_by k c c'"
proof -
  from assms(1) obtain F where "c' = upd_ch k F (upd_ch k G c)" "\<forall>l. li_state (F l) = ST_NULL \<and> li_proc (F l) = li_proc l"
    unfolding closed_by_def by blast
  then show ?thesis using assms(2) by (intro closed_byI [of _ _ "\<lambda>l. F (G l)"]) simp_all
qed

lemma lli_close_closed: "closed_by k c (lli_close k c)"
  by (rule closed_byI [of _ _ "\<lambda>l. l\<lparr>li_state := 0, li_start_b := False, li_out := li_out l @ [CardMsg MDL_INFO_REL]\<rparr>"])
    (simp_all add: ch_ops)

lemma close_says: "closed_by k c (lli_close k (upd_ch k (\<lambda>l. l\<lparr>li_out := li_out l @ os\<rparr>) c))"
  by (rule closed_by_after [OF lli_close_closed]) simp

lemma hup_closed: "closed_by k c (lli_leased_hup k c)" "closed_by k c (lli_close k (HL_LL k STAT_DHUP c))"
  "closed_by k c (lli_close k (HL_LL k STAT_DHUP (HL_LL k (STAT_CAUSE x) c)))"
  using close_says [of k c "[LL (STAT_CAUSE ''L0010''), LL STAT_DHUP]"] close_says [of k c "[LL STAT_DHUP]"]
    close_says [of k c "[LL (STAT_CAUSE x), LL STAT_DHUP]"]
  by (simp_all add: lli_leased_hup_def HL_LL_def out_ch_def)

lemma dhup_closed: "wlp (lli_dhup_close k c) (closed_by k c)"
  using hup_closed
  by (auto simp: lli_dhup_close_def lli_deliver_cause_def wlp_def bind_eq_Some_conv split: if_splits)

lemma release_closed:
  assumes "k < length (cc_ch c)" "li_state (ch_at k c) \<in> {1, 2, 3, 4, 5, 6, 7, 8, 9, 10, 11}"
  shows "wlp (lli_event k EV_RELEASE c) (closed_by k c)"
proof -
  have rel: "wlp (lli_rel_b_dhup k (upd_ch k G c)) (closed_by k c)" if "\<And>l. li_proc (G l) = li_proc l" for G
  proof -
    have "wlp (lli_dhup_close k (upd_ch k (\<lambda>l. rel_b (G l)) c)) (closed_by k (upd_ch k (\<lambda>l. rel_b (G l)) c))"
      by (rule dhup_closed)
    then show ?thesis
      using assms(1) that by (auto simp: lli_rel_b_dhup_def release_b_st_upd wlp_def dest!: closed_by_after)
  qed
  have "wlp (lli_rel_b_dhup k c) (closed_by k c)" using rel [of "\<lambda>l. l"] by (simp add: upd_ch_id)
  moreover have "wlp (lli_bhup_dhup k c) (closed_by k c)"
    using rel [of "\<lambda>l. l\<lparr>li_out := li_out l @ [LL STAT_BHUP]\<rparr>"] by (simp add: lli_bhup_dhup_def HL_LL_def out_ch_def)
  moreover have "wlp (lli_abort k c) (closed_by k c)"
    using rel [of "\<lambda>l. l\<lparr>li_data_open := False, li_out := li_out l @ [BL4L3 (DL_RELEASE, REQUEST), LL STAT_BHUP]\<rparr>"]
    by (simp add: lli_abort_def lli_bhup_dhup_def ch_ops)
  ultimately show ?thesis
    using assms dhup_closed [of k c]
    by (auto simp: lli_event_def FsmEvent_fsm_of fsm_lookup_def fnlist_def wlp_def)
qed


lemma no_setup_closed: "wlp (lli_no_setup_rsp k c) (closed_by k c)"
  using hup_closed(2) by (simp add: lli_no_setup_rsp_def)

lemma no_row: "k < length (cc_ch c) \<Longrightarrow> (\<forall>n \<in> set (fnlist k). \<not> (nd_state n = li_state (ch_at k c) \<and> nd_event n = ev)) \<Longrightarrow>
    wlp (lli_event k ev c) (\<lambda>c'. c' = c)"
proof -
  assume k: "k < length (cc_ch c)" and n: "\<forall>n \<in> set (fnlist k). \<not> (nd_state n = li_state (ch_at k c) \<and> nd_event n = ev)"
  have "fsm_lookup (fnlist k) (li_state (ch_at k c)) ev = None"
    unfolding fsm_lookup_def map_of_eq_None_iff using n by auto
  then show ?thesis using k by (simp add: lli_event_def FsmEvent_fsm_of wlp_def)
qed

text \<open>Where the end of a call is heard, the channel is idle afterwards; elsewhere nothing happens.\<close>

lemma end_heard:
  assumes "callc_inv c" "k < length (cc_ch c)" "ev = EV_RELEASE \<or> ev = EV_NOSETUP_RSP"
  shows "wlp (lli_event k ev c) (\<lambda>c'. closed_by k c c' \<or>
    c' = c \<and> (li_state (ch_at k c) \<in> {0, 12} \<or> ev = EV_NOSETUP_RSP \<and> li_state (ch_at k c) \<noteq> ST_OUT_DIAL))"
proof -
  have st: "li_state (ch_at k c) < CC_STATE_COUNT" using l_okD [OF assms(1,2)] by (simp add: l_ok_def)
  consider "ev = EV_RELEASE" "li_state (ch_at k c) \<in> {1, 2, 3, 4, 5, 6, 7, 8, 9, 10, 11}" | "ev = EV_RELEASE" "li_state (ch_at k c) \<in> {0, 12}"
    | "ev = EV_NOSETUP_RSP" "li_state (ch_at k c) = ST_OUT_DIAL" | "ev = EV_NOSETUP_RSP" "li_state (ch_at k c) \<noteq> ST_OUT_DIAL"
    using assms(3) st by (auto simp: less_Suc_eq numeral_eq_Suc)
  then show ?thesis
  proof cases
    case 1
    then show ?thesis using release_closed [OF assms(2)] by (auto simp: wlp_def)
  next
    case 2
    then show ?thesis using no_row [OF assms(2), of ev] by (auto simp: wlp_def fnlist_def)
  next
    case 3
    then show ?thesis
      using assms(2) no_setup_closed [of k c]
      by (auto simp: lli_event_def FsmEvent_fsm_of fsm_lookup_def fnlist_def wlp_def)
  next
    case 4
    then show ?thesis using no_row [OF assms(2), of ev] by (auto simp: wlp_def fnlist_def)
  qed
qed

lemma free_inv:
  assumes "callc_inv c" "\<And>k. k < length (cc_ch c) \<Longrightarrow> (\<exists>p \<in> set (cc_procs c). p_addr p = a \<and> p_chan p = Some k) \<Longrightarrow>
    li_proc (ch_at k c) = Some a \<Longrightarrow> li_state (ch_at k c) = ST_NULL \<or> li_leased (ch_at k c)"
  shows "callc_inv (free_pc a c)"
proof -
  have "owned k (free_pc a c)"
    if k: "k < length (cc_ch c)" "li_state (ch_at k c) \<noteq> ST_NULL" "\<not> li_leased (ch_at k c)" for k
  proof -
    have "owned k c" using assms(1) k by (simp add: callc_inv_def)
    then obtain p where p: "p \<in> set (cc_procs c)" "li_proc (ch_at k c) = Some (p_addr p)" "p_chan p = Some k"
      by (auto simp: owned_def)
    have "p_addr p \<noteq> a" using assms(2) [OF k(1)] p k by auto
    then show ?thesis using p by (auto simp: owned_def free_pc_def)
  qed
  then show ?thesis using assms(1) by (auto simp: callc_inv_def free_pc_def intro: distinct_map_filter)
qed


subsection \<open>From the D channel\<close>

lemma find_pc_eq:
  assumes "callc_inv c" "p \<in> set (cc_procs c)"
  shows "find_pc (p_addr p) c = Some p"
proof -
  have "distinct (map p_addr ps) \<Longrightarrow> p \<in> set ps \<Longrightarrow> List.find (\<lambda>q. p_addr q = p_addr p) ps = Some p" for ps
    by (induction ps) auto
  then show ?thesis using assms by (simp add: find_pc_def callc_inv_def)
qed

lemma same_pc: "callc_inv c \<Longrightarrow> p \<in> set (cc_procs c) \<Longrightarrow> q \<in> set (cc_procs c) \<Longrightarrow> p_addr p = p_addr q \<Longrightarrow> p = q"
  using find_pc_eq [of c p] find_pc_eq [of c q] by (metis option.inject)

lemma free_scan_ok: "p + n \<le> length (cc_ch c) \<Longrightarrow>
    wpo (free_scan n p c) (\<lambda>r. \<forall>k. r = Some k \<longrightarrow> k < length (cc_ch c) \<and> li_state (ch_at k c) = ST_NULL)"
  by (induction n p c rule: free_scan.induct) auto

lemma selectfreechannel_0:
  assumes "callc_inv c"
  shows "wpo (selectfreechannel 0 bch c) (\<lambda>r. \<forall>k. r = Some k \<longrightarrow> k < length (cc_ch c) \<and> li_state (ch_at k c) = ST_NULL)"
proof -
  have len: "length (cc_ch c) = 4" "cc_chanlimit c \<le> 2" using assms by (simp_all add: callc_inv_def)
  let ?ok = "\<lambda>r. \<forall>k. r = Some k \<longrightarrow> k < length (cc_ch c) \<and> li_state (ch_at k c) = ST_NULL"
  have "wpo (free_scan 2 2 c) ?ok" by (rule free_scan_ok) (use len in simp)
  then obtain r1 where r1: "free_scan 2 2 c = Some r1" "?ok r1" unfolding wpo_iff by blast
  have "wpo (free_scan (cc_chanlimit c - (if cc_two c then 1 else 0)) 0 c) ?ok"
    by (rule free_scan_ok) (use len in simp)
  then obtain r2 where r2: "free_scan (cc_chanlimit c - (if cc_two c then 1 else 0)) 0 c = Some r2" "?ok r2"
    unfolding wpo_iff by blast
  show ?thesis
    unfolding selectfreechannel_def add_0 r1(1) r2(1) using r1(2) r2(2) by (cases r2) simp_all
qed

lemma selectfreechannel_1:
  assumes "callc_inv c" "cc_two c"
  shows "selectfreechannel 1 bch c =
    (if bch \<noteq> 0 \<and> 1 < cc_chanlimit c \<and> li_state (ch_at 1 c) = ST_NULL then Some (Some 1)
     else if li_state (ch_at 3 c) = ST_NULL then Some (Some 3) else None)"
proof -
  have len: "length (cc_ch c) = 4" using assms(1) by (simp add: callc_inv_def)
  have "free_scan (Suc (Suc 0)) 3 c = (if li_state (ch_at 3 c) = ST_NULL then Some (Some 3) else None)"
    using len by simp
  then have v: "free_scan 2 3 c = (if li_state (ch_at 3 c) = ST_NULL then Some (Some 3) else None)"
    by (simp only: numeral_2_eq_2)
  then have v': "free_scan 2 (Suc (Suc (Suc 0))) c = (if li_state (ch_at 3 c) = ST_NULL then Some (Some 3) else None)"
    by (simp only: numeral_3_eq_3)
  have o: "free_scan (Suc 0) 1 c = (if li_state (ch_at 1 c) = ST_NULL then Some (Some 1) else Some None)"
    using len by simp
  consider "cc_chanlimit c - 1 = 0" "\<not> 1 < cc_chanlimit c" | "cc_chanlimit c - 1 = Suc 0" "1 < cc_chanlimit c"
    using assms(1) by (fastforce simp: callc_inv_def)
  then show ?thesis
    by cases (use v' o len assms(2) in \<open>auto simp: selectfreechannel_def\<close>)
qed

lemma selectfreechannel_ok:
  assumes "callc_inv c" "place_ok u bch c"
  shows "wpo (selectfreechannel u bch c) (\<lambda>r. \<forall>k. r = Some k \<longrightarrow> k < length (cc_ch c) \<and> li_state (ch_at k c) = ST_NULL)"
proof (cases "u = 0")
  case True
  then show ?thesis using selectfreechannel_0 [OF assms(1)] by simp
next
  case False
  have len: "length (cc_ch c) = 4" using assms(1) by (simp add: callc_inv_def)
  show ?thesis
    using False assms(2) len selectfreechannel_1 [OF assms(1), of bch] by (auto simp: place_ok_def)
qed

lemma d_req_inv:
  assumes "callc_inv c" "k < length (cc_ch c)" "pr \<noteq> (CC_SETUP, REQUEST)" "pr \<noteq> (CC_RESUME, REQUEST)"
  shows "callc_inv (d_l4l3 k pr arg c)"
  unfolding d_l4l3_req [OF assms(3,4)]
  by (rule mid_any [OF assms(1,2), where os = "d_out pr arg (dt_leased (cc_dst c ! dst_ix k c))"])
    (use l_okD [OF assms(1,2)] in \<open>auto simp: l_ok_def\<close>)

lemma taken_inv:
  assumes "callc_inv c" "k < length (cc_ch c)" "li_state (ch_at k c) = ST_NULL" "p \<in> set (cc_procs c)" "p_chan p = None"
  defines "c' \<equiv> upd_pc (p_addr p) (\<lambda>p. p\<lparr>p_chan := Some k\<rparr>) (upd_ch k (\<lambda>l. l\<lparr>li_proc := Some (p_addr p)\<rparr>) c)"
  shows "callc_inv c'" "owned k c'"
proof -
  let ?q = "\<lambda>q. at_addr (p_addr p) (\<lambda>p. p\<lparr>p_chan := Some k\<rparr>) q"
  have ch: "cc_ch c' = (cc_ch c)[k := (ch_at k c)\<lparr>li_proc := Some (p_addr p)\<rparr>]" "cc_procs c' = map ?q (cc_procs c)"
    by (simp_all add: c'_def upd_ch_def upd_pc_def)
  have addr: "p_addr (?q q) = p_addr q" for q by (simp add: at_addr_def)
  have rest: "cc_dst c' = cc_dst c" "cc_chanlimit c' = cc_chanlimit c" "cc_next c' = cc_next c" "cc_kenv c' = cc_kenv c"
    by (simp_all add: c'_def upd_pc_def)
  show own: "owned k c'"
    unfolding owned_def ch using assms(2,4) by (intro bexI [of _ "?q p"]) (auto simp: at_addr_def)
  have "owned j c'" if j: "j < 4" "li_state (ch_at j c') \<noteq> ST_NULL" "\<not> li_leased (ch_at j c')" for j
  proof (cases "j = k")
    case False
    then have "owned j c" using assms(1) j by (simp add: callc_inv_def ch)
    then obtain q where q: "q \<in> set (cc_procs c)" "li_proc (ch_at j c) = Some (p_addr q)" "p_chan q = Some j"
      by (auto simp: owned_def)
    have "p_addr q \<noteq> p_addr p"
      using same_pc [OF assms(1) q(1) assms(4)] assms(5) q(3) by auto
    then have "?q q = q" by (simp add: at_addr_def)
    then have "q \<in> set (cc_procs c')" using q(1) unfolding ch by force
    then show ?thesis using q False by (auto simp: owned_def ch(1))
  qed (use own in simp)
  moreover have "l_ok ((ch_at k c)\<lparr>li_proc := Some (p_addr p)\<rparr>)"
    using l_okD [OF assms(1,2)] by (simp add: l_ok_def)
  then have "list_all l_ok (cc_ch c')"
    using assms(1) set_update_subset_insert [of "cc_ch c" k "(ch_at k c)\<lparr>li_proc := Some (p_addr p)\<rparr>"]
    unfolding ch callc_inv_def list_all_iff by blast
  moreover have "(\<forall>q \<in> set (cc_procs c'). p_addr q < cc_next c' \<and> (\<forall>k. p_chan q = Some k \<longrightarrow> k < 2 + MAX_WAITING_CALLS))"
    using assms(1,2) by (auto simp: ch rest callc_inv_def at_addr_def)
  moreover have "map p_addr (cc_procs c') = map p_addr (cc_procs c)"
    by (simp add: ch comp_def addr)
  moreover have "length (cc_ch c') = length (cc_ch c)" by (simp add: ch)
  ultimately show "callc_inv c'"
    using assms(1) unfolding callc_inv_def rest by simp
qed

lemma owned_busy: "owned k c \<Longrightarrow> busy k c \<and> (\<exists>p. proc_at k c = Some p)"
  using owned_proc by (fastforce simp: busy_def proc_at_def)

lemma callc_inv_some: "callc_inv c \<Longrightarrow> cc_ch c \<noteq> []"
  by (auto simp: callc_inv_def)

lemma call_in_ok:
  assumes "callc_inv c" "p \<in> set (cc_procs c)" "p_chan p = None" "place_ok u (p_bchannel p) c"
  shows "wpo (dchan_l3l4 u (CC_SETUP, INDICATION) (Some (p_addr p)) c) callc_inv"
proof -
  let ?t = "\<lambda>k. upd_pc (p_addr p) (\<lambda>p. p\<lparr>p_chan := Some k\<rparr>) (upd_ch k (\<lambda>l. l\<lparr>li_proc := Some (p_addr p)\<rparr>) c)"
  have "wpo (lli_event k EV_SETUP_IND (?t k)) callc_inv"
    if "k < length (cc_ch c)" "li_state (ch_at k c) = ST_NULL" for k
    using taken_inv [OF assms(1) that assms(2,3)] that owned_busy [of k "?t k"]
    by (intro lli_event_ok) (simp add: ev_ok_def)
  moreover have "u < length (cc_ch c)" using assms(1,4) by (auto simp: place_ok_def callc_inv_def)
  then have "callc_inv (d_l4l3 u (CC_REJECT, REQUEST) arg (upd_pc a (\<lambda>p. p\<lparr>p_cause := 0x11\<rparr>) c))" for arg a
    by (intro d_req_inv) (use assms(1) in simp_all)
  ultimately show ?thesis
    using selectfreechannel_ok [OF assms(1,4)] find_pc_eq [OF assms(1,2)]
    by (auto simp: dchan_l3l4_def wpo_iff split: option.split)
qed

lemma told_event_ok:
  assumes "callc_inv c" "p \<in> set (cc_procs c)" "told_ok pr p c"
  shows "wpo (dchan_l3l4 u pr (Some (p_addr p)) c) callc_inv"
proof (cases "p_chan p")
  case None
  then show ?thesis using assms find_pc_eq [OF assms(1,2)] by (simp add: dchan_l3l4_def told_ok_def)
next
  case (Some k)
  then have k: "k < length (cc_ch c)" using assms(1,2) by (auto simp: callc_inv_def)
  have own: "owned k c" if "pr = (CC_MORE_INFO, INDICATION) \<or> pr = (CC_CHARGE, INDICATION)"
    using that assms(2,3) Some by (auto simp: told_ok_def owned_def)
  have "wpo (lli_event k ev c) callc_inv" if "l3l4_event pr = Some ev" for ev
    using that own owned_busy [of k c] k assms(1)
    by (intro lli_event_ok) (auto simp: ev_ok_def l3l4_event_def split: if_splits)
  moreover have "callc_inv (stat_redir_result k x c)" for x
    unfolding stat_redir_result_def HL_LL_def out_ch_def
    by (rule mid_any [OF assms(1) k, where os = "[LL (STAT_REDIR x)]"])
      (use l_okD [OF assms(1) k] in \<open>auto simp: l_ok_def simp del: ll_path.simps intro: say_any\<close>)
  ultimately show ?thesis
    using Some assms find_pc_eq [OF assms(1,2)]
    by (auto simp: dchan_l3l4_def told_ok_def split: option.split)
qed

lemma ended_ok:
  assumes "callc_inv c" "p \<in> set (cc_procs c)" "heard pr p c"
  shows "wpo (map_option (free_pc (p_addr p)) (dchan_l3l4 u pr (Some (p_addr p)) c)) callc_inv"
proof (cases "p_chan p")
  case None
  have "callc_inv (free_pc (p_addr p) c)"
    using None same_pc [OF assms(1,2)] by (intro free_inv [OF assms(1)]) force
  then show ?thesis using None assms find_pc_eq [OF assms(1,2)] by (auto simp: dchan_l3l4_def heard_def cc_free_def)
next
  case (Some k)
  then have k: "k < length (cc_ch c)" using assms(1,2) by (auto simp: callc_inv_def)
  obtain ev where ev: "l3l4_event pr = Some ev" "ev = EV_RELEASE \<or> ev = EV_NOSETUP_RSP" "pr \<noteq> (CC_SETUP, INDICATION)"
    "ev = EV_NOSETUP_RSP \<longrightarrow> pr = (CC_NOSETUP_RSP, REQUEST)"
    using assms(3) by (auto simp: heard_def cc_free_def l3l4_event_def)
  have only: "j = k" if "q \<in> set (cc_procs c)" "p_addr q = p_addr p" "p_chan q = Some j" for q j
    using same_pc [OF assms(1,2) that(1)] that Some by simp
  have "callc_inv (free_pc (p_addr p) c')" if e: "lli_event k ev c = Some c'" for c'
  proof (rule free_inv)
    show inv: "callc_inv c'" using lli_event_any [OF assms(1) k, of ev] ev(2) e by (auto simp: wpo_iff)
    fix j assume j: "j < length (cc_ch c')" "\<exists>q \<in> set (cc_procs c'). p_addr q = p_addr p \<and> p_chan q = Some j"
      "li_proc (ch_at j c') = Some (p_addr p)"
    have "closed_by k c c' \<or> c' = c \<and> (li_state (ch_at k c) \<in> {0, 12} \<or> ev = EV_NOSETUP_RSP \<and> li_state (ch_at k c) \<noteq> ST_OUT_DIAL)"
      using end_heard [OF assms(1) k ev(2)] e by (simp add: wlp_def)
    then show "li_state (ch_at j c') = ST_NULL \<or> li_leased (ch_at j c')"
    proof (elim disjE)
      assume "closed_by k c c'"
      then obtain F where F: "c' = upd_ch k F c" "\<forall>l. li_state (F l) = ST_NULL \<and> li_proc (F l) = li_proc l"
        unfolding closed_by_def by blast
      then have "j = k" using j(2) only by auto
      then show ?thesis using F k by simp
    next
      assume h: "c' = c \<and> (li_state (ch_at k c) \<in> {0, 12} \<or> ev = EV_NOSETUP_RSP \<and> li_state (ch_at k c) \<noteq> ST_OUT_DIAL)"
      then have "j = k" using j(2) only by auto
      then show ?thesis using h j(3) assms(3) ev(4) Some by (auto simp: heard_def)
    qed
  qed
  moreover have "wpo (lli_event k ev c) callc_inv"
    using lli_event_any [OF assms(1) k, of ev] ev(2) by auto
  ultimately show ?thesis
    using Some ev find_pc_eq [OF assms(1,2)] by (auto simp: dchan_l3l4_def wpo_iff)
qed


subsection \<open>From the link level and the B channels\<close>

lemma callc_inv_more [simp]:
  "callc_inv (dt_upd d f c) = callc_inv c" "callc_inv (c\<lparr>cc_use := x\<rparr>) = callc_inv c"
  "cc_ch (dt_upd d f c) = cc_ch c" "cc_two (dt_upd d f c) = cc_two c"
  by (simp_all add: dt_upd_def callc_inv_def owned_def)

lemma callc_inv_limit: "callc_inv c \<Longrightarrow> n \<le> 2 \<Longrightarrow> callc_inv (c\<lparr>cc_chanlimit := n\<rparr>)"
  by (simp add: callc_inv_def owned_def)

lemma callc_inv_mem: "callc_inv c \<Longrightarrow> callc_inv (c\<lparr>cc_kenv := snd (k_alloc (cc_kenv c))\<rparr>)"
  by (simp add: callc_inv_def owned_def)

lemma callc_inv_len: "callc_inv c \<Longrightarrow> length (cc_ch c) = 2 + MAX_WAITING_CALLS"
  by (simp add: callc_inv_def)

lemma set_inv:
  assumes "callc_inv c" "k < length (cc_ch c)" "\<And>l. li_out (F l) = li_out l \<and> li_state (F l) = li_state l \<and>
    li_start_b (F l) = li_start_b l \<and> li_data_open (F l) = li_data_open l \<and> li_l2_active (F l) = li_l2_active l \<and>
    (tl_pending (li_dial (F l)) \<longrightarrow> li_dial (F l) = li_dial l \<or> tm_event (li_dial (F l)) \<in> {EV_DIAL, EV_RESUME}) \<and>
    li_drel (F l) = li_drel l \<and> (li_leased l \<longrightarrow> li_leased (F l)) \<and> li_proc (F l) = li_proc l"
  shows "callc_inv (upd_ch k F c)"
  by (rule mid_any [OF assms(1,2), where os = "[]"]) (use assms(3) in simp_all)

lemma say_inv:
  assumes "callc_inv c" "k < length (cc_ch c)" "\<And>ph. ll_path ph [st] ph"
  shows "callc_inv (HL_LL k st c)"
  unfolding HL_LL_def out_ch_def
  by (rule mid_any [OF assms(1,2), where os = "[LL st]"])
    (use l_okD [OF assms(1,2)] assms(3) in \<open>simp_all add: l_ok_def del: ll_path.simps\<close>)

lemma put_inv:
  assumes "callc_inv c" "k < length (cc_ch c)" "lls [o1] = []" "\<And>s. bc_next s o1 = Some s"
  shows "callc_inv (out_ch k o1 c)"
  unfolding out_ch_def
  by (rule mid_any [OF assms(1,2), where os = "[o1]"])
    (use l_okD [OF assms(1,2)] assms(3,4) in \<open>simp_all add: l_ok_def\<close>)

lemma restart_dial_inv: "callc_inv c \<Longrightarrow> k < length (cc_ch c) \<Longrightarrow> e = EV_DIAL \<or> e = EV_RESUME \<Longrightarrow> callc_inv (restart_dial k ms e c)"
  unfolding restart_dial_def del_dial_def upd_upd by (erule set_inv) (auto simp: FsmAddTimer_def FsmDelTimer_def Let_def)

lemma dial_event_ok:
  "callc_inv c \<Longrightarrow> dial_ok k c \<Longrightarrow> e = EV_DIAL \<or> e = EV_RESUME \<Longrightarrow> wpo (lli_event k e c) callc_inv"
  by (rule lli_event_ok) (auto simp: ev_ok_def dial_ok_def)

lemma dial_ok_upd: "dial_ok k c \<Longrightarrow> (\<And>l. li_leased (F l) = li_leased l) \<Longrightarrow> dial_ok k (upd_ch k F c)"
  by (simp add: dial_ok_def dst_ix_def)

lemma limit_loop_inv:
  "callc_inv c \<Longrightarrow> set is \<subseteq> {..<4} \<Longrightarrow> cc_chanlimit c + length is \<le> 2 \<Longrightarrow> callc_inv (snd (limit_loop is m c))"
proof (induction "is" arbitrary: c)
  case Nil
  then show ?case by simp
next
  case (Cons i "is")
  obtain r su where r: "cc_answer c 0 = (r, su)" by (cases "cc_answer c 0")
  let ?c = "HL_LL i (STAT_DISCH (int i < m)) (c\<lparr>cc_answer := (\<lambda>n. cc_answer c (Suc n))\<rparr>)"
  have inv: "callc_inv ?c" using Cons.prems(1,2) callc_inv_len [OF Cons.prems(1)] by (intro say_inv say_any) simp_all
  moreover have lim: "cc_chanlimit (HL_LL k st c) = cc_chanlimit c" for k st c by (simp add: HL_LL_def out_ch_def)
  ultimately show ?case
    using Cons.prems callc_inv_limit [OF inv, of "cc_chanlimit c + 1"]
      Cons.IH [of ?c] Cons.IH [of "?c\<lparr>cc_chanlimit := cc_chanlimit c + 1\<rparr>"]
    by (cases "int i < m") (simp_all add: statcallb_icall_def r lim)
qed

lemma d_establish_inv [simp]: "callc_inv (d_establish d c) = callc_inv c"
  by (simp add: d_establish_def leased_l4l3_def)

lemma HiSax_ioctl_inv:
  assumes "callc_inv c"
  shows "callc_inv (snd (HiSax_ioctl n num c))"
proof -
  have len: "length (cc_ch c) = 4" using callc_inv_len [OF assms] by simp
  define delay :: "LliChan \<Rightarrow> LliChan" where "delay = (\<lambda>l. l\<lparr>li_b_st := (li_b_st l)\<lparr>bs_delay := sint num\<rparr>\<rparr>)"
  have "callc_inv (upd_ch 1 delay (upd_ch 0 delay c))"
    by (intro set_inv assms) (use len in \<open>auto simp: delay_def\<close>)
  moreover have "callc_inv (upd_ch (unat num - 1) (\<lambda>l. l\<lparr>li_leased := True\<rparr>) c)" if "\<not> (num < 1 \<or> 2 < num)"
  proof -
    have "unat num \<le> 2" using that by (simp add: not_less word_le_nat_alt)
    then show ?thesis by (intro set_inv assms) (use len in auto)
  qed
  moreover have "callc_inv (snd (set_channel_limit m c))" for m
    using limit_loop_inv [of "c\<lparr>cc_chanlimit := 0\<rparr>" "[0, 1]" m] callc_inv_limit [OF assms, of 0] assms
    by (simp add: set_channel_limit_def del: limit_loop.simps)
  ultimately show ?thesis
    using assms by (simp add: HiSax_ioctl_def delay_def Let_def split: option.split)
qed


lemma got_fac_ok:
  assumes "callc_inv c" "k < length (cc_ch c)" "fac_ok k cm c"
  shows "wpo (lli_got_fac_req k cm c) callc_inv"
proof (cases "cm_para cm ! 3 \<in> {4, 5}")
  case False
  then show ?thesis using assms(1,3) by (simp add: lli_got_fac_req_def fac_ok_def rd_def)
next
  case True
  note k = assms(2)
  have len: "length (cm_para cm) = 50" using assms(3) by (simp add: fac_ok_def)
  obtain ph where ph: "strncpy (su_phone (li_setup (ch_at k c))) (drop 5 (cm_para cm)) (unat (cm_para cm ! 5) + 1) = Some ph"
    using assms(3) True by (auto simp: fac_ok_def strncpy_def Let_def)
  let ?F = "\<lambda>l. l\<lparr>li_setup := (li_setup l)\<lparr>su_phone := ph\<rparr>\<rparr>"
  have inv: "callc_inv (upd_ch k ?F c)" by (rule set_inv [OF assms(1) k]) simp
  have "wpo (lli_event k EV_SUSPEND (upd_ch k ?F c)) callc_inv" by (rule lli_event_any [OF inv]) (use k in simp_all)
  moreover have "wpo (lli_event k EV_RESUME (upd_ch k ?F c)) callc_inv" if "cm_para cm ! 3 = 5"
    by (rule dial_event_ok [OF inv dial_ok_upd]) (use assms(3) that in \<open>simp_all add: fac_ok_def\<close>)
  moreover have "callc_inv (restart_dial k 80 EV_RESUME (upd_ch k ?F c))"
    by (rule restart_dial_inv [OF inv]) (use k in simp_all)
  ultimately show ?thesis
    using True assms(1) len ph k by (auto simp: lli_got_fac_req_def rd_def Let_def)
qed

lemma on_ch_ok: "k < length (cc_ch c) \<Longrightarrow> wpo (f c) Q \<Longrightarrow> wpo (map_option snd (on_ch k f c)) Q"
  by (cases "f c") (simp_all add: on_ch_def)

lemma dial_cmd_ok:
  assumes "callc_inv c" "dial_ok k c"
  shows "wpo (if li_state (ch_at k (upd_ch k (\<lambda>l. l\<lparr>li_setup := su\<rparr>) c)) = ST_NULL
      then lli_event k EV_DIAL (upd_ch k (\<lambda>l. l\<lparr>li_setup := su\<rparr>) c)
      else Some (restart_dial k 50 EV_DIAL (upd_ch k (\<lambda>l. l\<lparr>li_setup := su\<rparr>) c))) callc_inv"
proof -
  have k: "k < length (cc_ch c)" using assms(2) by (simp add: dial_ok_def)
  have inv: "callc_inv (upd_ch k (\<lambda>l. l\<lparr>li_setup := su\<rparr>) c)" by (rule set_inv [OF assms(1) k]) simp
  have "wpo (lli_event k EV_DIAL (upd_ch k (\<lambda>l. l\<lparr>li_setup := su\<rparr>) c)) callc_inv"
    by (rule dial_event_ok [OF inv dial_ok_upd [OF assms(2)]]) simp_all
  moreover have "callc_inv (restart_dial k 50 EV_DIAL (upd_ch k (\<lambda>l. l\<lparr>li_setup := su\<rparr>) c))"
    by (rule restart_dial_inv [OF inv]) (use k in simp_all)
  ultimately show ?thesis by simp
qed

lemma setup_event_ok:
  assumes "callc_inv c" "k < length (cc_ch c)" "e = EV_ACCEPTD \<or> e = EV_REDIR"
  shows "wpo (lli_event k e (upd_ch k (\<lambda>l. l\<lparr>li_setup := su\<rparr>) c)) callc_inv"
proof -
  have "callc_inv (upd_ch k (\<lambda>l. l\<lparr>li_setup := su\<rparr>) c)" by (rule set_inv [OF assms(1,2)]) simp
  then show ?thesis by (rule lli_event_any) (use assms(2,3) in auto)
qed

lemma command_ok:
  assumes "callc_inv c" "cmd_ok ic c"
  shows "wpo (map_option snd (HiSax_command ic c)) callc_inv"
proof (cases ic)
  case (CMD_DIAL arg su)
  then show ?thesis
    using assms dial_cmd_ok [OF assms(1), of "arg mod 256" "eaz_zero su"]
    unfolding HiSax_command_def cmd_ok_def Let_def
    by (simp only: ll_cmd.case) (rule on_ch_ok, simp_all add: dial_ok_def)
next
  case (CMD_CAPI k cm)
  then have k: "fac_ok k cm c" "k < length (cc_ch c)" using assms(2) by (simp_all add: cmd_ok_def)
  have "wpo (lli_got_fac_req k cm c) callc_inv" by (rule got_fac_ok [OF assms(1) k(2,1)])
  moreover have "callc_inv (lli_got_manufacturer k cm c)"
    using put_inv [OF assms(1) k(2), of "AuxInd (cm_para cm)"] assms(1) by (simp add: lli_got_manufacturer_def)
  ultimately show ?thesis
    unfolding HiSax_command_def CMD_CAPI ll_cmd.case using assms(1) by (intro on_ch_ok k(2)) simp
next
  case (CMD_SETL2 arg)
  then have k: "arg mod 256 < length (cc_ch c)" using assms(2) by (simp add: cmd_ok_def)
  show ?thesis
    unfolding HiSax_command_def CMD_SETL2 ll_cmd.case
    by (rule on_ch_ok [OF k], unfold wpo_Some, rule set_inv [OF assms(1) k]) simp
next
  case (CMD_SETL3 arg)
  then have k: "arg mod 256 < length (cc_ch c)" using assms(2) by (simp add: cmd_ok_def)
  show ?thesis
    unfolding HiSax_command_def CMD_SETL3 ll_cmd.case
    by (rule on_ch_ok [OF k], unfold wpo_Some, rule set_inv [OF assms(1) k]) simp
qed (use assms HiSax_ioctl_inv [OF assms(1)] in \<open>simp_all add: HiSax_command_def cmd_ok_def on_ch_ok lli_event_any setup_event_ok\<close>)

lemma data_ok:
  assumes "callc_inv c" "k < length (cc_ch c)"
  shows "wpo (map_option snd (HiSax_writebuf_skb k ack skb c)) callc_inv"
proof -
  obtain ok kv where kv: "k_alloc (cc_kenv c) = (ok, kv)" by (cases "k_alloc (cc_kenv c)")
  have inv: "callc_inv (c\<lparr>cc_kenv := kv\<rparr>)" using callc_inv_mem [OF assms(1)] by (simp add: kv)
  have "callc_inv (upd_ch k (\<lambda>l. l\<lparr>li_tx_cnt := li_tx_cnt l + n\<rparr>) (c\<lparr>cc_kenv := kv\<rparr>))" for n
    by (rule set_inv [OF inv]) (use assms(2) in simp_all)
  then have "callc_inv (out_ch k (BData pr s) (upd_ch k (\<lambda>l. l\<lparr>li_tx_cnt := li_tx_cnt l + n\<rparr>) (c\<lparr>cc_kenv := kv\<rparr>)))"
    "callc_inv (out_ch k (BData pr s) (c\<lparr>cc_kenv := kv\<rparr>))" for pr s n
    using inv assms(2) by (simp_all add: put_inv)
  then show ?thesis using assms kv inv by (simp add: HiSax_writebuf_skb_def Let_def)
qed

lemma timers_safe:
  assumes "callc_inv c"
  shows "dial_ok k c \<Longrightarrow> wpo (expire_dial k c) callc_inv" "k < length (cc_ch c) \<Longrightarrow> wpo (expire_drel k c) callc_inv"
proof -
  show "wpo (expire_dial k c) callc_inv" if d: "dial_ok k c"
  proof -
    have k: "k < length (cc_ch c)" using d by (simp add: dial_ok_def)
    have "callc_inv (del_dial k c)" unfolding del_dial_def by (rule set_inv [OF assms k]) (simp add: FsmDelTimer_def)
    moreover have "dial_ok k (del_dial k c)" unfolding del_dial_def by (rule dial_ok_upd [OF d]) simp
    ultimately show ?thesis
      using l_okD [OF assms k] assms dial_event_ok by (auto simp: expire_dial_def l_ok_def)
  qed
  show "wpo (expire_drel k c) callc_inv" if k: "k < length (cc_ch c)"
  proof -
    have "callc_inv (del_drel k c)" unfolding del_drel_def
      by (rule mid_any [OF assms k, where os = "[]"]) (use l_okD [OF assms k] in \<open>simp_all add: l_ok_def FsmDelTimer_def\<close>)
    then show ?thesis
      using l_okD [OF assms k] assms k by (auto simp: expire_drel_def l_ok_def del_drel_def intro!: lli_event_any)
  qed
qed

lemma b_ok:
  assumes "callc_inv c" "k < length (cc_ch c)"
  shows "wpo (lldata_handler k pr skb c) callc_inv" "wpo (lltrans_handler k pr skb c) callc_inv"
    "callc_inv (ll_writewakeup k n c)"
  using put_inv [OF assms, of "RcvSkb skb"] say_inv [OF assms say_any(2)] lli_event_any [OF assms] assms(1)
  by (simp_all add: lldata_handler_def lltrans_handler_def ll_writewakeup_def)

lemma leased_ok:
  assumes "callc_inv c" "u < 2"
  shows "wpo (leased_l1l2 u pr c) callc_inv"
proof -
  have ks: "k < 4" if "k \<in> set [u ..< u + (if cc_two c then 1 else 2)]" for k
    using that assms(2) by (auto split: if_splits)
  have "wpo (each (\<lambda>k. lli_event k e) [u ..< u + (if cc_two c then 1 else 2)] c) callc_inv"
    if "e = EV_LEASED \<or> e = EV_LEASED_REL" for e
    by (rule each_inv [where I = callc_inv, OF assms(1)]) (use that ks callc_inv_len in \<open>auto intro!: lli_event_any\<close>)
  then show ?thesis using assms(1) by (simp add: leased_l1l2_def Let_def)
qed


subsection \<open>Setting up a card\<close>

definition l_ready :: "LliChan \<Rightarrow> bool" where
  "l_ready l \<longleftrightarrow> li_state l = ST_NULL \<and> \<not> li_start_b l \<and> \<not> li_leased l \<and> \<not> li_data_open l \<and> li_out l = [] \<and>
     \<not> tl_pending (li_dial l) \<and> \<not> tl_pending (li_drel l)"

definition booting :: "nat set \<Rightarrow> Callc \<Rightarrow> bool" where
  "booting ks c \<longleftrightarrow> length (cc_ch c) = 2 + MAX_WAITING_CALLS \<and> length (cc_dst c) = 2 \<and> cc_chanlimit c \<le> 2 \<and>
     cc_procs c = [] \<and> mem_ok (cc_kenv c) \<and> (\<forall>k < 2 + MAX_WAITING_CALLS. li_out (ch_at k c) = []) \<and>
     (\<forall>k \<in> ks. l_ready (ch_at k c))"

lemma booting_set:
  assumes "booting ks c" "k < 2 + MAX_WAITING_CALLS" "li_out (F (ch_at k c)) = li_out (ch_at k c)"
  shows "booting (ks - {k}) (upd_ch k F c)" "l_ready (F (ch_at k c)) \<Longrightarrow> booting (insert k ks) (upd_ch k F c)"
  using assms by (auto simp: booting_def upd_ch_def nth_list_update)

lemma booting_more [simp]: "booting ks (dt_upd d f c) = booting ks c"
  by (simp add: booting_def dt_upd_def)

lemma alloc_cc_boot:
  assumes "booting ks c"
  obtains c' where "alloc_cc c = (True, c')" "booting ks c'" "cc_ch c' = cc_ch c" "cc_two c' = cc_two c"
  using assms that by (auto simp: alloc_cc_def booting_def)

lemma init_d_st_boot:
  assumes "booting ks c" "k < 2 + MAX_WAITING_CALLS" "k \<notin> ks"
  obtains c' where "init_d_st k c = (0, c')" "booting ks c'" "ch_at k c' = (ch_at k c)\<lparr>li_d_st := True\<rparr>"
proof -
  have len: "k < length (cc_ch c)" using assms(1,2) by (simp add: booting_def)
  obtain c1 where c1: "alloc_cc c = (True, c1)" "booting ks c1" "cc_ch c1 = cc_ch c" by (rule alloc_cc_boot [OF assms(1)])
  have "booting ks (upd_ch k (\<lambda>l. l\<lparr>li_d_st := True\<rparr>) c1)"
    using booting_set(1) [OF c1(2) assms(2), of "\<lambda>l. l\<lparr>li_d_st := True\<rparr>"] assms(3) by simp
  then show thesis using that c1 len by (simp add: init_d_st_def)
qed

lemma init_chan_boot:
  assumes "booting ks c" "k < 2 + MAX_WAITING_CALLS" "k \<notin> ks"
  shows "\<exists>c'. init_chan k c = (0, c') \<and> booting (insert k ks) c'"
proof -
  have len: "k < length (cc_ch c)" using assms(1,2) by (simp add: booting_def)
  have out: "li_out (ch_at k c) = []" using assms(1,2) by (simp add: booting_def)
  define F :: "LliChan \<Rightarrow> LliChan" where "F = (\<lambda>l. l\<lparr>li_incoming := False, li_start_b := False, li_leased := False\<rparr>)"
  define G :: "LliChan \<Rightarrow> LliChan" where "G = (\<lambda>l. l\<lparr>li_b_alloc := True, li_b_st := (li_b_st l)\<lparr>bs_delay := 300\<rparr>,
    li_state := ST_NULL, li_dial := FsmInitTimer (li_dial l), li_drel := FsmInitTimer (li_drel l)\<rparr>)"
  have "booting ks (upd_ch k F c)"
    using booting_set(1) [OF assms(1,2), of F] assms(3) by (simp add: F_def)
  then obtain c1 where c1: "alloc_cc (upd_ch k F c) = (True, c1)" "booting ks c1" "cc_ch c1 = cc_ch (upd_ch k F c)"
    "cc_two c1 = cc_two (upd_ch k F c)" by (rule alloc_cc_boot)
  have c2: "booting ks (upd_ch k G c1)"
    using booting_set(1) [OF c1(2) assms(2), of G] assms(3) by (simp add: G_def)
  have at: "ch_at k (upd_ch k G c1) = G (F (ch_at k c))" "k < length (cc_ch c1)" using len c1(3) by simp_all
  have ready: "l_ready ((G (F l))\<lparr>li_d_st := b, li_data_open := False\<rparr>)" if "li_out l = []" for l b
    using that by (simp add: l_ready_def F_def G_def FsmInitTimer_def)
  have fin: "booting (insert k ks) (upd_ch k (\<lambda>l. l\<lparr>li_data_open := False\<rparr>) c')"
    if "booting ks c'" "ch_at k c' = (G (F (ch_at k c)))\<lparr>li_d_st := b\<rparr>" for c' b
    by (rule booting_set(2) [OF that(1) assms(2)]) (use that(2) ready [of "ch_at k c" b] out in simp_all)
  show ?thesis
  proof (cases "k = 0 \<or> cc_two (upd_ch k G c1) \<and> k < 2")
    case True
    obtain c3 where c3: "init_d_st k (upd_ch k G c1) = (0, c3)" "booting ks c3"
      "ch_at k c3 = (G (F (ch_at k c)))\<lparr>li_d_st := True\<rparr>"
      using init_d_st_boot [OF c2 assms(2,3)] at(1) by metis
    then show ?thesis
      using fin [OF c3(2,3)] c1(1) True by (simp add: init_chan_def F_def [symmetric] G_def [symmetric] Let_def)
  next
    case False
    let ?D = "\<lambda>l. l\<lparr>li_d_st := li_d_st (ch_at 0 (upd_ch k G c1))\<rparr>"
    have b: "booting ks (upd_ch k ?D (upd_ch k G c1))"
      using booting_set(1) [OF c2 assms(2), of ?D] assms(3) by simp
    have "booting (insert k ks) (upd_ch k (\<lambda>l. l\<lparr>li_data_open := False\<rparr>) (upd_ch k ?D (upd_ch k G c1)))"
      by (rule fin [OF b]) (use at in simp)
    then show ?thesis
      using c1(1) False by (cases "k < 2") (simp_all add: init_chan_def F_def [symmetric] G_def [symmetric] Let_def)
  qed
qed

lemma init_chans_boot:
  "booting ks c \<Longrightarrow> set js \<subseteq> {..<2 + MAX_WAITING_CALLS} \<Longrightarrow> distinct js \<Longrightarrow> set js \<inter> ks = {} \<Longrightarrow>
     \<exists>c'. init_chans js c = (0, c') \<and> booting (set js \<union> ks) c'"
proof (induction js arbitrary: c ks)
  case Nil
  then show ?case by simp
next
  case (Cons k js)
  then obtain c' where "init_chan k c = (0, c')" "booting (insert k ks) c'"
    using init_chan_boot [of ks c k] by auto
  then show ?case using Cons.IH [of "insert k ks" c'] Cons.prems by auto
qed

lemma boot_inv:
  assumes "callc_fresh c" "mem_ok (cc_kenv c)"
  shows "callc_inv (snd (CallcNewChan c))" "fst (CallcNewChan c) = 0"
proof -
  have "booting {} c" using assms by (auto simp: callc_fresh_def booting_def)
  then obtain c' where c': "init_chans [0 ..< 2 + MAX_WAITING_CALLS] c = (0, c')" "booting {..<2 + MAX_WAITING_CALLS} c'"
    using init_chans_boot [of "{}" c "[0 ..< 2 + MAX_WAITING_CALLS]"] by (auto simp: atLeast0LessThan)
  have "l_ready l \<Longrightarrow> l_ok l" for l by (simp add: l_ready_def l_ok_def phase_def)
  then have "list_all l_ok (cc_ch c')" using c'(2) by (auto simp: booting_def list_all_length)
  then have "callc_inv c'" using c'(2) by (auto simp: booting_def callc_inv_def l_ready_def)
  then show "callc_inv (snd (CallcNewChan c))" "fst (CallcNewChan c) = 0"
    unfolding CallcNewChan_def c'(1) by simp_all
qed

subsection \<open>Runs\<close>

lemma callc_step_ok:
  assumes "callc_step c r" "callc_inv c"
  shows "wpo r callc_inv"
  using assms
proof cases
  case (gone a)
  then show ?thesis using free_inv [OF assms(2), of a] by auto
next
  case (born p)
  have "owned k (c\<lparr>cc_procs := cc_procs c @ [p], cc_next := Suc (cc_next c)\<rparr>)" if "owned k c" for k
    using that by (auto simp: owned_def)
  then show ?thesis
    using born assms(2) by (auto simp: callc_inv_def less_Suc_eq)
next
  case (changed a w su b z y x)
  have "callc_inv (upd_pc a (\<lambda>p. p\<lparr>p_cause := x, p_loc := y, p_chargeinfo := z, p_bchannel := b,
     p_setup := su, p_redir_result := w\<rparr>) c) = callc_inv c" by (rule callc_inv_pc) simp
  then show ?thesis using changed assms(2) by simp
qed (use assms(2) command_ok data_ok timers_safe call_in_ok told_event_ok ended_ok b_ok leased_ok in \<open>simp_all\<close>)

lemma callc_reach_inv: "callc_reach c \<Longrightarrow> callc_inv c"
proof (induction rule: callc_reach.induct)
  case (boot c)
  then show ?case by (rule boot_inv)
next
  case (step c c')
  then show ?case using callc_step_ok by fastforce
qed

end
