(* ===== verification/Hisax_Dss1_Up.thy ===== *)
theory Hisax_Dss1_Up
  imports Hisax_Dss1_Down
begin

text \<open>
  The part of \<open>hisax/l3dss1.c\<close> that received messages drive: facility elements, the handlers of
  \<open>datastatelist\<close> and \<open>globalmes_list\<close>, and \<open>dss1up\<close>. A message is its memory \<open>d\<close> and its length \<open>sz\<close>.
\<close>

subsection \<open>Facility elements\<close>

definition l3dss1_dummy_return_result ::
  "'z Dss1_scheme l3_ops \<Rightarrow> int \<Rightarrow> u8 list \<Rightarrow> 'z Dss1_scheme \<Rightarrow> 'z Dss1_scheme option" where
  "l3dss1_dummy_return_result up ii data c =
     (case l3dss1_search_dummy_proc ii c of
        None \<Rightarrow> Some c
      | Some a \<Rightarrow> do {
          c \<leftarrow> del_timer a c;
          p \<leftarrow> pc_get a c;
          c \<leftarrow> pc_mod a (\<lambda>p. p\<lparr>p_invoke_id := 0\<rparr>) (free_invoke_id (p_invoke_id p) c);
          dss1_release_l3_process up a
            (statcallb (StatInvokeRes (p_invoke_id p) (p_ll_id p) (p_proc p) data) c)
        })"

definition l3dss1_dummy_error_return ::
  "'z Dss1_scheme l3_ops \<Rightarrow> int \<Rightarrow> u32 \<Rightarrow> 'z Dss1_scheme \<Rightarrow> 'z Dss1_scheme option" where
  "l3dss1_dummy_error_return up ii err c =
     (case l3dss1_search_dummy_proc ii c of
        None \<Rightarrow> Some c
      | Some a \<Rightarrow> do {
          c \<leftarrow> del_timer a c;
          p \<leftarrow> pc_get a c;
          c \<leftarrow> pc_mod a (\<lambda>p. p\<lparr>p_invoke_id := 0\<rparr>) (free_invoke_id (p_invoke_id p) c);
          dss1_release_l3_process up a
            (statcallb (StatInvokeErr (p_invoke_id p) (p_ll_id p) (p_proc p) err) c)
        })"

definition l3dss1_dummy_invoke ::
  "int \<Rightarrow> int \<Rightarrow> int \<Rightarrow> u8 list \<Rightarrow> 'z Dss1_scheme \<Rightarrow> 'z Dss1_scheme" where
  "l3dss1_dummy_invoke cr ii ident data c =
     (if -1 \<le> cr then c else statcallb (StatInvokeBrd ii ident data) c)"

text \<open>The extension octets in front of the component.\<close>

fun fac_skip_ext :: "u8 list \<Rightarrow> nat \<Rightarrow> nat \<Rightarrow> (nat \<times> nat) option" where
  "fac_skip_ext d p 0 = Some (p, 0)"
| "fac_skip_ext d p (Suc q) = do {
     b \<leftarrow> rd d p;
     if b AND 0x80 = 0 then fac_skip_ext d (Suc p) q else Some (p, Suc q)
   }"

text \<open>
  The length of a component: short, one length octet, or indefinite with two null octets at the
  end. The result is the length, where the contents start and how much of the element is left;
  the inner \<open>None\<close> is a format the code refuses.
\<close>

definition fac_length :: "u8 list \<Rightarrow> nat \<Rightarrow> nat \<Rightarrow> (u8 \<times> nat \<times> int) option option" where
  "fac_length d p qd_len = do {
     b \<leftarrow> rd d p;
     if b AND 0x80 \<noteq> 0 then
       (let nlen = b AND 0x7F in
        if qd_len < (if nlen = 0 then 3 else 1 + unat nlen) \<or> 1 < nlen then Some None
        else if nlen = 1 then do {
          n \<leftarrow> rd d (p + 1);
          Some (Some (n, p + 2, int qd_len - 2))
        }
        else do {
          x \<leftarrow> rd d (p + 1 + (qd_len - 3));
          y \<leftarrow> if x \<noteq> 0 then Some 0 else rd d (p + 2 + (qd_len - 3));
          if x \<noteq> 0 \<or> y \<noteq> 0 then Some None
          else Some (Some (of_nat (qd_len - 3), p + 1, int qd_len - 3))
        })
     else Some (Some (b, p + 1, int qd_len - 1))
   }"

definition fac_component :: "u8 list \<Rightarrow> nat \<Rightarrow> nat \<Rightarrow> (u8 \<times> u8 \<times> nat) option option" where
  "fac_component d p qd_len =
     (if qd_len < 2 then Some None
      else do {
        t \<leftarrow> rd d (p + 1);
        if t AND 0xE0 \<noteq> 0xA0 then Some None
        else if qd_len - 2 < 1 then Some None
        else do {
          r \<leftarrow> fac_length d (p + 2) (qd_len - 2);
          case r of
            None \<Rightarrow> Some None
          | Some (nlen, p, q) \<Rightarrow> Some (if q < uint nlen then None else Some (t AND 0x1F, nlen, p))
        }
      })"

definition fac_header :: "u8 list \<Rightarrow> nat \<Rightarrow> (u8 \<times> u8 \<times> nat) option option" where
  "fac_header d i = do {
     q \<leftarrow> rd d (i + 1);
     if q = 0 then Some None
     else do {
       b \<leftarrow> rd d (i + 2);
       if b AND 0x1F \<noteq> 0x11 then Some None
       else do {
         (p, qd_len) \<leftarrow> fac_skip_ext d (i + 2) (unat q);
         fac_component d p qd_len
       }
     }
   }"

text \<open>A number of at most \<open>lim\<close> length octets behind its tag; the rest of the component.\<close>

definition fac_number :: "u8 list \<Rightarrow> nat \<Rightarrow> u8 \<Rightarrow> (u8 \<Rightarrow> bool) \<Rightarrow> (u32 \<times> nat \<times> u8) option option" where
  "fac_number d p nlen len_ok =
     (if nlen < 2 then Some None
      else do {
        t \<leftarrow> rd d p;
        if t \<noteq> 0x02 then Some None
        else do {
          ilen \<leftarrow> rd d (p + 1);
          if \<not> len_ok ilen \<or> nlen - 2 < ilen \<or> ilen = 0 then Some None
          else do {
            ds \<leftarrow> rd_list d (p + 2) (unat ilen);
            Some (Some (fold (\<lambda>b v. push_bit 8 v OR ucast b) ds 0, p + 2 + unat ilen,
                        nlen - 2 - ilen))
          }
        }
      })"

definition fac_result ::
  "nat \<Rightarrow> u32 \<Rightarrow> u32 \<Rightarrow> 'z Dss1_scheme \<Rightarrow> 'z Dss1_scheme option" where
  "fac_result a ii result c = do {
     p \<leftarrow> pc_get a c;
     if p_invoke_id p \<noteq> 0 \<and> sint ii = uint (p_invoke_id p) then do {
       c \<leftarrow> pc_mod a (\<lambda>p. p\<lparr>p_remote_result := result, p_invoke_id := 0, p_redir_result := result\<rparr>)
              (free_invoke_id (p_invoke_id p) c);
       Some (l3l4 (CC_REDIR, INDICATION) a c)
     }
     else Some c
   }"

definition l3dss1_parse_facility ::
  "'z Dss1_scheme l3_ops \<Rightarrow> nat option \<Rightarrow> int \<Rightarrow> u8 list \<Rightarrow> nat \<Rightarrow> 'z Dss1_scheme \<Rightarrow>
   'z Dss1_scheme option" where
  "l3dss1_parse_facility up pc cr d i c =
     (if pc = None \<and> 0 \<le> cr then Some c
      else do {
        h \<leftarrow> fac_header d i;
        case h of None \<Rightarrow> Some c | Some (cp_tag, nlen, p) \<Rightarrow> do {
          r \<leftarrow> fac_number d p nlen (\<lambda>l. l AND 0x80 = 0);
          case r of None \<Rightarrow> Some c | Some (ii, p, nlen) \<Rightarrow>
            if cp_tag = 1 then do {
              r \<leftarrow> fac_number d p nlen (\<lambda>l. True);
              case r of None \<Rightarrow> Some c | Some (ident, p, nlen) \<Rightarrow>
                (case pc of
                   None \<Rightarrow> do {
                     data \<leftarrow> rd_list d p (unat nlen);
                     Some (l3dss1_dummy_invoke cr (sint ii) (sint ident) data c)
                   }
                 | Some a \<Rightarrow> Some c)
            }
            else if cp_tag = 2 then
              (case pc of
                 None \<Rightarrow>
                   if cr = -1 then do {
                     data \<leftarrow> rd_list d p (unat nlen);
                     l3dss1_dummy_return_result up (sint ii) data c
                   }
                   else Some c
               | Some a \<Rightarrow> fac_result a ii 0 c)
            else if cp_tag = 3 then do {
              r \<leftarrow> fac_number d p nlen (\<lambda>l. l \<le> 4);
              case r of None \<Rightarrow> Some c | Some (err, p, nlen) \<Rightarrow>
                (case pc of
                   None \<Rightarrow>
                     if cr = -1 then l3dss1_dummy_error_return up (sint ii) err c else Some c
                 | Some a \<Rightarrow> fac_result a ii err c)
            }
            else Some c
        }
      })"

definition pc_facility ::
  "'z Dss1_scheme l3_ops \<Rightarrow> nat \<Rightarrow> u8 list \<Rightarrow> nat \<Rightarrow> 'z Dss1_scheme \<Rightarrow> 'z Dss1_scheme option" where
  "pc_facility up a d sz c = do {
     r \<leftarrow> find_ie d sz IE_FACILITY;
     case r of
       None \<Rightarrow> Some c
     | Some i \<Rightarrow> do { p \<leftarrow> pc_get a c; l3dss1_parse_facility up (Some a) (p_callref p) d i c }
   }"

subsection \<open>Errors in a message\<close>

definition valid_messagetypes :: "u8 set" where
  "valid_messagetypes =
     {MT_ALERTING, MT_CALL_PROCEEDING, MT_CONNECT, MT_CONNECT_ACKNOWLEDGE, MT_DISCONNECT,
      MT_INFORMATION, MT_FACILITY, MT_NOTIFY, MT_PROGRESS, MT_RELEASE, MT_RELEASE_COMPLETE, MT_SETUP,
      MT_SETUP_ACKNOWLEDGE, MT_RESUME_ACKNOWLEDGE, MT_RESUME_REJECT, MT_SUSPEND_ACKNOWLEDGE,
      MT_SUSPEND_REJECT, MT_USER_INFORMATION, MT_RESTART, MT_RESTART_ACKNOWLEDGE,
      MT_CONGESTION_CONTROL, MT_STATUS, MT_STATUS_ENQUIRY}"

definition l3dss1_check_messagetype_validity ::
  "'z Dss1_scheme l3_ops \<Rightarrow> nat \<Rightarrow> u8 \<Rightarrow> 'z Dss1_scheme \<Rightarrow> (bool \<times> 'z Dss1_scheme) option" where
  "l3dss1_check_messagetype_validity up a mt c =
     (if mt \<in> valid_messagetypes then Some (False, c)
      else do {
        c \<leftarrow> set_cause a 97 c;
        c \<leftarrow> l3dss1_status_send up a c;
        Some (True, c)
      })"

definition l3dss1_std_ie_err ::
  "'z Dss1_scheme l3_ops \<Rightarrow> nat \<Rightarrow> int \<Rightarrow> 'z Dss1_scheme \<Rightarrow> 'z Dss1_scheme option" where
  "l3dss1_std_ie_err up a ret c =
     (if ret = ERR_IE_COMPREHENSION then do { c \<leftarrow> set_cause a 96 c; l3dss1_status_send up a c }
      else if ret = ERR_IE_UNRECOGNIZED then do { c \<leftarrow> set_cause a 99 c; l3dss1_status_send up a c }
      else if ret = ERR_IE_LENGTH then do { c \<leftarrow> set_cause a 100 c; l3dss1_status_send up a c }
      else Some c)"

definition status_cause ::
  "'z Dss1_scheme l3_ops \<Rightarrow> nat \<Rightarrow> u8 \<Rightarrow> 'z Dss1_scheme \<Rightarrow> 'z Dss1_scheme option" where
  "status_cause up a cause c = do { c \<leftarrow> set_cause a cause c; l3dss1_status_send up a c }"

definition pc_get_cause ::
  "nat \<Rightarrow> u8 list \<Rightarrow> nat \<Rightarrow> 'z Dss1_scheme \<Rightarrow> (int \<times> 'z Dss1_scheme) option" where
  "pc_get_cause a d sz c = do {
     p \<leftarrow> pc_get a c;
     r \<leftarrow> l3dss1_get_cause d sz (p_diag p);
     c \<leftarrow> pc_mod a (\<lambda>p. p\<lparr>p_cause := ci_cause r, p_loc := ci_loc r, p_diag := ci_diag r\<rparr>) c;
     Some (ci_ret r, c)
   }"

text \<open>\<open>bad_channel\<close>: no channel, or any channel when the call needs one of 64 kbit/s.\<close>

definition bad_channel :: "int \<Rightarrow> l3_process \<Rightarrow> bool" where
  "bad_channel ii p \<longleftrightarrow> ii = 0 \<or> ii = 3 \<and> p_moderate p = 0x10"

subsection \<open>Handlers\<close>

type_synonym 'z data_rout =
  "nat \<Rightarrow> u8 list \<Rightarrow> nat \<Rightarrow> 'z Dss1_scheme \<Rightarrow> 'z Dss1_scheme option"

definition l3dss1_release_cmpl :: "'z Dss1_scheme l3_ops \<Rightarrow> 'z data_rout" where
  "l3dss1_release_cmpl up a d sz c = do {
     (ret, c) \<leftarrow> pc_get_cause a d sz c;
     c \<leftarrow> if ret < 0 then set_cause a NO_CAUSE c else Some c;
     c \<leftarrow> pc_mod a StopAllL3Timer c;
     c \<leftarrow> new_state a 0 c;
     dss1_release_l3_process up a (l3l4 (CC_RELEASE, CONFIRM) a c)
   }"

text \<open>The common end of the handlers that move a call on.\<close>

definition call_moves ::
  "'z Dss1_scheme l3_ops \<Rightarrow> nat \<Rightarrow> nat \<Rightarrow> (int \<times> cc_prim) option \<Rightarrow> int \<Rightarrow> cc_prim \<Rightarrow>
   'z Dss1_scheme \<Rightarrow> 'z Dss1_scheme option" where
  "call_moves up a st tm ret pr c = do {
     c \<leftarrow> del_timer a c;
     c \<leftarrow> new_state a st c;
     c \<leftarrow> (case tm of None \<Rightarrow> Some c | Some (ms, ev) \<Rightarrow> add_timer a ms ev c);
     c \<leftarrow> if ret \<noteq> 0 then l3dss1_std_ie_err up a ret c else Some c;
     Some (l3l4 pr a c)
   }"

definition l3dss1_call_proc :: "'z Dss1_scheme l3_ops \<Rightarrow> 'z data_rout" where
  "l3dss1_call_proc up a d sz c = do {
     ii \<leftarrow> l3dss1_get_channel_id d sz;
     p \<leftarrow> pc_get a c;
     if 0 \<le> ii \<and> bad_channel ii p then status_cause up a 100 c
     else if ii < 0 \<and> p_state p = 1 then status_cause up a (if ii = -1 then 96 else 100) c
     else do {
       c \<leftarrow> if 0 \<le> ii then pc_mod a (\<lambda>p. p\<lparr>p_bchannel := ii\<rparr>) c else Some c;
       ret \<leftarrow> check_infoelements d sz ie_CALL_PROCEEDING;
       if ret = ERR_IE_COMPREHENSION then l3dss1_std_ie_err up a ret c
       else call_moves up a 3 (Some (T310, (CC_T310, REQUEST))) ret (CC_PROCEEDING, INDICATION) c
     }
   }"

definition l3dss1_setup_ack :: "'z Dss1_scheme l3_ops \<Rightarrow> 'z data_rout" where
  "l3dss1_setup_ack up a d sz c = do {
     ii \<leftarrow> l3dss1_get_channel_id d sz;
     p \<leftarrow> pc_get a c;
     if 0 \<le> ii \<and> bad_channel ii p then status_cause up a 100 c
     else if ii < 0 then status_cause up a (if ii = -1 then 96 else 100) c
     else do {
       c \<leftarrow> pc_mod a (\<lambda>p. p\<lparr>p_bchannel := ii\<rparr>) c;
       ret \<leftarrow> check_infoelements d sz ie_SETUP_ACKNOWLEDGE;
       if ret = ERR_IE_COMPREHENSION then l3dss1_std_ie_err up a ret c
       else call_moves up a 2 (Some (T304, (CC_T304, REQUEST))) ret (CC_MORE_INFO, INDICATION) c
     }
   }"

definition l3dss1_disconnect :: "'z Dss1_scheme l3_ops \<Rightarrow> 'z data_rout" where
  "l3dss1_disconnect up a d sz c = do {
     c \<leftarrow> pc_mod a StopAllL3Timer c;
     (ret, c) \<leftarrow> pc_get_cause a d sz c;
     let cause = (if ret < 0 then 96 else if ret > 0 then 100 else 0);
     c \<leftarrow> pc_facility up a d sz c;
     ret \<leftarrow> check_infoelements d sz ie_DISCONNECT;
     let cause = (if ret = ERR_IE_COMPREHENSION then 96
                  else if cause = 0 \<and> ret = ERR_IE_UNRECOGNIZED then 99 else cause);
     p \<leftarrow> pc_get a c;
     c \<leftarrow> new_state a 12 c;
     c \<leftarrow> if cause \<noteq> 0 then new_state a 19 c else Some c;
     c \<leftarrow> if p_state p \<noteq> 11 then Some (l3l4 (CC_DISCONNECT, INDICATION) a c)
          else if cause = 0 then l3dss1_release_req up a c
          else Some c;
     if cause \<noteq> 0 then do {
       c \<leftarrow> l3dss1_message_cause up a MT_RELEASE cause c;
       add_timer a T308 (CC_T308_1, REQUEST) c
     }
     else Some c
   }"

definition l3dss1_connect :: "'z Dss1_scheme l3_ops \<Rightarrow> 'z data_rout" where
  "l3dss1_connect up a d sz c = do {
     ret \<leftarrow> check_infoelements d sz ie_CONNECT;
     if ret = ERR_IE_COMPREHENSION then l3dss1_std_ie_err up a ret c
     else do {
       c \<leftarrow> pc_mod a (\<lambda>p. p\<lparr>p_chargeinfo := 0\<rparr>) c;
       call_moves up a 10 None ret (CC_SETUP, CONFIRM) c
     }
   }"

definition l3dss1_alerting :: "'z Dss1_scheme l3_ops \<Rightarrow> 'z data_rout" where
  "l3dss1_alerting up a d sz c = do {
     ret \<leftarrow> check_infoelements d sz ie_ALERTING;
     if ret = ERR_IE_COMPREHENSION then l3dss1_std_ie_err up a ret c
     else call_moves up a 4 None ret (CC_ALERTING, INDICATION) c
   }"

text \<open>What the bearer capability sets in a process; an error code.\<close>

definition setup_bearer :: "u8 list \<Rightarrow> nat \<Rightarrow> nat \<Rightarrow> l3_process \<Rightarrow> (nat \<times> l3_process) option" where
  "setup_bearer d sz i p = do {
     l \<leftarrow> rd d (i + 1);
     if l < 2 \<or> 11 < l then Some (1, p)
     else do {
       b \<leftarrow> rd d (i + 2);
       let su = (p_setup p)\<lparr>su_si2 := 0\<rparr>;
       let k = b AND 0x7f;
       si2 \<leftarrow> if k = 0x08 then DecodeSI2 d sz else Some 0;
       let (err, su) =
         (if k = 0x00 \<or> k = 0x10 then (0, su\<lparr>su_si1 := 1\<rparr>)
          else if k = 0x08 then (0, su\<lparr>su_si1 := 7, su_si2 := si2\<rparr>)
          else if k = 0x09 then (0, su\<lparr>su_si1 := 2\<rparr>)
          else if k = 0x11 then (0, su\<lparr>su_si1 := 3\<rparr>)
          else if k = 0x18 then (0, su\<lparr>su_si1 := 4\<rparr>)
          else (2, su));
       m \<leftarrow> rd d (i + 3);
       let m = m AND 0x7f;
       Some (if m = 0x40 then (err, p\<lparr>p_setup := su\<lparr>su_si1 := 8\<rparr>\<rparr>)
             else if m \<in> {0x10, 0x11, 0x13, 0x15, 0x17} then (err, p\<lparr>p_setup := su, p_moderate := m\<rparr>)
             else (3, p\<lparr>p_setup := su\<rparr>))
     }
   }"

text \<open>A subaddress is appended with a dot; it passes through a buffer of 80 octets.\<close>

definition append_sub :: "u8 list \<Rightarrow> nat \<Rightarrow> u8 list \<Rightarrow> u8 list option" where
  "append_sub d i arr = do {
     l \<leftarrow> rd d (i + 1);
     b \<leftarrow> if 2 \<le> l then rd d (i + 2) else Some 0;
     b' \<leftarrow> if 2 \<le> l \<and> b = 0x80 then rd d (i + 3) else Some 0;
     if 2 \<le> l \<and> b = 0x80 \<and> b' = 0x50 then do {
       s \<leftarrow> iecpy d i 2;
       if 80 \<le> length s + 1 then None else strcat arr (46 # s)
     }
     else Some arr
   }"

definition setup_called :: "u8 list \<Rightarrow> nat \<Rightarrow> setup_parm \<Rightarrow> setup_parm option" where
  "setup_called d sz su = do {
     r \<leftarrow> find_ie d sz IE_CALLED_PN;
     arr \<leftarrow> (case r of Some i \<Rightarrow> do { s \<leftarrow> iecpy d i 1; put_str (su_eazmsn su) 0 s }
                    | None \<Rightarrow> put_str (su_eazmsn su) 0 []);
     r \<leftarrow> find_ie d sz IE_CALLED_SUB;
     arr \<leftarrow> (case r of Some i \<Rightarrow> append_sub d i arr | None \<Rightarrow> Some arr);
     Some (su\<lparr>su_eazmsn := arr\<rparr>)
   }"

definition setup_calling :: "u8 list \<Rightarrow> nat \<Rightarrow> setup_parm \<Rightarrow> setup_parm option" where
  "setup_calling d sz su = do {
     r \<leftarrow> find_ie d sz IE_CALLING_PN;
     su \<leftarrow> (case r of
       Some i \<Rightarrow> do {
         plan \<leftarrow> rd d (i + 2);
         if plan AND 0x80 \<noteq> 0 then do {
           s \<leftarrow> iecpy d i 1;
           arr \<leftarrow> put_str (su_phone su) 0 s;
           Some (su\<lparr>su_plan := plan, su_phone := arr, su_screen := 0\<rparr>)
         }
         else do {
           s \<leftarrow> iecpy d i 2;
           arr \<leftarrow> put_str (su_phone su) 0 s;
           screen \<leftarrow> rd d (i + 3);
           Some (su\<lparr>su_plan := plan, su_phone := arr, su_screen := screen\<rparr>)
         }
       }
     | None \<Rightarrow> do {
         arr \<leftarrow> put_str (su_phone su) 0 [];
         Some (su\<lparr>su_phone := arr, su_plan := 0, su_screen := 0\<rparr>)
       });
     r \<leftarrow> find_ie d sz IE_CALLING_SUB;
     arr \<leftarrow> (case r of Some i \<Rightarrow> append_sub d i (su_phone su) | None \<Rightarrow> Some (su_phone su));
     Some (su\<lparr>su_phone := arr\<rparr>)
   }"

definition setup_fails ::
  "'z Dss1_scheme l3_ops \<Rightarrow> nat \<Rightarrow> u8 \<Rightarrow> 'z Dss1_scheme \<Rightarrow> 'z Dss1_scheme option" where
  "setup_fails up a cause c = do { c \<leftarrow> set_cause a cause c; l3dss1_msg_without_setup up a c }"

definition l3dss1_setup :: "'z Dss1_scheme l3_ops \<Rightarrow> 'z data_rout" where
  "l3dss1_setup up a d sz c = do {
     r \<leftarrow> find_ie d sz IE_BEARER;
     case r of None \<Rightarrow> setup_fails up a 96 c | Some i \<Rightarrow> do {
       p \<leftarrow> pc_get a c;
       (err, p) \<leftarrow> setup_bearer d sz i p;
       c \<leftarrow> pc_mod a (\<lambda>_. p) c;
       if err \<noteq> 0 then setup_fails up a 100 c
       else do {
         ii \<leftarrow> l3dss1_get_channel_id d sz;
         if ii < 0 then setup_fails up a (if ii = -1 then 96 else 100) c
         else do {
           c \<leftarrow> pc_mod a (\<lambda>p. p\<lparr>p_bchannel := ii\<rparr>) c;
           if ii = 3 \<and> p_moderate p = 0x10 then setup_fails up a 100 c
           else do {
             err \<leftarrow> check_infoelements d sz ie_SETUP;
             if err = ERR_IE_COMPREHENSION then setup_fails up a 96 c
             else do {
               su \<leftarrow> setup_called d sz (p_setup p);
               su \<leftarrow> setup_calling d sz su;
               c \<leftarrow> pc_mod a (\<lambda>p. p\<lparr>p_setup := su\<rparr>) c;
               c \<leftarrow> new_state a 6 c;
               c \<leftarrow> if err \<noteq> 0 then l3dss1_std_ie_err up a err c else Some c;
               Some (l3l4 (CC_SETUP, INDICATION) a c)
             }
           }
         }
       }
     }
   }"

definition l3dss1_connect_ack :: "'z Dss1_scheme l3_ops \<Rightarrow> 'z data_rout" where
  "l3dss1_connect_ack up a d sz c = do {
     ret \<leftarrow> check_infoelements d sz ie_CONNECT_ACKNOWLEDGE;
     if ret = ERR_IE_COMPREHENSION then l3dss1_std_ie_err up a ret c
     else call_moves up a 10 None ret (CC_SETUP_COMPL, INDICATION) c
   }"

definition l3dss1_release :: "'z Dss1_scheme l3_ops \<Rightarrow> 'z data_rout" where
  "l3dss1_release up a d sz c = do {
     c \<leftarrow> pc_mod a StopAllL3Timer c;
     (ret, c) \<leftarrow> pc_get_cause a d sz c;
     c \<leftarrow> if ret < 0 then set_cause a NO_CAUSE c else Some c;
     c \<leftarrow> pc_facility up a d sz c;
     p \<leftarrow> pc_get a c;
     let cause = (if ret < 0 \<and> p_state p \<noteq> 11 then 96 else if ret > 0 then 100 else 0);
     ret \<leftarrow> check_infoelements d sz ie_RELEASE;
     let cause = (if ret = ERR_IE_COMPREHENSION then 96
                  else if ret = ERR_IE_UNRECOGNIZED \<and> cause = 0 then 99 else cause);
     c \<leftarrow> if cause \<noteq> 0 then l3dss1_message_cause up a MT_RELEASE_COMPLETE cause c
          else l3dss1_message up a MT_RELEASE_COMPLETE c;
     c \<leftarrow> new_state a 0 (l3l4 (CC_RELEASE, INDICATION) a c);
     dss1_release_l3_process up a c
   }"

definition l3dss1_deliver_display ::
  "nat \<Rightarrow> u8 list \<Rightarrow> nat \<Rightarrow> 'z Dss1_scheme \<Rightarrow> 'z Dss1_scheme option" where
  "l3dss1_deliver_display a d i c = do {
     b \<leftarrow> rd d i;
     if b \<noteq> IE_DISPLAY then Some c
     else do {
       l \<leftarrow> rd d (i + 1);
       if 80 < l then Some c
       else do {
         p \<leftarrow> pc_get a c;
         case p_chan p of
           None \<Rightarrow> Some c
         | Some ch \<Rightarrow> do {
             s \<leftarrow> rd_list d (i + 2) (unat l);
             Some (statcallb (StatDisplay (ch_chan (d_chan c ch)) s) c)
           }
       }
     }
   }"

text \<open>The tests of PROGRESS and NOTIFY on their element; 0 is no error, else the cause.\<close>

definition progress_error :: "u8 list \<Rightarrow> nat \<Rightarrow> u8 option" where
  "progress_error d sz = do {
     r \<leftarrow> find_ie d sz IE_PROGRESS;
     case r of None \<Rightarrow> Some 96 | Some i \<Rightarrow> do {
       l \<leftarrow> rd d (i + 1);
       if l \<noteq> 2 then Some 100
       else do {
         b \<leftarrow> rd d (i + 2);
         if b AND 0x70 \<noteq> 0 then Some 0
         else if b \<in> {0x80, 0x81, 0x82, 0x84, 0x85, 0x87, 0x8a} then do {
           x \<leftarrow> rd d (i + 3);
           Some (if x \<in> {0x81, 0x82, 0x83, 0x84, 0x88} then 0 else 100)
         }
         else Some 100
       }
     }
   }"

definition l3dss1_progress :: "'z Dss1_scheme l3_ops \<Rightarrow> 'z data_rout" where
  "l3dss1_progress up a d sz c = do {
     e \<leftarrow> progress_error d sz;
     if e \<noteq> 0 then status_cause up a e c
     else do {
       err \<leftarrow> check_infoelements d sz ie_PROGRESS;
       c \<leftarrow> if err \<noteq> 0 then l3dss1_std_ie_err up a err c else Some c;
       Some (if err \<noteq> ERR_IE_COMPREHENSION then l3l4 (CC_PROGRESS, INDICATION) a c else c)
     }
   }"

definition notify_error :: "u8 list \<Rightarrow> nat \<Rightarrow> u8 option" where
  "notify_error d sz = do {
     r \<leftarrow> find_ie d sz IE_NOTIFY;
     case r of None \<Rightarrow> Some 96 | Some i \<Rightarrow> do {
       l \<leftarrow> rd d (i + 1);
       if l \<noteq> 1 then Some 100
       else do { b \<leftarrow> rd d (i + 2); Some (if b \<in> {0x80, 0x81, 0x82} then 0 else 100) }
     }
   }"

definition l3dss1_notify :: "'z Dss1_scheme l3_ops \<Rightarrow> 'z data_rout" where
  "l3dss1_notify up a d sz c = do {
     e \<leftarrow> notify_error d sz;
     if e \<noteq> 0 then status_cause up a e c
     else do {
       err \<leftarrow> check_infoelements d sz ie_NOTIFY;
       c \<leftarrow> if err \<noteq> 0 then l3dss1_std_ie_err up a err c else Some c;
       Some (if err \<noteq> ERR_IE_COMPREHENSION then l3l4 (CC_NOTIFY, INDICATION) a c else c)
     }
   }"

definition l3dss1_status_enq :: "'z Dss1_scheme l3_ops \<Rightarrow> 'z data_rout" where
  "l3dss1_status_enq up a d sz c = do {
     ret \<leftarrow> check_infoelements d sz ie_STATUS_ENQUIRY;
     c \<leftarrow> l3dss1_std_ie_err up a ret c;
     status_cause up a 30 c
   }"

text \<open>More digits of the called number, in a buffer of 32 octets on the stack.\<close>

definition l3dss1_information :: "'z Dss1_scheme l3_ops \<Rightarrow> 'z data_rout" where
  "l3dss1_information up a d sz c = do {
     ret \<leftarrow> check_infoelements d sz ie_INFORMATION;
     c \<leftarrow> if ret \<noteq> 0 then l3dss1_std_ie_err up a ret c else Some c;
     p \<leftarrow> pc_get a c;
     if p_state p = 25 then do {
       c \<leftarrow> del_timer a c;
       r \<leftarrow> find_ie d sz IE_CALLED_PN;
       c \<leftarrow> (case r of
         None \<Rightarrow> Some c
       | Some i \<Rightarrow> do {
           s \<leftarrow> iecpy d i 1;
           if 32 \<le> length s then None
           else do {
             arr \<leftarrow> strcat (su_eazmsn (p_setup p)) s;
             c \<leftarrow> pc_mod a (\<lambda>p. p\<lparr>p_setup := (p_setup p)\<lparr>su_eazmsn := arr\<rparr>\<rparr>) c;
             Some (l3l4 (CC_MORE_INFO, INDICATION) a c)
           }
         });
       add_timer a T302 (CC_T302, REQUEST) c
     }
     else Some c
   }"

text \<open>
  The same with what call control does about the digits before \<open>l3l4\<close> returns. It may ignore the call.
\<close>

definition l3dss1_information_now :: "('z Dss1_scheme \<Rightarrow> 'z Dss1_scheme option) \<Rightarrow> 'z Dss1_scheme l3_ops \<Rightarrow> 'z data_rout" where
  "l3dss1_information_now answer up a d sz c = do {
     ret \<leftarrow> check_infoelements d sz ie_INFORMATION;
     c \<leftarrow> if ret \<noteq> 0 then l3dss1_std_ie_err up a ret c else Some c;
     p \<leftarrow> pc_get a c;
     if p_state p = 25 then do {
       c \<leftarrow> del_timer a c;
       r \<leftarrow> find_ie d sz IE_CALLED_PN;
       c \<leftarrow> (case r of
         None \<Rightarrow> Some c
       | Some i \<Rightarrow> do {
           s \<leftarrow> iecpy d i 1;
           if 32 \<le> length s then None
           else do {
             arr \<leftarrow> strcat (su_eazmsn (p_setup p)) s;
             c \<leftarrow> pc_mod a (\<lambda>p. p\<lparr>p_setup := (p_setup p)\<lparr>su_eazmsn := arr\<rparr>\<rparr>) c;
             answer (l3l4 (CC_MORE_INFO, INDICATION) a c)
           }
         });
       add_timer a T302 (CC_T302, REQUEST) c
     }
     else Some c
   }"

definition l3dss1_release_ind :: "'z Dss1_scheme l3_ops \<Rightarrow> 'z data_rout" where
  "l3dss1_release_ind up a d sz c = do {
     r \<leftarrow> find_ie d sz IE_CALL_STATE;
     callState \<leftarrow> (case r of
       None \<Rightarrow> Some 0
     | Some i \<Rightarrow> do { l \<leftarrow> rd d (i + 1); if l = 1 then rd d (i + 2) else Some 0 });
     if callState = 0 then do {
       c \<leftarrow> new_state a 0 (l3l4 (CC_RELEASE, INDICATION) a c);
       dss1_release_l3_process up a c
     }
     else Some (l3l4 (CC_IGNORE, INDICATION) a c)
   }"

definition l3dss1_data_dummy :: "'z data_rout" where
  "l3dss1_data_dummy a d sz c = Some c"

text \<open>The call state a STATUS reports and the cause of an error in it.\<close>

definition status_error :: "u8 list \<Rightarrow> nat \<Rightarrow> int \<Rightarrow> (u8 \<times> u8) option" where
  "status_error d sz ret = do {
     let cause = (if ret < 0 then 96 else if ret > 0 then 100 else 0);
     r \<leftarrow> find_ie d sz IE_CALL_STATE;
     (cause, callState) \<leftarrow> (case r of
       None \<Rightarrow> Some (96, 0)
     | Some i \<Rightarrow> do {
         l \<leftarrow> rd d (i + 1);
         if l = 1 then do {
           b \<leftarrow> rd d (i + 2);
           Some (if ie_in_set b l3_valid_states = 0 then 100 else cause, b)
         }
         else Some (100, 0)
       });
     if cause = 0 then do {
       ret \<leftarrow> check_infoelements d sz ie_STATUS;
       Some (if ret = ERR_IE_COMPREHENSION then 96
             else if ret = ERR_IE_UNRECOGNIZED then 99 else 0, callState)
     }
     else Some (cause, callState)
   }"

definition l3dss1_status :: "'z Dss1_scheme l3_ops \<Rightarrow> 'z data_rout" where
  "l3dss1_status up a d sz c = do {
     (ret, c) \<leftarrow> pc_get_cause a d sz c;
     (cause, callState) \<leftarrow> status_error d sz ret;
     p \<leftarrow> pc_get a c;
     c \<leftarrow> if cause \<noteq> 0 then status_cause up a cause c else Some c;
     c \<leftarrow> if cause = 99 then set_cause a (p_cause p) c else Some c;
     p \<leftarrow> pc_get a c;
     if cause \<noteq> 0 \<and> cause \<noteq> 99 then Some c
     else if p_cause p AND 0x7f = 111 \<and> callState = 0 then do {
       c \<leftarrow> new_state a 0 (l3l4 (CC_RELEASE, INDICATION) a c);
       dss1_release_l3_process up a c
     }
     else Some c
   }"

definition l3dss1_facility :: "'z Dss1_scheme l3_ops \<Rightarrow> 'z data_rout" where
  "l3dss1_facility up a d sz c = do {
     ret \<leftarrow> check_infoelements d sz ie_FACILITY;
     c \<leftarrow> l3dss1_std_ie_err up a ret c;
     pc_facility up a d sz c
   }"

definition l3dss1_suspend_ack :: "'z Dss1_scheme l3_ops \<Rightarrow> 'z data_rout" where
  "l3dss1_suspend_ack up a d sz c = do {
     c \<leftarrow> del_timer a c;
     c \<leftarrow> new_state a 0 c;
     c \<leftarrow> set_cause a NO_CAUSE c;
     ret \<leftarrow> check_infoelements d sz ie_SUSPEND_ACKNOWLEDGE;
     dss1_release_l3_process up a (l3l4 (CC_SUSPEND, CONFIRM) a c)
   }"

definition l3dss1_suspend_rej :: "'z Dss1_scheme l3_ops \<Rightarrow> 'z data_rout" where
  "l3dss1_suspend_rej up a d sz c = do {
     (ret, c) \<leftarrow> pc_get_cause a d sz c;
     if ret \<noteq> 0 then status_cause up a (if ret < 0 then 96 else 100) c
     else do {
       ret \<leftarrow> check_infoelements d sz ie_SUSPEND_REJECT;
       if ret = ERR_IE_COMPREHENSION then l3dss1_std_ie_err up a ret c
       else do {
         c \<leftarrow> del_timer a c;
         c \<leftarrow> new_state a 10 (l3l4 (CC_SUSPEND_ERR, REQUEST) a c);
         if ret \<noteq> 0 then l3dss1_std_ie_err up a ret c else Some c
       }
     }
   }"

definition l3dss1_resume_ack :: "'z Dss1_scheme l3_ops \<Rightarrow> 'z data_rout" where
  "l3dss1_resume_ack up a d sz c = do {
     ii \<leftarrow> l3dss1_get_channel_id d sz;
     p \<leftarrow> pc_get a c;
     if 0 < ii \<and> bad_channel ii p then status_cause up a 100 c
     else if ii \<le> 0 \<and> p_state p = 1 then status_cause up a 96 c
     else do {
       c \<leftarrow> if 0 < ii then pc_mod a (\<lambda>p. p\<lparr>p_bchannel := ii\<rparr>) c else Some c;
       ret \<leftarrow> check_infoelements d sz ie_RESUME_ACKNOWLEDGE;
       if ret = ERR_IE_COMPREHENSION then l3dss1_std_ie_err up a ret c
       else do {
         c \<leftarrow> del_timer a c;
         c \<leftarrow> new_state a 10 (l3l4 (CC_RESUME, CONFIRM) a c);
         if ret \<noteq> 0 then l3dss1_std_ie_err up a ret c else Some c
       }
     }
   }"

definition l3dss1_resume_rej :: "'z Dss1_scheme l3_ops \<Rightarrow> 'z data_rout" where
  "l3dss1_resume_rej up a d sz c = do {
     (ret, c) \<leftarrow> pc_get_cause a d sz c;
     if ret \<noteq> 0 then status_cause up a (if ret < 0 then 96 else 100) c
     else do {
       ret \<leftarrow> check_infoelements d sz ie_RESUME_REJECT;
       if ret = ERR_IE_COMPREHENSION then l3dss1_std_ie_err up a ret c
       else do {
         c \<leftarrow> del_timer a c;
         c \<leftarrow> new_state a 0 (l3l4 (CC_RESUME_ERR, REQUEST) a c);
         c \<leftarrow> if ret \<noteq> 0 then l3dss1_std_ie_err up a ret c else Some c;
         dss1_release_l3_process up a c
       }
     }
   }"

text \<open>
  RESTART asks call control to give up the calls concerned, by a request that comes straight back
  to \<open>dss1down\<close>. The walk then reads the link of the process it was at.
\<close>

partial_function (option) restart_loop ::
  "'z Dss1_scheme l3_ops \<Rightarrow> u8 \<Rightarrow> u8 \<Rightarrow> nat option \<Rightarrow> 'z Dss1_scheme \<Rightarrow> 'z Dss1_scheme option" where
  "restart_loop up ri ch p c =
     (case p of
        None \<Rightarrow> Some c
      | Some a \<Rightarrow> do {
          q \<leftarrow> pc_get a c;
          c \<leftarrow> if ri AND 7 = 7 \<or> p_bchannel q = uint ch
               then dss1down up (CC_RESTART, REQUEST) (ArgProc a) c else Some c;
          np \<leftarrow> next_proc a (l3_proc c);
          restart_loop up ri ch np c
        })"

declare restart_loop.simps [code]

definition l3dss1_global_restart :: "'z Dss1_scheme l3_ops \<Rightarrow> 'z data_rout" where
  "l3dss1_global_restart up a d sz c = do {
     c \<leftarrow> new_state a 2 c;
     c \<leftarrow> del_timer a c;
     r \<leftarrow> find_ie d sz IE_RESTART_IND;
     ri \<leftarrow> (case r of Some i \<Rightarrow> rd d (i + 2) | None \<Rightarrow> Some 0x86);
     r \<leftarrow> find_ie d sz IE_CHANNEL_ID;
     ch \<leftarrow> (case r of Some i \<Rightarrow> rd d (i + 2) | None \<Rightarrow> Some 0);
     c \<leftarrow> new_state a 2 c;
     c \<leftarrow> restart_loop up ri (ch AND 3)
            (case l3_proc c of [] \<Rightarrow> None | p # ps \<Rightarrow> Some (p_addr p)) c;
     p \<leftarrow> pc_get a c;
     alloc_then (MsgHead (p_callref p) MT_RESTART_ACKNOWLEDGE @
               (if ch AND 3 \<noteq> 0 then [IE_CHANNEL_ID, 1, ch OR 0x80] else []) @ [0x79, 1, ri])
       (\<lambda>skb c. do { c \<leftarrow> new_state a 0 c; l3_send up skb c }) c
   }"

subsection \<open>Tables and dispatch\<close>

definition datastatelist :: "'z Dss1_scheme l3_ops \<Rightarrow> (u8, 'z data_rout) stateentry list" where
  "datastatelist up =
    [stateentry ALL_STATES MT_STATUS_ENQUIRY (l3dss1_status_enq up),
     stateentry ALL_STATES MT_FACILITY (l3dss1_facility up),
     stateentry [19] MT_STATUS (l3dss1_release_ind up),
     stateentry ALL_STATES MT_STATUS (l3dss1_status up),
     stateentry [0] MT_SETUP (l3dss1_setup up),
     stateentry [6, 7, 8, 9, 10, 11, 12, 15, 17, 19, 25] MT_SETUP l3dss1_data_dummy,
     stateentry [1, 2] MT_CALL_PROCEEDING (l3dss1_call_proc up),
     stateentry [1] MT_SETUP_ACKNOWLEDGE (l3dss1_setup_ack up),
     stateentry [2, 3] MT_ALERTING (l3dss1_alerting up),
     stateentry [2, 3] MT_PROGRESS (l3dss1_progress up),
     stateentry [2, 3, 4, 7, 8, 9, 10, 11, 12, 15, 17, 19, 25] MT_INFORMATION (l3dss1_information up),
     stateentry [10, 11, 15] MT_NOTIFY (l3dss1_notify up),
     stateentry [0, 1, 2, 3, 4, 7, 8, 10, 11, 12, 15, 17, 19, 25] MT_RELEASE_COMPLETE
       (l3dss1_release_cmpl up),
     stateentry [1, 2, 3, 4, 7, 8, 9, 10, 11, 12, 15, 17, 25] MT_RELEASE (l3dss1_release up),
     stateentry [19] MT_RELEASE (l3dss1_release_ind up),
     stateentry [1, 2, 3, 4, 7, 8, 9, 10, 11, 15, 17, 25] MT_DISCONNECT (l3dss1_disconnect up),
     stateentry [19] MT_DISCONNECT l3dss1_data_dummy,
     stateentry [1, 2, 3, 4] MT_CONNECT (l3dss1_connect up),
     stateentry [8] MT_CONNECT_ACKNOWLEDGE (l3dss1_connect_ack up),
     stateentry [15] MT_SUSPEND_ACKNOWLEDGE (l3dss1_suspend_ack up),
     stateentry [15] MT_SUSPEND_REJECT (l3dss1_suspend_rej up),
     stateentry [17] MT_RESUME_ACKNOWLEDGE (l3dss1_resume_ack up),
     stateentry [17] MT_RESUME_REJECT (l3dss1_resume_rej up)]"

definition globalmes_list :: "'z Dss1_scheme l3_ops \<Rightarrow> (u8, 'z data_rout) stateentry list" where
  "globalmes_list up =
    [stateentry ALL_STATES MT_STATUS (l3dss1_status up),
     stateentry [0] MT_RESTART (l3dss1_global_restart up)]"

definition global_handler ::
  "'z Dss1_scheme l3_ops \<Rightarrow> u8 \<Rightarrow> u8 list \<Rightarrow> nat \<Rightarrow> 'z Dss1_scheme \<Rightarrow> 'z Dss1_scheme option" where
  "global_handler up mt d sz c = do {
     g \<leftarrow> l3_global c;
     let a = p_addr g;
     cr \<leftarrow> rd d 2;
     c \<leftarrow> pc_mod a (\<lambda>p. p\<lparr>p_callref := uint cr\<rparr>) c;
     p \<leftarrow> pc_get a c;
     case find_entry (globalmes_list up) mt (p_state p) of
       None \<Rightarrow>
         alloc_then (MsgHead (p_callref p) MT_STATUS @ cause_element 81 @
                   [0x14, 0x1, of_nat (p_state p) AND 0x3f]) (l3_send up) c
     | Some rout \<Rightarrow> rout a d sz c
   }"

text \<open>A message for a process: the display goes to the user, then the table decides.\<close>

definition dss1_dispatch :: "'z Dss1_scheme l3_ops \<Rightarrow> u8 \<Rightarrow> 'z data_rout" where
  "dss1_dispatch up mt a d sz c = do {
     (bad, c) \<leftarrow> l3dss1_check_messagetype_validity up a mt c;
     if bad then Some c
     else do {
       r \<leftarrow> find_ie d sz IE_DISPLAY;
       c \<leftarrow> (case r of None \<Rightarrow> Some c | Some i \<Rightarrow> l3dss1_deliver_display a d i c);
       p \<leftarrow> pc_get a c;
       case find_entry (datastatelist up) mt (p_state p) of
         None \<Rightarrow>
           if mt \<noteq> MT_RELEASE_COMPLETE \<and> mt \<noteq> MT_RELEASE then status_cause up a 101 c else Some c
       | Some rout \<Rightarrow> rout a d sz c
     }
   }"

text \<open>A message for an unknown call reference.\<close>

definition answer_unknown ::
  "'z Dss1_scheme l3_ops \<Rightarrow> int \<Rightarrow> u8 \<Rightarrow> 'z Dss1_scheme \<Rightarrow> 'z Dss1_scheme option" where
  "answer_unknown up cr cause c =
     (case dss1_new_l3_process cr c of
        (None, c) \<Rightarrow> Some c
      | (Some a, c) \<Rightarrow> setup_fails up a cause c)"

text \<open>The value octet of an element of one or two octets.\<close>

definition short_value :: "u8 list \<Rightarrow> nat \<Rightarrow> u8 \<Rightarrow> u8 option" where
  "short_value d sz ie = do {
     r \<leftarrow> find_ie d sz ie;
     case r of None \<Rightarrow> Some 0
     | Some i \<Rightarrow> do { l \<leftarrow> rd d (i + 1); rd d (if l = 2 then i + 3 else i + 2) }
   }"

definition dss1_unknown ::
  "'z Dss1_scheme l3_ops \<Rightarrow> int \<Rightarrow> u8 \<Rightarrow> u8 list \<Rightarrow> nat \<Rightarrow> 'z Dss1_scheme \<Rightarrow> 'z Dss1_scheme option" where
  "dss1_unknown up cr mt d sz c =
     (if mt = MT_SETUP then do {
        b \<leftarrow> rd d 2;
        if b AND 0x80 \<noteq> 0 then Some c
        else case dss1_new_l3_process cr c of
               (None, c) \<Rightarrow> Some c
             | (Some a, c) \<Rightarrow> dss1_dispatch up mt a d sz c
      }
      else if mt = MT_STATUS then do {
        cause \<leftarrow> short_value d sz IE_CAUSE;
        callState \<leftarrow> short_value d sz IE_CALL_STATE;
        if callState \<noteq> 0 then answer_unknown up cr 101 c else Some c
      }
      else if mt = MT_RELEASE_COMPLETE then Some c
      else answer_unknown up cr 81 c)"

text \<open>
  The octet for the message type is read at an offset that is not masked like the length in the
  test before it.
\<close>

definition dss1_frame ::
  "'z Dss1_scheme l3_ops \<Rightarrow> prim \<Rightarrow> u8 list \<Rightarrow> nat \<Rightarrow> 'z Dss1_scheme \<Rightarrow> 'z Dss1_scheme option" where
  "dss1_frame up pr d sz c =
     (if sz < 3 then Some c
      else do {
        b0 \<leftarrow> rd d 0;
        if b0 \<noteq> 0x08 then Some c
        else do {
          cr \<leftarrow> getcallref d;
          l \<leftarrow> rd d 1;
          if sz < unat (l AND 0x0f) + 3 then Some c
          else do {
            mt \<leftarrow> rd d (unat l + 2);
            if cr = -2 then Some c
            else if cr = -1 then
              (if mt = MT_FACILITY then do {
                 r \<leftarrow> find_ie d sz IE_FACILITY;
                 case r of
                   None \<Rightarrow> Some c
                 | Some i \<Rightarrow>
                     l3dss1_parse_facility up None (if pr = (DL_DATA, INDICATION) then -1 else -2) d i c
               }
               else Some c)
            else if l AND 0x0f = 1 \<and> cr AND 0x7f = 0 \<or> l AND 0x0f = 2 \<and> cr AND 0x7fff = 0 then
              global_handler up mt d sz c
            else case getl3proc c cr of
              None \<Rightarrow> dss1_unknown up cr mt d sz c
            | Some p \<Rightarrow> dss1_dispatch up mt (p_addr p) d sz c
          }
        }
      })"

definition dss1up ::
  "'z Dss1_scheme l3_ops \<Rightarrow> prim \<Rightarrow> u8 list \<Rightarrow> nat \<Rightarrow> 'z Dss1_scheme \<Rightarrow> 'z Dss1_scheme option" where
  "dss1up up pr d sz c =
     (if pr \<in> {(DL_DATA, INDICATION), (DL_UNIT_DATA, INDICATION)} then dss1_frame up pr d sz c
      else if pr \<in> {(DL_ESTABLISH, CONFIRM), (DL_ESTABLISH, INDICATION),
                    (DL_RELEASE, INDICATION), (DL_RELEASE, CONFIRM)}
      then l3_msg up pr None c
      else Some c)"

end
