(* ===== verification/Hisax_Dss1_Msg.thy ===== *)
theory Hisax_Dss1_Msg
  imports Hisax_Dss1_Up
begin

text \<open>
  Facts about the octet level of DSS1: the parsers stay inside a message with a few readable
  octets behind it, the service indicators survive their coding, the messages fit their buffers,
  and what \<open>new_invoke_id\<close> hands out.
\<close>

subsection \<open>The parsers do not read outside\<close>

text \<open>
  A message with a complete head. The parsers may read up to three octets behind it: the length of
  an element whose code is the last octet, and octet 4 of a low layer compatibility.
\<close>

definition msg_ok :: "u8 list \<Rightarrow> nat \<Rightarrow> bool" where
  "msg_ok d sz \<longleftrightarrow> unat (d ! 1 AND 0xf) + 3 \<le> sz \<and> sz + 3 \<le> length d"

lemma rd_wp: "i < length d \<Longrightarrow> Q (d ! i) \<Longrightarrow> wpo (rd d i) Q"
  by simp

lemma rd_list_wp: "i + n \<le> length d \<Longrightarrow> (\<And>s. length s = n \<Longrightarrow> Q s) \<Longrightarrow> wpo (rd_list d i n) Q"
  by (simp add: rd_list_def)

lemma find_ie_wp:
  assumes "msg_ok d sz" "Q None"
    "\<And>i. i + 2 + unat (d ! (i + 1)) \<le> sz \<Longrightarrow> d ! i = ie \<Longrightarrow> Q (Some i)"
  shows "wpo (find_ie d sz ie) Q"
proof -
  have "Suc sz \<le> length d" "1 < length d" using assms(1) by (simp_all add: msg_ok_def)
  from findie_bounds [OF this, of ie 0] obtain r where
    r: "find_ie d sz ie = Some r" "\<forall>i. r = Some i \<longrightarrow> i + 2 + unat (d ! Suc i) \<le> sz \<and> d ! i = ie"
    by blast
  then show ?thesis using assms(2,3) by (cases r) auto
qed

lemma check_loop_wp:
  assumes "Suc sz \<le> length d" "\<And>s. Q s"
  shows "wpo (check_loop d sz cl p s) Q"
  using assms(1)
proof (induction d sz cl p s rule: check_loop.induct)
  case (1 d sz cl p s)
  show ?case
  proof (cases "sz \<le> p")
    case True
    then show ?thesis using assms(2) by (subst check_loop.simps) simp
  next
    case False
    then have "rd d p = Some (d ! p)" "rd d (Suc p) = Some (d ! Suc p)" using 1(4) by simp_all
    then show ?thesis
      using False "1.IH" "1.prems" by (subst check_loop.simps) simp
  qed
qed

lemma check_infoelements_wp:
  assumes "msg_ok d sz" "\<And>x. Q x"
  shows "wpo (check_infoelements d sz cl) Q"
proof -
  have "1 < length d" "2 + unat (d ! 1 AND 0xf) < length d" "Suc sz \<le> length d"
    using assms(1) by (simp_all add: msg_ok_def)
  then show ?thesis
    using assms(2) by (simp add: check_infoelements_def check_loop_wp)
qed

lemma get_channel_id_wp:
  assumes "msg_ok d sz" "\<And>x. Q x"
  shows "wpo (l3dss1_get_channel_id d sz) Q"
proof -
  have *: "i < length d" if "i \<le> sz" for i using that assms(1) by (simp add: msg_ok_def)
  show ?thesis
    unfolding l3dss1_get_channel_id_def wpo_bind
    by (rule find_ie_wp [OF assms(1)]) (simp_all add: assms(2) *)
qed

lemma cause_rest_wp:
  assumes "l \<noteq> 0 \<Longrightarrow> p + unat l \<le> length d" "length (ci_diag s) = 6"
    "\<And>r. length (ci_diag r) = 6 \<Longrightarrow> Q r"
  shows "wpo (cause_rest d p l s) Q"
proof (cases "l = 0")
  case True
  then show ?thesis using assms by (simp add: cause_rest_def)
next
  case False
  then have l: "unat l \<noteq> 0" "unat (l - 1) = unat l - 1"
    by (simp_all add: unat_eq_zero unat_minus_one)
  then have p: "p < length d" "p + 1 + min (unat (l - 1)) 6 \<le> length d"
    using assms(1) [OF False] by simp_all
  show ?thesis
    using False p assms(2,3) by (simp add: cause_rest_def Let_def rd_list_def)
qed

lemma get_cause_wp:
  assumes "msg_ok d sz" "length diag = 6" "\<And>r. length (ci_diag r) = 6 \<Longrightarrow> Q r"
  shows "wpo (l3dss1_get_cause d sz diag) Q"
proof -
  have len: "sz + 3 \<le> length d" using assms(1) by (simp add: msg_ok_def)
  have rest: "l - 1 \<noteq> 0 \<Longrightarrow> wpo (cause_rest d (i + 4) (l - 2) s) Q" "wpo (cause_rest d (i + 3) (l - 1) s) Q"
    if "i + 2 + unat l \<le> sz" "l \<noteq> 0" "length (ci_diag s) = 6" for i l s
  proof -
    have l: "unat l \<noteq> 0" "unat (l - 1) = unat l - 1"
      using that(2) by (simp_all add: unat_eq_zero unat_minus_one)
    show "wpo (cause_rest d (i + 4) (l - 2) s) Q" if "l - 1 \<noteq> 0"
    proof -
      have "2 \<le> unat l" using l that by (metis One_nat_def Suc_1 diff_is_0_eq not_less_eq_eq unat_eq_zero)
      then have "unat (l - 2) = unat l - 2" using unat_sub [of 2 l] by (simp add: word_le_nat_alt)
      then show ?thesis
        by (intro cause_rest_wp) (use \<open>i + 2 + unat l \<le> sz\<close> \<open>length (ci_diag s) = 6\<close> len assms(3) in auto)
    qed
    show "wpo (cause_rest d (i + 3) (l - 1) s) Q"
      by (rule cause_rest_wp) (use that l len assms(3) in auto)
  qed
  show ?thesis
    unfolding l3dss1_get_cause_def wpo_bind Let_def
    by (rule find_ie_wp [OF assms(1)]) (use assms(2,3) rest len in auto)
qed

lemma DecodeSI2_wp:
  assumes "msg_ok d sz" "\<And>x. Q x"
  shows "wpo (DecodeSI2 d sz) Q"
proof -
  have len: "sz + 3 \<le> length d" using assms(1) by (simp add: msg_ok_def)
  show ?thesis
    unfolding DecodeSI2_def wpo_bind
  proof (rule find_ie_wp [OF assms(1)], simp add: assms(2))
    fix i
    assume i: "i + 2 + unat (d ! (i + 1)) \<le> sz"
    have r5: "i + 5 < length d" if "3 < d ! (i + 1)"
      using that i len by (simp add: word_less_nat_alt)
    show "wpo (case Some i of None \<Rightarrow> Some 0 | Some i \<Rightarrow> do {
         p4 \<leftarrow> rd d (i + 4);
         p1 \<leftarrow> rd d (i + 1);
         if p4 AND 0x0f = 0x01 then
           (if p1 = 0x04 then do { p5 \<leftarrow> rd d (i + 5); Some (DecodeSyncParams 160 p5) }
            else if p1 = 0x06 then do {
              p5 \<leftarrow> rd d (i + 5);
              p7 \<leftarrow> rd d (i + 7);
              Some (DecodeASyncParams 192 p5 p7)
            }
            else Some 0)
         else if p4 AND 0x0f = 0x08 then
           (if p1 > 3 then do { p5 \<leftarrow> rd d (i + 5); Some (DecodeSyncParams 176 p5) } else Some 0)
         else Some 0
       }) Q"
      using i len r5 assms(2) by (auto intro!: rd_wp)
  qed
qed

lemma msg_len: "msg_ok d sz \<Longrightarrow> i \<le> sz \<Longrightarrow> i < length d"
  by (simp add: msg_ok_def)

lemma progress_error_wp:
  assumes "msg_ok d sz" "\<And>x. Q x"
  shows "wpo (progress_error d sz) Q"
  unfolding progress_error_def wpo_bind
  by (rule find_ie_wp [OF assms(1)]) (auto intro!: rd_wp assms(2) simp: msg_len [OF assms(1)])

lemma notify_error_wp:
  assumes "msg_ok d sz" "\<And>x. Q x"
  shows "wpo (notify_error d sz) Q"
  unfolding notify_error_def wpo_bind
  by (rule find_ie_wp [OF assms(1)]) (auto intro!: rd_wp assms(2) simp: msg_len [OF assms(1)])

lemma short_value_wp:
  assumes "msg_ok d sz" "\<And>x. Q x"
  shows "wpo (short_value d sz ie) Q"
  unfolding short_value_def wpo_bind
  by (rule find_ie_wp [OF assms(1)]) (auto intro!: rd_wp assms(2) simp: msg_len [OF assms(1)])

lemma status_error_wp:
  assumes "msg_ok d sz" "\<And>x. Q x"
  shows "wpo (status_error d sz ret) Q"
  unfolding status_error_def wpo_bind Let_def
  by (rule find_ie_wp [OF assms(1)])
    (auto intro!: rd_wp check_infoelements_wp assms simp: msg_len [OF assms(1)])

subsection \<open>Facility elements\<close>

lemma fac_skip_ext_wp:
  assumes "p + q \<le> length d" "\<And>p' q'. p' + q' = p + q \<Longrightarrow> Q (p', q')"
  shows "wpo (fac_skip_ext d p q) Q"
  using assms by (induction d p q rule: fac_skip_ext.induct) simp_all

lemma fac_length_wp:
  assumes "p + q \<le> length d" "1 \<le> q" "Q None"
    "\<And>n p' r. int p' + r \<le> int (length d) \<Longrightarrow> Q (Some (n, p', r))"
  shows "wpo (fac_length d p q) Q"
proof -
  have *: "p + 1 + (q - 3) < length d \<and> p + 2 + (q - 3) < length d" if "3 \<le> q" using assms(1) that by linarith
  have p: "p < length d" using assms(1,2) by linarith
  let ?n = "d ! p AND 0x7F"
  consider "d ! p AND 0x80 = 0"
    | "d ! p AND 0x80 \<noteq> 0" "q < (if ?n = 0 then 3 else 1 + unat ?n) \<or> 1 < ?n"
    | "d ! p AND 0x80 \<noteq> 0" "?n = 1" "2 \<le> q"
    | "d ! p AND 0x80 \<noteq> 0" "?n = 0" "3 \<le> q"
  proof -
    have "?n = 0 \<or> ?n = 1 \<or> 1 < ?n"
      by (auto simp: word_less_nat_alt word_unat_eq_iff)
    then show ?thesis
      using that by (cases "d ! p AND 0x80 = 0"; cases "q < 2"; cases "q < 3") (auto simp: not_less)
  qed
  then show ?thesis
  proof cases
    case 1
    then show ?thesis using p assms by (simp add: fac_length_def)
  next
    case 2
    then show ?thesis using p assms(3) by (simp add: fac_length_def Let_def)
  next
    case 3
    then show ?thesis using p assms by (simp add: fac_length_def Let_def)
  next
    case 4
    then show ?thesis using p * assms by (simp add: fac_length_def Let_def)
  qed
qed

lemma fac_component_wp:
  assumes "p + q \<le> length d" "Q None"
    "\<And>t n p. p + unat n \<le> length d \<Longrightarrow> Q (Some (t, n, p))"
  shows "wpo (fac_component d p q) Q"
proof (cases "q < 2")
  case True
  then show ?thesis using assms(2) by (simp add: fac_component_def)
next
  case False
  have len: "wpo (fac_length d (p + 2) (q - 2))
      (\<lambda>r. wpo (case r of None \<Rightarrow> Some None | Some (n, p, q) \<Rightarrow>
             Some (if q < uint n then None else Some (t, n, p))) Q)" if "1 \<le> q - 2" for t
  proof (rule fac_length_wp [OF _ that])
    fix n :: u8 and p' r
    assume r: "int p' + r \<le> int (length d)"
    have "p' + unat n \<le> length d" if "uint n \<le> r"
    proof -
      have "int (unat n) = uint n" by simp
      then show ?thesis using r that by linarith
    qed
    then show "wpo (case Some (n, p', r) of None \<Rightarrow> Some None | Some (n, p, q) \<Rightarrow>
             Some (if q < uint n then None else Some (t, n, p))) Q"
      using assms(2) assms(3) [of p' n t] by (cases "r < uint n") simp_all
  qed (use assms(1,2) False in simp_all)
  let ?t = "d ! Suc p"
  have p1: "rd d (p + 1) = Some ?t" using False assms(1) by simp
  show ?thesis
  proof (cases "?t AND 0xE0 \<noteq> 0xA0 \<or> q - 2 < 1")
    case True
    then show ?thesis using False p1 assms(2) by (auto simp: fac_component_def)
  next
    case t: False
    then have "fac_component d p q = fac_length d (p + 2) (q - 2) \<bind> (\<lambda>r.
        case r of None \<Rightarrow> Some None
        | Some (n, p, q) \<Rightarrow> Some (if q < uint n then None else Some (?t AND 0x1F, n, p)))"
      unfolding fac_component_def p1 using False by simp
    moreover have "1 \<le> q - 2" using t by linarith
    note len [OF this, of "?t AND 0x1F"]
    ultimately show ?thesis by (simp only: wpo_bind)
  qed
qed

lemma fac_header_wp:
  assumes "i + 2 + unat (d ! (i + 1)) \<le> length d" "Q None"
    "\<And>t n p. p + unat n \<le> length d \<Longrightarrow> Q (Some (t, n, p))"
  shows "wpo (fac_header d i) Q"
proof (cases "d ! (i + 1) = 0")
  case True
  then show ?thesis using assms by (simp add: fac_header_def)
next
  case False
  then have "unat (d ! (i + 1)) \<noteq> 0" by (simp add: unat_eq_zero)
  then have "i + 2 < length d" "i + 1 < length d" using assms(1) by simp_all
  then have eq: "fac_header d i = (if d ! (i + 2) AND 0x1F \<noteq> 0x11 then Some None
      else do { (p, q) \<leftarrow> fac_skip_ext d (i + 2) (unat (d ! (i + 1))); fac_component d p q })"
    using False by (simp add: fac_header_def)
  have "wpo (do { (p, q) \<leftarrow> fac_skip_ext d (i + 2) (unat (d ! (i + 1))); fac_component d p q }) Q"
    unfolding wpo_bind
    by (rule fac_skip_ext_wp [OF assms(1)])
      (use assms in \<open>simp add: fac_component_wp\<close>)
  then show ?thesis using assms(2) by (simp add: eq)
qed

lemma fac_number_wp:
  assumes "p + unat nlen \<le> length d" "Q None"
    "\<And>v p' n'. p' + unat n' \<le> length d \<Longrightarrow> Q (Some (v, p', n'))"
  shows "wpo (fac_number d p nlen len_ok) Q"
proof (cases "nlen < 2")
  case True
  then show ?thesis using assms(2) by (simp add: fac_number_def)
next
  case False
  then have n: "2 \<le> unat nlen" "unat (nlen - 2) = unat nlen - 2"
    using unat_sub [of 2 nlen] by (simp_all add: word_less_nat_alt word_le_nat_alt)
  let ?l = "d ! (p + 1)"
  have r: "p < length d" "p + 1 < length d" using assms(1) n(1) by simp_all
  have l: "unat ?l \<le> unat nlen - 2 \<and> unat (nlen - 2 - ?l) = unat nlen - 2 - unat ?l" if "\<not> nlen - 2 < ?l"
    using that n unat_sub [of ?l "nlen - 2"] by (simp add: word_less_nat_alt word_le_nat_alt not_less)
  show ?thesis
    using False assms(2) r
    by (auto simp: fac_number_def intro!: rd_list_wp assms(3)) (use l assms(1) n in fastforce)+
qed

subsection \<open>Invoke identifiers\<close>

lemma invoke_bit_iff: "invoke_bit used r = bit (used ! unat (drop_bit 3 r)) (unat (r AND 7))"
  by (simp add: invoke_bit_def bit_iff_and_push_bit_not_eq_0)

lemma octet_div:
  "unat (drop_bit 3 (r :: u8)) = unat r div 8" "unat (r AND 7 :: u8) = unat r mod 8"
proof -
  have "unat (drop_bit 3 r) = drop_bit 3 (unat r)" by (rule unat_drop_bit_eq)
  then show "unat (drop_bit 3 r) = unat r div 8" by (simp only: drop_bit_eq_div) simp
  have "r AND 7 = take_bit 3 r" by (simp add: take_bit_eq_mask mask_numeral)
  also have "\<dots> = r mod 8" by (simp add: take_bit_eq_mod)
  finally show "unat (r AND 7) = unat r mod 8" by (simp add: unat_mod)
qed

lemma octet_index: "unat (drop_bit 3 (r :: u8)) < 32" "unat (r AND 7 :: u8) < 8"
  using unat_u8 [of r] by (simp_all add: octet_div)

lemma octet_index_inj:
  assumes "unat (drop_bit 3 r) = unat (drop_bit 3 s)" "unat (r AND 7) = unat (s AND 7)"
  shows "r = (s :: u8)"
proof -
  have "unat r = unat s" using assms unfolding octet_div by (metis div_mod_decomp)
  then show ?thesis by (simp add: word_unat_eq_iff)
qed

text \<open>Identifiers are marked in 32 octets, and 0, which is no identifier, is always marked.\<close>

definition invoke_ok :: "u8 list \<Rightarrow> bool" where
  "invoke_ok used \<longleftrightarrow> length used = 32 \<and> invoke_bit used 0"

lemma octet_bits:
  fixes x :: u8
  assumes "j < 8" "k < 8"
  shows "bit (x OR push_bit k 1) j \<longleftrightarrow> j = k \<or> bit x j"
    "bit (x AND NOT (push_bit k 1)) j \<longleftrightarrow> j \<noteq> k \<and> bit x j"
  using assms by (auto simp: bit_or_iff bit_and_iff bit_not_iff bit_exp_iff)

lemma invoke_set:
  assumes "length used = 32"
  shows "invoke_bit (used[unat (drop_bit 3 r) := used ! unat (drop_bit 3 r) OR push_bit (unat (r AND 7)) 1]) s
    \<longleftrightarrow> s = r \<or> invoke_bit used s"
proof (cases "unat (drop_bit 3 s) = unat (drop_bit 3 r)")
  case True
  then have "s = r \<longleftrightarrow> unat (s AND 7) = unat (r AND 7)" using octet_index_inj [of s r] by auto
  then show ?thesis using True assms octet_index by (simp add: invoke_bit_iff octet_bits del: push_bit_of_1)
next
  case False
  then show ?thesis by (auto simp: invoke_bit_iff)
qed

lemma invoke_clear:
  assumes "length used = 32"
  shows "invoke_bit (used[unat (drop_bit 3 r) := used ! unat (drop_bit 3 r) AND NOT (push_bit (unat (r AND 7)) 1)]) s
    \<longleftrightarrow> s \<noteq> r \<and> invoke_bit used s"
proof (cases "unat (drop_bit 3 s) = unat (drop_bit 3 r)")
  case True
  then have "s = r \<longleftrightarrow> unat (s AND 7) = unat (r AND 7)" using octet_index_inj [of s r] by auto
  then show ?thesis using True assms octet_index by (simp add: invoke_bit_iff octet_bits del: push_bit_of_1)
next
  case False
  then show ?thesis by (auto simp: invoke_bit_iff)
qed

lemma next_free_id_ok:
  assumes "\<not> invoke_bit used f"
  shows "\<exists>r'. next_free_id used r = Some r' \<and> \<not> invoke_bit used r'"
proof (induction "unat (f - r)" arbitrary: r rule: less_induct)
  case less
  show ?case
  proof (cases "invoke_bit used r")
    case True
    then have "f - r \<noteq> 0" using assms by auto
    then have "unat (f - r - 1) < unat (f - r)" by (simp add: unat_minus_one unat_gt_0)
    moreover have "f - r - 1 = f - (r + 1)" by simp
    ultimately obtain r' where "next_free_id used (r + 1) = Some r'" "\<not> invoke_bit used r'"
      using less [of "r + 1"] by auto
    then show ?thesis using True by (subst next_free_id.simps) simp
  next
    case False
    then show ?thesis by (subst next_free_id.simps) simp
  qed
qed

lemma search_octet_full:
  "search_octet i used r lst =
     (if used ! unat (drop_bit 3 r) = 0xFF
      then (0, if i = 0 then lst else (r AND 0xF8) + 8) else (i, lst))"
  by (induction i arbitrary: lst) auto

lemma octet_not_full:
  assumes "(x :: u8) \<noteq> 0xFF"
  shows "\<exists>k < 8. \<not> bit x k"
proof (rule ccontr)
  assume "\<not> ?thesis"
  then have "x = mask 8" by (intro bit_word_eqI) (auto simp: bit_mask_iff)
  then show False using assms by (simp add: mask_numeral)
qed

lemma new_invoke_id_ok:
  assumes "invoke_ok (d_invoke_used c)"
  shows "\<exists>r c'. new_invoke_id c = Some (r, c') \<and> invoke_ok (d_invoke_used c') \<and>
    (if d_invoke_used c ! unat (drop_bit 3 (d_last_invoke_id c + 1)) = 0xFF
     then r = 0 \<and> d_invoke_used c' = d_invoke_used c
     else r \<noteq> 0 \<and> \<not> invoke_bit (d_invoke_used c) r \<and>
       (\<forall>s. invoke_bit (d_invoke_used c') s \<longleftrightarrow> s = r \<or> invoke_bit (d_invoke_used c) s))"
proof (cases "d_invoke_used c ! unat (drop_bit 3 (d_last_invoke_id c + 1)) = 0xFF")
  case True
  let ?u = "d_invoke_used c"
  have "?u ! 0 OR 1 = ?u ! 0"
    using assms by (intro bit_word_eqI) (auto simp: invoke_ok_def invoke_bit_iff bit_or_iff bit_1_iff)
  then have "?u[0 := ?u ! 0 OR 1] = ?u" by simp
  then show ?thesis using True assms by (simp add: new_invoke_id_def search_octet_full Let_def)
next
  case False
  let ?u = "d_invoke_used c" and ?r = "d_last_invoke_id c + 1"
  obtain k where k: "k < 8" "\<not> bit (?u ! unat (drop_bit 3 ?r)) k"
    using octet_not_full [OF False] by blast
  let ?n = "unat (drop_bit 3 ?r)"
  let ?f = "of_nat (8 * ?n + k) :: u8"
  have "?n < 32" by (rule octet_index)
  then have "unat ?f = 8 * ?n + k" using k(1) by (intro unat_of_nat_u8) simp
  then have "unat (drop_bit 3 ?f) = ?n" "unat (?f AND 7) = k" using k(1) unfolding octet_div(1) [of ?f] octet_div(2) by simp_all
  then have "\<not> invoke_bit ?u ?f" using k(2) by (simp add: invoke_bit_iff)
  from next_free_id_ok [OF this, of ?r] obtain r' where
    r': "next_free_id ?u ?r = Some r'" "\<not> invoke_bit ?u r'" by blast
  have len: "length ?u = 32" "invoke_bit ?u 0" using assms by (simp_all add: invoke_ok_def)
  have "r' \<noteq> 0" using r'(2) len(2) by auto
  let ?u' = "?u[unat (drop_bit 3 r') := ?u ! unat (drop_bit 3 r') OR push_bit (unat (r' AND 7)) 1]"
  have set: "invoke_bit ?u' s \<longleftrightarrow> s = r' \<or> invoke_bit ?u s" for s by (rule invoke_set [OF len(1)])
  have "invoke_ok ?u'" using len set by (simp add: invoke_ok_def)
  moreover have "new_invoke_id c = Some (r', c\<lparr>d_last_invoke_id := r', d_invoke_used := ?u'\<rparr>)"
    using False r'(1) by (simp add: new_invoke_id_def search_octet_full Let_def)
  ultimately show ?thesis using False r'(2) \<open>r' \<noteq> 0\<close> set by auto
qed

lemma free_invoke_id_ok:
  assumes "invoke_ok (d_invoke_used c)"
  shows "invoke_ok (d_invoke_used (free_invoke_id r c))"
    "r \<noteq> 0 \<Longrightarrow> invoke_bit (d_invoke_used (free_invoke_id r c)) s \<longleftrightarrow>
       s \<noteq> r \<and> invoke_bit (d_invoke_used c) s"
  using assms invoke_clear [of "d_invoke_used c" r]
  by (simp_all add: free_invoke_id_def Let_def invoke_ok_def)

subsection \<open>The length of a procedure code\<close>

text \<open>If the loop ends, it did nothing and the length is 1; from a positive number on it does not end.\<close>

lemma proc_len_loop_bound:
  assumes "proc_len_loop i = Some n"
  shows "i \<le> 0 \<and> n = 1"
proof (rule proc_len_loop.raw_induct [where P = "\<lambda>i n. i \<le> 0 \<and> n = 1", OF _ assms])
  fix loop :: "int \<Rightarrow> nat option" and i n
  assume IH: "\<And>i n. loop i = Some n \<Longrightarrow> i \<le> 0 \<and> n = 1"
    and step: "(if i = 0 then Some 1 else loop (drop_bit 8 i + 1)) = Some n"
  show "i \<le> 0 \<and> n = 1"
  proof (cases "i = 0")
    case False
    then have "drop_bit 8 i + 1 \<le> 0" and n: "n = 1" using IH [of "drop_bit 8 i + 1" n] step by simp_all
    then have "drop_bit 8 i < 0" by linarith
    then show ?thesis using n by simp
  qed (use step in simp)
qed

end
