(* ===== verification/Hisax_Dss1_Codec.thy ===== *)
theory Hisax_Dss1_Codec
  imports Hisax_Dss1_Msg
begin

text \<open>
  What DSS1 writes and what it reads back: the SETUP message fits its buffer and is understood by
  the other side; the service indicators survive their coding; and the numbers of a received SETUP
  are stored when they fit.
\<close>

subsection \<open>Strings\<close>

lemma takeWhile_less: "x \<in> set xs \<Longrightarrow> length (takeWhile (\<lambda>b. b \<noteq> x) xs) < length xs"
  by (induction xs) auto

lemma cstr_length: "cstr arr = Some s \<Longrightarrow> length s < length arr"
  by (auto simp: cstr_def takeWhile_less split: if_splits)

lemma cstr_nonzero: "cstr arr = Some s \<Longrightarrow> 0 \<notin> set s"
  by (auto simp: cstr_def dest: set_takeWhileD split: if_splits)

lemma split_sub_length:
  "length (fst (split_sub s)) + (case snd (split_sub s) of None \<Rightarrow> 0 | Some t \<Rightarrow> 1 + length t) = length s"
proof (cases "46 \<in> set s")
  case True
  have "length (takeWhile (\<lambda>b. b \<noteq> 46) s) + length (dropWhile (\<lambda>b. b \<noteq> 46) s) = length s"
    by (metis length_append takeWhile_dropWhile_id)
  moreover have "dropWhile (\<lambda>b. b \<noteq> 46) s \<noteq> []" using True by (simp add: dropWhile_eq_Nil_conv)
  ultimately show ?thesis using True by (cases "dropWhile (\<lambda>b. b \<noteq> 46) s") (auto simp: split_sub_def)
next
  case False
  then have "split_sub s = (s, None)" by (auto simp: split_sub_def)
  then show ?thesis by simp
qed

lemma takeWhile_nonzero: "0 \<notin> set s \<Longrightarrow> takeWhile (\<lambda>b. b \<noteq> 0) (s @ 0 # t) = s"
  by (induction s) auto

lemma put_str_length: "put_str arr k s = Some arr' \<Longrightarrow> length arr' = length arr"
  by (auto simp: put_str_def split: if_splits)

lemma put_str_cstr: "put_str arr 0 s = Some arr' \<Longrightarrow> 0 \<notin> set s \<Longrightarrow> cstr arr' = Some s"
  by (auto simp: put_str_def cstr_def takeWhile_nonzero split: if_splits)

subsection \<open>The SETUP message fits its buffer\<close>

text \<open>A letter in front of a number is not all there is of it.\<close>

definition prefix_ok :: "u8 list \<Rightarrow> bool" where
  "prefix_ok phone \<longleftrightarrow> (0x5f AND phone ! 0 = 67 \<or> 0x5f AND phone ! 0 = 80 \<longrightarrow> phone ! 1 \<noteq> 0)"

lemma number_prefix_ok:
  assumes "length phone = 32" "0 \<in> set phone" "prefix_ok phone"
  shows "\<exists>k channel screen. number_prefix phone = Some (k, channel, screen) \<and> k \<le> 2 \<and>
    0 \<in> set (drop k phone) \<and> screen \<noteq> 0"
proof -
  obtain a b xs where p: "phone = a # b # xs"
    using assms(1) by (cases phone; cases "tl phone") auto
  show ?thesis
  proof (cases "a = 0 \<or> isdigit a")
    case True
    then show ?thesis using p assms(2) by (simp add: number_prefix_def)
  next
    case False
    then show ?thesis using p assms(2,3) by (auto simp: number_prefix_def prefix_ok_def)
  qed
qed

lemma length_sub_element:
  "length (sub_element ie sub) = (case sub of None \<Rightarrow> 0 | Some s \<Rightarrow> 4 + length s)"
  by (simp add: sub_element_def ia5_def split: option.split)

lemma length_calling_element: "length (calling_element screen num) \<le> 4 + length num"
  by (simp add: calling_element_def ia5_def)

lemma length_llc_element: "length (llc_element si1 si2) \<le> 8"
  by (simp add: llc_element_def bearer_octets_def EncodeASyncParams_def Let_def)

lemma length_MsgHead: "length (MsgHead cr mt) \<le> 4"
  by (simp add: MsgHead_def)

lemma length_numbers:
  "length (calling_element screen (fst (split_sub s))) + length (sub_element ie (snd (split_sub s)))
     \<le> 7 + length s"
  using split_sub_length [of s] length_calling_element [of screen "fst (split_sub s)"]
  by (cases "snd (split_sub s)") (auto simp: length_sub_element)

lemma length_called:
  "length (fst (split_sub s)) + length (sub_element ie (snd (split_sub s))) \<le> 3 + length s"
  using split_sub_length [of s] by (cases "snd (split_sub s)") (auto simp: length_sub_element)

lemma setup_fits:
  assumes "length (su_phone su) = 32" "0 \<in> set (su_phone su)" "prefix_ok (su_phone su)"
    "length (su_eazmsn su) = 32" "0 \<in> set (su_eazmsn su)"
  shows "\<exists>m. setup_message cr su = Some m \<and> length m \<le> 128"
proof -
  obtain phone msn where s: "cstr (su_phone su) = Some phone" "cstr (su_eazmsn su) = Some msn"
    using assms by (simp add: cstr_def)
  have len: "length phone \<le> 31" "length msn \<le> 31"
    using cstr_length [OF s(1)] cstr_length [OF s(2)] assms by simp_all
  define kp where "kp = (42 \<in> set phone \<or> 35 \<in> set phone)"
  obtain k channel screen where k: "number_prefix (su_phone su) = Some (k, channel, screen)"
    "k \<le> 2" "0 \<in> set (drop k (su_phone su))"
    using number_prefix_ok [OF assms(1-3)] by blast
  let ?k = "if kp then length phone else k" and ?ch = "if kp then 0 else channel"
    and ?sc = "if kp then 0x80 else screen"
  have "0 \<in> set (drop (length phone) (su_phone su))"
  proof -
    have "drop (length phone) (su_phone su) = dropWhile (\<lambda>b. b \<noteq> 0) (su_phone su)"
      using s(1) assms(2) by (auto simp: cstr_def dropWhile_eq_drop)
    moreover have "dropWhile (\<lambda>b. b \<noteq> 0) (su_phone su) \<noteq> []" using assms(2) by (auto simp: dropWhile_eq_Nil_conv)
    ultimately show ?thesis by (metis (full_types) hd_dropWhile hd_in_set)
  qed
  then obtain teln where t: "cstr (drop ?k (su_phone su)) = Some teln"
    using k(3) by (cases kp) (simp_all add: cstr_def)
  have tl: "length teln \<le> 31" using cstr_length [OF t] assms(1) by simp
  let ?m = "MsgHead cr MT_SETUP @ (if kp then [] else [0xa1]) @ [IE_BEARER] @ bearer_octets (su_si1 su) @
       (if kp then [IE_KEYPAD, of_nat (length phone)] @ ia5 phone else []) @
       (if ?ch \<noteq> 0 then [IE_CHANNEL_ID, 1, ?ch] else []) @
       calling_element ?sc (fst (split_sub msn)) @ sub_element IE_CALLING_SUB (snd (split_sub msn)) @
       (if kp then []
        else [IE_CALLED_PN, of_nat (length (fst (split_sub teln))) + 1, 0x81] @
             ia5 (fst (split_sub teln)) @ sub_element IE_CALLED_SUB (snd (split_sub teln))) @
       llc_element (su_si1 su) (su_si2 su)"
  have "length (bearer_octets (su_si1 su)) \<le> 4" by (simp add: bearer_octets_def)
  then have "length ?m \<le> 128"
    using length_MsgHead [of cr MT_SETUP] length_llc_element [of "su_si1 su" "su_si2 su"]
      length_numbers [of ?sc msn IE_CALLING_SUB] length_called [of teln IE_CALLED_SUB] len tl
    by (cases kp) (simp_all add: ia5_def)
  then show ?thesis
    using s k(1) t
    unfolding setup_message_def kp_def [symmetric]
    by (cases kp; cases "channel = 0") (simp_all add: Let_def kp_def [symmetric])
qed

text \<open>The user-to-user element fits the buffers of its senders, which have 56 octets.\<close>

lemma uus_fits:
  assumes "length (p_uus1_data p) = 35" "cstr (p_uus1_data p) = Some s"
  shows "length (MsgHead cr mt @ cause_element cause @ uus_element s) \<le> 56"
  using cstr_length [OF assms(2)] assms(1) length_MsgHead [of cr mt]
  by (simp add: cause_element_def uus_element_def)

subsection \<open>Service indicators\<close>

text \<open>The indicators of the second kind that have a coding of their own.\<close>

definition si2_coded :: "u8 \<Rightarrow> bool" where
  "si2_coded si2 \<longleftrightarrow> 160 \<le> si2 \<and> si2 \<le> 169 \<or> si2 = 175 \<or> 176 \<le> si2 \<and> si2 \<le> 185 \<or> si2 = 191 \<or> 192 \<le> si2"

text \<open>What \<open>DecodeSI2\<close> computes from the element, as a function of its octets.\<close>

definition decode_llc :: "u8 list \<Rightarrow> u8" where
  "decode_llc e =
     (if e ! 4 AND 0x0f = 0x01 then
        (if e ! 1 = 0x04 then DecodeSyncParams 160 (e ! 5)
         else if e ! 1 = 0x06 then DecodeASyncParams 192 (e ! 5) (e ! 7) else 0)
      else if e ! 4 AND 0x0f = 0x08 then (if e ! 1 > 3 then DecodeSyncParams 176 (e ! 5) else 0)
      else 0)"

lemma decode_sync:
  "list_all (\<lambda>n. decode_llc (llc_element 7 (of_nat n)) = of_nat n)
     ([160..<170] @ [175] @ [176..<186] @ [191])"
  by (simp add: decode_llc_def llc_element_def EncodeSyncParams_def DecodeSyncParams_def)

lemma decode_async:
  "list_all (\<lambda>n. decode_llc (llc_element 7 (of_nat n)) = of_nat n) [192..<256]"
  by (simp add: decode_llc_def llc_element_def EncodeASyncParams_def DecodeASyncParams_def Let_def)

lemma decode_llc_encode:
  assumes "si2_coded si2"
  shows "decode_llc (llc_element si1 si2) = si2"
proof -
  let ?n = "unat si2"
  have "?n \<in> set ([160..<170] @ [175] @ [176..<186] @ [191]) \<or> ?n \<in> set [192..<256]"
    using assms unat_u8 [of si2] by (auto simp: si2_coded_def word_le_nat_alt word_unat_eq_iff simp del: upt_rec_numeral)
  then have "decode_llc (llc_element 7 si2) = si2"
    using decode_sync decode_async unfolding list_all_iff by fastforce
  moreover have "160 \<le> si2" using assms by (auto simp: si2_coded_def word_le_nat_alt)
  then have "llc_element si1 si2 = llc_element 7 si2"
    by (auto simp: llc_element_def not_le word_le_nat_alt word_less_nat_alt)
  ultimately show ?thesis by simp
qed

subsection \<open>A SETUP is read as it was written\<close>

text \<open>A number that is sent as it is: digits of a 7-bit alphabet, no dot, no keypad character.\<close>

definition plain_number :: "u8 list \<Rightarrow> bool" where
  "plain_number s \<longleftrightarrow> s \<noteq> [] \<and> length s < 32 \<and> list_all isdigit s"

definition setup_elements :: "u8 \<Rightarrow> u8 \<Rightarrow> u8 list \<Rightarrow> u8 list \<Rightarrow> element list" where
  "setup_elements si1 si2 msn phone =
     [Single 0xa1, Element IE_BEARER (tl (bearer_octets si1)),
      Element IE_CALLING_PN ([0x01, 0x80] @ msn), Element IE_CALLED_PN (0x81 # phone),
      Element IE_LLC (drop 2 (llc_element si1 si2))]"

lemma plain_digits: "plain_number s \<Longrightarrow> b \<in> set s \<Longrightarrow> b AND 0x7f = b \<and> b \<noteq> 0 \<and> b \<noteq> 42 \<and> b \<noteq> 35 \<and> b \<noteq> 46"
proof -
  assume "plain_number s" "b \<in> set s"
  then have "48 \<le> unat b" "unat b \<le> 57"
    by (auto simp: plain_number_def list_all_iff isdigit_def word_le_nat_alt)
  then have "unat b \<in> set [48..<58]" by (simp del: upt_rec_numeral)
  moreover have "list_all (\<lambda>n. (of_nat n :: u8) AND 0x7f = of_nat n) [48..<58]" by simp
  ultimately have "(of_nat (unat b) :: u8) AND 0x7f = of_nat (unat b)" unfolding list_all_iff by blast
  moreover have "b \<noteq> 0 \<and> b \<noteq> 42 \<and> b \<noteq> 35 \<and> b \<noteq> 46"
    using \<open>48 \<le> unat b\<close> \<open>unat b \<le> 57\<close> by (auto simp: word_unat_eq_iff)
  ultimately show ?thesis by simp
qed

lemma plain_ia5: "plain_number s \<Longrightarrow> ia5 s = s"
  unfolding ia5_def by (rule map_idI) (simp add: plain_digits)

lemma plain_split: "plain_number s \<Longrightarrow> split_sub s = (s, None)"
  using plain_digits [of s 46] by (auto simp: split_sub_def dest: plain_digits)

lemma setup_message_plain:
  assumes "cstr (su_phone su) = Some phone" "plain_number phone"
    "cstr (su_eazmsn su) = Some msn" "plain_number msn" "cr \<noteq> -1"
    "length (su_phone su) = 32" "length (su_eazmsn su) = 32"
  shows "setup_message cr su =
    Some (l3_message 0x08 [word_of_int cr XOR 0x80] MT_SETUP
            (setup_elements (su_si1 su) (su_si2 su) msn phone))"
proof -
  have kp: "42 \<notin> set phone" "35 \<notin> set phone" using plain_digits [OF assms(2)] by blast+
  obtain p ps where p: "phone = p # ps" using assms(2) by (cases phone) (auto simp: plain_number_def)
  have hd: "su_phone su ! 0 = p" "su_phone su \<noteq> []"
    using assms(1) p by (cases "su_phone su"; auto simp: cstr_def split: if_splits)+
  have "isdigit p" using assms(2) p by (simp add: plain_number_def)
  then have np: "number_prefix (su_phone su) = Some (0, 0, 0x80)" using hd by (simp add: number_prefix_def)
  have len: "length msn \<le> 31" "length phone \<le> 31" "msn \<noteq> []"
    using assms(2,4) by (simp_all add: plain_number_def)
  have llc: "IE_LLC # of_nat (length (drop 2 (llc_element si1 si2))) # drop 2 (llc_element si1 si2) =
      llc_element si1 si2" for si1 si2
    by (simp add: llc_element_def bearer_octets_def EncodeASyncParams_def Let_def)
  show ?thesis
    using assms(1,3,5) kp np len llc length_llc_element [of "su_si1 su" "su_si2 su"]
      length_llc_element [of 1 "su_si2 su"]
    by (simp add: setup_message_def Let_def plain_split [OF assms(2)] plain_split [OF assms(4)]
        calling_element_def sub_element_def plain_ia5 [OF assms(2)] plain_ia5 [OF assms(4)]
        l3_message_def setup_elements_def MsgHead_def bearer_octets_def)
qed

lemma drop_behind: "drop (length xs + k) (xs @ ys) = drop k ys"
  by simp

text \<open>An element behind others of smaller codes is found, with its contents.\<close>

lemma ie_find_at:
  "list_all (\<lambda>x. x < c) (ie_codes as) \<Longrightarrow>
     ie_find c p (as @ Element c bs # cs) = Some (p + length (concat (map ie_enc as)))"
proof (induction as arbitrary: p)
  case Nil
  then show ?case by simp
next
  case (Cons e as)
  then show ?case by (cases e) auto
qed

lemma element_found:
  assumes "list_all ie_ok (as @ Element c bs # cs)" "length cref < 16"
    "list_all (\<lambda>x. x < c) (ie_codes as)"
    "m = l3_message pd cref mt (as @ Element c bs # cs)" "d = m @ rest"
  obtains i where "find_ie d (length m) c = Some (Some i)" "rd d (i + 1) = Some (of_nat (length bs))"
    "length bs < 256" "\<And>j. j < length bs \<Longrightarrow> rd d (i + 2 + j) = Some (bs ! j)"
    "\<And>j n. j + n \<le> length bs \<Longrightarrow> rd_list d (i + 2 + j) n = Some (take n (drop j bs))"
proof -
  let ?i = "3 + length cref + length (concat (map ie_enc as))"
  let ?pre = "[pd, of_nat (length cref)] @ cref @ [mt] @ concat (map ie_enc as)"
  let ?post = "concat (map ie_enc cs) @ rest"
  have d: "d = ?pre @ c # of_nat (length bs) # bs @ ?post"
    using assms(4,5) by (simp add: l3_message_def)
  have len: "length ?pre = ?i" by simp
  have "find_ie d (length m) c = Some (Some ?i)"
    unfolding assms(4,5) using findie_finds [OF assms(1,2)] by (simp add: ie_find_at [OF assms(3)])
  moreover have "rd d (?i + 1) = Some (of_nat (length bs))"
    unfolding d len [symmetric] by (simp add: rd_def nth_append)
  moreover have "length bs < 256" using assms(1) by simp
  moreover have "rd d (?i + 2 + j) = Some (bs ! j)" if "j < length bs" for j
    unfolding d len [symmetric] using that by (simp add: rd_def nth_append)
  moreover have "rd_list d (?i + 2 + j) n = Some (take n (drop j bs))" if "j + n \<le> length bs" for j n
  proof -
    have "drop (length ?pre + (2 + j)) d = drop (2 + j) (c # of_nat (length bs) # bs @ ?post)"
      unfolding d by (rule drop_behind)
    moreover have "length ?pre + (2 + j) = ?i + 2 + j" using len by linarith
    ultimately have "drop (?i + 2 + j) d = drop (2 + j) (c # of_nat (length bs) # bs @ ?post)" by metis
    then have "drop (?i + 2 + j) d = drop j bs @ ?post" using that by simp
    moreover have "?i + 2 + j + n \<le> length d" unfolding d len [symmetric] using that by simp
    ultimately show ?thesis using that by (simp add: rd_list_def)
  qed
  ultimately show ?thesis by (rule that)
qed

lemma iecpy_element:
  assumes "rd d (i + 1) = Some (of_nat (length bs))" "length bs < 256"
    "\<And>j n. j + n \<le> length bs \<Longrightarrow> rd_list d (i + 2 + j) n = Some (take n (drop j bs))" "off \<le> length bs"
  shows "iecpy d i off = Some (drop off bs)"
  using assms assms(3) [of off "length bs - off"]
  by (simp add: iecpy_def unat_of_nat_u8 not_less add.commute add.left_commute)

lemma setup_elements_ok:
  assumes "length msn < 32" "length phone < 32"
  shows "list_all ie_ok (setup_elements si1 si2 msn phone)"
  using assms length_llc_element [of si1 si2] length_llc_element [of 1 si2]
  by (cases "si1 = 1") (simp_all add: setup_elements_def bearer_octets_def)

lemma find_ie_absent:
  assumes "list_all ie_ok es" "length cref < 16" "ie \<notin> set (ie_codes es)" "sorted (ie_codes es)"
    "m = l3_message pd cref mt es" "d = m @ rest"
  shows "find_ie d (length m) ie = Some None"
  using findie_finds [OF assms(1,2), of pd mt rest ie] ie_find_sorted [OF assms(4), of ie] assms(3,5,6)
  by auto

lemma setup_elements_codes: "ie_codes (setup_elements si1 si2 msn phone) = [0x04, 0x6c, 0x70, 0x7c]"
  by (simp add: setup_elements_def)

text \<open>The contents of one element of a SETUP, and what \<open>setup_called\<close> and \<open>setup_calling\<close> make of it.\<close>

lemma setup_called_plain:
  assumes "plain_number phone" "length msn < 32" "length (su_eazmsn su) = 32"
    "m = l3_message 0x08 [cr] MT_SETUP (setup_elements si1 si2 msn phone)" "d = m @ rest"
  shows "\<exists>arr. setup_called d (length m) su = Some (su\<lparr>su_eazmsn := arr\<rparr>) \<and> cstr arr = Some phone"
proof -
  have p: "length phone < 32" "0 \<notin> set phone"
    using assms(1) plain_digits [OF assms(1)] by (auto simp: plain_number_def)
  note ok = setup_elements_ok [OF assms(2) p(1), of si1 si2]
  obtain i where i: "find_ie d (length m) IE_CALLED_PN = Some (Some i)"
    "rd d (i + 1) = Some (of_nat (length (0x81 # phone)))" "length (0x81 # phone) < 256"
    "\<And>j n. j + n \<le> length (0x81 # phone) \<Longrightarrow> rd_list d (i + 2 + j) n = Some (take n (drop j (0x81 # phone)))"
    by (rule element_found [where as = "[Single 0xa1, Element IE_BEARER (tl (bearer_octets si1)),
        Element IE_CALLING_PN ([0x01, 0x80] @ msn)]" and c = IE_CALLED_PN and bs = "0x81 # phone"
        and cs = "[Element IE_LLC (drop 2 (llc_element si1 si2))]" and cref = "[cr]" and m = m
        and pd = "0x08" and mt = MT_SETUP and d = d and rest = rest])
      (use ok assms(4,5) in \<open>simp_all add: setup_elements_def\<close>)
  have ie: "iecpy d i 1 = Some phone" using iecpy_element [OF i(2,3,4), of 1] by simp
  obtain arr where arr: "put_str (su_eazmsn su) 0 phone = Some arr"
    using p(1) assms(3) by (simp add: put_str_def)
  have "find_ie d (length m) IE_CALLED_SUB = Some None"
    by (rule find_ie_absent [OF ok _ _ _ assms(4,5)]) (simp_all add: setup_elements_codes)
  then show ?thesis
    using i(1) ie arr put_str_cstr [OF arr p(2)] by (intro exI [of _ arr]) (simp add: setup_called_def)
qed

lemma setup_calling_plain:
  assumes "plain_number msn" "length phone < 32" "length (su_phone su) = 32"
    "m = l3_message 0x08 [cr] MT_SETUP (setup_elements si1 si2 msn phone)" "d = m @ rest"
  shows "\<exists>arr. setup_calling d (length m) su =
      Some (su\<lparr>su_plan := 0x01, su_phone := arr, su_screen := 0x80\<rparr>) \<and> cstr arr = Some msn"
proof -
  let ?bs = "0x01 # 0x80 # msn"
  have p: "length msn < 32" "0 \<notin> set msn"
    using assms(1) plain_digits [OF assms(1)] by (auto simp: plain_number_def)
  note ok = setup_elements_ok [OF p(1) assms(2), of si1 si2]
  obtain i where i: "find_ie d (length m) IE_CALLING_PN = Some (Some i)"
    "rd d (i + 1) = Some (of_nat (length ?bs))" "length ?bs < 256"
    "\<And>j. j < length ?bs \<Longrightarrow> rd d (i + 2 + j) = Some (?bs ! j)"
    "\<And>j n. j + n \<le> length ?bs \<Longrightarrow> rd_list d (i + 2 + j) n = Some (take n (drop j ?bs))"
    by (rule element_found [where as = "[Single 0xa1, Element IE_BEARER (tl (bearer_octets si1))]"
        and c = IE_CALLING_PN and bs = ?bs
        and cs = "[Element IE_CALLED_PN (0x81 # phone), Element IE_LLC (drop 2 (llc_element si1 si2))]"
        and cref = "[cr]" and m = m and pd = "0x08" and mt = MT_SETUP and d = d and rest = rest])
      (use ok assms(4,5) in \<open>simp_all add: setup_elements_def\<close>)
  have ie: "iecpy d i 2 = Some msn" using iecpy_element [OF i(2,3,5), of 2] by simp
  have rd: "rd d (i + 2) = Some 0x01" "rd d (i + 3) = Some 0x80"
    using i(4) [of 0] i(4) [of 1] by (simp_all add: numeral_3_eq_3)
  obtain arr where arr: "put_str (su_phone su) 0 msn = Some arr"
    using p(1) assms(3) by (simp add: put_str_def)
  have "find_ie d (length m) IE_CALLING_SUB = Some None"
    by (rule find_ie_absent [OF ok _ _ _ assms(4,5)]) (simp_all add: setup_elements_codes)
  then show ?thesis
    using i(1) ie rd arr put_str_cstr [OF arr p(2)] by (intro exI [of _ arr]) (simp add: setup_calling_def)
qed

lemma setup_si2_plain:
  assumes "length msn < 32" "length phone < 32" "si2_coded si2"
    "m = l3_message 0x08 [cr] MT_SETUP (setup_elements si1 si2 msn phone)" "d = m @ rest"
  shows "DecodeSI2 d (length m) = Some si2"
proof -
  let ?bs = "drop 2 (llc_element si1 si2)"
  note ok = setup_elements_ok [OF assms(1,2), of si1 si2]
  obtain i where i: "find_ie d (length m) IE_LLC = Some (Some i)"
    "rd d (i + 1) = Some (of_nat (length ?bs))"
    "\<And>j. j < length ?bs \<Longrightarrow> rd d (i + 2 + j) = Some (?bs ! j)"
    by (rule element_found [where as = "[Single 0xa1, Element IE_BEARER (tl (bearer_octets si1)),
        Element IE_CALLING_PN ([0x01, 0x80] @ msn), Element IE_CALLED_PN (0x81 # phone)]"
        and c = IE_LLC and bs = ?bs and cs = "[]"
        and cref = "[cr]" and m = m and pd = "0x08" and mt = MT_SETUP and d = d and rest = rest])
      (use ok assms(4,5) in \<open>simp_all add: setup_elements_def\<close>)
  have e: "\<exists>a b c e. llc_element si1 si2 = [IE_LLC, 0x04, 0x88, 0x90, 0x21, a] \<or>
      llc_element si1 si2 = [IE_LLC, 0x05, 0x88, 0x90, 0x28, a, 0x82] \<or>
      llc_element si1 si2 = [IE_LLC, 0x06, 0x88, 0x90, 0x21, a, b, c]"
    using assms(3)
    by (auto simp: llc_element_def si2_coded_def EncodeASyncParams_def Let_def word_le_nat_alt not_le)
  have dec: "decode_llc (llc_element si1 si2) = si2" by (rule decode_llc_encode [OF assms(3)])
  have r: "rd d (i + k) = Some (?bs ! j)" if "j < length ?bs" "k = 2 + j" for j k
    using i(3) [OF that(1)] that(2) by (simp only: add.assoc)
  from e show ?thesis
    using i(1,2) r [of 2 4] r [of 3 5] r [of 5 7] dec
    by (auto simp: DecodeSI2_def decode_llc_def)
qed

lemma setup_bearer_plain:
  assumes "length msn < 32" "length phone < 32" "si2_coded si2" "si1 = 1 \<or> si1 = 7"
    "m = l3_message 0x08 [cr] MT_SETUP (setup_elements si1 si2 msn phone)" "d = m @ rest"
  shows "\<exists>i. find_ie d (length m) IE_BEARER = Some (Some i) \<and>
    setup_bearer d (length m) i p =
      Some (0, p\<lparr>p_setup := (p_setup p)\<lparr>su_si1 := si1, su_si2 := if si1 = 1 then 0 else si2\<rparr>,
                 p_moderate := 0x10\<rparr>)"
proof -
  let ?bs = "tl (bearer_octets si1)"
  note ok = setup_elements_ok [OF assms(1,2), of si1 si2]
  obtain i where i: "find_ie d (length m) IE_BEARER = Some (Some i)"
    "rd d (i + 1) = Some (of_nat (length ?bs))"
    "\<And>j. j < length ?bs \<Longrightarrow> rd d (i + 2 + j) = Some (?bs ! j)"
    by (rule element_found [where as = "[Single 0xa1]"
        and c = IE_BEARER and bs = ?bs and cs = "[Element IE_CALLING_PN ([0x01, 0x80] @ msn),
          Element IE_CALLED_PN (0x81 # phone), Element IE_LLC (drop 2 (llc_element si1 si2))]"
        and cref = "[cr]" and m = m and pd = "0x08" and mt = MT_SETUP and d = d and rest = rest])
      (use ok assms(5,6) in \<open>simp_all add: setup_elements_def bearer_octets_def\<close>)
  have si2: "DecodeSI2 d (length m) = Some si2"
    by (rule setup_si2_plain [OF assms(1-3,5,6)])
  have len: "0 < length ?bs" "1 < length ?bs" by (simp_all add: bearer_octets_def)
  from i(3) [OF len(1)] have r: "rd d (i + 2) = Some (?bs ! 0)" by simp
  from i(3) [OF len(2)] have r': "rd d (i + 3) = Some (?bs ! 1)" by (simp only: add.assoc one_plus_numeral numeral_plus_one) simp
  have "setup_bearer d (length m) i p =
      Some (0, p\<lparr>p_setup := (p_setup p)\<lparr>su_si1 := si1, su_si2 := if si1 = 1 then 0 else si2\<rparr>,
                 p_moderate := 0x10\<rparr>)"
  proof (cases "si1 = 1")
    case True
    then have b: "?bs = [0x90, 0x90, 0xa3]" by (simp add: bearer_octets_def)
    show ?thesis using i(2) r r' True unfolding b by (simp add: setup_bearer_def)
  next
    case False
    then have b: "?bs = [0x88, 0x90]" "si1 = 7" using assms(4) by (simp_all add: bearer_octets_def)
    show ?thesis using i(2) r r' si2 unfolding b(1) using b(2) by (simp add: setup_bearer_def)
  qed
  then show ?thesis using i(1) by blast
qed

end
