(* ===== verification/Hisax_Dss1_Props.thy ===== *)
theory Hisax_Dss1_Props
  imports Hisax_Dss1_Codec
begin

text \<open>
  What the octet level of EURO/DSS1 promises: the SETUP message fits its buffer and is read as it
  was written, \<open>findie\<close> finds elements and stays in the message, invoke identifiers are fresh. Two
  commands for remote operations do not work.
\<close>

definition example_setup :: setup_parm where
  "example_setup =
     \<lparr>su_phone = [49, 50, 51] @ replicate 29 0, su_eazmsn = [52, 53] @ replicate 30 0,
       su_si1 = 7, su_si2 = 192, su_plan = 0, su_screen = 0\<rparr>"

definition example_process :: l3_process where
  "example_process =
     \<lparr>p_addr = 0, p_callref = 129, p_state = 0,
      p_timer = \<lparr>lt_pending = False, lt_expires = 0, lt_event = (CC_T303, REQUEST)\<rparr>,
      p_N303 = 1, p_cause = 0, p_loc = 0, p_diag = replicate 6 0, p_bchannel = 0, p_chargeinfo = 0,
      p_setup = example_setup, p_moderate = 0, p_chan = None, p_redir_result = 0, p_invoke_id = 0,
      p_ll_id = 0, p_remote_operation = 0, p_proc = 0, p_remote_result = 0,
      p_uus1_data = replicate 35 0\<rparr>"

definition example_stack :: Dss1 where
  "example_stack =
     \<lparr>l3_m_state = 0, l3_m_timer = \<lparr>tl_pending = False, tl_expires = 0, tm_event = 0\<rparr>,
      l3_squeue = [], l3_proc = [], l3_global = None, l3_N303 = 1, l3_protocol = 2, l3_next_addr = 0,
      l3_fresh = (\<lambda>a. example_process),
      l3_kenv = \<lparr>k_allocs = [], k_clones = [], k_jiffies = 0, k_hz = 100, k_random = []\<rparr>,
      d_last_invoke_id = 0, d_invoke_used = 1 # replicate 31 0, d_OrigCallRef = 0,
      d_chan = (\<lambda>a. \<lparr>ch_chan = a, ch_setup = example_setup, ch_proc = None\<rparr>), d_garbage = 0,
      d_out = []\<rparr>"

definition example_ops :: "Dss1 l3_ops" where
  "example_ops = \<lparr>op_l3l2 = \<lambda>pr skb c. Some c, op_l3ml3 = \<lambda>pr a c. Some c, op_l2flag = \<lambda>f c. False\<rparr>"

definition example_io :: dss1_io where
  "example_io = \<lparr>io_datalen = 2, io_proc = 3, io_timeout = 0, io_ll_id = 7, io_hl_id = 0, io_data = [1, 2]\<rparr>"

text \<open>A SETUP as it is received: bearer capability, channel, called number.\<close>

definition example_elements :: "element list" where
  "example_elements = [Element IE_BEARER [0x88, 0x90], Element IE_CHANNEL_ID [0x89],
     Element IE_CALLED_PN [0x81, 50, 51]]"

text \<open>
  C25. A SETUP written for a call with plain numbers and a coded service (for the first service
  indicator 1, speech, the second is read as 0) is read back by the
  routines for received SETUPs: the bearer capability gives the service indicators, the called
  number is the number that was dialled, the calling number the own one, whatever lies behind
  the message in memory.\<close>

theorem setup_roundtrip:
  assumes "length (su_phone su) = 32" "length (su_eazmsn su) = 32"
    "cstr (su_phone su) = Some phone" "plain_number phone"
    "cstr (su_eazmsn su) = Some msn" "plain_number msn" "cr \<noteq> -1"
    "si2_coded (su_si2 su)" "su_si1 su = 1 \<or> su_si1 su = 7"
    "length (su_phone q) = 32" "length (su_eazmsn q) = 32"
  shows "\<exists>m. setup_message cr su = Some m \<and>
    (\<exists>i. find_ie (m @ rest) (length m) IE_BEARER = Some (Some i) \<and>
       setup_bearer (m @ rest) (length m) i p =
         Some (0, p\<lparr>p_setup := (p_setup p)\<lparr>su_si1 := su_si1 su,
                      su_si2 := if su_si1 su = 1 then 0 else su_si2 su\<rparr>, p_moderate := 0x10\<rparr>)) \<and>
    (\<exists>arr. setup_called (m @ rest) (length m) q = Some (q\<lparr>su_eazmsn := arr\<rparr>) \<and> cstr arr = Some phone) \<and>
    (\<exists>arr. setup_calling (m @ rest) (length m) q =
       Some (q\<lparr>su_plan := 0x01, su_phone := arr, su_screen := 0x80\<rparr>) \<and> cstr arr = Some msn)"
proof -
  let ?m = "l3_message 0x08 [word_of_int cr XOR 0x80] MT_SETUP
    (setup_elements (su_si1 su) (su_si2 su) msn phone)"
  have len: "length msn < 32" "length phone < 32" using assms(4,6) by (simp_all add: plain_number_def)
  have "setup_message cr su = Some ?m"
    by (rule setup_message_plain [OF assms(3,4,5,6,7,1,2)])
  then show ?thesis
    using setup_bearer_plain [OF len assms(8,9) refl refl, of "word_of_int cr XOR 0x80" rest p]
      setup_called_plain [OF assms(4) len(1) assms(11) refl refl, of "word_of_int cr XOR 0x80" "su_si1 su" "su_si2 su" rest]
      setup_calling_plain [OF assms(6) len(2) assms(10) refl refl, of "word_of_int cr XOR 0x80" "su_si1 su" "su_si2 su" rest]
    by blast
qed

theorem setup_roundtrip_witness:
  "\<exists>m. setup_message 129 example_setup = Some m \<and>
    (\<exists>arr. setup_called (m @ [7]) (length m) example_setup = Some (example_setup\<lparr>su_eazmsn := arr\<rparr>) \<and>
       cstr arr = Some [49, 50, 51])"
proof -
  have "plain_number [49, 50, 51]" "plain_number [52, 53]" by (simp_all add: plain_number_def isdigit_def)
  moreover have "cstr (su_phone example_setup) = Some [49, 50, 51]"
    "cstr (su_eazmsn example_setup) = Some [52, 53]" "si2_coded (su_si2 example_setup)"
    by (simp_all add: cstr_def example_setup_def si2_coded_def)
  ultimately show ?thesis
    using setup_roundtrip [of example_setup "[49, 50, 51]" "[52, 53]" 129 example_setup "[7]" undefined]
    by (auto simp: example_setup_def)
qed

text \<open>
  C26. On a message that is the encoding of a list of elements, \<open>findie\<close> computes what the reference
  search on the list does: the first element of the code, unless one with a larger code comes
  first; octets behind the message do not matter.\<close>

theorem findie_reference:
  assumes "list_all ie_ok es" "length cref < 16"
  shows "findie (l3_message pd cref mt es @ rest) (length (l3_message pd cref mt es)) ie 0 =
    Some (ie_find ie (3 + length cref) es)"
  using findie_finds [OF assms] .

theorem findie_reference_witness:
  "findie (l3_message 8 [1] MT_SETUP example_elements @ [0]) (length (l3_message 8 [1] MT_SETUP example_elements))
     IE_CHANNEL_ID 0 = Some (Some 8)"
proof -
  have ok: "list_all ie_ok example_elements" by (simp add: example_elements_def)
  have "ie_find IE_CHANNEL_ID (3 + length [1 :: u8]) example_elements = Some 8"
    by (simp add: example_elements_def)
  then show ?thesis using findie_reference [OF ok, of "[1]" 8 MT_SETUP "[0]" IE_CHANNEL_ID] by simp
qed

text \<open>
  C27. \<open>findie\<close> ends on every message and reads at most one octet behind it; an element it returns
  has the code looked for and lies in the message with all its contents, whatever the octets are.\<close>

theorem findie_in_bounds:
  assumes "Suc sz \<le> length d" "1 < length d"
  shows "\<exists>r. findie d sz ie ws = Some r \<and>
    (\<forall>i. r = Some i \<longrightarrow> i + 2 + unat (d ! Suc i) \<le> sz \<and> d ! i = ie)"
  using findie_bounds [OF assms] .

theorem findie_in_bounds_witness:
  "\<exists>r. findie [8, 1, 1, 5, 4, 9, 0] 6 4 0 = Some r \<and>
    (\<forall>i. r = Some i \<longrightarrow> i + 2 + unat ([8, 1, 1, 5, 4, 9, 0 :: u8] ! Suc i) \<le> 6 \<and> [8, 1, 1, 5, 4, 9, 0 :: u8] ! i = 4)"
  by (rule findie_in_bounds) simp_all

text \<open>
  C28. On a sound table \<open>new_invoke_id\<close> ends. It gives an identifier that was free and marks just
  that one, unless the octet of the next identifier is full: then it gives 0 and the table stays,
  even if other octets have free identifiers, because the search never moves to them.\<close>

theorem new_invoke_id_fresh:
  assumes "invoke_ok (d_invoke_used c)"
  shows "\<exists>r c'. new_invoke_id c = Some (r, c') \<and> invoke_ok (d_invoke_used c') \<and>
    (if d_invoke_used c ! unat (drop_bit 3 (d_last_invoke_id c + 1)) = 0xFF
     then r = 0 \<and> d_invoke_used c' = d_invoke_used c
     else r \<noteq> 0 \<and> \<not> invoke_bit (d_invoke_used c) r \<and>
       (\<forall>s. invoke_bit (d_invoke_used c') s \<longleftrightarrow> s = r \<or> invoke_bit (d_invoke_used c) s))"
  using new_invoke_id_ok [OF assms] .

text \<open>With one octet of 32 full and 248 identifiers free, none is given.\<close>

theorem new_invoke_id_fresh_witness:
  "\<exists>c'. new_invoke_id (example_stack\<lparr>d_invoke_used := 0xFF # replicate 31 0\<rparr>) = Some (0, c')"
proof -
  let ?c = "example_stack\<lparr>d_invoke_used := 0xFF # replicate 31 0\<rparr>"
  have "invoke_ok (d_invoke_used ?c)" by (simp add: invoke_ok_def invoke_bit_def)
  moreover have "d_invoke_used ?c ! unat (drop_bit 3 (d_last_invoke_id ?c + 1)) = 0xFF"
    by (simp add: example_stack_def)
  ultimately show ?thesis using new_invoke_id_fresh [of ?c] by auto
qed

text \<open>A remote operation without a timeout, and one whose code needs more than one octet.\<close>

lemma cmd_invoke_no_timeout:
  assumes "invoke_ok (d_invoke_used c)" "0 \<le> io_datalen io"
    "io_datalen io \<le> 246" "d_invoke_used c ! unat (drop_bit 3 (d_last_invoke_id c + 1)) \<noteq> 0xFF"
    "io_timeout io \<le> 0"
  shows "l3dss1_cmd_invoke up io c = None"
proof (cases "proc_len_loop (drop_bit 8 (io_proc io))")
  case (Some n)
  obtain r c' where id: "new_invoke_id c = Some (r, c')" "r \<noteq> 0"
    using new_invoke_id_ok [OF assms(1)] assms(4) by auto
  then show ?thesis using assms(2,3,5) Some proc_len_loop_bound [OF Some] by (simp add: l3dss1_cmd_invoke_def Let_def)
qed (use assms(2) in \<open>simp add: l3dss1_cmd_invoke_def\<close>)

lemma cmd_invoke_long_code:
  assumes "256 \<le> io_proc io" "0 \<le> io_datalen io"
  shows "l3dss1_cmd_invoke up io c = None"
proof -
  have "0 < drop_bit 8 (io_proc io)" using assms(1) by (simp add: drop_bit_eq_div)
  then have "proc_len_loop (drop_bit 8 (io_proc io)) = None"
    using proc_len_loop_bound by (metis linorder_not_less not_None_eq)
  then show ?thesis using assms(2) by (simp add: l3dss1_cmd_invoke_def)
qed

text \<open>
  C29. A remote operation without a timeout never works: the command makes no process for it and
  then writes into the process all the same, through a null pointer. One whose code needs more than one
  octet hangs the machine: the loop that counts its octets steps its own variable and does not end (its
  value in the model is that of not returning).\<close>

theorem cmd_invoke_unusable:
  assumes "0 \<le> io_datalen io"
    "256 \<le> io_proc io \<or>
     io_timeout io \<le> 0 \<and> io_datalen io \<le> 246 \<and> invoke_ok (d_invoke_used c) \<and>
       d_invoke_used c ! unat (drop_bit 3 (d_last_invoke_id c + 1)) \<noteq> 0xFF"
  shows "l3dss1_cmd_invoke up io c = None"
  using assms cmd_invoke_long_code cmd_invoke_no_timeout by blast

theorem cmd_invoke_unusable_witness:
  "l3dss1_cmd_invoke example_ops example_io example_stack = None \<and>
   l3dss1_cmd_invoke example_ops (example_io\<lparr>io_proc := 256, io_timeout := 1000\<rparr>) example_stack = None"
proof -
  have "invoke_ok (d_invoke_used example_stack)"
    by (simp add: invoke_ok_def invoke_bit_def example_stack_def)
  then show ?thesis by (auto intro!: cmd_invoke_unusable simp: example_io_def example_stack_def)
qed

end
