(* ===== verification/Hisax_Callc_Props.thy ===== *)
theory Hisax_Callc_Props
  imports Hisax_Callc_Step Hisax_Dss1_Props
begin

text \<open>
  What the call control promises: no fault as long as the D channel protocol keeps its side, a
  sequence of reports that the link level can follow, a B channel stack that is opened and closed in
  turn. The exceptions are a release in the state that waits for the answer of the link level after
  a proceeding, and the choice of a channel on a card with two D channels.
\<close>

definition example_chan :: LliChan where
  "example_chan =
     \<lparr>li_state = 7, li_drel = \<lparr>tl_pending = True, tl_expires = 0, tm_event = 12\<rparr>,
      li_dial = \<lparr>tl_pending = True, tl_expires = 0, tm_event = 0\<rparr>, li_incoming = True, li_l2_protocol = 0,
      li_l2_active = 0, li_l3_protocol = 0, li_data_open = True, li_proc = None, li_setup = example_setup,
      li_start_b = True, li_leased = True,
      li_b_st = \<lparr>bs_bc = 0, bs_mode = 0, bs_orig = False, bs_maxlen = 0, bs_window = 0, bs_T200 = 0, bs_N200 = 0,
        bs_T203 = 0, bs_delay = 0\<rparr>,
      li_conmsg = None, li_tx_cnt = 0, li_b_alloc = False, li_d_st = False, li_out = []\<rparr>"

text \<open>A card before it is set up; the link level takes a call and wants to decide later (4).\<close>

definition example_card :: "bool \<Rightarrow> Callc" where
  "example_card two =
     \<lparr>cc_ch = replicate 4 example_chan,
      cc_dst = replicate 2 \<lparr>dt_ptp = False, dt_fixed = False, dt_tei = 0, dt_leased = True, dt_alive = False, dt_out = []\<rparr>,
      cc_two = two, cc_chanlimit = 2, cc_myid = 0, cc_protocol = 2, cc_auxcmd = None, cc_elsa = False,
      cc_procs = [], cc_next = 0, cc_fresh = (\<lambda>a. example_process), cc_answer = (\<lambda>n. (4, example_setup)),
      cc_bcset = (\<lambda>n. True), cc_kenv = \<lparr>k_allocs = [], k_clones = [], k_jiffies = 0, k_hz = 100, k_random = []\<rparr>, cc_use = 0\<rparr>"

definition example_booted :: Callc where
  "example_booted = snd (CallcNewChan (example_card False))"

definition example_offered :: Callc where
  "example_offered = example_booted\<lparr>cc_procs := [example_process\<lparr>p_bchannel := 1\<rparr>], cc_next := 1\<rparr>"

definition example_taken :: Callc where
  "example_taken = the (dchan_l3l4 0 (CC_SETUP, INDICATION) (Some 0) example_offered)"

lemma example_booted_reach: "callc_reach example_booted"
  unfolding example_booted_def
  by (rule callc_reach.boot) (simp_all add: callc_fresh_def example_card_def example_chan_def mem_ok_def)

lemma example_booted_sel:
  "cc_procs example_booted = []" "cc_next example_booted = 0" 
  "length (cc_ch example_booted) = 4" "li_state (ch_at 0 example_booted) = 0"
  "\<not> dt_leased (cc_dst example_booted ! 0)" "cc_two example_booted = False"
   by code_simp+

lemma example_taken_ok:
  "dchan_l3l4 0 (CC_SETUP, INDICATION) (Some 0) example_offered = Some example_taken"
  "map li_state (cc_ch example_taken) = [12, 0, 0, 0]" "map li_leased (cc_ch example_taken) = [False, False, False, False]"
  "map p_addr (cc_procs example_taken) = [0]" "map p_chan (cc_procs example_taken) = [Some 0]"
proof -
  have "\<not> Option.is_none (dchan_l3l4 0 (CC_SETUP, INDICATION) (Some 0) example_offered)" by code_simp
  then show "dchan_l3l4 0 (CC_SETUP, INDICATION) (Some 0) example_offered = Some example_taken"
    by (simp add: example_taken_def Option.is_none_def)
qed (code_simp+)

lemma example_taken_reach: "callc_reach example_taken"
proof -
  have "callc_step example_booted (Some (example_booted\<lparr>cc_procs := cc_procs example_booted @ [example_process\<lparr>p_bchannel := 1\<rparr>],
      cc_next := Suc (cc_next example_booted)\<rparr>))"
    by (rule callc_step.born) (simp_all add: example_booted_sel example_process_def)
  then have "callc_step example_booted (Some example_offered)"
    by (simp add: example_offered_def example_booted_sel)
  then have off: "callc_reach example_offered" by (rule callc_reach.step [OF example_booted_reach])
  have "callc_step example_offered (dchan_l3l4 0 (CC_SETUP, INDICATION) (Some (p_addr (example_process\<lparr>p_bchannel := 1\<rparr>))) example_offered)"
    by (rule callc_step.call_in) (simp_all add: example_offered_def example_process_def place_ok_def)
  then have "callc_step example_offered (Some example_taken)"
    by (simp add: example_taken_ok(1) example_process_def)
  then show ?thesis by (rule callc_reach.step [OF off])
qed

subsection \<open>What the conditions of a step keep out\<close>

text \<open>
  The conditions of \<open>callc_step\<close> are needed: without each of them there is a fault. A facility message
  with a long identity is copied over the end of the phone number.
\<close>

lemma facility_overruns:
  assumes "k < length (cc_ch c)" "length (su_phone (li_setup (ch_at k c))) = 32" "length (cm_para cm) = 50"
    "8 \<le> cm_Length cm" "cm_Command cm = 0x80" "cm_Subcommand cm = 0x80"
    "cm_para cm ! 0 = 3" "cm_para cm ! 1 = 0" "3 \<le> cm_para cm ! 2" "cm_para cm ! 3 \<in> {4, 5}" "cm_para cm ! 4 = 0"
    "32 \<le> unat (cm_para cm ! 5)"
  shows "HiSax_command (CMD_CAPI k cm) c = None"
proof -
  have "strncpy (su_phone (li_setup (ch_at k c))) (drop 5 (cm_para cm)) (unat (cm_para cm ! 5) + 1) = None"
    using assms(2,12) by (simp add: strncpy_def)
  then have "lli_got_fac_req k cm c = None"
    using assms(3,7-11) by (simp add: lli_got_fac_req_def rd_def not_less)
  then show ?thesis using assms(1,4-6) by (simp add: HiSax_command_def on_ch_def not_less)
qed

text \<open>The number of a channel is not looked at.\<close>

lemma command_out_of_range:
  assumes "length (cc_ch c) \<le> k"
  shows "HiSax_command (CMD_ACCEPTB k) c = None" "HiSax_command (CMD_ACCEPTD k su) c = None"
    "HiSax_command (CMD_HANGUP k) c = None" "HiSax_command (CMD_PROCEED k) c = None"
    "HiSax_command (CMD_ALERT k) c = None" "HiSax_command (CMD_REDIR k su) c = None"
    "HiSax_command (CMD_CAPI k cm) c = None" "k < 256 \<Longrightarrow> HiSax_command (CMD_DIAL k su) c = None"
    "k < 256 \<Longrightarrow> HiSax_command (CMD_SETL2 k) c = None" "k < 256 \<Longrightarrow> HiSax_command (CMD_SETL3 k) c = None"
  using assms by (simp_all add: HiSax_command_def on_ch_def)

text \<open>A call on the second D channel finds neither its B channel nor its place to wait free.\<close>

lemma second_dchan_overruns:
  assumes "callc_reach c" "p \<in> set (cc_procs c)" "cc_two c" "\<not> place_ok 1 (p_bchannel p) c"
  shows "dchan_l3l4 1 (CC_SETUP, INDICATION) (Some (p_addr p)) c = None"
proof -
  have inv: "callc_inv c" by (rule callc_reach_inv [OF assms(1)])
  have "selectfreechannel 1 (p_bchannel p) c = None"
    using selectfreechannel_1 [OF inv assms(3), of "p_bchannel p"] assms(3,4) by (auto simp: place_ok_def)
  then show ?thesis using find_pc_eq [OF inv assms(2)] by (simp add: dchan_l3l4_def)
qed

text \<open>
  A channel keeps the pointer to the process of its last call. When the protocol makes no process for
  a new one, because it has no memory or because the D channel has been put into leased mode, the
  hang-up writes through that pointer.
\<close>

lemma stale_call_faults:
  assumes "k < length (cc_ch c)" "k < 256" "li_state (ch_at k c) = ST_NULL" "\<not> li_leased (ch_at k c)"
    "li_proc (ch_at k c) = Some a" "find_pc a c = None"
    "dt_leased (cc_dst c ! dst_ix k c) \<or> \<not> fst (k_alloc (cc_kenv c))"
  shows "\<exists>c'. HiSax_command (CMD_DIAL k su) c = Some (0, c') \<and> HiSax_command (CMD_HANGUP k) c' = None"
proof -
  let ?c = "set_fi k ST_OUT_DIAL (card_msg k MDL_INFO_SETUP (upd_ch k (\<lambda>l. l\<lparr>li_l2_active := li_l2_protocol l,
     li_incoming := False\<rparr>) (del_dial k (del_drel k (upd_ch k (\<lambda>l. l\<lparr>li_setup := eaz_zero su\<rparr>) c)))))"
  let ?c' = "d_l4l3 k (CC_SETUP, REQUEST) (ArgChan k) ?c"
  have c: "cc_kenv ?c = cc_kenv c" "cc_dst ?c = cc_dst c" "cc_two ?c = cc_two c" "cc_procs ?c = cc_procs c"
    "length (cc_ch ?c) = length (cc_ch c)" "li_proc (ch_at k ?c) = Some a" "li_state (ch_at k ?c) = ST_OUT_DIAL"
    "\<not> li_leased (ch_at k ?c)"
    using assms(1,4,5) by (simp_all add: ch_ops del_dial_def del_drel_def)
  have ix: "dst_ix k ?c = dst_ix k c" using c(3) by (simp add: dst_ix_def)
  have c': "cc_procs ?c' = cc_procs c" "length (cc_ch ?c') = length (cc_ch c)" "li_proc (ch_at k ?c') = Some a"
    "li_state (ch_at k ?c') = ST_OUT_DIAL" "\<not> li_leased (ch_at k ?c')"
    using c assms(1,7) unfolding d_l4l3_def Let_def ix
    by (auto simp: new_call_def out_ch_def split: prod.split)
  have "find_pc a ?c' = None" using assms(6) c'(1) by (simp add: find_pc_def)
  then have "lli_event k EV_HANGUP ?c' = None"
    using assms(1) c'
    by (simp add: lli_event_def FsmEvent_fsm_of fsm_lookup_def fnlist_def lli_disconnect_req_def
        lli_disconnect_with_def proc_cause_def set_fi_def find_pc_def)
  then have "HiSax_command (CMD_HANGUP k) ?c' = None"
    by (simp add: HiSax_command_def on_ch_def)
  moreover have "HiSax_command (CMD_DIAL k su) c = Some (0, ?c')"
    using assms(1-4)
    by (simp add: HiSax_command_def on_ch_def lli_event_def FsmEvent_fsm_of fsm_lookup_def fnlist_def
        lli_prep_dialout_def lli_start_call_def Let_def ch_ops del_dial_def del_drel_def)
  ultimately show ?thesis by blast
qed

subsection \<open>Properties\<close>

text \<open>
  C3. A step of the call control is no fault of the kernel, no routine of \<open>callc.c\<close> reads or writes a
  freed call or a channel outside the array, under the conditions that \<open>callc_reach\<close> and \<open>callc_step\<close>
  state. The card was set up with allocations that succeed. A command names a channel that exists
  (\<open>command_out_of_range\<close>); a channel that is not leased is dialled on a D channel that is not in leased
  mode (\<open>stale_call_faults\<close>); a suspend or resume carries an identity of less than 32 octets
  (\<open>facility_overruns\<close>). A call that comes in on the second of two D channels finds its B channel or its
  waiting channel free (\<open>second_dchan_overruns\<close>). The D channel protocol frees a process in the step
  in which it tells the channel the end of the call, and then the channel is not in
  \<open>ST_IN_PROCEED_SEND\<close>, where the end is lost (C37), and is in \<open>ST_OUT_DIAL\<close> when the end is a missing
  answer to SETUP; otherwise it frees a process only when no channel works with it. It reports
  further digits and charges only to a channel that has the process.\<close>

theorem callc_no_fault:
  assumes "callc_reach c" "callc_step c r"
  shows "r \<noteq> None"
  using callc_step_ok [OF assms(2) callc_reach_inv [OF assms(1)]] by (auto simp: wpo_iff)

theorem callc_no_fault_witness: "HiSax_command (CMD_HANGUP 0) example_taken \<noteq> None"
proof -
  have "cmd_ok (CMD_HANGUP 0) example_taken" by code_simp
  from callc_no_fault [OF example_taken_reach callc_step.command [OF this]] show ?thesis by simp
qed

text \<open>
  C4. The link level sees of every channel a run of the protocol \<open>ll_path\<close>: a call is offered before
  it is connected on the D channel, the B channel comes up after the D channel (\<open>DCONN\<close>, \<open>BCONN\<close>) and
  goes down before it (\<open>BHUP\<close>, \<open>DHUP\<close>), a cause is reported outside of an active call only, and the
  run has led to the phase of the state the channel is in. Data pass in \<open>ST_ACTIVE\<close> only, in both
  directions: outside of it \<open>HiSax_writebuf_skb\<close> refuses a frame with \<open>-EIO\<close> and sends nothing, and the
  two handlers of the B channel drop what was received; in \<open>ST_ACTIVE\<close> they deliver it, once.\<close>

theorem callc_refines_link_protocol:
  assumes "callc_reach c" "k < length (cc_ch c)"
  shows "ll_path P_Idle (lls (li_out (ch_at k c))) (phase (li_state (ch_at k c))) \<and>
    (li_data_open (ch_at k c) \<longleftrightarrow> li_state (ch_at k c) = ST_ACTIVE) \<and>
    (if li_state (ch_at k c) = ST_ACTIVE
     then lldata_handler k (DL_DATA, INDICATION) skb c = Some (out_ch k (RcvSkb skb) c) \<and>
       lltrans_handler k (PH_DATA, INDICATION) skb c = Some (out_ch k (RcvSkb skb) c)
     else HiSax_writebuf_skb k ack skb c = Some (- 5, c) \<and>
       lldata_handler k (DL_DATA, INDICATION) skb c = Some c \<and>
       lltrans_handler k (PH_DATA, INDICATION) skb c = Some c)"
  using l_okD [OF callc_reach_inv [OF assms(1)] assms(2)] assms(2)
  by (simp add: l_ok_def lldata_handler_def lltrans_handler_def HiSax_writebuf_skb_def Let_def)

theorem callc_refines_link_protocol_witness:
  "lls (li_out (ch_at 0 example_taken)) = [STAT_ICALL False example_setup] \<and>
   ll_path P_Idle [STAT_ICALL False example_setup] P_In \<and>
   HiSax_writebuf_skb 0 True (skb_new 0 [1]) example_taken = Some (- 5, example_taken)"
proof -
  have s: "length (cc_ch example_taken) = 4" "li_state (ch_at 0 example_taken) = 12" by code_simp+
  have "lls (li_out (ch_at 0 example_taken)) = [STAT_ICALL False example_setup]" by code_simp
  then show ?thesis
    using callc_refines_link_protocol [OF example_taken_reach, of 0 "skb_new 0 [1]" True] s
    by (simp add: phase_def del: ll_path.simps)
qed

text \<open>
  C36. The B channel stack of a channel is used in order: \<open>setstack\<close> follows an accepted
  \<open>bc_st.setstack\<close>, the stack is closed once and then released as the kind it was set up as, and it is
  open exactly while \<open>FLG_START_B\<close> is set, which is so in the four states with a B channel only.\<close>

theorem b_stack_balanced:
  assumes "callc_reach c" "k < length (cc_ch c)"
  shows "bc_run (li_out (ch_at k c)) =
      Some (if li_start_b (ch_at k c) then BOpen (b_kind_of (li_l2_active (ch_at k c))) else BClosed) \<and>
    (li_start_b (ch_at k c) \<longrightarrow> li_state (ch_at k c) \<in> {ST_WAIT_BCONN, ST_ACTIVE, ST_WAIT_BRELEASE, ST_WAIT_BREL_DISC})"
  using l_okD [OF callc_reach_inv [OF assms(1)] assms(2)] unfolding l_ok_def by blast

theorem b_stack_balanced_witness: "bc_run (li_out (ch_at 1 example_taken)) = Some BClosed"
proof -
  have s: "length (cc_ch example_taken) = 4" "\<not> li_start_b (ch_at 1 example_taken)" by code_simp+
  show ?thesis using b_stack_balanced [OF example_taken_reach, of 1] s by simp
qed

text \<open>
  C37. In \<open>ST_IN_PROCEED_SEND\<close> a release of the call is lost: \<open>fnlist\<close> has the row of
  \<open>ST_IN_ALERT_SENT\<close> twice and none for this state. The channel stays in the state and keeps the
  pointer to the process that the protocol frees; the hang-up of the link level then writes a cause
  into freed memory.\<close>

theorem proceed_send_release_lost:
  assumes "callc_reach c" "p \<in> set (cc_procs c)" "p_chan p = Some k" "li_proc (ch_at k c) = Some (p_addr p)"
    "li_state (ch_at k c) = ST_IN_PROCEED_SEND" "\<not> li_leased (ch_at k c)"
  shows "dchan_l3l4 u (CC_RELEASE, INDICATION) (Some (p_addr p)) c = Some c \<and>
    HiSax_command (CMD_HANGUP k) (free_pc (p_addr p) c) = None"
proof -
  have inv: "callc_inv c" by (rule callc_reach_inv [OF assms(1)])
  then have k: "k < length (cc_ch c)" using assms(2,3) by (auto simp: callc_inv_def)
  have "dchan_l3l4 u (CC_RELEASE, INDICATION) (Some (p_addr p)) c = lli_event k EV_RELEASE c"
    using find_pc_eq [OF inv assms(2)] assms(3) by (simp add: dchan_l3l4_def l3l4_event_def)
  moreover have "wpo (lli_event k EV_RELEASE c) (\<lambda>c'. c' = c)"
    using end_heard [OF inv k, of EV_RELEASE] lli_event_any [OF inv k, of EV_RELEASE]
      no_row [OF k, of EV_RELEASE] assms(5)
    by (auto simp: wpo_iff wlp_def fnlist_def)
  moreover have "find_pc (p_addr p) (free_pc (p_addr p) c) = None"
    by (simp add: find_pc_def free_pc_def find_None_iff)
  then have "lli_event k EV_HANGUP (free_pc (p_addr p) c) = None"
    using k assms(4-6)
    by (simp add: lli_event_def FsmEvent_fsm_of fsm_lookup_def fnlist_def free_pc_def
        lli_disconnect_reject_def lli_disconnect_with_def proc_cause_def set_fi_def)
  ultimately show ?thesis
    by (simp add: wpo_iff HiSax_command_def on_ch_def)
qed

theorem proceed_send_release_lost_witness:
  "\<exists>p \<in> set (cc_procs example_taken). HiSax_command (CMD_HANGUP 0) (free_pc (p_addr p) example_taken) = None"
proof -
  obtain p where p: "cc_procs example_taken = [p]" "p_addr p = 0" "p_chan p = Some 0"
    using example_taken_ok(4,5) by (auto simp: map_eq_Cons_conv)
  have s: "li_proc (ch_at 0 example_taken) = Some 0" "li_state (ch_at 0 example_taken) = 12"
    "\<not> li_leased (ch_at 0 example_taken)" by code_simp+
  show ?thesis
    using proceed_send_release_lost [OF example_taken_reach, of p 0] p s by simp
qed

end
