(* ===== verification/Hisax_Hdlc.thy ===== *)
theory Hisax_Hdlc
  imports Isdn_Prelude
begin

text \<open>
  The HDLC coder of the ST5481 driver, \<open>hisax/st5481_hdlc.c\<close>: frames to and from a bit stream with
  flags, zero insertion and the CRC of X.25, octets sent most significant bit first. Decoder and
  encoder work on \<open>struct hdlc_vars\<close> one bit (or one octet of idle line) per turn of their loops,
  and can be left and entered at any bit.
\<close>

subsection \<open>State\<close>

record hdlc_vars =
  hv_bit_shift :: int
  hv_bits1 :: int
  hv_data_bits :: int
  hv_ffbit_shift :: int
  hv_state :: nat
  hv_dstpos :: int
  hv_data_received :: bool
  hv_dchannel :: bool
  hv_adapt56 :: bool
  hv_closing :: bool
  hv_crc :: u16
  hv_cbin :: u8
  hv_shift_reg :: u8
  hv_ffvalue :: u8

abbreviation (input) HDLC_FAST_IDLE :: nat where "HDLC_FAST_IDLE \<equiv> 0"
abbreviation (input) HDLC_GET_FLAG_B0 :: nat where "HDLC_GET_FLAG_B0 \<equiv> 1"
abbreviation (input) HDLC_GETFLAG_B1A6 :: nat where "HDLC_GETFLAG_B1A6 \<equiv> 2"
abbreviation (input) HDLC_GETFLAG_B7 :: nat where "HDLC_GETFLAG_B7 \<equiv> 3"
abbreviation (input) HDLC_GET_DATA :: nat where "HDLC_GET_DATA \<equiv> 4"
abbreviation (input) HDLC_FAST_FLAG :: nat where "HDLC_FAST_FLAG \<equiv> 5"

abbreviation (input) HDLC_SEND_DATA :: nat where "HDLC_SEND_DATA \<equiv> 0"
abbreviation (input) HDLC_SEND_CRC1 :: nat where "HDLC_SEND_CRC1 \<equiv> 1"
abbreviation (input) HDLC_SEND_FAST_FLAG :: nat where "HDLC_SEND_FAST_FLAG \<equiv> 2"
abbreviation (input) HDLC_SEND_FIRST_FLAG :: nat where "HDLC_SEND_FIRST_FLAG \<equiv> 3"
abbreviation (input) HDLC_SEND_CRC2 :: nat where "HDLC_SEND_CRC2 \<equiv> 4"
abbreviation (input) HDLC_SEND_CLOSING_FLAG :: nat where "HDLC_SEND_CLOSING_FLAG \<equiv> 5"
abbreviation (input) HDLC_SEND_IDLE1 :: nat where "HDLC_SEND_IDLE1 \<equiv> 6"
abbreviation (input) HDLC_SEND_FAST_IDLE :: nat where "HDLC_SEND_FAST_IDLE \<equiv> 7"
abbreviation (input) HDLC_SENDFLAG_B0 :: nat where "HDLC_SENDFLAG_B0 \<equiv> 8"
abbreviation (input) HDLC_SENDFLAG_B1A6 :: nat where "HDLC_SENDFLAG_B1A6 \<equiv> 9"
abbreviation (input) HDLC_SENDFLAG_B7 :: nat where "HDLC_SENDFLAG_B7 \<equiv> 10"
abbreviation (input) STOPPED :: nat where "STOPPED \<equiv> 11"

abbreviation (input) HDLC_FRAMING_ERROR :: int where "HDLC_FRAMING_ERROR \<equiv> 1"
abbreviation (input) HDLC_CRC_ERROR :: int where "HDLC_CRC_ERROR \<equiv> 2"
abbreviation (input) HDLC_LENGTH_ERROR :: int where "HDLC_LENGTH_ERROR \<equiv> 3"

definition crc16_tab :: "u16 list" where
  "crc16_tab =
   [0x0000, 0x1189, 0x2312, 0x329b, 0x4624, 0x57ad, 0x6536, 0x74bf,
    0x8c48, 0x9dc1, 0xaf5a, 0xbed3, 0xca6c, 0xdbe5, 0xe97e, 0xf8f7,
    0x1081, 0x0108, 0x3393, 0x221a, 0x56a5, 0x472c, 0x75b7, 0x643e,
    0x9cc9, 0x8d40, 0xbfdb, 0xae52, 0xdaed, 0xcb64, 0xf9ff, 0xe876,
    0x2102, 0x308b, 0x0210, 0x1399, 0x6726, 0x76af, 0x4434, 0x55bd,
    0xad4a, 0xbcc3, 0x8e58, 0x9fd1, 0xeb6e, 0xfae7, 0xc87c, 0xd9f5,
    0x3183, 0x200a, 0x1291, 0x0318, 0x77a7, 0x662e, 0x54b5, 0x453c,
    0xbdcb, 0xac42, 0x9ed9, 0x8f50, 0xfbef, 0xea66, 0xd8fd, 0xc974,
    0x4204, 0x538d, 0x6116, 0x709f, 0x0420, 0x15a9, 0x2732, 0x36bb,
    0xce4c, 0xdfc5, 0xed5e, 0xfcd7, 0x8868, 0x99e1, 0xab7a, 0xbaf3,
    0x5285, 0x430c, 0x7197, 0x601e, 0x14a1, 0x0528, 0x37b3, 0x263a,
    0xdecd, 0xcf44, 0xfddf, 0xec56, 0x98e9, 0x8960, 0xbbfb, 0xaa72,
    0x6306, 0x728f, 0x4014, 0x519d, 0x2522, 0x34ab, 0x0630, 0x17b9,
    0xef4e, 0xfec7, 0xcc5c, 0xddd5, 0xa96a, 0xb8e3, 0x8a78, 0x9bf1,
    0x7387, 0x620e, 0x5095, 0x411c, 0x35a3, 0x242a, 0x16b1, 0x0738,
    0xffcf, 0xee46, 0xdcdd, 0xcd54, 0xb9eb, 0xa862, 0x9af9, 0x8b70,
    0x8408, 0x9581, 0xa71a, 0xb693, 0xc22c, 0xd3a5, 0xe13e, 0xf0b7,
    0x0840, 0x19c9, 0x2b52, 0x3adb, 0x4e64, 0x5fed, 0x6d76, 0x7cff,
    0x9489, 0x8500, 0xb79b, 0xa612, 0xd2ad, 0xc324, 0xf1bf, 0xe036,
    0x18c1, 0x0948, 0x3bd3, 0x2a5a, 0x5ee5, 0x4f6c, 0x7df7, 0x6c7e,
    0xa50a, 0xb483, 0x8618, 0x9791, 0xe32e, 0xf2a7, 0xc03c, 0xd1b5,
    0x2942, 0x38cb, 0x0a50, 0x1bd9, 0x6f66, 0x7eef, 0x4c74, 0x5dfd,
    0xb58b, 0xa402, 0x9699, 0x8710, 0xf3af, 0xe226, 0xd0bd, 0xc134,
    0x39c3, 0x284a, 0x1ad1, 0x0b58, 0x7fe7, 0x6e6e, 0x5cf5, 0x4d7c,
    0xc60c, 0xd785, 0xe51e, 0xf497, 0x8028, 0x91a1, 0xa33a, 0xb2b3,
    0x4a44, 0x5bcd, 0x6956, 0x78df, 0x0c60, 0x1de9, 0x2f72, 0x3efb,
    0xd68d, 0xc704, 0xf59f, 0xe416, 0x90a9, 0x8120, 0xb3bb, 0xa232,
    0x5ac5, 0x4b4c, 0x79d7, 0x685e, 0x1ce1, 0x0d68, 0x3ff3, 0x2e7a,
    0xe70e, 0xf687, 0xc41c, 0xd595, 0xa12a, 0xb0a3, 0x8238, 0x93b1,
    0x6b46, 0x7acf, 0x4854, 0x59dd, 0x2d62, 0x3ceb, 0x0e70, 0x1ff9,
    0xf78f, 0xe606, 0xd49d, 0xc514, 0xb1ab, 0xa022, 0x92b9, 0x8330,
    0x7bc7, 0x6a4e, 0x58d5, 0x495c, 0x3de3, 0x2c6a, 0x1ef1, 0x0f78]"

text \<open>\<open>cval = (crc ^ octet) & 0xff; crc = (crc >> 8) ^ crc16_tab[cval]\<close>\<close>

definition crc_octet :: "u16 \<Rightarrow> u8 \<Rightarrow> u16" where
  "crc_octet crc b = drop_bit 8 crc XOR crc16_tab ! unat ((crc XOR ucast b) AND 0xff)"

definition hdlc_rcv_init :: "hdlc_vars \<Rightarrow> bool \<Rightarrow> hdlc_vars" where
  "hdlc_rcv_init h do_adapt56 =
     h\<lparr>hv_bit_shift := 0, hv_bits1 := 0, hv_data_bits := 0, hv_ffbit_shift := 0, hv_data_received := False,
       hv_state := HDLC_GET_DATA, hv_adapt56 := do_adapt56, hv_dchannel := False, hv_crc := 0, hv_cbin := 0,
       hv_shift_reg := 0, hv_ffvalue := 0, hv_dstpos := 0\<rparr>"

definition hdlc_out_init :: "hdlc_vars \<Rightarrow> bool \<Rightarrow> bool \<Rightarrow> hdlc_vars" where
  "hdlc_out_init h is_d_channel do_adapt56 =
     (let h = h\<lparr>hv_bit_shift := 0, hv_bits1 := 0, hv_data_bits := 0, hv_ffbit_shift := 0, hv_data_received := False,
            hv_closing := False, hv_ffvalue := 0\<rparr>;
          h = (if is_d_channel then h\<lparr>hv_dchannel := True, hv_state := HDLC_SEND_FIRST_FLAG\<rparr>
               else h\<lparr>hv_dchannel := False, hv_state := HDLC_SEND_FAST_FLAG, hv_ffvalue := 0x7e\<rparr>);
          h = h\<lparr>hv_cbin := 0x7e, hv_bit_shift := 0\<rparr>;
          h = (if do_adapt56 then h\<lparr>hv_adapt56 := True, hv_data_bits := 0, hv_state := HDLC_SENDFLAG_B0\<rparr>
               else h\<lparr>hv_adapt56 := False, hv_data_bits := 8\<rparr>)
      in h\<lparr>hv_shift_reg := 0\<rparr>)"

text \<open>A turn of a loop goes on or returns a value.\<close>

datatype 's turn = More 's | Done int 's

subsection \<open>The decoder\<close>

text \<open>The decoder with what is left of the source, the destination, and the locals of the call.\<close>

record hdlc_dec =
  hd_h :: hdlc_vars
  hd_src :: "u8 list"
  hd_dst :: "u8 list"
  hd_dsize :: int
  hd_status :: int

definition fast_flag :: "u8 list" where
  "fast_flag = [0x00, 0x00, 0x00, 0x20, 0x30, 0x38, 0x3c, 0x3e, 0x3f]"

definition fast_flag_value :: "u8 list" where
  "fast_flag_value = [0x00, 0x7e, 0xfc, 0xf9, 0xf3, 0xe7, 0xcf, 0x9f, 0x3f]"

definition fast_abort :: "u8 list" where
  "fast_abort = [0x00, 0x00, 0x80, 0xc0, 0xe0, 0xf0, 0xf8, 0xfc, 0xfe, 0xff]"

definition dec_fetch :: "hdlc_dec \<Rightarrow> hdlc_dec" where
  "dec_fetch d =
     (if hv_bit_shift (hd_h d) = 0 then
        (case hd_src d of
           b # bs \<Rightarrow> d\<lparr>hd_h := (hd_h d)\<lparr>hv_cbin := b, hv_bit_shift := if hv_adapt56 (hd_h d) then 7 else 8\<rparr>,
                        hd_src := bs\<rparr>
         | [] \<Rightarrow> d)
      else d)"

text \<open>\<open>cbin <<= 1; bit_shift--\<close>, and the bit that comes next.\<close>

definition next_bit :: "hdlc_vars \<Rightarrow> hdlc_vars" where
  "next_bit h = h\<lparr>hv_cbin := push_bit 1 (hv_cbin h), hv_bit_shift := hv_bit_shift h - 1\<rparr>"

definition top_bit :: "hdlc_vars \<Rightarrow> bool" where
  "top_bit h \<longleftrightarrow> hv_cbin h AND 0x80 \<noteq> 0"

definition dec_fast_idle :: "hdlc_vars \<Rightarrow> hdlc_vars" where
  "dec_fast_idle h =
     (if hv_cbin h = 0xff then h\<lparr>hv_bit_shift := 0\<rparr>
      else h\<lparr>hv_state := HDLC_GET_FLAG_B0, hv_bits1 := 0, hv_bit_shift := 8\<rparr>)"

definition dec_flag_b0 :: "hdlc_vars \<Rightarrow> hdlc_vars" where
  "dec_flag_b0 h =
     next_bit (if \<not> top_bit h then h\<lparr>hv_state := HDLC_GETFLAG_B1A6, hv_bits1 := 0\<rparr>
               else if hv_adapt56 h then h
               else (let h = h\<lparr>hv_bits1 := hv_bits1 h + 1\<rparr> in
                     if 8 \<le> hv_bits1 h \<and> hv_bit_shift h = 1 then h\<lparr>hv_state := HDLC_FAST_IDLE\<rparr> else h))"

definition dec_flag_b1a6 :: "hdlc_vars \<Rightarrow> hdlc_vars" where
  "dec_flag_b1a6 h =
     next_bit (if top_bit h then
                 (let h = h\<lparr>hv_bits1 := hv_bits1 h + 1\<rparr> in
                  if hv_bits1 h = 6 then h\<lparr>hv_state := HDLC_GETFLAG_B7\<rparr> else h)
               else h\<lparr>hv_bits1 := 0\<rparr>)"

definition dec_flag_b7 :: "hdlc_vars \<Rightarrow> hdlc_vars" where
  "dec_flag_b7 h =
     next_bit (if top_bit h then h\<lparr>hv_state := HDLC_GET_FLAG_B0\<rparr>
               else h\<lparr>hv_state := HDLC_GET_DATA, hv_crc := 0xffff, hv_shift_reg := 0, hv_bits1 := 0,
                      hv_data_bits := 0, hv_data_received := False\<rparr>)"

text \<open>A one and a zero of the data.\<close>

definition dec_one :: "hdlc_vars \<Rightarrow> int \<Rightarrow> (hdlc_vars \<times> int) option" where
  "dec_one h status =
     (let h = h\<lparr>hv_bits1 := hv_bits1 h + 1\<rparr> in
      if hv_bits1 h = 6 then Some (h, status)
      else if hv_bits1 h = 7 then do {
        let status = (if hv_data_received h then - HDLC_FRAMING_ERROR else status);
        if \<not> hv_adapt56 h then do {
          v \<leftarrow> rd fast_abort (nat (hv_bit_shift h + 1));
          Some (if hv_cbin h = v then h\<lparr>hv_state := HDLC_FAST_IDLE, hv_bit_shift := 1\<rparr> else h, status)
        }
        else Some (h\<lparr>hv_state := HDLC_GET_FLAG_B0\<rparr>, status)
      }
      else Some (h\<lparr>hv_shift_reg := drop_bit 1 (hv_shift_reg h) OR 0x80, hv_data_bits := hv_data_bits h + 1\<rparr>, status))"

definition dec_flag_end :: "hdlc_vars \<Rightarrow> int \<Rightarrow> (hdlc_vars \<times> int) option" where
  "dec_flag_end h status = do {
     let (h, status) =
       (if \<not> hv_data_received h then (h, status)
        else if hv_dstpos h < 2 then (h, - HDLC_FRAMING_ERROR)
        else if hv_crc h \<noteq> 0xf0b8 then (h, - HDLC_CRC_ERROR)
        else (h\<lparr>hv_dstpos := hv_dstpos h - 2\<rparr>, hv_dstpos h - 2));
     let h = h\<lparr>hv_crc := 0xffff, hv_shift_reg := 0, hv_data_bits := 0\<rparr>;
     if \<not> hv_adapt56 h then do {
       f \<leftarrow> rd fast_flag (nat (hv_bit_shift h));
       v \<leftarrow> rd fast_flag_value (nat (hv_bit_shift h));
       Some (if hv_cbin h = f
             then h\<lparr>hv_ffvalue := v, hv_state := HDLC_FAST_FLAG, hv_ffbit_shift := hv_bit_shift h, hv_bit_shift := 1\<rparr>
             else h\<lparr>hv_state := HDLC_GET_DATA, hv_data_received := False\<rparr>, status)
     }
     else Some (h\<lparr>hv_state := HDLC_GET_DATA, hv_data_received := False\<rparr>, status)
   }"

definition dec_zero :: "hdlc_vars \<Rightarrow> int \<Rightarrow> (hdlc_vars \<times> int) option" where
  "dec_zero h status = do {
     (h, status) \<leftarrow>
       (if hv_bits1 h = 5 then Some (h, status)
        else if hv_bits1 h = 6 then dec_flag_end h status
        else Some (h\<lparr>hv_shift_reg := drop_bit 1 (hv_shift_reg h), hv_data_bits := hv_data_bits h + 1\<rparr>, status));
     Some (h\<lparr>hv_bits1 := 0\<rparr>, status)
   }"

text \<open>An octet is complete. It goes to \<open>dst[dstpos++]\<close>, which must lie in the buffer.\<close>

definition dec_store :: "hdlc_dec \<Rightarrow> hdlc_dec option" where
  "dec_store d =
     (let h = hd_h d;
          h = h\<lparr>hv_data_bits := 0, hv_data_received := True, hv_crc := crc_octet (hv_crc h) (hv_shift_reg h)\<rparr>
      in if hd_dsize d = 0
         then Some (d\<lparr>hd_h := h\<lparr>hv_dstpos := 0\<rparr>, hd_status := - HDLC_LENGTH_ERROR, hd_dsize := -1\<rparr>)
         else if 0 \<le> hv_dstpos h \<and> nat (hv_dstpos h) < length (hd_dst d)
         then Some (d\<lparr>hd_h := h\<lparr>hv_dstpos := hv_dstpos h + 1\<rparr>, hd_dsize := hd_dsize d - 1,
                      hd_dst := (hd_dst d)[nat (hv_dstpos h) := hv_shift_reg h]\<rparr>)
         else None)"

definition dec_get_data :: "hdlc_dec \<Rightarrow> hdlc_dec turn option" where
  "dec_get_data d = do {
     (h, status) \<leftarrow> (if top_bit (hd_h d) then dec_one (hd_h d) (hd_status d) else dec_zero (hd_h d) (hd_status d));
     if status \<noteq> 0 then Some (Done status (d\<lparr>hd_h := next_bit (h\<lparr>hv_dstpos := 0\<rparr>), hd_status := status\<rparr>))
     else do {
       let d = d\<lparr>hd_h := h, hd_status := status\<rparr>;
       d \<leftarrow> (if hv_data_bits h = 8 then dec_store d else Some d);
       Some (More (d\<lparr>hd_h := next_bit (hd_h d)\<rparr>))
     }
   }"

definition dec_fast_flag :: "hdlc_vars \<Rightarrow> hdlc_vars option" where
  "dec_fast_flag h =
     (if hv_cbin h = hv_ffvalue h then Some (h\<lparr>hv_bit_shift := 0\<rparr>)
      else if hv_cbin h = 0xff then Some (h\<lparr>hv_state := HDLC_FAST_IDLE, hv_bit_shift := 0\<rparr>)
      else if hv_ffbit_shift h = 8 then Some (h\<lparr>hv_state := HDLC_GETFLAG_B7\<rparr>)
      else do {
        v \<leftarrow> rd fast_abort (nat (hv_ffbit_shift h - 1));
        Some (h\<lparr>hv_shift_reg := v, hv_bits1 := max 0 (hv_ffbit_shift h - 2), hv_data_bits := hv_ffbit_shift h - 1,
                hv_state := HDLC_GET_DATA, hv_data_received := False\<rparr>)
      })"

text \<open>One turn. A stopped decoder returns with \<open>*count\<close> as it was set at the start: all of the source.\<close>

definition dec_turn :: "hdlc_dec \<Rightarrow> hdlc_dec turn option" where
  "dec_turn d =
     (let d = dec_fetch d; h = hd_h d; on = (\<lambda>f. Some (More (d\<lparr>hd_h := f h\<rparr>))) in
      if hv_state h = STOPPED then Some (Done 0 (d\<lparr>hd_src := []\<rparr>))
      else if hv_state h = HDLC_FAST_IDLE then on dec_fast_idle
      else if hv_state h = HDLC_GET_FLAG_B0 then on dec_flag_b0
      else if hv_state h = HDLC_GETFLAG_B1A6 then on dec_flag_b1a6
      else if hv_state h = HDLC_GETFLAG_B7 then on dec_flag_b7
      else if hv_state h = HDLC_GET_DATA then dec_get_data d
      else if hv_state h = HDLC_FAST_FLAG then do { h \<leftarrow> dec_fast_flag h; Some (More (d\<lparr>hd_h := h\<rparr>)) }
      else Some (More d))"

partial_function (option) dec_loop :: "hdlc_dec \<Rightarrow> (int \<times> hdlc_dec) option" where
  "dec_loop d =
     (if hd_src d = [] then Some (0, d)
      else Option.bind (dec_turn d)
             (\<lambda>r. case r of Done st d \<Rightarrow> Some (st, d) | More d \<Rightarrow> dec_loop d))"

text \<open>
  \<open>hdlc_decode\<close>: the value it returns, \<open>*count\<close>, and the buffer. \<open>dst\<close> is the whole memory of the
  destination, \<open>dsize\<close> the size that the caller names.
\<close>

definition hdlc_decode :: "hdlc_vars \<Rightarrow> u8 list \<Rightarrow> u8 list \<Rightarrow> int \<Rightarrow> (int \<times> nat \<times> hdlc_vars \<times> u8 list) option" where
  "hdlc_decode h src dst dsize = do {
     (st, d) \<leftarrow> dec_loop \<lparr>hd_h = h, hd_src = src, hd_dst = dst, hd_dsize = dsize, hd_status = 0\<rparr>;
     Some (st, length src - length (hd_src d), hd_h d, hd_dst d)
   }"

subsection \<open>The encoder\<close>

text \<open>\<open>he_out\<close> is what has been written to the destination, which has room for \<open>he_cap\<close> octets.\<close>

record hdlc_enc =
  he_h :: hdlc_vars
  he_src :: "u8 list"
  he_out :: "u8 list"
  he_cap :: nat
  he_dsize :: int

definition xfast_flag_value :: "u8 list" where
  "xfast_flag_value = [0x7e, 0x3f, 0x9f, 0xcf, 0xe7, 0xf3, 0xf9, 0xfc, 0x7e]"

definition enc_put :: "u8 \<Rightarrow> hdlc_enc \<Rightarrow> hdlc_enc option" where
  "enc_put b e =
     (if length (he_out e) < he_cap e
      then Some (e\<lparr>he_out := he_out e @ [b], he_dsize := he_dsize e - 1\<rparr>) else None)"

definition enc_fetch :: "hdlc_enc \<Rightarrow> hdlc_enc" where
  "enc_fetch e =
     (let h = he_h e in
      if hv_bit_shift h \<noteq> 0 then e
      else if he_src e \<noteq> [] \<and> \<not> hv_closing h then
        e\<lparr>he_h := h\<lparr>hv_shift_reg := hd (he_src e), hv_closing := hv_closing h \<or> tl (he_src e) = [], hv_bit_shift := 8\<rparr>,
          he_src := tl (he_src e)\<rparr>
      else if hv_state h = HDLC_SEND_DATA then
        e\<lparr>he_h :=
          (if hv_data_received h
           then h\<lparr>hv_state := HDLC_SEND_CRC1, hv_crc := hv_crc h XOR 0xffff, hv_bit_shift := 8,
                   hv_shift_reg := ucast ((hv_crc h XOR 0xffff) AND 0xff)\<rparr>
           else if \<not> hv_adapt56 h then h\<lparr>hv_state := HDLC_SEND_FAST_FLAG\<rparr>
           else h\<lparr>hv_state := HDLC_SENDFLAG_B0\<rparr>)\<rparr>
      else e)"

text \<open>\<open>cbin <<= 1; data_bits++\<close>, and \<open>cbin++\<close> for a one.\<close>

definition shift_out :: "bool \<Rightarrow> hdlc_vars \<Rightarrow> hdlc_vars" where
  "shift_out b h = h\<lparr>hv_cbin := push_bit 1 (hv_cbin h) + (if b then 1 else 0), hv_data_bits := hv_data_bits h + 1\<rparr>"

text \<open>The next bit of \<open>shift_reg\<close>, counted for zero insertion.\<close>

definition send_bit :: "hdlc_vars \<Rightarrow> hdlc_vars" where
  "send_bit h =
     (let b = (hv_shift_reg h AND 1 \<noteq> 0) in
      (shift_out b h)\<lparr>hv_bits1 := if b then hv_bits1 h + 1 else 0, hv_shift_reg := drop_bit 1 (hv_shift_reg h),
        hv_bit_shift := hv_bit_shift h - 1\<rparr>)"

definition start_data :: "hdlc_vars \<Rightarrow> hdlc_vars" where
  "start_data h = h\<lparr>hv_state := HDLC_SEND_DATA, hv_crc := 0xffff, hv_bits1 := 0, hv_data_received := True\<rparr>"

definition enc_fast_flag :: "hdlc_enc \<Rightarrow> hdlc_enc option" where
  "enc_fast_flag e =
     (let h = (he_h e)\<lparr>hv_closing := False\<rparr>; e = e\<lparr>he_h := h\<rparr> in
      if he_src e = [] then enc_put (hv_ffvalue h) e
      else Some (if hv_bit_shift h = 8
                 then e\<lparr>he_h := start_data (h\<lparr>hv_cbin := drop_bit (nat (8 - hv_data_bits h)) (hv_ffvalue h)\<rparr>)\<rparr>
                 else e))"

definition enc_flag_b0 :: "hdlc_vars \<Rightarrow> hdlc_vars" where
  "enc_flag_b0 h = (shift_out False (h\<lparr>hv_closing := False\<rparr>))\<lparr>hv_bits1 := 0, hv_state := HDLC_SENDFLAG_B1A6\<rparr>"

definition enc_flag_b1a6 :: "hdlc_vars \<Rightarrow> hdlc_vars" where
  "enc_flag_b1a6 h =
     (let h = (shift_out True h)\<lparr>hv_bits1 := hv_bits1 h + 1\<rparr> in
      if hv_bits1 h = 6 then h\<lparr>hv_state := HDLC_SENDFLAG_B7\<rparr> else h)"

definition enc_flag_b7 :: "bool \<Rightarrow> hdlc_vars \<Rightarrow> hdlc_vars" where
  "enc_flag_b7 no_more h =
     (let h = shift_out False h in
      if no_more then h\<lparr>hv_state := HDLC_SENDFLAG_B0\<rparr>
      else if hv_bit_shift h = 8 then start_data h
      else h)"

definition enc_first_flag :: "hdlc_vars \<Rightarrow> hdlc_vars" where
  "enc_first_flag h =
     (let h = h\<lparr>hv_data_received := True\<rparr> in
      if hv_data_bits h = 8 then h\<lparr>hv_state := HDLC_SEND_DATA, hv_crc := 0xffff, hv_bits1 := 0\<rparr>
      else (let h = (shift_out (hv_shift_reg h AND 1 \<noteq> 0) h)\<lparr>hv_shift_reg := drop_bit 1 (hv_shift_reg h),
                      hv_bit_shift := hv_bit_shift h - 1\<rparr> in
            if hv_bit_shift h = 0 then h\<lparr>hv_state := HDLC_SEND_DATA, hv_crc := 0xffff, hv_bits1 := 0\<rparr> else h))"

definition enc_data :: "hdlc_vars \<Rightarrow> hdlc_vars" where
  "enc_data h =
     (if hv_bits1 h = 5 then (shift_out False h)\<lparr>hv_bits1 := 0\<rparr>
      else send_bit (if hv_bit_shift h = 8 then h\<lparr>hv_crc := crc_octet (hv_crc h) (hv_shift_reg h)\<rparr> else h))"

definition enc_crc1 :: "hdlc_vars \<Rightarrow> hdlc_vars" where
  "enc_crc1 h =
     (if hv_bits1 h = 5 then (shift_out False h)\<lparr>hv_bits1 := 0\<rparr>
      else (let h = send_bit h in
            if hv_bit_shift h = 0
            then h\<lparr>hv_shift_reg := ucast (drop_bit 8 (hv_crc h)), hv_state := HDLC_SEND_CRC2, hv_bit_shift := 8\<rparr>
            else h))"

definition enc_crc2 :: "hdlc_vars \<Rightarrow> hdlc_vars" where
  "enc_crc2 h =
     (if hv_bits1 h = 5 then (shift_out False h)\<lparr>hv_bits1 := 0\<rparr>
      else (let h = send_bit h in
            if hv_bit_shift h = 0
            then h\<lparr>hv_shift_reg := 0x7e, hv_state := HDLC_SEND_CLOSING_FLAG, hv_bit_shift := 8\<rparr>
            else h))"

text \<open>The closing flag is sent. The call then ends with the next octet.\<close>

definition enc_closed :: "hdlc_enc \<Rightarrow> hdlc_enc option" where
  "enc_closed e = do {
     let h = he_h e;
     ff \<leftarrow> rd xfast_flag_value (nat (hv_data_bits h));
     if hv_dchannel h then
       (let n = 8 - hv_data_bits h in
        Some (e\<lparr>he_h := h\<lparr>hv_ffvalue := 0x7e, hv_bit_shift := n,
                 hv_state := if n = 0 then HDLC_SEND_FAST_IDLE else HDLC_SEND_IDLE1\<rparr>\<rparr>))
     else
       Some (e\<lparr>he_h := h\<lparr>hv_ffvalue := ff, hv_data_received := False,
                hv_state := if hv_adapt56 h then HDLC_SENDFLAG_B0 else HDLC_SEND_FAST_FLAG\<rparr>,
               he_dsize := if 1 < he_dsize e then 1 else he_dsize e\<rparr>)
   }"

definition enc_closing_flag :: "hdlc_enc \<Rightarrow> hdlc_enc option" where
  "enc_closing_flag e =
     (let h = he_h e in
      if hv_bits1 h = 5 then Some (e\<lparr>he_h := (shift_out False h)\<lparr>hv_bits1 := 0\<rparr>\<rparr>)
      else (let h = (shift_out (hv_shift_reg h AND 1 \<noteq> 0) h)\<lparr>hv_shift_reg := drop_bit 1 (hv_shift_reg h),
                      hv_bit_shift := hv_bit_shift h - 1\<rparr>;
                e = e\<lparr>he_h := h\<rparr>
            in if hv_bit_shift h = 0 then enc_closed e else Some e))"

definition enc_idle1 :: "hdlc_vars \<Rightarrow> hdlc_vars" where
  "enc_idle1 h =
     (let h = (shift_out True (h\<lparr>hv_closing := False\<rparr>))\<lparr>hv_bit_shift := hv_bit_shift h - 1\<rparr> in
      if hv_bit_shift h = 0 then h\<lparr>hv_state := HDLC_SEND_FAST_IDLE\<rparr> else h)"

definition enc_fast_idle :: "hdlc_enc \<Rightarrow> hdlc_enc option" where
  "enc_fast_idle e =
     (let h = (he_h e)\<lparr>hv_closing := False, hv_cbin := 0xff, hv_data_bits := 8\<rparr> in
      if hv_bit_shift h = 8 then Some (e\<lparr>he_h := h\<lparr>hv_cbin := 0x7e, hv_state := HDLC_SEND_FIRST_FLAG\<rparr>\<rparr>)
      else do {
        e \<leftarrow> enc_put 0xff (e\<lparr>he_h := h\<lparr>hv_bit_shift := 0, hv_data_bits := 0\<rparr>\<rparr>);
        Some (e\<lparr>he_dsize := 0\<rparr>)
      })"

text \<open>The end of a turn: the eighth bit of a 56k octet, and a complete octet.\<close>

definition enc_flush :: "hdlc_enc \<Rightarrow> hdlc_enc option" where
  "enc_flush e =
     (let h = he_h e;
          h = (if hv_adapt56 h \<and> hv_data_bits h = 7 then shift_out True h else h)
      in if hv_data_bits h = 8 then enc_put (hv_cbin h) (e\<lparr>he_h := h\<lparr>hv_data_bits := 0\<rparr>\<rparr>)
         else Some (e\<lparr>he_h := h\<rparr>))"

text \<open>
  A stopped encoder fills the destination with ones and returns its counter, which is -1 then; \<open>*count\<close>
  stays as it was set at the start.
\<close>

definition enc_stopped :: "hdlc_enc \<Rightarrow> hdlc_enc turn option" where
  "enc_stopped e =
     (let n = nat (he_dsize e) in
      if length (he_out e) + n \<le> he_cap e
      then Some (Done (-1) (e\<lparr>he_out := he_out e @ replicate n 0xff, he_dsize := -1, he_src := []\<rparr>)) else None)"

definition enc_turn :: "hdlc_enc \<Rightarrow> hdlc_enc turn option" where
  "enc_turn e =
     (let e = enc_fetch e; h = he_h e; on = (\<lambda>f. Some (e\<lparr>he_h := f h\<rparr>)) in
      if hv_state h = STOPPED then enc_stopped e
      else do {
        e \<leftarrow> (if hv_state h = HDLC_SEND_FAST_FLAG then enc_fast_flag e
              else if hv_state h = HDLC_SENDFLAG_B0 then on enc_flag_b0
              else if hv_state h = HDLC_SENDFLAG_B1A6 then on enc_flag_b1a6
              else if hv_state h = HDLC_SENDFLAG_B7 then on (enc_flag_b7 (he_src e = []))
              else if hv_state h = HDLC_SEND_FIRST_FLAG then on enc_first_flag
              else if hv_state h = HDLC_SEND_DATA then on enc_data
              else if hv_state h = HDLC_SEND_CRC1 then on enc_crc1
              else if hv_state h = HDLC_SEND_CRC2 then on enc_crc2
              else if hv_state h = HDLC_SEND_CLOSING_FLAG then enc_closing_flag e
              else if hv_state h = HDLC_SEND_IDLE1 then on enc_idle1
              else if hv_state h = HDLC_SEND_FAST_IDLE then enc_fast_idle e
              else Some e);
        e \<leftarrow> enc_flush e;
        Some (More e)
      })"

partial_function (option) enc_loop :: "hdlc_enc \<Rightarrow> (int \<times> hdlc_enc) option" where
  "enc_loop e =
     (if he_dsize e \<le> 0 then Some (int (length (he_out e)), e)
      else Option.bind (enc_turn e)
             (\<lambda>r. case r of Done st e \<Rightarrow> Some (st, e) | More e \<Rightarrow> enc_loop e))"

text \<open>
  \<open>hdlc_encode\<close> into a buffer of \<open>dsize\<close> octets: the value it returns, \<open>*count\<close>, and what is written. The
  length of the source is a list length here and an unsigned short in the code, so frames have
  less than 65536 octets.
\<close>

definition hdlc_encode :: "hdlc_vars \<Rightarrow> u8 list \<Rightarrow> nat \<Rightarrow> (int \<times> nat \<times> hdlc_vars \<times> u8 list) option" where
  "hdlc_encode h src dsize = do {
     (len, e) \<leftarrow> enc_loop \<lparr>he_h = h, he_src = src, he_out = [], he_cap = dsize, he_dsize = int dsize\<rparr>;
     Some (len, length src - length (he_src e), he_h e, he_out e)
   }"

declare dec_loop.simps [code] enc_loop.simps [code]

end
