(* ===== verification/Hisax_Hdlc_Bits.thy ===== *)
theory Hisax_Hdlc_Bits
  imports Hisax_Hdlc
begin

unbundle bit_operations_syntax

text \<open>
  The bit stream of a frame: a flag, the octets of the frame and its CRC from the least significant
  bit on, with a zero inserted after five ones, a flag.
\<close>

definition lsb8 :: "u8 \<Rightarrow> bool list" where
  "lsb8 b = map (bit b) [0 ..< 8]"

definition msb8 :: "u8 \<Rightarrow> bool list" where
  "msb8 b = rev (lsb8 b)"

definition flag :: "bool list" where
  "flag = [False, True, True, True, True, True, True, False]"

text \<open>\<open>c\<close> ones have just been sent. The zero is inserted when the next bit is sent.\<close>

fun stuff :: "nat \<Rightarrow> bool list \<Rightarrow> bool list" where
  "stuff c [] = []"
| "stuff c (x # xs) =
     (if c = 5 then False # x # stuff (if x then 1 else 0) xs else x # stuff (if x then Suc c else 0) xs)"

fun ones :: "nat \<Rightarrow> bool list \<Rightarrow> nat" where
  "ones c [] = c"
| "ones c (x # xs) = ones (if x then Suc (if c = 5 then 0 else c) else 0) xs"

definition crc_run :: "u16 \<Rightarrow> u8 list \<Rightarrow> u16" where
  "crc_run = foldl crc_octet"

definition fcs :: "u16 \<Rightarrow> u8 list" where
  "fcs c = [ucast ((c XOR 0xffff) AND 0xff), ucast (drop_bit 8 (c XOR 0xffff))]"

definition frame_bits :: "u8 list \<Rightarrow> bool list" where
  "frame_bits d = concat (map lsb8 (d @ fcs (crc_run 0xffff d)))"

definition line_bits :: "u8 list \<Rightarrow> bool list" where
  "line_bits d =
     flag @ stuff 0 (frame_bits d) @ (if ones 0 (frame_bits d) = 5 then [False] else []) @ flag"

abbreviation (input) closing_bits :: "nat \<Rightarrow> bool list" where
  "closing_bits c \<equiv> (if c = 5 then [False] else []) @ flag"

subsection \<open>Bits\<close>

lemma stuff_append: "stuff c (xs @ ys) = stuff c xs @ stuff (ones c xs) ys"
  and ones_append: "ones c (xs @ ys) = ones (ones c xs) ys"
  by (induction c xs rule: stuff.induct) auto

lemma stuff_nonempty: "length xs \<le> length (stuff c xs)"
  by (induction c xs rule: stuff.induct) auto

lemma upt8: "[0 ..< 8] = [0, 1, 2, 3, 4, 5, 6, 7 :: nat]"
  by (simp add: upt_rec)

lemma length_bits [simp]: "length (lsb8 b) = 8" "length (msb8 b) = 8" "length flag = 8"
  by (simp_all add: lsb8_def msb8_def flag_def)

lemma u8_eqI: "(\<And>n. n < 8 \<Longrightarrow> bit a n = bit b n) \<Longrightarrow> a = (b :: u8)"
  by (rule bit_word_eqI) simp

lemma less8: "n < 8 \<longleftrightarrow> n = 0 \<or> n = 1 \<or> n = 2 \<or> n = 3 \<or> n = 4 \<or> n = 5 \<or> n = 6 \<or> n = (7 :: nat)"
  by auto

lemma msb8_inj [simp]: "msb8 a = msb8 b \<longleftrightarrow> a = b"
  by (auto simp: msb8_def lsb8_def less8 intro!: u8_eqI)

lemma msb8_7e: "msb8 0x7e = flag" and lsb8_7e: "lsb8 0x7e = flag"
  by (simp_all add: msb8_def lsb8_def flag_def upt8 bit_numeral_rec) 

lemma msb8_in:
  assumes "\<And>n. n < 8 \<Longrightarrow> bit v n \<longleftrightarrow> (if n = 0 then b else bit c (n - 1))"
  shows "msb8 v = tl (msb8 c) @ [b]"
  by (simp add: msb8_def lsb8_def upt8 assms)

lemma msb8_shift: "msb8 (push_bit 1 c + (if b then 1 else 0)) = tl (msb8 c) @ [b]"
proof (rule msb8_in)
  fix n :: nat assume n: "n < 8"
  have "push_bit 1 c + (if b then 1 else 0) = push_bit 1 c OR (if b then 1 else 0)"
    by (rule disjunctive_add) (simp only: bit_push_bit_iff, auto simp: bit_1_iff)
  then show "bit (push_bit 1 c + (if b then 1 else 0)) n \<longleftrightarrow> (if n = 0 then b else bit c (n - 1))"
    using n by (simp only: bit_or_iff bit_push_bit_iff) (auto simp: bit_1_iff)
qed

lemma top_bit_msb: "top_bit h = hd (msb8 (hv_cbin h))"
proof -
  have "hv_cbin h AND 0x80 = (if bit (hv_cbin h) 7 then 0x80 else 0)"
    by (rule u8_eqI) (auto simp: bit_simps less8 bit_numeral_rec)
  then show ?thesis by (simp add: top_bit_def msb8_def lsb8_def upt8)
qed

lemma low_bit: "sr AND 1 \<noteq> (0 :: u8) \<longleftrightarrow> bit sr 0"
  by (simp add: and_one_eq odd_iff_mod_2_eq_one bit_0)

definition shin :: "bool \<Rightarrow> u8 \<Rightarrow> u8" where
  "shin x sr = drop_bit 1 sr OR (if x then 0x80 else 0)"

lemma bit_80: "n < 8 \<Longrightarrow> bit (0x80 :: u8) n \<longleftrightarrow> n = 7"
  by (auto simp: less8 bit_numeral_rec)

lemma bit_shin: "n < 8 \<Longrightarrow> bit (shin x sr) n = (if n = 7 then x else bit sr (n + 1))"
  using bit_80 [of n] bit_imp_le_length [of sr 8]
  by (auto simp: shin_def bit_or_iff bit_drop_bit_eq simp del: bit_numeral_rec)

lemma shin_octet: "fold shin (lsb8 b) sr = b"
  by (rule u8_eqI) (auto simp: lsb8_def upt8 bit_shin less8 simp del: One_nat_def add_2_eq_Suc')

lemma masks: "(0xff :: u16) = mask 8" "(0xffff :: u16) = mask 16"
  by (simp_all add: mask_eq_exp_minus_1)

lemma fcs_residue: "crc_run c (fcs c) = 0xf0b8"
proof -
  have 1: "(c XOR ucast (ucast ((c XOR 0xffff) AND 0xff) :: u8)) AND 0xff = 0xff"
    unfolding masks by (rule bit_word_eqI) (auto simp: bit_simps)
  have 2: "((drop_bit 8 c XOR k) XOR ucast (ucast (drop_bit 8 (c XOR 0xffff)) :: u8)) AND 0xff = (k XOR 0xff) AND 0xff" for k
    unfolding masks by (rule bit_word_eqI) (auto simp: bit_simps dest: bit_imp_le_length)
  have 4: "((drop_bit 8 c XOR 0x0f78) XOR ucast (ucast (drop_bit 8 (c XOR 0xffff)) :: u8)) AND 0xff = 135"
    unfolding 2 by simp
  have 3: "drop_bit 8 (drop_bit 8 c XOR k) = drop_bit 8 k"
    by (rule bit_word_eqI) (auto simp: bit_simps dest: bit_imp_le_length)
  have unat_ff: "unat (0xff :: u16) = 255" "unat (135 :: u16) = 135" by simp_all
  have t: "crc16_tab ! 255 = 0x0f78" "crc16_tab ! 135 = 0xf0b7" by (simp_all add: crc16_tab_def)
  show ?thesis
    unfolding crc_run_def fcs_def foldl.simps crc_octet_def 1 unat_ff t 4 unat_ff t 3 by simp
qed

end
