(* ===== verification/Hisax_Hdlc_Enc.thy ===== *)
theory Hisax_Hdlc_Enc
  imports Hisax_Hdlc_Bits
begin

unbundle bit_operations_syntax

text \<open>The HDLC encoder on a B channel sends the flag, the stuffed bits of the frame and the closing flag.\<close>

definition obits :: "hdlc_enc \<Rightarrow> bool list" where
  "obits e = concat (map msb8 (he_out e)) @ drop (nat (8 - hv_data_bits (he_h e))) (msb8 (hv_cbin (he_h e)))"

text \<open>
  The encoder in the state \<open>st\<close>: \<open>c\<close> ones sent, \<open>s\<close> bits of \<open>sr\<close> and the octets \<open>src\<close> to go, the
  bits \<open>bs\<close> sent, and room for \<open>n\<close> octets in all.
\<close>

definition enc_in :: "nat \<Rightarrow> nat \<Rightarrow> nat \<Rightarrow> u8 \<Rightarrow> nat \<Rightarrow> u16 \<Rightarrow> u8 list \<Rightarrow> bool list \<Rightarrow> hdlc_enc \<Rightarrow> bool" where
  "enc_in n st c sr s crc src bs e \<longleftrightarrow>
     he_cap e = n \<and> he_dsize e = int n - int (length (he_out e)) \<and> he_src e = src \<and>
     hv_state (he_h e) = st \<and> \<not> hv_adapt56 (he_h e) \<and> \<not> hv_dchannel (he_h e) \<and> hv_data_received (he_h e) \<and>
     hv_bits1 (he_h e) = int c \<and> hv_shift_reg (he_h e) = sr \<and> hv_bit_shift (he_h e) = int s \<and>
     hv_crc (he_h e) = crc \<and> 0 \<le> hv_data_bits (he_h e) \<and> hv_data_bits (he_h e) < 8 \<and>
     (hv_closing (he_h e) \<longleftrightarrow> src = []) \<and> obits e = bs"

lemma length_concat_bits [simp]: "length (concat (map msb8 out)) = 8 * length out"
  by (induction out) simp_all

lemma obits_length:
  "0 \<le> hv_data_bits (he_h e) \<Longrightarrow> hv_data_bits (he_h e) \<le> 8 \<Longrightarrow>
     length (obits e) = 8 * length (he_out e) + nat (hv_data_bits (he_h e))"
  by (simp add: obits_def nat_diff_distrib)

lemma msb8_shift_out: "msb8 (hv_cbin (shift_out b h)) = tl (msb8 (hv_cbin h)) @ [b]"
  using msb8_shift [of "hv_cbin h" b] by (simp add: shift_out_def)

lemma obits_shift_out:
  assumes "0 \<le> hv_data_bits (he_h e)" "hv_data_bits (he_h e) < 8"
    "hv_cbin h = hv_cbin (shift_out b (he_h e))" "hv_data_bits h = hv_data_bits (he_h e) + 1"
  shows "obits (e\<lparr>he_h := h\<rparr>) = obits e @ [b]"
proof -
  obtain k where k: "hv_data_bits (he_h e) = int k" "k < 8" using assms(1,2) by (metis nonneg_int_cases of_nat_less_numeral_iff)
  have "drop (7 - k) (tl (msb8 c)) = drop (8 - k) (msb8 c)" for c
    unfolding drop_Suc [symmetric] using k(2) by (simp add: Suc_diff_le [symmetric])
  moreover have "nat (8 - (int k + 1)) = 7 - k" "nat (8 - int k) = 8 - k" using k(2) by auto
  ultimately show ?thesis
    using k by (simp add: obits_def assms(3,4) msb8_shift_out)
qed

text \<open>The end of a turn writes a complete octet.\<close>

lemma flush_bits:
  assumes "\<not> hv_adapt56 (he_h e)" "0 \<le> hv_data_bits (he_h e)" "hv_data_bits (he_h e) \<le> 8"
    "length (he_out e) < he_cap e"
  obtains e' where "enc_flush e = Some e'" "obits e' = obits e" "0 \<le> hv_data_bits (he_h e')" "hv_data_bits (he_h e') < 8"
    "he_cap e' = he_cap e" "he_src e' = he_src e" 
    "he_dsize e' - he_dsize e = int (length (he_out e)) - int (length (he_out e'))"
    "\<exists>m. he_h e' = (he_h e)\<lparr>hv_data_bits := m\<rparr>"
    "hv_data_bits (he_h e) = 8 \<longrightarrow> hv_data_bits (he_h e') = 0" "hv_data_bits (he_h e) < 8 \<longrightarrow> e' = e"
proof (cases "hv_data_bits (he_h e) = 8")
  case True
  let ?e = "e\<lparr>he_h := (he_h e)\<lparr>hv_data_bits := 0\<rparr>, he_out := he_out e @ [hv_cbin (he_h e)], he_dsize := he_dsize e - 1\<rparr>"
  have "enc_flush e = Some ?e" using assms(1,4) True by (simp add: enc_flush_def enc_put_def Let_def)
  moreover have "obits ?e = obits e" using True by (simp add: obits_def)
  ultimately show thesis using that [of ?e] by (auto simp: True)
next
  case False
  then have "enc_flush e = Some e" using assms(1) by (simp add: enc_flush_def)
  moreover have "\<exists>m. he_h e = (he_h e)\<lparr>hv_data_bits := m\<rparr>"
    by (cases "he_h e") (simp add: exI [of _ "hv_data_bits (he_h e)"])
  ultimately show thesis using False assms(2,3) that [of e] by simp
qed

text \<open>A turn that sends one bit.\<close>

lemma turn_bit:
  assumes "enc_in n st c sr s crc src bs e" "length bs < 8 * n" "0 < s"
    "h = (he_h e)\<lparr>hv_cbin := hv_cbin (shift_out b (he_h e)), hv_data_bits := hv_data_bits (he_h e) + 1,
       hv_bits1 := int c', hv_shift_reg := sr', hv_bit_shift := int s', hv_crc := crc', hv_state := st'\<rparr>"
    "enc_turn e = do { e \<leftarrow> enc_flush (e\<lparr>he_h := h\<rparr>); Some (More e) }"
  shows "\<exists>e'. enc_loop e = enc_loop e' \<and> enc_in n st' c' sr' s' crc' src (bs @ [b]) e'"
proof -
  note e = assms(1) [unfolded enc_in_def]
  have len: "length (he_out e) < n" using e assms(2) obits_length [of e] by auto
  obtain e' where e': "enc_flush (e\<lparr>he_h := h\<rparr>) = Some e'" "obits e' = obits (e\<lparr>he_h := h\<rparr>)"
    "0 \<le> hv_data_bits (he_h e')" "hv_data_bits (he_h e') < 8" "he_cap e' = he_cap e" "he_src e' = he_src e"
    "he_dsize e' - he_dsize e = int (length (he_out e)) - int (length (he_out e'))"
    "\<exists>m. he_h e' = h\<lparr>hv_data_bits := m\<rparr>"
    by (rule flush_bits [of "e\<lparr>he_h := h\<rparr>"]) (use e len in \<open>auto simp: assms(4)\<close>)
  have "obits (e\<lparr>he_h := h\<rparr>) = bs @ [b]"
    using obits_shift_out [of e h b] e by (simp add: assms(4))
  moreover have "enc_loop e = enc_loop e'"
    using e len by (subst enc_loop.simps) (simp add: assms(5) e'(1))
  ultimately show ?thesis
    using e e' by (intro exI [of _ e']) (auto simp: enc_in_def assms(4))
qed


lemma send_bit_eq:
  "send_bit h = h\<lparr>hv_cbin := hv_cbin (shift_out (bit (hv_shift_reg h) 0) h), hv_data_bits := hv_data_bits h + 1,
     hv_bits1 := if bit (hv_shift_reg h) 0 then hv_bits1 h + 1 else 0, hv_shift_reg := drop_bit 1 (hv_shift_reg h),
     hv_bit_shift := hv_bit_shift h - 1\<rparr>"
  by (simp add: send_bit_def shift_out_def low_bit Let_def)

text \<open>What a state does when the last bit of its octet has gone.\<close>

definition after :: "nat \<Rightarrow> u16 \<Rightarrow> nat \<times> u8 \<times> nat" where
  "after st crc =
     (if st = HDLC_SEND_CRC1 then (HDLC_SEND_CRC2, ucast (drop_bit 8 crc), 8)
      else if st = HDLC_SEND_CRC2 then (HDLC_SEND_CLOSING_FLAG, 0x7e, 8)
      else (st, 0, 0))"

lemma enc_fetch_none: "hv_bit_shift (he_h e) \<noteq> 0 \<Longrightarrow> enc_fetch e = e"
  by (simp add: enc_fetch_def)

lemma turn_stuff:
  assumes "enc_in n st 5 sr s crc src bs e" "length bs < 8 * n" "0 < s"
    "st \<in> {HDLC_SEND_DATA, HDLC_SEND_CRC1, HDLC_SEND_CRC2, HDLC_SEND_CLOSING_FLAG}"
  shows "\<exists>e'. enc_loop e = enc_loop e' \<and> enc_in n st 0 sr s crc src (bs @ [False]) e'"
proof (rule turn_bit [OF assms(1-3) refl])
  have f: "enc_fetch e = e" using assms(1,3) by (intro enc_fetch_none) (simp add: enc_in_def)
  have h: "(shift_out False (he_h e))\<lparr>hv_bits1 := 0\<rparr> = (he_h e)\<lparr>hv_cbin := hv_cbin (shift_out False (he_h e)),
      hv_data_bits := hv_data_bits (he_h e) + 1, hv_bits1 := int 0, hv_shift_reg := sr, hv_bit_shift := int s, hv_crc := crc, hv_state := st\<rparr>"
    using assms(1) by (simp add: enc_in_def shift_out_def)
  show "enc_turn e = do { e \<leftarrow> enc_flush (e\<lparr>he_h := (he_h e)\<lparr>hv_cbin := hv_cbin (shift_out False (he_h e)),
      hv_data_bits := hv_data_bits (he_h e) + 1, hv_bits1 := int 0, hv_shift_reg := sr, hv_bit_shift := int s, hv_crc := crc, hv_state := st\<rparr>\<rparr>);
      Some (More e) }"
    unfolding h [symmetric]
    using assms(1,4) by (auto simp: enc_turn_def f Let_def enc_in_def enc_data_def enc_crc1_def enc_crc2_def enc_closing_flag_def)
qed

lemma cbin_crc: "hv_cbin (shift_out b (h\<lparr>hv_crc := x\<rparr>)) = hv_cbin (shift_out b h)"
  by (simp add: shift_out_def)

lemma turn_send:
  assumes "enc_in n st c sr s crc src bs e" "length bs < 8 * n" "0 < s" "c \<noteq> 5"
    "st \<in> {HDLC_SEND_DATA, HDLC_SEND_CRC1, HDLC_SEND_CRC2}"
    "crc' = (if st = HDLC_SEND_DATA \<and> s = 8 then crc_octet crc sr else crc)"
    "(st', sr', s') = (if s = 1 \<and> st \<noteq> HDLC_SEND_DATA then after st crc else (st, drop_bit 1 sr, s - 1))"
  shows "\<exists>e'. enc_loop e = enc_loop e' \<and>
    enc_in n st' (if bit sr 0 then Suc c else 0) sr' s' crc' src (bs @ [bit sr 0]) e'"
proof (rule turn_bit [OF assms(1-3) refl])
  have f: "enc_fetch e = e" using assms(1,3) by (intro enc_fetch_none) (simp add: enc_in_def)
  show "enc_turn e = do { e \<leftarrow> enc_flush (e\<lparr>he_h := (he_h e)\<lparr>hv_cbin := hv_cbin (shift_out (bit sr 0) (he_h e)),
      hv_data_bits := hv_data_bits (he_h e) + 1, hv_bits1 := int (if bit sr 0 then Suc c else 0), hv_shift_reg := sr',
      hv_bit_shift := int s', hv_crc := crc', hv_state := st'\<rparr>\<rparr>);
      Some (More e) }"
  proof -
    note e = assms(1) [unfolded enc_in_def]
    consider "st = HDLC_SEND_DATA" | "st = HDLC_SEND_CRC1" | "st = HDLC_SEND_CRC2" using assms(5) by auto
    then show ?thesis
    proof cases
      case 1
      then show ?thesis
        using e assms(3,4,6,7) by (cases "he_h e"; cases "bit sr 0"; cases "s = 8") (simp_all add: enc_turn_def f Let_def enc_data_def send_bit_eq shift_out_def add.commute)
    next
      case 2
      then show ?thesis
        using e assms(3,4,6,7) by (cases "he_h e"; cases "bit sr 0"; cases "s = 1") (simp_all add: enc_turn_def f Let_def enc_crc1_def send_bit_eq after_def shift_out_def add.commute)
    next
      case 3
      then show ?thesis
        using e assms(3,4,6,7) by (cases "he_h e"; cases "bit sr 0"; cases "s = 1") (simp_all add: enc_turn_def f Let_def enc_crc2_def send_bit_eq after_def shift_out_def add.commute)
    qed
  qed
qed


lemma lsb8_drop: "lsb8 (drop_bit 1 sr) = tl (lsb8 sr) @ [False]"
  using bit_imp_le_length [of sr 8] by (auto simp: lsb8_def upt8 bit_drop_bit_eq numeral_eq_Suc)

lemma take_lsb8: "s < 8 \<Longrightarrow> take (Suc s) (lsb8 sr) = bit sr 0 # take s (lsb8 (drop_bit 1 sr))"
proof -
  assume s: "s < 8"
  have "lsb8 sr = bit sr 0 # tl (lsb8 sr)" by (simp add: lsb8_def upt8)
  then have "take (Suc s) (lsb8 sr) = bit sr 0 # take s (tl (lsb8 sr))" by (metis take_Suc_Cons)
  then show ?thesis unfolding lsb8_drop using s by simp
qed

lemma turn_unstuffed:
  assumes "enc_in n st c sr s crc src bs e" "length bs < 8 * n" "0 < s"
    "st \<in> {HDLC_SEND_DATA, HDLC_SEND_CRC1, HDLC_SEND_CRC2, HDLC_SEND_CLOSING_FLAG}"
  shows "\<exists>e'. enc_loop e = enc_loop e' \<and>
    enc_in n st (if c = 5 then 0 else c) sr s crc src (bs @ (if c = 5 then [False] else [])) e'"
proof (cases "c = 5")
  case True
  then show ?thesis using turn_stuff [of n st sr s crc src bs e] assms by simp
next
  case False
  then show ?thesis using assms(1) by auto
qed

text \<open>What remains of an octet is sent with zero insertion.\<close>

lemma enc_bits:
  assumes "enc_in n st c sr (Suc s) crc src bs e" "s < 8" "length (bs @ stuff c (take (Suc s) (lsb8 sr))) \<le> 8 * n"
    "st \<in> {HDLC_SEND_DATA, HDLC_SEND_CRC1, HDLC_SEND_CRC2}"
    "crc' = (if st = HDLC_SEND_DATA \<and> Suc s = 8 then crc_octet crc sr else crc)"
  shows "\<exists>e' sr'. enc_loop e = enc_loop e' \<and>
    (case (if st = HDLC_SEND_DATA then (st, sr', 0) else after st crc) of (st', sr', s') \<Rightarrow>
       enc_in n st' (ones c (take (Suc s) (lsb8 sr))) sr' s' crc' src (bs @ stuff c (take (Suc s) (lsb8 sr))) e')"
  using assms
proof (induction s arbitrary: c sr crc bs e crc')
  case 0
  have x: "take (Suc 0) (lsb8 sr) = [bit sr 0]" using take_lsb8 [of 0 sr] by simp
  have n5: "(if c = 5 then 0 else c) \<noteq> 5" by simp
  let ?c = "if c = 5 then 0 else c" and ?bs = "bs @ (if c = 5 then [False] else [])"
  have len: "length ?bs < 8 * n" "length bs < 8 * n" using "0.prems"(3) x by (auto split: if_splits)
  obtain e1 where e1: "enc_loop e = enc_loop e1" "enc_in n st ?c sr 1 crc src ?bs e1"
    using turn_unstuffed [OF "0.prems"(1) len(2)] "0.prems"(4) by auto
  obtain st' sr' s' where a: "(if st = HDLC_SEND_DATA then (st, drop_bit 1 sr, 0) else after st crc) = (st', sr', s')"
    by (metis prod_cases3)
  obtain e2 where "enc_loop e1 = enc_loop e2" "enc_in n st' (if bit sr 0 then Suc ?c else 0) sr' s' crc src (?bs @ [bit sr 0]) e2"
    using turn_send [OF e1(2) len(1) _ n5, of crc st' sr' s'] a "0.prems"(4) by (auto split: if_splits)
  then show ?case
    using e1(1) a "0.prems"(5) by (intro exI [of _ e2] exI [of _ "drop_bit 1 sr"]) (auto simp: x split: if_splits)
next
  case (Suc s)
  have x: "take (Suc (Suc s)) (lsb8 sr) = bit sr 0 # take (Suc s) (lsb8 (drop_bit 1 sr))"
    by (rule take_lsb8 [OF Suc.prems(2)])
  have n5: "(if c = 5 then 0 else c) \<noteq> 5" by simp
  let ?c = "if c = 5 then 0 else c" and ?bs = "bs @ (if c = 5 then [False] else [])"
  have len: "length ?bs < 8 * n" "length bs < 8 * n" using Suc.prems(3) x by (auto split: if_splits)
  obtain e1 where e1: "enc_loop e = enc_loop e1" "enc_in n st ?c sr (Suc (Suc s)) crc src ?bs e1"
    using turn_unstuffed [OF Suc.prems(1) len(2)] Suc.prems(4) by auto
  let ?c2 = "if bit sr 0 then Suc ?c else 0" and ?bs2 = "?bs @ [bit sr 0]"
  obtain e2 where e2: "enc_loop e1 = enc_loop e2" "enc_in n st ?c2 (drop_bit 1 sr) (Suc s) crc' src ?bs2 e2"
    using turn_send [OF e1(2) len(1) _ n5, of crc' st "drop_bit 1 sr" "Suc s"] Suc.prems(4,5) by auto
  have st: "bs @ stuff c (take (Suc (Suc s)) (lsb8 sr)) = ?bs2 @ stuff ?c2 (take (Suc s) (lsb8 (drop_bit 1 sr)))"
    "ones c (take (Suc (Suc s)) (lsb8 sr)) = ones ?c2 (take (Suc s) (lsb8 (drop_bit 1 sr)))"
    by (simp_all add: x)
  have "\<exists>e' sr'. enc_loop e2 = enc_loop e' \<and>
    (case (if st = HDLC_SEND_DATA then (st, sr', 0) else after st crc') of (st', sr', s') \<Rightarrow>
       enc_in n st' (ones ?c2 (take (Suc s) (lsb8 (drop_bit 1 sr)))) sr' s' crc' src
         (?bs2 @ stuff ?c2 (take (Suc s) (lsb8 (drop_bit 1 sr)))) e')"
    by (rule Suc.IH [OF e2(2)]) (use Suc.prems(2-4) st in auto)
  moreover have "(if st = HDLC_SEND_DATA then (st, sr', 0) else after st crc') =
      (if st = HDLC_SEND_DATA then (st, sr', 0) else after st crc)" for sr' :: u8
    using Suc.prems(5) by simp
  ultimately show ?case
    unfolding st e1(1) e2(1) by (simp only:)
qed

lemma take_all8 [simp]: "take 8 (lsb8 b) = lsb8 b"
  by simp

text \<open>The next octet is fetched.\<close>

lemma enc_loop_fetch:
  assumes "he_dsize (enc_fetch e) = he_dsize e" "hv_bit_shift (he_h (enc_fetch e)) \<noteq> 0" "0 < he_dsize e"
  shows "enc_loop e = enc_loop (enc_fetch e)"
proof -
  have "enc_turn e = enc_turn (enc_fetch e)"
    using enc_fetch_none [OF assms(2)] by (simp add: enc_turn_def)
  then show ?thesis using assms(1,3) enc_loop.simps [of e] enc_loop.simps [of "enc_fetch e"] by simp
qed

lemma enc_in_room: "enc_in n st c sr s crc src bs e \<Longrightarrow> length bs < 8 * n \<Longrightarrow> 0 < he_dsize e"
  using obits_length [of e] by (auto simp: enc_in_def)

lemma fetch_octet:
  assumes "enc_in n HDLC_SEND_DATA c sr 0 crc (b # src) bs e" "length bs < 8 * n"
  shows "\<exists>e'. enc_loop e = enc_loop e' \<and> enc_in n HDLC_SEND_DATA c b 8 crc src bs e'"
proof -
  have "enc_in n HDLC_SEND_DATA c b 8 crc src bs (enc_fetch e)" "he_dsize (enc_fetch e) = he_dsize e"
    using assms(1) by (auto simp: enc_in_def enc_fetch_def Let_def obits_def)
  moreover from this have "enc_loop e = enc_loop (enc_fetch e)"
    using enc_in_room [OF assms] by (intro enc_loop_fetch) (simp_all add: enc_in_def)
  ultimately show ?thesis by blast
qed

lemma fetch_crc:
  assumes "enc_in n HDLC_SEND_DATA c sr 0 crc [] bs e" "length bs < 8 * n"
  shows "\<exists>e'. enc_loop e = enc_loop e' \<and>
    enc_in n HDLC_SEND_CRC1 c (ucast ((crc XOR 0xffff) AND 0xff)) 8 (crc XOR 0xffff) [] bs e'"
proof -
  have "enc_in n HDLC_SEND_CRC1 c (ucast ((crc XOR 0xffff) AND 0xff)) 8 (crc XOR 0xffff) [] bs (enc_fetch e)"
    "he_dsize (enc_fetch e) = he_dsize e"
    using assms(1) by (auto simp: enc_in_def enc_fetch_def Let_def obits_def)
  moreover from this have "enc_loop e = enc_loop (enc_fetch e)"
    using enc_in_room [OF assms] by (intro enc_loop_fetch) (simp_all add: enc_in_def)
  ultimately show ?thesis by blast
qed

lemma enc_octets:
  assumes "enc_in n HDLC_SEND_DATA c sr 0 crc src bs e" "length (bs @ stuff c (concat (map lsb8 src))) \<le> 8 * n"
  shows "\<exists>e' sr'. enc_loop e = enc_loop e' \<and>
    enc_in n HDLC_SEND_DATA (ones c (concat (map lsb8 src))) sr' 0 (crc_run crc src) []
      (bs @ stuff c (concat (map lsb8 src))) e'"
  using assms
proof (induction src arbitrary: c sr crc bs e)
  case Nil
  then show ?case by (auto simp: crc_run_def)
next
  case (Cons b src)
  have "8 \<le> length (stuff c (lsb8 b))" using stuff_nonempty [of "lsb8 b" c] by simp
  then have len: "length bs < 8 * n" "length (bs @ stuff c (lsb8 b)) \<le> 8 * n"
    using Cons.prems(2) by (simp_all add: stuff_append)
  obtain e1 where e1: "enc_loop e = enc_loop e1" "enc_in n HDLC_SEND_DATA c b (Suc 7) crc src bs e1"
    using fetch_octet [OF Cons.prems(1) len(1)] by auto
  obtain e2 sr2 where e2: "enc_loop e1 = enc_loop e2"
    "enc_in n HDLC_SEND_DATA (ones c (lsb8 b)) sr2 0 (crc_octet crc b) src (bs @ stuff c (lsb8 b)) e2"
    using enc_bits [OF e1(2)] len(2) by auto
  show ?case
    using Cons.IH [OF e2(2)] Cons.prems(2) e1(1) e2(1)
    by (simp add: stuff_append ones_append crc_run_def)
qed

lemma enc_fcs:
  assumes "enc_in n HDLC_SEND_DATA c sr 0 crc [] bs e" "length (bs @ stuff c (concat (map lsb8 (fcs crc)))) \<le> 8 * n"
  shows "\<exists>e'. enc_loop e = enc_loop e' \<and>
    enc_in n HDLC_SEND_CLOSING_FLAG (ones c (concat (map lsb8 (fcs crc)))) 0x7e 8 (crc XOR 0xffff) []
      (bs @ stuff c (concat (map lsb8 (fcs crc)))) e'"
proof -
  let ?lo = "ucast ((crc XOR 0xffff) AND 0xff) :: u8" and ?hi = "ucast (drop_bit 8 (crc XOR 0xffff)) :: u8"
  have fcs: "concat (map lsb8 (fcs crc)) = lsb8 ?lo @ lsb8 ?hi" by (simp add: fcs_def)
  have "8 \<le> length (stuff c (lsb8 ?lo))" using stuff_nonempty [of "lsb8 ?lo" c] by simp
  then have len: "length bs < 8 * n" "length (bs @ stuff c (lsb8 ?lo)) \<le> 8 * n"
    using assms(2) unfolding fcs stuff_append by simp_all
  obtain e1 where e1: "enc_loop e = enc_loop e1" "enc_in n HDLC_SEND_CRC1 c ?lo (Suc 7) (crc XOR 0xffff) [] bs e1"
    using fetch_crc [OF assms(1) len(1)] by auto
  obtain e2 where e2: "enc_loop e1 = enc_loop e2"
    "enc_in n HDLC_SEND_CRC2 (ones c (lsb8 ?lo)) ?hi (Suc 7) (crc XOR 0xffff) [] (bs @ stuff c (lsb8 ?lo)) e2"
    using enc_bits [OF e1(2)] len(2) by (auto simp: after_def)
  obtain e3 where e3: "enc_loop e2 = enc_loop e3"
    "enc_in n HDLC_SEND_CLOSING_FLAG (ones (ones c (lsb8 ?lo)) (lsb8 ?hi)) 0x7e 8 (crc XOR 0xffff) []
      ((bs @ stuff c (lsb8 ?lo)) @ stuff (ones c (lsb8 ?lo)) (lsb8 ?hi)) e3"
    using enc_bits [OF e2(2)] assms(2) unfolding fcs stuff_append by (auto simp: after_def)
  show ?thesis
    unfolding fcs stuff_append ones_append e1(1) e2(1) using e3 by (intro exI [of _ e3]) simp
qed


subsection \<open>The closing flag\<close>

lemma turn_flag:
  assumes "enc_in n HDLC_SEND_CLOSING_FLAG c sr (Suc (Suc s)) crc src bs e" "length bs < 8 * n" "c \<noteq> 5"
  shows "\<exists>e'. enc_loop e = enc_loop e' \<and>
    enc_in n HDLC_SEND_CLOSING_FLAG c (drop_bit 1 sr) (Suc s) crc src (bs @ [bit sr 0]) e'"
proof (rule turn_bit [OF assms(1,2) _ refl])
  have f: "enc_fetch e = e" using assms(1) by (intro enc_fetch_none) (simp add: enc_in_def)
  show "enc_turn e = do { e \<leftarrow> enc_flush (e\<lparr>he_h := (he_h e)\<lparr>hv_cbin := hv_cbin (shift_out (bit sr 0) (he_h e)),
      hv_data_bits := hv_data_bits (he_h e) + 1, hv_bits1 := int c, hv_shift_reg := drop_bit 1 sr,
      hv_bit_shift := int (Suc s), hv_crc := crc, hv_state := HDLC_SEND_CLOSING_FLAG\<rparr>\<rparr>);
      Some (More e) }"
    using assms(1,3) unfolding enc_in_def
    by (cases "he_h e"; cases "bit sr 0")
      (simp_all add: enc_turn_def f Let_def enc_closing_flag_def shift_out_def low_bit)
qed simp

lemma flag_bits:
  assumes "enc_in n HDLC_SEND_CLOSING_FLAG c sr (Suc s) crc src bs e" "s < 8" "length bs + s \<le> 8 * n" "c \<noteq> 5"
  shows "\<exists>e' sr'. enc_loop e = enc_loop e' \<and> bit sr' 0 = lsb8 sr ! s \<and>
    enc_in n HDLC_SEND_CLOSING_FLAG c sr' 1 crc src (bs @ take s (lsb8 sr)) e'"
  using assms
proof (induction s arbitrary: sr bs e)
  case 0
  then show ?case by (intro exI [of _ e] exI [of _ sr]) (simp add: lsb8_def upt8)
next
  case (Suc s)
  obtain e1 where e1: "enc_loop e = enc_loop e1"
    "enc_in n HDLC_SEND_CLOSING_FLAG c (drop_bit 1 sr) (Suc s) crc src (bs @ [bit sr 0]) e1"
    using turn_flag [OF Suc.prems(1) _ Suc.prems(4)] Suc.prems(3) by auto
  have x: "take (Suc s) (lsb8 sr) = bit sr 0 # take s (lsb8 (drop_bit 1 sr))"
    by (rule take_lsb8) (use Suc.prems(2) in simp)
  have "lsb8 (drop_bit 1 sr) ! s = lsb8 sr ! Suc s"
    unfolding lsb8_drop using Suc.prems(2) by (simp add: nth_append nth_tl)
  then show ?case
    using Suc.IH [OF e1(2)] Suc.prems(2-4) e1(1) unfolding x by simp
qed

definition fill :: "nat \<Rightarrow> bool list" where
  "fill m = drop m (msb8 (xfast_flag_value ! m))"

lemma xfast_bits: "0 < m \<Longrightarrow> m < 8 \<Longrightarrow> msb8 (xfast_flag_value ! m) = drop (8 - m) flag @ fill m"
proof -
  assume m: "0 < m" "m < 8"
  then have "take m (msb8 (xfast_flag_value ! m)) = drop (8 - m) flag"
    by (auto simp: less8 xfast_flag_value_def msb8_def lsb8_def upt8 flag_def bit_numeral_rec)
  then show ?thesis unfolding fill_def by (metis append_take_drop_id)
qed

text \<open>The last bit. The call ends with the octet it completes, or with one octet of flag behind it.\<close>

lemma enc_end:
  assumes "enc_in n HDLC_SEND_CLOSING_FLAG c sr 1 crc [] (bs0 @ take 7 flag) e" "\<not> bit sr 0" "c \<noteq> 5"
    "length bs0 + 8 \<le> 8 * n"
  shows "\<exists>e' m. enc_loop e = Some (int (length (he_out e')), e') \<and> he_src e' = [] \<and> length (he_out e') \<le> n \<and>
    concat (map msb8 (he_out e')) = bs0 @ flag @ m \<and> length m < 8"
proof -
  note e = assms(1) [unfolded enc_in_def]
  obtain k where k: "hv_data_bits (he_h e) = int k" "k < 8" using e by (metis nonneg_int_cases of_nat_less_numeral_iff)
  have len: "length (bs0 @ take 7 flag) < 8 * n" using assms(4) by simp
  have room: "0 < he_dsize e" by (rule enc_in_room [OF assms(1) len])
  have f: "enc_fetch e = e" using e by (intro enc_fetch_none) simp
  let ?m = "Suc k"
  define h where "h = (he_h e)\<lparr>hv_cbin := hv_cbin (shift_out False (he_h e)), hv_data_bits := int ?m,
    hv_shift_reg := drop_bit 1 sr, hv_bit_shift := 0, hv_ffvalue := xfast_flag_value ! ?m, hv_data_received := False,
    hv_state := HDLC_SEND_FAST_FLAG\<rparr>"
  define e1 where "e1 = e\<lparr>he_h := h, he_dsize := 1\<rparr>"
  have m8: "?m \<le> 8" using k(2) by simp
  have rd: "rd xfast_flag_value ?m = Some (xfast_flag_value ! ?m)"
    using k(2) by (intro rd_in) (simp add: xfast_flag_value_def)
  have closing: "enc_closing_flag e = Some e1"
    using e assms(2,3) room k rd
    by (cases "he_h e") (simp add: enc_closing_flag_def enc_closed_def Let_def shift_out_def low_bit e1_def h_def add.commute nat_add_distrib)
  have turn: "enc_turn e = do { e \<leftarrow> enc_flush e1; Some (More e) }"
    using e closing by (simp add: enc_turn_def f Let_def)
  have "obits (e\<lparr>he_h := h\<rparr>) = obits e @ [False]"
    by (rule obits_shift_out) (use e k in \<open>simp_all add: h_def\<close>)
  then have ob: "obits e1 = bs0 @ flag"
    using e by (simp add: obits_def e1_def flag_def)
  have out: "8 * length (he_out e) + ?m = length bs0 + 8"
  proof -
    have "length (obits e1) = 8 * length (he_out e) + ?m"
      using obits_length [of e1] m8 by (simp add: e1_def h_def)
    then show ?thesis by (simp add: ob)
  qed
  have cap: "length (he_out e) < n" using out assms(4) by simp
  have split: "concat (map msb8 (he_out e)) @ drop (8 - ?m) (msb8 (hv_cbin h)) = bs0 @ flag"
    using ob m8 by (simp add: obits_def e1_def h_def of_nat_diff nat_diff_distrib)
  show ?thesis
  proof (cases "?m = 8")
    case True
    let ?e = "e1\<lparr>he_h := h\<lparr>hv_data_bits := 0\<rparr>, he_out := he_out e @ [hv_cbin h], he_dsize := 0\<rparr>"
    have "enc_flush e1 = Some ?e"
      using True e cap by (simp add: enc_flush_def enc_put_def Let_def e1_def h_def)
    then have "enc_loop e = Some (int (length (he_out ?e)), ?e)"
      using room by (subst enc_loop.simps) (simp add: turn, subst enc_loop.simps, simp)
    moreover have "concat (map msb8 (he_out ?e)) = bs0 @ flag @ []"
      using split True by simp
    ultimately show ?thesis
      using e cap by (intro exI [of _ ?e] exI [of _ "[]"]) (simp add: e1_def)
  next
    case False
    then have m: "?m < 8" using m8 by simp
    have "enc_flush e1 = Some e1" using e m by (simp add: enc_flush_def Let_def e1_def h_def)
    then have l1: "enc_loop e = enc_loop e1" using room by (subst enc_loop.simps) (simp add: turn)
    let ?e = "e1\<lparr>he_h := h\<lparr>hv_closing := False\<rparr>, he_out := he_out e @ [xfast_flag_value ! ?m], he_dsize := 0\<rparr>"
    have "enc_fetch e1 = e1" using e by (simp add: enc_fetch_def e1_def h_def Let_def)
    then have "enc_turn e1 = Some (More ?e)"
      using e cap m by (simp add: enc_turn_def Let_def enc_fast_flag_def enc_put_def enc_flush_def e1_def h_def)
    then have "enc_loop e1 = Some (int (length (he_out ?e)), ?e)"
      by (subst enc_loop.simps) (simp add: e1_def, subst enc_loop.simps, simp)
    moreover have "drop (8 - ?m) (msb8 (hv_cbin h)) = drop (8 - ?m) flag"
    proof -
      have l: "length (drop (8 - ?m) (msb8 (hv_cbin h))) = ?m" using m8 by simp
      have "bs0 @ flag = (bs0 @ take (8 - ?m) flag) @ drop (8 - ?m) flag" by simp
      moreover have "length (drop (8 - ?m) flag) = ?m" using m8 by simp
      ultimately show ?thesis using split l by (metis append_eq_append_conv)
    qed
    then have "concat (map msb8 (he_out ?e)) = bs0 @ flag @ fill ?m"
      using split xfast_bits [of ?m] m by simp
    moreover have "length (fill ?m) < 8" by (simp add: fill_def)
    ultimately show ?thesis
      using e cap l1 by (intro exI [of _ ?e] exI [of _ "fill ?m"]) (simp add: e1_def)
  qed
qed

subsection \<open>A frame\<close>

lemma enc_start:
  assumes "src \<noteq> []" "0 < n"
  shows "\<exists>e'. enc_loop \<lparr>he_h = hdlc_out_init h False False, he_src = b # src, he_out = [], he_cap = n, he_dsize = int n\<rparr> =
    enc_loop e' \<and> enc_in n HDLC_SEND_DATA 0 b 8 0xffff src flag e'"
proof -
  let ?e = "\<lparr>he_h = hdlc_out_init h False False, he_src = b # src, he_out = [], he_cap = n, he_dsize = int n\<rparr>"
  define e' where "e' = ?e\<lparr>he_h := (hdlc_out_init h False False)\<lparr>hv_shift_reg := b, hv_bit_shift := 8, hv_closing := False,
    hv_cbin := 0x7e, hv_state := HDLC_SEND_DATA, hv_crc := 0xffff, hv_bits1 := 0, hv_data_received := True, hv_data_bits := 0\<rparr>,
    he_src := src, he_out := [0x7e], he_dsize := int n - 1\<rparr>"
  have "enc_turn ?e = Some (More e')"
    using assms by (simp add: enc_turn_def enc_fetch_def Let_def hdlc_out_init_def enc_fast_flag_def start_data_def
      enc_flush_def enc_put_def e'_def)
  then have "enc_loop ?e = enc_loop e'" using assms(2) by (subst enc_loop.simps) simp
  moreover have "enc_in n HDLC_SEND_DATA 0 b 8 0xffff src flag e'"
    using assms by (simp add: enc_in_def e'_def obits_def hdlc_out_init_def Let_def msb8_7e)
  ultimately show ?thesis by blast
qed

lemma take7_flag: "flag = take 7 flag @ [False]"
  by (simp add: flag_def)

text \<open>From the first octet on, after the bits \<open>pre\<close>.\<close>

lemma enc_frame:
  assumes "enc_in n HDLC_SEND_DATA 0 b 8 0xffff src pre e" "src \<noteq> []"
    "length (pre @ stuff 0 (frame_bits (b # src)) @ closing_bits (ones 0 (frame_bits (b # src)))) \<le> 8 * n"
  shows "\<exists>e' m. enc_loop e = Some (int (length (he_out e')), e') \<and> he_src e' = [] \<and> length (he_out e') \<le> n \<and>
    concat (map msb8 (he_out e')) = pre @ stuff 0 (frame_bits (b # src)) @ closing_bits (ones 0 (frame_bits (b # src))) @ m"
proof -
  let ?crc = "crc_run 0xffff (b # src)" and ?src = "concat (map lsb8 src)"
  let ?c1 = "ones 0 (lsb8 b)" and ?b1 = "pre @ stuff 0 (lsb8 b)"
  let ?c2 = "ones ?c1 ?src" and ?b2 = "?b1 @ stuff ?c1 ?src"
  let ?fcs = "concat (map lsb8 (fcs ?crc))"
  let ?c3 = "ones ?c2 ?fcs" and ?b3 = "?b2 @ stuff ?c2 ?fcs"
  have fb: "pre @ stuff 0 (frame_bits (b # src)) = ?b3" "ones 0 (frame_bits (b # src)) = ?c3"
    by (simp_all add: frame_bits_def stuff_append ones_append)
  let ?z = "if ?c3 = 5 then [False] else []"
  have line: "pre @ stuff 0 (frame_bits (b # src)) @ closing_bits (ones 0 (frame_bits (b # src))) = (?b3 @ ?z) @ flag"
    using fb by (simp flip: append_assoc)
  have line': "pre @ stuff 0 (frame_bits (b # src)) @ closing_bits (ones 0 (frame_bits (b # src))) @ m = (?b3 @ ?z) @ flag @ m" for m
    using arg_cong [OF line, of "\<lambda>x. x @ m"] by simp
  have len: "length ?b3 + length ?z + 8 \<le> 8 * n" using assms(3) unfolding line by simp
  have len1: "length (pre @ stuff 0 (lsb8 b)) \<le> 8 * n" "length ?b2 \<le> 8 * n" "length ?b3 < 8 * n" "length ?b3 \<le> 8 * n"
    using len by simp_all
  have e1: "enc_in n HDLC_SEND_DATA 0 b (Suc 7) 0xffff src pre e" using assms(1) by simp
  have "length pre < 8 * n" using len by simp
  with enc_bits [OF e1] len1 obtain e2 sr2 where
    e2: "enc_loop e = enc_loop e2" "enc_in n HDLC_SEND_DATA ?c1 sr2 0 (crc_octet 0xffff b) src ?b1 e2" by auto
  obtain e3 sr3 where e3: "enc_loop e2 = enc_loop e3" "enc_in n HDLC_SEND_DATA ?c2 sr3 0 ?crc [] ?b2 e3"
    using enc_octets [OF e2(2) len1(2)] by (auto simp: crc_run_def)
  obtain e4 where e4: "enc_loop e3 = enc_loop e4"
    "enc_in n HDLC_SEND_CLOSING_FLAG ?c3 0x7e 8 (?crc XOR 0xffff) [] ?b3 e4"
    using enc_fcs [OF e3(2) len1(4)] by auto
  define c where "c = (if ?c3 = 5 then 0 else ?c3)"
  have c: "c \<noteq> 5" by (simp add: c_def)
  obtain e5 where e5: "enc_loop e4 = enc_loop e5"
    "enc_in n HDLC_SEND_CLOSING_FLAG c 0x7e (Suc 7) (?crc XOR 0xffff) [] (?b3 @ ?z) e5"
    using turn_unstuffed [OF e4(2) len1(3)] unfolding c_def by auto
  obtain e6 sr6 where e6: "enc_loop e5 = enc_loop e6" "bit sr6 0 = lsb8 0x7e ! 7"
    "enc_in n HDLC_SEND_CLOSING_FLAG c sr6 1 (?crc XOR 0xffff) [] ((?b3 @ ?z) @ take 7 flag) e6"
    using flag_bits [OF e5(2) _ _ c] len by (auto simp: lsb8_7e)
  have "\<not> bit sr6 0" using e6(2) by (simp add: lsb8_7e flag_def)
  then obtain e7 m where e7: "enc_loop e6 = Some (int (length (he_out e7)), e7)" "he_src e7 = []" "length (he_out e7) \<le> n"
    "concat (map msb8 (he_out e7)) = (?b3 @ ?z) @ flag @ m"
    using enc_end [OF e6(3) _ c] len by auto
  then show ?thesis
    unfolding line' using e2(1) e3(1) e4(1) e5(1) e6(1) by (intro exI [of _ e7] exI [of _ m]) simp
qed

lemma hdlc_encode_line:
  assumes "2 \<le> length d" "length (line_bits d) \<le> 8 * n"
  shows "\<exists>h' out m. hdlc_encode (hdlc_out_init h False False) d n = Some (int (length out), length d, h', out) \<and>
    length out \<le> n \<and> concat (map msb8 out) = line_bits d @ m"
proof -
  obtain b src where d: "d = b # src" "src \<noteq> []" using assms(1) by (cases d; cases "tl d") auto
  have "0 < n" using assms(2) by (simp add: line_bits_def)
  from enc_start [OF d(2) this, of h b] obtain e where
    e: "enc_loop \<lparr>he_h = hdlc_out_init h False False, he_src = d, he_out = [], he_cap = n, he_dsize = int n\<rparr> = enc_loop e"
      "enc_in n HDLC_SEND_DATA 0 b 8 0xffff src flag e" using d(1) by auto
  from enc_frame [OF e(2) d(2)] assms(2) obtain e' m where
    "enc_loop e = Some (int (length (he_out e')), e')" "he_src e' = []" "length (he_out e') \<le> n"
    "concat (map msb8 (he_out e')) = line_bits d @ m" unfolding d(1) by (auto simp: line_bits_def)
  then show ?thesis
    using e(1) by (intro exI [of _ "he_h e'"] exI [of _ "he_out e'"] exI [of _ m]) (simp add: hdlc_encode_def)
qed

subsection \<open>A frame of one octet\<close>

text \<open>
  It ends in \<open>shift_reg\<close>: \<open>HDLC_SEND_FAST_FLAG\<close> sees no source left and goes on with flags. The next
  frame starts with it.
\<close>

definition one_octet_left :: "hdlc_vars \<Rightarrow> u8 \<Rightarrow> hdlc_vars" where
  "one_octet_left h b = (hdlc_out_init h False False)\<lparr>hv_shift_reg := b, hv_bit_shift := 8, hv_closing := False, hv_data_bits := 0\<rparr>"

lemma enc_turn_first:
  assumes "0 < he_dsize e" "enc_turn e = Some (More e')"
  shows "enc_loop e = enc_loop e'"
  using assms by (subst enc_loop.simps) simp

lemma enc_flags:
  "length out + k = n \<Longrightarrow>
    enc_loop \<lparr>he_h = one_octet_left h b, he_src = [], he_out = out, he_cap = n, he_dsize = int k\<rparr> =
      Some (int n, \<lparr>he_h = one_octet_left h b, he_src = [], he_out = out @ replicate k 0x7e, he_cap = n, he_dsize = 0\<rparr>)"
proof (induction k arbitrary: out)
  case 0
  then show ?case by (subst enc_loop.simps) simp
next
  case (Suc k)
  have "enc_loop \<lparr>he_h = one_octet_left h b, he_src = [], he_out = out, he_cap = n, he_dsize = int (Suc k)\<rparr> =
      enc_loop \<lparr>he_h = one_octet_left h b, he_src = [], he_out = out @ [0x7e], he_cap = n, he_dsize = int k\<rparr>"
    using Suc.prems
    by (intro enc_turn_first) (simp_all add: enc_turn_def enc_fetch_def Let_def one_octet_left_def hdlc_out_init_def
      enc_fast_flag_def enc_flush_def enc_put_def)
  with Suc.IH [of "out @ [0x7e]"] Suc.prems show ?case by simp
qed

lemma hdlc_encode_one_octet:
  assumes "2 \<le> n"
  shows "hdlc_encode (hdlc_out_init h False False) [b] n = Some (int n, 1, one_octet_left h b, replicate n 0x7e)"
proof -
  define k where "k = n - 2"
  have n: "n = Suc (Suc k)" using assms by (simp add: k_def)
  have "enc_loop \<lparr>he_h = hdlc_out_init h False False, he_src = [b], he_out = [], he_cap = n, he_dsize = int n\<rparr> =
      enc_loop \<lparr>he_h = one_octet_left h b, he_src = [], he_out = [0x7e, 0x7e], he_cap = n, he_dsize = int k\<rparr>"
    using n by (intro enc_turn_first) (simp_all add: enc_turn_def enc_fetch_def Let_def one_octet_left_def hdlc_out_init_def
      enc_fast_flag_def enc_flush_def enc_put_def)
  then show ?thesis using enc_flags [of "[0x7e, 0x7e]" k n h b] n by (simp add: hdlc_encode_def)
qed

lemma hdlc_encode_merged:
  assumes "fr \<noteq> []" "length (line_bits (b # fr)) \<le> 8 * n"
  shows "\<exists>h' out m. hdlc_encode (one_octet_left h b) fr n = Some (int (length out), length fr, h', out) \<and>
    length out \<le> n \<and> concat (map msb8 (0x7e # out)) = line_bits (b # fr) @ m"
proof -
  let ?e = "\<lparr>he_h = one_octet_left h b, he_src = fr, he_out = [], he_cap = n, he_dsize = int n\<rparr>"
  define e' where "e' = ?e\<lparr>he_h := start_data ((one_octet_left h b)\<lparr>hv_cbin := 0\<rparr>)\<rparr>"
  have n: "0 < n" using assms(2) by (simp add: line_bits_def)
  have "enc_loop ?e = enc_loop e'"
    using assms(1) n by (intro enc_turn_first) (simp_all add: enc_turn_def enc_fetch_def Let_def one_octet_left_def hdlc_out_init_def
      enc_fast_flag_def start_data_def enc_flush_def e'_def)
  moreover have "enc_in n HDLC_SEND_DATA 0 b 8 0xffff fr [] e'"
    using assms(1) by (simp add: enc_in_def e'_def obits_def one_octet_left_def hdlc_out_init_def start_data_def Let_def)
  from enc_frame [OF this assms(1)] assms(2) obtain e2 m where
    "enc_loop e' = Some (int (length (he_out e2)), e2)" "he_src e2 = []" "length (he_out e2) \<le> n"
    "concat (map msb8 (0x7e # he_out e2)) = line_bits (b # fr) @ m"
    by (auto simp: line_bits_def msb8_7e)
  ultimately show ?thesis
    by (intro exI [of _ "he_h e2"] exI [of _ "he_out e2"] exI [of _ m]) (simp add: hdlc_encode_def)
qed

end
