(* ===== verification/Hisax_Hdlc_Dec.thy ===== *)
theory Hisax_Hdlc_Dec
  imports Hisax_Hdlc_Bits
begin

unbundle bit_operations_syntax

text \<open>
  The decoder, between octets of the same frame: it takes from the line what the encoder put there.
  \<open>pend\<close> is what it has not looked at yet.
\<close>

definition pend :: "hdlc_vars \<Rightarrow> u8 list \<Rightarrow> bool list" where
  "pend h src = take (nat (hv_bit_shift h)) (msb8 (hv_cbin h)) @ concat (map msb8 src)"

definition dec_in :: "nat \<Rightarrow> nat \<Rightarrow> nat \<Rightarrow> u8 \<Rightarrow> u16 \<Rightarrow> u8 list \<Rightarrow> bool list \<Rightarrow> hdlc_dec \<Rightarrow> bool" where
  "dec_in s c k sr crc got bits d \<longleftrightarrow>
     hv_state (hd_h d) = HDLC_GET_DATA \<and> \<not> hv_adapt56 (hd_h d) \<and> hv_bits1 (hd_h d) = int c \<and>
     hv_data_bits (hd_h d) = int k \<and> hv_shift_reg (hd_h d) = sr \<and> hv_crc (hd_h d) = crc \<and>
     hv_dstpos (hd_h d) = int (length got) \<and> take (length got) (hd_dst d) = got \<and> length got \<le> length (hd_dst d) \<and>
     hd_dsize d = int s + int (length (hd_dst d)) - int (length got) \<and> hd_status d = 0 \<and>
     (got \<noteq> [] \<longrightarrow> hv_data_received (hd_h d)) \<and>
     0 \<le> hv_bit_shift (hd_h d) \<and> hv_bit_shift (hd_h d) \<le> 8 \<and> pend (hd_h d) (hd_src d) = bits"

lemma pend_next:
  assumes "pend h src = x # bits" "0 < hv_bit_shift h" "hv_bit_shift h \<le> 8"
  shows "pend (next_bit h) src = bits" "top_bit h = x"
proof -
  define s where "s = nat (hv_bit_shift h) - 1"
  have s: "hv_bit_shift h = 1 + int s" "nat (hv_bit_shift h) = Suc s" "s < 8" using assms(2,3) by (simp_all add: s_def)
  obtain y ys where m: "msb8 (hv_cbin h) = y # ys" by (cases "msb8 (hv_cbin h)") (use length_bits(2) [of "hv_cbin h"] in auto)
  have ys: "length ys = 7" using arg_cong [OF m, of length] by simp
  have "msb8 (push_bit 1 (hv_cbin h)) = ys @ [False]" using msb8_shift [of "hv_cbin h" False] m by simp
  then show "pend (next_bit h) src = bits"
    using assms(1) s ys m by (simp add: pend_def next_bit_def)
  show "top_bit h = x" using assms(1) s m by (simp add: pend_def top_bit_msb)
qed

lemma dec_fetch_in:
  assumes "dec_in s c k sr crc got (x # bits) d" "8 \<le> length bits"
  shows "dec_in s c k sr crc got (x # bits) (dec_fetch d)" "0 < hv_bit_shift (hd_h (dec_fetch d))"
    "dec_loop d = Option.bind (dec_get_data (dec_fetch d)) (\<lambda>r. case r of Done st d \<Rightarrow> Some (st, d) | More d \<Rightarrow> dec_loop d)"
proof -
  note d = assms(1) [unfolded dec_in_def]
  have src: "hd_src d \<noteq> []"
  proof
    assume "hd_src d = []"
    then have "take (nat (hv_bit_shift (hd_h d))) (msb8 (hv_cbin (hd_h d))) = x # bits" using d by (simp add: pend_def)
    then have "length (take (nat (hv_bit_shift (hd_h d))) (msb8 (hv_cbin (hd_h d)))) = Suc (length bits)" by simp
    then show False using d assms(2) by simp
  qed
  then obtain b bs where b: "hd_src d = b # bs" by (cases "hd_src d") auto
  show i: "dec_in s c k sr crc got (x # bits) (dec_fetch d)"
    using d b by (auto simp: dec_in_def dec_fetch_def pend_def)
  show "0 < hv_bit_shift (hd_h (dec_fetch d))" using d b by (auto simp: dec_fetch_def)
  have "dec_turn d = dec_get_data (dec_fetch d)" using i by (simp add: dec_turn_def Let_def dec_in_def)
  then show "dec_loop d = Option.bind (dec_get_data (dec_fetch d)) (\<lambda>r. case r of Done st d \<Rightarrow> Some (st, d) | More d \<Rightarrow> dec_loop d)"
    using src by (subst dec_loop.simps) simp
qed

text \<open>A turn that takes one bit and does not complete an octet.\<close>

lemma dec_bit:
  assumes "dec_in s c k sr crc got (x # bits) d" "8 \<le> length bits" "k' < 8"
    "\<And>h. hv_bits1 h = int c \<Longrightarrow> hv_data_bits h = int k \<Longrightarrow> hv_shift_reg h = sr \<Longrightarrow> 
       (if x then dec_one h 0 else dec_zero h 0) = 
         Some (h\<lparr>hv_bits1 := int c', hv_data_bits := int k', hv_shift_reg := sr'\<rparr>, 0)"
  shows "\<exists>d'. dec_loop d = dec_loop d' \<and> dec_in s c' k' sr' crc got bits d' \<and> hd_dst d' = hd_dst d"
proof -
  let ?d = "dec_fetch d"
  note f = dec_fetch_in [OF assms(1,2)]
  note i = f(1) [unfolded dec_in_def]
  define h where "h = (hd_h ?d)\<lparr>hv_bits1 := int c', hv_data_bits := int k', hv_shift_reg := sr'\<rparr>"
  have t: "top_bit (hd_h ?d) = x" by (rule pend_next(2)) (use i f(2) in auto)
  have "(if top_bit (hd_h ?d) then dec_one (hd_h ?d) (hd_status ?d) else dec_zero (hd_h ?d) (hd_status ?d)) = Some (h, 0)"
    using assms(4) [of "hd_h ?d"] i by (cases x) (simp_all add: h_def t)
  then have "dec_get_data ?d = Some (More (?d\<lparr>hd_h := next_bit h\<rparr>))"
    using assms(3) i by (simp add: dec_get_data_def h_def)
  moreover have "pend (next_bit h) (hd_src ?d) = bits"
    by (rule pend_next(1)) (use i f(2) in \<open>auto simp: h_def pend_def\<close>)
  then have "dec_in s c' k' sr' crc got bits (?d\<lparr>hd_h := next_bit h\<rparr>)"
    using i f(2) by (simp add: dec_in_def h_def next_bit_def)
  moreover have "hd_dst ?d = hd_dst d" by (simp add: dec_fetch_def split: list.split)
  ultimately show ?thesis using f(3) by (intro exI [of _ "?d\<lparr>hd_h := next_bit h\<rparr>"]) simp
qed

lemma hv_same: "h\<lparr>hv_data_bits := hv_data_bits h\<rparr> = h" "h\<lparr>hv_shift_reg := hv_shift_reg h\<rparr> = (h :: hdlc_vars)"
  by simp_all

lemma dec_stuffed:
  assumes "dec_in s 5 k sr crc got (False # bits) d" "8 \<le> length bits" "k < 8"
  shows "\<exists>d'. dec_loop d = dec_loop d' \<and> dec_in s 0 k sr crc got bits d' \<and> hd_dst d' = hd_dst d"
proof (rule dec_bit [OF assms])
  show "(if False then dec_one h 0 else dec_zero h 0) = Some (h\<lparr>hv_bits1 := int 0, hv_data_bits := int k, hv_shift_reg := sr\<rparr>, 0)"
    if "hv_bits1 h = int 5" "hv_data_bits h = int k" "hv_shift_reg h = sr" for h
    using that by (cases h) (simp add: dec_zero_def)
qed

lemma dec_data_bit:
  assumes "dec_in s c k sr crc got (x # bits) d" "8 \<le> length bits" "k < 7" "c < 5"
  shows "\<exists>d'. dec_loop d = dec_loop d' \<and> dec_in s (if x then Suc c else 0) (Suc k) (shin x sr) crc got bits d' \<and> hd_dst d' = hd_dst d"
proof (rule dec_bit [OF assms(1,2)])
  show "Suc k < 8" using assms(3) by simp
  show "(if x then dec_one h 0 else dec_zero h 0) =
      Some (h\<lparr>hv_bits1 := int (if x then Suc c else 0), hv_data_bits := int (Suc k), hv_shift_reg := shin x sr\<rparr>, 0)"
    if "hv_bits1 h = int c" "hv_data_bits h = int k" "hv_shift_reg h = sr" for h
    using that assms(4) by (cases h) (auto simp: dec_zero_def dec_one_def shin_def Let_def)
qed

lemma dec_sixth:
  assumes "dec_in s 5 k sr crc got (True # bits) d" "8 \<le> length bits" "k < 8"
  shows "\<exists>d'. dec_loop d = dec_loop d' \<and> dec_in s 6 k sr crc got bits d' \<and> hd_dst d' = hd_dst d"
proof (rule dec_bit [OF assms])
  show "(if True then dec_one h 0 else dec_zero h 0) = Some (h\<lparr>hv_bits1 := int 6, hv_data_bits := int k, hv_shift_reg := sr\<rparr>, 0)"
    if "hv_bits1 h = int 5" "hv_data_bits h = int k" "hv_shift_reg h = sr" for h
    using that by (cases h) (simp add: dec_one_def)
qed

text \<open>The eighth bit.\<close>

lemma dec_octet_end:
  assumes "dec_in s c 7 sr crc got (x # bits) d" "8 \<le> length bits" "c < 5" "length got < length (hd_dst d)"
  shows "\<exists>d'. dec_loop d = dec_loop d' \<and> length (hd_dst d') = length (hd_dst d) \<and>
    dec_in s (if x then Suc c else 0) 0 (shin x sr) (crc_octet crc (shin x sr)) (got @ [shin x sr]) bits d'"
proof -
  let ?d = "dec_fetch d" and ?sr = "shin x sr"
  note f = dec_fetch_in [OF assms(1,2)]
  note i = f(1) [unfolded dec_in_def]
  have t: "top_bit (hd_h ?d) = x" by (rule pend_next(2)) (use i f(2) in auto)
  have dst: "hd_dst ?d = hd_dst d" by (simp add: dec_fetch_def split: list.split)
  define h where "h = (hd_h ?d)\<lparr>hv_bits1 := int (if x then Suc c else 0), hv_data_bits := 8, hv_shift_reg := ?sr\<rparr>"
  have "(if top_bit (hd_h ?d) then dec_one (hd_h ?d) (hd_status ?d) else dec_zero (hd_h ?d) (hd_status ?d)) = Some (h, 0)"
    using i t assms(3) by (cases "hd_h ?d") (auto simp: dec_zero_def dec_one_def shin_def Let_def h_def)
  moreover define h2 where "h2 = h\<lparr>hv_data_bits := 0, hv_data_received := True, hv_crc := crc_octet crc ?sr,
    hv_dstpos := int (length got) + 1\<rparr>"
  define d2 where "d2 = ?d\<lparr>hd_h := h2, hd_dsize := hd_dsize ?d - 1, hd_dst := (hd_dst ?d)[length got := ?sr]\<rparr>"
  have "dec_store (?d\<lparr>hd_h := h, hd_status := 0\<rparr>) = Some d2"
    using i assms(4) dst by (cases ?d) (auto simp: dec_store_def Let_def h_def h2_def d2_def)
  ultimately have "dec_get_data ?d = Some (More (d2\<lparr>hd_h := next_bit h2\<rparr>))"
    by (simp add: dec_get_data_def d2_def h_def)
  moreover have "pend (next_bit h2) (hd_src ?d) = bits"
    by (rule pend_next(1)) (use i f(2) in \<open>auto simp: h_def h2_def pend_def\<close>)
  then have "dec_in s (if x then Suc c else 0) 0 ?sr (crc_octet crc ?sr) (got @ [?sr]) bits (d2\<lparr>hd_h := next_bit h2\<rparr>)"
    using i f(2) assms(4) dst
    by (simp add: dec_in_def h_def h2_def d2_def next_bit_def take_Suc_conv_app_nth)
  ultimately show ?thesis
    using f(3) dst by (intro exI [of _ "d2\<lparr>hd_h := next_bit h2\<rparr>"]) (simp add: d2_def)
qed

text \<open>An inserted zero, if one is due.\<close>

lemma dec_unstuff:
  assumes "dec_in s c k sr crc got (stuff c (x # xs) @ bits) d" "8 \<le> length bits" "k < 8"
  shows "\<exists>d'. dec_loop d = dec_loop d' \<and> hd_dst d' = hd_dst d \<and>
    dec_in s (if c = 5 then 0 else c) k sr crc got (x # stuff (if x then Suc (if c = 5 then 0 else c) else 0) xs @ bits) d'"
proof (cases "c = 5")
  case True
  then have "dec_in s 5 k sr crc got (False # x # stuff (if x then 1 else 0) xs @ bits) d" using assms(1) by simp
  from dec_stuffed [OF this _ assms(3)] assms(2)
  obtain d' where "dec_loop d = dec_loop d'" "hd_dst d' = hd_dst d"
      "dec_in s 0 k sr crc got (x # stuff (if x then 1 else 0) xs @ bits) d'" by auto
  with True show ?thesis by (intro exI [of _ d']) (cases x; simp)
qed (use assms in \<open>auto intro!: exI [of _ d]\<close>)

lemma dec_bits:
  assumes "dec_in s c k sr crc got (stuff c xs @ bits) d" "8 \<le> length bits" "k + length xs < 8" "c \<le> 5"
  shows "\<exists>d'. dec_loop d = dec_loop d' \<and> hd_dst d' = hd_dst d \<and>
    dec_in s (ones c xs) (k + length xs) (fold shin xs sr) crc got bits d'"
  using assms
proof (induction xs arbitrary: c k sr d)
  case (Cons x xs)
  define c' where "c' = (if c = 5 then 0 else c)"
  have c': "c' < 5" using Cons.prems(4) by (simp add: c'_def)
  obtain d1 where d1: "dec_loop d = dec_loop d1" "hd_dst d1 = hd_dst d"
      "dec_in s c' k sr crc got (x # stuff (if x then Suc c' else 0) xs @ bits) d1"
    using dec_unstuff [OF Cons.prems(1,2), folded c'_def] Cons.prems(3) by auto
  obtain d2 where d2: "dec_loop d1 = dec_loop d2" "hd_dst d2 = hd_dst d1"
      "dec_in s (if x then Suc c' else 0) (Suc k) (shin x sr) crc got (stuff (if x then Suc c' else 0) xs @ bits) d2"
    using dec_data_bit [OF d1(3)] Cons.prems(2,3) c' by auto
  have "(if x then Suc c' else 0) \<le> 5" using c' by simp
  from Cons.IH [OF d2(3) Cons.prems(2) _ this] Cons.prems(3) d1 d2 show ?case
    by (auto simp: c'_def)
qed auto

lemma ones_le: "c \<le> 5 \<Longrightarrow> ones c xs \<le> 5"
  by (induction xs arbitrary: c) auto

text \<open>Up to the last bit of an octet of which \<open>xs\<close> is still to come.\<close>

lemma dec_to_last:
  assumes "dec_in s c k sr crc got (stuff c xs @ bits) d" "8 \<le> length bits" "c \<le> 5" "k + length xs = 8" "k < 8"
  shows "\<exists>d' c' sr' x. dec_loop d = dec_loop d' \<and> hd_dst d' = hd_dst d \<and> dec_in s c' 7 sr' crc got (x # bits) d' \<and> c' < 5 \<and>
    (if x then Suc c' else 0) = ones c xs \<and> shin x sr' = fold shin xs sr"
proof -
  define ys x where "ys = butlast xs" and "x = last xs"
  have "xs \<noteq> []" using assms(4,5) by auto
  then have l: "xs = ys @ [x]" by (simp add: ys_def x_def)
  have len: "k + length ys = 7" using assms(4) by (simp add: l)
  define c1 where "c1 = ones c ys"
  have in1: "dec_in s c k sr crc got (stuff c ys @ stuff c1 [x] @ bits) d"
    using assms(1) by (simp add: l stuff_append c1_def)
  obtain d1 where d1: "dec_loop d = dec_loop d1" "hd_dst d1 = hd_dst d"
      "dec_in s c1 7 (fold shin ys sr) crc got (stuff c1 [x] @ bits) d1"
    using dec_bits [OF in1 _ _ assms(3)] assms(2) len by (auto simp: c1_def)
  define c' where "c' = (if c1 = 5 then 0 else c1)"
  have c': "c' < 5" using ones_le [OF assms(3), of ys] by (simp add: c'_def c1_def)
  obtain d2 where d2: "dec_loop d1 = dec_loop d2" "hd_dst d2 = hd_dst d1"
      "dec_in s c' 7 (fold shin ys sr) crc got (x # bits) d2"
    using dec_unstuff [OF d1(3) assms(2)] by (auto simp: c'_def)
  have "(if x then Suc c' else 0) = ones c xs" by (auto simp: l ones_append c1_def c'_def)
  moreover have "shin x (fold shin ys sr) = fold shin xs sr" by (simp add: l)
  ultimately show ?thesis using d1 d2 c'
    by (intro exI [of _ d2] exI [of _ c'] exI [of _ "fold shin ys sr"] exI [of _ x]) simp
qed

lemma dec_octet:
  assumes "dec_in s c k sr crc got (stuff c xs @ bits) d" "8 \<le> length bits" "c \<le> 5" "k + length xs = 8" "k < 8"
    "length got < length (hd_dst d)"
  shows "\<exists>d'. dec_loop d = dec_loop d' \<and> length (hd_dst d') = length (hd_dst d) \<and>
    dec_in s (ones c xs) 0 (fold shin xs sr) (crc_octet crc (fold shin xs sr)) (got @ [fold shin xs sr]) bits d'"
proof -
  obtain d1 c1 sr1 x where d1: "dec_loop d = dec_loop d1" "hd_dst d1 = hd_dst d" "dec_in s c1 7 sr1 crc got (x # bits) d1" "c1 < 5"
    and x: "(if x then Suc c1 else 0) = ones c xs" "shin x sr1 = fold shin xs sr"
    using dec_to_last [OF assms(1-5)] by blast
  from dec_octet_end [OF d1(3) assms(2) d1(4)] d1(1,2) assms(6) show ?thesis by (simp add: x)
qed

lemma dec_octets:
  assumes "dec_in s c 0 sr crc got (stuff c (concat (map lsb8 bs)) @ bits) d" "8 \<le> length bits" "c \<le> 5"
    "length got + length bs \<le> length (hd_dst d)"
  shows "\<exists>d' sr'. dec_loop d = dec_loop d' \<and> length (hd_dst d') = length (hd_dst d) \<and>
    dec_in s (ones c (concat (map lsb8 bs))) 0 sr' (crc_run crc bs) (got @ bs) bits d'"
  using assms
proof (induction bs arbitrary: c sr crc got d)
  case (Cons b bs)
  let ?c = "ones c (lsb8 b)"
  have "dec_in s c 0 sr crc got (stuff c (lsb8 b) @ stuff ?c (concat (map lsb8 bs)) @ bits) d"
    using Cons.prems(1) by (simp add: stuff_append)
  from dec_octet [OF this _ Cons.prems(3)] Cons.prems(2,4) shin_octet [of b sr]
  obtain d1 where d1: "dec_loop d = dec_loop d1" "length (hd_dst d1) = length (hd_dst d)"
      "dec_in s ?c 0 b (crc_octet crc b) (got @ [b]) (stuff ?c (concat (map lsb8 bs)) @ bits) d1"
    by auto
  from Cons.IH [OF d1(3) Cons.prems(2) ones_le [OF Cons.prems(3)]] Cons.prems(4) d1(1,2)
  show ?case by (auto simp: ones_append crc_run_def)
qed (auto simp: crc_run_def)

text \<open>The closing flag.\<close>

lemma dec_end:
  assumes "dec_in s 6 k sr 0xf0b8 got (False # bits) d" "8 \<le> length bits" "2 < length got"
  shows "\<exists>d'. dec_loop d = Some (int (length got) - 2, d') \<and> hd_dst d' = hd_dst d"
proof -
  let ?d = "dec_fetch d"
  note f = dec_fetch_in [OF assms(1,2)]
  note i = f(1) [unfolded dec_in_def]
  have t: "\<not> top_bit (hd_h ?d)" using pend_next(2) [of "hd_h ?d" "hd_src ?d" False] i f(2) by auto
  have rd: "rd fast_flag (nat (hv_bit_shift (hd_h ?d))) \<noteq> None" "rd fast_flag_value (nat (hv_bit_shift (hd_h ?d))) \<noteq> None"
    using i by (auto simp: rd_def fast_flag_def fast_flag_value_def)
  have "got \<noteq> []" using assms(3) by auto
  then obtain h where "dec_flag_end (hd_h ?d) 0 = Some (h, int (length got) - 2)"
    using i rd assms(3) by (auto simp: dec_flag_end_def Let_def)
  then have "\<exists>h. dec_zero (hd_h ?d) (hd_status ?d) = Some (h, int (length got) - 2)"
    using i by (simp add: dec_zero_def)
  then obtain d' where "dec_get_data ?d = Some (Done (int (length got) - 2) d')" "hd_dst d' = hd_dst ?d"
    using t assms(3) by (auto simp: dec_get_data_def)
  moreover have "hd_dst ?d = hd_dst d" by (simp add: dec_fetch_def split: list.split)
  ultimately show ?thesis using f(3) by simp
qed

lemma dec_flag:
  assumes "dec_in s c 0 sr 0xf0b8 got (flag @ bits) d" "8 \<le> length bits" "c < 5" "2 < length got"
  shows "\<exists>d'. dec_loop d = Some (int (length got) - 2, d') \<and> hd_dst d' = hd_dst d"
proof -
  let ?xs = "[False, True, True, True, True, True]"
  have "dec_in s c 0 sr 0xf0b8 got (stuff c ?xs @ [True, False] @ bits) d" using assms(1,3) by (simp add: flag_def)
  from dec_bits [OF this] assms(2,3) obtain d1 sr1 where d1: "dec_loop d = dec_loop d1" "hd_dst d1 = hd_dst d"
      "dec_in s 5 6 sr1 0xf0b8 got (True # False # bits) d1" by (auto simp: eval_nat_numeral)
  from dec_sixth [OF d1(3)] assms(2) obtain d2 where d2: "dec_loop d1 = dec_loop d2" "hd_dst d2 = hd_dst d1"
      "dec_in s 6 6 sr1 0xf0b8 got (False # bits) d2" by auto
  from dec_end [OF d2(3) assms(2,4)] d1 d2 show ?thesis by simp
qed

text \<open>The rest of a frame, and a whole frame, from the first bit after the opening flag on.\<close>

lemma dec_rest:
  assumes "dec_in s c 0 sr crc got (stuff c (concat (map lsb8 bs)) @ closing_bits (ones c (concat (map lsb8 bs))) @ bits) d"
    "8 \<le> length bits" "c \<le> 5" "crc_run crc bs = 0xf0b8" "2 < length (got @ bs)" "length (got @ bs) \<le> length (hd_dst d)"
  shows "\<exists>d'. dec_loop d = Some (int (length (got @ bs)) - 2, d') \<and> take (length (got @ bs)) (hd_dst d') = got @ bs"
proof -
  let ?c = "ones c (concat (map lsb8 bs))"
  obtain d1 sr1 where d1: "dec_loop d = dec_loop d1" "dec_in s ?c 0 sr1 0xf0b8 (got @ bs) (closing_bits ?c @ bits) d1"
    using dec_octets [of s c sr crc got bs "closing_bits ?c @ bits" d] assms by auto
  define c' where "c' = (if ?c = 5 then 0 else ?c)"
  have "\<exists>d'. dec_loop d1 = dec_loop d' \<and> dec_in s c' 0 sr1 0xf0b8 (got @ bs) (flag @ bits) d'"
    using d1(2) dec_stuffed [of s 0 sr1 "0xf0b8" "got @ bs" "flag @ bits" d1] assms(2) by (cases "?c = 5") (auto simp: c'_def)
  then obtain d2 where d2: "dec_loop d1 = dec_loop d2" "dec_in s c' 0 sr1 0xf0b8 (got @ bs) (flag @ bits) d2" by blast
  have "c' < 5" using ones_le [OF assms(3), of "concat (map lsb8 bs)"] by (simp add: c'_def)
  with dec_flag [OF d2(2) assms(2)] assms(5)
  obtain d' where d': "dec_loop d2 = Some (int (length (got @ bs)) - 2, d')" "hd_dst d' = hd_dst d2" by auto
  moreover have "take (length (got @ bs)) (hd_dst d2) = got @ bs" using d2(2) by (simp add: dec_in_def)
  ultimately show ?thesis using d1(1) d2(1) by (intro exI [of _ d']) (simp only: simp_thms)
qed

abbreviation (input) octets :: "u8 list \<Rightarrow> u8 list" where
  "octets fr \<equiv> fr @ fcs (crc_run 0xffff fr)"

lemma octets_crc: "crc_run 0xffff (octets fr) = 0xf0b8" "length (octets fr) = length fr + 2"
  using fcs_residue [of "crc_run 0xffff fr"] by (simp_all add: crc_run_def) (simp add: fcs_def)

lemma dec_frame:
  assumes "dec_in 0 0 0 sr 0xffff [] (stuff 0 (frame_bits fr) @ closing_bits (ones 0 (frame_bits fr)) @ bits) d"
    "8 \<le> length bits" "fr \<noteq> []" "length fr + 2 \<le> length (hd_dst d)"
  shows "\<exists>d'. dec_loop d = Some (int (length fr), d') \<and> take (length fr) (hd_dst d') = fr"
proof -
  have "\<exists>d'. dec_loop d = Some (int (length (octets fr)) - 2, d') \<and> take (length (octets fr)) (hd_dst d') = octets fr"
    using dec_rest [of 0 0 sr "0xffff" "[]" "octets fr" bits d] assms octets_crc [of fr]
    by (simp only: frame_bits_def append_Nil) (auto simp: Suc_le_eq)
  then obtain d' where "dec_loop d = Some (int (length fr), d')" and t: "take (length fr + 2) (hd_dst d') = octets fr"
    using octets_crc(2) [of fr] by auto
  moreover have "take (length fr) (hd_dst d') = fr" using arg_cong [OF t, of "take (length fr)"] by simp
  ultimately show ?thesis by simp
qed

text \<open>The opening flag, and any number of octets of idle line before it.\<close>

definition dec_flags :: "hdlc_dec \<Rightarrow> bool" where
  "dec_flags d \<longleftrightarrow>
     hv_state (hd_h d) = HDLC_FAST_FLAG \<and> \<not> hv_adapt56 (hd_h d) \<and> hv_bit_shift (hd_h d) = 0 \<and> hv_ffvalue (hd_h d) = 0x7e \<and>
     hv_ffbit_shift (hd_h d) = 1 \<and> hv_crc (hd_h d) = 0xffff \<and> hv_dstpos (hd_h d) = 0 \<and>
     hd_dsize d = int (length (hd_dst d)) \<and> hd_status d = 0"

lemma dec_turn_first:
  assumes "hd_src d \<noteq> []" "dec_turn d = Some (More d')"
  shows "dec_loop d = dec_loop d'"
  using assms by (subst dec_loop.simps) simp

lemma dec_idle:
  assumes "dec_flags d" "hd_src d = replicate k 0x7e @ src" "src \<noteq> []"
  shows "\<exists>d'. dec_loop d = dec_loop d' \<and> dec_flags d' \<and> hd_src d' = src \<and> hd_dst d' = hd_dst d"
  using assms
proof (induction k arbitrary: d)
  case (Suc k)
  let ?d = "d\<lparr>hd_h := (hd_h d)\<lparr>hv_cbin := 0x7e, hv_bit_shift := 0\<rparr>, hd_src := replicate k 0x7e @ src\<rparr>"
  have "dec_loop d = dec_loop ?d"
    using Suc.prems by (intro dec_turn_first) (simp_all add: dec_turn_def dec_fetch_def dec_flags_def dec_fast_flag_def Let_def)
  moreover have "dec_flags ?d" using Suc.prems(1) by (simp add: dec_flags_def)
  ultimately show ?case using Suc.IH [of ?d] Suc.prems(3) by simp
qed auto

lemma dec_first_octet:
  assumes "dec_flags d" "hd_src d = b # bs" "b \<noteq> 0x7e" "b \<noteq> 0xff" "bs \<noteq> []"
  shows "\<exists>d'. dec_loop d = dec_loop d' \<and> dec_in 0 0 0 0 0xffff [] (concat (map msb8 (b # bs))) d' \<and> hd_dst d' = hd_dst d"
proof -
  let ?d = "d\<lparr>hd_h := (hd_h d)\<lparr>hv_cbin := b, hv_bit_shift := 8, hv_shift_reg := 0, hv_bits1 := 0, hv_data_bits := 0,
    hv_state := HDLC_GET_DATA, hv_data_received := False\<rparr>, hd_src := bs\<rparr>"
  have "dec_loop d = dec_loop ?d"
    using assms by (intro dec_turn_first)
      (simp_all add: dec_turn_def dec_fetch_def dec_flags_def dec_fast_flag_def Let_def rd_def fast_abort_def)
  moreover have "dec_in 0 0 0 0 0xffff [] (concat (map msb8 (b # bs))) ?d"
    using assms(1) by (simp add: dec_in_def dec_flags_def pend_def)
  ultimately show ?thesis by (intro exI [of _ ?d]) simp
qed

definition at_opening :: "hdlc_vars \<Rightarrow> u8 list \<Rightarrow> u8 list \<Rightarrow> u8 \<Rightarrow> int \<Rightarrow> int \<Rightarrow> int \<Rightarrow> u8 \<Rightarrow> hdlc_dec" where
  "at_opening h src dst c s n k sr =
     \<lparr>hd_h = (hdlc_rcv_init h False)\<lparr>hv_cbin := c, hv_bit_shift := s, hv_bits1 := n, hv_data_bits := k, hv_shift_reg := sr\<rparr>,
      hd_src = src, hd_dst = dst, hd_dsize = int (length dst), hd_status = 0\<rparr>"

lemmas opening_defs = at_opening_def dec_turn_def dec_fetch_def Let_def hdlc_rcv_init_def dec_get_data_def top_bit_def next_bit_def

lemma opening_turns:
  assumes "src \<noteq> []"
  shows "dec_loop (at_opening h (0x7e # src) dst 0 0 0 0 0) = dec_loop (at_opening h src dst 0xfc 7 0 1 0)" (is ?t1)
    and "dec_loop (at_opening h src dst 0xfc 7 0 1 0) = dec_loop (at_opening h src dst 0xf8 6 1 2 0x80)" (is ?t2)
    and "dec_loop (at_opening h src dst 0xf8 6 1 2 0x80) = dec_loop (at_opening h src dst 0xf0 5 2 3 0xc0)" (is ?t3)
    and "dec_loop (at_opening h src dst 0xf0 5 2 3 0xc0) = dec_loop (at_opening h src dst 0xe0 4 3 4 0xe0)" (is ?t4)
    and "dec_loop (at_opening h src dst 0xe0 4 3 4 0xe0) = dec_loop (at_opening h src dst 0xc0 3 4 5 0xf0)" (is ?t5)
    and "dec_loop (at_opening h src dst 0xc0 3 4 5 0xf0) = dec_loop (at_opening h src dst 0x80 2 5 6 0xf8)" (is ?t6)
    and "dec_loop (at_opening h src dst 0x80 2 5 6 0xf8) = dec_loop (at_opening h src dst 0 1 6 6 0xf8)" (is ?t7)
proof -
  show ?t1 by (rule dec_turn_first) (simp_all add: opening_defs dec_zero_def)
  show ?t2 ?t3 ?t4 ?t5 ?t6 ?t7
    by (rule dec_turn_first; use assms in \<open>simp add: opening_defs dec_one_def\<close>)+
qed

lemma opening_end:
  assumes "src \<noteq> []"
  shows "\<exists>d. dec_loop (at_opening h src dst 0 1 6 6 0xf8) = dec_loop d \<and> dec_flags d \<and> hd_src d = src \<and> hd_dst d = dst"
proof -
  let ?d = "at_opening h src dst 0 1 6 6 0xf8"
  let ?e = "?d\<lparr>hd_h := (hd_h ?d)\<lparr>hv_crc := 0xffff, hv_shift_reg := 0, hv_data_bits := 0, hv_bits1 := 0, hv_ffvalue := 0x7e,
    hv_state := HDLC_FAST_FLAG, hv_ffbit_shift := 1, hv_bit_shift := 0\<rparr>\<rparr>"
  have "dec_loop ?d = dec_loop ?e"
    by (rule dec_turn_first; use assms in \<open>simp add: opening_defs dec_zero_def dec_flag_end_def rd_def fast_flag_def fast_flag_value_def\<close>)
  moreover have "dec_flags ?e" by (simp add: dec_flags_def at_opening_def hdlc_rcv_init_def)
  ultimately show ?thesis by (intro exI [of _ ?e]) (simp add: at_opening_def)
qed

lemma dec_opening:
  assumes "src \<noteq> []"
  shows "\<exists>d. dec_loop \<lparr>hd_h = hdlc_rcv_init h False, hd_src = 0x7e # src, hd_dst = dst, hd_dsize = int (length dst), hd_status = 0\<rparr> =
      dec_loop d \<and> dec_flags d \<and> hd_src d = src \<and> hd_dst d = dst"
proof -
  have "\<lparr>hd_h = hdlc_rcv_init h False, hd_src = 0x7e # src, hd_dst = dst, hd_dsize = int (length dst), hd_status = 0\<rparr> =
      at_opening h (0x7e # src) dst 0 0 0 0 0"
    by (cases h) (simp add: at_opening_def hdlc_rcv_init_def)
  then show ?thesis using opening_end [OF assms, of h dst] by (simp only: opening_turns [OF assms, of h dst])
qed

subsection \<open>The length of the line, and its first octet\<close>

lemma stuff_length: "c \<le> 5 \<Longrightarrow> 5 * length (stuff c xs) + ones c xs \<le> 6 * length xs + c"
proof (induction c xs rule: stuff.induct)
  case (2 c x xs)
  then show ?case by (cases "c = 5"; cases x) simp_all
qed simp

lemma frame_length: "length (frame_bits fr) = 8 * length fr + 16"
proof -
  have "length (concat (map lsb8 bs)) = 8 * length bs" for bs by (induction bs) simp_all
  then show ?thesis by (simp add: frame_bits_def fcs_def)
qed

lemma line_length: "5 * length (line_bits fr) \<le> 48 * length fr + 176"
  using stuff_length [of 0 "frame_bits fr"] frame_length [of fr] by (auto simp: line_bits_def split: if_splits)

lemma stuff_run: "stuff c xs = replicate n True @ r \<Longrightarrow> c \<le> 5 \<Longrightarrow> c + n \<le> 5"
proof (induction n arbitrary: c xs)
  case (Suc n)
  then show ?case by (cases xs) (fastforce split: if_splits)+
qed simp

lemma first_octet:
  assumes "stuff 0 xs = msb8 b @ r"
  shows "b \<noteq> 0x7e" "b \<noteq> 0xff"
proof -
  show "b \<noteq> 0x7e"
  proof
    assume "b = 0x7e"
    then have s: "stuff 0 xs = False # replicate 6 True @ False # r" using assms by (simp add: msb8_7e flag_def eval_nat_numeral)
    then obtain ys where "stuff 0 ys = replicate 6 True @ False # r" by (cases xs) (auto split: if_splits)
    from stuff_run [OF this] show False by simp
  qed
  show "b \<noteq> 0xff"
  proof
    assume "b = 0xff"
    moreover have "msb8 0xff = replicate 8 True" by (simp add: msb8_def lsb8_def upt8 bit_numeral_rec eval_nat_numeral)
    ultimately show False using assms stuff_run [of 0 xs 8 r] by simp
  qed
qed

lemma dec_line:
  assumes "concat (map msb8 out) = line_bits fr @ m"
  shows "\<exists>d bits. dec_loop \<lparr>hd_h = hdlc_rcv_init g False, hd_src = replicate k 0x7e @ out @ z # zs, hd_dst = dst,
      hd_dsize = int (length dst), hd_status = 0\<rparr> = dec_loop d \<and>
    dec_in 0 0 0 0 0xffff [] (stuff 0 (frame_bits fr) @ closing_bits (ones 0 (frame_bits fr)) @ bits) d \<and> 8 \<le> length bits \<and> hd_dst d = dst"
proof -
  let ?s = "stuff 0 (frame_bits fr)" and ?tail = "closing_bits (ones 0 (frame_bits fr))"
  have s: "8 < length ?s" using stuff_nonempty [of "frame_bits fr" 0] frame_length [of fr] by simp
  obtain b0 b bs where bs: "out = b0 # b # bs"
    using assms s arg_cong [OF assms, of length]
    by (cases out; cases "tl out") (auto simp: line_bits_def split: if_splits)
  have b0: "b0 = 0x7e" and rest: "concat (map msb8 (b # bs)) = ?s @ ?tail @ m"
    using assms bs by (simp_all add: line_bits_def append_eq_append_conv flip: msb8_7e)
  have "take 8 ?s = msb8 b" using arg_cong [OF rest, of "take 8"] s by simp
  then have "?s = msb8 b @ drop 8 ?s" by (metis append_take_drop_id)
  note b = first_octet [OF this]
  let ?src = "replicate k 0x7e @ b # bs @ z # zs"
  have src: "replicate k 0x7e @ out @ z # zs = 0x7e # ?src"
    by (simp add: bs b0 replicate_app_Cons_same)
  obtain d1 where d1: "dec_flags d1" "hd_src d1 = ?src" "hd_dst d1 = dst"
    "dec_loop \<lparr>hd_h = hdlc_rcv_init g False, hd_src = 0x7e # ?src, hd_dst = dst, hd_dsize = int (length dst), hd_status = 0\<rparr> = dec_loop d1"
    using dec_opening [of ?src g dst] by auto
  obtain d2 where d2: "dec_loop d1 = dec_loop d2" "dec_flags d2" "hd_src d2 = b # bs @ z # zs" "hd_dst d2 = dst"
    using dec_idle [OF d1(1,2)] d1(3) by auto
  obtain d3 where d3: "dec_loop d2 = dec_loop d3" "dec_in 0 0 0 0 0xffff [] (concat (map msb8 (b # bs @ z # zs))) d3" "hd_dst d3 = dst"
    using dec_first_octet [OF d2(2,3) b] d2(4) by auto
  have "concat (map msb8 (b # bs @ z # zs)) = ?s @ ?tail @ m @ concat (map msb8 (z # zs))"
    using rest by simp
  then show ?thesis
    using d1(4) d2(1) d3 src by (intro exI [of _ d3] exI [of _ "m @ concat (map msb8 (z # zs))"]) (simp only:, simp)
qed

end
