(* ===== verification/Hisax_Hdlc_Short.thy ===== *)
theory Hisax_Hdlc_Short
  imports Hisax_Hdlc_Dec "HOL-Library.Sublist"
begin

unbundle bit_operations_syntax

text \<open>
  The HDLC decoder with a buffer that is too short for the frame, in one call and over several calls,
  and what a call leaves of its source.
\<close>

subsection \<open>A buffer that is too short\<close>

text \<open>The octet for which there is no room is left out, and the call returns with the next bit.\<close>

lemma dec_octet_over:
  assumes "dec_in 0 c k sr crc got (stuff c xs @ bits) d" "8 \<le> length bits" "c \<le> 5" "k + length xs = 8" "k < 8"
    "length got = length (hd_dst d)"
  shows "\<exists>d'. dec_loop d = dec_loop d' \<and> hd_dst d' = hd_dst d \<and> hd_status d' = - HDLC_LENGTH_ERROR \<and>
    dec_in 0 (ones c xs) 0 (fold shin xs sr) (crc_octet crc (fold shin xs sr)) [] bits
      (d'\<lparr>hd_status := 0, hd_dsize := int (length (hd_dst d))\<rparr>)"
proof -
  obtain d1 c1 sr1 x where d1: "dec_loop d = dec_loop d1" "hd_dst d1 = hd_dst d" "dec_in 0 c1 7 sr1 crc got (x # bits) d1" "c1 < 5"
    and x: "(if x then Suc c1 else 0) = ones c xs" "shin x sr1 = fold shin xs sr"
    using dec_to_last [OF assms(1-5)] by blast
  let ?d = "dec_fetch d1" and ?sr = "fold shin xs sr"
  note f = dec_fetch_in [OF d1(3) assms(2)]
  note i = f(1) [unfolded dec_in_def]
  have t: "top_bit (hd_h ?d) = x" by (rule pend_next(2)) (use i f(2) in auto)
  have dst: "hd_dst ?d = hd_dst d" using d1(2) by (simp add: dec_fetch_def split: list.split)
  define h where "h = (hd_h ?d)\<lparr>hv_bits1 := int (if x then Suc c1 else 0), hv_data_bits := 8, hv_shift_reg := shin x sr1\<rparr>"
  have "(if top_bit (hd_h ?d) then dec_one (hd_h ?d) (hd_status ?d) else dec_zero (hd_h ?d) (hd_status ?d)) = Some (h, 0)"
    using i t d1(4) by (cases "hd_h ?d") (auto simp: dec_zero_def dec_one_def shin_def Let_def h_def)
  moreover define h2 where "h2 = h\<lparr>hv_data_bits := 0, hv_data_received := True, hv_crc := crc_octet crc (shin x sr1), hv_dstpos := 0\<rparr>"
  define d2 where "d2 = ?d\<lparr>hd_h := h2, hd_status := - HDLC_LENGTH_ERROR, hd_dsize := -1\<rparr>"
  have "dec_store (?d\<lparr>hd_h := h, hd_status := 0\<rparr>) = Some d2"
    using i assms(6) dst by (cases ?d) (auto simp: dec_store_def Let_def h_def h2_def d2_def)
  ultimately have "dec_get_data ?d = Some (More (d2\<lparr>hd_h := next_bit h2\<rparr>))"
    by (simp add: dec_get_data_def d2_def h_def)
  moreover have "pend (next_bit h2) (hd_src ?d) = bits"
    by (rule pend_next(1)) (use i f(2) in \<open>auto simp: h_def h2_def pend_def\<close>)
  then have "dec_in 0 (ones c xs) 0 ?sr (crc_octet crc ?sr) [] bits
      (d2\<lparr>hd_h := next_bit h2, hd_status := 0, hd_dsize := int (length (hd_dst d))\<rparr>)"
    using i f(2) dst by (simp add: dec_in_def h_def h2_def d2_def next_bit_def flip: x)
  ultimately show ?thesis
    using f(3) d1(1) dst by (intro exI [of _ "d2\<lparr>hd_h := next_bit h2\<rparr>"]) (simp add: d2_def)
qed

lemma dec_bit_over:
  assumes "dec_in 0 c k sr crc [] (x # bits) (d\<lparr>hd_status := 0, hd_dsize := N\<rparr>)" "8 \<le> length bits" "k' < 8" "hd_status d = st" "st \<noteq> 0"
    "\<And>h. hv_bits1 h = int c \<Longrightarrow> hv_data_bits h = int k \<Longrightarrow> hv_shift_reg h = sr \<Longrightarrow>
       (if x then dec_one h st else dec_zero h st) =
         Some (h\<lparr>hv_bits1 := int c', hv_data_bits := int k', hv_shift_reg := sr'\<rparr>, st)"
  shows "\<exists>d'. dec_loop d = Some (st, d') \<and> hd_dst d' = hd_dst d \<and> dec_in 0 c' k' sr' crc [] bits (d'\<lparr>hd_status := 0, hd_dsize := N\<rparr>)"
proof -
  let ?D = "d\<lparr>hd_status := 0, hd_dsize := N\<rparr>" and ?d = "dec_fetch d"
  have D: "dec_fetch ?D = ?d\<lparr>hd_status := 0, hd_dsize := N\<rparr>" "hd_status ?d = hd_status d" "hd_dst ?d = hd_dst d"
    by (simp_all add: dec_fetch_def split: list.split)
  note f = dec_fetch_in(1,2) [OF assms(1,2), unfolded D]
  have i: "dec_in 0 c k sr crc [] (x # bits) (?d\<lparr>hd_status := 0, hd_dsize := N\<rparr>)" using f(1) .
  note i = i [unfolded dec_in_def, simplified]
  have src: "hd_src d \<noteq> []"
  proof
    assume "hd_src d = []"
    then have "take (nat (hv_bit_shift (hd_h d))) (msb8 (hv_cbin (hd_h d))) = x # bits"
      using assms(1) by (simp add: dec_in_def pend_def)
    then have "length (take (nat (hv_bit_shift (hd_h d))) (msb8 (hv_cbin (hd_h d)))) = Suc (length bits)" by simp
    then show False using assms(2) by simp
  qed
  have f2: "0 < hv_bit_shift (hd_h ?d)" using f(2) by simp
  define h where "h = (hd_h ?d)\<lparr>hv_bits1 := int c', hv_data_bits := int k', hv_shift_reg := sr'\<rparr>"
  have t: "top_bit (hd_h ?d) = x" by (rule pend_next(2)) (use i f2 in auto)
  have "(if top_bit (hd_h ?d) then dec_one (hd_h ?d) (hd_status ?d) else dec_zero (hd_h ?d) (hd_status ?d)) = Some (h, st)"
    using assms(4) assms(6) [of "hd_h ?d"] i D(2) by (cases x) (simp_all add: h_def t)
  then have g: "dec_get_data ?d = Some (Done st (?d\<lparr>hd_h := next_bit (h\<lparr>hv_dstpos := 0\<rparr>), hd_status := st\<rparr>))"
    using assms(5) by (simp add: dec_get_data_def)
  have "dec_turn d = dec_get_data ?d" using i by (simp add: dec_turn_def Let_def)
  then have "dec_loop d = Some (st, ?d\<lparr>hd_h := next_bit (h\<lparr>hv_dstpos := 0\<rparr>), hd_status := st\<rparr>)"
    using src g by (subst dec_loop.simps) simp
  moreover have "pend (next_bit (h\<lparr>hv_dstpos := 0\<rparr>)) (hd_src ?d) = bits"
    by (rule pend_next(1)) (use i f2 in \<open>auto simp: h_def pend_def\<close>)
  then have "dec_in 0 c' k' sr' crc [] bits (?d\<lparr>hd_h := next_bit (h\<lparr>hv_dstpos := 0\<rparr>), hd_status := 0, hd_dsize := N\<rparr>)"
    using i f2 by (simp add: dec_in_def h_def next_bit_def)
  ultimately show ?thesis using D(3) by simp
qed

lemma dec_over_stuffed:
  assumes "dec_in 0 5 0 sr crc [] (False # bits) (d\<lparr>hd_status := 0, hd_dsize := N\<rparr>)" "8 \<le> length bits" "hd_status d = st" "st \<noteq> 0"
  shows "\<exists>d'. dec_loop d = Some (st, d') \<and> hd_dst d' = hd_dst d \<and> dec_in 0 0 0 sr crc [] bits (d'\<lparr>hd_status := 0, hd_dsize := N\<rparr>)"
proof (rule dec_bit_over [OF assms(1,2) _ assms(3,4)])
  show "(if False then dec_one h st else dec_zero h st) = Some (h\<lparr>hv_bits1 := int 0, hv_data_bits := int 0, hv_shift_reg := sr\<rparr>, st)"
    if "hv_bits1 h = int 5" "hv_data_bits h = int 0" "hv_shift_reg h = sr" for h
    using that by (cases h) (simp add: dec_zero_def)
qed simp

lemma dec_over_bit:
  assumes "dec_in 0 c 0 sr crc [] (x # bits) (d\<lparr>hd_status := 0, hd_dsize := N\<rparr>)" "8 \<le> length bits" "hd_status d = st" "st \<noteq> 0" "c < 5"
  shows "\<exists>d'. dec_loop d = Some (st, d') \<and> hd_dst d' = hd_dst d \<and>
    dec_in 0 (if x then Suc c else 0) 1 (shin x sr) crc [] bits (d'\<lparr>hd_status := 0, hd_dsize := N\<rparr>)"
proof (rule dec_bit_over [OF assms(1,2) _ assms(3,4)])
  show "(if x then dec_one h st else dec_zero h st) =
      Some (h\<lparr>hv_bits1 := int (if x then Suc c else 0), hv_data_bits := int 1, hv_shift_reg := shin x sr\<rparr>, st)"
    if "hv_bits1 h = int c" "hv_data_bits h = int 0" "hv_shift_reg h = sr" for h
    using that assms(5) by (cases h) (auto simp: dec_zero_def dec_one_def shin_def Let_def)
qed simp

lemma dec_over_next:
  assumes "dec_in 0 c 0 sr crc [] (stuff c (concat (map lsb8 (b # bs))) @ closing_bits (ones c (concat (map lsb8 (b # bs)))) @ bits)
      (d\<lparr>hd_status := 0, hd_dsize := N\<rparr>)" "hd_status d = st" "st \<noteq> 0" "c \<le> 5" "8 \<le> length bits"
    "crc_run crc (b # bs) = 0xf0b8" "1 < length bs" "length bs < length (hd_dst d)"
  shows "\<exists>d1. dec_loop d = Some (st, d1) \<and> hd_dst d1 = hd_dst d \<and>
    (\<exists>d2. dec_loop (d1\<lparr>hd_status := 0, hd_dsize := N\<rparr>) = Some (int (length bs) - 1, d2) \<and>
      take (Suc (length bs)) (hd_dst d2) = b # bs)"
proof -
  obtain x xs where x: "lsb8 b = x # xs" using length_bits(1) [of b] by (cases "lsb8 b") (auto simp del: length_bits)
  have xs: "length xs = 7" using arg_cong [OF x, of length] by simp
  let ?ys = "concat (map lsb8 bs)"
  let ?tail = "closing_bits (ones c (x # xs @ ?ys))"
  have in1: "dec_in 0 c 0 sr crc [] (stuff c (x # xs @ ?ys) @ ?tail @ bits) (d\<lparr>hd_status := 0, hd_dsize := N\<rparr>)"
    using assms(1) by (simp only: x list.map concat.simps append_Cons)
  show ?thesis
  proof (cases "c = 5")
    case True
    let ?bits = "x # stuff (if x then 1 else 0) (xs @ ?ys) @ ?tail @ bits"
    have "dec_in 0 5 0 sr crc [] (False # ?bits) (d\<lparr>hd_status := 0, hd_dsize := N\<rparr>)" using in1 True by simp
    moreover have "8 \<le> length ?bits" using assms(5) by simp
    ultimately obtain d1 where d1: "dec_loop d = Some (st, d1)" "hd_dst d1 = hd_dst d"
        "dec_in 0 0 0 sr crc [] ?bits (d1\<lparr>hd_status := 0, hd_dsize := N\<rparr>)"
      using dec_over_stuffed assms(2,3) by blast
    have "?bits = stuff 0 (concat (map lsb8 (b # bs))) @ closing_bits (ones 0 (concat (map lsb8 (b # bs)))) @ bits"
      using True by (simp add: x)
    then have in2: "dec_in 0 0 0 sr crc [] (stuff 0 (concat (map lsb8 (b # bs))) @ closing_bits (ones 0 (concat (map lsb8 (b # bs)))) @ bits)
        (d1\<lparr>hd_status := 0, hd_dsize := N\<rparr>)" using d1(3) by (simp only:)
    have "\<exists>d2. dec_loop (d1\<lparr>hd_status := 0, hd_dsize := N\<rparr>) = Some (int (length ([] @ b # bs)) - 2, d2) \<and>
        take (length ([] @ b # bs)) (hd_dst d2) = [] @ b # bs"
      by (rule dec_rest [OF in2 assms(5) _ assms(6)]) (use assms(7,8) d1(2) in simp_all)
    then show ?thesis using d1(1,2) by simp
  next
    case False
    let ?c = "if x then Suc c else 0"
    let ?bits = "stuff ?c xs @ stuff (ones ?c xs) ?ys @ ?tail @ bits"
    have c: "c < 5" using False assms(4) by simp
    have c': "?c \<le> 5" using c by simp
    have "dec_in 0 c 0 sr crc [] (x # ?bits) (d\<lparr>hd_status := 0, hd_dsize := N\<rparr>)"
      using in1 False by (simp only: stuff.simps if_False append_Cons stuff_append append_assoc)
    moreover have "8 \<le> length ?bits" using assms(5) by simp
    ultimately obtain d1 where d1: "dec_loop d = Some (st, d1)" "hd_dst d1 = hd_dst d"
        "dec_in 0 ?c 1 (shin x sr) crc [] ?bits (d1\<lparr>hd_status := 0, hd_dsize := N\<rparr>)"
      using dec_over_bit assms(2,3) c by blast
    have b: "fold shin xs (shin x sr) = b" using shin_octet [of b sr] by (simp add: x)
    have "\<exists>d2. dec_loop (d1\<lparr>hd_status := 0, hd_dsize := N\<rparr>) = dec_loop d2 \<and>
        length (hd_dst d2) = length (hd_dst (d1\<lparr>hd_status := 0, hd_dsize := N\<rparr>)) \<and>
        dec_in 0 (ones ?c xs) 0 b (crc_octet crc b) ([] @ [b]) (stuff (ones ?c xs) ?ys @ ?tail @ bits) d2"
      by (rule dec_octet [OF d1(3) _ c', unfolded b]) (use xs d1(2) assms(5,8) in auto)
    then obtain d2 where d2: "dec_loop (d1\<lparr>hd_status := 0, hd_dsize := N\<rparr>) = dec_loop d2" "length (hd_dst d2) = length (hd_dst d)"
        "dec_in 0 (ones ?c xs) 0 b (crc_octet crc b) [b] (stuff (ones ?c xs) ?ys @ ?tail @ bits) d2" using d1(2) by auto
    have "?tail = closing_bits (ones (ones ?c xs) ?ys)" using False by (simp only: ones.simps if_False ones_append)
    with d2(3) have in3: "dec_in 0 (ones ?c xs) 0 b (crc_octet crc b) [b]
        (stuff (ones ?c xs) ?ys @ closing_bits (ones (ones ?c xs) ?ys) @ bits) d2" by (simp only:)
    have "\<exists>d3. dec_loop d2 = Some (int (length ([b] @ bs)) - 2, d3) \<and> take (length ([b] @ bs)) (hd_dst d3) = [b] @ bs"
      by (rule dec_rest [OF in3 assms(5) ones_le [OF c']]) (use assms(6,7,8) d2(2) in \<open>simp_all add: crc_run_def\<close>)
    then show ?thesis using d1(1,2) d2(1) by simp
  qed
qed

subsection \<open>What is left of the source\<close>

lemma suffix_drop: "suffix xs ys \<Longrightarrow> drop (length ys - length xs) ys = xs"
  by (auto simp: suffix_def)

lemma dec_turn_src:
  assumes "dec_turn d = Some r"
  shows "suffix (hd_src (case r of More d' \<Rightarrow> d' | Done st d' \<Rightarrow> d')) (hd_src d)"
proof -
  have f: "suffix (hd_src (dec_fetch d)) (hd_src d)"
    by (auto simp: dec_fetch_def intro: suffix_ConsI split: list.split)
  have s: "hd_src d2 = hd_src d1" if "dec_store d1 = Some d2" for d1 d2
    using that by (auto simp: dec_store_def Let_def split: if_splits)
  have g: "hd_src (case r of More d' \<Rightarrow> d' | Done st d' \<Rightarrow> d') = hd_src d1" if "dec_get_data d1 = Some r" for d1
    using that by (auto simp: dec_get_data_def Let_def bind_eq_Some_conv split: if_splits dest!: s)
  show ?thesis
    using assms f g [of "dec_fetch d"] 
    by (auto simp: dec_turn_def Let_def bind_eq_Some_conv split: if_splits)
qed

lemma dec_loop_src:
  assumes "dec_loop d = Some (st, d')"
  shows "suffix (hd_src d') (hd_src d)"
proof -
  have "suffix (hd_src (snd (st, d'))) (hd_src d)"
  proof (rule dec_loop.raw_induct [OF _ assms])
    fix dec_loop :: "hdlc_dec \<Rightarrow> (int \<times> hdlc_dec) option" and d y
    assume 1: "\<And>d y. dec_loop d = Some y \<Longrightarrow> suffix (hd_src (snd y)) (hd_src d)"
      "(if hd_src d = [] then Some (0, d)
        else Option.bind (dec_turn d) (\<lambda>r. case r of Done st d \<Rightarrow> Some (st, d) | More d \<Rightarrow> dec_loop d)) = Some y"
    show "suffix (hd_src (snd y)) (hd_src d)"
    proof (cases "hd_src d = []")
      case False
      with 1(2) obtain r where r: "dec_turn d = Some r" "(case r of Done st d \<Rightarrow> Some (st, d) | More d \<Rightarrow> dec_loop d) = Some y"
        by (auto simp: bind_eq_Some_conv)
      show ?thesis
      proof (cases r)
        case (More d')
        then have "suffix (hd_src (snd y)) (hd_src d')" using r(2) 1(1) by simp
        then show ?thesis using dec_turn_src [OF r(1)] More by (auto intro: suffix_order.trans)
      next
        case (Done st d')
        then show ?thesis using dec_turn_src [OF r(1)] r(2) by auto
      qed
    qed (use 1(2) in auto)
  qed
  then show ?thesis by simp
qed


subsection \<open>A frame that goes on in the next call\<close>

text \<open>With a size named that is greater than what is left of the buffer, the octet after the last goes behind it.\<close>

lemma dec_octet_none:
  assumes "dec_in s c k sr crc got (stuff c xs @ bits) d" "8 \<le> length bits" "c \<le> 5" "k + length xs = 8" "k < 8"
    "length got = length (hd_dst d)" "0 < s"
  shows "dec_loop d = None"
proof -
  obtain d1 c1 sr1 x where d1: "dec_loop d = dec_loop d1" "hd_dst d1 = hd_dst d" "dec_in s c1 7 sr1 crc got (x # bits) d1" "c1 < 5"
    using dec_to_last [OF assms(1-5)] by blast
  let ?d = "dec_fetch d1"
  note f = dec_fetch_in [OF d1(3) assms(2)]
  note i = f(1) [unfolded dec_in_def]
  have t: "top_bit (hd_h ?d) = x" by (rule pend_next(2)) (use i f(2) in auto)
  have dst: "hd_dst ?d = hd_dst d" using d1(2) by (simp add: dec_fetch_def split: list.split)
  define h where "h = (hd_h ?d)\<lparr>hv_bits1 := int (if x then Suc c1 else 0), hv_data_bits := 8, hv_shift_reg := shin x sr1\<rparr>"
  have "(if top_bit (hd_h ?d) then dec_one (hd_h ?d) (hd_status ?d) else dec_zero (hd_h ?d) (hd_status ?d)) = Some (h, 0)"
    using i t d1(4) by (cases "hd_h ?d") (auto simp: dec_zero_def dec_one_def shin_def Let_def h_def)
  moreover have "dec_store (?d\<lparr>hd_h := h, hd_status := 0\<rparr>) = None"
    using i assms(6,7) dst by (simp add: dec_store_def Let_def h_def)
  ultimately have "dec_get_data ?d = None" by (simp add: dec_get_data_def h_def)
  then show ?thesis using f(3) d1(1) by simp
qed

lemma stuff_zeros [simp]: "stuff 0 (replicate n False) = replicate n False" "ones 0 (replicate n False) = 0"
  by (induction n) simp_all

lemma msb8_zero: "msb8 0 = replicate 8 False" and zeros_msb8: "concat (replicate n (msb8 0)) = replicate (8 * n) False"
proof -
  show z: "msb8 0 = replicate 8 False" by (simp add: msb8_def lsb8_def upt8 eval_nat_numeral)
  show "concat (replicate n (msb8 0)) = replicate (8 * n) False"
    by (induction n) (simp_all add: z flip: replicate_add)
qed

lemma dec_zeros:
  assumes "dec_in s 0 k sr crc got (replicate (8 - k) False @ replicate m False) d" "0 < s" "k < 8"
    "length (hd_dst d) = length got + n" "8 * n + 8 \<le> m"
  shows "dec_loop d = None"
  using assms
proof (induction n arbitrary: k sr crc got m d)
  case 0
  have "dec_in s 0 k sr crc got (stuff 0 (replicate (8 - k) False) @ replicate m False) d" using "0.prems"(1) by simp
  then show ?case by (rule dec_octet_none) (use 0 in simp_all)
next
  case (Suc n)
  have i: "dec_in s 0 k sr crc got (stuff 0 (replicate (8 - k) False) @ replicate m False) d" using Suc.prems(1) by simp
  have l: "8 \<le> length (replicate m False)" "k + length (replicate (8 - k) False) = 8" "length got < length (hd_dst d)"
    using Suc.prems(3-5) by simp_all
  define sr' where "sr' = fold shin (replicate (8 - k) False) sr"
  obtain d' where d': "dec_loop d = dec_loop d'" "length (hd_dst d') = length (hd_dst d)"
      "dec_in s 0 0 sr' (crc_octet crc sr') (got @ [sr']) (replicate m False) d'"
    using dec_octet [OF i l(1) _ l(2) Suc.prems(3) l(3)] unfolding stuff_zeros sr'_def [symmetric] by blast
  define m' where "m' = m - 8"
  have m: "m = 8 + m'" using Suc.prems(5) by (simp add: m'_def)
  have "dec_in s 0 0 sr' (crc_octet crc sr') (got @ [sr']) (replicate (8 - 0) False @ replicate m' False) d'"
    using d'(3) unfolding m replicate_add by simp
  then have "dec_loop d' = None"
    by (rule Suc.IH) (use Suc.prems(2,4,5) d'(2) m in simp_all)
  with d'(1) show ?case by simp
qed


end
