(* ===== verification/Hisax_Hdlc_Props.thy ===== *)
theory Hisax_Hdlc_Props
  imports Hisax_Hdlc_Enc Hisax_Hdlc_Short
begin

unbundle bit_operations_syntax

text \<open>The HDLC coder of the ST5481: encoder and decoder together, and where they go wrong.\<close>

subsection \<open>There and back\<close>

lemma decode_line_frame:
  assumes "concat (map msb8 out) = line_bits fr @ m" "src = replicate k 0x7e @ out @ z # zs" "fr \<noteq> []" "length fr + 2 \<le> length dst"
  shows "\<exists>cnt g' dst'. hdlc_decode (hdlc_rcv_init g False) src dst (int (length dst)) = Some (int (length fr), cnt, g', dst') \<and>
    take (length fr) dst' = fr"
proof -
  obtain d bits where d: "dec_loop \<lparr>hd_h = hdlc_rcv_init g False, hd_src = src, hd_dst = dst,
      hd_dsize = int (length dst), hd_status = 0\<rparr> = dec_loop d" "hd_dst d = dst" "8 \<le> length bits"
    and i: "dec_in 0 0 0 0 0xffff [] (stuff 0 (frame_bits fr) @ closing_bits (ones 0 (frame_bits fr)) @ bits) d"
    using dec_line [OF assms(1)] assms(2) by blast
  from dec_frame [OF i d(3) assms(3)] d(2) assms(4) show ?thesis by (auto simp: hdlc_decode_def d(1))
qed

text \<open>
  C24. What the encoder makes of a frame of at least two octets, in a buffer with room for it, the
  decoder turns back into the frame: after any number of octets of idle line, and with an octet to
  follow, it returns the length of the frame and has it at the start of its buffer.
\<close>

theorem hdlc_roundtrip:
  assumes "2 \<le> length fr" "6 * length fr + 22 \<le> 5 * n" "length fr + 2 \<le> length dst"
  shows "\<exists>h' out. hdlc_encode (hdlc_out_init h False False) fr n = Some (int (length out), length fr, h', out) \<and> length out \<le> n \<and>
    (\<forall>g k z zs. \<exists>cnt g' dst'.
       hdlc_decode (hdlc_rcv_init g False) (replicate k 0x7e @ out @ z # zs) dst (int (length dst)) = Some (int (length fr), cnt, g', dst') \<and>
       take (length fr) dst' = fr)"
proof -
  have "length (line_bits fr) \<le> 8 * n" using line_length [of fr] assms(2) by simp
  from hdlc_encode_line [OF assms(1) this, of h] obtain h' out m where
    e: "hdlc_encode (hdlc_out_init h False False) fr n = Some (int (length out), length fr, h', out)" "length out \<le> n"
      and out: "concat (map msb8 out) = line_bits fr @ m" by blast
  have fr: "fr \<noteq> []" using assms(1) by auto
  have "\<exists>cnt g' dst'.
       hdlc_decode (hdlc_rcv_init g False) (replicate k 0x7e @ out @ z # zs) dst (int (length dst)) = Some (int (length fr), cnt, g', dst') \<and>
       take (length fr) dst' = fr" for g k z zs
    using decode_line_frame [OF out refl fr assms(3)] by blast
  with e show ?thesis by blast
qed

text \<open>The hypotheses hold for a frame of four octets.\<close>

theorem hdlc_roundtrip_witness:
  "\<forall>h. \<exists>h' out. hdlc_encode (hdlc_out_init h False False) [0xfe, 0xff, 0x03, 0x7e] 20 = Some (int (length out), 4, h', out) \<and> length out \<le> 20 \<and>
    (\<forall>g k z zs. \<exists>cnt g' dst'.
       hdlc_decode (hdlc_rcv_init g False) (replicate k 0x7e @ out @ z # zs) (replicate 6 0) 6 = Some (4, cnt, g', dst') \<and>
       take 4 dst' = [0xfe, 0xff, 0x03, 0x7e])"
  using hdlc_roundtrip [of "[0xfe, 0xff, 0x03, 0x7e]" 20 "replicate 6 0"] by (simp add: eval_nat_numeral)

subsection \<open>Frames that are too long\<close>

text \<open>
  C38. The position in the buffer goes on from call to call, but \<open>dsize\<close> does not: \<open>usb_in_complete\<close> names
  the whole of its buffer each time. Two octets of a frame in one call, and the rest of the frame in
  the next, are written behind the buffer, whatever its size.
\<close>

theorem hdlc_decode_overruns:
  "\<exists>cnt g1 dst1. hdlc_decode (hdlc_rcv_init g False) [0x7e, 0, 0] (x # buf) (int (length (x # buf))) = Some (0, cnt, g1, dst1) \<and>
     length dst1 = length (x # buf) \<and>
     hdlc_decode g1 (replicate (length (x # buf) + 1) 0) dst1 (int (length (x # buf))) = None"
proof -
  let ?dst = "x # buf" and ?N = "length (x # buf)"
  let ?d = "\<lparr>hd_h = hdlc_rcv_init g False, hd_src = 0x7e # [0, 0], hd_dst = ?dst, hd_dsize = int ?N, hd_status = 0\<rparr>"
  obtain d1 where d1: "dec_loop ?d = dec_loop d1" "dec_flags d1" "hd_src d1 = [0, 0]" "hd_dst d1 = ?dst"
    using dec_opening [of "[0, 0]" g ?dst] by auto
  obtain d2 where d2: "dec_loop d1 = dec_loop d2" "dec_in 0 0 0 0 0xffff [] (concat (map msb8 [0, 0])) d2" "hd_dst d2 = ?dst"
    using dec_first_octet [OF d1(2,3)] d1(4) by auto
  have "dec_in 0 0 0 0 0xffff [] (stuff 0 (replicate 8 False) @ replicate 8 False) d2" using d2(2) by (simp add: msb8_zero)
  from dec_octet [OF this] d2(3) obtain d3 sr crc where d3: "dec_loop d2 = dec_loop d3" "length (hd_dst d3) = ?N"
      "dec_in 0 0 0 sr crc [sr] (replicate 8 False) d3" by auto
  note i = d3(3) [unfolded dec_in_def]
  have "\<exists>d4 k sr' crc'. dec_loop d3 = Some (0, d4) \<and> length (hd_dst d4) = ?N \<and> hd_src d4 = [] \<and> k < 8 \<and>
      dec_in 0 0 k sr' crc' [sr] (replicate (8 - k) False) d4"
  proof (cases "hd_src d3")
    case Nil
    then have "dec_loop d3 = Some (0, d3)" by (subst dec_loop.simps) simp
    then show ?thesis using Nil d3 by (intro exI [of _ d3] exI [of _ 0] exI [of _ sr] exI [of _ crc]) auto
  next
    case (Cons b bs)
    have len: "length (pend (hd_h d3) (hd_src d3)) = 8" using i by simp
    then have "bs = []" "hv_bit_shift (hd_h d3) = 0" using Cons i by (cases bs; auto simp: pend_def)+
    then have "msb8 b = msb8 0" using Cons i by (simp add: pend_def msb8_zero)
    then have b: "b = 0" by (simp only: msb8_inj)
    let ?e = "d3\<lparr>hd_src := [], hd_h := (hd_h d3)\<lparr>hv_cbin := 0, hv_bit_shift := 7, hv_shift_reg := drop_bit 1 sr, hv_data_bits := 1, hv_bits1 := 0\<rparr>\<rparr>"
    have "dec_loop d3 = dec_loop ?e"
      using Cons i \<open>hv_bit_shift (hd_h d3) = 0\<close> \<open>bs = []\<close> b
      by (intro dec_turn_first)
        (simp_all add: dec_turn_def dec_fetch_def Let_def dec_get_data_def top_bit_def dec_zero_def next_bit_def)
    also have "\<dots> = Some (0, ?e)" by (subst dec_loop.simps) simp
    finally have "dec_loop d3 = Some (0, ?e)" .
    moreover have "dec_in 0 0 1 (drop_bit 1 sr) crc [sr] (replicate (8 - 1) False) ?e"
      using i by (simp add: dec_in_def pend_def msb8_zero)
    ultimately show ?thesis using d3(2) by (intro exI [of _ ?e] exI [of _ 1] exI [of _ "drop_bit 1 sr"] exI [of _ crc]) auto
  qed
  then obtain d4 k sr' crc' where d4: "dec_loop d3 = Some (0, d4)" "length (hd_dst d4) = ?N" "hd_src d4 = []" "k < 8"
      "dec_in 0 0 k sr' crc' [sr] (replicate (8 - k) False) d4" by blast
  have l: "dec_loop ?d = Some (0, d4)" using d1(1) d2(1) d3(1) d4(1) by simp
  let ?e = "\<lparr>hd_h = hd_h d4, hd_src = replicate (?N + 1) 0, hd_dst = hd_dst d4, hd_dsize = int ?N, hd_status = 0\<rparr>"
  have "dec_in 1 0 k sr' crc' [sr] (replicate (8 - k) False @ replicate (8 * (?N + 1)) False) ?e"
    using d4 zeros_msb8 [of "?N + 1"] unfolding dec_in_def by (simp add: pend_def)
  then have "dec_loop ?e = None"
    by (rule dec_zeros [where n = "length buf"]) (use d4(2,4) in simp_all)
  then show ?thesis using l d4(2) by (simp add: hdlc_decode_def)
qed

text \<open>
  C39. A frame longer than the buffer is answered with the length error, but the decoder stays in the frame
  and its CRC runs on. When the rest fits the buffer, the next call on the rest of the source returns the
  octets behind the one that did not fit as a good frame.
\<close>

theorem hdlc_long_frame_tail:
  assumes "length dst + 2 \<le> length fr" "length fr < 2 * length dst" "6 * length fr + 22 \<le> 5 * n"
  shows "\<exists>h' out. hdlc_encode (hdlc_out_init h False False) fr n = Some (int (length out), length fr, h', out) \<and> length out \<le> n \<and>
    (\<forall>g k z zs. \<exists>cnt g1 dst1 cnt2 g2 dst2.
       hdlc_decode (hdlc_rcv_init g False) (replicate k 0x7e @ out @ z # zs) dst (int (length dst)) =
         Some (- HDLC_LENGTH_ERROR, cnt, g1, dst1) \<and>
       hdlc_decode g1 (drop cnt (replicate k 0x7e @ out @ z # zs)) dst1 (int (length dst)) =
         Some (int (length fr) - int (length dst) - 1, cnt2, g2, dst2) \<and>
       take (length fr - length dst - 1) dst2 = drop (length dst + 1) fr)"
proof -
  let ?N = "length dst"
  have two: "2 \<le> length fr" using assms(1) by simp
  have "length (line_bits fr) \<le> 8 * n" using line_length [of fr] assms(3) by simp
  from hdlc_encode_line [OF two this, of h] obtain h' out m where
    e: "hdlc_encode (hdlc_out_init h False False) fr n = Some (int (length out), length fr, h', out)" "length out \<le> n"
      and out: "concat (map msb8 out) = line_bits fr @ m" by blast
  define as b0 b bs where "as = take ?N (octets fr)" and "b0 = octets fr ! ?N" and "b = octets fr ! (?N + 1)" and "bs = drop (?N + 2) (octets fr)"
  have o: "octets fr = as @ b0 # b # bs"
    using assms(1) octets_crc(2) [of fr] Cons_nth_drop_Suc [of ?N "octets fr"] Cons_nth_drop_Suc [of "?N + 1" "octets fr"]
      append_take_drop_id [of ?N "octets fr"]
    unfolding as_def b0_def b_def bs_def by (simp del: append_take_drop_id take_append drop_append)
  have las: "length as = ?N" using assms(1) by (simp add: as_def)
  have lbs: "length bs = length fr - ?N" using octets_crc(2) [of fr] assms(1) by (simp add: bs_def)
  have bbs: "drop (?N + 1) (octets fr) = b # bs" unfolding o using las by simp
  have fb: "frame_bits fr = concat (map lsb8 as) @ lsb8 b0 @ concat (map lsb8 (b # bs))" unfolding frame_bits_def o by simp
  have "\<exists>cnt g1 dst1 cnt2 g2 dst2.
       hdlc_decode (hdlc_rcv_init g False) (replicate k 0x7e @ out @ z # zs) dst (int ?N) = Some (- HDLC_LENGTH_ERROR, cnt, g1, dst1) \<and>
       hdlc_decode g1 (drop cnt (replicate k 0x7e @ out @ z # zs)) dst1 (int ?N) =
         Some (int (length fr) - int ?N - 1, cnt2, g2, dst2) \<and>
       take (length fr - ?N - 1) dst2 = drop (?N + 1) fr" for g k z zs
  proof -
    let ?src = "replicate k 0x7e @ out @ z # zs"
    let ?d = "\<lparr>hd_h = hdlc_rcv_init g False, hd_src = ?src, hd_dst = dst, hd_dsize = int ?N, hd_status = 0\<rparr>"
    obtain d bits where d: "dec_loop ?d = dec_loop d" "hd_dst d = dst" "8 \<le> length bits"
      and i: "dec_in 0 0 0 0 0xffff [] (stuff 0 (frame_bits fr) @ closing_bits (ones 0 (frame_bits fr)) @ bits) d"
      using dec_line [OF out] by blast
    let ?c1 = "ones 0 (concat (map lsb8 as))"
    let ?c2 = "ones ?c1 (lsb8 b0)"
    let ?bits2 = "stuff ?c2 (concat (map lsb8 (b # bs))) @ closing_bits (ones ?c2 (concat (map lsb8 (b # bs)))) @ bits"
    have i1: "dec_in 0 0 0 0 0xffff [] (stuff 0 (concat (map lsb8 as)) @ stuff ?c1 (lsb8 b0) @ ?bits2) d"
      using i unfolding fb stuff_append ones_append append_assoc .
    obtain d1 sr1 where d1: "dec_loop d = dec_loop d1" "length (hd_dst d1) = ?N"
        "dec_in 0 ?c1 0 sr1 (crc_run 0xffff as) as (stuff ?c1 (lsb8 b0) @ ?bits2) d1"
      using dec_octets [OF i1] d(2) las by auto
    have b0: "fold shin (lsb8 b0) sr1 = b0" by (rule shin_octet)
    have c1: "?c1 \<le> 5" and c2: "?c2 \<le> 5" by (simp_all add: ones_le)
    have "\<exists>d'. dec_loop d1 = dec_loop d' \<and> hd_dst d' = hd_dst d1 \<and> hd_status d' = - HDLC_LENGTH_ERROR \<and>
        dec_in 0 ?c2 0 b0 (crc_octet (crc_run 0xffff as) b0) [] ?bits2 (d'\<lparr>hd_status := 0, hd_dsize := int (length (hd_dst d1))\<rparr>)"
      by (rule dec_octet_over [OF d1(3) _ c1, unfolded b0]) (use d1(2) las in simp_all)
    then obtain d2 where d2: "dec_loop d1 = dec_loop d2" "hd_dst d2 = hd_dst d1" "hd_status d2 = - HDLC_LENGTH_ERROR"
        "dec_in 0 ?c2 0 b0 (crc_octet (crc_run 0xffff as) b0) [] ?bits2 (d2\<lparr>hd_status := 0, hd_dsize := int ?N\<rparr>)"
      using d1(2) by auto
    have bs1: "1 < length bs" and bs2: "length bs < ?N" using lbs assms(1,2) by simp_all
    have crc: "crc_run (crc_octet (crc_run 0xffff as) b0) (b # bs) = 0xf0b8"
      using octets_crc(1) [of fr] unfolding o by (simp add: crc_run_def)
    obtain d3 d4 where d3: "dec_loop d2 = Some (- HDLC_LENGTH_ERROR, d3)"
        "dec_loop (d3\<lparr>hd_status := 0, hd_dsize := int ?N\<rparr>) = Some (int (length bs) - 1, d4)"
        "take (Suc (length bs)) (hd_dst d4) = b # bs"
      using dec_over_next [OF d2(4,3) _ c2 d(3) crc bs1] bs2 d1(2) d2(2) by auto
    have l: "dec_loop ?d = Some (- HDLC_LENGTH_ERROR, d3)" using d(1) d1(1) d2(1) d3(1) by simp
    have "suffix (hd_src d3) ?src" using dec_loop_src [OF l] by simp
    then have src: "drop (length ?src - length (hd_src d3)) ?src = hd_src d3" by (rule suffix_drop)
    have r: "\<lparr>hd_h = hd_h d3, hd_src = hd_src d3, hd_dst = hd_dst d3, hd_dsize = int ?N, hd_status = 0\<rparr> =
        d3\<lparr>hd_status := 0, hd_dsize := int ?N\<rparr>" by (cases d3) simp
    have "take (length fr - ?N - 1) (hd_dst d4) = take (length fr - ?N - 1) (b # bs)"
      using arg_cong [OF d3(3), of "take (length fr - ?N - 1)"] lbs by simp
    also have "\<dots> = drop (?N + 1) fr" using assms(1) by (simp flip: bbs)
    finally have t: "take (length fr - ?N - 1) (hd_dst d4) = drop (?N + 1) fr" .
    have "hdlc_decode (hdlc_rcv_init g False) ?src dst (int ?N) =
        Some (- HDLC_LENGTH_ERROR, length ?src - length (hd_src d3), hd_h d3, hd_dst d3)"
      by (simp only: hdlc_decode_def l) simp
    moreover have "hdlc_decode (hd_h d3) (drop (length ?src - length (hd_src d3)) ?src) (hd_dst d3) (int ?N) =
        Some (int (length fr) - int ?N - 1, length (hd_src d3) - length (hd_src d4), hd_h d4, hd_dst d4)"
      unfolding src using d3(2) lbs assms(1) by (simp add: hdlc_decode_def r of_nat_diff)
    ultimately show ?thesis using t by blast
  qed
  with e show ?thesis by blast
qed

theorem hdlc_long_frame_tail_witness:
  "\<forall>h. \<exists>h' out. hdlc_encode (hdlc_out_init h False False) [1, 2, 3, 4, 5] 20 = Some (int (length out), 5, h', out) \<and> length out \<le> 20 \<and>
    (\<forall>g k z zs. \<exists>cnt g1 dst1 cnt2 g2 dst2.
       hdlc_decode (hdlc_rcv_init g False) (replicate k 0x7e @ out @ z # zs) [0, 0, 0] 3 = Some (-3, cnt, g1, dst1) \<and>
       hdlc_decode g1 (drop cnt (replicate k 0x7e @ out @ z # zs)) dst1 3 = Some (1, cnt2, g2, dst2) \<and> take 1 dst2 = [5])"
  using hdlc_long_frame_tail [of "[0, 0, 0]" "[1, 2, 3, 4, 5]" 20] by (simp del: drop_append add: eval_nat_numeral)

subsection \<open>Frames that are too short\<close>

text \<open>
  C40. A frame of one octet is not sent: the encoder takes the octet, reports it as consumed and fills its
  buffer with flags. The octet is the first of the next frame, with which it is received.
\<close>

theorem hdlc_one_octet_merged:
  assumes "2 \<le> n"
  shows "\<exists>h1. hdlc_encode (hdlc_out_init h False False) [b] n = Some (int n, 1, h1, replicate n 0x7e) \<and>
    (\<forall>fr n2 dst. fr \<noteq> [] \<and> 6 * length fr + 28 \<le> 5 * n2 \<and> length fr + 3 \<le> length dst \<longrightarrow>
      (\<exists>h2 out. hdlc_encode h1 fr n2 = Some (int (length out), length fr, h2, out) \<and> length out \<le> n2 \<and>
        (\<forall>g z zs. \<exists>cnt g' dst'.
           hdlc_decode (hdlc_rcv_init g False) (replicate n 0x7e @ out @ z # zs) dst (int (length dst)) =
             Some (int (length (b # fr)), cnt, g', dst') \<and> take (length (b # fr)) dst' = b # fr)))"
proof -
  have "\<exists>h2 out. hdlc_encode (one_octet_left h b) fr n2 = Some (int (length out), length fr, h2, out) \<and> length out \<le> n2 \<and>
        (\<forall>g z zs. \<exists>cnt g' dst'.
           hdlc_decode (hdlc_rcv_init g False) (replicate n 0x7e @ out @ z # zs) dst (int (length dst)) =
             Some (int (length (b # fr)), cnt, g', dst') \<and> take (length (b # fr)) dst' = b # fr)"
    if fr: "fr \<noteq> []" and n2: "6 * length fr + 28 \<le> 5 * n2" and dst: "length fr + 3 \<le> length dst" for fr n2 dst
  proof -
    have "length (line_bits (b # fr)) \<le> 8 * n2" using line_length [of "b # fr"] n2 by simp
    from hdlc_encode_merged [OF fr this] obtain h2 out m where
      e: "hdlc_encode (one_octet_left h b) fr n2 = Some (int (length out), length fr, h2, out)" "length out \<le> n2"
        and out: "concat (map msb8 (0x7e # out)) = line_bits (b # fr) @ m" by blast
    have "\<exists>cnt g' dst'. hdlc_decode (hdlc_rcv_init g False) (replicate n 0x7e @ out @ z # zs) dst (int (length dst)) =
             Some (int (length (b # fr)), cnt, g', dst') \<and> take (length (b # fr)) dst' = b # fr" for g z zs
    proof (rule decode_line_frame [OF out])
      have "replicate n 0x7e = replicate (n - 1) 0x7e @ [0x7e :: u8]"
        using assms replicate_append_same [of "n - 1" "0x7e :: u8"] by (simp flip: replicate_Suc)
      then show "replicate n 0x7e @ out @ z # zs = replicate (n - 1) 0x7e @ (0x7e # out) @ z # zs" by simp
    qed (use dst in simp_all)
    with e show ?thesis by blast
  qed
  then show ?thesis using hdlc_encode_one_octet [OF assms, of h b] by blast
qed

theorem hdlc_one_octet_merged_witness:
  "\<forall>h g. \<exists>h1. hdlc_encode (hdlc_out_init h False False) [1] 2 = Some (2, 1, h1, [0x7e, 0x7e]) \<and>
    (\<exists>h2 out. hdlc_encode h1 [2] 8 = Some (int (length out), 1, h2, out) \<and>
      (\<exists>cnt g' dst'. hdlc_decode (hdlc_rcv_init g False) ([0x7e, 0x7e] @ out @ [0x7e]) [0, 0, 0, 0] 4 = Some (2, cnt, g', dst') \<and>
         take 2 dst' = [1, 2]))"
proof (intro allI)
  fix h g
  obtain h1 where h1: "hdlc_encode (hdlc_out_init h False False) [1] 2 = Some (2, 1, h1, [0x7e, 0x7e])"
    and m: "\<And>fr n2 dst. fr \<noteq> [] \<and> 6 * length fr + 28 \<le> 5 * n2 \<and> length fr + 3 \<le> length dst \<longrightarrow>
      (\<exists>h2 out. hdlc_encode h1 fr n2 = Some (int (length out), length fr, h2, out) \<and> length out \<le> n2 \<and>
        (\<forall>g z zs. \<exists>cnt g' dst'.
           hdlc_decode (hdlc_rcv_init g False) ([0x7e, 0x7e] @ out @ z # zs) dst (int (length dst)) =
             Some (int (length (1 # fr)), cnt, g', dst') \<and> take (length (1 # fr)) dst' = 1 # fr))"
    using hdlc_one_octet_merged [of 2 h 1] by (auto simp: numeral_2_eq_2)
  from m [of "[2]" 8 "[0, 0, 0, 0]"] obtain h2 out where o: "hdlc_encode h1 [2] 8 = Some (int (length out), 1, h2, out)"
    and d: "\<And>g z zs. \<exists>cnt g' dst'. hdlc_decode (hdlc_rcv_init g False) ([0x7e, 0x7e] @ out @ z # zs) [0, 0, 0, 0] 4 =
        Some (2, cnt, g', dst') \<and> take 2 dst' = [1, 2]" by (auto simp: eval_nat_numeral)
  from d [of g "0x7e" "[]"] h1 o show "\<exists>h1. hdlc_encode (hdlc_out_init h False False) [1] 2 = Some (2, 1, h1, [0x7e, 0x7e]) \<and>
    (\<exists>h2 out. hdlc_encode h1 [2] 8 = Some (int (length out), 1, h2, out) \<and>
      (\<exists>cnt g' dst'. hdlc_decode (hdlc_rcv_init g False) ([0x7e, 0x7e] @ out @ [0x7e]) [0, 0, 0, 0] 4 = Some (2, cnt, g', dst') \<and>
         take 2 dst' = [1, 2]))" by blast
qed

end
