(* ===== verification/Hisax_L1.thy ===== *)
theory Hisax_L1
  imports Hisax_Fsm
begin

text \<open>
  Layer 1 of the D and B channels, \<open>hisax/isdnl1.c\<close>: the activation state machines of the S and the
  U interface and of a B channel, the distribution of received D channel frames to the stacks of a
  card, and the messages from and to the hardware driver.

  The code calls its neighbours through function pointers (\<open>l1l2\<close>, \<open>l1tei\<close>, \<open>l1hw\<close>, \<open>l2l1\<close>), so the
  model takes them as a record of operations on the same state: a call runs in the middle of the
  handler that makes it, with the state it finds there. \<open>HISAX_UINTERFACE\<close> is defined; without it the
  code is the same with \<open>FLG_L1_UINT\<close> never set. Flag words are words and flags bit numbers.
\<close>

subsection \<open>State\<close>

datatype l1fsm = L1FSM_S | L1FSM_U

record Layer1 =
  l1_Flags :: u32
  l1_state :: nat
  l1_timer :: FsmTimer
  l1_delay :: int

text \<open>On the D channel the machine is the one of the interface; \<open>fi->fsm\<close>.\<close>

record DLayer1 = Layer1 +
  l1_fsm :: l1fsm

record L1Card =
  l1_st :: "DLayer1 list"
  l1_HW_Flags :: u32
  l1_rq :: "sk_buff list"
  l1_tx_busy :: bool
  l1_kenv :: kenv

datatype l1arg = L1None | L1Skb sk_buff | L1Long int

record 's l1_ops =
  op_l1l2 :: "nat \<Rightarrow> prim \<Rightarrow> sk_buff option \<Rightarrow> 's \<Rightarrow> 's option"
  op_l1tei :: "nat \<Rightarrow> prim \<Rightarrow> sk_buff \<Rightarrow> 's \<Rightarrow> 's option"
  op_l1hw :: "nat \<Rightarrow> prim \<Rightarrow> l1arg \<Rightarrow> 's \<Rightarrow> 's option"
  op_l2tei :: "nat \<Rightarrow> 's \<Rightarrow> int"

abbreviation (input) FLG_L1_ACTIVATING :: nat where "FLG_L1_ACTIVATING \<equiv> 1"
abbreviation (input) FLG_L1_ACTIVATED :: nat where "FLG_L1_ACTIVATED \<equiv> 2"
abbreviation (input) FLG_L1_DEACTTIMER :: nat where "FLG_L1_DEACTTIMER \<equiv> 3"
abbreviation (input) FLG_L1_ACTTIMER :: nat where "FLG_L1_ACTTIMER \<equiv> 4"
abbreviation (input) FLG_L1_T3RUN :: nat where "FLG_L1_T3RUN \<equiv> 5"
abbreviation (input) FLG_L1_PULL_REQ :: nat where "FLG_L1_PULL_REQ \<equiv> 6"
abbreviation (input) FLG_L1_UINT :: nat where "FLG_L1_UINT \<equiv> 7"
abbreviation (input) FLG_L1_DBUSY :: nat where "FLG_L1_DBUSY \<equiv> 5"
abbreviation (input) FLG_HW_L1_UINT :: nat where "FLG_HW_L1_UINT \<equiv> 10"

definition TIMER3_VALUE :: int where "TIMER3_VALUE = 7000"

abbreviation (input) ST_L1_F2 :: nat where "ST_L1_F2 \<equiv> 0"
abbreviation (input) ST_L1_F3 :: nat where "ST_L1_F3 \<equiv> 1"
abbreviation (input) ST_L1_F4 :: nat where "ST_L1_F4 \<equiv> 2"
abbreviation (input) ST_L1_F5 :: nat where "ST_L1_F5 \<equiv> 3"
abbreviation (input) ST_L1_F6 :: nat where "ST_L1_F6 \<equiv> 4"
abbreviation (input) ST_L1_F7 :: nat where "ST_L1_F7 \<equiv> 5"
abbreviation (input) ST_L1_F8 :: nat where "ST_L1_F8 \<equiv> 6"
abbreviation (input) L1S_STATE_COUNT :: nat where "L1S_STATE_COUNT \<equiv> 7"

abbreviation (input) ST_L1_RESET :: nat where "ST_L1_RESET \<equiv> 0"
abbreviation (input) ST_L1_DEACT :: nat where "ST_L1_DEACT \<equiv> 1"
abbreviation (input) ST_L1_SYNC2 :: nat where "ST_L1_SYNC2 \<equiv> 2"
abbreviation (input) ST_L1_TRANS :: nat where "ST_L1_TRANS \<equiv> 3"
abbreviation (input) L1U_STATE_COUNT :: nat where "L1U_STATE_COUNT \<equiv> 4"

abbreviation (input) ST_L1_NULL :: nat where "ST_L1_NULL \<equiv> 0"
abbreviation (input) ST_L1_WAIT_ACT :: nat where "ST_L1_WAIT_ACT \<equiv> 1"
abbreviation (input) ST_L1_WAIT_DEACT :: nat where "ST_L1_WAIT_DEACT \<equiv> 2"
abbreviation (input) ST_L1_ACTIV :: nat where "ST_L1_ACTIV \<equiv> 3"
abbreviation (input) L1B_STATE_COUNT :: nat where "L1B_STATE_COUNT \<equiv> 4"

abbreviation (input) EV_PH_ACTIVATE :: nat where "EV_PH_ACTIVATE \<equiv> 0"
abbreviation (input) EV_PH_DEACTIVATE :: nat where "EV_PH_DEACTIVATE \<equiv> 1"
abbreviation (input) EV_RESET_IND :: nat where "EV_RESET_IND \<equiv> 2"
abbreviation (input) EV_DEACT_CNF :: nat where "EV_DEACT_CNF \<equiv> 3"
abbreviation (input) EV_DEACT_IND :: nat where "EV_DEACT_IND \<equiv> 4"
abbreviation (input) EV_POWER_UP :: nat where "EV_POWER_UP \<equiv> 5"
abbreviation (input) EV_RSYNC_IND :: nat where "EV_RSYNC_IND \<equiv> 6"
abbreviation (input) EV_INFO2_IND :: nat where "EV_INFO2_IND \<equiv> 7"
abbreviation (input) EV_INFO4_IND :: nat where "EV_INFO4_IND \<equiv> 8"
abbreviation (input) EV_TIMER_DEACT :: nat where "EV_TIMER_DEACT \<equiv> 9"
abbreviation (input) EV_TIMER_ACT :: nat where "EV_TIMER_ACT \<equiv> 10"
abbreviation (input) EV_TIMER3 :: nat where "EV_TIMER3 \<equiv> 11"
abbreviation (input) L1_EVENT_COUNT :: nat where "L1_EVENT_COUNT \<equiv> 12"

subsection \<open>Access to a stack\<close>

definition l1_upd :: "nat \<Rightarrow> (DLayer1 \<Rightarrow> DLayer1) \<Rightarrow> 'z L1Card_scheme \<Rightarrow> 'z L1Card_scheme" where
  "l1_upd i f c = c\<lparr>l1_st := (l1_st c)[i := f (l1_st c ! i)]\<rparr>"

definition l1_test :: "nat \<Rightarrow> nat \<Rightarrow> 'z L1Card_scheme \<Rightarrow> bool" where
  "l1_test f i c = bit (l1_Flags (l1_st c ! i)) f"

definition l1_set :: "nat \<Rightarrow> nat \<Rightarrow> 'z L1Card_scheme \<Rightarrow> 'z L1Card_scheme" where
  "l1_set f i = l1_upd i (\<lambda>s. s\<lparr>l1_Flags := set_bit f (l1_Flags s)\<rparr>)"

definition l1_clear :: "nat \<Rightarrow> nat \<Rightarrow> 'z L1Card_scheme \<Rightarrow> 'z L1Card_scheme" where
  "l1_clear f i = l1_upd i (\<lambda>s. s\<lparr>l1_Flags := unset_bit f (l1_Flags s)\<rparr>)"

definition l1_change :: "nat \<Rightarrow> nat \<Rightarrow> 'z L1Card_scheme \<Rightarrow> 'z L1Card_scheme" where
  "l1_change n i = l1_upd i (\<lambda>s. s\<lparr>l1_state := n\<rparr>)"

definition l1_restart :: "int \<Rightarrow> nat \<Rightarrow> nat \<Rightarrow> 'z L1Card_scheme \<Rightarrow> 'z L1Card_scheme" where
  "l1_restart ms ev i c =
     l1_upd i (\<lambda>s. s\<lparr>l1_timer := FsmRestartTimer (l1_kenv c) ms ev (l1_timer s)\<rparr>) c"

definition l1_del :: "nat \<Rightarrow> 'z L1Card_scheme \<Rightarrow> 'z L1Card_scheme" where
  "l1_del i = l1_upd i (\<lambda>s. s\<lparr>l1_timer := FsmDelTimer (l1_timer s)\<rparr>)"

definition l1_stacks :: "'z L1Card_scheme \<Rightarrow> nat list" where
  "l1_stacks c = [0..<length (l1_st c)]"

subsection \<open>Activation is reported to all stacks\<close>

definition report_activated ::
  "'z L1Card_scheme l1_ops \<Rightarrow> nat \<Rightarrow> 'z L1Card_scheme \<Rightarrow> 'z L1Card_scheme option" where
  "report_activated up i c =
     (if l1_test FLG_L1_ACTIVATING i c
      then op_l1l2 up i (PH_ACTIVATE, CONFIRM) None (l1_clear FLG_L1_ACTIVATING i c)
      else op_l1l2 up i (PH_ACTIVATE, INDICATION) None c)"

definition L1activated :: "'z L1Card_scheme l1_ops \<Rightarrow> 'z L1Card_scheme \<Rightarrow> 'z L1Card_scheme option" where
  "L1activated up c = each (report_activated up) (l1_stacks c) c"

definition report_deactivated ::
  "'z L1Card_scheme l1_ops \<Rightarrow> nat \<Rightarrow> 'z L1Card_scheme \<Rightarrow> 'z L1Card_scheme option" where
  "report_deactivated up i c = do {
     c \<leftarrow> (if bit (l1_HW_Flags c) FLG_L1_DBUSY
           then op_l1l2 up i (PH_PAUSE, CONFIRM) None c else Some c);
     op_l1l2 up i (PH_DEACTIVATE, INDICATION) None c
   }"

definition L1deactivated ::
  "'z L1Card_scheme l1_ops \<Rightarrow> 'z L1Card_scheme \<Rightarrow> 'z L1Card_scheme option" where
  "L1deactivated up c = do {
     c \<leftarrow> each (report_deactivated up) (l1_stacks c) c;
     Some (c\<lparr>l1_HW_Flags := unset_bit FLG_L1_DBUSY (l1_HW_Flags c)\<rparr>)
   }"

text \<open>The first stack that waits for the transmitter gets it.\<close>

fun xmt_loop ::
  "'z L1Card_scheme l1_ops \<Rightarrow> nat list \<Rightarrow> 'z L1Card_scheme \<Rightarrow> 'z L1Card_scheme option" where
  "xmt_loop up [] c = Some c"
| "xmt_loop up (i # is) c =
     (if l1_test FLG_L1_PULL_REQ i c
      then op_l1l2 up i (PH_PULL, CONFIRM) None (l1_clear FLG_L1_PULL_REQ i c)
      else xmt_loop up is c)"

definition DChannel_proc_xmt ::
  "'z L1Card_scheme l1_ops \<Rightarrow> 'z L1Card_scheme \<Rightarrow> 'z L1Card_scheme option" where
  "DChannel_proc_xmt up c = (if l1_tx_busy c then Some c else xmt_loop up (l1_stacks c) c)"

subsection \<open>Handlers of the S and U machines\<close>

type_synonym 'z l1_handler =
  "'z L1Card_scheme l1_ops \<Rightarrow> nat \<Rightarrow> 'z L1Card_scheme \<Rightarrow> 'z L1Card_scheme option"

definition l1_reset :: "'z l1_handler" where
  "l1_reset up i c = Some (l1_change ST_L1_F3 i c)"

definition l1_deact_cnf :: "'z l1_handler" where
  "l1_deact_cnf up i c =
     (let c = l1_change ST_L1_F3 i c in
      if l1_test FLG_L1_ACTIVATING i c then op_l1hw up i (HW_ENABLE, REQUEST) L1None c else Some c)"

definition l1_deact_req_s :: "'z l1_handler" where
  "l1_deact_req_s up i c =
     Some (l1_set FLG_L1_DEACTTIMER i (l1_restart 550 EV_TIMER_DEACT i (l1_change ST_L1_F3 i c)))"

definition l1_power_up_s :: "'z l1_handler" where
  "l1_power_up_s up i c =
     (if l1_test FLG_L1_ACTIVATING i c
      then do {
        c \<leftarrow> op_l1hw up i (HW_INFO3, REQUEST) L1None (l1_change ST_L1_F4 i c);
        Some (l1_set FLG_L1_T3RUN i (l1_restart TIMER3_VALUE EV_TIMER3 i c))
      }
      else Some (l1_change ST_L1_F3 i c))"

definition l1_go_F5 :: "'z l1_handler" where
  "l1_go_F5 up i c = Some (l1_change ST_L1_F5 i c)"

definition l1_go_F8 :: "'z l1_handler" where
  "l1_go_F8 up i c = Some (l1_change ST_L1_F8 i c)"

definition l1_info2_ind :: "'z l1_handler" where
  "l1_info2_ind up i c =
     op_l1hw up i (HW_INFO3, REQUEST) L1None
       (if l1_test FLG_L1_UINT i c then l1_change ST_L1_SYNC2 i c else l1_change ST_L1_F6 i c)"

definition l1_info4_ind :: "'z l1_handler" where
  "l1_info4_ind up i c = do {
     c \<leftarrow> op_l1hw up i (HW_INFO3, REQUEST) L1None
           (if l1_test FLG_L1_UINT i c then l1_change ST_L1_TRANS i c else l1_change ST_L1_F7 i c);
     let c = (if l1_test FLG_L1_DEACTTIMER i c then l1_del i (l1_clear FLG_L1_DEACTTIMER i c) else c);
     if \<not> l1_test FLG_L1_ACTIVATED i c
     then (let c = (if l1_test FLG_L1_T3RUN i c then l1_del i (l1_clear FLG_L1_T3RUN i c) else c)
           in Some (l1_set FLG_L1_ACTTIMER i (l1_restart 110 EV_TIMER_ACT i c)))
     else Some c
   }"

definition l1_timer3 :: "'z l1_handler" where
  "l1_timer3 up i c = do {
     let c = l1_clear FLG_L1_T3RUN i c;
     c \<leftarrow> (if l1_test FLG_L1_ACTIVATING i c
           then L1deactivated up (l1_clear FLG_L1_ACTIVATING i c) else Some c);
     if \<not> l1_test FLG_L1_UINT i c \<and> l1_state (l1_st c ! i) \<noteq> ST_L1_F6
     then op_l1hw up i (HW_ENABLE, REQUEST) L1None (l1_change ST_L1_F3 i c)
     else Some c
   }"

definition l1_timer_act :: "'z l1_handler" where
  "l1_timer_act up i c =
     L1activated up (l1_set FLG_L1_ACTIVATED i (l1_clear FLG_L1_ACTTIMER i c))"

definition l1_timer_deact :: "'z l1_handler" where
  "l1_timer_deact up i c = do {
     c \<leftarrow> L1deactivated up (l1_clear FLG_L1_ACTIVATED i (l1_clear FLG_L1_DEACTTIMER i c));
     op_l1hw up i (HW_DEACTIVATE, RESPONSE) L1None c
   }"

definition l1_activate_s :: "'z l1_handler" where
  "l1_activate_s up i c = op_l1hw up i (HW_RESET, REQUEST) L1None c"

definition l1_activate_no :: "'z l1_handler" where
  "l1_activate_no up i c =
     (if \<not> l1_test FLG_L1_DEACTTIMER i c \<and> \<not> l1_test FLG_L1_T3RUN i c
      then L1deactivated up (l1_clear FLG_L1_ACTIVATING i c) else Some c)"

definition l1_deact_req_u :: "'z l1_handler" where
  "l1_deact_req_u up i c =
     op_l1hw up i (HW_ENABLE, REQUEST) L1None
       (l1_set FLG_L1_DEACTTIMER i (l1_restart 550 EV_TIMER_DEACT i (l1_change ST_L1_RESET i c)))"

definition l1_power_up_u :: "'z l1_handler" where
  "l1_power_up_u up i c = Some (l1_set FLG_L1_T3RUN i (l1_restart TIMER3_VALUE EV_TIMER3 i c))"

definition l1_info0_ind :: "'z l1_handler" where
  "l1_info0_ind up i c = Some (l1_change ST_L1_DEACT i c)"

definition l1_activate_u :: "'z l1_handler" where
  "l1_activate_u up i c = op_l1hw up i (HW_INFO1, REQUEST) L1None c"

subsection \<open>The tables of the S and U machines\<close>

definition L1SFnList ::
  "'z L1Card_scheme l1_ops \<Rightarrow> (nat \<Rightarrow> 'z L1Card_scheme \<Rightarrow> 'z L1Card_scheme option) FsmNode list" where
  "L1SFnList up =
    [FsmNode ST_L1_F3 EV_PH_ACTIVATE (l1_activate_s up),
     FsmNode ST_L1_F6 EV_PH_ACTIVATE (l1_activate_no up),
     FsmNode ST_L1_F8 EV_PH_ACTIVATE (l1_activate_no up),
     FsmNode ST_L1_F3 EV_RESET_IND (l1_reset up),
     FsmNode ST_L1_F4 EV_RESET_IND (l1_reset up),
     FsmNode ST_L1_F5 EV_RESET_IND (l1_reset up),
     FsmNode ST_L1_F6 EV_RESET_IND (l1_reset up),
     FsmNode ST_L1_F7 EV_RESET_IND (l1_reset up),
     FsmNode ST_L1_F8 EV_RESET_IND (l1_reset up),
     FsmNode ST_L1_F3 EV_DEACT_CNF (l1_deact_cnf up),
     FsmNode ST_L1_F4 EV_DEACT_CNF (l1_deact_cnf up),
     FsmNode ST_L1_F5 EV_DEACT_CNF (l1_deact_cnf up),
     FsmNode ST_L1_F6 EV_DEACT_CNF (l1_deact_cnf up),
     FsmNode ST_L1_F7 EV_DEACT_CNF (l1_deact_cnf up),
     FsmNode ST_L1_F8 EV_DEACT_CNF (l1_deact_cnf up),
     FsmNode ST_L1_F6 EV_DEACT_IND (l1_deact_req_s up),
     FsmNode ST_L1_F7 EV_DEACT_IND (l1_deact_req_s up),
     FsmNode ST_L1_F8 EV_DEACT_IND (l1_deact_req_s up),
     FsmNode ST_L1_F3 EV_POWER_UP (l1_power_up_s up),
     FsmNode ST_L1_F4 EV_RSYNC_IND (l1_go_F5 up),
     FsmNode ST_L1_F6 EV_RSYNC_IND (l1_go_F8 up),
     FsmNode ST_L1_F7 EV_RSYNC_IND (l1_go_F8 up),
     FsmNode ST_L1_F3 EV_INFO2_IND (l1_info2_ind up),
     FsmNode ST_L1_F4 EV_INFO2_IND (l1_info2_ind up),
     FsmNode ST_L1_F5 EV_INFO2_IND (l1_info2_ind up),
     FsmNode ST_L1_F7 EV_INFO2_IND (l1_info2_ind up),
     FsmNode ST_L1_F8 EV_INFO2_IND (l1_info2_ind up),
     FsmNode ST_L1_F3 EV_INFO4_IND (l1_info4_ind up),
     FsmNode ST_L1_F4 EV_INFO4_IND (l1_info4_ind up),
     FsmNode ST_L1_F5 EV_INFO4_IND (l1_info4_ind up),
     FsmNode ST_L1_F6 EV_INFO4_IND (l1_info4_ind up),
     FsmNode ST_L1_F8 EV_INFO4_IND (l1_info4_ind up),
     FsmNode ST_L1_F3 EV_TIMER3 (l1_timer3 up),
     FsmNode ST_L1_F4 EV_TIMER3 (l1_timer3 up),
     FsmNode ST_L1_F5 EV_TIMER3 (l1_timer3 up),
     FsmNode ST_L1_F6 EV_TIMER3 (l1_timer3 up),
     FsmNode ST_L1_F8 EV_TIMER3 (l1_timer3 up),
     FsmNode ST_L1_F7 EV_TIMER_ACT (l1_timer_act up),
     FsmNode ST_L1_F3 EV_TIMER_DEACT (l1_timer_deact up),
     FsmNode ST_L1_F4 EV_TIMER_DEACT (l1_timer_deact up),
     FsmNode ST_L1_F5 EV_TIMER_DEACT (l1_timer_deact up),
     FsmNode ST_L1_F6 EV_TIMER_DEACT (l1_timer_deact up),
     FsmNode ST_L1_F7 EV_TIMER_DEACT (l1_timer_deact up),
     FsmNode ST_L1_F8 EV_TIMER_DEACT (l1_timer_deact up)]"

definition L1UFnList ::
  "'z L1Card_scheme l1_ops \<Rightarrow> (nat \<Rightarrow> 'z L1Card_scheme \<Rightarrow> 'z L1Card_scheme option) FsmNode list" where
  "L1UFnList up =
    [FsmNode ST_L1_RESET EV_DEACT_IND (l1_deact_req_u up),
     FsmNode ST_L1_DEACT EV_DEACT_IND (l1_deact_req_u up),
     FsmNode ST_L1_SYNC2 EV_DEACT_IND (l1_deact_req_u up),
     FsmNode ST_L1_TRANS EV_DEACT_IND (l1_deact_req_u up),
     FsmNode ST_L1_DEACT EV_PH_ACTIVATE (l1_activate_u up),
     FsmNode ST_L1_DEACT EV_POWER_UP (l1_power_up_u up),
     FsmNode ST_L1_DEACT EV_INFO2_IND (l1_info2_ind up),
     FsmNode ST_L1_TRANS EV_INFO2_IND (l1_info2_ind up),
     FsmNode ST_L1_RESET EV_DEACT_CNF (l1_info0_ind up),
     FsmNode ST_L1_DEACT EV_INFO4_IND (l1_info4_ind up),
     FsmNode ST_L1_SYNC2 EV_INFO4_IND (l1_info4_ind up),
     FsmNode ST_L1_RESET EV_INFO4_IND (l1_info4_ind up),
     FsmNode ST_L1_DEACT EV_TIMER3 (l1_timer3 up),
     FsmNode ST_L1_SYNC2 EV_TIMER3 (l1_timer3 up),
     FsmNode ST_L1_TRANS EV_TIMER_ACT (l1_timer_act up),
     FsmNode ST_L1_DEACT EV_TIMER_DEACT (l1_timer_deact up),
     FsmNode ST_L1_SYNC2 EV_TIMER_DEACT (l1_timer_deact up),
     FsmNode ST_L1_RESET EV_TIMER_DEACT (l1_timer_deact up)]"

text \<open>An event for the machine of stack \<open>i\<close>.\<close>

definition l1_event ::
  "'z L1Card_scheme l1_ops \<Rightarrow> nat \<Rightarrow> nat \<Rightarrow> 'z L1Card_scheme \<Rightarrow> 'z L1Card_scheme option" where
  "l1_event up ev i c =
     (if \<not> i < length (l1_st c) then None
      else map_option snd
        (case l1_fsm (l1_st c ! i) of
           L1FSM_S \<Rightarrow> FsmEvent (fsm_of L1S_STATE_COUNT L1_EVENT_COUNT (L1SFnList up))
                       (\<lambda>c. l1_state (l1_st c ! i)) ev i c
         | L1FSM_U \<Rightarrow> FsmEvent (fsm_of L1U_STATE_COUNT L1_EVENT_COUNT (L1UFnList up))
                       (\<lambda>c. l1_state (l1_st c ! i)) ev i c))"

definition l1_expire ::
  "'z L1Card_scheme l1_ops \<Rightarrow> nat \<Rightarrow> 'z L1Card_scheme \<Rightarrow> 'z L1Card_scheme option" where
  "l1_expire up i c =
     (if \<not> i < length (l1_st c) then None
      else if tl_pending (l1_timer (l1_st c ! i))
      then l1_event up (tm_event (l1_timer (l1_st c ! i))) i (l1_del i c)
      else Some c)"

subsection \<open>Frames of the D channel\<close>

definition clone_to ::
  "(sk_buff \<Rightarrow> 'z L1Card_scheme \<Rightarrow> 'z L1Card_scheme option) \<Rightarrow> sk_buff \<Rightarrow>
   'z L1Card_scheme \<Rightarrow> 'z L1Card_scheme option" where
  "clone_to f skb c =
     (case k_alloc (l1_kenv c) of (ok, k) \<Rightarrow>
        if ok then f skb (c\<lparr>l1_kenv := k\<rparr>) else Some (c\<lparr>l1_kenv := k\<rparr>))"

fun rcv_for_tei ::
  "'z L1Card_scheme l1_ops \<Rightarrow> int \<Rightarrow> sk_buff \<Rightarrow> nat list \<Rightarrow> 'z L1Card_scheme \<Rightarrow>
   'z L1Card_scheme option" where
  "rcv_for_tei up tei skb [] c = Some c"
| "rcv_for_tei up tei skb (i # is) c =
     (if tei = op_l2tei up i c then op_l1l2 up i (PH_DATA, INDICATION) (Some skb) c
      else rcv_for_tei up tei skb is c)"

text \<open>One frame: to all stacks, to the TEI managers, to the stack of its TEI, or to nobody.\<close>

definition rcv_frame ::
  "'z L1Card_scheme l1_ops \<Rightarrow> sk_buff \<Rightarrow> 'z L1Card_scheme \<Rightarrow> 'z L1Card_scheme option" where
  "rcv_frame up skb c =
     (let sapi = drop_bit 2 (skb_bytes skb ! 0); tei = drop_bit 1 (skb_bytes skb ! 1) in
      if tei = GROUP_TEI then
        (if sapi = CTRL_SAPI
         then each (\<lambda>i. clone_to (\<lambda>nskb. op_l1l2 up i (PH_DATA, INDICATION) (Some nskb)) skb)
                (l1_stacks c) c
         else if sapi = TEI_SAPI
         then each (\<lambda>i. clone_to (\<lambda>nskb. op_l1tei up i (PH_DATA, INDICATION) nskb) skb)
                (l1_stacks c) c
         else Some c)
      else if sapi = CTRL_SAPI then rcv_for_tei up (uint tei) skb (l1_stacks c) c
      else Some c)"

definition lapd_address :: "u8 list \<Rightarrow> bool" where
  "lapd_address d \<longleftrightarrow> 3 \<le> length d \<and> d ! 0 AND 1 = 0 \<and> d ! 1 AND 1 \<noteq> 0"

text \<open>A frame that is too short or has no LAPD address ends the loop, whatever is queued behind it.\<close>

partial_function (option) rcv_loop ::
  "'z L1Card_scheme l1_ops \<Rightarrow> 'z L1Card_scheme \<Rightarrow> 'z L1Card_scheme option" where
  "rcv_loop up c =
     (case l1_rq c of
        [] \<Rightarrow> Some c
      | skb # rq \<Rightarrow>
          if \<not> lapd_address (skb_bytes skb) then Some (c\<lparr>l1_rq := rq\<rparr>)
          else do { c \<leftarrow> rcv_frame up skb (c\<lparr>l1_rq := rq\<rparr>); rcv_loop up c })"

declare rcv_loop.simps [code]

definition DChannel_proc_rcv ::
  "'z L1Card_scheme l1_ops \<Rightarrow> 'z L1Card_scheme \<Rightarrow> 'z L1Card_scheme option" where
  "DChannel_proc_rcv up c = do {
     c \<leftarrow> (if 0 < length (l1_st c) \<and> l1_test FLG_L1_ACTTIMER 0 c
           then l1_event up EV_TIMER_ACT 0 c else Some c);
     rcv_loop up c
   }"

subsection \<open>Requests of layer 2 and messages of the hardware\<close>

definition dch_l2l1 ::
  "'z L1Card_scheme l1_ops \<Rightarrow> nat \<Rightarrow> prim \<Rightarrow> l1arg \<Rightarrow> 'z L1Card_scheme \<Rightarrow>
   'z L1Card_scheme option" where
  "dch_l2l1 up i pr arg c =
     (if pr = (PH_DATA, REQUEST) \<or> pr = (PH_PULL, REQUEST) \<or> pr = (PH_PULL, INDICATION)
      then op_l1hw up i pr arg c
      else if pr = (PH_ACTIVATE, REQUEST)
      then (if l1_test FLG_L1_ACTIVATED i c then op_l1l2 up i (PH_ACTIVATE, CONFIRM) None c
            else l1_event up EV_PH_ACTIVATE i (l1_set FLG_L1_ACTIVATING i c))
      else if pr = (PH_TESTLOOP, REQUEST) then op_l1hw up i (HW_TESTLOOP, REQUEST) arg c
      else Some c)"

definition l1_msg_event :: "prim \<Rightarrow> nat option" where
  "l1_msg_event pr =
     (if pr = (HW_RESET, INDICATION) then Some EV_RESET_IND
      else if pr = (HW_DEACTIVATE, CONFIRM) then Some EV_DEACT_CNF
      else if pr = (HW_DEACTIVATE, INDICATION) then Some EV_DEACT_IND
      else if pr = (HW_POWERUP, CONFIRM) then Some EV_POWER_UP
      else if pr = (HW_RSYNC, INDICATION) then Some EV_RSYNC_IND
      else if pr = (HW_INFO2, INDICATION) then Some EV_INFO2_IND
      else if pr = (HW_INFO4_P8, INDICATION) \<or> pr = (HW_INFO4_P10, INDICATION)
      then Some EV_INFO4_IND
      else None)"

definition l1_msg ::
  "'z L1Card_scheme l1_ops \<Rightarrow> prim \<Rightarrow> 'z L1Card_scheme \<Rightarrow> 'z L1Card_scheme option" where
  "l1_msg up pr c = each (\<lambda>i c.
     case l1_msg_event pr of Some ev \<Rightarrow> l1_event up ev i c | None \<Rightarrow> Some c) (l1_stacks c) c"

subsection \<open>Setup\<close>

definition HiSax_addlist :: "DLayer1 \<Rightarrow> 'z L1Card_scheme \<Rightarrow> 'z L1Card_scheme" where
  "HiSax_addlist st c = c\<lparr>l1_st := st # l1_st c\<rparr>"

definition HiSax_rmlist :: "nat \<Rightarrow> 'z L1Card_scheme \<Rightarrow> 'z L1Card_scheme" where
  "HiSax_rmlist i c = c\<lparr>l1_st := take i (l1_st c) @ drop (Suc i) (l1_st c)\<rparr>"

text \<open>The flag word of a U stack is assigned the number of \<open>FLG_L1_UINT\<close>, as the code does.\<close>

definition setstack_HiSax :: "u32 \<Rightarrow> DLayer1 \<Rightarrow> DLayer1" where
  "setstack_HiSax HW_Flags st =
     (let st = st\<lparr>l1_fsm := L1FSM_S, l1_state := ST_L1_F3, l1_Flags := 0\<rparr>;
          st = (if bit HW_Flags FLG_HW_L1_UINT
                then st\<lparr>l1_fsm := L1FSM_U, l1_state := ST_L1_RESET, l1_Flags := of_nat FLG_L1_UINT\<rparr>
                else st)
      in st\<lparr>l1_timer := FsmInitTimer (l1_timer st)\<rparr>)"

subsection \<open>The B channel\<close>

record BCState =
  bc_Flag :: u32
  bc_event :: u32
  bc_rqueue :: "sk_buff list"
  bc_squeue :: "sk_buff list"
  bc_l1 :: Layer1
  bc_kenv :: kenv

record 's b_ops =
  op_b_l1l2 :: "prim \<Rightarrow> sk_buff option \<Rightarrow> 's \<Rightarrow> 's option"
  op_b_l2l1 :: "prim \<Rightarrow> 's \<Rightarrow> 's option"

abbreviation (input) BC_FLG_ACTIV :: nat where "BC_FLG_ACTIV \<equiv> 2"
abbreviation (input) BC_FLG_BUSY :: nat where "BC_FLG_BUSY \<equiv> 3"
abbreviation (input) B_RCVBUFREADY :: nat where "B_RCVBUFREADY \<equiv> 0"
abbreviation (input) B_XMTBUFREADY :: nat where "B_XMTBUFREADY \<equiv> 1"

definition b_upd :: "(Layer1 \<Rightarrow> Layer1) \<Rightarrow> 'z BCState_scheme \<Rightarrow> 'z BCState_scheme" where
  "b_upd f b = b\<lparr>bc_l1 := f (bc_l1 b)\<rparr>"

definition b_restart :: "int \<Rightarrow> nat \<Rightarrow> 'z BCState_scheme \<Rightarrow> 'z BCState_scheme" where
  "b_restart ms ev b = b_upd (\<lambda>s. s\<lparr>l1_timer := FsmRestartTimer (bc_kenv b) ms ev (l1_timer s)\<rparr>) b"

definition b_del :: "'z BCState_scheme \<Rightarrow> 'z BCState_scheme" where
  "b_del = b_upd (\<lambda>s. s\<lparr>l1_timer := FsmDelTimer (l1_timer s)\<rparr>)"

definition b_change :: "nat \<Rightarrow> 'z BCState_scheme \<Rightarrow> 'z BCState_scheme" where
  "b_change n = b_upd (\<lambda>s. s\<lparr>l1_state := n\<rparr>)"

type_synonym 'z b_handler =
  "'z BCState_scheme b_ops \<Rightarrow> unit \<Rightarrow> 'z BCState_scheme \<Rightarrow> 'z BCState_scheme option"

definition l1b_activate :: "'z b_handler" where
  "l1b_activate up arg b =
     Some (b_restart (l1_delay (bc_l1 b)) EV_TIMER_ACT (b_change ST_L1_WAIT_ACT b))"

definition l1b_deactivate :: "'z b_handler" where
  "l1b_deactivate up arg b = Some (b_restart 10 EV_TIMER_DEACT (b_change ST_L1_WAIT_DEACT b))"

definition l1b_timer_act :: "'z b_handler" where
  "l1b_timer_act up arg b = op_b_l1l2 up (PH_ACTIVATE, CONFIRM) None (b_change ST_L1_ACTIV b)"

definition l1b_timer_deact :: "'z b_handler" where
  "l1b_timer_deact up arg b = op_b_l2l1 up (PH_DEACTIVATE, CONFIRM) (b_change ST_L1_NULL b)"

definition L1BFnList ::
  "'z BCState_scheme b_ops \<Rightarrow> (unit \<Rightarrow> 'z BCState_scheme \<Rightarrow> 'z BCState_scheme option) FsmNode list" where
  "L1BFnList up =
    [FsmNode ST_L1_NULL EV_PH_ACTIVATE (l1b_activate up),
     FsmNode ST_L1_WAIT_ACT EV_TIMER_ACT (l1b_timer_act up),
     FsmNode ST_L1_ACTIV EV_PH_DEACTIVATE (l1b_deactivate up),
     FsmNode ST_L1_WAIT_DEACT EV_TIMER_DEACT (l1b_timer_deact up)]"

definition b_event ::
  "'z BCState_scheme b_ops \<Rightarrow> nat \<Rightarrow> 'z BCState_scheme \<Rightarrow> 'z BCState_scheme option" where
  "b_event up ev b =
     map_option snd (FsmEvent (fsm_of L1B_STATE_COUNT L1_EVENT_COUNT (L1BFnList up))
                       (\<lambda>b. l1_state (bc_l1 b)) ev () b)"

definition b_expire ::
  "'z BCState_scheme b_ops \<Rightarrow> 'z BCState_scheme \<Rightarrow> 'z BCState_scheme option" where
  "b_expire up b =
     (if tl_pending (l1_timer (bc_l1 b)) then b_event up (tm_event (l1_timer (bc_l1 b))) (b_del b)
      else Some b)"

definition l1_msg_b ::
  "'z BCState_scheme b_ops \<Rightarrow> prim \<Rightarrow> 'z BCState_scheme \<Rightarrow> 'z BCState_scheme option" where
  "l1_msg_b up pr b =
     (if pr = (PH_ACTIVATE, REQUEST) then b_event up EV_PH_ACTIVATE b
      else if pr = (PH_DEACTIVATE, REQUEST) then b_event up EV_PH_DEACTIVATE b
      else Some b)"

definition BChannel_proc_xmt ::
  "'z BCState_scheme b_ops \<Rightarrow> 'z BCState_scheme \<Rightarrow> 'z BCState_scheme option" where
  "BChannel_proc_xmt up b =
     (if bit (bc_Flag b) BC_FLG_BUSY then Some b
      else do {
        b \<leftarrow> (if bit (l1_Flags (bc_l1 b)) FLG_L1_PULL_REQ
              then op_b_l1l2 up (PH_PULL, CONFIRM) None
                     (b_upd (\<lambda>s. s\<lparr>l1_Flags := unset_bit FLG_L1_PULL_REQ (l1_Flags s)\<rparr>) b)
              else Some b);
        if \<not> bit (bc_Flag b) BC_FLG_ACTIV \<and> \<not> bit (bc_Flag b) BC_FLG_BUSY \<and> bc_squeue b = []
        then op_b_l2l1 up (PH_DEACTIVATE, CONFIRM) b else Some b
      })"

partial_function (option) b_rcv_loop ::
  "'z BCState_scheme b_ops \<Rightarrow> 'z BCState_scheme \<Rightarrow> 'z BCState_scheme option" where
  "b_rcv_loop up b =
     (case bc_rqueue b of
        [] \<Rightarrow> Some b
      | skb # rq \<Rightarrow> do {
          b \<leftarrow> op_b_l1l2 up (PH_DATA, INDICATION) (Some skb) (b\<lparr>bc_rqueue := rq\<rparr>);
          b_rcv_loop up b
        })"

declare b_rcv_loop.simps [code]

definition BChannel_proc_rcv ::
  "'z BCState_scheme b_ops \<Rightarrow> 'z BCState_scheme \<Rightarrow> 'z BCState_scheme option" where
  "BChannel_proc_rcv up b = do {
     b \<leftarrow> (if l1_state (bc_l1 b) = ST_L1_WAIT_ACT then b_event up EV_TIMER_ACT (b_del b) else Some b);
     b_rcv_loop up b
   }"

definition BChannel_bh ::
  "'z BCState_scheme b_ops \<Rightarrow> 'z BCState_scheme \<Rightarrow> 'z BCState_scheme option" where
  "BChannel_bh up b = do {
     b \<leftarrow> (if bit (bc_event b) B_RCVBUFREADY
           then BChannel_proc_rcv up (b\<lparr>bc_event := unset_bit B_RCVBUFREADY (bc_event b)\<rparr>)
           else Some b);
     if bit (bc_event b) B_XMTBUFREADY
     then BChannel_proc_xmt up (b\<lparr>bc_event := unset_bit B_XMTBUFREADY (bc_event b)\<rparr>)
     else Some b
   }"

definition setstack_l1_B :: "Layer1 \<Rightarrow> Layer1" where
  "setstack_l1_B st = st\<lparr>l1_state := ST_L1_NULL, l1_Flags := 0, l1_timer := FsmInitTimer (l1_timer st)\<rparr>"

definition init_bcstate :: "'z BCState_scheme \<Rightarrow> 'z BCState_scheme" where
  "init_bcstate b = b\<lparr>bc_Flag := 0\<rparr>"

subsection \<open>Building the tables\<close>

text \<open>
  The three machines of a successful \<open>Isdnl1New\<close>; the flags say which of the three allocations
  succeed. On a failure the machines built so far are freed and the error is returned.
\<close>

definition Isdnl1New ::
  "bool \<Rightarrow> bool \<Rightarrow> bool \<Rightarrow> 'z L1Card_scheme l1_ops \<Rightarrow> 'y BCState_scheme b_ops \<Rightarrow>
   int + (nat \<Rightarrow> 'z L1Card_scheme \<Rightarrow> 'z L1Card_scheme option) Fsm \<times>
         (unit \<Rightarrow> 'y BCState_scheme \<Rightarrow> 'y BCState_scheme option) Fsm \<times>
         (nat \<Rightarrow> 'z L1Card_scheme \<Rightarrow> 'z L1Card_scheme option) Fsm" where
  "Isdnl1New ok_s ok_b ok_u up bup =
     (case FsmNew ok_s L1S_STATE_COUNT L1_EVENT_COUNT (L1SFnList up) of
        Inl e \<Rightarrow> Inl e
      | Inr s \<Rightarrow>
          (case FsmNew ok_b L1B_STATE_COUNT L1_EVENT_COUNT (L1BFnList bup) of
             Inl e \<Rightarrow> Inl e
           | Inr b \<Rightarrow>
               (case FsmNew ok_u L1U_STATE_COUNT L1_EVENT_COUNT (L1UFnList up) of
                  Inl e \<Rightarrow> Inl e
                | Inr u \<Rightarrow> Inr (s, b, u))))"

end
