(* ===== verification/Hisax_L1_Inv.thy ===== *)
theory Hisax_L1_Inv
  imports Hisax_L1
begin

text \<open>
  What layer 1 needs from its neighbours, as the locale \<open>l1_client\<close>, and what it guarantees on top of
  it: no handler faults, the S machine keeps its states and its one timer in step, and received
  frames are worked off.
\<close>

subsection \<open>The invariant of an S stack\<close>

definition l1_waits :: "nat \<Rightarrow> 'z Layer1_scheme \<Rightarrow> bool" where
  "l1_waits ev s \<longleftrightarrow> tl_pending (l1_timer s) \<and> tm_event (l1_timer s) = ev"

text \<open>
  In state F7 the activation is reported or the timer that will report it runs, and the
  deactivation timer does not run. The flags for the other two timers are set while they run.
\<close>

definition l1_ok :: "DLayer1 \<Rightarrow> bool" where
  "l1_ok s \<longleftrightarrow>
     l1_fsm s = L1FSM_S \<and> ST_L1_F3 \<le> l1_state s \<and> l1_state s \<le> ST_L1_F8 \<and>
     \<not> bit (l1_Flags s) FLG_L1_UINT \<and>
     (tl_pending (l1_timer s) \<longrightarrow>
        tm_event (l1_timer s) \<in> {EV_TIMER_DEACT, EV_TIMER_ACT, EV_TIMER3}) \<and>
     (l1_waits EV_TIMER_DEACT s \<longrightarrow> bit (l1_Flags s) FLG_L1_DEACTTIMER \<and> l1_state s \<noteq> ST_L1_F7) \<and>
     (l1_waits EV_TIMER3 s \<longrightarrow> bit (l1_Flags s) FLG_L1_T3RUN) \<and>
     (l1_state s = ST_L1_F7 \<longrightarrow> bit (l1_Flags s) FLG_L1_ACTIVATED \<or> l1_waits EV_TIMER_ACT s)"

definition no_activating :: "DLayer1 \<Rightarrow> DLayer1" where
  "no_activating s = s\<lparr>l1_Flags := unset_bit FLG_L1_ACTIVATING (l1_Flags s)\<rparr>"

lemma no_activating_ok [simp]: "l1_ok (no_activating s) = l1_ok s"
  by (simp add: l1_ok_def no_activating_def l1_waits_def bit_unset_bit_iff)

subsection \<open>Access to stacks\<close>

lemma l1_upd_sel [simp]:
  "l1_st (l1_upd i f c) = (l1_st c)[i := f (l1_st c ! i)]"
  "l1_rq (l1_upd i f c) = l1_rq c"
  "l1_HW_Flags (l1_upd i f c) = l1_HW_Flags c"
  "l1_kenv (l1_upd i f c) = l1_kenv c"
  by (simp_all add: l1_upd_def)

lemmas l1_access =
  l1_set_def l1_clear_def l1_change_def l1_restart_def l1_del_def l1_test_def

lemma l1_upd_upd:
  "i < length (l1_st c) \<Longrightarrow> l1_upd i f (l1_upd i g c) = l1_upd i (\<lambda>s. f (g s)) c"
  by (simp add: l1_upd_def)

lemma l1_test_upd:
  "i < length (l1_st c) \<Longrightarrow> l1_test b i (l1_upd i f c) = bit (l1_Flags (f (l1_st c ! i))) b"
  by (simp add: l1_test_def)

lemma l1_change_ok:
  "l1_ok s \<Longrightarrow> ST_L1_F3 \<le> n \<Longrightarrow> n \<le> ST_L1_F8 \<Longrightarrow> n \<noteq> ST_L1_F7 \<Longrightarrow> l1_ok (s\<lparr>l1_state := n\<rparr>)"
  by (simp add: l1_ok_def l1_waits_def)

lemma l1_stacks_lt [simp]: "i \<in> set (l1_stacks c) \<longleftrightarrow> i < length (l1_st c)"
  by (simp add: l1_stacks_def)

text \<open>What a run of the receive loop leaves in the queue.\<close>

fun rcv_rest :: "sk_buff list \<Rightarrow> sk_buff list" where
  "rcv_rest [] = []"
| "rcv_rest (skb # q) = (if lapd_address (skb_bytes skb) then rcv_rest q else q)"

subsection \<open>The contract with the neighbours of layer 1\<close>

text \<open>
  \<open>good\<close> is the invariant of the layers above and of the driver. A call from layer 1 keeps it and
  leaves the stacks and the receive queue of layer 1 alone; it does not depend on the fields of
  layer 1 beyond the number of stacks.
\<close>

locale l1_client =
  fixes up :: "'z L1Card_scheme l1_ops"
    and good :: "'z L1Card_scheme \<Rightarrow> bool"
    and up_arg :: "prim \<Rightarrow> sk_buff option \<Rightarrow> bool"
  assumes l1l2_ok:
      "\<And>i pr skb c. good c \<Longrightarrow> i < length (l1_st c) \<Longrightarrow> up_arg pr skb \<Longrightarrow>
         wpo (op_l1l2 up i pr skb c) (\<lambda>c'. good c' \<and> l1_st c' = l1_st c \<and> l1_rq c' = l1_rq c)"
    and l1tei_ok:
      "\<And>i skb c. good c \<Longrightarrow> i < length (l1_st c) \<Longrightarrow>
         wpo (op_l1tei up i (PH_DATA, INDICATION) skb c)
           (\<lambda>c'. good c' \<and> l1_st c' = l1_st c \<and> l1_rq c' = l1_rq c)"
    and l1hw_ok:
      "\<And>i pr arg c. good c \<Longrightarrow> i < length (l1_st c) \<Longrightarrow>
         wpo (op_l1hw up i pr arg c) (\<lambda>c'. good c' \<and> l1_st c' = l1_st c \<and> l1_rq c' = l1_rq c)"
    and good_st: "\<And>c xs. length xs = length (l1_st c) \<Longrightarrow> good (c\<lparr>l1_st := xs\<rparr>) = good c"
    and good_rq: "\<And>c rq. good (c\<lparr>l1_rq := rq\<rparr>) = good c"
    and good_HW_Flags: "\<And>c fl. good (c\<lparr>l1_HW_Flags := fl\<rparr>) = good c"
    and good_kenv: "\<And>c k. good (c\<lparr>l1_kenv := k\<rparr>) = good c"
    and up_args:
      "up_arg (PH_ACTIVATE, CONFIRM) None" "up_arg (PH_ACTIVATE, INDICATION) None"
      "up_arg (PH_DEACTIVATE, INDICATION) None" "up_arg (PH_PAUSE, CONFIRM) None"
      "up_arg (PH_PULL, CONFIRM) None" "\<And>skb. up_arg (PH_DATA, INDICATION) (Some skb)"
begin

lemma good_upd [simp]: "good (l1_upd i f c) = good c"
  by (simp add: l1_upd_def good_st)

text \<open>The state layer 1 is in between two calls: \<open>n\<close> stacks, the receive queue \<open>q\<close>.\<close>

definition keeps :: "DLayer1 list \<Rightarrow> sk_buff list \<Rightarrow> 'z L1Card_scheme \<Rightarrow> bool" where
  "keeps xs q c \<longleftrightarrow> good c \<and> l1_st c = xs \<and> l1_rq c = q"

lemma call_l1l2:
  "keeps xs q c \<Longrightarrow> i < length xs \<Longrightarrow> up_arg pr skb \<Longrightarrow> wpo (op_l1l2 up i pr skb c) (keeps xs q)"
  using l1l2_ok [of c i pr skb] by (auto simp: keeps_def elim: wpo_mono)

lemma call_l1tei:
  "keeps xs q c \<Longrightarrow> i < length xs \<Longrightarrow> wpo (op_l1tei up i (PH_DATA, INDICATION) skb c) (keeps xs q)"
  using l1tei_ok [of c i skb] by (auto simp: keeps_def elim: wpo_mono)

lemma call_l1hw:
  "keeps xs q c \<Longrightarrow> i < length xs \<Longrightarrow> wpo (op_l1hw up i pr arg c) (keeps xs q)"
  using l1hw_ok [of c i pr arg] by (auto simp: keeps_def elim: wpo_mono)

lemma keeps_upd:
  "keeps xs q c \<Longrightarrow> keeps (xs[i := f (xs ! i)]) q (l1_upd i f c)"
  by (simp add: keeps_def)

lemma report_activated_ok:
  assumes "keeps xs q c" "k < length xs"
  shows "wpo (report_activated up k c) (keeps (xs[k := no_activating (xs ! k)]) q)"
proof (cases "l1_test FLG_L1_ACTIVATING k c")
  case True
  have "keeps (xs[k := no_activating (xs ! k)]) q (l1_clear FLG_L1_ACTIVATING k c)"
    using keeps_upd [OF assms(1), of k no_activating]
    by (simp add: l1_clear_def no_activating_def [abs_def])
  then show ?thesis using True assms(2) by (simp add: report_activated_def call_l1l2 up_args)
next
  case False
  have "no_activating (xs ! k) = xs ! k"
    using False assms(1)
    by (simp add: no_activating_def l1_test_def keeps_def unset_bit_eq_idem_iff)
  then have "xs[k := no_activating (xs ! k)] = xs" by (metis list_update_id)
  then show ?thesis using False assms by (simp add: report_activated_def call_l1l2 up_args)
qed

lemma activated_from:
  assumes "keeps xs q c" "k \<le> length xs"
  shows "wpo (each (report_activated up) [k..<length xs] c)
    (keeps (take k xs @ map no_activating (drop k xs)) q)"
  using assms
proof (induction "length xs - k" arbitrary: k xs c)
  case 0
  then show ?case by simp
next
  case (Suc m)
  then have k: "k < length xs" by simp
  let ?ys = "xs[k := no_activating (xs ! k)]"
  have eq: "take (Suc k) ?ys @ map no_activating (drop (Suc k) ?ys) =
      take k xs @ map no_activating (drop k xs)"
    using k by (simp add: take_Suc_conv_app_nth Cons_nth_drop_Suc [symmetric])
  have ind: "wpo (each (report_activated up) [Suc k..<length xs] c')
    (keeps (take k xs @ map no_activating (drop k xs)) q)" if "keeps ?ys q c'" for c'
    using Suc.hyps(1) [of ?ys "Suc k" c'] Suc.hyps(2) that k eq by simp
  show ?case
    unfolding upt_conv_Cons [OF k] each.simps wpo_bind
    by (rule wpo_mono [OF report_activated_ok [OF Suc.prems(1) k]]) (rule ind)
qed

lemma L1activated_ok:
  assumes "keeps xs q c"
  shows "wpo (L1activated up c) (keeps (map no_activating xs) q)"
  using activated_from [OF assms, of 0] assms
  by (simp add: L1activated_def l1_stacks_def keeps_def [of xs q c])

lemma L1deactivated_ok:
  assumes "keeps xs q c"
  shows "wpo (L1deactivated up c) (keeps xs q)"
proof -
  have "wpo (report_deactivated up i c) (keeps xs q)" if "keeps xs q c" "i < length xs" for i c
  proof (cases "bit (l1_HW_Flags c) FLG_L1_DBUSY")
    case True
    then show ?thesis
      unfolding report_deactivated_def if_P [OF True] wpo_bind
      by (intro wpo_mono [OF call_l1l2 [OF that]] call_l1l2 that up_args)
  next
    case False
    then show ?thesis using that by (simp add: report_deactivated_def call_l1l2 up_args)
  qed
  then have "wpo (each (report_deactivated up) (l1_stacks c) c) (keeps xs q)"
    using assms by (intro each_inv) (auto simp: keeps_def)
  then show ?thesis
    unfolding L1deactivated_def wpo_bind
    by (rule wpo_mono) (simp add: keeps_def good_HW_Flags)
qed

text \<open>The invariant of a card: every stack is sound.\<close>

definition l1_inv :: "nat \<Rightarrow> sk_buff list \<Rightarrow> 'z L1Card_scheme \<Rightarrow> bool" where
  "l1_inv n q c \<longleftrightarrow> good c \<and> l1_rq c = q \<and> length (l1_st c) = n \<and> (\<forall>s \<in> set (l1_st c). l1_ok s)"

lemma l1_inv_keeps:
  "keeps xs q c \<Longrightarrow> \<forall>s \<in> set xs. l1_ok s \<Longrightarrow> length xs = n \<Longrightarrow> l1_inv n q c"
  by (simp add: keeps_def l1_inv_def)

lemma keeps_inv: "l1_inv n q c \<Longrightarrow> keeps (l1_st c) q c"
  by (simp add: keeps_def l1_inv_def)

lemma l1_inv_nth: "l1_inv n q c \<Longrightarrow> i < n \<Longrightarrow> l1_ok (l1_st c ! i)"
  by (simp add: l1_inv_def)

lemma l1_inv_upd:
  assumes "l1_inv n q c" "l1_ok (f (l1_st c ! i))"
  shows "l1_inv n q (l1_upd i f c)"
  using assms set_update_subset_insert [of "l1_st c" i "f (l1_st c ! i)"]
  by (auto simp: l1_inv_def)

lemma inv_l1l2:
  "l1_inv n q c \<Longrightarrow> i < n \<Longrightarrow> up_arg pr skb \<Longrightarrow> wpo (op_l1l2 up i pr skb c) (l1_inv n q)"
  using call_l1l2 [OF keeps_inv, of n q c i pr skb]
  by (auto simp: l1_inv_def keeps_def elim: wpo_mono)

lemma inv_l1tei:
  "l1_inv n q c \<Longrightarrow> i < n \<Longrightarrow> wpo (op_l1tei up i (PH_DATA, INDICATION) skb c) (l1_inv n q)"
  using call_l1tei [OF keeps_inv, of n q c i skb]
  by (auto simp: l1_inv_def keeps_def elim: wpo_mono)

lemma inv_l1hw:
  "l1_inv n q c \<Longrightarrow> i < n \<Longrightarrow> wpo (op_l1hw up i pr arg c) (l1_inv n q)"
  using call_l1hw [OF keeps_inv, of n q c i pr arg]
  by (auto simp: l1_inv_def keeps_def elim: wpo_mono)

lemma inv_activated: "l1_inv n q c \<Longrightarrow> wpo (L1activated up c) (l1_inv n q)"
  using L1activated_ok [OF keeps_inv, of n q c]
  by (auto simp: l1_inv_def keeps_def elim: wpo_mono)

lemma inv_deactivated: "l1_inv n q c \<Longrightarrow> wpo (L1deactivated up c) (l1_inv n q)"
  using L1deactivated_ok [OF keeps_inv, of n q c]
  by (auto simp: l1_inv_def keeps_def elim: wpo_mono)

text \<open>The same with one stack in the middle of an event.\<close>

definition l1_at :: "nat \<Rightarrow> sk_buff list \<Rightarrow> nat \<Rightarrow> (DLayer1 \<Rightarrow> bool) \<Rightarrow> 'z L1Card_scheme \<Rightarrow> bool" where
  "l1_at n q i P c \<longleftrightarrow> good c \<and> l1_rq c = q \<and> length (l1_st c) = n \<and> i < n \<and>
     (\<forall>j < n. j \<noteq> i \<longrightarrow> l1_ok (l1_st c ! j)) \<and> P (l1_st c ! i)"

lemma l1_at_ok: "l1_at n q i l1_ok c \<longleftrightarrow> l1_inv n q c \<and> i < n"
  by (auto simp: l1_at_def l1_inv_def all_set_conv_all_nth)

lemma l1_at_upd:
  "l1_at n q i P c \<Longrightarrow> (\<And>s. P s \<Longrightarrow> Q (f s)) \<Longrightarrow> l1_at n q i Q (l1_upd i f c)"
  by (simp add: l1_at_def)

lemma l1_at_invI:
  "l1_at n q i P c \<Longrightarrow> (\<And>s. P s \<Longrightarrow> l1_ok s) \<Longrightarrow> l1_inv n q c"
  using l1_at_ok [of n q i c] by (simp add: l1_at_def)

lemma at_l1hw:
  assumes "l1_at n q i P c"
  shows "wpo (op_l1hw up i pr arg c) (l1_at n q i P)"
proof -
  have "keeps (l1_st c) q c" "i < length (l1_st c)" using assms by (simp_all add: l1_at_def keeps_def)
  from call_l1hw [OF this] show ?thesis
    by (rule wpo_mono) (use assms in \<open>simp add: l1_at_def keeps_def\<close>)
qed

lemma at_change:
  "l1_at n q i P c \<Longrightarrow> (\<And>s. P s \<Longrightarrow> Q (s\<lparr>l1_state := st\<rparr>)) \<Longrightarrow> l1_at n q i Q (l1_change st i c)"
  unfolding l1_change_def by (rule l1_at_upd)

lemma at_set:
  "l1_at n q i P c \<Longrightarrow> (\<And>s. P s \<Longrightarrow> Q (s\<lparr>l1_Flags := set_bit b (l1_Flags s)\<rparr>)) \<Longrightarrow>
   l1_at n q i Q (l1_set b i c)"
  unfolding l1_set_def by (rule l1_at_upd)

lemma at_clear:
  "l1_at n q i P c \<Longrightarrow> (\<And>s. P s \<Longrightarrow> Q (s\<lparr>l1_Flags := unset_bit b (l1_Flags s)\<rparr>)) \<Longrightarrow>
   l1_at n q i Q (l1_clear b i c)"
  unfolding l1_clear_def by (rule l1_at_upd)

lemma at_restart:
  "l1_at n q i P c \<Longrightarrow>
   (\<And>s t. P s \<Longrightarrow> tl_pending t \<Longrightarrow> tm_event t = ev \<Longrightarrow> Q (s\<lparr>l1_timer := t\<rparr>)) \<Longrightarrow>
   l1_at n q i Q (l1_restart ms ev i c)"
  unfolding l1_restart_def by (erule l1_at_upd) (simp add: FsmRestartTimer_def)

lemma at_del:
  "l1_at n q i P c \<Longrightarrow> (\<And>s t. P s \<Longrightarrow> \<not> tl_pending t \<Longrightarrow> Q (s\<lparr>l1_timer := t\<rparr>)) \<Longrightarrow>
   l1_at n q i Q (l1_del i c)"
  unfolding l1_del_def by (erule l1_at_upd) simp

lemma at_test: "l1_at n q i P c \<Longrightarrow> l1_at n q i (\<lambda>s. P s \<and> bit (l1_Flags s) b = l1_test b i c) c"
  by (simp add: l1_at_def l1_test_def)

lemma at_weaken: "l1_at n q i P c \<Longrightarrow> (\<And>s. P s \<Longrightarrow> Q s) \<Longrightarrow> l1_at n q i Q c"
  by (simp add: l1_at_def)

subsection \<open>Handlers of the S machine\<close>

lemmas l1_bits = bit_set_bit_iff bit_unset_bit_iff

lemma l1_reset_ok: "l1_at n q i l1_ok c \<Longrightarrow> wpo (l1_reset up i c) (l1_inv n q)"
  unfolding l1_reset_def wpo_Some
  by (rule l1_at_invI [of _ _ i l1_ok], erule at_change) (simp_all add: l1_change_ok)

lemma l1_go_F5_ok: "l1_at n q i l1_ok c \<Longrightarrow> wpo (l1_go_F5 up i c) (l1_inv n q)"
  unfolding l1_go_F5_def wpo_Some
  by (rule l1_at_invI [of _ _ i l1_ok], erule at_change) (simp_all add: l1_change_ok)

lemma l1_go_F8_ok: "l1_at n q i l1_ok c \<Longrightarrow> wpo (l1_go_F8 up i c) (l1_inv n q)"
  unfolding l1_go_F8_def wpo_Some
  by (rule l1_at_invI [of _ _ i l1_ok], erule at_change) (simp_all add: l1_change_ok)

lemma l1_deact_cnf_ok:
  assumes "l1_at n q i l1_ok c"
  shows "wpo (l1_deact_cnf up i c) (l1_inv n q)"
proof -
  have at: "l1_at n q i l1_ok (l1_change ST_L1_F3 i c)"
    by (rule at_change [OF assms]) (simp add: l1_change_ok)
  then have "l1_inv n q (l1_change ST_L1_F3 i c)" "i < n" unfolding l1_at_ok by simp_all
  then show ?thesis by (simp add: l1_deact_cnf_def Let_def inv_l1hw)
qed

lemma l1_deact_req_s_ok:
  assumes "l1_at n q i l1_ok c"
  shows "wpo (l1_deact_req_s up i c) (l1_inv n q)"
proof -
  have "l1_at n q i (\<lambda>s. l1_ok s \<and> l1_state s = ST_L1_F3) (l1_change ST_L1_F3 i c)"
    by (rule at_change [OF assms]) (simp add: l1_change_ok)
  then have "l1_at n q i l1_ok
      (l1_set FLG_L1_DEACTTIMER i (l1_restart 550 EV_TIMER_DEACT i (l1_change ST_L1_F3 i c)))"
    unfolding l1_set_def l1_restart_def
    by (subst l1_upd_upd, simp add: l1_at_def)
      (erule l1_at_upd, simp add: l1_ok_def l1_waits_def FsmRestartTimer_def l1_bits)
  then show ?thesis unfolding l1_deact_req_s_def wpo_Some l1_at_ok by simp
qed

lemma l1_power_up_s_ok:
  assumes "l1_at n q i l1_ok c"
  shows "wpo (l1_power_up_s up i c) (l1_inv n q)"
proof (cases "l1_test FLG_L1_ACTIVATING i c")
  case True
  have at: "l1_at n q i (\<lambda>s. l1_ok s \<and> l1_state s = ST_L1_F4) (l1_change ST_L1_F4 i c)"
    by (rule at_change [OF assms]) (simp add: l1_change_ok)
  have "l1_inv n q (l1_set FLG_L1_T3RUN i (l1_restart TIMER3_VALUE EV_TIMER3 i c'))"
    if "l1_at n q i (\<lambda>s. l1_ok s \<and> l1_state s = ST_L1_F4) c'" for c'
  proof -
    have "l1_at n q i l1_ok (l1_set FLG_L1_T3RUN i (l1_restart TIMER3_VALUE EV_TIMER3 i c'))"
      using that unfolding l1_set_def l1_restart_def
      by (subst l1_upd_upd, simp add: l1_at_def)
        (erule l1_at_upd, simp add: l1_ok_def l1_waits_def FsmRestartTimer_def l1_bits)
    then show ?thesis unfolding l1_at_ok by simp
  qed
  then show ?thesis
    unfolding l1_power_up_s_def if_P [OF True] wpo_bind wpo_Some
    by (rule wpo_mono [OF at_l1hw [OF at]])
next
  case False
  have "l1_at n q i l1_ok (l1_change ST_L1_F3 i c)"
    by (rule at_change [OF assms]) (simp add: l1_change_ok)
  then show ?thesis using False unfolding l1_power_up_s_def l1_at_ok by simp
qed

lemma at_no_uint: "l1_at n q i l1_ok c \<Longrightarrow> \<not> l1_test FLG_L1_UINT i c"
  by (simp add: l1_at_def l1_test_def l1_ok_def)

lemma l1_info2_ind_ok:
  assumes "l1_at n q i l1_ok c"
  shows "wpo (l1_info2_ind up i c) (l1_inv n q)"
proof -
  have "l1_at n q i l1_ok (l1_change ST_L1_F6 i c)"
    by (rule at_change [OF assms]) (simp add: l1_change_ok)
  then show ?thesis
    using at_no_uint [OF assms] unfolding l1_info2_ind_def l1_at_ok by (simp add: inv_l1hw)
qed

lemma l1_F7_ok:
  "l1_ok s \<Longrightarrow> \<not> bit (l1_Flags s) FLG_L1_DEACTTIMER \<Longrightarrow> bit (l1_Flags s) FLG_L1_ACTIVATED \<Longrightarrow>
   l1_ok (s\<lparr>l1_state := ST_L1_F7\<rparr>)"
  by (auto simp: l1_ok_def l1_waits_def)

lemma l1_okD: "l1_ok s \<Longrightarrow> l1_fsm s = L1FSM_S" "l1_ok s \<Longrightarrow> \<not> bit (l1_Flags s) FLG_L1_UINT"
  by (simp_all add: l1_ok_def)

lemma l1_info4_ind_ok:
  assumes "l1_at n q i l1_ok c"
  shows "wpo (l1_info4_ind up i c) (l1_inv n q)"
proof -
  let ?P = "\<lambda>s. \<exists>s0. l1_ok s0 \<and> s = s0\<lparr>l1_state := ST_L1_F7\<rparr>"
  let ?Q = "\<lambda>s. ?P s \<and> \<not> l1_waits EV_TIMER_DEACT s"
  have at: "l1_at n q i ?P (l1_change ST_L1_F7 i c)"
    by (rule at_change [OF assms]) blast
  have rest: "wpo
      (let c = (if l1_test FLG_L1_DEACTTIMER i c' then l1_del i (l1_clear FLG_L1_DEACTTIMER i c') else c')
       in if \<not> l1_test FLG_L1_ACTIVATED i c
          then (let c = (if l1_test FLG_L1_T3RUN i c then l1_del i (l1_clear FLG_L1_T3RUN i c) else c)
                in Some (l1_set FLG_L1_ACTTIMER i (l1_restart 110 EV_TIMER_ACT i c)))
          else Some c) (l1_inv n q)" if "l1_at n q i ?P c'" for c'
  proof -
    let ?c1 = "if l1_test FLG_L1_DEACTTIMER i c' then l1_del i (l1_clear FLG_L1_DEACTTIMER i c') else c'"
    let ?R = "\<lambda>s. l1_fsm s = L1FSM_S \<and> l1_state s = ST_L1_F7 \<and> \<not> bit (l1_Flags s) FLG_L1_UINT \<and>
        (bit (l1_Flags s) FLG_L1_ACTIVATED \<longrightarrow> l1_ok s)"
    have "l1_at n q i ?R (l1_del i (l1_clear FLG_L1_DEACTTIMER i c'))"
      using that unfolding l1_del_def l1_clear_def
      by (subst l1_upd_upd, simp add: l1_at_def)
        (erule l1_at_upd, elim exE conjE, simp add: l1_ok_def l1_waits_def l1_bits FsmDelTimer_def)
    moreover have "l1_at n q i ?R c'" if "\<not> l1_test FLG_L1_DEACTTIMER i c'"
      using at_test [OF \<open>l1_at n q i ?P c'\<close>, of FLG_L1_DEACTTIMER]
      by (rule at_weaken) (elim exE conjE, use that in \<open>simp add: l1_F7_ok l1_okD\<close>)
    ultimately have c1: "l1_at n q i ?R ?c1" by simp
    show ?thesis
    proof (cases "l1_test FLG_L1_ACTIVATED i ?c1")
      case True
      then have "l1_at n q i l1_ok ?c1" using c1 by (simp add: l1_at_def l1_test_def)
      then show ?thesis using True unfolding l1_at_ok Let_def by simp
    next
      case False
      let ?S = "\<lambda>s. l1_fsm s = L1FSM_S \<and> l1_state s = ST_L1_F7 \<and> \<not> bit (l1_Flags s) FLG_L1_UINT"
      let ?c2 = "if l1_test FLG_L1_T3RUN i ?c1 then l1_del i (l1_clear FLG_L1_T3RUN i ?c1) else ?c1"
      have "l1_at n q i ?S ?c2"
        using c1 by (simp add: l1_at_def l1_del_def l1_clear_def l1_upd_upd l1_bits)
      then have "l1_at n q i l1_ok (l1_set FLG_L1_ACTTIMER i (l1_restart 110 EV_TIMER_ACT i ?c2))"
        unfolding l1_set_def l1_restart_def
        by (subst l1_upd_upd, simp add: l1_at_def)
          (erule l1_at_upd, simp add: l1_ok_def l1_waits_def FsmRestartTimer_def l1_bits)
      then show ?thesis using False unfolding l1_at_ok Let_def by simp
    qed
  qed
  show ?thesis
    unfolding l1_info4_ind_def if_not_P [OF at_no_uint [OF assms]] wpo_bind
    by (rule wpo_mono [OF at_l1hw [OF at]]) (rule rest)
qed

text \<open>An expired timer does not run any more when its event is handled.\<close>

lemma l1_timer3_ok:
  assumes "l1_at n q i (\<lambda>s. l1_ok s \<and> \<not> l1_waits EV_TIMER3 s) c"
  shows "wpo (l1_timer3 up i c) (l1_inv n q)"
proof -
  have i: "i < n" using assms by (simp add: l1_at_def)
  let ?c = "l1_clear FLG_L1_T3RUN i c"
  have at: "l1_at n q i l1_ok ?c"
    by (rule at_clear [OF assms]) (auto simp: l1_ok_def l1_waits_def l1_bits)
  have at': "l1_at n q i l1_ok (l1_clear FLG_L1_ACTIVATING i ?c)"
    by (rule at_clear [OF at]) (simp add: l1_ok_def l1_waits_def l1_bits)
  have "wpo (if l1_test FLG_L1_ACTIVATING i ?c
      then L1deactivated up (l1_clear FLG_L1_ACTIVATING i ?c) else Some ?c) (l1_inv n q)"
    using at at' unfolding l1_at_ok by (simp add: inv_deactivated)
  then show ?thesis
    unfolding l1_timer3_def Let_def wpo_bind
  proof (rule wpo_mono)
    fix c' assume c': "l1_inv n q c'"
    have "l1_at n q i l1_ok (l1_change ST_L1_F3 i c')"
      by (rule at_change [of n q i l1_ok]) (use c' i in \<open>simp_all add: l1_at_ok l1_change_ok\<close>)
    then show "wpo (if \<not> l1_test FLG_L1_UINT i c' \<and> l1_state (l1_st c' ! i) \<noteq> ST_L1_F6
        then op_l1hw up i (HW_ENABLE, REQUEST) L1None (l1_change ST_L1_F3 i c') else Some c')
        (l1_inv n q)"
      using c' unfolding l1_at_ok by (simp add: inv_l1hw)
  qed
qed

lemma l1_timer_act_ok:
  assumes "l1_at n q i (\<lambda>s. l1_ok (s\<lparr>l1_Flags := set_bit FLG_L1_ACTIVATED (l1_Flags s)\<rparr>)) c"
  shows "wpo (l1_timer_act up i c) (l1_inv n q)"
proof -
  have "l1_at n q i l1_ok (l1_set FLG_L1_ACTIVATED i (l1_clear FLG_L1_ACTTIMER i c))"
    using assms unfolding l1_set_def l1_clear_def
    by (subst l1_upd_upd, simp add: l1_at_def)
      (erule l1_at_upd, simp add: l1_ok_def l1_waits_def l1_bits)
  then show ?thesis unfolding l1_timer_act_def l1_at_ok by (simp add: inv_activated)
qed

lemma l1_timer_deact_ok:
  assumes "l1_at n q i (\<lambda>s. l1_ok s \<and> \<not> l1_waits EV_TIMER_DEACT s \<and> l1_state s \<noteq> ST_L1_F7) c"
  shows "wpo (l1_timer_deact up i c) (l1_inv n q)"
proof -
  have "l1_at n q i l1_ok (l1_clear FLG_L1_ACTIVATED i (l1_clear FLG_L1_DEACTTIMER i c))"
    using assms unfolding l1_clear_def
    by (subst l1_upd_upd, simp add: l1_at_def)
      (erule l1_at_upd, auto simp: l1_ok_def l1_waits_def l1_bits)
  then have "l1_inv n q (l1_clear FLG_L1_ACTIVATED i (l1_clear FLG_L1_DEACTTIMER i c))" "i < n"
    unfolding l1_at_ok by simp_all
  then show ?thesis
    unfolding l1_timer_deact_def wpo_bind
    by - (rule wpo_mono [OF inv_deactivated], assumption, erule inv_l1hw)
qed

lemma l1_activate_s_ok: "l1_at n q i l1_ok c \<Longrightarrow> wpo (l1_activate_s up i c) (l1_inv n q)"
  unfolding l1_activate_s_def l1_at_ok by (simp add: inv_l1hw)

lemma l1_activate_no_ok:
  assumes "l1_at n q i l1_ok c"
  shows "wpo (l1_activate_no up i c) (l1_inv n q)"
proof -
  have "l1_at n q i l1_ok (l1_clear FLG_L1_ACTIVATING i c)"
    by (rule at_clear [OF assms]) (simp add: l1_ok_def l1_waits_def l1_bits)
  then show ?thesis
    using assms unfolding l1_activate_no_def l1_at_ok by (simp add: inv_deactivated)
qed

subsection \<open>The S table and the entry points\<close>

text \<open>What holds of the stack when an event is raised on it.\<close>

definition l1_pre :: "nat \<Rightarrow> DLayer1 \<Rightarrow> bool" where
  "l1_pre ev s \<longleftrightarrow>
     l1_ok (if ev = EV_TIMER_ACT \<and> l1_state s = ST_L1_F7
            then s\<lparr>l1_Flags := set_bit FLG_L1_ACTIVATED (l1_Flags s)\<rparr> else s) \<and>
     (ev = EV_TIMER3 \<longrightarrow> \<not> l1_waits EV_TIMER3 s) \<and>
     (ev = EV_TIMER_DEACT \<longrightarrow> \<not> l1_waits EV_TIMER_DEACT s \<and> l1_state s \<noteq> ST_L1_F7)"

lemma l1_pre_okD: "l1_pre ev s \<Longrightarrow> ev \<noteq> EV_TIMER_ACT \<Longrightarrow> l1_ok s"
  by (simp add: l1_pre_def)

lemma at_ok: "l1_at n q i (l1_pre ev) c \<Longrightarrow> ev \<noteq> EV_TIMER_ACT \<Longrightarrow> l1_at n q i l1_ok c"
  by (erule at_weaken) (rule l1_pre_okD)

lemma L1SFnList_ok:
  assumes "l1_at n q i (l1_pre ev) c" "l1_state (l1_st c ! i) = st"
  shows "list_all (\<lambda>r. nd_event r = ev \<longrightarrow> nd_state r = st \<longrightarrow>
    wpo (nd_routine r i c) (l1_inv n q)) (L1SFnList up)"
proof -
  have ok: "l1_at n q i l1_ok c" if "ev \<noteq> EV_TIMER_ACT" using assms(1) that by (rule at_ok)
  have act: "l1_at n q i (\<lambda>s. l1_ok (s\<lparr>l1_Flags := set_bit FLG_L1_ACTIVATED (l1_Flags s)\<rparr>)) c"
    if "ev = EV_TIMER_ACT" "st = ST_L1_F7"
    using assms that by (simp add: l1_at_def l1_pre_def)
  have t3: "l1_at n q i (\<lambda>s. l1_ok s \<and> \<not> l1_waits EV_TIMER3 s) c" if "ev = EV_TIMER3"
    using assms(1) by (rule at_weaken) (use that in \<open>simp add: l1_pre_def\<close>)
  have td: "l1_at n q i (\<lambda>s. l1_ok s \<and> \<not> l1_waits EV_TIMER_DEACT s \<and> l1_state s \<noteq> ST_L1_F7) c"
    if "ev = EV_TIMER_DEACT"
    using assms(1) by (rule at_weaken) (use that in \<open>simp add: l1_pre_def\<close>)
  show ?thesis
    unfolding L1SFnList_def list.pred_inject FsmNode.sel
    by (intro conjI impI list.pred_inject(1);
      (rule l1_reset_ok l1_go_F5_ok l1_go_F8_ok l1_deact_cnf_ok l1_deact_req_s_ok l1_power_up_s_ok
         l1_info2_ind_ok l1_info4_ind_ok l1_activate_s_ok l1_activate_no_ok, rule ok, simp
       | rule l1_timer3_ok, rule t3, simp | rule l1_timer_deact_ok, rule td, simp
       | rule l1_timer_act_ok, rule act, simp, simp))
qed

lemma l1s_table:
  "fsm_table L1S_STATE_COUNT L1_EVENT_COUNT (L1SFnList up) (\<lambda>c. l1_state (l1_st c ! i))
     (\<lambda>ev a c. a = i \<and> l1_at n q i (l1_pre ev) c) (l1_inv n q)"
proof (unfold_locales, goal_cases)
  case (1 r a c)
  then show ?case
    using L1SFnList_ok [of n q i "nd_event r" c "nd_state r"] by (auto simp: list_all_iff)
next
  case (2 e a c)
  then have at: "l1_at n q i (l1_pre e) c" by simp
  have "\<not> (e = EV_TIMER_ACT \<and> l1_state (l1_st c ! i) = ST_L1_F7)"
    using 2(1) by (auto simp: L1SFnList_def)
  then have "l1_at n q i l1_ok c"
    using at by (auto simp: l1_at_def l1_pre_def split: if_splits)
  then show ?case unfolding l1_at_ok by simp
next
  case (3 r)
  then show ?case by (auto simp: L1SFnList_def)
qed

lemma l1_pre_fsm: "l1_pre ev s \<Longrightarrow> l1_fsm s = L1FSM_S"
  by (cases "ev = EV_TIMER_ACT \<and> l1_state s = ST_L1_F7") (simp_all add: l1_pre_def l1_ok_def)

lemma l1_event_ok:
  assumes "l1_at n q i (l1_pre ev) c"
  shows "wpo (l1_event up ev i c) (l1_inv n q)"
proof -
  have fsm: "l1_fsm (l1_st c ! i) = L1FSM_S" and i: "i < length (l1_st c)"
    using assms by (auto simp: l1_at_def intro: l1_pre_fsm)
  have "wpo (FsmEvent (fsm_of L1S_STATE_COUNT L1_EVENT_COUNT (L1SFnList up))
      (\<lambda>c. l1_state (l1_st c ! i)) ev i c) (\<lambda>(r, c'). l1_inv n q c')"
    by (rule fsm_table.event_ok [OF l1s_table]) (use assms in simp)
  then show ?thesis
    unfolding l1_event_def fsm l1fsm.case using i by (elim wpo_iff [THEN iffD1, elim_format]) auto
qed

lemma l1_plain_event_ok:
  assumes "l1_inv n q c" "i < n" "ev < EV_TIMER_DEACT \<or> ev = EV_TIMER_ACT"
  shows "wpo (l1_event up ev i c) (l1_inv n q)"
proof (rule l1_event_ok)
  have ok: "l1_ok (s\<lparr>l1_Flags := set_bit FLG_L1_ACTIVATED (l1_Flags s)\<rparr>)" if "l1_ok s" for s
    using that by (simp add: l1_ok_def l1_waits_def l1_bits)
  have "l1_pre ev s" if "l1_ok s" for s
    using assms(3) that by (elim disjE) (simp_all add: l1_pre_def ok [simplified])
  moreover have "l1_at n q i l1_ok c" using assms(1,2) unfolding l1_at_ok by simp
  ultimately show "l1_at n q i (l1_pre ev) c" using at_weaken [of n q i l1_ok c] by blast
qed

lemma l1_expire_ok:
  assumes "l1_inv n q c" "i < n"
  shows "wpo (l1_expire up i c) (l1_inv n q)"
proof (cases "tl_pending (l1_timer (l1_st c ! i))")
  case False
  then show ?thesis using assms by (simp add: l1_expire_def l1_inv_def)
next
  case True
  let ?ev = "tm_event (l1_timer (l1_st c ! i))"
  have pre: "l1_pre (tm_event (l1_timer s)) (s\<lparr>l1_timer := t\<rparr>)"
    if "l1_ok s" "tl_pending (l1_timer s)" "\<not> tl_pending t" for s t
    using that by (auto simp: l1_pre_def l1_ok_def l1_waits_def l1_bits)
  have "l1_at n q i (\<lambda>s. l1_ok s \<and> tl_pending (l1_timer s) \<and> tm_event (l1_timer s) = ?ev) c"
    using assms True by (simp add: l1_at_def l1_inv_def)
  then have "l1_at n q i (l1_pre ?ev) (l1_del i c)"
    by (rule at_del) (use pre in force)
  from l1_event_ok [OF this] show ?thesis
    using True assms by (simp add: l1_expire_def l1_inv_def)
qed

lemma dch_l2l1_ok:
  assumes "l1_inv n q c" "i < n"
  shows "wpo (dch_l2l1 up i pr arg c) (l1_inv n q)"
proof -
  have "l1_at n q i l1_ok (l1_set FLG_L1_ACTIVATING i c)"
    by (rule at_set [of n q i l1_ok])
      (use assms in \<open>simp_all add: l1_at_ok l1_ok_def l1_waits_def l1_bits\<close>)
  then have "l1_inv n q (l1_set FLG_L1_ACTIVATING i c)" unfolding l1_at_ok by simp
  from l1_plain_event_ok [OF this assms(2), of EV_PH_ACTIVATE] show ?thesis
    using assms by (simp add: dch_l2l1_def inv_l1hw inv_l1l2 up_args)
qed

lemma l1_inv_length: "l1_inv n q c \<Longrightarrow> length (l1_st c) = n"
  by (simp add: l1_inv_def)

lemma l1_msg_ok:
  assumes "l1_inv n q c"
  shows "wpo (l1_msg up pr c) (l1_inv n q)"
  unfolding l1_msg_def
proof (rule each_inv, rule assms)
  fix i c' assume "i \<in> set (l1_stacks c)" and c': "l1_inv n q c'"
  then have i: "i < n" using l1_inv_length [OF assms] by simp
  show "wpo (case l1_msg_event pr of Some ev \<Rightarrow> l1_event up ev i c' | None \<Rightarrow> Some c') (l1_inv n q)"
  proof (cases "l1_msg_event pr")
    case None
    then show ?thesis using c' by simp
  next
    case (Some ev)
    then have "ev < EV_TIMER_DEACT" by (simp add: l1_msg_event_def split: if_splits)
    then show ?thesis using l1_plain_event_ok [OF c' i] Some by simp
  qed
qed

lemma inv_clear_flag:
  assumes "l1_inv n q c" "i < n" "b \<in> {FLG_L1_PULL_REQ, FLG_L1_ACTIVATING}"
  shows "l1_inv n q (l1_clear b i c)"
proof -
  have "l1_at n q i l1_ok (l1_clear b i c)"
    by (rule at_clear [of n q i l1_ok])
      (use assms in \<open>auto simp: l1_at_ok l1_ok_def l1_waits_def l1_bits\<close>)
  then show ?thesis unfolding l1_at_ok by simp
qed

lemma DChannel_proc_xmt_ok:
  assumes "l1_inv n q c"
  shows "wpo (DChannel_proc_xmt up c) (l1_inv n q)"
proof -
  have "wpo (xmt_loop up is c) (l1_inv n q)" if "\<forall>i \<in> set is. i < n" for "is"
    using that assms by (induction "is") (simp_all add: inv_l1l2 inv_clear_flag up_args)
  then show ?thesis using assms by (simp add: DChannel_proc_xmt_def l1_inv_length [OF assms])
qed

subsection \<open>Received frames are worked off\<close>

lemma inv_kenv: "l1_inv n q c \<Longrightarrow> l1_inv n q (c\<lparr>l1_kenv := k\<rparr>)"
  by (simp add: l1_inv_def good_kenv)

lemma rcv_frame_ok:
  assumes "l1_inv n q c"
  shows "wpo (rcv_frame up skb c) (l1_inv n q)"
proof -
  have i: "i < n" if "i \<in> set (l1_stacks c)" for i using that l1_inv_length [OF assms] by simp
  have l1l2: "wpo (op_l1l2 up i (PH_DATA, INDICATION) (Some s) c') (l1_inv n q)"
    if "l1_inv n q c'" "i < n" for i s c' using that by (simp add: inv_l1l2 up_args)
  have cast: "wpo (each (\<lambda>i. clone_to (\<lambda>s. op_l1l2 up i (PH_DATA, INDICATION) (Some s)) skb)
      (l1_stacks c) c) (l1_inv n q)"
    by (rule each_inv, rule assms)
      (auto simp: clone_to_def l1l2 inv_kenv i split: prod.splits)
  have tei: "wpo (each (\<lambda>i. clone_to (\<lambda>s. op_l1tei up i (PH_DATA, INDICATION) s) skb)
      (l1_stacks c) c) (l1_inv n q)"
    by (rule each_inv, rule assms)
      (auto simp: clone_to_def inv_l1tei inv_kenv i split: prod.splits)
  have "wpo (rcv_for_tei up t skb is c) (l1_inv n q)" if "\<forall>i \<in> set is. i < n" for t "is"
    using that assms by (induction "is") (simp_all add: l1l2)
  then show ?thesis
    using assms cast tei i by (simp add: rcv_frame_def Let_def)
qed

lemma rcv_loop_ok:
  "l1_inv n q c \<Longrightarrow> wpo (rcv_loop up c) (l1_inv n (rcv_rest q))"
proof (induction q arbitrary: c)
  case Nil
  then have "l1_rq c = []" by (simp add: l1_inv_def)
  then show ?case using Nil by (simp add: rcv_loop.simps)
next
  case (Cons skb q)
  then have rq: "l1_rq c = skb # q" by (simp add: l1_inv_def)
  have c': "l1_inv n q (c\<lparr>l1_rq := q\<rparr>)" using Cons.prems by (simp add: l1_inv_def good_rq)
  show ?case
  proof (cases "lapd_address (skb_bytes skb)")
    case True
    have "wpo (rcv_frame up skb (c\<lparr>l1_rq := q\<rparr>))
        (\<lambda>c. wpo (rcv_loop up c) (l1_inv n (rcv_rest q)))"
      by (rule wpo_mono [OF rcv_frame_ok [OF c']]) (rule Cons.IH)
    then show ?thesis using True rq by (subst rcv_loop.simps) simp
  next
    case False
    then show ?thesis using c' rq by (subst rcv_loop.simps) simp
  qed
qed

lemma DChannel_proc_rcv_ok:
  assumes "l1_inv n q c"
  shows "wpo (DChannel_proc_rcv up c) (l1_inv n (rcv_rest q))"
proof -
  have "wpo (if 0 < length (l1_st c) \<and> l1_test FLG_L1_ACTTIMER 0 c
      then l1_event up EV_TIMER_ACT 0 c else Some c) (l1_inv n q)"
    using assms l1_plain_event_ok [OF assms, of 0 EV_TIMER_ACT] by (auto simp: l1_inv_length)
  then show ?thesis
    unfolding DChannel_proc_rcv_def wpo_bind by (rule wpo_mono) (rule rcv_loop_ok)
qed

end

end
