(* ===== verification/Hisax_L1_B.thy ===== *)
theory Hisax_L1_B
  imports Hisax_L1_Inv
begin

text \<open>
  Layer 1 of a B channel: the contract with layer 2 and the driver (locale \<open>b_client\<close>) and the
  invariant of its machine: the timer runs exactly in the two waiting states, with the event that
  leaves them.
\<close>

definition b_ok :: "Layer1 \<Rightarrow> bool" where
  "b_ok s \<longleftrightarrow> l1_state s < L1B_STATE_COUNT \<and>
     (l1_state s = ST_L1_WAIT_ACT \<longrightarrow> l1_waits EV_TIMER_ACT s) \<and>
     (l1_state s = ST_L1_WAIT_DEACT \<longrightarrow> l1_waits EV_TIMER_DEACT s) \<and>
     (tl_pending (l1_timer s) \<longrightarrow> l1_state s = ST_L1_WAIT_ACT \<or> l1_state s = ST_L1_WAIT_DEACT)"

lemma b_upd_sel [simp]:
  "bc_l1 (b_upd f b) = f (bc_l1 b)" "bc_rqueue (b_upd f b) = bc_rqueue b"
  "bc_squeue (b_upd f b) = bc_squeue b" "bc_Flag (b_upd f b) = bc_Flag b"
  "bc_kenv (b_upd f b) = bc_kenv b"
  by (simp_all add: b_upd_def)

lemma setstack_l1_B_ok: "b_ok (setstack_l1_B s)"
  by (simp add: setstack_l1_B_def b_ok_def)

locale b_client =
  fixes up :: "'z BCState_scheme b_ops"
    and good :: "'z BCState_scheme \<Rightarrow> bool"
  assumes b_l1l2_ok:
      "\<And>pr skb b. good b \<Longrightarrow>
         (pr, skb) \<in> {((PH_ACTIVATE, CONFIRM), None), ((PH_PULL, CONFIRM), None)} \<or>
         pr = (PH_DATA, INDICATION) \<and> skb \<noteq> None \<Longrightarrow>
         wpo (op_b_l1l2 up pr skb b)
           (\<lambda>b'. good b' \<and> bc_l1 b' = bc_l1 b \<and> bc_rqueue b' = bc_rqueue b)"
    and b_l2l1_ok:
      "\<And>b. good b \<Longrightarrow> wpo (op_b_l2l1 up (PH_DEACTIVATE, CONFIRM) b)
           (\<lambda>b'. good b' \<and> bc_l1 b' = bc_l1 b \<and> bc_rqueue b' = bc_rqueue b)"
    and good_l1: "\<And>b l. good (b\<lparr>bc_l1 := l\<rparr>) = good b"
    and good_rqueue: "\<And>b q. good (b\<lparr>bc_rqueue := q\<rparr>) = good b"
    and good_event: "\<And>b e. good (b\<lparr>bc_event := e\<rparr>) = good b"
begin

lemma good_b_upd [simp]: "good (b_upd f b) = good b"
  by (simp add: b_upd_def good_l1)

definition b_inv :: "sk_buff list \<Rightarrow> 'z BCState_scheme \<Rightarrow> bool" where
  "b_inv q b \<longleftrightarrow> good b \<and> b_ok (bc_l1 b) \<and> bc_rqueue b = q"

lemma b_inv_l1l2:
  "b_inv q b \<Longrightarrow> (pr, skb) \<in> {((PH_ACTIVATE, CONFIRM), None), ((PH_PULL, CONFIRM), None)} \<or>
     pr = (PH_DATA, INDICATION) \<and> skb \<noteq> None \<Longrightarrow> wpo (op_b_l1l2 up pr skb b) (b_inv q)"
  using b_l1l2_ok [of b pr skb] by (auto simp: b_inv_def wpo_iff)

lemma b_inv_l2l1: "b_inv q b \<Longrightarrow> wpo (op_b_l2l1 up (PH_DEACTIVATE, CONFIRM) b) (b_inv q)"
  using b_l2l1_ok [of b] by (auto simp: b_inv_def wpo_iff)

text \<open>A timer event comes with the timer stopped.\<close>

definition b_pre :: "nat \<Rightarrow> sk_buff list \<Rightarrow> 'z BCState_scheme \<Rightarrow> bool" where
  "b_pre ev q b \<longleftrightarrow> good b \<and> bc_rqueue b = q \<and> l1_state (bc_l1 b) < L1B_STATE_COUNT \<and>
     (if ev = EV_TIMER_ACT then l1_state (bc_l1 b) = ST_L1_WAIT_ACT \<and> \<not> tl_pending (l1_timer (bc_l1 b))
      else if ev = EV_TIMER_DEACT
      then l1_state (bc_l1 b) = ST_L1_WAIT_DEACT \<and> \<not> tl_pending (l1_timer (bc_l1 b))
      else b_ok (bc_l1 b))"

lemmas b_defs = b_inv_def b_pre_def b_ok_def l1_waits_def b_change_def b_restart_def b_del_def
  FsmRestartTimer_def FsmDelTimer_def

lemma b_pre_okD: "b_pre ev q b \<Longrightarrow> ev \<noteq> EV_TIMER_ACT \<Longrightarrow> ev \<noteq> EV_TIMER_DEACT \<Longrightarrow> b_inv q b"
  by (simp add: b_pre_def b_inv_def)

lemma b_pre_idle:
  "b_pre ev q b \<Longrightarrow> \<not> (l1_state (bc_l1 b) = ST_L1_WAIT_ACT \<and> ev = EV_TIMER_ACT) \<Longrightarrow>
   \<not> (l1_state (bc_l1 b) = ST_L1_WAIT_DEACT \<and> ev = EV_TIMER_DEACT) \<Longrightarrow> b_inv q b"
  by (cases "ev = EV_TIMER_ACT"; cases "ev = EV_TIMER_DEACT") (simp_all add: b_pre_def b_inv_def)

lemma L1BFnList_ok:
  assumes "b_pre ev q b" "l1_state (bc_l1 b) = st"
  shows "list_all (\<lambda>r. nd_event r = ev \<longrightarrow> nd_state r = st \<longrightarrow>
    wpo (nd_routine r a b) (b_inv q)) (L1BFnList up)"
proof -
  have act: "b_inv q (b_change ST_L1_ACTIV b)" if "ev = EV_TIMER_ACT"
    using assms that by (simp add: b_defs)
  have deact: "b_inv q (b_change ST_L1_NULL b)" if "ev = EV_TIMER_DEACT"
    using assms that by (simp add: b_defs)
  have start: "wpo (l1b_activate up a b) (b_inv q)" "wpo (l1b_deactivate up a b) (b_inv q)"
    if "ev \<noteq> EV_TIMER_ACT" "ev \<noteq> EV_TIMER_DEACT"
    using b_pre_okD [OF assms(1) that]
    by (simp_all add: l1b_activate_def l1b_deactivate_def b_defs)
  have "wpo (l1b_timer_act up a b) (b_inv q)" if "ev = EV_TIMER_ACT"
    unfolding l1b_timer_act_def by (rule b_inv_l1l2 [OF act [OF that]]) simp
  moreover have "wpo (l1b_timer_deact up a b) (b_inv q)" if "ev = EV_TIMER_DEACT"
    unfolding l1b_timer_deact_def by (rule b_inv_l2l1 [OF deact [OF that]])
  ultimately show ?thesis
    using start unfolding L1BFnList_def list.pred_inject FsmNode.sel
    by (intro conjI impI list.pred_inject(1)) simp_all
qed

lemma b_table:
  "fsm_table L1B_STATE_COUNT L1_EVENT_COUNT (L1BFnList up) (\<lambda>b. l1_state (bc_l1 b))
     (\<lambda>ev a b. b_pre ev q b) (b_inv q)"
proof (unfold_locales, goal_cases)
  case (1 r a b)
  then show ?case
    using L1BFnList_ok [of "nd_event r" q b "nd_state r" a] by (auto simp: list_all_iff)
next
  case (2 ev a b)
  then have "\<not> (l1_state (bc_l1 b) = ST_L1_WAIT_ACT \<and> ev = EV_TIMER_ACT)"
    "\<not> (l1_state (bc_l1 b) = ST_L1_WAIT_DEACT \<and> ev = EV_TIMER_DEACT)"
    by (auto simp: L1BFnList_def)
  then show ?case using b_pre_idle [OF 2(2)] by blast
next
  case (3 r)
  then show ?case by (auto simp: L1BFnList_def)
qed

lemma b_event_ok: "b_pre ev q b \<Longrightarrow> wpo (b_event up ev b) (b_inv q)"
  using fsm_table.event_ok [OF b_table, of ev q b "()"] by (auto simp: b_event_def wpo_iff)

lemma b_expire_ok:
  assumes "b_inv q b"
  shows "wpo (b_expire up b) (b_inv q)"
proof (cases "tl_pending (l1_timer (bc_l1 b))")
  case True
  then have "b_pre (tm_event (l1_timer (bc_l1 b))) q (b_del b)"
    using assms by (auto simp: b_defs)
  then show ?thesis using True by (simp add: b_expire_def b_event_ok)
qed (use assms in \<open>simp add: b_expire_def\<close>)

lemma l1_msg_b_ok: "b_inv q b \<Longrightarrow> wpo (l1_msg_b up pr b) (b_inv q)"
  using b_event_ok [of EV_PH_ACTIVATE q b] b_event_ok [of EV_PH_DEACTIVATE q b]
  by (simp add: l1_msg_b_def b_pre_def b_inv_def b_ok_def)

lemma b_inv_pull:
  "b_inv q b \<Longrightarrow> b_inv q (b_upd (\<lambda>s. s\<lparr>l1_Flags := unset_bit FLG_L1_PULL_REQ (l1_Flags s)\<rparr>) b)"
  by (simp add: b_inv_def b_ok_def l1_waits_def)

lemma BChannel_proc_xmt_ok:
  assumes "b_inv q b"
  shows "wpo (BChannel_proc_xmt up b) (b_inv q)"
proof -
  have 1: "wpo (if bit (l1_Flags (bc_l1 b)) FLG_L1_PULL_REQ
      then op_b_l1l2 up (PH_PULL, CONFIRM) None
             (b_upd (\<lambda>s. s\<lparr>l1_Flags := unset_bit FLG_L1_PULL_REQ (l1_Flags s)\<rparr>) b)
      else Some b) (b_inv q)"
    using assms b_inv_l1l2 [OF b_inv_pull [OF assms], of "(PH_PULL, CONFIRM)" None] by simp
  have 2: "wpo (if \<not> bit (bc_Flag b') BC_FLG_ACTIV \<and> \<not> bit (bc_Flag b') BC_FLG_BUSY \<and>
      bc_squeue b' = [] then op_b_l2l1 up (PH_DEACTIVATE, CONFIRM) b' else Some b') (b_inv q)"
    if "b_inv q b'" for b' using that b_inv_l2l1 by simp
  show ?thesis
  proof (cases "bit (bc_Flag b) BC_FLG_BUSY")
    case False
    show ?thesis
      unfolding BChannel_proc_xmt_def if_not_P [OF False] wpo_bind
      by (rule wpo_mono [OF 1]) (rule 2)
  qed (use assms in \<open>simp add: BChannel_proc_xmt_def\<close>)
qed

lemma b_rcv_loop_ok: "b_inv q b \<Longrightarrow> wpo (b_rcv_loop up b) (b_inv [])"
proof (induction q arbitrary: b)
  case Nil
  then have "bc_rqueue b = []" by (simp add: b_inv_def)
  then show ?case using Nil by (simp add: b_rcv_loop.simps)
next
  case (Cons skb q)
  then have "bc_rqueue b = skb # q" by (simp add: b_inv_def)
  moreover have "b_inv q (b\<lparr>bc_rqueue := q\<rparr>)"
    using Cons.prems by (simp add: b_inv_def good_rqueue)
  then have "wpo (op_b_l1l2 up (PH_DATA, INDICATION) (Some skb) (b\<lparr>bc_rqueue := q\<rparr>))
      (\<lambda>b. wpo (b_rcv_loop up b) (b_inv []))"
    by (rule wpo_mono [OF b_inv_l1l2]) (simp_all add: Cons.IH)
  ultimately show ?case by (subst b_rcv_loop.simps) simp
qed

lemma BChannel_proc_rcv_ok:
  assumes "b_inv q b"
  shows "wpo (BChannel_proc_rcv up b) (b_inv [])"
proof -
  have "b_pre EV_TIMER_ACT q (b_del b)" if "l1_state (bc_l1 b) = ST_L1_WAIT_ACT"
    using assms that by (simp add: b_defs)
  then have "wpo (if l1_state (bc_l1 b) = ST_L1_WAIT_ACT then b_event up EV_TIMER_ACT (b_del b)
      else Some b) (b_inv q)"
    using assms b_event_ok by simp
  then show ?thesis
    unfolding BChannel_proc_rcv_def wpo_bind by (rule wpo_mono) (rule b_rcv_loop_ok)
qed

lemma BChannel_bh_ok:
  assumes "b_inv q b"
  shows "wpo (BChannel_bh up b) (\<lambda>b'. \<exists>q'. b_inv q' b')"
proof -
  have ev: "b_inv q (b\<lparr>bc_event := e\<rparr>)" if "b_inv q b" for q b e
    using that by (simp add: b_inv_def good_event)
  have 1: "wpo (if bit (bc_event b) B_RCVBUFREADY
      then BChannel_proc_rcv up (b\<lparr>bc_event := unset_bit B_RCVBUFREADY (bc_event b)\<rparr>)
      else Some b) (\<lambda>b'. \<exists>q'. b_inv q' b')"
    using assms wpo_mono [OF BChannel_proc_rcv_ok [OF ev [OF assms]], of "\<lambda>b'. \<exists>q'. b_inv q' b'"]
    by auto
  show ?thesis
    unfolding BChannel_bh_def wpo_bind
  proof (rule wpo_mono [OF 1])
    fix b' assume "\<exists>q'. b_inv q' b'"
    then obtain q' where q': "b_inv q' b'" by blast
    show "wpo (if bit (bc_event b') B_XMTBUFREADY
        then BChannel_proc_xmt up (b'\<lparr>bc_event := unset_bit B_XMTBUFREADY (bc_event b')\<rparr>)
        else Some b') (\<lambda>b'. \<exists>q'. b_inv q' b')"
      using q' wpo_mono [OF BChannel_proc_xmt_ok [OF ev [OF q']], of "\<lambda>b'. \<exists>q'. b_inv q' b'"]
      by auto
  qed
qed

end

end
