(* ===== verification/Hisax_L2_Handlers.thy ===== *)
theory Hisax_L2_Handlers
  imports Hisax_L2
begin

text \<open>
  The procedures of \<open>hisax/isdnl2.c\<close>: sending frames, the window and retransmission loops, the
  handlers of the state table \<open>L2FnList\<close>, and the entry points \<open>isdnl2_l1l2\<close> and \<open>isdnl2_l3l2\<close>.

  \<open>None\<close> is a kernel fault: a null buffer in the window, an index outside the window, a modulus of
  zero, a read behind the end of a frame, a header pushed without headroom, or an argument of the
  wrong kind.
\<close>

subsection \<open>Sequence numbers and the window\<close>

definition legalnr :: "u32 \<Rightarrow> Layer2 \<Rightarrow> bool" where
  "legalnr nr s \<longleftrightarrow> l2_dist s nr \<le> l2_dist s (l2_vs s)"

text \<open>One turn of the loop of \<open>setva\<close>: the oldest frame of the window is acknowledged.\<close>

definition setva_step :: "sk_buff \<Rightarrow> Layer2 \<Rightarrow> Layer2" where
  "setva_step skb s =
     (let s = s\<lparr>l2_va := (l2_va s + 1) mod l2_modulus s,
                l2_windowar := (l2_windowar s)[l2_sow s := None],
                l2_sow := (l2_sow s + 1) mod l2_window s\<rparr>
      in if l2_writewakeup s \<and> skb_pkt_type skb \<noteq> PACKET_NOACK
         then emit (WAKEUP (skb_len skb)) s else s)"

definition win_count :: "Layer2 \<Rightarrow> nat" where
  "win_count s = length (filter (\<lambda>w. w \<noteq> None) (l2_windowar s))"

lemma filter_update_None:
  "i < length xs \<Longrightarrow> xs ! i = Some x \<Longrightarrow>
   length (filter (\<lambda>w. w \<noteq> None) (xs[i := None])) < length (filter (\<lambda>w. w \<noteq> None) xs)"
proof (induction xs arbitrary: i)
  case Nil
  then show ?case by simp
next
  case (Cons a xs)
  then show ?case by (cases i) auto
qed

text \<open>
  Every turn empties a slot that must be filled, so the loop ends: in \<open>va = nr\<close>, or in a fault
  when it runs into an empty slot.
\<close>

function setva :: "u32 \<Rightarrow> Layer2 \<Rightarrow> Layer2 option" where
  "setva nr s =
     (if l2_va s = nr then Some s
      else if l2_window s = 0 \<or> length (l2_windowar s) \<le> l2_sow s then None
      else case l2_windowar s ! l2_sow s of
             None \<Rightarrow> None
           | Some skb \<Rightarrow> setva nr (setva_step skb s))"
  by pat_completeness auto
termination
proof (relation "measure (\<lambda>(nr, s). win_count s)", simp, clarsimp)
  fix s :: Layer2 and skb
  assume "\<not> length (l2_windowar s) \<le> l2_sow s" "l2_windowar s ! l2_sow s = Some skb"
  then show "win_count (setva_step skb s) < win_count s"
    using filter_update_None [of "l2_sow s" "l2_windowar s" skb]
    by (simp add: win_count_def setva_step_def emit_def Let_def)
qed

declare setva.simps [simp del]

definition send_uframe :: "u8 \<Rightarrow> bool \<Rightarrow> Layer2 \<Rightarrow> Layer2" where
  "send_uframe cmd cr s =
     (case alloc_skb2 s of (ok, s') \<Rightarrow>
        if ok then enqueue_super (skb_new 0 (sethdraddr s cr @ [cmd])) s' else s')"

definition get_PollFlag :: "Layer2 \<Rightarrow> sk_buff \<Rightarrow> u8 option" where
  "get_PollFlag s skb = do { d \<leftarrow> rd (skb_bytes skb) (l2addrsize s); Some (d AND 0x10) }"

definition start_t200 :: "Layer2 \<Rightarrow> Layer2" where
  "start_t200 s = set_bit2 FLG_T200_RUN (add_t200 s)"

definition restart_t200 :: "Layer2 \<Rightarrow> Layer2" where
  "restart_t200 s =
     set_bit2 FLG_T200_RUN
       (s\<lparr>l2_t200 := FsmRestartTimer (l2_env s) (l2_T200 s) EV_L2_T200 (l2_t200 s)\<rparr>)"

definition stop_t200 :: "Layer2 \<Rightarrow> Layer2" where
  "stop_t200 s =
     (if test_bit FLG_T200_RUN s
      then (clear_bit2 FLG_T200_RUN s)\<lparr>l2_t200 := FsmDelTimer (l2_t200 s)\<rparr> else s)"

definition st5_dl_release_l2l3 :: "Layer2 \<Rightarrow> Layer2" where
  "st5_dl_release_l2l3 s =
     (if test_bit FLG_PEND_REL s
      then emit (L2L3 (DL_RELEASE, CONFIRM) None) (clear_bit2 FLG_PEND_REL s)
      else emit (L2L3 (DL_RELEASE, INDICATION) None) s)"

definition lapb_dl_release_l2l3 :: "pr_kind \<Rightarrow> Layer2 \<Rightarrow> Layer2" where
  "lapb_dl_release_l2l3 f s =
     emit (L2L3 (DL_RELEASE, f) None)
       (if test_bit FLG_LAPB s then emit (L2L1 (PH_DEACTIVATE, REQUEST) None) s else s)"

definition sabm_cmd :: "Layer2 \<Rightarrow> u8" where
  "sabm_cmd s = (if test_bit FLG_MOD128 s then F_SABME else F_SABM) OR 0x10"

definition establishlink :: "Layer2 \<Rightarrow> Layer2" where
  "establishlink s =
     (let s = (clear_exception s)\<lparr>l2_rc := 0\<rparr>;
          s = del_t203 (send_uframe (sabm_cmd s) CMD s);
          s = clear_bit2 FLG_PEND_REL (restart_t200 s)
      in FsmChangeState2 ST_L2_5 (freewin s))"

subsection \<open>Handlers: errors, assignment, unnumbered information\<close>

text \<open>The argument of an event must be a frame where the handler takes it for one.\<close>

definition with_skb :: "l2arg \<Rightarrow> (sk_buff \<Rightarrow> 'b option) \<Rightarrow> 'b option" where
  "with_skb arg f = (case arg of Skb skb \<Rightarrow> f skb | _ \<Rightarrow> None)"

lemma with_skb_Skb [simp]: "with_skb (Skb skb) f = f skb"
  by (simp add: with_skb_def)

definition l2_mdl_error_ua :: "l2arg \<Rightarrow> Layer2 \<Rightarrow> Layer2 option" where
  "l2_mdl_error_ua arg s = with_skb arg (\<lambda>skb. do {
     pf \<leftarrow> get_PollFlag s skb;
     Some (if pf \<noteq> 0 then ma_error (charno CHR ''C'') s else ma_error (charno CHR ''D'') s)
   })"

definition l2_mdl_error_dm :: "l2arg \<Rightarrow> Layer2 \<Rightarrow> Layer2 option" where
  "l2_mdl_error_dm arg s = with_skb arg (\<lambda>skb. do {
     pf \<leftarrow> get_PollFlag s skb;
     Some (if pf \<noteq> 0 then ma_error (charno CHR ''B'') s
           else clear_bit2 FLG_L3_INIT (establishlink (ma_error (charno CHR ''E'') s)))
   })"

definition l2_st8_mdl_error_dm :: "l2arg \<Rightarrow> Layer2 \<Rightarrow> Layer2 option" where
  "l2_st8_mdl_error_dm arg s = with_skb arg (\<lambda>skb. do {
     pf \<leftarrow> get_PollFlag s skb;
     let s = (if pf \<noteq> 0 then ma_error (charno CHR ''B'') s else ma_error (charno CHR ''E'') s);
     Some (clear_bit2 FLG_L3_INIT (establishlink s))
   })"

definition l2_go_st3 :: "l2arg \<Rightarrow> Layer2 \<Rightarrow> Layer2 option" where
  "l2_go_st3 arg s = Some (FsmChangeState2 ST_L2_3 s)"

definition l2_mdl_assign :: "l2arg \<Rightarrow> Layer2 \<Rightarrow> Layer2 option" where
  "l2_mdl_assign arg s =
     Some (emit (L2TEI (MDL_ASSIGN, INDICATION)) (FsmChangeState2 ST_L2_3 s))"

definition queue_ui :: "sk_buff \<Rightarrow> Layer2 \<Rightarrow> Layer2" where
  "queue_ui skb s = s\<lparr>l2_ui_queue := l2_ui_queue s @ [skb]\<rparr>"

definition queue_i :: "sk_buff \<Rightarrow> Layer2 \<Rightarrow> Layer2" where
  "queue_i skb s = s\<lparr>l2_i_queue := l2_i_queue s @ [skb]\<rparr>"

definition l2_queue_ui_assign :: "l2arg \<Rightarrow> Layer2 \<Rightarrow> Layer2 option" where
  "l2_queue_ui_assign arg s = with_skb arg (\<lambda>skb.
     Some (emit (L2TEI (MDL_ASSIGN, INDICATION)) (FsmChangeState2 ST_L2_2 (queue_ui skb s))))"

definition l2_queue_ui :: "l2arg \<Rightarrow> Layer2 \<Rightarrow> Layer2 option" where
  "l2_queue_ui arg s = with_skb arg (\<lambda>skb. Some (queue_ui skb s))"

text \<open>\<open>tx_ui\<close> empties the queue of UI frames, each with the same header.\<close>

fun tx_ui_loop :: "u8 list \<Rightarrow> sk_buff list \<Rightarrow> Layer2 \<Rightarrow> Layer2 option" where
  "tx_ui_loop header [] s = Some (s\<lparr>l2_ui_queue := []\<rparr>)"
| "tx_ui_loop header (skb # skbs) s = do {
     skb' \<leftarrow> skb_push header skb;
     tx_ui_loop header skbs (enqueue_super skb' (s\<lparr>l2_ui_queue := skbs\<rparr>))
   }"

definition tx_ui :: "Layer2 \<Rightarrow> Layer2 option" where
  "tx_ui s = tx_ui_loop (sethdraddr s CMD @ [F_UI]) (l2_ui_queue s) s"

definition l2_send_ui :: "l2arg \<Rightarrow> Layer2 \<Rightarrow> Layer2 option" where
  "l2_send_ui arg s = with_skb arg (\<lambda>skb. tx_ui (queue_ui skb s))"

definition l2_got_ui :: "l2arg \<Rightarrow> Layer2 \<Rightarrow> Layer2 option" where
  "l2_got_ui arg s = with_skb arg (\<lambda>skb.
     Some (emit (L2L3 (DL_UNIT_DATA, INDICATION) (Some (skb_pull (l2headersize s True) skb))) s))"

subsection \<open>Handlers: establishing and releasing\<close>

definition l2_establish :: "l2arg \<Rightarrow> Layer2 \<Rightarrow> Layer2 option" where
  "l2_establish arg s = Some (set_bit2 FLG_L3_INIT (establishlink s))"

definition l2_discard_i_setl3 :: "l2arg \<Rightarrow> Layer2 \<Rightarrow> Layer2 option" where
  "l2_discard_i_setl3 arg s =
     Some (clear_bit2 FLG_PEND_REL (set_bit2 FLG_L3_INIT (purge_i s)))"

definition l2_l3_reestablish :: "l2arg \<Rightarrow> Layer2 \<Rightarrow> Layer2 option" where
  "l2_l3_reestablish arg s = Some (set_bit2 FLG_L3_INIT (establishlink (purge_i s)))"

definition l2_release :: "l2arg \<Rightarrow> Layer2 \<Rightarrow> Layer2 option" where
  "l2_release arg s = Some (emit (L2L3 (DL_RELEASE, CONFIRM) None) s)"

definition l2_pend_rel :: "l2arg \<Rightarrow> Layer2 \<Rightarrow> Layer2 option" where
  "l2_pend_rel arg s = Some (set_bit2 FLG_PEND_REL s)"

definition disconnect2 :: "Layer2 \<Rightarrow> Layer2" where
  "disconnect2 s =
     (let s = (FsmChangeState2 ST_L2_6 (freewin (purge_i s)))\<lparr>l2_rc := 0\<rparr>
      in restart_t200 (del_t203 (send_uframe (F_DISC OR 0x10) CMD s)))"

definition l2_disconnect :: "l2arg \<Rightarrow> Layer2 \<Rightarrow> Layer2 option" where
  "l2_disconnect arg s = Some (disconnect2 s)"

definition reset_seq :: "Layer2 \<Rightarrow> Layer2" where
  "reset_seq s = s\<lparr>l2_vs := 0, l2_va := 0, l2_vr := 0, l2_sow := 0\<rparr>"

definition l2_start_multi :: "l2arg \<Rightarrow> Layer2 \<Rightarrow> Layer2 option" where
  "l2_start_multi arg s = with_skb arg (\<lambda>skb. do {
     pf \<leftarrow> get_PollFlag s skb;
     let s = reset_seq (clear_exception (send_uframe (F_UA OR pf) RSP s));
     let s = add_t203 (FsmChangeState2 ST_L2_7 s);
     Some (emit (L2L3 (DL_ESTABLISH, INDICATION) None) s)
   })"

definition l2_send_UA :: "l2arg \<Rightarrow> Layer2 \<Rightarrow> Layer2 option" where
  "l2_send_UA arg s = with_skb arg (\<lambda>skb. do {
     pf \<leftarrow> get_PollFlag s skb;
     Some (send_uframe (F_UA OR pf) RSP s)
   })"

definition l2_send_DM :: "l2arg \<Rightarrow> Layer2 \<Rightarrow> Layer2 option" where
  "l2_send_DM arg s = with_skb arg (\<lambda>skb. do {
     pf \<leftarrow> get_PollFlag s skb;
     Some (send_uframe (F_DM OR pf) RSP s)
   })"

text \<open>The request to be pulled that several handlers end with.\<close>

definition pull_req :: "Layer2 \<Rightarrow> Layer2" where
  "pull_req s = emit (L2L1 (PH_PULL, REQUEST) None) s"

definition l2_restart_multi :: "l2arg \<Rightarrow> Layer2 \<Rightarrow> Layer2 option" where
  "l2_restart_multi arg s = with_skb arg (\<lambda>skb. do {
     let state = l2_m_state s;
     pf \<leftarrow> get_PollFlag s skb;
     let s = ma_error (charno CHR ''F'') (send_uframe (F_UA OR pf) RSP s);
     let est = (l2_vs s \<noteq> l2_va s);
     let s = (if est then purge_i s else s);
     let s = FsmChangeState2 ST_L2_7 (reset_seq (clear_exception s));
     let s = restart_t203 (stop_t200 s);
     let s = (if est then emit (L2L3 (DL_ESTABLISH, INDICATION) None) s else s);
     Some (if (state = ST_L2_7 \<or> state = ST_L2_8) \<and> l2_i_queue s \<noteq> [] \<and> cansend s
           then pull_req s else s)
   })"

definition l2_stop_multi :: "l2arg \<Rightarrow> Layer2 \<Rightarrow> Layer2 option" where
  "l2_stop_multi arg s = with_skb arg (\<lambda>skb. do {
     let s = stop_t200 (del_t203 (FsmChangeState2 ST_L2_4 s));
     pf \<leftarrow> get_PollFlag s skb;
     let s = freewin (purge_i (send_uframe (F_UA OR pf) RSP s));
     Some (lapb_dl_release_l2l3 INDICATION s)
   })"

definition l2_connected :: "l2arg \<Rightarrow> Layer2 \<Rightarrow> Layer2 option" where
  "l2_connected arg s = with_skb arg (\<lambda>skb. do {
     pf \<leftarrow> get_PollFlag s skb;
     if pf = 0 then l2_mdl_error_ua arg s
     else do {
       s \<leftarrow> (if test_bit FLG_PEND_REL s then l2_disconnect arg (clear_bit2 FLG_PEND_REL s)
             else Some s);
       let (pr, s) =
         (if test_bit FLG_L3_INIT s
          then (Some (DL_ESTABLISH, CONFIRM), clear_bit2 FLG_L3_INIT s)
          else if l2_vs s \<noteq> l2_va s then (Some (DL_ESTABLISH, INDICATION), purge_i s)
          else (None, s));
       let s = FsmChangeState2 ST_L2_7 (reset_seq (stop_t200 s));
       let s = add_t203 s;
       let s = (case pr of Some p \<Rightarrow> emit (L2L3 p None) s | None \<Rightarrow> s);
       Some (if l2_i_queue s \<noteq> [] \<and> cansend s then pull_req s else s)
     }
   })"

definition l2_released :: "l2arg \<Rightarrow> Layer2 \<Rightarrow> Layer2 option" where
  "l2_released arg s = with_skb arg (\<lambda>skb. do {
     pf \<leftarrow> get_PollFlag s skb;
     if pf = 0 then l2_mdl_error_ua arg s
     else Some (FsmChangeState2 ST_L2_4 (lapb_dl_release_l2l3 CONFIRM (stop_t200 s)))
   })"

definition l2_reestablish :: "l2arg \<Rightarrow> Layer2 \<Rightarrow> Layer2 option" where
  "l2_reestablish arg s = with_skb arg (\<lambda>skb. do {
     pf \<leftarrow> get_PollFlag s skb;
     Some (if pf = 0 then set_bit2 FLG_L3_INIT (establishlink s) else s)
   })"

definition l2_st5_dm_release :: "l2arg \<Rightarrow> Layer2 \<Rightarrow> Layer2 option" where
  "l2_st5_dm_release arg s = with_skb arg (\<lambda>skb. do {
     pf \<leftarrow> get_PollFlag s skb;
     if pf \<noteq> 0 then do {
       let s = stop_t200 s;
       let s = (if \<not> test_bit FLG_L3_INIT s then purge_i s else s);
       let s = (if test_bit FLG_LAPB s then emit (L2L1 (PH_DEACTIVATE, REQUEST) None) s else s);
       Some (FsmChangeState2 ST_L2_4 (st5_dl_release_l2l3 s))
     } else Some s
   })"

definition l2_st6_dm_release :: "l2arg \<Rightarrow> Layer2 \<Rightarrow> Layer2 option" where
  "l2_st6_dm_release arg s = with_skb arg (\<lambda>skb. do {
     pf \<leftarrow> get_PollFlag s skb;
     Some (if pf \<noteq> 0
           then FsmChangeState2 ST_L2_4 (lapb_dl_release_l2l3 CONFIRM (stop_t200 s))
           else s)
   })"

subsection \<open>Handlers: supervisory frames\<close>

definition enquiry_cr :: "u8 \<Rightarrow> bool \<Rightarrow> bool \<Rightarrow> Layer2 \<Rightarrow> Layer2" where
  "enquiry_cr typ cr pf s =
     (let tmp = sethdraddr s cr @
        (if test_bit FLG_MOD128 s
         then [typ, ucast (push_bit 1 (l2_vr s)) OR (if pf then 1 else 0)]
         else [ucast (push_bit 5 (l2_vr s)) OR typ OR (if pf then 0x10 else 0)])
      in case alloc_skb2 s of (ok, s') \<Rightarrow>
           if ok then enqueue_super (skb_new 0 tmp) s' else s')"

definition enquiry_response :: "Layer2 \<Rightarrow> Layer2" where
  "enquiry_response s =
     clear_bit2 FLG_ACK_PEND
       (if test_bit FLG_OWN_BUSY s then enquiry_cr F_RNR RSP True s
        else enquiry_cr F_RR RSP True s)"

definition transmit_enquiry :: "Layer2 \<Rightarrow> Layer2" where
  "transmit_enquiry s =
     start_t200 (clear_bit2 FLG_ACK_PEND
       (if test_bit FLG_OWN_BUSY s then enquiry_cr F_RNR CMD True s
        else enquiry_cr F_RR CMD True s))"

definition nrerrorrecovery :: "Layer2 \<Rightarrow> Layer2" where
  "nrerrorrecovery s = clear_bit2 FLG_L3_INIT (establishlink (ma_error (charno CHR ''J'') s))"

text \<open>
  One turn of the loop of \<open>invoke_retransmission\<close>: the newest frame of the window goes back to the
  head of the queue. \<open>p1\<close> is its slot.
\<close>

definition retrans_slot :: "Layer2 \<Rightarrow> nat" where
  "retrans_slot s = (l2_dist s ((l2_vs s - 1) mod l2_modulus s) + l2_sow s) mod l2_window s"

definition retrans_step :: "sk_buff \<Rightarrow> Layer2 \<Rightarrow> Layer2" where
  "retrans_step skb s =
     s\<lparr>l2_vs := (l2_vs s - 1) mod l2_modulus s,
       l2_tx_cnt := (if test_bit FLG_LAPB s
                     then l2_tx_cnt s + int (skb_len skb) + int (l2headersize s False)
                     else l2_tx_cnt s),
       l2_i_queue := skb # l2_i_queue s,
       l2_windowar := (l2_windowar s)[retrans_slot s := None]\<rparr>"

function retrans_loop :: "u32 \<Rightarrow> Layer2 \<Rightarrow> Layer2 option" where
  "retrans_loop nr s =
     (if l2_vs s = nr then Some s
      else if l2_window s = 0 \<or> length (l2_windowar s) \<le> retrans_slot s then None
      else case l2_windowar s ! retrans_slot s of
             None \<Rightarrow> None
           | Some skb \<Rightarrow> retrans_loop nr (retrans_step skb s))"
  by pat_completeness auto
termination
proof (relation "measure (\<lambda>(nr, s). win_count s)", simp, clarsimp)
  fix s :: Layer2 and skb
  assume "\<not> length (l2_windowar s) \<le> retrans_slot s" "l2_windowar s ! retrans_slot s = Some skb"
  then show "win_count (retrans_step skb s) < win_count s"
    using filter_update_None [of "retrans_slot s" "l2_windowar s" skb]
    by (simp add: win_count_def retrans_step_def)
qed

declare retrans_loop.simps [simp del]

definition invoke_retransmission :: "u32 \<Rightarrow> Layer2 \<Rightarrow> Layer2 option" where
  "invoke_retransmission nr s =
     (if l2_vs s \<noteq> nr then do { s' \<leftarrow> retrans_loop nr s; Some (pull_req s') } else Some s)"

text \<open>The poll/final bit and N(R) of a supervisory frame, from its control field.\<close>

definition super_fields :: "Layer2 \<Rightarrow> u8 list \<Rightarrow> (bool \<times> u32) option" where
  "super_fields s d =
     (if test_bit FLG_MOD128 s
      then do { d1 \<leftarrow> rd d 1; Some (d1 AND 1 = 1, ucast (drop_bit 1 d1)) }
      else do { d0 \<leftarrow> rd d 0; Some (d0 AND 0x10 \<noteq> 0, ucast (drop_bit 5 d0 AND 7)) })"

text \<open>What \<open>l2_st7_got_super\<close> does with a legal N(R): window, retransmission, timers.\<close>

definition st7_super_ack :: "u8 \<Rightarrow> u32 \<Rightarrow> Layer2 \<Rightarrow> Layer2 option" where
  "st7_super_ack typ nr s =
    (if typ = F_REJ then do {
       s \<leftarrow> setva nr s;
       s \<leftarrow> invoke_retransmission nr s;
       Some (add_t203 (stop_t200 s))
     } else if nr = l2_vs s \<and> typ = F_RR then do {
       s \<leftarrow> setva nr s;
       Some (restart_t203 (stop_t200 s))
     } else if l2_va s \<noteq> nr \<or> typ = F_RNR then do {
       s \<leftarrow> setva nr s;
       let s = (if typ \<noteq> F_RR then del_t203 s else s);
       Some (restart_t200 s)
     } else Some s)"

definition l2_st7_got_super :: "l2arg \<Rightarrow> Layer2 \<Rightarrow> Layer2 option" where
  "l2_st7_got_super arg s = with_skb arg (\<lambda>skb. do {
     d0 \<leftarrow> rd (skb_bytes skb) 0;
     let rsp = rsp_bit s d0;
     let d = skb_bytes (skb_pull (l2addrsize s) skb);
     c \<leftarrow> rd d 0;
     let (s, typ) = (if IsRNR c s then (set_peer_busy s, F_RNR) else (clear_peer_busy s, F_RR));
     let typ = (if IsREJ c s then F_REJ else typ);
     (PollFlag, nr) \<leftarrow> super_fields s d;
     let s = (if PollFlag then (if rsp then ma_error (charno CHR ''A'') s else enquiry_response s)
              else s);
     if legalnr nr s then do {
       s \<leftarrow> st7_super_ack typ nr s;
       Some (if l2_i_queue s \<noteq> [] \<and> typ = F_RR then pull_req s else s)
     } else Some (nrerrorrecovery s)
   })"

subsection \<open>Handlers: data\<close>

definition count_tx :: "sk_buff \<Rightarrow> Layer2 \<Rightarrow> Layer2" where
  "count_tx skb s =
     (if test_bit FLG_LAPB s
      then s\<lparr>l2_tx_cnt := l2_tx_cnt s + int (skb_len skb) + int (l2headersize s False)\<rparr> else s)"

definition l2_feed_i_if_reest :: "l2arg \<Rightarrow> Layer2 \<Rightarrow> Layer2 option" where
  "l2_feed_i_if_reest arg s = with_skb arg (\<lambda>skb.
     let s = count_tx skb s in Some (if \<not> test_bit FLG_L3_INIT s then queue_i skb s else s))"

definition l2_feed_i_pull :: "l2arg \<Rightarrow> Layer2 \<Rightarrow> Layer2 option" where
  "l2_feed_i_pull arg s = with_skb arg (\<lambda>skb. Some (pull_req (queue_i skb (count_tx skb s))))"

definition l2_feed_iqueue :: "l2arg \<Rightarrow> Layer2 \<Rightarrow> Layer2 option" where
  "l2_feed_iqueue arg s = with_skb arg (\<lambda>skb. Some (queue_i skb (count_tx skb s)))"

text \<open>Poll bit, N(S) and N(R) of an I frame.\<close>

definition iframe_fields :: "Layer2 \<Rightarrow> u8 list \<Rightarrow> (bool \<times> u32 \<times> u32) option" where
  "iframe_fields s d =
     (let i = l2addrsize s in
      if test_bit FLG_MOD128 s
      then do {
        d0 \<leftarrow> rd d i; d1 \<leftarrow> rd d (i + 1);
        Some (d1 AND 1 = 1, ucast (drop_bit 1 d0), ucast (drop_bit 1 d1 AND 0x7f))
      } else do {
        d0 \<leftarrow> rd d i;
        Some (d0 AND 0x10 \<noteq> 0, ucast (drop_bit 1 d0 AND 7), ucast (drop_bit 5 d0 AND 7))
      })"

text \<open>The first half of \<open>l2_got_iframe\<close>: the information field.\<close>

definition iframe_receive :: "sk_buff \<Rightarrow> bool \<Rightarrow> u32 \<Rightarrow> Layer2 \<Rightarrow> Layer2" where
  "iframe_receive skb PollFlag ns s =
     (if test_bit FLG_OWN_BUSY s
      then (if PollFlag then enquiry_response s else s)
      else if l2_vr s = ns
      then (let s = s\<lparr>l2_vr := (l2_vr s + 1) mod l2_modulus s\<rparr>;
                s = clear_bit2 FLG_REJEXC s;
                s = (if PollFlag then enquiry_response s else set_bit2 FLG_ACK_PEND s)
            in emit (L2L3 (DL_DATA, INDICATION) (Some (skb_pull (l2headersize s False) skb))) s)
      else if test_bit FLG_REJEXC s
      then (if PollFlag then enquiry_response s else s)
      else clear_bit2 FLG_ACK_PEND (enquiry_cr F_REJ RSP PollFlag (set_bit2 FLG_REJEXC s)))"

text \<open>Its timers, before the window moves.\<close>

definition iframe_timers :: "u32 \<Rightarrow> Layer2 \<Rightarrow> Layer2" where
  "iframe_timers nr s =
     (if \<not> test_bit FLG_PEER_BUSY s \<and> l2_m_state s = ST_L2_7
      then (if nr = l2_vs s then restart_t203 (stop_t200 s)
            else if nr \<noteq> l2_va s then restart_t200 s else s)
      else s)"

definition l2_got_iframe :: "l2arg \<Rightarrow> Layer2 \<Rightarrow> Layer2 option" where
  "l2_got_iframe arg s = with_skb arg (\<lambda>skb. do {
     (PollFlag, ns, nr) \<leftarrow> iframe_fields s (skb_bytes skb);
     let s = iframe_receive skb PollFlag ns s;
     if legalnr nr s then do {
       s \<leftarrow> setva nr (iframe_timers nr s);
       let s = (if l2_i_queue s \<noteq> [] \<and> l2_m_state s = ST_L2_7 then pull_req s else s);
       Some (if test_bit FLG_ACK_PEND s
             then enquiry_cr F_RR RSP False (clear_bit2 FLG_ACK_PEND s) else s)
     } else Some (nrerrorrecovery s)
   })"

definition l2_got_tei :: "l2arg \<Rightarrow> Layer2 \<Rightarrow> Layer2 option" where
  "l2_got_tei arg s = (case arg of TeiArg tei \<Rightarrow> (
     let s = s\<lparr>l2_tei := tei\<rparr>;
         s = (if l2_m_state s = ST_L2_3 then set_bit2 FLG_L3_INIT (establishlink s)
              else FsmChangeState2 ST_L2_4 s)
     in if l2_ui_queue s \<noteq> [] then tx_ui s else Some s)
   | _ \<Rightarrow> None)"

subsection \<open>Handlers: timers\<close>

definition dchan_wait :: "Layer2 \<Rightarrow> bool" where
  "dchan_wait s \<longleftrightarrow> test_bit FLG_LAPD s \<and> test_bit FLG_DCHAN_BUSY s"

definition l2_st5_tout_200 :: "l2arg \<Rightarrow> Layer2 \<Rightarrow> Layer2 option" where
  "l2_st5_tout_200 arg s =
     (if dchan_wait s then Some (add_t200 s)
      else if l2_rc s = l2_N200 s
      then (let s = purge_i (clear_bit2 FLG_T200_RUN (FsmChangeState2 ST_L2_4 s));
                s = ma_error (charno CHR ''G'') s;
                s = (if test_bit FLG_LAPB s then emit (L2L1 (PH_DEACTIVATE, REQUEST) None) s else s)
            in Some (st5_dl_release_l2l3 s))
      else (let s = add_t200 (s\<lparr>l2_rc := l2_rc s + 1\<rparr>)
            in Some (send_uframe (sabm_cmd s) CMD s)))"

definition l2_st6_tout_200 :: "l2arg \<Rightarrow> Layer2 \<Rightarrow> Layer2 option" where
  "l2_st6_tout_200 arg s =
     (if dchan_wait s then Some (add_t200 s)
      else if l2_rc s = l2_N200 s
      then (let s = ma_error (charno CHR ''H'')
                      (clear_bit2 FLG_T200_RUN (FsmChangeState2 ST_L2_4 s))
            in Some (lapb_dl_release_l2l3 CONFIRM s))
      else (let s = add_t200 (s\<lparr>l2_rc := l2_rc s + 1\<rparr>)
            in Some (send_uframe (F_DISC OR 0x10) CMD s)))"

definition l2_st7_tout_200 :: "l2arg \<Rightarrow> Layer2 \<Rightarrow> Layer2 option" where
  "l2_st7_tout_200 arg s =
     (if dchan_wait s then Some (add_t200 s)
      else (let s = (clear_bit2 FLG_T200_RUN s)\<lparr>l2_rc := 0\<rparr>;
                s = transmit_enquiry (FsmChangeState2 ST_L2_8 s)
            in Some (s\<lparr>l2_rc := l2_rc s + 1\<rparr>)))"

definition l2_st8_tout_200 :: "l2arg \<Rightarrow> Layer2 \<Rightarrow> Layer2 option" where
  "l2_st8_tout_200 arg s =
     (if dchan_wait s then Some (add_t200 s)
      else (let s = clear_bit2 FLG_T200_RUN s in
            if l2_rc s = l2_N200 s
            then Some (clear_bit2 FLG_L3_INIT (establishlink (ma_error (charno CHR ''I'') s)))
            else (let s = transmit_enquiry s in Some (s\<lparr>l2_rc := l2_rc s + 1\<rparr>))))"

definition l2_st7_tout_203 :: "l2arg \<Rightarrow> Layer2 \<Rightarrow> Layer2 option" where
  "l2_st7_tout_203 arg s =
     (if dchan_wait s then Some (add_t203 s)
      else Some ((transmit_enquiry (FsmChangeState2 ST_L2_8 s))\<lparr>l2_rc := 0\<rparr>))"

subsection \<open>Handlers: sending an I frame\<close>

definition pull_slot :: "Layer2 \<Rightarrow> nat" where
  "pull_slot s = (l2_dist s (l2_vs s) + l2_sow s) mod l2_window s"

definition iframe_header :: "Layer2 \<Rightarrow> u8 list" where
  "iframe_header s = sethdraddr s CMD @
     (if test_bit FLG_MOD128 s
      then [ucast (push_bit 1 (l2_vs s)), ucast (push_bit 1 (l2_vr s))]
      else [ucast (push_bit 5 (l2_vr s)) OR ucast (push_bit 1 (l2_vs s))])"

text \<open>The end of \<open>l2_pull_iqueue\<close>: the frame goes down, T200 starts, the next one is requested.\<close>

definition pull_send :: "sk_buff \<Rightarrow> Layer2 \<Rightarrow> Layer2" where
  "pull_send skb s =
     (let s = clear_bit2 FLG_ACK_PEND (emit (L2L1 (PH_PULL, INDICATION) (Some skb)) s);
          s = (if \<not> test_bit FLG_T200_RUN s
               then add_t200 (del_t203 (set_bit2 FLG_T200_RUN s)) else s)
      in if l2_i_queue s \<noteq> [] \<and> cansend s then pull_req s else s)"

text \<open>
  The frame is cloned into the window before the header goes on; a clone that fails leaves a null
  slot. A buffer without headroom is copied into a new one, whose allocation is not checked.
\<close>

definition l2_pull_iqueue :: "l2arg \<Rightarrow> Layer2 \<Rightarrow> Layer2 option" where
  "l2_pull_iqueue arg s =
     (if \<not> cansend s then Some s
      else case l2_i_queue s of
        [] \<Rightarrow> Some s
      | skb # rest \<Rightarrow>
          if length (l2_windowar s) \<le> pull_slot s then None
          else (let s = s\<lparr>l2_i_queue := rest\<rparr>;
                    (cloned, s) = clone_skb2 s;
                    s = s\<lparr>l2_windowar :=
                            (l2_windowar s)[pull_slot s := (if cloned then Some skb else None)]\<rparr>;
                    header = iframe_header s;
                    s = s\<lparr>l2_vs := (l2_vs s + 1) mod l2_modulus s\<rparr>
                in do {
                  (skb', s) \<leftarrow>
                    (if length header \<le> skb_head skb
                     then do { skb' \<leftarrow> skb_push header skb; Some (skb', s) }
                     else (case clone_skb2 s of (ok, s) \<Rightarrow>
                       if ok then Some (skb_new 0 (header @ skb_bytes skb), s) else None));
                  Some (pull_send skb' s)
                }))"

definition l2_st8_got_super :: "l2arg \<Rightarrow> Layer2 \<Rightarrow> Layer2 option" where
  "l2_st8_got_super arg s = with_skb arg (\<lambda>skb. do {
     d0 \<leftarrow> rd (skb_bytes skb) 0;
     let rsp = rsp_bit s d0;
     let d = skb_bytes (skb_pull (l2addrsize s) skb);
     c \<leftarrow> rd d 0;
     let rnr = IsRNR c s;
     let s = (if rnr then set_peer_busy s else clear_peer_busy s);
     (PollFlag, nr) \<leftarrow> super_fields s d;
     if rsp \<and> PollFlag then
       (if legalnr nr s then do {
          s \<leftarrow> (if rnr then Some (restart_t200 s) else setva nr (add_t203 (stop_t200 s)));
          s \<leftarrow> invoke_retransmission nr s;
          let s = FsmChangeState2 ST_L2_7 s;
          Some (if l2_i_queue s \<noteq> [] \<and> cansend s then pull_req s else s)
        } else Some (nrerrorrecovery s))
     else do {
       let s = (if \<not> rsp \<and> PollFlag then enquiry_response s else s);
       if legalnr nr s then setva nr s else Some (nrerrorrecovery s)
     }
   })"

definition l2_got_FRMR :: "l2arg \<Rightarrow> Layer2 \<Rightarrow> Layer2 option" where
  "l2_got_FRMR arg s = with_skb arg (\<lambda>skb. do {
     d \<leftarrow> rd (skb_bytes (skb_pull (l2addrsize s + 1) skb)) 0;
     Some (if d AND 1 = 0 \<or> d AND 3 = 1 \<or> IsUA d \<and> l2_m_state s = ST_L2_7
           then clear_bit2 FLG_L3_INIT (establishlink (ma_error (charno CHR ''K'') s))
           else s)
   })"

subsection \<open>Handlers: TEI removal, deactivation, own busy\<close>

definition l2_st24_tei_remove :: "l2arg \<Rightarrow> Layer2 \<Rightarrow> Layer2 option" where
  "l2_st24_tei_remove arg s = Some (FsmChangeState2 ST_L2_1 ((purge_ui s)\<lparr>l2_tei := -1\<rparr>))"

definition l2_st3_tei_remove :: "l2arg \<Rightarrow> Layer2 \<Rightarrow> Layer2 option" where
  "l2_st3_tei_remove arg s =
     Some (FsmChangeState2 ST_L2_1
       (emit (L2L3 (DL_RELEASE, INDICATION) None) ((purge_ui s)\<lparr>l2_tei := -1\<rparr>)))"

definition l2_st5_tei_remove :: "l2arg \<Rightarrow> Layer2 \<Rightarrow> Layer2 option" where
  "l2_st5_tei_remove arg s =
     (let s = (freewin (purge_ui (purge_i s)))\<lparr>l2_tei := -1\<rparr>
      in Some (st5_dl_release_l2l3 (FsmChangeState2 ST_L2_1 (stop_t200 s))))"

definition l2_st6_tei_remove :: "l2arg \<Rightarrow> Layer2 \<Rightarrow> Layer2 option" where
  "l2_st6_tei_remove arg s =
     (let s = stop_t200 ((purge_ui s)\<lparr>l2_tei := -1\<rparr>)
      in Some (FsmChangeState2 ST_L2_1 (emit (L2L3 (DL_RELEASE, CONFIRM) None) s)))"

definition l2_tei_remove :: "l2arg \<Rightarrow> Layer2 \<Rightarrow> Layer2 option" where
  "l2_tei_remove arg s =
     (let s = (freewin (purge_ui (purge_i s)))\<lparr>l2_tei := -1\<rparr>;
          s = del_t203 (stop_t200 s)
      in Some (FsmChangeState2 ST_L2_1 (emit (L2L3 (DL_RELEASE, INDICATION) None) s)))"

definition l2_st14_persistant_da :: "l2arg \<Rightarrow> Layer2 \<Rightarrow> Layer2 option" where
  "l2_st14_persistant_da arg s =
     (let s = purge_ui (purge_i s)
      in Some (if test_bit FLG_ESTAB_PEND s
               then emit (L2L3 (DL_RELEASE, INDICATION) None) (clear_bit2 FLG_ESTAB_PEND s)
               else s))"

definition l2_st5_persistant_da :: "l2arg \<Rightarrow> Layer2 \<Rightarrow> Layer2 option" where
  "l2_st5_persistant_da arg s =
     (let s = stop_t200 (freewin (purge_ui (purge_i s)))
      in Some (FsmChangeState2 ST_L2_4 (st5_dl_release_l2l3 s)))"

definition l2_st6_persistant_da :: "l2arg \<Rightarrow> Layer2 \<Rightarrow> Layer2 option" where
  "l2_st6_persistant_da arg s =
     Some (FsmChangeState2 ST_L2_4
       (emit (L2L3 (DL_RELEASE, CONFIRM) None) (stop_t200 (purge_ui s))))"

definition l2_persistant_da :: "l2arg \<Rightarrow> Layer2 \<Rightarrow> Layer2 option" where
  "l2_persistant_da arg s =
     (let s = del_t203 (stop_t200 (freewin (purge_ui (purge_i s))))
      in Some (FsmChangeState2 ST_L2_4 (emit (L2L3 (DL_RELEASE, INDICATION) None) s)))"

definition l2_set_own_busy :: "l2arg \<Rightarrow> Layer2 \<Rightarrow> Layer2 option" where
  "l2_set_own_busy arg s =
     (if \<not> test_bit FLG_OWN_BUSY s
      then Some (clear_bit2 FLG_ACK_PEND (enquiry_cr F_RNR RSP False (set_bit2 FLG_OWN_BUSY s)))
      else Some (set_bit2 FLG_OWN_BUSY s))"

definition l2_clear_own_busy :: "l2arg \<Rightarrow> Layer2 \<Rightarrow> Layer2 option" where
  "l2_clear_own_busy arg s =
     (if \<not> test_bit FLG_OWN_BUSY s
      then Some (clear_bit2 FLG_ACK_PEND (enquiry_cr F_RR RSP False (clear_bit2 FLG_OWN_BUSY s)))
      else Some (clear_bit2 FLG_OWN_BUSY s))"

definition err_code :: "l2arg \<Rightarrow> nat option" where
  "err_code arg = (case arg of ErrArg c \<Rightarrow> Some c | _ \<Rightarrow> None)"

definition l2_frame_error :: "l2arg \<Rightarrow> Layer2 \<Rightarrow> Layer2 option" where
  "l2_frame_error arg s = do { c \<leftarrow> err_code arg; Some (ma_error c s) }"

definition l2_frame_error_reest :: "l2arg \<Rightarrow> Layer2 \<Rightarrow> Layer2 option" where
  "l2_frame_error_reest arg s = do {
     c \<leftarrow> err_code arg;
     Some (clear_bit2 FLG_L3_INIT (establishlink (ma_error c s)))
   }"

end
