(* ===== verification/Hisax_L2_Table.thy ===== *)
theory Hisax_L2_Table
  imports Hisax_L2_Handlers
begin

text \<open>
  The state table \<open>L2FnList\<close> of \<open>hisax/isdnl2.c\<close>, the entry points from layer 1 and layer 3, the
  expiry of the two timers, and setting up and releasing a stack.
\<close>

subsection \<open>The table\<close>

definition L2FnList :: "(l2arg \<Rightarrow> Layer2 \<Rightarrow> Layer2 option) FsmNode list" where
  "L2FnList =
    [FsmNode ST_L2_1 EV_L2_DL_ESTABLISH_REQ l2_mdl_assign,
     FsmNode ST_L2_2 EV_L2_DL_ESTABLISH_REQ l2_go_st3,
     FsmNode ST_L2_4 EV_L2_DL_ESTABLISH_REQ l2_establish,
     FsmNode ST_L2_5 EV_L2_DL_ESTABLISH_REQ l2_discard_i_setl3,
     FsmNode ST_L2_7 EV_L2_DL_ESTABLISH_REQ l2_l3_reestablish,
     FsmNode ST_L2_8 EV_L2_DL_ESTABLISH_REQ l2_l3_reestablish,
     FsmNode ST_L2_4 EV_L2_DL_RELEASE_REQ l2_release,
     FsmNode ST_L2_5 EV_L2_DL_RELEASE_REQ l2_pend_rel,
     FsmNode ST_L2_7 EV_L2_DL_RELEASE_REQ l2_disconnect,
     FsmNode ST_L2_8 EV_L2_DL_RELEASE_REQ l2_disconnect,
     FsmNode ST_L2_5 EV_L2_DL_DATA l2_feed_i_if_reest,
     FsmNode ST_L2_7 EV_L2_DL_DATA l2_feed_i_pull,
     FsmNode ST_L2_8 EV_L2_DL_DATA l2_feed_iqueue,
     FsmNode ST_L2_1 EV_L2_DL_UNIT_DATA l2_queue_ui_assign,
     FsmNode ST_L2_2 EV_L2_DL_UNIT_DATA l2_queue_ui,
     FsmNode ST_L2_3 EV_L2_DL_UNIT_DATA l2_queue_ui,
     FsmNode ST_L2_4 EV_L2_DL_UNIT_DATA l2_send_ui,
     FsmNode ST_L2_5 EV_L2_DL_UNIT_DATA l2_send_ui,
     FsmNode ST_L2_6 EV_L2_DL_UNIT_DATA l2_send_ui,
     FsmNode ST_L2_7 EV_L2_DL_UNIT_DATA l2_send_ui,
     FsmNode ST_L2_8 EV_L2_DL_UNIT_DATA l2_send_ui,
     FsmNode ST_L2_1 EV_L2_MDL_ASSIGN l2_got_tei,
     FsmNode ST_L2_2 EV_L2_MDL_ASSIGN l2_got_tei,
     FsmNode ST_L2_3 EV_L2_MDL_ASSIGN l2_got_tei,
     FsmNode ST_L2_2 EV_L2_MDL_ERROR l2_st24_tei_remove,
     FsmNode ST_L2_3 EV_L2_MDL_ERROR l2_st3_tei_remove,
     FsmNode ST_L2_4 EV_L2_MDL_REMOVE l2_st24_tei_remove,
     FsmNode ST_L2_5 EV_L2_MDL_REMOVE l2_st5_tei_remove,
     FsmNode ST_L2_6 EV_L2_MDL_REMOVE l2_st6_tei_remove,
     FsmNode ST_L2_7 EV_L2_MDL_REMOVE l2_tei_remove,
     FsmNode ST_L2_8 EV_L2_MDL_REMOVE l2_tei_remove,
     FsmNode ST_L2_4 EV_L2_SABME l2_start_multi,
     FsmNode ST_L2_5 EV_L2_SABME l2_send_UA,
     FsmNode ST_L2_6 EV_L2_SABME l2_send_DM,
     FsmNode ST_L2_7 EV_L2_SABME l2_restart_multi,
     FsmNode ST_L2_8 EV_L2_SABME l2_restart_multi,
     FsmNode ST_L2_4 EV_L2_DISC l2_send_DM,
     FsmNode ST_L2_5 EV_L2_DISC l2_send_DM,
     FsmNode ST_L2_6 EV_L2_DISC l2_send_UA,
     FsmNode ST_L2_7 EV_L2_DISC l2_stop_multi,
     FsmNode ST_L2_8 EV_L2_DISC l2_stop_multi,
     FsmNode ST_L2_4 EV_L2_UA l2_mdl_error_ua,
     FsmNode ST_L2_5 EV_L2_UA l2_connected,
     FsmNode ST_L2_6 EV_L2_UA l2_released,
     FsmNode ST_L2_7 EV_L2_UA l2_mdl_error_ua,
     FsmNode ST_L2_8 EV_L2_UA l2_mdl_error_ua,
     FsmNode ST_L2_4 EV_L2_DM l2_reestablish,
     FsmNode ST_L2_5 EV_L2_DM l2_st5_dm_release,
     FsmNode ST_L2_6 EV_L2_DM l2_st6_dm_release,
     FsmNode ST_L2_7 EV_L2_DM l2_mdl_error_dm,
     FsmNode ST_L2_8 EV_L2_DM l2_st8_mdl_error_dm,
     FsmNode ST_L2_1 EV_L2_UI l2_got_ui,
     FsmNode ST_L2_2 EV_L2_UI l2_got_ui,
     FsmNode ST_L2_3 EV_L2_UI l2_got_ui,
     FsmNode ST_L2_4 EV_L2_UI l2_got_ui,
     FsmNode ST_L2_5 EV_L2_UI l2_got_ui,
     FsmNode ST_L2_6 EV_L2_UI l2_got_ui,
     FsmNode ST_L2_7 EV_L2_UI l2_got_ui,
     FsmNode ST_L2_8 EV_L2_UI l2_got_ui,
     FsmNode ST_L2_7 EV_L2_FRMR l2_got_FRMR,
     FsmNode ST_L2_8 EV_L2_FRMR l2_got_FRMR,
     FsmNode ST_L2_7 EV_L2_SUPER l2_st7_got_super,
     FsmNode ST_L2_8 EV_L2_SUPER l2_st8_got_super,
     FsmNode ST_L2_7 EV_L2_I l2_got_iframe,
     FsmNode ST_L2_8 EV_L2_I l2_got_iframe,
     FsmNode ST_L2_5 EV_L2_T200 l2_st5_tout_200,
     FsmNode ST_L2_6 EV_L2_T200 l2_st6_tout_200,
     FsmNode ST_L2_7 EV_L2_T200 l2_st7_tout_200,
     FsmNode ST_L2_8 EV_L2_T200 l2_st8_tout_200,
     FsmNode ST_L2_7 EV_L2_T203 l2_st7_tout_203,
     FsmNode ST_L2_7 EV_L2_ACK_PULL l2_pull_iqueue,
     FsmNode ST_L2_7 EV_L2_SET_OWN_BUSY l2_set_own_busy,
     FsmNode ST_L2_8 EV_L2_SET_OWN_BUSY l2_set_own_busy,
     FsmNode ST_L2_7 EV_L2_CLEAR_OWN_BUSY l2_clear_own_busy,
     FsmNode ST_L2_8 EV_L2_CLEAR_OWN_BUSY l2_clear_own_busy,
     FsmNode ST_L2_4 EV_L2_FRAME_ERROR l2_frame_error,
     FsmNode ST_L2_5 EV_L2_FRAME_ERROR l2_frame_error,
     FsmNode ST_L2_6 EV_L2_FRAME_ERROR l2_frame_error,
     FsmNode ST_L2_7 EV_L2_FRAME_ERROR l2_frame_error_reest,
     FsmNode ST_L2_8 EV_L2_FRAME_ERROR l2_frame_error_reest,
     FsmNode ST_L2_1 EV_L1_DEACTIVATE l2_st14_persistant_da,
     FsmNode ST_L2_2 EV_L1_DEACTIVATE l2_st24_tei_remove,
     FsmNode ST_L2_3 EV_L1_DEACTIVATE l2_st3_tei_remove,
     FsmNode ST_L2_4 EV_L1_DEACTIVATE l2_st14_persistant_da,
     FsmNode ST_L2_5 EV_L1_DEACTIVATE l2_st5_persistant_da,
     FsmNode ST_L2_6 EV_L1_DEACTIVATE l2_st6_persistant_da,
     FsmNode ST_L2_7 EV_L1_DEACTIVATE l2_persistant_da,
     FsmNode ST_L2_8 EV_L1_DEACTIVATE l2_persistant_da]"

definition l2fsm :: "(l2arg \<Rightarrow> Layer2 \<Rightarrow> Layer2 option) Fsm" where
  "l2fsm = fsm_of L2_STATE_COUNT L2_EVENT_COUNT L2FnList"

definition Isdnl2New :: "bool \<Rightarrow> int + (l2arg \<Rightarrow> Layer2 \<Rightarrow> Layer2 option) Fsm" where
  "Isdnl2New kmalloc_ok = FsmNew kmalloc_ok L2_STATE_COUNT L2_EVENT_COUNT L2FnList"

definition l2_event :: "nat \<Rightarrow> l2arg \<Rightarrow> Layer2 \<Rightarrow> Layer2 option" where
  "l2_event ev arg s = map_option snd (FsmEvent l2fsm l2_m_state ev arg s)"

subsection \<open>Frames from layer 1\<close>

text \<open>A frame that passed its check goes to the machine, one that failed raises its letter.\<close>

definition checked_event :: "nat option \<Rightarrow> nat \<Rightarrow> sk_buff \<Rightarrow> Layer2 \<Rightarrow> Layer2 option" where
  "checked_event chk ev skb s = do {
     c \<leftarrow> chk;
     if c = 0 then l2_event ev (Skb skb) s else l2_event EV_L2_FRAME_ERROR (ErrArg c) s
   }"

definition l2_ph_data_ind :: "sk_buff \<Rightarrow> Layer2 \<Rightarrow> Layer2 option" where
  "l2_ph_data_ind skb s =
     (if \<not> l2addrsize s < skb_len skb
      then l2_event EV_L2_FRAME_ERROR (ErrArg (charno CHR ''N'')) s
      else do {
        c \<leftarrow> rd (skb_bytes skb) (l2addrsize s);
        if c AND 1 = 0 then checked_event (iframe_error s skb) EV_L2_I skb s
        else if IsSFrame c s then checked_event (super_error s skb) EV_L2_SUPER skb s
        else if IsUI c then checked_event (UI_error s skb) EV_L2_UI skb s
        else if IsSABME c s then checked_event (unnum_error s skb CMD) EV_L2_SABME skb s
        else if IsUA c then checked_event (unnum_error s skb RSP) EV_L2_UA skb s
        else if IsDISC c then checked_event (unnum_error s skb CMD) EV_L2_DISC skb s
        else if IsDM c then checked_event (unnum_error s skb RSP) EV_L2_DM skb s
        else if IsFRMR c then checked_event (FRMR_error s skb) EV_L2_FRMR skb s
        else l2_event EV_L2_FRAME_ERROR (ErrArg (charno CHR ''L'')) s
      })"

definition isdnl2_l1l2 :: "prim \<Rightarrow> l2arg \<Rightarrow> Layer2 \<Rightarrow> Layer2 option" where
  "isdnl2_l1l2 pr arg s =
     (if pr = (PH_DATA, INDICATION) then with_skb arg (\<lambda>skb. l2_ph_data_ind skb s)
      else if pr = (PH_PULL, CONFIRM) then l2_event EV_L2_ACK_PULL arg s
      else if pr = (PH_PAUSE, INDICATION) then Some (set_bit2 FLG_DCHAN_BUSY s)
      else if pr = (PH_PAUSE, CONFIRM) then Some (clear_bit2 FLG_DCHAN_BUSY s)
      else if pr = (PH_ACTIVATE, CONFIRM) \<or> pr = (PH_ACTIVATE, INDICATION)
      then (let s = set_bit2 FLG_L1_ACTIV s
            in if test_bit FLG_ESTAB_PEND s
               then l2_event EV_L2_DL_ESTABLISH_REQ arg (clear_bit2 FLG_ESTAB_PEND s)
               else Some s)
      else if pr = (PH_DEACTIVATE, INDICATION) \<or> pr = (PH_DEACTIVATE, CONFIRM)
      then l2_event EV_L1_DEACTIVATE arg (clear_bit2 FLG_L1_ACTIV s)
      else Some s)"

subsection \<open>Requests from layer 3 and the TEI manager\<close>

definition isdnl2_l3l2 :: "prim \<Rightarrow> l2arg \<Rightarrow> Layer2 \<Rightarrow> Layer2 option" where
  "isdnl2_l3l2 pr arg s =
     (if pr = (DL_DATA, REQUEST) then l2_event EV_L2_DL_DATA arg s
      else if pr = (DL_UNIT_DATA, REQUEST) then l2_event EV_L2_DL_UNIT_DATA arg s
      else if pr = (DL_ESTABLISH, REQUEST)
      then (if test_bit FLG_L1_ACTIV s
            then (if test_bit FLG_LAPD s \<or> test_bit FLG_ORIG s
                  then l2_event EV_L2_DL_ESTABLISH_REQ arg s else Some s)
            else Some (emit (L2L1 (PH_ACTIVATE, REQUEST) None)
                   (if test_bit FLG_LAPD s \<or> test_bit FLG_ORIG s
                    then set_bit2 FLG_ESTAB_PEND s else s)))
      else if pr = (DL_RELEASE, REQUEST)
      then l2_event EV_L2_DL_RELEASE_REQ arg
             (if test_bit FLG_LAPB s then emit (L2L1 (PH_DEACTIVATE, REQUEST) None) s else s)
      else if pr = (MDL_ASSIGN, REQUEST) then l2_event EV_L2_MDL_ASSIGN arg s
      else if pr = (MDL_REMOVE, REQUEST) then l2_event EV_L2_MDL_REMOVE arg s
      else if pr = (MDL_ERROR, RESPONSE) then l2_event EV_L2_MDL_ERROR arg s
      else Some s)"

text \<open>\<open>FsmExpireTimer\<close>: a pending timer runs out and raises its event.\<close>

definition l2_expire_t200 :: "Layer2 \<Rightarrow> Layer2 option" where
  "l2_expire_t200 s =
     (if tl_pending (l2_t200 s)
      then l2_event (tm_event (l2_t200 s)) NoArg (s\<lparr>l2_t200 := FsmDelTimer (l2_t200 s)\<rparr>)
      else Some s)"

definition l2_expire_t203 :: "Layer2 \<Rightarrow> Layer2 option" where
  "l2_expire_t203 s =
     (if tl_pending (l2_t203 s)
      then l2_event (tm_event (l2_t203 s)) NoArg (s\<lparr>l2_t203 := FsmDelTimer (l2_t203 s)\<rparr>)
      else Some s)"

subsection \<open>Setting up and releasing\<close>

definition setstack_isdnl2 :: "Layer2 \<Rightarrow> Layer2" where
  "setstack_isdnl2 s =
     (InitWin s)\<lparr>l2_i_queue := [], l2_ui_queue := [],
       l2_m_state := (if test_bit FLG_LAPB s then ST_L2_4 else ST_L2_1),
       l2_t200 := FsmInitTimer (l2_t200 s), l2_t203 := FsmInitTimer (l2_t203 s)\<rparr>"

definition releasestack_isdnl2 :: "Layer2 \<Rightarrow> Layer2" where
  "releasestack_isdnl2 s =
     ReleaseWin (purge_ui (purge_i
       (del_t203 (s\<lparr>l2_t200 := FsmDelTimer (l2_t200 s)\<rparr>))))"

text \<open>The transparent layer 2 hands requests down unchanged.\<close>

definition transl2_l3l2 :: "prim \<Rightarrow> sk_buff option \<Rightarrow> Layer2 \<Rightarrow> Layer2" where
  "transl2_l3l2 pr skb s =
     (if pr = (DL_DATA, REQUEST) \<or> pr = (DL_UNIT_DATA, REQUEST)
      then emit (L2L1 (PH_DATA, REQUEST) skb) s
      else if pr = (DL_ESTABLISH, REQUEST) then emit (L2L1 (PH_ACTIVATE, REQUEST) None) s
      else if pr = (DL_RELEASE, REQUEST) then emit (L2L1 (PH_DEACTIVATE, REQUEST) None) s
      else s)"

end
