(* ===== verification/Hisax_L2_Frame.thy ===== *)
theory Hisax_L2_Frame
  imports Hisax_L2_Table
begin

text \<open>
  What each elementary operation of layer 2 changes and what it leaves alone, as rewrite rules, so
  that a proof about a handler computes the fields of its result without unfolding the operations.
\<close>

lemma add_timer_simps [simp]:
  "tm_event (snd (FsmAddTimer k ms ev ft)) = (if tl_pending ft then tm_event ft else ev)"
  "tm_event (FsmRestartTimer k ms ev ft) = ev"
  "tm_event (FsmDelTimer ft) = tm_event ft"
  by (simp_all add: FsmAddTimer_def FsmRestartTimer_def FsmDelTimer_def)

lemma set_bit2_frame [simp]:
  "l2_tei (set_bit2 f s) = l2_tei s"
  "l2_sap (set_bit2 f s) = l2_sap s"
  "l2_maxlen (set_bit2 f s) = l2_maxlen s"
  "l2_vs (set_bit2 f s) = l2_vs s"
  "l2_va (set_bit2 f s) = l2_va s"
  "l2_vr (set_bit2 f s) = l2_vr s"
  "l2_rc (set_bit2 f s) = l2_rc s"
  "l2_window (set_bit2 f s) = l2_window s"
  "l2_sow (set_bit2 f s) = l2_sow s"
  "l2_windowar (set_bit2 f s) = l2_windowar s"
  "l2_i_queue (set_bit2 f s) = l2_i_queue s"
  "l2_ui_queue (set_bit2 f s) = l2_ui_queue s"
  "l2_m_state (set_bit2 f s) = l2_m_state s"
  "l2_t200 (set_bit2 f s) = l2_t200 s"
  "l2_t203 (set_bit2 f s) = l2_t203 s"
  "l2_T200 (set_bit2 f s) = l2_T200 s"
  "l2_N200 (set_bit2 f s) = l2_N200 s"
  "l2_T203 (set_bit2 f s) = l2_T203 s"
  "l2_writewakeup (set_bit2 f s) = l2_writewakeup s"
  "l2_tx_cnt (set_bit2 f s) = l2_tx_cnt s"
  "l2_env (set_bit2 f s) = l2_env s"
  "l2_outs (set_bit2 f s) = l2_outs s"
  "l2_flag (set_bit2 f s) g \<longleftrightarrow> g = f \<or> l2_flag s g"
  "f \<noteq> FLG_MOD128 \<Longrightarrow> l2_modulus (set_bit2 f s) = l2_modulus s"
  "f \<noteq> FLG_MOD128 \<Longrightarrow> l2_dist (set_bit2 f s) x = l2_dist s x"
  by (auto simp: set_bit2_def l2_modulus_def l2_dist_def)

lemma clear_bit2_frame [simp]:
  "l2_tei (clear_bit2 f s) = l2_tei s"
  "l2_sap (clear_bit2 f s) = l2_sap s"
  "l2_maxlen (clear_bit2 f s) = l2_maxlen s"
  "l2_vs (clear_bit2 f s) = l2_vs s"
  "l2_va (clear_bit2 f s) = l2_va s"
  "l2_vr (clear_bit2 f s) = l2_vr s"
  "l2_rc (clear_bit2 f s) = l2_rc s"
  "l2_window (clear_bit2 f s) = l2_window s"
  "l2_sow (clear_bit2 f s) = l2_sow s"
  "l2_windowar (clear_bit2 f s) = l2_windowar s"
  "l2_i_queue (clear_bit2 f s) = l2_i_queue s"
  "l2_ui_queue (clear_bit2 f s) = l2_ui_queue s"
  "l2_m_state (clear_bit2 f s) = l2_m_state s"
  "l2_t200 (clear_bit2 f s) = l2_t200 s"
  "l2_t203 (clear_bit2 f s) = l2_t203 s"
  "l2_T200 (clear_bit2 f s) = l2_T200 s"
  "l2_N200 (clear_bit2 f s) = l2_N200 s"
  "l2_T203 (clear_bit2 f s) = l2_T203 s"
  "l2_writewakeup (clear_bit2 f s) = l2_writewakeup s"
  "l2_tx_cnt (clear_bit2 f s) = l2_tx_cnt s"
  "l2_env (clear_bit2 f s) = l2_env s"
  "l2_outs (clear_bit2 f s) = l2_outs s"
  "l2_flag (clear_bit2 f s) g \<longleftrightarrow> g \<noteq> f \<and> l2_flag s g"
  "f \<noteq> FLG_MOD128 \<Longrightarrow> l2_modulus (clear_bit2 f s) = l2_modulus s"
  "f \<noteq> FLG_MOD128 \<Longrightarrow> l2_dist (clear_bit2 f s) x = l2_dist s x"
  by (auto simp: clear_bit2_def l2_modulus_def l2_dist_def)

lemma emit_frame [simp]:
  "l2_tei (emit out s) = l2_tei s"
  "l2_sap (emit out s) = l2_sap s"
  "l2_maxlen (emit out s) = l2_maxlen s"
  "l2_flag (emit out s) = l2_flag s"
  "l2_vs (emit out s) = l2_vs s"
  "l2_va (emit out s) = l2_va s"
  "l2_vr (emit out s) = l2_vr s"
  "l2_rc (emit out s) = l2_rc s"
  "l2_window (emit out s) = l2_window s"
  "l2_sow (emit out s) = l2_sow s"
  "l2_windowar (emit out s) = l2_windowar s"
  "l2_i_queue (emit out s) = l2_i_queue s"
  "l2_ui_queue (emit out s) = l2_ui_queue s"
  "l2_m_state (emit out s) = l2_m_state s"
  "l2_t200 (emit out s) = l2_t200 s"
  "l2_t203 (emit out s) = l2_t203 s"
  "l2_T200 (emit out s) = l2_T200 s"
  "l2_N200 (emit out s) = l2_N200 s"
  "l2_T203 (emit out s) = l2_T203 s"
  "l2_writewakeup (emit out s) = l2_writewakeup s"
  "l2_tx_cnt (emit out s) = l2_tx_cnt s"
  "l2_env (emit out s) = l2_env s"
  "l2_modulus (emit out s) = l2_modulus s"
  "l2_dist (emit out s) x = l2_dist s x"
  "l2_outs (emit out s) = l2_outs s @ [out]"
  by (auto simp: emit_def l2_modulus_def l2_dist_def)

lemma FsmChangeState2_frame [simp]:
  "l2_tei (FsmChangeState2 n s) = l2_tei s"
  "l2_sap (FsmChangeState2 n s) = l2_sap s"
  "l2_maxlen (FsmChangeState2 n s) = l2_maxlen s"
  "l2_flag (FsmChangeState2 n s) = l2_flag s"
  "l2_vs (FsmChangeState2 n s) = l2_vs s"
  "l2_va (FsmChangeState2 n s) = l2_va s"
  "l2_vr (FsmChangeState2 n s) = l2_vr s"
  "l2_rc (FsmChangeState2 n s) = l2_rc s"
  "l2_window (FsmChangeState2 n s) = l2_window s"
  "l2_sow (FsmChangeState2 n s) = l2_sow s"
  "l2_windowar (FsmChangeState2 n s) = l2_windowar s"
  "l2_i_queue (FsmChangeState2 n s) = l2_i_queue s"
  "l2_ui_queue (FsmChangeState2 n s) = l2_ui_queue s"
  "l2_t200 (FsmChangeState2 n s) = l2_t200 s"
  "l2_t203 (FsmChangeState2 n s) = l2_t203 s"
  "l2_T200 (FsmChangeState2 n s) = l2_T200 s"
  "l2_N200 (FsmChangeState2 n s) = l2_N200 s"
  "l2_T203 (FsmChangeState2 n s) = l2_T203 s"
  "l2_writewakeup (FsmChangeState2 n s) = l2_writewakeup s"
  "l2_tx_cnt (FsmChangeState2 n s) = l2_tx_cnt s"
  "l2_env (FsmChangeState2 n s) = l2_env s"
  "l2_outs (FsmChangeState2 n s) = l2_outs s"
  "l2_modulus (FsmChangeState2 n s) = l2_modulus s"
  "l2_dist (FsmChangeState2 n s) x = l2_dist s x"
  "l2_m_state (FsmChangeState2 n s) = n"
  by (auto simp: FsmChangeState2_def l2_modulus_def l2_dist_def)

lemma add_t200_frame [simp]:
  "l2_tei (add_t200 s) = l2_tei s"
  "l2_sap (add_t200 s) = l2_sap s"
  "l2_maxlen (add_t200 s) = l2_maxlen s"
  "l2_flag (add_t200 s) = l2_flag s"
  "l2_vs (add_t200 s) = l2_vs s"
  "l2_va (add_t200 s) = l2_va s"
  "l2_vr (add_t200 s) = l2_vr s"
  "l2_rc (add_t200 s) = l2_rc s"
  "l2_window (add_t200 s) = l2_window s"
  "l2_sow (add_t200 s) = l2_sow s"
  "l2_windowar (add_t200 s) = l2_windowar s"
  "l2_i_queue (add_t200 s) = l2_i_queue s"
  "l2_ui_queue (add_t200 s) = l2_ui_queue s"
  "l2_m_state (add_t200 s) = l2_m_state s"
  "l2_t203 (add_t200 s) = l2_t203 s"
  "l2_T200 (add_t200 s) = l2_T200 s"
  "l2_N200 (add_t200 s) = l2_N200 s"
  "l2_T203 (add_t200 s) = l2_T203 s"
  "l2_writewakeup (add_t200 s) = l2_writewakeup s"
  "l2_tx_cnt (add_t200 s) = l2_tx_cnt s"
  "l2_env (add_t200 s) = l2_env s"
  "l2_outs (add_t200 s) = l2_outs s"
  "l2_modulus (add_t200 s) = l2_modulus s"
  "l2_dist (add_t200 s) x = l2_dist s x"
  "tl_pending (l2_t200 (add_t200 s))"
  "l2_t200 (add_t200 s) = snd (FsmAddTimer (l2_env s) (l2_T200 s) EV_L2_T200 (l2_t200 s))"
  by (auto simp: add_t200_def l2_modulus_def l2_dist_def)

lemma add_t203_frame [simp]:
  "l2_tei (add_t203 s) = l2_tei s"
  "l2_sap (add_t203 s) = l2_sap s"
  "l2_maxlen (add_t203 s) = l2_maxlen s"
  "l2_flag (add_t203 s) = l2_flag s"
  "l2_vs (add_t203 s) = l2_vs s"
  "l2_va (add_t203 s) = l2_va s"
  "l2_vr (add_t203 s) = l2_vr s"
  "l2_rc (add_t203 s) = l2_rc s"
  "l2_window (add_t203 s) = l2_window s"
  "l2_sow (add_t203 s) = l2_sow s"
  "l2_windowar (add_t203 s) = l2_windowar s"
  "l2_i_queue (add_t203 s) = l2_i_queue s"
  "l2_ui_queue (add_t203 s) = l2_ui_queue s"
  "l2_m_state (add_t203 s) = l2_m_state s"
  "l2_t200 (add_t203 s) = l2_t200 s"
  "l2_T200 (add_t203 s) = l2_T200 s"
  "l2_N200 (add_t203 s) = l2_N200 s"
  "l2_T203 (add_t203 s) = l2_T203 s"
  "l2_writewakeup (add_t203 s) = l2_writewakeup s"
  "l2_tx_cnt (add_t203 s) = l2_tx_cnt s"
  "l2_env (add_t203 s) = l2_env s"
  "l2_outs (add_t203 s) = l2_outs s"
  "l2_modulus (add_t203 s) = l2_modulus s"
  "l2_dist (add_t203 s) x = l2_dist s x"
  "tl_pending (l2_t203 (add_t203 s))"
  "l2_t203 (add_t203 s) = snd (FsmAddTimer (l2_env s) (l2_T203 s) EV_L2_T203 (l2_t203 s))"
  by (auto simp: add_t203_def l2_modulus_def l2_dist_def)

lemma restart_t203_frame [simp]:
  "l2_tei (restart_t203 s) = l2_tei s"
  "l2_sap (restart_t203 s) = l2_sap s"
  "l2_maxlen (restart_t203 s) = l2_maxlen s"
  "l2_flag (restart_t203 s) = l2_flag s"
  "l2_vs (restart_t203 s) = l2_vs s"
  "l2_va (restart_t203 s) = l2_va s"
  "l2_vr (restart_t203 s) = l2_vr s"
  "l2_rc (restart_t203 s) = l2_rc s"
  "l2_window (restart_t203 s) = l2_window s"
  "l2_sow (restart_t203 s) = l2_sow s"
  "l2_windowar (restart_t203 s) = l2_windowar s"
  "l2_i_queue (restart_t203 s) = l2_i_queue s"
  "l2_ui_queue (restart_t203 s) = l2_ui_queue s"
  "l2_m_state (restart_t203 s) = l2_m_state s"
  "l2_t200 (restart_t203 s) = l2_t200 s"
  "l2_T200 (restart_t203 s) = l2_T200 s"
  "l2_N200 (restart_t203 s) = l2_N200 s"
  "l2_T203 (restart_t203 s) = l2_T203 s"
  "l2_writewakeup (restart_t203 s) = l2_writewakeup s"
  "l2_tx_cnt (restart_t203 s) = l2_tx_cnt s"
  "l2_env (restart_t203 s) = l2_env s"
  "l2_outs (restart_t203 s) = l2_outs s"
  "l2_modulus (restart_t203 s) = l2_modulus s"
  "l2_dist (restart_t203 s) x = l2_dist s x"
  "l2_t203 (restart_t203 s) = FsmRestartTimer (l2_env s) (l2_T203 s) EV_L2_T203 (l2_t203 s)"
  by (auto simp: restart_t203_def l2_modulus_def l2_dist_def)

lemma del_t203_frame [simp]:
  "l2_tei (del_t203 s) = l2_tei s"
  "l2_sap (del_t203 s) = l2_sap s"
  "l2_maxlen (del_t203 s) = l2_maxlen s"
  "l2_flag (del_t203 s) = l2_flag s"
  "l2_vs (del_t203 s) = l2_vs s"
  "l2_va (del_t203 s) = l2_va s"
  "l2_vr (del_t203 s) = l2_vr s"
  "l2_rc (del_t203 s) = l2_rc s"
  "l2_window (del_t203 s) = l2_window s"
  "l2_sow (del_t203 s) = l2_sow s"
  "l2_windowar (del_t203 s) = l2_windowar s"
  "l2_i_queue (del_t203 s) = l2_i_queue s"
  "l2_ui_queue (del_t203 s) = l2_ui_queue s"
  "l2_m_state (del_t203 s) = l2_m_state s"
  "l2_t200 (del_t203 s) = l2_t200 s"
  "l2_T200 (del_t203 s) = l2_T200 s"
  "l2_N200 (del_t203 s) = l2_N200 s"
  "l2_T203 (del_t203 s) = l2_T203 s"
  "l2_writewakeup (del_t203 s) = l2_writewakeup s"
  "l2_tx_cnt (del_t203 s) = l2_tx_cnt s"
  "l2_env (del_t203 s) = l2_env s"
  "l2_outs (del_t203 s) = l2_outs s"
  "l2_modulus (del_t203 s) = l2_modulus s"
  "l2_dist (del_t203 s) x = l2_dist s x"
  "l2_t203 (del_t203 s) = FsmDelTimer (l2_t203 s)"
  by (auto simp: del_t203_def l2_modulus_def l2_dist_def)

lemma purge_i_frame [simp]:
  "l2_tei (purge_i s) = l2_tei s"
  "l2_sap (purge_i s) = l2_sap s"
  "l2_maxlen (purge_i s) = l2_maxlen s"
  "l2_flag (purge_i s) = l2_flag s"
  "l2_vs (purge_i s) = l2_vs s"
  "l2_va (purge_i s) = l2_va s"
  "l2_vr (purge_i s) = l2_vr s"
  "l2_rc (purge_i s) = l2_rc s"
  "l2_window (purge_i s) = l2_window s"
  "l2_sow (purge_i s) = l2_sow s"
  "l2_windowar (purge_i s) = l2_windowar s"
  "l2_ui_queue (purge_i s) = l2_ui_queue s"
  "l2_m_state (purge_i s) = l2_m_state s"
  "l2_t200 (purge_i s) = l2_t200 s"
  "l2_t203 (purge_i s) = l2_t203 s"
  "l2_T200 (purge_i s) = l2_T200 s"
  "l2_N200 (purge_i s) = l2_N200 s"
  "l2_T203 (purge_i s) = l2_T203 s"
  "l2_writewakeup (purge_i s) = l2_writewakeup s"
  "l2_tx_cnt (purge_i s) = l2_tx_cnt s"
  "l2_env (purge_i s) = l2_env s"
  "l2_outs (purge_i s) = l2_outs s"
  "l2_modulus (purge_i s) = l2_modulus s"
  "l2_dist (purge_i s) x = l2_dist s x"
  "l2_i_queue (purge_i s) = []"
  by (auto simp: purge_i_def l2_modulus_def l2_dist_def)

lemma purge_ui_frame [simp]:
  "l2_tei (purge_ui s) = l2_tei s"
  "l2_sap (purge_ui s) = l2_sap s"
  "l2_maxlen (purge_ui s) = l2_maxlen s"
  "l2_flag (purge_ui s) = l2_flag s"
  "l2_vs (purge_ui s) = l2_vs s"
  "l2_va (purge_ui s) = l2_va s"
  "l2_vr (purge_ui s) = l2_vr s"
  "l2_rc (purge_ui s) = l2_rc s"
  "l2_window (purge_ui s) = l2_window s"
  "l2_sow (purge_ui s) = l2_sow s"
  "l2_windowar (purge_ui s) = l2_windowar s"
  "l2_i_queue (purge_ui s) = l2_i_queue s"
  "l2_m_state (purge_ui s) = l2_m_state s"
  "l2_t200 (purge_ui s) = l2_t200 s"
  "l2_t203 (purge_ui s) = l2_t203 s"
  "l2_T200 (purge_ui s) = l2_T200 s"
  "l2_N200 (purge_ui s) = l2_N200 s"
  "l2_T203 (purge_ui s) = l2_T203 s"
  "l2_writewakeup (purge_ui s) = l2_writewakeup s"
  "l2_tx_cnt (purge_ui s) = l2_tx_cnt s"
  "l2_env (purge_ui s) = l2_env s"
  "l2_outs (purge_ui s) = l2_outs s"
  "l2_modulus (purge_ui s) = l2_modulus s"
  "l2_dist (purge_ui s) x = l2_dist s x"
  "l2_ui_queue (purge_ui s) = []"
  by (auto simp: purge_ui_def l2_modulus_def l2_dist_def)

lemma queue_i_frame [simp]:
  "l2_tei (queue_i skb s) = l2_tei s"
  "l2_sap (queue_i skb s) = l2_sap s"
  "l2_maxlen (queue_i skb s) = l2_maxlen s"
  "l2_flag (queue_i skb s) = l2_flag s"
  "l2_vs (queue_i skb s) = l2_vs s"
  "l2_va (queue_i skb s) = l2_va s"
  "l2_vr (queue_i skb s) = l2_vr s"
  "l2_rc (queue_i skb s) = l2_rc s"
  "l2_window (queue_i skb s) = l2_window s"
  "l2_sow (queue_i skb s) = l2_sow s"
  "l2_windowar (queue_i skb s) = l2_windowar s"
  "l2_ui_queue (queue_i skb s) = l2_ui_queue s"
  "l2_m_state (queue_i skb s) = l2_m_state s"
  "l2_t200 (queue_i skb s) = l2_t200 s"
  "l2_t203 (queue_i skb s) = l2_t203 s"
  "l2_T200 (queue_i skb s) = l2_T200 s"
  "l2_N200 (queue_i skb s) = l2_N200 s"
  "l2_T203 (queue_i skb s) = l2_T203 s"
  "l2_writewakeup (queue_i skb s) = l2_writewakeup s"
  "l2_tx_cnt (queue_i skb s) = l2_tx_cnt s"
  "l2_env (queue_i skb s) = l2_env s"
  "l2_outs (queue_i skb s) = l2_outs s"
  "l2_modulus (queue_i skb s) = l2_modulus s"
  "l2_dist (queue_i skb s) x = l2_dist s x"
  "l2_i_queue (queue_i skb s) = l2_i_queue s @ [skb]"
  by (auto simp: queue_i_def l2_modulus_def l2_dist_def)

lemma queue_ui_frame [simp]:
  "l2_tei (queue_ui skb s) = l2_tei s"
  "l2_sap (queue_ui skb s) = l2_sap s"
  "l2_maxlen (queue_ui skb s) = l2_maxlen s"
  "l2_flag (queue_ui skb s) = l2_flag s"
  "l2_vs (queue_ui skb s) = l2_vs s"
  "l2_va (queue_ui skb s) = l2_va s"
  "l2_vr (queue_ui skb s) = l2_vr s"
  "l2_rc (queue_ui skb s) = l2_rc s"
  "l2_window (queue_ui skb s) = l2_window s"
  "l2_sow (queue_ui skb s) = l2_sow s"
  "l2_windowar (queue_ui skb s) = l2_windowar s"
  "l2_i_queue (queue_ui skb s) = l2_i_queue s"
  "l2_m_state (queue_ui skb s) = l2_m_state s"
  "l2_t200 (queue_ui skb s) = l2_t200 s"
  "l2_t203 (queue_ui skb s) = l2_t203 s"
  "l2_T200 (queue_ui skb s) = l2_T200 s"
  "l2_N200 (queue_ui skb s) = l2_N200 s"
  "l2_T203 (queue_ui skb s) = l2_T203 s"
  "l2_writewakeup (queue_ui skb s) = l2_writewakeup s"
  "l2_tx_cnt (queue_ui skb s) = l2_tx_cnt s"
  "l2_env (queue_ui skb s) = l2_env s"
  "l2_outs (queue_ui skb s) = l2_outs s"
  "l2_modulus (queue_ui skb s) = l2_modulus s"
  "l2_dist (queue_ui skb s) x = l2_dist s x"
  "l2_ui_queue (queue_ui skb s) = l2_ui_queue s @ [skb]"
  by (auto simp: queue_ui_def l2_modulus_def l2_dist_def)

lemma ma_error_frame [simp]:
  "l2_tei (ma_error c s) = l2_tei s"
  "l2_sap (ma_error c s) = l2_sap s"
  "l2_maxlen (ma_error c s) = l2_maxlen s"
  "l2_flag (ma_error c s) = l2_flag s"
  "l2_vs (ma_error c s) = l2_vs s"
  "l2_va (ma_error c s) = l2_va s"
  "l2_vr (ma_error c s) = l2_vr s"
  "l2_rc (ma_error c s) = l2_rc s"
  "l2_window (ma_error c s) = l2_window s"
  "l2_sow (ma_error c s) = l2_sow s"
  "l2_windowar (ma_error c s) = l2_windowar s"
  "l2_i_queue (ma_error c s) = l2_i_queue s"
  "l2_ui_queue (ma_error c s) = l2_ui_queue s"
  "l2_m_state (ma_error c s) = l2_m_state s"
  "l2_t200 (ma_error c s) = l2_t200 s"
  "l2_t203 (ma_error c s) = l2_t203 s"
  "l2_T200 (ma_error c s) = l2_T200 s"
  "l2_N200 (ma_error c s) = l2_N200 s"
  "l2_T203 (ma_error c s) = l2_T203 s"
  "l2_writewakeup (ma_error c s) = l2_writewakeup s"
  "l2_tx_cnt (ma_error c s) = l2_tx_cnt s"
  "l2_env (ma_error c s) = l2_env s"
  "l2_modulus (ma_error c s) = l2_modulus s"
  "l2_dist (ma_error c s) x = l2_dist s x"
  "l2_outs (ma_error c s) = l2_outs s @ [MA (MDL_ERROR, INDICATION) c]"
  by (auto simp: ma_error_def l2_modulus_def l2_dist_def)

lemma pull_req_frame [simp]:
  "l2_tei (pull_req s) = l2_tei s"
  "l2_sap (pull_req s) = l2_sap s"
  "l2_maxlen (pull_req s) = l2_maxlen s"
  "l2_flag (pull_req s) = l2_flag s"
  "l2_vs (pull_req s) = l2_vs s"
  "l2_va (pull_req s) = l2_va s"
  "l2_vr (pull_req s) = l2_vr s"
  "l2_rc (pull_req s) = l2_rc s"
  "l2_window (pull_req s) = l2_window s"
  "l2_sow (pull_req s) = l2_sow s"
  "l2_windowar (pull_req s) = l2_windowar s"
  "l2_i_queue (pull_req s) = l2_i_queue s"
  "l2_ui_queue (pull_req s) = l2_ui_queue s"
  "l2_m_state (pull_req s) = l2_m_state s"
  "l2_t200 (pull_req s) = l2_t200 s"
  "l2_t203 (pull_req s) = l2_t203 s"
  "l2_T200 (pull_req s) = l2_T200 s"
  "l2_N200 (pull_req s) = l2_N200 s"
  "l2_T203 (pull_req s) = l2_T203 s"
  "l2_writewakeup (pull_req s) = l2_writewakeup s"
  "l2_tx_cnt (pull_req s) = l2_tx_cnt s"
  "l2_env (pull_req s) = l2_env s"
  "l2_modulus (pull_req s) = l2_modulus s"
  "l2_dist (pull_req s) x = l2_dist s x"
  "l2_outs (pull_req s) = l2_outs s @ [L2L1 (PH_PULL, REQUEST) None]"
  by (auto simp: pull_req_def l2_modulus_def l2_dist_def)

lemma set_peer_busy_frame [simp]:
  "l2_tei (set_peer_busy s) = l2_tei s"
  "l2_sap (set_peer_busy s) = l2_sap s"
  "l2_maxlen (set_peer_busy s) = l2_maxlen s"
  "l2_vs (set_peer_busy s) = l2_vs s"
  "l2_va (set_peer_busy s) = l2_va s"
  "l2_vr (set_peer_busy s) = l2_vr s"
  "l2_rc (set_peer_busy s) = l2_rc s"
  "l2_window (set_peer_busy s) = l2_window s"
  "l2_sow (set_peer_busy s) = l2_sow s"
  "l2_windowar (set_peer_busy s) = l2_windowar s"
  "l2_i_queue (set_peer_busy s) = l2_i_queue s"
  "l2_ui_queue (set_peer_busy s) = l2_ui_queue s"
  "l2_m_state (set_peer_busy s) = l2_m_state s"
  "l2_t200 (set_peer_busy s) = l2_t200 s"
  "l2_t203 (set_peer_busy s) = l2_t203 s"
  "l2_T200 (set_peer_busy s) = l2_T200 s"
  "l2_N200 (set_peer_busy s) = l2_N200 s"
  "l2_T203 (set_peer_busy s) = l2_T203 s"
  "l2_writewakeup (set_peer_busy s) = l2_writewakeup s"
  "l2_tx_cnt (set_peer_busy s) = l2_tx_cnt s"
  "l2_env (set_peer_busy s) = l2_env s"
  "l2_outs (set_peer_busy s) = l2_outs s"
  "g \<noteq> FLG_PEER_BUSY \<Longrightarrow> g \<noteq> FLG_L2BLOCK \<Longrightarrow> l2_flag (set_peer_busy s) g = l2_flag s g"
  "l2_modulus (set_peer_busy s) = l2_modulus s"
  "l2_dist (set_peer_busy s) x = l2_dist s x"
  by (auto simp: set_peer_busy_def Let_def l2_modulus_def l2_dist_def)

lemma clear_peer_busy_frame [simp]:
  "l2_tei (clear_peer_busy s) = l2_tei s"
  "l2_sap (clear_peer_busy s) = l2_sap s"
  "l2_maxlen (clear_peer_busy s) = l2_maxlen s"
  "l2_vs (clear_peer_busy s) = l2_vs s"
  "l2_va (clear_peer_busy s) = l2_va s"
  "l2_vr (clear_peer_busy s) = l2_vr s"
  "l2_rc (clear_peer_busy s) = l2_rc s"
  "l2_window (clear_peer_busy s) = l2_window s"
  "l2_sow (clear_peer_busy s) = l2_sow s"
  "l2_windowar (clear_peer_busy s) = l2_windowar s"
  "l2_i_queue (clear_peer_busy s) = l2_i_queue s"
  "l2_ui_queue (clear_peer_busy s) = l2_ui_queue s"
  "l2_m_state (clear_peer_busy s) = l2_m_state s"
  "l2_t200 (clear_peer_busy s) = l2_t200 s"
  "l2_t203 (clear_peer_busy s) = l2_t203 s"
  "l2_T200 (clear_peer_busy s) = l2_T200 s"
  "l2_N200 (clear_peer_busy s) = l2_N200 s"
  "l2_T203 (clear_peer_busy s) = l2_T203 s"
  "l2_writewakeup (clear_peer_busy s) = l2_writewakeup s"
  "l2_tx_cnt (clear_peer_busy s) = l2_tx_cnt s"
  "l2_env (clear_peer_busy s) = l2_env s"
  "l2_outs (clear_peer_busy s) = l2_outs s"
  "g \<noteq> FLG_PEER_BUSY \<Longrightarrow> g \<noteq> FLG_L2BLOCK \<Longrightarrow> l2_flag (clear_peer_busy s) g = l2_flag s g"
  "l2_modulus (clear_peer_busy s) = l2_modulus s"
  "l2_dist (clear_peer_busy s) x = l2_dist s x"
  by (auto simp: clear_peer_busy_def l2_modulus_def l2_dist_def)

lemma clear_exception_frame [simp]:
  "l2_tei (clear_exception s) = l2_tei s"
  "l2_sap (clear_exception s) = l2_sap s"
  "l2_maxlen (clear_exception s) = l2_maxlen s"
  "l2_vs (clear_exception s) = l2_vs s"
  "l2_va (clear_exception s) = l2_va s"
  "l2_vr (clear_exception s) = l2_vr s"
  "l2_rc (clear_exception s) = l2_rc s"
  "l2_window (clear_exception s) = l2_window s"
  "l2_sow (clear_exception s) = l2_sow s"
  "l2_windowar (clear_exception s) = l2_windowar s"
  "l2_i_queue (clear_exception s) = l2_i_queue s"
  "l2_ui_queue (clear_exception s) = l2_ui_queue s"
  "l2_m_state (clear_exception s) = l2_m_state s"
  "l2_t200 (clear_exception s) = l2_t200 s"
  "l2_t203 (clear_exception s) = l2_t203 s"
  "l2_T200 (clear_exception s) = l2_T200 s"
  "l2_N200 (clear_exception s) = l2_N200 s"
  "l2_T203 (clear_exception s) = l2_T203 s"
  "l2_writewakeup (clear_exception s) = l2_writewakeup s"
  "l2_tx_cnt (clear_exception s) = l2_tx_cnt s"
  "l2_env (clear_exception s) = l2_env s"
  "l2_outs (clear_exception s) = l2_outs s"
  "g \<notin> {FLG_ACK_PEND, FLG_REJEXC, FLG_OWN_BUSY, FLG_PEER_BUSY, FLG_L2BLOCK} \<Longrightarrow> l2_flag (clear_exception s) g = l2_flag s g"
  "l2_modulus (clear_exception s) = l2_modulus s"
  "l2_dist (clear_exception s) x = l2_dist s x"
  by (auto simp: clear_exception_def l2_modulus_def l2_dist_def)

lemma freewin_frame [simp]:
  "l2_tei (freewin s) = l2_tei s"
  "l2_sap (freewin s) = l2_sap s"
  "l2_maxlen (freewin s) = l2_maxlen s"
  "l2_flag (freewin s) = l2_flag s"
  "l2_vs (freewin s) = l2_vs s"
  "l2_va (freewin s) = l2_va s"
  "l2_vr (freewin s) = l2_vr s"
  "l2_rc (freewin s) = l2_rc s"
  "l2_window (freewin s) = l2_window s"
  "l2_sow (freewin s) = l2_sow s"
  "l2_i_queue (freewin s) = l2_i_queue s"
  "l2_ui_queue (freewin s) = l2_ui_queue s"
  "l2_m_state (freewin s) = l2_m_state s"
  "l2_t200 (freewin s) = l2_t200 s"
  "l2_t203 (freewin s) = l2_t203 s"
  "l2_T200 (freewin s) = l2_T200 s"
  "l2_N200 (freewin s) = l2_N200 s"
  "l2_T203 (freewin s) = l2_T203 s"
  "l2_writewakeup (freewin s) = l2_writewakeup s"
  "l2_tx_cnt (freewin s) = l2_tx_cnt s"
  "l2_env (freewin s) = l2_env s"
  "l2_outs (freewin s) = l2_outs s"
  "l2_modulus (freewin s) = l2_modulus s"
  "l2_dist (freewin s) x = l2_dist s x"
  "l2_windowar (freewin s) = map (\<lambda>w. None) (l2_windowar s)"
  by (auto simp: freewin_def freewin1_def l2_modulus_def l2_dist_def)

lemma reset_seq_frame [simp]:
  "l2_tei (reset_seq s) = l2_tei s"
  "l2_sap (reset_seq s) = l2_sap s"
  "l2_maxlen (reset_seq s) = l2_maxlen s"
  "l2_flag (reset_seq s) = l2_flag s"
  "l2_rc (reset_seq s) = l2_rc s"
  "l2_window (reset_seq s) = l2_window s"
  "l2_windowar (reset_seq s) = l2_windowar s"
  "l2_i_queue (reset_seq s) = l2_i_queue s"
  "l2_ui_queue (reset_seq s) = l2_ui_queue s"
  "l2_m_state (reset_seq s) = l2_m_state s"
  "l2_t200 (reset_seq s) = l2_t200 s"
  "l2_t203 (reset_seq s) = l2_t203 s"
  "l2_T200 (reset_seq s) = l2_T200 s"
  "l2_N200 (reset_seq s) = l2_N200 s"
  "l2_T203 (reset_seq s) = l2_T203 s"
  "l2_writewakeup (reset_seq s) = l2_writewakeup s"
  "l2_tx_cnt (reset_seq s) = l2_tx_cnt s"
  "l2_env (reset_seq s) = l2_env s"
  "l2_outs (reset_seq s) = l2_outs s"
  "l2_modulus (reset_seq s) = l2_modulus s"
  "l2_vs (reset_seq s) = 0"
  "l2_va (reset_seq s) = 0"
  "l2_vr (reset_seq s) = 0"
  "l2_sow (reset_seq s) = 0"
  by (auto simp: reset_seq_def l2_modulus_def l2_dist_def)

lemma count_tx_frame [simp]:
  "l2_tei (count_tx skb s) = l2_tei s"
  "l2_sap (count_tx skb s) = l2_sap s"
  "l2_maxlen (count_tx skb s) = l2_maxlen s"
  "l2_flag (count_tx skb s) = l2_flag s"
  "l2_vs (count_tx skb s) = l2_vs s"
  "l2_va (count_tx skb s) = l2_va s"
  "l2_vr (count_tx skb s) = l2_vr s"
  "l2_rc (count_tx skb s) = l2_rc s"
  "l2_window (count_tx skb s) = l2_window s"
  "l2_sow (count_tx skb s) = l2_sow s"
  "l2_windowar (count_tx skb s) = l2_windowar s"
  "l2_i_queue (count_tx skb s) = l2_i_queue s"
  "l2_ui_queue (count_tx skb s) = l2_ui_queue s"
  "l2_m_state (count_tx skb s) = l2_m_state s"
  "l2_t200 (count_tx skb s) = l2_t200 s"
  "l2_t203 (count_tx skb s) = l2_t203 s"
  "l2_T200 (count_tx skb s) = l2_T200 s"
  "l2_N200 (count_tx skb s) = l2_N200 s"
  "l2_T203 (count_tx skb s) = l2_T203 s"
  "l2_writewakeup (count_tx skb s) = l2_writewakeup s"
  "l2_env (count_tx skb s) = l2_env s"
  "l2_outs (count_tx skb s) = l2_outs s"
  "l2_modulus (count_tx skb s) = l2_modulus s"
  "l2_dist (count_tx skb s) x = l2_dist s x"
  by (auto simp: count_tx_def l2_modulus_def l2_dist_def)

lemma enqueue_super_frame [simp]:
  "l2_tei (enqueue_super skb s) = l2_tei s"
  "l2_sap (enqueue_super skb s) = l2_sap s"
  "l2_maxlen (enqueue_super skb s) = l2_maxlen s"
  "l2_flag (enqueue_super skb s) = l2_flag s"
  "l2_vs (enqueue_super skb s) = l2_vs s"
  "l2_va (enqueue_super skb s) = l2_va s"
  "l2_vr (enqueue_super skb s) = l2_vr s"
  "l2_rc (enqueue_super skb s) = l2_rc s"
  "l2_window (enqueue_super skb s) = l2_window s"
  "l2_sow (enqueue_super skb s) = l2_sow s"
  "l2_windowar (enqueue_super skb s) = l2_windowar s"
  "l2_i_queue (enqueue_super skb s) = l2_i_queue s"
  "l2_ui_queue (enqueue_super skb s) = l2_ui_queue s"
  "l2_m_state (enqueue_super skb s) = l2_m_state s"
  "l2_t200 (enqueue_super skb s) = l2_t200 s"
  "l2_t203 (enqueue_super skb s) = l2_t203 s"
  "l2_T200 (enqueue_super skb s) = l2_T200 s"
  "l2_N200 (enqueue_super skb s) = l2_N200 s"
  "l2_T203 (enqueue_super skb s) = l2_T203 s"
  "l2_writewakeup (enqueue_super skb s) = l2_writewakeup s"
  "l2_env (enqueue_super skb s) = l2_env s"
  "l2_modulus (enqueue_super skb s) = l2_modulus s"
  "l2_dist (enqueue_super skb s) x = l2_dist s x"
  by (auto simp: enqueue_super_def Let_def l2_modulus_def l2_dist_def)

lemma alloc_skb2_frame [simp]:
  "l2_tei (snd (alloc_skb2 s)) = l2_tei s"
  "l2_sap (snd (alloc_skb2 s)) = l2_sap s"
  "l2_maxlen (snd (alloc_skb2 s)) = l2_maxlen s"
  "l2_flag (snd (alloc_skb2 s)) = l2_flag s"
  "l2_vs (snd (alloc_skb2 s)) = l2_vs s"
  "l2_va (snd (alloc_skb2 s)) = l2_va s"
  "l2_vr (snd (alloc_skb2 s)) = l2_vr s"
  "l2_rc (snd (alloc_skb2 s)) = l2_rc s"
  "l2_window (snd (alloc_skb2 s)) = l2_window s"
  "l2_sow (snd (alloc_skb2 s)) = l2_sow s"
  "l2_windowar (snd (alloc_skb2 s)) = l2_windowar s"
  "l2_i_queue (snd (alloc_skb2 s)) = l2_i_queue s"
  "l2_ui_queue (snd (alloc_skb2 s)) = l2_ui_queue s"
  "l2_m_state (snd (alloc_skb2 s)) = l2_m_state s"
  "l2_t200 (snd (alloc_skb2 s)) = l2_t200 s"
  "l2_t203 (snd (alloc_skb2 s)) = l2_t203 s"
  "l2_T200 (snd (alloc_skb2 s)) = l2_T200 s"
  "l2_N200 (snd (alloc_skb2 s)) = l2_N200 s"
  "l2_T203 (snd (alloc_skb2 s)) = l2_T203 s"
  "l2_writewakeup (snd (alloc_skb2 s)) = l2_writewakeup s"
  "l2_tx_cnt (snd (alloc_skb2 s)) = l2_tx_cnt s"
  "l2_outs (snd (alloc_skb2 s)) = l2_outs s"
  "clones_ok (l2_env s) \<Longrightarrow> clones_ok (l2_env (snd (alloc_skb2 s)))"
  "l2_modulus (snd (alloc_skb2 s)) = l2_modulus s"
  "l2_dist (snd (alloc_skb2 s)) x = l2_dist s x"
  by (auto simp: alloc_skb2_def l2_modulus_def l2_dist_def)

lemma send_uframe_frame [simp]:
  "l2_tei (send_uframe cmd cr s) = l2_tei s"
  "l2_sap (send_uframe cmd cr s) = l2_sap s"
  "l2_maxlen (send_uframe cmd cr s) = l2_maxlen s"
  "l2_flag (send_uframe cmd cr s) = l2_flag s"
  "l2_vs (send_uframe cmd cr s) = l2_vs s"
  "l2_va (send_uframe cmd cr s) = l2_va s"
  "l2_vr (send_uframe cmd cr s) = l2_vr s"
  "l2_rc (send_uframe cmd cr s) = l2_rc s"
  "l2_window (send_uframe cmd cr s) = l2_window s"
  "l2_sow (send_uframe cmd cr s) = l2_sow s"
  "l2_windowar (send_uframe cmd cr s) = l2_windowar s"
  "l2_i_queue (send_uframe cmd cr s) = l2_i_queue s"
  "l2_ui_queue (send_uframe cmd cr s) = l2_ui_queue s"
  "l2_m_state (send_uframe cmd cr s) = l2_m_state s"
  "l2_t200 (send_uframe cmd cr s) = l2_t200 s"
  "l2_t203 (send_uframe cmd cr s) = l2_t203 s"
  "l2_T200 (send_uframe cmd cr s) = l2_T200 s"
  "l2_N200 (send_uframe cmd cr s) = l2_N200 s"
  "l2_T203 (send_uframe cmd cr s) = l2_T203 s"
  "l2_writewakeup (send_uframe cmd cr s) = l2_writewakeup s"
  "clones_ok (l2_env s) \<Longrightarrow> clones_ok (l2_env (send_uframe cmd cr s))"
  "l2_modulus (send_uframe cmd cr s) = l2_modulus s"
  "l2_dist (send_uframe cmd cr s) x = l2_dist s x"
  by (auto simp: send_uframe_def split_beta l2_modulus_def l2_dist_def)

lemma enquiry_cr_frame [simp]:
  "l2_tei (enquiry_cr typ cr pf s) = l2_tei s"
  "l2_sap (enquiry_cr typ cr pf s) = l2_sap s"
  "l2_maxlen (enquiry_cr typ cr pf s) = l2_maxlen s"
  "l2_flag (enquiry_cr typ cr pf s) = l2_flag s"
  "l2_vs (enquiry_cr typ cr pf s) = l2_vs s"
  "l2_va (enquiry_cr typ cr pf s) = l2_va s"
  "l2_vr (enquiry_cr typ cr pf s) = l2_vr s"
  "l2_rc (enquiry_cr typ cr pf s) = l2_rc s"
  "l2_window (enquiry_cr typ cr pf s) = l2_window s"
  "l2_sow (enquiry_cr typ cr pf s) = l2_sow s"
  "l2_windowar (enquiry_cr typ cr pf s) = l2_windowar s"
  "l2_i_queue (enquiry_cr typ cr pf s) = l2_i_queue s"
  "l2_ui_queue (enquiry_cr typ cr pf s) = l2_ui_queue s"
  "l2_m_state (enquiry_cr typ cr pf s) = l2_m_state s"
  "l2_t200 (enquiry_cr typ cr pf s) = l2_t200 s"
  "l2_t203 (enquiry_cr typ cr pf s) = l2_t203 s"
  "l2_T200 (enquiry_cr typ cr pf s) = l2_T200 s"
  "l2_N200 (enquiry_cr typ cr pf s) = l2_N200 s"
  "l2_T203 (enquiry_cr typ cr pf s) = l2_T203 s"
  "l2_writewakeup (enquiry_cr typ cr pf s) = l2_writewakeup s"
  "clones_ok (l2_env s) \<Longrightarrow> clones_ok (l2_env (enquiry_cr typ cr pf s))"
  "l2_modulus (enquiry_cr typ cr pf s) = l2_modulus s"
  "l2_dist (enquiry_cr typ cr pf s) x = l2_dist s x"
  by (auto simp: enquiry_cr_def Let_def split_beta l2_modulus_def l2_dist_def)

lemma start_t200_frame [simp]:
  "l2_tei (start_t200 s) = l2_tei s"
  "l2_sap (start_t200 s) = l2_sap s"
  "l2_maxlen (start_t200 s) = l2_maxlen s"
  "l2_vs (start_t200 s) = l2_vs s"
  "l2_va (start_t200 s) = l2_va s"
  "l2_vr (start_t200 s) = l2_vr s"
  "l2_rc (start_t200 s) = l2_rc s"
  "l2_window (start_t200 s) = l2_window s"
  "l2_sow (start_t200 s) = l2_sow s"
  "l2_windowar (start_t200 s) = l2_windowar s"
  "l2_i_queue (start_t200 s) = l2_i_queue s"
  "l2_ui_queue (start_t200 s) = l2_ui_queue s"
  "l2_m_state (start_t200 s) = l2_m_state s"
  "l2_t203 (start_t200 s) = l2_t203 s"
  "l2_T200 (start_t200 s) = l2_T200 s"
  "l2_N200 (start_t200 s) = l2_N200 s"
  "l2_T203 (start_t200 s) = l2_T203 s"
  "l2_writewakeup (start_t200 s) = l2_writewakeup s"
  "l2_tx_cnt (start_t200 s) = l2_tx_cnt s"
  "l2_env (start_t200 s) = l2_env s"
  "l2_outs (start_t200 s) = l2_outs s"
  "l2_flag (start_t200 s) g \<longleftrightarrow> g = FLG_T200_RUN \<or> l2_flag s g"
  "l2_modulus (start_t200 s) = l2_modulus s"
  "l2_dist (start_t200 s) x = l2_dist s x"
  "l2_t200 (start_t200 s) = snd (FsmAddTimer (l2_env s) (l2_T200 s) EV_L2_T200 (l2_t200 s))"
  by (auto simp: start_t200_def l2_modulus_def l2_dist_def)

lemma restart_t200_frame [simp]:
  "l2_tei (restart_t200 s) = l2_tei s"
  "l2_sap (restart_t200 s) = l2_sap s"
  "l2_maxlen (restart_t200 s) = l2_maxlen s"
  "l2_vs (restart_t200 s) = l2_vs s"
  "l2_va (restart_t200 s) = l2_va s"
  "l2_vr (restart_t200 s) = l2_vr s"
  "l2_rc (restart_t200 s) = l2_rc s"
  "l2_window (restart_t200 s) = l2_window s"
  "l2_sow (restart_t200 s) = l2_sow s"
  "l2_windowar (restart_t200 s) = l2_windowar s"
  "l2_i_queue (restart_t200 s) = l2_i_queue s"
  "l2_ui_queue (restart_t200 s) = l2_ui_queue s"
  "l2_m_state (restart_t200 s) = l2_m_state s"
  "l2_t203 (restart_t200 s) = l2_t203 s"
  "l2_T200 (restart_t200 s) = l2_T200 s"
  "l2_N200 (restart_t200 s) = l2_N200 s"
  "l2_T203 (restart_t200 s) = l2_T203 s"
  "l2_writewakeup (restart_t200 s) = l2_writewakeup s"
  "l2_tx_cnt (restart_t200 s) = l2_tx_cnt s"
  "l2_env (restart_t200 s) = l2_env s"
  "l2_outs (restart_t200 s) = l2_outs s"
  "l2_flag (restart_t200 s) g \<longleftrightarrow> g = FLG_T200_RUN \<or> l2_flag s g"
  "l2_modulus (restart_t200 s) = l2_modulus s"
  "l2_dist (restart_t200 s) x = l2_dist s x"
  "l2_t200 (restart_t200 s) = FsmRestartTimer (l2_env s) (l2_T200 s) EV_L2_T200 (l2_t200 s)"
  by (auto simp: restart_t200_def l2_modulus_def l2_dist_def)

lemma stop_t200_frame [simp]:
  "l2_tei (stop_t200 s) = l2_tei s"
  "l2_sap (stop_t200 s) = l2_sap s"
  "l2_maxlen (stop_t200 s) = l2_maxlen s"
  "l2_vs (stop_t200 s) = l2_vs s"
  "l2_va (stop_t200 s) = l2_va s"
  "l2_vr (stop_t200 s) = l2_vr s"
  "l2_rc (stop_t200 s) = l2_rc s"
  "l2_window (stop_t200 s) = l2_window s"
  "l2_sow (stop_t200 s) = l2_sow s"
  "l2_windowar (stop_t200 s) = l2_windowar s"
  "l2_i_queue (stop_t200 s) = l2_i_queue s"
  "l2_ui_queue (stop_t200 s) = l2_ui_queue s"
  "l2_m_state (stop_t200 s) = l2_m_state s"
  "l2_t203 (stop_t200 s) = l2_t203 s"
  "l2_T200 (stop_t200 s) = l2_T200 s"
  "l2_N200 (stop_t200 s) = l2_N200 s"
  "l2_T203 (stop_t200 s) = l2_T203 s"
  "l2_writewakeup (stop_t200 s) = l2_writewakeup s"
  "l2_tx_cnt (stop_t200 s) = l2_tx_cnt s"
  "l2_env (stop_t200 s) = l2_env s"
  "l2_outs (stop_t200 s) = l2_outs s"
  "l2_flag (stop_t200 s) g \<longleftrightarrow> g \<noteq> FLG_T200_RUN \<and> l2_flag s g"
  "l2_modulus (stop_t200 s) = l2_modulus s"
  "l2_dist (stop_t200 s) x = l2_dist s x"
  "l2_t200 (stop_t200 s) = (if l2_flag s FLG_T200_RUN then FsmDelTimer (l2_t200 s) else l2_t200 s)"
  by (auto simp: stop_t200_def l2_modulus_def l2_dist_def)

lemma st5_dl_release_l2l3_frame [simp]:
  "l2_tei (st5_dl_release_l2l3 s) = l2_tei s"
  "l2_sap (st5_dl_release_l2l3 s) = l2_sap s"
  "l2_maxlen (st5_dl_release_l2l3 s) = l2_maxlen s"
  "l2_vs (st5_dl_release_l2l3 s) = l2_vs s"
  "l2_va (st5_dl_release_l2l3 s) = l2_va s"
  "l2_vr (st5_dl_release_l2l3 s) = l2_vr s"
  "l2_rc (st5_dl_release_l2l3 s) = l2_rc s"
  "l2_window (st5_dl_release_l2l3 s) = l2_window s"
  "l2_sow (st5_dl_release_l2l3 s) = l2_sow s"
  "l2_windowar (st5_dl_release_l2l3 s) = l2_windowar s"
  "l2_i_queue (st5_dl_release_l2l3 s) = l2_i_queue s"
  "l2_ui_queue (st5_dl_release_l2l3 s) = l2_ui_queue s"
  "l2_m_state (st5_dl_release_l2l3 s) = l2_m_state s"
  "l2_t200 (st5_dl_release_l2l3 s) = l2_t200 s"
  "l2_t203 (st5_dl_release_l2l3 s) = l2_t203 s"
  "l2_T200 (st5_dl_release_l2l3 s) = l2_T200 s"
  "l2_N200 (st5_dl_release_l2l3 s) = l2_N200 s"
  "l2_T203 (st5_dl_release_l2l3 s) = l2_T203 s"
  "l2_writewakeup (st5_dl_release_l2l3 s) = l2_writewakeup s"
  "l2_tx_cnt (st5_dl_release_l2l3 s) = l2_tx_cnt s"
  "l2_env (st5_dl_release_l2l3 s) = l2_env s"
  "l2_flag (st5_dl_release_l2l3 s) g \<longleftrightarrow> g \<noteq> FLG_PEND_REL \<and> l2_flag s g"
  "l2_modulus (st5_dl_release_l2l3 s) = l2_modulus s"
  "l2_dist (st5_dl_release_l2l3 s) x = l2_dist s x"
  by (auto simp: st5_dl_release_l2l3_def l2_modulus_def l2_dist_def)

lemma lapb_dl_release_l2l3_frame [simp]:
  "l2_tei (lapb_dl_release_l2l3 k s) = l2_tei s"
  "l2_sap (lapb_dl_release_l2l3 k s) = l2_sap s"
  "l2_maxlen (lapb_dl_release_l2l3 k s) = l2_maxlen s"
  "l2_flag (lapb_dl_release_l2l3 k s) = l2_flag s"
  "l2_vs (lapb_dl_release_l2l3 k s) = l2_vs s"
  "l2_va (lapb_dl_release_l2l3 k s) = l2_va s"
  "l2_vr (lapb_dl_release_l2l3 k s) = l2_vr s"
  "l2_rc (lapb_dl_release_l2l3 k s) = l2_rc s"
  "l2_window (lapb_dl_release_l2l3 k s) = l2_window s"
  "l2_sow (lapb_dl_release_l2l3 k s) = l2_sow s"
  "l2_windowar (lapb_dl_release_l2l3 k s) = l2_windowar s"
  "l2_i_queue (lapb_dl_release_l2l3 k s) = l2_i_queue s"
  "l2_ui_queue (lapb_dl_release_l2l3 k s) = l2_ui_queue s"
  "l2_m_state (lapb_dl_release_l2l3 k s) = l2_m_state s"
  "l2_t200 (lapb_dl_release_l2l3 k s) = l2_t200 s"
  "l2_t203 (lapb_dl_release_l2l3 k s) = l2_t203 s"
  "l2_T200 (lapb_dl_release_l2l3 k s) = l2_T200 s"
  "l2_N200 (lapb_dl_release_l2l3 k s) = l2_N200 s"
  "l2_T203 (lapb_dl_release_l2l3 k s) = l2_T203 s"
  "l2_writewakeup (lapb_dl_release_l2l3 k s) = l2_writewakeup s"
  "l2_tx_cnt (lapb_dl_release_l2l3 k s) = l2_tx_cnt s"
  "l2_env (lapb_dl_release_l2l3 k s) = l2_env s"
  "l2_modulus (lapb_dl_release_l2l3 k s) = l2_modulus s"
  "l2_dist (lapb_dl_release_l2l3 k s) x = l2_dist s x"
  by (auto simp: lapb_dl_release_l2l3_def l2_modulus_def l2_dist_def)

lemma enquiry_response_frame [simp]:
  "l2_tei (enquiry_response s) = l2_tei s"
  "l2_sap (enquiry_response s) = l2_sap s"
  "l2_maxlen (enquiry_response s) = l2_maxlen s"
  "l2_vs (enquiry_response s) = l2_vs s"
  "l2_va (enquiry_response s) = l2_va s"
  "l2_vr (enquiry_response s) = l2_vr s"
  "l2_rc (enquiry_response s) = l2_rc s"
  "l2_window (enquiry_response s) = l2_window s"
  "l2_sow (enquiry_response s) = l2_sow s"
  "l2_windowar (enquiry_response s) = l2_windowar s"
  "l2_i_queue (enquiry_response s) = l2_i_queue s"
  "l2_ui_queue (enquiry_response s) = l2_ui_queue s"
  "l2_m_state (enquiry_response s) = l2_m_state s"
  "l2_t200 (enquiry_response s) = l2_t200 s"
  "l2_t203 (enquiry_response s) = l2_t203 s"
  "l2_T200 (enquiry_response s) = l2_T200 s"
  "l2_N200 (enquiry_response s) = l2_N200 s"
  "l2_T203 (enquiry_response s) = l2_T203 s"
  "l2_writewakeup (enquiry_response s) = l2_writewakeup s"
  "l2_flag (enquiry_response s) g \<longleftrightarrow> g \<noteq> FLG_ACK_PEND \<and> l2_flag s g"
  "clones_ok (l2_env s) \<Longrightarrow> clones_ok (l2_env (enquiry_response s))"
  "l2_modulus (enquiry_response s) = l2_modulus s"
  "l2_dist (enquiry_response s) x = l2_dist s x"
  by (auto simp: enquiry_response_def l2_modulus_def l2_dist_def)

lemma transmit_enquiry_frame [simp]:
  "l2_tei (transmit_enquiry s) = l2_tei s"
  "l2_sap (transmit_enquiry s) = l2_sap s"
  "l2_maxlen (transmit_enquiry s) = l2_maxlen s"
  "l2_vs (transmit_enquiry s) = l2_vs s"
  "l2_va (transmit_enquiry s) = l2_va s"
  "l2_vr (transmit_enquiry s) = l2_vr s"
  "l2_rc (transmit_enquiry s) = l2_rc s"
  "l2_window (transmit_enquiry s) = l2_window s"
  "l2_sow (transmit_enquiry s) = l2_sow s"
  "l2_windowar (transmit_enquiry s) = l2_windowar s"
  "l2_i_queue (transmit_enquiry s) = l2_i_queue s"
  "l2_ui_queue (transmit_enquiry s) = l2_ui_queue s"
  "l2_m_state (transmit_enquiry s) = l2_m_state s"
  "l2_t203 (transmit_enquiry s) = l2_t203 s"
  "l2_T200 (transmit_enquiry s) = l2_T200 s"
  "l2_N200 (transmit_enquiry s) = l2_N200 s"
  "l2_T203 (transmit_enquiry s) = l2_T203 s"
  "l2_writewakeup (transmit_enquiry s) = l2_writewakeup s"
  "l2_flag (transmit_enquiry s) g \<longleftrightarrow> g = FLG_T200_RUN \<or> g \<noteq> FLG_ACK_PEND \<and> l2_flag s g"
  "clones_ok (l2_env s) \<Longrightarrow> clones_ok (l2_env (transmit_enquiry s))"
  "l2_modulus (transmit_enquiry s) = l2_modulus s"
  "l2_dist (transmit_enquiry s) x = l2_dist s x"
  "tl_pending (l2_t200 (transmit_enquiry s))"
  "tm_event (l2_t200 (transmit_enquiry s)) = (if tl_pending (l2_t200 s) then tm_event (l2_t200 s) else EV_L2_T200)"
  by (auto simp: transmit_enquiry_def l2_modulus_def l2_dist_def)

lemma establishlink_frame [simp]:
  "l2_tei (establishlink s) = l2_tei s"
  "l2_sap (establishlink s) = l2_sap s"
  "l2_maxlen (establishlink s) = l2_maxlen s"
  "l2_vs (establishlink s) = l2_vs s"
  "l2_va (establishlink s) = l2_va s"
  "l2_vr (establishlink s) = l2_vr s"
  "l2_window (establishlink s) = l2_window s"
  "l2_sow (establishlink s) = l2_sow s"
  "l2_i_queue (establishlink s) = l2_i_queue s"
  "l2_ui_queue (establishlink s) = l2_ui_queue s"
  "l2_T200 (establishlink s) = l2_T200 s"
  "l2_N200 (establishlink s) = l2_N200 s"
  "l2_T203 (establishlink s) = l2_T203 s"
  "l2_writewakeup (establishlink s) = l2_writewakeup s"
  "g \<notin> {FLG_ACK_PEND, FLG_REJEXC, FLG_OWN_BUSY, FLG_PEER_BUSY, FLG_L2BLOCK, FLG_PEND_REL} \<Longrightarrow> l2_flag (establishlink s) g \<longleftrightarrow> g = FLG_T200_RUN \<or> l2_flag s g"
  "clones_ok (l2_env s) \<Longrightarrow> clones_ok (l2_env (establishlink s))"
  "l2_modulus (establishlink s) = l2_modulus s"
  "l2_dist (establishlink s) x = l2_dist s x"
  "tl_pending (l2_t200 (establishlink s))"
  "tm_event (l2_t200 (establishlink s)) = EV_L2_T200"
  "l2_t203 (establishlink s) = FsmDelTimer (l2_t203 s)"
  "l2_windowar (establishlink s) = map (\<lambda>w. None) (l2_windowar s)"
  "l2_m_state (establishlink s) = ST_L2_5"
  "l2_rc (establishlink s) = 0"
  by (auto simp: establishlink_def Let_def l2_modulus_def l2_dist_def)

lemma nrerrorrecovery_frame [simp]:
  "l2_tei (nrerrorrecovery s) = l2_tei s"
  "l2_sap (nrerrorrecovery s) = l2_sap s"
  "l2_maxlen (nrerrorrecovery s) = l2_maxlen s"
  "l2_vs (nrerrorrecovery s) = l2_vs s"
  "l2_va (nrerrorrecovery s) = l2_va s"
  "l2_vr (nrerrorrecovery s) = l2_vr s"
  "l2_window (nrerrorrecovery s) = l2_window s"
  "l2_sow (nrerrorrecovery s) = l2_sow s"
  "l2_i_queue (nrerrorrecovery s) = l2_i_queue s"
  "l2_ui_queue (nrerrorrecovery s) = l2_ui_queue s"
  "l2_T200 (nrerrorrecovery s) = l2_T200 s"
  "l2_N200 (nrerrorrecovery s) = l2_N200 s"
  "l2_T203 (nrerrorrecovery s) = l2_T203 s"
  "l2_writewakeup (nrerrorrecovery s) = l2_writewakeup s"
  "g \<notin> {FLG_ACK_PEND, FLG_REJEXC, FLG_OWN_BUSY, FLG_PEER_BUSY, FLG_L2BLOCK, FLG_PEND_REL, FLG_L3_INIT} \<Longrightarrow> l2_flag (nrerrorrecovery s) g \<longleftrightarrow> g = FLG_T200_RUN \<or> l2_flag s g"
  "clones_ok (l2_env s) \<Longrightarrow> clones_ok (l2_env (nrerrorrecovery s))"
  "l2_modulus (nrerrorrecovery s) = l2_modulus s"
  "l2_dist (nrerrorrecovery s) x = l2_dist s x"
  "tl_pending (l2_t200 (nrerrorrecovery s))"
  "tm_event (l2_t200 (nrerrorrecovery s)) = EV_L2_T200"
  "l2_t203 (nrerrorrecovery s) = FsmDelTimer (l2_t203 s)"
  "l2_windowar (nrerrorrecovery s) = map (\<lambda>w. None) (l2_windowar s)"
  "l2_m_state (nrerrorrecovery s) = ST_L2_5"
  by (auto simp: nrerrorrecovery_def l2_modulus_def l2_dist_def)

lemma disconnect2_frame [simp]:
  "l2_tei (disconnect2 s) = l2_tei s"
  "l2_sap (disconnect2 s) = l2_sap s"
  "l2_maxlen (disconnect2 s) = l2_maxlen s"
  "l2_vs (disconnect2 s) = l2_vs s"
  "l2_va (disconnect2 s) = l2_va s"
  "l2_vr (disconnect2 s) = l2_vr s"
  "l2_window (disconnect2 s) = l2_window s"
  "l2_sow (disconnect2 s) = l2_sow s"
  "l2_ui_queue (disconnect2 s) = l2_ui_queue s"
  "l2_T200 (disconnect2 s) = l2_T200 s"
  "l2_N200 (disconnect2 s) = l2_N200 s"
  "l2_T203 (disconnect2 s) = l2_T203 s"
  "l2_writewakeup (disconnect2 s) = l2_writewakeup s"
  "l2_flag (disconnect2 s) g \<longleftrightarrow> g = FLG_T200_RUN \<or> l2_flag s g"
  "clones_ok (l2_env s) \<Longrightarrow> clones_ok (l2_env (disconnect2 s))"
  "l2_modulus (disconnect2 s) = l2_modulus s"
  "l2_dist (disconnect2 s) x = l2_dist s x"
  "tl_pending (l2_t200 (disconnect2 s))"
  "tm_event (l2_t200 (disconnect2 s)) = EV_L2_T200"
  "l2_t203 (disconnect2 s) = FsmDelTimer (l2_t203 s)"
  "l2_windowar (disconnect2 s) = map (\<lambda>w. None) (l2_windowar s)"
  "l2_m_state (disconnect2 s) = ST_L2_6"
  "l2_i_queue (disconnect2 s) = []"
  by (auto simp: disconnect2_def Let_def l2_modulus_def l2_dist_def)

lemma iframe_receive_frame [simp]:
  "l2_tei (iframe_receive skb pf ns s) = l2_tei s"
  "l2_sap (iframe_receive skb pf ns s) = l2_sap s"
  "l2_maxlen (iframe_receive skb pf ns s) = l2_maxlen s"
  "l2_vs (iframe_receive skb pf ns s) = l2_vs s"
  "l2_va (iframe_receive skb pf ns s) = l2_va s"
  "l2_rc (iframe_receive skb pf ns s) = l2_rc s"
  "l2_window (iframe_receive skb pf ns s) = l2_window s"
  "l2_sow (iframe_receive skb pf ns s) = l2_sow s"
  "l2_windowar (iframe_receive skb pf ns s) = l2_windowar s"
  "l2_i_queue (iframe_receive skb pf ns s) = l2_i_queue s"
  "l2_ui_queue (iframe_receive skb pf ns s) = l2_ui_queue s"
  "l2_m_state (iframe_receive skb pf ns s) = l2_m_state s"
  "l2_t200 (iframe_receive skb pf ns s) = l2_t200 s"
  "l2_t203 (iframe_receive skb pf ns s) = l2_t203 s"
  "l2_T200 (iframe_receive skb pf ns s) = l2_T200 s"
  "l2_N200 (iframe_receive skb pf ns s) = l2_N200 s"
  "l2_T203 (iframe_receive skb pf ns s) = l2_T203 s"
  "l2_writewakeup (iframe_receive skb pf ns s) = l2_writewakeup s"
  "g \<noteq> FLG_ACK_PEND \<Longrightarrow> g \<noteq> FLG_REJEXC \<Longrightarrow> l2_flag (iframe_receive skb pf ns s) g = l2_flag s g"
  "clones_ok (l2_env s) \<Longrightarrow> clones_ok (l2_env (iframe_receive skb pf ns s))"
  "l2_modulus (iframe_receive skb pf ns s) = l2_modulus s"
  "l2_dist (iframe_receive skb pf ns s) x = l2_dist s x"
  by (auto simp: iframe_receive_def Let_def l2_modulus_def l2_dist_def)

lemma iframe_timers_frame [simp]:
  "l2_tei (iframe_timers nr s) = l2_tei s"
  "l2_sap (iframe_timers nr s) = l2_sap s"
  "l2_maxlen (iframe_timers nr s) = l2_maxlen s"
  "l2_vs (iframe_timers nr s) = l2_vs s"
  "l2_va (iframe_timers nr s) = l2_va s"
  "l2_vr (iframe_timers nr s) = l2_vr s"
  "l2_rc (iframe_timers nr s) = l2_rc s"
  "l2_window (iframe_timers nr s) = l2_window s"
  "l2_sow (iframe_timers nr s) = l2_sow s"
  "l2_windowar (iframe_timers nr s) = l2_windowar s"
  "l2_i_queue (iframe_timers nr s) = l2_i_queue s"
  "l2_ui_queue (iframe_timers nr s) = l2_ui_queue s"
  "l2_m_state (iframe_timers nr s) = l2_m_state s"
  "l2_T200 (iframe_timers nr s) = l2_T200 s"
  "l2_N200 (iframe_timers nr s) = l2_N200 s"
  "l2_T203 (iframe_timers nr s) = l2_T203 s"
  "l2_writewakeup (iframe_timers nr s) = l2_writewakeup s"
  "l2_tx_cnt (iframe_timers nr s) = l2_tx_cnt s"
  "l2_env (iframe_timers nr s) = l2_env s"
  "l2_outs (iframe_timers nr s) = l2_outs s"
  "g \<noteq> FLG_T200_RUN \<Longrightarrow> l2_flag (iframe_timers nr s) g = l2_flag s g"
  "l2_modulus (iframe_timers nr s) = l2_modulus s"
  "l2_dist (iframe_timers nr s) x = l2_dist s x"
  by (auto simp: iframe_timers_def l2_modulus_def l2_dist_def)

lemma l2_update_frame [simp]:
  "l2_modulus (s\<lparr>l2_tei := x0\<rparr>) = l2_modulus s"
  "l2_dist (s\<lparr>l2_tei := x0\<rparr>) nr = l2_dist s nr"
  "l2_modulus (s\<lparr>l2_sap := x1\<rparr>) = l2_modulus s"
  "l2_dist (s\<lparr>l2_sap := x1\<rparr>) nr = l2_dist s nr"
  "l2_modulus (s\<lparr>l2_maxlen := x2\<rparr>) = l2_modulus s"
  "l2_dist (s\<lparr>l2_maxlen := x2\<rparr>) nr = l2_dist s nr"
  "l2_modulus (s\<lparr>l2_vs := x4\<rparr>) = l2_modulus s"
  "l2_dist (s\<lparr>l2_vs := x4\<rparr>) nr = l2_dist s nr"
  "l2_modulus (s\<lparr>l2_va := x5\<rparr>) = l2_modulus s"
  "l2_modulus (s\<lparr>l2_vr := x6\<rparr>) = l2_modulus s"
  "l2_dist (s\<lparr>l2_vr := x6\<rparr>) nr = l2_dist s nr"
  "l2_modulus (s\<lparr>l2_rc := x7\<rparr>) = l2_modulus s"
  "l2_dist (s\<lparr>l2_rc := x7\<rparr>) nr = l2_dist s nr"
  "l2_modulus (s\<lparr>l2_window := x8\<rparr>) = l2_modulus s"
  "l2_dist (s\<lparr>l2_window := x8\<rparr>) nr = l2_dist s nr"
  "l2_modulus (s\<lparr>l2_sow := x9\<rparr>) = l2_modulus s"
  "l2_dist (s\<lparr>l2_sow := x9\<rparr>) nr = l2_dist s nr"
  "l2_modulus (s\<lparr>l2_windowar := x10\<rparr>) = l2_modulus s"
  "l2_dist (s\<lparr>l2_windowar := x10\<rparr>) nr = l2_dist s nr"
  "l2_modulus (s\<lparr>l2_i_queue := x11\<rparr>) = l2_modulus s"
  "l2_dist (s\<lparr>l2_i_queue := x11\<rparr>) nr = l2_dist s nr"
  "l2_modulus (s\<lparr>l2_ui_queue := x12\<rparr>) = l2_modulus s"
  "l2_dist (s\<lparr>l2_ui_queue := x12\<rparr>) nr = l2_dist s nr"
  "l2_modulus (s\<lparr>l2_m_state := x13\<rparr>) = l2_modulus s"
  "l2_dist (s\<lparr>l2_m_state := x13\<rparr>) nr = l2_dist s nr"
  "l2_modulus (s\<lparr>l2_t200 := x14\<rparr>) = l2_modulus s"
  "l2_dist (s\<lparr>l2_t200 := x14\<rparr>) nr = l2_dist s nr"
  "l2_modulus (s\<lparr>l2_t203 := x15\<rparr>) = l2_modulus s"
  "l2_dist (s\<lparr>l2_t203 := x15\<rparr>) nr = l2_dist s nr"
  "l2_modulus (s\<lparr>l2_T200 := x16\<rparr>) = l2_modulus s"
  "l2_dist (s\<lparr>l2_T200 := x16\<rparr>) nr = l2_dist s nr"
  "l2_modulus (s\<lparr>l2_N200 := x17\<rparr>) = l2_modulus s"
  "l2_dist (s\<lparr>l2_N200 := x17\<rparr>) nr = l2_dist s nr"
  "l2_modulus (s\<lparr>l2_T203 := x18\<rparr>) = l2_modulus s"
  "l2_dist (s\<lparr>l2_T203 := x18\<rparr>) nr = l2_dist s nr"
  "l2_modulus (s\<lparr>l2_writewakeup := x19\<rparr>) = l2_modulus s"
  "l2_dist (s\<lparr>l2_writewakeup := x19\<rparr>) nr = l2_dist s nr"
  "l2_modulus (s\<lparr>l2_tx_cnt := x20\<rparr>) = l2_modulus s"
  "l2_dist (s\<lparr>l2_tx_cnt := x20\<rparr>) nr = l2_dist s nr"
  "l2_modulus (s\<lparr>l2_env := x21\<rparr>) = l2_modulus s"
  "l2_dist (s\<lparr>l2_env := x21\<rparr>) nr = l2_dist s nr"
  "l2_modulus (s\<lparr>l2_outs := x22\<rparr>) = l2_modulus s"
  "l2_dist (s\<lparr>l2_outs := x22\<rparr>) nr = l2_dist s nr"
  by (simp_all add: l2_modulus_def l2_dist_def)

end
