(* ===== verification/Hisax_L2_Window.thy ===== *)
theory Hisax_L2_Window
  imports Hisax_L2_Frame
begin

text \<open>
  The send window of a link as a list. The code keeps the unacknowledged frames in a ring
  (\<open>windowar\<close>, \<open>sow\<close>) whose fill level is a difference of sequence numbers; \<open>unacked\<close> is the list
  that the ring stands for, oldest frame first. Acknowledging (\<open>setva\<close>) drops a prefix of it,
  retransmitting (\<open>invoke_retransmission\<close>) cuts a suffix off and puts it wrap in front of the queue.
\<close>

subsection \<open>The window invariant\<close>

text \<open>The configured window fits the array and the modulus.\<close>

definition l2_ring :: "Layer2 \<Rightarrow> bool" where
  "l2_ring s \<longleftrightarrow> 0 < l2_window s \<and> l2_window s \<le> MAX_WINDOW \<and>
     l2_window s < unat (l2_modulus s) \<and> length (l2_windowar s) = MAX_WINDOW"

definition l2_slot :: "Layer2 \<Rightarrow> nat \<Rightarrow> nat" where
  "l2_slot s k = (l2_sow s + k) mod l2_window s"

definition l2_win :: "Layer2 \<Rightarrow> bool" where
  "l2_win s \<longleftrightarrow> l2_sow s < l2_window s \<and> l2_vs s < l2_modulus s \<and> l2_va s < l2_modulus s \<and>
     l2_vr s < l2_modulus s \<and> l2_dist s (l2_vs s) \<le> l2_window s \<and>
     (\<forall>k < l2_dist s (l2_vs s). l2_windowar s ! l2_slot s k \<noteq> None)"

definition unacked :: "Layer2 \<Rightarrow> sk_buff list" where
  "unacked s = map (\<lambda>k. the (l2_windowar s ! l2_slot s k)) [0..<l2_dist s (l2_vs s)]"

lemma length_unacked [simp]: "length (unacked s) = l2_dist s (l2_vs s)"
  by (simp add: unacked_def)

lemma seq_modulus_l2 [simp]: "seq_modulus (l2_modulus s)"
  by (simp add: seq_modulus_def l2_modulus_def)

lemma l2_slot_less: "l2_ring s \<Longrightarrow> l2_slot s k < length (l2_windowar s)"
  by (simp add: l2_ring_def l2_slot_def) (meson less_le_trans mod_less_divisor)

lemma l2_slot_0: "l2_sow s < l2_window s \<Longrightarrow> l2_slot s 0 = l2_sow s"
  by (simp add: l2_slot_def)

lemma l2_slot_inj:
  "k < l2_window s \<Longrightarrow> j < l2_window s \<Longrightarrow> l2_slot s k = l2_slot s j \<longleftrightarrow> k = j"
  unfolding l2_slot_def using ring_inj [of k "l2_window s" j "l2_sow s"] by auto

lemma l2_slot_frame [simp]:
  "l2_slot (s\<lparr>l2_vs := x\<rparr>) k = l2_slot s k" "l2_slot (s\<lparr>l2_windowar := w\<rparr>) k = l2_slot s k"
  by (simp_all add: l2_slot_def)

subsection \<open>Distances\<close>

lemma dist_nat_dec:
  fixes x a m :: nat
  assumes "x < m" "a < m" "0 < (x + m - a) mod m"
  shows "(x + m - (a + 1) mod m) mod m = (x + m - a) mod m - 1"
proof (cases "a < x")
  case True
  then have "(x + m - a) mod m = x - a" using assms by (simp add: mod_if)
  moreover have "(a + 1) mod m = a + 1" using True assms by simp
  moreover have "(x + m - (a + 1)) mod m = x - (a + 1)" using True assms by (simp add: mod_if)
  ultimately show ?thesis by simp
next
  case False
  then have "x \<noteq> a" using assms(3) by auto
  then have lt: "x < a" using False by simp
  then have "(x + m - a) mod m = x + m - a" using assms by simp
  moreover have "(x + m - (a + 1) mod m) mod m = x + m - (a + 1)"
  proof (cases "a + 1 = m")
    case True then show ?thesis using lt by simp
  next
    case False then show ?thesis using lt assms by simp
  qed
  ultimately show ?thesis using lt assms by simp
qed

lemma dist_nat_inc:
  fixes x a m :: nat
  assumes "x < m" "a < m"
  shows "((x + 1) mod m + m - a) mod m = ((x + m - a) mod m + 1) mod m"
proof -
  have "((x + 1) mod m + m - a) mod m = ((x + 1) mod m + (m - a)) mod m" using assms by simp
  also have "\<dots> = (x + (m - a) + 1) mod m" by (simp add: mod_simps)
  also have "\<dots> = ((x + (m - a)) mod m + 1) mod m" by (simp only: mod_simps)
  finally show ?thesis using assms by simp
qed

lemma dist_unat:
  assumes "x < l2_modulus s" "l2_va s < l2_modulus s"
  shows "l2_dist s x =
    (unat x + unat (l2_modulus s) - unat (l2_va s)) mod unat (l2_modulus s)"
  using assms by (simp add: l2_dist_def unat_sub_mod)

lemma dist_va [simp]: "l2_dist s (l2_va s) = 0"
  by (simp add: l2_dist_def)

lemma dist_less: "l2_dist s x < unat (l2_modulus s)"
proof -
  have "0 < unat (l2_modulus s)" by (simp add: l2_modulus_def)
  then show ?thesis unfolding l2_dist_def unat_mod by simp
qed

lemma dist_eq_iff:
  assumes "x < l2_modulus s" "y < l2_modulus s" "l2_va s < l2_modulus s"
  shows "l2_dist s x = l2_dist s y \<longleftrightarrow> x = y"
proof
  assume eq: "l2_dist s x = l2_dist s y"
  let ?m = "unat (l2_modulus s)" and ?a = "unat (l2_va s)"
  have lt: "unat x < ?m" "unat y < ?m" "?a < ?m" using assms by (simp_all add: word_less_nat_alt)
  have "(?m - ?a + unat x) mod ?m = (?m - ?a + unat y) mod ?m"
    using eq assms lt by (simp add: dist_unat add.commute)
  then have "unat x = unat y" using ring_inj [of "unat x" ?m "unat y" "?m - ?a"] lt by simp
  then show "x = y" by (simp add: word_unat_eq_iff)
qed simp

lemma dist_0_iff:
  "x < l2_modulus s \<Longrightarrow> l2_va s < l2_modulus s \<Longrightarrow> l2_dist s x = 0 \<longleftrightarrow> x = l2_va s"
  using dist_eq_iff [of x s "l2_va s"] by simp

lemma dist_inc_va:
  assumes "x < l2_modulus s" "l2_va s < l2_modulus s" "0 < l2_dist s x"
  shows "l2_dist (s\<lparr>l2_va := (l2_va s + 1) mod l2_modulus s\<rparr>) x = l2_dist s x - 1"
proof -
  let ?s = "s\<lparr>l2_va := (l2_va s + 1) mod l2_modulus s\<rparr>"
  have m: "l2_modulus ?s = l2_modulus s" by (simp add: l2_modulus_def)
  have "l2_va ?s < l2_modulus ?s" unfolding m by (simp add: mod_less_seq)
  then have "l2_dist ?s x = (unat x + unat (l2_modulus s) -
      (unat (l2_va s) + 1) mod unat (l2_modulus s)) mod unat (l2_modulus s)"
    using dist_unat [of x ?s] assms m by (simp add: unat_inc_mod)
  also have "\<dots> = l2_dist s x - 1"
    using dist_nat_dec [of "unat x" "unat (l2_modulus s)" "unat (l2_va s)"] assms
    by (simp add: dist_unat word_less_nat_alt)
  finally show ?thesis .
qed

lemma dist_inc_vs:
  assumes "x < l2_modulus s" "l2_va s < l2_modulus s" "l2_dist s x + 1 < unat (l2_modulus s)"
  shows "l2_dist s ((x + 1) mod l2_modulus s) = l2_dist s x + 1"
proof -
  have "(x + 1) mod l2_modulus s < l2_modulus s" by (simp add: mod_less_seq)
  then have "l2_dist s ((x + 1) mod l2_modulus s) =
     ((unat x + 1) mod unat (l2_modulus s) + unat (l2_modulus s) - unat (l2_va s))
       mod unat (l2_modulus s)"
    using assms by (simp add: dist_unat unat_inc_mod)
  also have "\<dots> = (l2_dist s x + 1) mod unat (l2_modulus s)"
    using dist_nat_inc [of "unat x" "unat (l2_modulus s)" "unat (l2_va s)"] assms
    by (simp add: dist_unat word_less_nat_alt)
  finally show ?thesis using assms(3) by simp
qed

lemma dist_dec_vs:
  assumes "x < l2_modulus s" "l2_va s < l2_modulus s" "0 < l2_dist s x"
  shows "l2_dist s ((x - 1) mod l2_modulus s) = l2_dist s x - 1"
proof -
  let ?m = "l2_modulus s" and ?y = "(x - 1) mod l2_modulus s"
  have y: "?y < ?m" by (simp add: mod_less_seq)
  have one: "(1::u32) < ?m" by (simp add: l2_modulus_def)
  have xm: "unat x < unat ?m" using assms(1) by (simp add: word_less_nat_alt)
  have "unat ?y = (unat x + unat ?m - 1) mod unat ?m"
    using unat_sub_mod [of ?m x 1] assms(1) one by simp
  moreover have "unat ((?y + 1) mod ?m) = (unat ?y + 1) mod unat ?m"
    using y by (simp add: unat_inc_mod)
  moreover have "((unat x + unat ?m - 1) mod unat ?m + 1) mod unat ?m = unat x"
    using xm by (simp add: mod_simps)
  ultimately have wrap: "(?y + 1) mod ?m = x" by (metis word_unat_eq_iff)
  have "l2_dist s x \<noteq> 0" using assms(3) by simp
  moreover have "l2_dist s ?y + 1 = unat ?m \<Longrightarrow> l2_dist s x = 0"
  proof -
    assume "l2_dist s ?y + 1 = unat ?m"
    then have "((unat ?y + 1) mod unat ?m + unat ?m - unat (l2_va s)) mod unat ?m = 0"
      using dist_nat_inc [of "unat ?y" "unat ?m" "unat (l2_va s)"] y assms(2)
      by (simp add: dist_unat word_less_nat_alt)
    moreover have "unat x = (unat ?y + 1) mod unat ?m"
      using y wrap unat_inc_mod [of ?m ?y] by simp
    ultimately show "l2_dist s x = 0" using assms by (simp add: dist_unat)
  qed
  ultimately have "l2_dist s ?y + 1 < unat ?m"
    using dist_less [of s ?y] by linarith
  then have "l2_dist s x = l2_dist s ?y + 1"
    using dist_inc_vs [of ?y s] y assms(2) wrap by simp
  then show ?thesis by simp
qed

subsection \<open>Acknowledging\<close>

text \<open>The senders woken up for a list of acknowledged frames.\<close>

definition wakeups :: "Layer2 \<Rightarrow> sk_buff list \<Rightarrow> l2out list" where
  "wakeups s skbs =
     (if l2_writewakeup s
      then map (\<lambda>skb. WAKEUP (skb_len skb)) (filter (\<lambda>skb. skb_pkt_type skb \<noteq> PACKET_NOACK) skbs)
      else [])"

lemma setva_step_sel [simp]:
  "l2_va (setva_step skb s) = (l2_va s + 1) mod l2_modulus s"
  "l2_vs (setva_step skb s) = l2_vs s"
  "l2_vr (setva_step skb s) = l2_vr s"
  "l2_flag (setva_step skb s) = l2_flag s"
  "l2_window (setva_step skb s) = l2_window s"
  "l2_sow (setva_step skb s) = (l2_sow s + 1) mod l2_window s"
  "l2_windowar (setva_step skb s) = (l2_windowar s)[l2_sow s := None]"
  "l2_modulus (setva_step skb s) = l2_modulus s"
  "l2_writewakeup (setva_step skb s) = l2_writewakeup s"
  "l2_outs (setva_step skb s) = l2_outs s @ wakeups s [skb]"
  by (simp_all add: setva_step_def emit_def l2_modulus_def Let_def wakeups_def)

lemma setva_step_eq:
  "setva_step skb s = s\<lparr>l2_va := l2_va (setva_step skb s), l2_sow := l2_sow (setva_step skb s),
     l2_windowar := l2_windowar (setva_step skb s), l2_outs := l2_outs (setva_step skb s)\<rparr>"
  by (simp add: setva_step_def emit_def Let_def)

lemma l2_slot_setva_step: "l2_slot (setva_step skb s) k = l2_slot s (Suc k)"
  by (simp add: l2_slot_def mod_simps add.commute)

lemma dist_setva_step:
  assumes "l2_win s" "x < l2_modulus s" "0 < l2_dist s x"
  shows "l2_dist (setva_step skb s) x = l2_dist s x - 1"
proof -
  have "l2_dist (setva_step skb s) x = l2_dist (s\<lparr>l2_va := (l2_va s + 1) mod l2_modulus s\<rparr>) x"
    by (simp add: l2_dist_def l2_modulus_def)
  then show ?thesis using dist_inc_va [of x s] assms by (simp add: l2_win_def)
qed

text \<open>One acknowledged frame: the window invariant holds on, and the oldest frame is gone.\<close>

lemma setva_step_ok:
  assumes r: "l2_ring s" and w: "l2_win s" and d: "0 < l2_dist s (l2_vs s)"
    and skb: "l2_windowar s ! l2_sow s = Some skb"
  defines "s1 \<equiv> setva_step skb s"
  shows "l2_ring s1" "l2_win s1" "unacked s = skb # unacked s1"
proof -
  have vs: "l2_vs s < l2_modulus s" and dw: "l2_dist s (l2_vs s) \<le> l2_window s"
    and so: "l2_sow s < l2_window s"
    using w by (simp_all add: l2_win_def)
  have d1: "l2_dist s1 (l2_vs s) = l2_dist s (l2_vs s) - 1"
    using dist_setva_step [OF w vs d] by (simp add: s1_def)
  have slot: "l2_windowar s1 ! l2_slot s1 k = l2_windowar s ! l2_slot s (Suc k)"
    if "Suc k < l2_window s" for k
  proof -
    have "l2_slot s (Suc k) \<noteq> l2_slot s 0" using l2_slot_inj [of "Suc k" s 0] that by simp
    then show ?thesis using so by (simp add: s1_def l2_slot_setva_step l2_slot_0)
  qed
  show "l2_ring s1" using r by (simp add: s1_def l2_ring_def)
  show "l2_win s1"
  proof -
    have "l2_windowar s1 ! l2_slot s1 k \<noteq> None" if "k < l2_dist s1 (l2_vs s)" for k
      using slot [of k] that w dw d1 by (simp add: l2_win_def)
    moreover have "l2_sow s1 < l2_window s1" using so by (simp add: s1_def)
    moreover have "l2_dist s1 (l2_vs s) \<le> l2_window s" using d1 dw by simp
    ultimately show ?thesis
      using w d1 by (simp add: l2_win_def s1_def mod_less_seq)
  qed
  have "[0..<l2_dist s (l2_vs s)] = 0 # map Suc [0..<l2_dist s1 (l2_vs s)]"
    using d d1 by (simp add: map_Suc_upt upt_conv_Cons)
  then have "unacked s = the (l2_windowar s ! l2_slot s 0) #
      map (\<lambda>k. the (l2_windowar s ! l2_slot s (Suc k))) [0..<l2_dist s1 (l2_vs s)]"
    by (simp add: unacked_def comp_def)
  also have "\<dots> = skb # unacked s1"
    using slot dw d1 so skb by (auto simp: unacked_def s1_def l2_slot_0)
  finally show "unacked s = skb # unacked s1" .
qed

text \<open>
  What \<open>setva nr\<close> does on a legal N(R): V(A) becomes N(R), as many frames as N(R) acknowledges leave
  the head of the window, and their senders are woken up in order.
\<close>

definition acked :: "u32 \<Rightarrow> Layer2 \<Rightarrow> Layer2 \<Rightarrow> bool" where
  "acked nr s s' \<longleftrightarrow>
     (\<exists>w so. s' = s\<lparr>l2_va := nr, l2_sow := so, l2_windowar := w,
        l2_outs := l2_outs s @ wakeups s (take (l2_dist s nr) (unacked s))\<rparr>) \<and>
     l2_ring s' \<and> l2_win s' \<and> unacked s' = drop (l2_dist s nr) (unacked s)"

lemma acked_refl:
  assumes "l2_ring s" "l2_win s"
  shows "acked (l2_va s) s s"
proof -
  have "s = s\<lparr>l2_va := l2_va s, l2_sow := l2_sow s, l2_windowar := l2_windowar s,
     l2_outs := l2_outs s @ wakeups s (take (l2_dist s (l2_va s)) (unacked s))\<rparr>"
    by (simp add: wakeups_def)
  then show ?thesis using assms unfolding acked_def by (metis dist_va drop0)
qed

lemma setva_acked:
  assumes "l2_ring s" "l2_win s" "nr < l2_modulus s" "l2_dist s nr \<le> l2_dist s (l2_vs s)"
  shows "\<exists>s'. setva nr s = Some s' \<and> acked nr s s'"
  using assms
proof (induction "l2_dist s nr" arbitrary: s)
  case 0
  then have "nr = l2_va s" using dist_0_iff [of nr s] by (simp add: l2_win_def)
  then show ?case using acked_refl [of s] 0 by (subst setva.simps) simp
next
  case (Suc n)
  have d: "0 < l2_dist s (l2_vs s)" and dn: "0 < l2_dist s nr" using Suc by simp_all
  have ne: "l2_va s \<noteq> nr" using dn by auto
  have so: "l2_sow s < l2_window s" "l2_sow s < length (l2_windowar s)"
    using Suc.prems by (auto simp: l2_win_def l2_ring_def)
  obtain skb where skb: "l2_windowar s ! l2_sow s = Some skb"
    using Suc.prems(2) d l2_slot_0 [OF so(1)] by (auto simp: l2_win_def)
  let ?s1 = "setva_step skb s"
  note ok = setva_step_ok [OF Suc.prems(1,2) d skb]
  have dn1: "l2_dist ?s1 nr = n" using dist_setva_step [OF Suc.prems(2,3) dn] Suc.hyps(2) by simp
  have "l2_dist ?s1 (l2_vs s) = l2_dist s (l2_vs s) - 1"
    using dist_setva_step [OF Suc.prems(2) _ d] Suc.prems(2) by (simp add: l2_win_def)
  then have "l2_dist ?s1 nr \<le> l2_dist ?s1 (l2_vs ?s1)"
    using dn1 Suc.prems(4) Suc.hyps(2) by simp
  then obtain s' where s': "setva nr ?s1 = Some s'" "acked nr ?s1 s'"
    using Suc.hyps(1) [of ?s1] dn1 ok Suc.prems(3) by auto
  obtain w so' where eq: "s' = ?s1\<lparr>l2_va := nr, l2_sow := so', l2_windowar := w,
      l2_outs := l2_outs ?s1 @ wakeups ?s1 (take (l2_dist ?s1 nr) (unacked ?s1))\<rparr>"
    using s'(2) unfolding acked_def by blast
  have "wakeups s (take (Suc n) (unacked s)) = wakeups s [skb] @ wakeups ?s1 (take n (unacked ?s1))"
    by (simp add: ok(3) wakeups_def)
  then have "s' = s\<lparr>l2_va := nr, l2_sow := so', l2_windowar := w,
      l2_outs := l2_outs s @ wakeups s (take (l2_dist s nr) (unacked s))\<rparr>"
    unfolding eq dn1 Suc.hyps(2) [symmetric] by (subst setva_step_eq) simp
  then have "acked nr s s'"
    using s'(2) dn1 Suc.hyps(2) [symmetric] unfolding acked_def ok(3) by auto
  moreover have "setva nr s = setva nr ?s1"
    using ne so skb by (subst setva.simps) simp
  ultimately show ?case using s'(1) by auto
qed

subsection \<open>Retransmitting\<close>

lemma retrans_step_sel [simp]:
  "l2_va (retrans_step skb s) = l2_va s"
  "l2_vs (retrans_step skb s) = (l2_vs s - 1) mod l2_modulus s"
  "l2_vr (retrans_step skb s) = l2_vr s"
  "l2_flag (retrans_step skb s) = l2_flag s"
  "l2_window (retrans_step skb s) = l2_window s"
  "l2_sow (retrans_step skb s) = l2_sow s"
  "l2_windowar (retrans_step skb s) = (l2_windowar s)[retrans_slot s := None]"
  "l2_i_queue (retrans_step skb s) = skb # l2_i_queue s"
  "l2_modulus (retrans_step skb s) = l2_modulus s"
  "l2_dist (retrans_step skb s) x = l2_dist s x"
  "l2_slot (retrans_step skb s) k = l2_slot s k"
  by (simp_all add: retrans_step_def l2_modulus_def l2_dist_def l2_slot_def)

lemma retrans_slot_eq:
  assumes "l2_win s" "0 < l2_dist s (l2_vs s)"
  shows "retrans_slot s = l2_slot s (l2_dist s (l2_vs s) - 1)"
  using assms dist_dec_vs [of "l2_vs s" s]
  by (simp add: retrans_slot_def l2_slot_def l2_win_def add.commute)

lemma retrans_step_ok:
  assumes r: "l2_ring s" and w: "l2_win s" and d: "0 < l2_dist s (l2_vs s)"
    and skb: "l2_windowar s ! retrans_slot s = Some skb"
  defines "s1 \<equiv> retrans_step skb s"
  shows "l2_ring s1" "l2_win s1" "unacked s = unacked s1 @ [skb]"
proof -
  let ?d = "l2_dist s (l2_vs s)"
  have dw: "?d \<le> l2_window s" and vs: "l2_vs s < l2_modulus s" and va: "l2_va s < l2_modulus s"
    using w by (simp_all add: l2_win_def)
  have d1: "l2_dist s1 (l2_vs s1) = ?d - 1"
    using dist_dec_vs [OF vs va d] by (simp add: s1_def)
  have sl: "retrans_slot s = l2_slot s (?d - 1)" using retrans_slot_eq [OF w d] .
  have slot: "l2_windowar s1 ! l2_slot s1 k = l2_windowar s ! l2_slot s k" if "k < ?d - 1" for k
  proof -
    have "l2_slot s (?d - 1) \<noteq> l2_slot s k"
      using l2_slot_inj [of "?d - 1" s k] that dw d by simp
    then show ?thesis by (simp add: s1_def sl)
  qed
  show "l2_ring s1" using r by (simp add: s1_def l2_ring_def)
  show "l2_win s1"
  proof -
    have "l2_windowar s1 ! l2_slot s1 k \<noteq> None" if "k < l2_dist s1 (l2_vs s1)" for k
      using slot [of k] that w d1 by (simp add: l2_win_def)
    moreover have "l2_dist s1 (l2_vs s1) \<le> l2_window s" using d1 dw by simp
    ultimately show ?thesis using w by (simp add: l2_win_def s1_def mod_less_seq)
  qed
  have "[0..<?d] = [0..<?d - 1] @ [?d - 1]" using d by (metis Suc_diff_1 upt_Suc_append zero_le)
  then have "unacked s = map (\<lambda>k. the (l2_windowar s ! l2_slot s k)) [0..<?d - 1] @ [skb]"
    using skb by (simp add: unacked_def sl)
  then show "unacked s = unacked s1 @ [skb]"
    using slot d1 by (simp add: unacked_def)
qed

text \<open>
  What retransmission from N(R) on does: V(S) becomes N(R), and the frames from N(R) on leave the
  window and stand, in order, at the head of the queue.
\<close>

definition sent_back :: "u32 \<Rightarrow> Layer2 \<Rightarrow> Layer2 \<Rightarrow> bool" where
  "sent_back nr s s' \<longleftrightarrow>
     (\<exists>w tx. s' = s\<lparr>l2_vs := nr, l2_windowar := w, l2_tx_cnt := tx,
        l2_i_queue := drop (l2_dist s nr) (unacked s) @ l2_i_queue s\<rparr>) \<and>
     l2_ring s' \<and> l2_win s' \<and> unacked s' = take (l2_dist s nr) (unacked s)"

lemma retrans_step_upd:
  "(retrans_step skb s)\<lparr>l2_vs := a, l2_windowar := w, l2_tx_cnt := tx, l2_i_queue := q\<rparr> =
   s\<lparr>l2_vs := a, l2_windowar := w, l2_tx_cnt := tx, l2_i_queue := q\<rparr>"
  by (simp add: retrans_step_def)

lemma sent_back_refl:
  assumes "l2_ring s" "l2_win s"
  shows "sent_back (l2_vs s) s s"
proof -
  have "s = s\<lparr>l2_vs := l2_vs s, l2_windowar := l2_windowar s, l2_tx_cnt := l2_tx_cnt s,
        l2_i_queue := drop (l2_dist s (l2_vs s)) (unacked s) @ l2_i_queue s\<rparr>"
    by simp
  moreover have "unacked s = take (l2_dist s (l2_vs s)) (unacked s)" by simp
  ultimately show ?thesis using assms unfolding sent_back_def by metis
qed

lemma retrans_loop_sent_back:
  assumes "l2_ring s" "l2_win s" "nr < l2_modulus s" "l2_dist s nr \<le> l2_dist s (l2_vs s)"
  shows "\<exists>s'. retrans_loop nr s = Some s' \<and> sent_back nr s s'"
  using assms
proof (induction "l2_dist s (l2_vs s) - l2_dist s nr" arbitrary: s)
  case 0
  then have "l2_dist s nr = l2_dist s (l2_vs s)" by simp
  then have "nr = l2_vs s" using dist_eq_iff [of nr s "l2_vs s"] 0 by (simp add: l2_win_def)
  then show ?case using sent_back_refl [of s] 0 by (subst retrans_loop.simps) simp
next
  case (Suc n)
  let ?d = "l2_dist s (l2_vs s)"
  have d: "0 < ?d" and lt: "l2_dist s nr \<le> ?d - 1" using Suc.hyps(2) by linarith+
  have ne: "l2_vs s \<noteq> nr" using Suc.hyps(2) by auto
  have vs: "l2_vs s < l2_modulus s" and va: "l2_va s < l2_modulus s" and dw: "?d \<le> l2_window s"
    using Suc.prems(2) by (simp_all add: l2_win_def)
  have sl: "retrans_slot s = l2_slot s (?d - 1)" using retrans_slot_eq [OF Suc.prems(2) d] .
  have len: "retrans_slot s < length (l2_windowar s)"
    unfolding sl using Suc.prems(1) by (rule l2_slot_less)
  obtain skb where skb: "l2_windowar s ! retrans_slot s = Some skb"
    using Suc.prems(2) d unfolding sl l2_win_def by (metis diff_less not_Some_eq zero_less_one)
  let ?s1 = "retrans_step skb s"
  note ok = retrans_step_ok [OF Suc.prems(1,2) d skb]
  have d1: "l2_dist ?s1 (l2_vs ?s1) = ?d - 1" using dist_dec_vs [OF vs va d] by simp
  moreover from d1 have "n = l2_dist ?s1 (l2_vs ?s1) - l2_dist ?s1 nr"
    using Suc.hyps(2) by (simp del: retrans_step_sel(2))
  ultimately obtain s' where s': "retrans_loop nr ?s1 = Some s'" "sent_back nr ?s1 s'"
    using Suc.hyps(1) [of ?s1] Suc.hyps(2) lt ok Suc.prems(3) by auto
  have lu: "length (unacked ?s1) = ?d - 1" using d1 by simp
  obtain w tx where eq: "s' = ?s1\<lparr>l2_vs := nr, l2_windowar := w, l2_tx_cnt := tx,
      l2_i_queue := drop (l2_dist ?s1 nr) (unacked ?s1) @ l2_i_queue ?s1\<rparr>"
    using s'(2) unfolding sent_back_def by blast
  have "drop (l2_dist ?s1 nr) (unacked ?s1) @ l2_i_queue ?s1 =
        drop (l2_dist s nr) (unacked s) @ l2_i_queue s"
    using lt lu by (simp add: ok(3))
  then have "s' = s\<lparr>l2_vs := nr, l2_windowar := w, l2_tx_cnt := tx,
      l2_i_queue := drop (l2_dist s nr) (unacked s) @ l2_i_queue s\<rparr>"
    unfolding eq by (simp only: retrans_step_upd)
  moreover have "take (l2_dist ?s1 nr) (unacked ?s1) = take (l2_dist s nr) (unacked s)"
    using lt lu by (simp add: ok(3))
  ultimately have "sent_back nr s s'"
    using s'(2) unfolding sent_back_def by auto
  moreover have "retrans_loop nr s = retrans_loop nr ?s1"
    using ne len skb Suc.prems(1) by (subst retrans_loop.simps) (simp add: l2_ring_def)
  ultimately show ?case using s'(1) by auto
qed

end
