(* ===== verification/Hisax_L2_Inv.thy ===== *)
theory Hisax_L2_Inv
  imports Hisax_L2_Window
begin

text \<open>
  The invariant of a layer 2 link and its preservation by every handler of \<open>L2FnList\<close>.

  \<^item> \<open>l2_cfg\<close>: the configured window fits the array and the modulus, the copies that
    \<open>l2_pull_iqueue\<close> keeps of its frames can be made (other allocations may fail), and queued UI frames have the headroom layer 3 reserves.
  \<^item> \<open>l2_win\<close> (states 7 and 8): sequence numbers are below the modulus and every slot of the window
    between V(A) and V(S) holds a frame, so neither an acknowledgement nor a retransmission can
    meet a null buffer.
  \<^item> \<open>l2_tmr\<close>: the flag \<open>FLG_T200_RUN\<close> tells whether T200 is pending; a link that waits for its
    peer always has a timer that will wake it up. In state 7 this may be T203 also when data are
    unacknowledged (\<open>rej_now_unguarded\<close>).
\<close>

subsection \<open>The invariant\<close>

definition l2_cfg :: "Layer2 \<Rightarrow> bool" where
  "l2_cfg s \<longleftrightarrow> l2_ring s \<and> l2_m_state s < L2_STATE_COUNT \<and> clones_ok (l2_env s) \<and>
     (\<forall>skb \<in> set (l2_ui_queue s). 3 \<le> skb_head skb)"

definition l2_tmr :: "Layer2 \<Rightarrow> bool" where
  "l2_tmr s \<longleftrightarrow> (test_bit FLG_T200_RUN s \<longleftrightarrow> tl_pending (l2_t200 s)) \<and>
     (tl_pending (l2_t200 s) \<longrightarrow> tm_event (l2_t200 s) = EV_L2_T200) \<and>
     (tl_pending (l2_t203 s) \<longrightarrow> tm_event (l2_t203 s) = EV_L2_T203) \<and>
     (l2_m_state s \<in> {ST_L2_5, ST_L2_6, ST_L2_8} \<longrightarrow> tl_pending (l2_t200 s)) \<and>
     (l2_m_state s = ST_L2_7 \<longrightarrow> tl_pending (l2_t200 s) \<or> tl_pending (l2_t203 s)) \<and>
     (l2_m_state s < ST_L2_5 \<longrightarrow> \<not> tl_pending (l2_t200 s))"

definition l2_inv :: "Layer2 \<Rightarrow> bool" where
  "l2_inv s \<longleftrightarrow> l2_cfg s \<and> (ST_L2_7 \<le> l2_m_state s \<longrightarrow> l2_win s) \<and> l2_tmr s"

lemmas l2_inv_defs = l2_inv_def l2_cfg_def l2_ring_def l2_win_def l2_slot_def l2_tmr_def

text \<open>Sequence numbers set to zero make an empty window.\<close>

lemma l2_modulus_pos [simp]: "0 < l2_modulus s"
  by (simp add: l2_modulus_def)

lemma l2_dist_reset [simp]: "l2_dist (reset_seq s) 0 = 0"
  by (simp add: l2_dist_def)

subsection \<open>Errors, assignment, unnumbered information\<close>

lemma get_PollFlag_ok:
  "l2addrsize s < skb_len skb \<Longrightarrow> get_PollFlag s skb = Some (skb_bytes skb ! l2addrsize s AND 0x10)"
  by (simp add: get_PollFlag_def skb_len_def)

lemma l2_mdl_error_ua_ok [handler_ok]:
  "l2_inv s \<Longrightarrow> l2addrsize s < skb_len skb \<Longrightarrow> wpo (l2_mdl_error_ua (Skb skb) s) l2_inv"
  by (simp add: l2_mdl_error_ua_def get_PollFlag_ok l2_inv_defs)

lemma establishlink_inv:
  "l2_cfg s \<Longrightarrow> l2_inv (establishlink s)"
  by (simp add: l2_inv_defs)

lemma l2_mdl_error_dm_ok [handler_ok]:
  "l2_inv s \<Longrightarrow> l2addrsize s < skb_len skb \<Longrightarrow> wpo (l2_mdl_error_dm (Skb skb) s) l2_inv"
  by (simp add: l2_mdl_error_dm_def get_PollFlag_ok l2_inv_defs)

lemma l2_st8_mdl_error_dm_ok [handler_ok]:
  "l2_inv s \<Longrightarrow> l2addrsize s < skb_len skb \<Longrightarrow> wpo (l2_st8_mdl_error_dm (Skb skb) s) l2_inv"
  by (simp add: l2_st8_mdl_error_dm_def get_PollFlag_ok l2_inv_defs)

lemma l2_go_st3_ok [handler_ok]:
  "l2_inv s \<Longrightarrow> l2_m_state s \<in> {ST_L2_2} \<Longrightarrow> wpo (l2_go_st3 arg s) l2_inv"
  by (simp add: l2_go_st3_def l2_inv_defs)

lemma l2_mdl_assign_ok [handler_ok]:
  "l2_inv s \<Longrightarrow> l2_m_state s \<in> {ST_L2_1} \<Longrightarrow> wpo (l2_mdl_assign arg s) l2_inv"
  by (simp add: l2_mdl_assign_def l2_inv_defs)

lemma l2_queue_ui_assign_ok [handler_ok]:
  "l2_inv s \<Longrightarrow> l2_m_state s \<in> {ST_L2_1} \<Longrightarrow> 3 \<le> skb_head skb \<Longrightarrow> wpo (l2_queue_ui_assign (Skb skb) s) l2_inv"
  by (simp add: l2_queue_ui_assign_def l2_inv_defs)

lemma l2_queue_ui_ok [handler_ok]:
  "l2_inv s \<Longrightarrow> 3 \<le> skb_head skb \<Longrightarrow> wpo (l2_queue_ui (Skb skb) s) l2_inv"
  by (simp add: l2_queue_ui_def l2_inv_defs)

text \<open>The queued UI frames have room for the header: at most three bytes.\<close>

lemma length_sethdraddr: "length (sethdraddr s cr) \<le> 2"
  by (simp add: sethdraddr_def Let_def)

lemma tx_ui_loop_ok:
  assumes "\<forall>skb \<in> set skbs. length header \<le> skb_head skb"
  shows "\<exists>tx outs. tx_ui_loop header skbs s =
    Some (s\<lparr>l2_ui_queue := [], l2_tx_cnt := tx, l2_outs := outs\<rparr>)"
  using assms
proof (induction skbs arbitrary: s)
  case Nil
  have "s\<lparr>l2_ui_queue := []\<rparr> =
     s\<lparr>l2_ui_queue := [], l2_tx_cnt := l2_tx_cnt s, l2_outs := l2_outs s\<rparr>" by simp
  then show ?case by (metis tx_ui_loop.simps(1))
next
  case (Cons skb skbs)
  obtain skb' where "skb_push header skb = Some skb'" using Cons.prems by (simp add: skb_push_def)
  then show ?case
    using Cons.IH [of "enqueue_super skb' (s\<lparr>l2_ui_queue := skbs\<rparr>)"] Cons.prems
    by (auto simp: enqueue_super_def emit_def Let_def) blast+
qed

lemma tx_ui_ok: "l2_inv s \<Longrightarrow> wpo (tx_ui s) l2_inv"
proof -
  assume inv: "l2_inv s"
  have "length (sethdraddr s CMD @ [F_UI]) \<le> 3" using length_sethdraddr [of s CMD] by simp
  then have "\<forall>skb \<in> set (l2_ui_queue s). length (sethdraddr s CMD @ [F_UI]) \<le> skb_head skb"
    using inv unfolding l2_inv_def l2_cfg_def by (meson le_trans)
  then obtain tx outs where
    "tx_ui s = Some (s\<lparr>l2_ui_queue := [], l2_tx_cnt := tx, l2_outs := outs\<rparr>)"
    using tx_ui_loop_ok [of "l2_ui_queue s" "sethdraddr s CMD @ [F_UI]" s]
    unfolding tx_ui_def by blast
  then show ?thesis using inv by (simp add: l2_inv_defs l2_dist_def l2_modulus_def)
qed

lemma l2_send_ui_ok [handler_ok]:
  "l2_inv s \<Longrightarrow> 3 \<le> skb_head skb \<Longrightarrow> wpo (l2_send_ui (Skb skb) s) l2_inv"
  unfolding l2_send_ui_def with_skb_Skb by (rule tx_ui_ok) (simp add: l2_inv_defs)

lemma l2_got_ui_ok [handler_ok]:
  "l2_inv s \<Longrightarrow> wpo (l2_got_ui (Skb skb) s) l2_inv"
  by (simp add: l2_got_ui_def l2_inv_defs)

subsection \<open>Establishing and releasing\<close>

lemma l2_establish_ok [handler_ok]:
  "l2_inv s \<Longrightarrow> wpo (l2_establish arg s) l2_inv"
  by (simp add: l2_establish_def l2_inv_defs)

lemma l2_discard_i_setl3_ok [handler_ok]:
  "l2_inv s \<Longrightarrow> wpo (l2_discard_i_setl3 arg s) l2_inv"
  by (simp add: l2_discard_i_setl3_def l2_inv_defs)

lemma l2_l3_reestablish_ok [handler_ok]:
  "l2_inv s \<Longrightarrow> wpo (l2_l3_reestablish arg s) l2_inv"
  by (simp add: l2_l3_reestablish_def l2_inv_defs)

lemma l2_release_ok [handler_ok]:
  "l2_inv s \<Longrightarrow> wpo (l2_release arg s) l2_inv"
  by (simp add: l2_release_def l2_inv_defs)

lemma l2_pend_rel_ok [handler_ok]:
  "l2_inv s \<Longrightarrow> wpo (l2_pend_rel arg s) l2_inv"
  by (simp add: l2_pend_rel_def l2_inv_defs)

lemma l2_disconnect_ok [handler_ok]:
  "l2_inv s \<Longrightarrow> wpo (l2_disconnect arg s) l2_inv"
  by (simp add: l2_disconnect_def l2_inv_defs)

lemma l2_start_multi_ok [handler_ok]:
  "l2_inv s \<Longrightarrow> l2_m_state s \<in> {ST_L2_4} \<Longrightarrow> l2addrsize s < skb_len skb \<Longrightarrow> wpo (l2_start_multi (Skb skb) s) l2_inv"
  by (simp add: l2_start_multi_def get_PollFlag_ok Let_def l2_inv_defs)

lemma l2_send_UA_ok [handler_ok]:
  "l2_inv s \<Longrightarrow> l2addrsize s < skb_len skb \<Longrightarrow> wpo (l2_send_UA (Skb skb) s) l2_inv"
  by (simp add: l2_send_UA_def get_PollFlag_ok l2_inv_defs)

lemma l2_send_DM_ok [handler_ok]:
  "l2_inv s \<Longrightarrow> l2addrsize s < skb_len skb \<Longrightarrow> wpo (l2_send_DM (Skb skb) s) l2_inv"
  by (simp add: l2_send_DM_def get_PollFlag_ok l2_inv_defs)

lemma l2_restart_multi_ok [handler_ok]:
  "l2_inv s \<Longrightarrow> l2addrsize s < skb_len skb \<Longrightarrow> wpo (l2_restart_multi (Skb skb) s) l2_inv"
  by (simp add: l2_restart_multi_def get_PollFlag_ok Let_def l2_inv_defs)

lemma l2_stop_multi_ok [handler_ok]:
  "l2_inv s \<Longrightarrow> l2addrsize s < skb_len skb \<Longrightarrow> wpo (l2_stop_multi (Skb skb) s) l2_inv"
  by (simp add: l2_stop_multi_def get_PollFlag_def skb_len_def l2addrsize_def Let_def l2_inv_defs)

lemma l2_connected_ok [handler_ok]:
  "l2_inv s \<Longrightarrow> l2_m_state s \<in> {ST_L2_5} \<Longrightarrow> l2addrsize s < skb_len skb \<Longrightarrow> wpo (l2_connected (Skb skb) s) l2_inv"
  by (simp add: l2_connected_def get_PollFlag_ok l2_disconnect_def l2_mdl_error_ua_def Let_def l2_inv_defs)

lemma l2_released_ok [handler_ok]:
  "l2_inv s \<Longrightarrow> l2addrsize s < skb_len skb \<Longrightarrow> wpo (l2_released (Skb skb) s) l2_inv"
  by (simp add: l2_released_def get_PollFlag_ok l2_mdl_error_ua_def l2_inv_defs)

lemma l2_reestablish_ok [handler_ok]:
  "l2_inv s \<Longrightarrow> l2addrsize s < skb_len skb \<Longrightarrow> wpo (l2_reestablish (Skb skb) s) l2_inv"
  by (simp add: l2_reestablish_def get_PollFlag_ok l2_inv_defs)

lemma l2_st5_dm_release_ok [handler_ok]:
  "l2_inv s \<Longrightarrow> l2addrsize s < skb_len skb \<Longrightarrow> wpo (l2_st5_dm_release (Skb skb) s) l2_inv"
  by (simp add: l2_st5_dm_release_def get_PollFlag_ok Let_def l2_inv_defs)

lemma l2_st6_dm_release_ok [handler_ok]:
  "l2_inv s \<Longrightarrow> l2addrsize s < skb_len skb \<Longrightarrow> wpo (l2_st6_dm_release (Skb skb) s) l2_inv"
  by (simp add: l2_st6_dm_release_def get_PollFlag_ok l2_inv_defs)

subsection \<open>Data queues, TEI removal, deactivation, own busy, errors\<close>

lemma l2_feed_i_if_reest_ok [handler_ok]:
  "l2_inv s \<Longrightarrow> wpo (l2_feed_i_if_reest (Skb skb) s) l2_inv"
  by (simp add: l2_feed_i_if_reest_def Let_def l2_inv_defs)

lemma l2_feed_i_pull_ok [handler_ok]:
  "l2_inv s \<Longrightarrow> wpo (l2_feed_i_pull (Skb skb) s) l2_inv"
  by (simp add: l2_feed_i_pull_def Let_def l2_inv_defs)

lemma l2_feed_iqueue_ok [handler_ok]:
  "l2_inv s \<Longrightarrow> wpo (l2_feed_iqueue (Skb skb) s) l2_inv"
  by (simp add: l2_feed_iqueue_def Let_def l2_inv_defs)

lemma l2_st24_tei_remove_ok [handler_ok]:
  "l2_inv s \<Longrightarrow> l2_m_state s \<in> {ST_L2_2, ST_L2_4} \<Longrightarrow> wpo (l2_st24_tei_remove arg s) l2_inv"
  by (auto simp: l2_st24_tei_remove_def l2_inv_defs)

lemma l2_st3_tei_remove_ok [handler_ok]:
  "l2_inv s \<Longrightarrow> l2_m_state s \<in> {ST_L2_3} \<Longrightarrow> wpo (l2_st3_tei_remove arg s) l2_inv"
  by (simp add: l2_st3_tei_remove_def l2_inv_defs)

lemma l2_st5_tei_remove_ok [handler_ok]:
  "l2_inv s \<Longrightarrow> wpo (l2_st5_tei_remove arg s) l2_inv"
  by (simp add: l2_st5_tei_remove_def Let_def l2_inv_defs)

lemma l2_st6_tei_remove_ok [handler_ok]:
  "l2_inv s \<Longrightarrow> wpo (l2_st6_tei_remove arg s) l2_inv"
  by (simp add: l2_st6_tei_remove_def Let_def l2_inv_defs)

lemma l2_tei_remove_ok [handler_ok]:
  "l2_inv s \<Longrightarrow> wpo (l2_tei_remove arg s) l2_inv"
  by (simp add: l2_tei_remove_def Let_def l2_inv_defs)

lemma l2_st5_persistant_da_ok [handler_ok]:
  "l2_inv s \<Longrightarrow> wpo (l2_st5_persistant_da arg s) l2_inv"
  by (simp add: l2_st5_persistant_da_def Let_def l2_inv_defs)

lemma l2_st6_persistant_da_ok [handler_ok]:
  "l2_inv s \<Longrightarrow> wpo (l2_st6_persistant_da arg s) l2_inv"
  by (simp add: l2_st6_persistant_da_def Let_def l2_inv_defs)

lemma l2_persistant_da_ok [handler_ok]:
  "l2_inv s \<Longrightarrow> wpo (l2_persistant_da arg s) l2_inv"
  by (simp add: l2_persistant_da_def Let_def l2_inv_defs)

lemma l2_st14_persistant_da_ok [handler_ok]:
  "l2_inv s \<Longrightarrow> wpo (l2_st14_persistant_da arg s) l2_inv"
  by (simp add: l2_st14_persistant_da_def Let_def l2_inv_defs)

lemma l2_set_own_busy_ok [handler_ok]:
  "l2_inv s \<Longrightarrow> wpo (l2_set_own_busy arg s) l2_inv"
  by (simp add: l2_set_own_busy_def Let_def l2_inv_defs)

lemma l2_clear_own_busy_ok [handler_ok]:
  "l2_inv s \<Longrightarrow> wpo (l2_clear_own_busy arg s) l2_inv"
  by (simp add: l2_clear_own_busy_def Let_def l2_inv_defs)

lemma l2_frame_error_ok [handler_ok]:
  "l2_inv s \<Longrightarrow> wpo (l2_frame_error (ErrArg c) s) l2_inv"
  by (simp add: l2_frame_error_def err_code_def l2_inv_defs)

lemma l2_frame_error_reest_ok [handler_ok]:
  "l2_inv s \<Longrightarrow> wpo (l2_frame_error_reest (ErrArg c) s) l2_inv"
  by (simp add: l2_frame_error_reest_def err_code_def l2_inv_defs)

end
