(* ===== verification/Hisax_L2_Safety.thy ===== *)
theory Hisax_L2_Safety
  imports Hisax_L2_Inv
begin

text \<open>
  The handlers of layer 2 that move the window: I frames, supervisory frames, pulling the queue,
  and the timers. Each keeps the invariant and does not fault.
\<close>

subsection \<open>What a window operation keeps\<close>

text \<open>Everything the invariant reads, apart from the window itself.\<close>

definition same_link :: "Layer2 \<Rightarrow> Layer2 \<Rightarrow> bool" where
  "same_link s s' \<longleftrightarrow> l2_flag s' = l2_flag s \<and> l2_m_state s' = l2_m_state s \<and>
     l2_t200 s' = l2_t200 s \<and> l2_t203 s' = l2_t203 s \<and> l2_window s' = l2_window s \<and>
     l2_vr s' = l2_vr s \<and> l2_env s' = l2_env s \<and> l2_ui_queue s' = l2_ui_queue s"

definition l2_core :: "Layer2 \<Rightarrow> bool" where
  "l2_core s \<longleftrightarrow> l2_cfg s \<and> l2_win s"

lemma acked_same: "acked nr s s' \<Longrightarrow> same_link s s' \<and> l2_va s' = nr \<and> l2_vs s' = l2_vs s"
  unfolding acked_def same_link_def by (elim conjE exE, simp)

lemma sent_back_same:
  "sent_back nr s s' \<Longrightarrow> same_link s s' \<and> l2_va s' = l2_va s \<and> l2_vs s' = nr"
  unfolding sent_back_def same_link_def by (elim conjE exE, simp)

lemma setva_ok:
  assumes "l2_core s" "nr < l2_modulus s" "legalnr nr s"
  shows "wpo (setva nr s) (\<lambda>s'. l2_core s' \<and> same_link s s' \<and> l2_va s' = nr \<and> l2_vs s' = l2_vs s)"
proof -
  obtain s' where s': "setva nr s = Some s'" "acked nr s s'"
    using setva_acked [of s nr] assms by (auto simp: l2_core_def l2_cfg_def legalnr_def)
  moreover have "l2_core s'"
    using s'(2) acked_same [OF s'(2)] assms(1)
    by (simp add: l2_core_def l2_cfg_def same_link_def acked_def)
  ultimately show ?thesis using acked_same [OF s'(2)] by simp
qed

lemma invoke_retransmission_ok:
  assumes "l2_core s" "nr < l2_modulus s" "l2_dist s nr \<le> l2_dist s (l2_vs s)"
  shows "wpo (invoke_retransmission nr s)
    (\<lambda>s'. l2_core s' \<and> same_link s s' \<and> l2_va s' = l2_va s \<and> l2_vs s' = nr)"
proof (cases "l2_vs s = nr")
  case True
  then show ?thesis using assms by (simp add: invoke_retransmission_def same_link_def)
next
  case False
  obtain s' where s': "retrans_loop nr s = Some s'" "sent_back nr s s'"
    using retrans_loop_sent_back [of s nr] assms by (auto simp: l2_core_def l2_cfg_def)
  have "l2_core (pull_req s')"
    using s'(2) sent_back_same [OF s'(2)] assms(1)
    by (simp add: l2_core_def l2_cfg_def l2_ring_def l2_win_def l2_slot_def same_link_def
        sent_back_def)
  then show ?thesis
    using False s'(1) sent_back_same [OF s'(2)]
    by (simp add: invoke_retransmission_def same_link_def)
qed

lemma l2_inv_core: "l2_inv s \<longleftrightarrow> l2_cfg s \<and> (ST_L2_7 \<le> l2_m_state s \<longrightarrow> l2_core s) \<and> l2_tmr s"
  by (auto simp: l2_inv_def l2_core_def)

lemmas core_defs = l2_core_def l2_cfg_def l2_ring_def l2_win_def l2_slot_def

text \<open>Operations on timers, flags and outputs leave the core of a link as it is.\<close>

lemma l2_core_frame [simp]:
  "f \<noteq> FLG_MOD128 \<Longrightarrow> l2_core (set_bit2 f s) = l2_core s"
  "f \<noteq> FLG_MOD128 \<Longrightarrow> l2_core (clear_bit2 f s) = l2_core s"
  "l2_core (emit out s) = l2_core s"
  "l2_core (ma_error c s) = l2_core s"
  "l2_core (pull_req s) = l2_core s"
  "l2_core (add_t200 s) = l2_core s"
  "l2_core (add_t203 s) = l2_core s"
  "l2_core (restart_t203 s) = l2_core s"
  "l2_core (del_t203 s) = l2_core s"
  "l2_core (restart_t200 s) = l2_core s"
  "l2_core (stop_t200 s) = l2_core s"
  "l2_core (set_peer_busy s) = l2_core s"
  "l2_core (clear_peer_busy s) = l2_core s"
  "l2_core (iframe_timers nr s) = l2_core s"
  "n < L2_STATE_COUNT \<Longrightarrow> l2_core s \<Longrightarrow> l2_core (FsmChangeState2 n s)"
  "l2_core s \<Longrightarrow> l2_core (enquiry_response s)"
  "l2_core s \<Longrightarrow> l2_core (transmit_enquiry s)"
  "l2_core s \<Longrightarrow> l2_core (enquiry_cr typ cr pf s)"
  by (simp_all add: core_defs)

lemma legalnr_frame [simp]:
  "legalnr nr (restart_t203 s) = legalnr nr s"
  "legalnr nr (restart_t200 s) = legalnr nr s"
  "legalnr nr (add_t203 s) = legalnr nr s"
  "legalnr nr (stop_t200 s) = legalnr nr s"
  "legalnr nr (set_peer_busy s) = legalnr nr s"
  "legalnr nr (clear_peer_busy s) = legalnr nr s"
  "legalnr nr (enquiry_response s) = legalnr nr s"
  "legalnr nr (ma_error c s) = legalnr nr s"
  "legalnr nr (iframe_timers n s) = legalnr nr s"
  by (simp_all add: legalnr_def)

text \<open>Layer 2 restarts with \<open>establishlink\<close> from any link whose configuration is sound.\<close>

lemma nrerrorrecovery_inv: "l2_cfg s \<Longrightarrow> l2_inv (nrerrorrecovery s)"
  by (simp add: l2_inv_defs)

lemma l2_core_cfg: "l2_core s \<Longrightarrow> l2_cfg s"
  by (simp add: l2_core_def)

subsection \<open>Supervisory frames\<close>

text \<open>N(R) read from a control field is a sequence number of the link.\<close>

lemma seq7_less: "(ucast (drop_bit 1 (b :: u8)) :: u32) < 128"
  using unat_u8 [of b] by (simp add: word_less_nat_alt drop_bit_eq_div unat_div)

lemma seq3_less: "(ucast (b AND 7 :: u8) :: u32) < 8"
proof -
  have "b AND 7 \<le> (7 :: u8)" by (rule word_and_le1)
  then show ?thesis by (simp add: word_le_nat_alt word_less_nat_alt)
qed

lemma super_fields_ok:
  assumes "(if test_bit FLG_MOD128 s then 2 else 1) \<le> length d"
  shows "\<exists>pf nr. super_fields s d = Some (pf, nr) \<and> nr < l2_modulus s"
  using assms seq7_less seq3_less
  by (cases "test_bit FLG_MOD128 s") (simp_all add: super_fields_def l2_modulus_def Suc_le_eq)

lemma iframe_fields_ok:
  assumes "l2addrsize s + (if test_bit FLG_MOD128 s then 2 else 1) \<le> length d"
  shows "\<exists>pf ns nr. iframe_fields s d = Some (pf, ns, nr) \<and> nr < l2_modulus s"
proof -
  have "(ucast (drop_bit 1 b AND 0x7f :: u8) :: u32) < 128" for b :: u8
  proof -
    have "drop_bit 1 b AND 0x7f \<le> (0x7f :: u8)" by (rule word_and_le1)
    then show ?thesis by (simp add: word_le_nat_alt word_less_nat_alt)
  qed
  then show ?thesis
    using assms seq3_less
    by (cases "test_bit FLG_MOD128 s") (simp_all add: iframe_fields_def l2_modulus_def Let_def)
qed

lemma super_fields_frame [simp]:
  "super_fields (set_peer_busy s) d = super_fields s d"
  "super_fields (clear_peer_busy s) d = super_fields s d"
  by (simp_all add: super_fields_def)

lemma legalnr_le: "legalnr nr s \<Longrightarrow> l2_dist s nr \<le> l2_dist s (l2_vs s)"
  by (simp add: legalnr_def)

lemma l2_tmr_cong:
  "same_link s s' \<Longrightarrow> l2_vs s' = l2_vs s \<Longrightarrow> (l2_vs s' \<noteq> l2_va s' \<longrightarrow> l2_vs s \<noteq> l2_va s) \<Longrightarrow>
   l2_tmr s \<Longrightarrow> l2_tmr s'"
  by (auto simp: same_link_def l2_tmr_def)

lemma l2_tmr_frame [simp]:
  "l2_tmr (set_peer_busy s) = l2_tmr s"
  "l2_tmr (clear_peer_busy s) = l2_tmr s"
  "l2_tmr (enquiry_response s) = l2_tmr s"
  "l2_tmr (pull_req s) = l2_tmr s"
  "l2_tmr (ma_error c s) = l2_tmr s"
  "f \<noteq> FLG_T200_RUN \<Longrightarrow> l2_tmr (clear_bit2 f s) = l2_tmr s"
  "f \<noteq> FLG_T200_RUN \<Longrightarrow> l2_tmr (set_bit2 f s) = l2_tmr s"
  "l2_tmr (enquiry_cr typ cr pf s) = l2_tmr s"
  "l2_tmr (emit out s) = l2_tmr s"
  by (simp_all add: l2_tmr_def)

lemma st7_super_ack_ok:
  assumes "l2_core s" "l2_tmr s" "l2_m_state s = ST_L2_7" "nr < l2_modulus s" "legalnr nr s"
  shows "wpo (st7_super_ack typ nr s) (\<lambda>s'. l2_core s' \<and> l2_tmr s' \<and> l2_m_state s' = ST_L2_7)"
proof -
  have acked_sent: "wpo (setva nr s) (\<lambda>s1. wpo (invoke_retransmission nr s1) (\<lambda>s2.
      l2_core s2 \<and> same_link s s2 \<and> l2_va s2 = nr \<and> l2_vs s2 = nr))"
  proof (rule wpo_mono [OF setva_ok [OF assms(1,4,5)]], elim conjE)
    fix s1 assume s1: "l2_core s1" "same_link s s1" "l2_va s1 = nr" "l2_vs s1 = l2_vs s"
    have "nr < l2_modulus s1" using s1(1,3) by (simp add: l2_core_def l2_win_def)
    then show "wpo (invoke_retransmission nr s1) (\<lambda>s2.
      l2_core s2 \<and> same_link s s2 \<and> l2_va s2 = nr \<and> l2_vs s2 = nr)"
      using s1 dist_va [of s1]
      by (intro wpo_mono [OF invoke_retransmission_ok [OF s1(1), of nr]])
        (auto simp: same_link_def)
  qed
  have acked: "wpo (setva nr s)
     (\<lambda>s'. l2_core s' \<and> same_link s s' \<and> l2_va s' = nr \<and> l2_vs s' = l2_vs s)"
    using setva_ok [OF assms(1,4,5)] .
  let ?Q = "\<lambda>s'. l2_core s' \<and> l2_tmr s' \<and> l2_m_state s' = ST_L2_7"
  have fin1: "?Q (add_t203 (stop_t200 s2))"
    if "l2_core s2" "same_link s s2" "l2_va s2 = nr" "l2_vs s2 = nr" for s2
    using that assms(2,3) by (simp add: same_link_def l2_tmr_def)
  have fin2: "?Q (restart_t203 (stop_t200 s1))"
    if "l2_core s1" "same_link s s1" "l2_va s1 = nr" "l2_vs s1 = l2_vs s" "nr = l2_vs s" for s1
    using that assms(2,3) by (simp add: same_link_def l2_tmr_def)
  have fin3: "?Q (restart_t200 (if typ \<noteq> F_RR then del_t203 s1 else s1))"
    if "l2_core s1" "same_link s s1" for s1
    using that assms(2,3) by (simp add: same_link_def l2_tmr_def)
  consider (rej) "typ = F_REJ" | (all) "typ \<noteq> F_REJ" "nr = l2_vs s \<and> typ = F_RR"
    | (some) "typ \<noteq> F_REJ" "\<not> (nr = l2_vs s \<and> typ = F_RR)" "l2_va s \<noteq> nr \<or> typ = F_RNR"
    | (none) "typ \<noteq> F_REJ" "\<not> (nr = l2_vs s \<and> typ = F_RR)" "\<not> (l2_va s \<noteq> nr \<or> typ = F_RNR)"
    by blast
  then show ?thesis
  proof cases
    case rej
    show ?thesis unfolding st7_super_ack_def if_P [OF rej] wpo_bind wpo_Some
      by (rule wpo_mono [OF acked_sent], erule wpo_mono, elim conjE, rule fin1)
  next
    case all
    show ?thesis unfolding st7_super_ack_def if_not_P [OF all(1)] if_P [OF all(2)] wpo_bind wpo_Some
      by (rule wpo_mono [OF acked], elim conjE, rule fin2) (use all in simp_all)
  next
    case some
    show ?thesis
      unfolding st7_super_ack_def if_not_P [OF some(1)] if_not_P [OF some(2)] if_P [OF some(3)]
        wpo_bind wpo_Some Let_def
      by (rule wpo_mono [OF acked], elim conjE, rule fin3)
  next
    case none
    show ?thesis
      unfolding st7_super_ack_def if_not_P [OF none(1)] if_not_P [OF none(2)] if_not_P [OF none(3)]
      using assms by simp
  qed
qed

text \<open>The frame of a supervisory event: the address and one or two control octets.\<close>

abbreviation super_len :: "Layer2 \<Rightarrow> nat" where
  "super_len s \<equiv> l2addrsize s + (if test_bit FLG_MOD128 s then 2 else 1)"

lemma super_head:
  assumes "skb_len skb = super_len s"
  shows "\<exists>d0. rd (skb_bytes skb) 0 = Some d0"
    "\<exists>c. rd (skb_bytes (skb_pull (l2addrsize s) skb)) 0 = Some c"
    "\<exists>pf nr. super_fields s (skb_bytes (skb_pull (l2addrsize s) skb)) = Some (pf, nr) \<and>
       nr < l2_modulus s"
proof -
  have len: "length (skb_bytes skb) = super_len s" using assms by (simp add: skb_len_def)
  have pos: "0 < l2addrsize s" by (simp add: l2addrsize_def)
  show "\<exists>d0. rd (skb_bytes skb) 0 = Some d0" using len pos by (simp add: rd_def)
  show "\<exists>c. rd (skb_bytes (skb_pull (l2addrsize s) skb)) 0 = Some c"
    using len by (simp add: rd_def)
  show "\<exists>pf nr. super_fields s (skb_bytes (skb_pull (l2addrsize s) skb)) = Some (pf, nr) \<and>
       nr < l2_modulus s"
    by (rule super_fields_ok) (use len in simp)
qed

lemma l2_invI7:
  "l2_core s \<Longrightarrow> l2_tmr s \<Longrightarrow> l2_inv s"
  by (simp add: l2_inv_core l2_core_cfg)

lemma l2_st7_got_super_ok [handler_ok]:
  assumes "l2_inv s" "l2_m_state s = ST_L2_7" "skb_len skb = super_len s"
  shows "wpo (l2_st7_got_super (Skb skb) s) l2_inv"
proof -
  obtain d0 c pf nr where rds: "rd (skb_bytes skb) 0 = Some d0"
      "rd (skb_bytes (skb_pull (l2addrsize s) skb)) 0 = Some c"
      "super_fields s (skb_bytes (skb_pull (l2addrsize s) skb)) = Some (pf, nr)"
    and nr: "nr < l2_modulus s"
    using super_head [OF assms(3)] by blast
  define s1 where "s1 = (if IsRNR c s then set_peer_busy s else clear_peer_busy s)"
  define ty where "ty = (if IsREJ c s1 then F_REJ else if IsRNR c s then F_RNR else F_RR)"
  define s2 where "s2 = (if pf then (if rsp_bit s d0 then ma_error (charno CHR ''A'') s1
                                     else enquiry_response s1) else s1)"
  have core: "l2_core s2" "l2_tmr s2" "l2_m_state s2 = ST_L2_7" "nr < l2_modulus s2"
    using assms nr by (simp_all add: s1_def s2_def l2_inv_core)
  have eq: "l2_st7_got_super (Skb skb) s =
    (if legalnr nr s2 then do {
       s \<leftarrow> st7_super_ack ty nr s2;
       Some (if l2_i_queue s \<noteq> [] \<and> ty = F_RR then pull_req s else s)
     } else Some (nrerrorrecovery s2))"
    by (simp add: l2_st7_got_super_def rds s1_def s2_def ty_def Let_def split_beta)
  show ?thesis
  proof (cases "legalnr nr s2")
    case True
    have "wpo (st7_super_ack ty nr s2)
      (\<lambda>s. l2_inv (if l2_i_queue s \<noteq> [] \<and> ty = F_RR then pull_req s else s))"
      by (rule wpo_mono [OF st7_super_ack_ok [OF core True]]) (simp add: l2_invI7)
    then show ?thesis using True by (simp add: eq)
  next
    case False
    then show ?thesis using core by (simp add: eq nrerrorrecovery_inv l2_core_cfg)
  qed
qed

lemma l2_st8_got_super_ok [handler_ok]:
  assumes "l2_inv s" "l2_m_state s = ST_L2_8" "skb_len skb = super_len s"
  shows "wpo (l2_st8_got_super (Skb skb) s) l2_inv"
proof -
  obtain d0 c pf nr where rds: "rd (skb_bytes skb) 0 = Some d0"
      "rd (skb_bytes (skb_pull (l2addrsize s) skb)) 0 = Some c"
      "super_fields s (skb_bytes (skb_pull (l2addrsize s) skb)) = Some (pf, nr)"
    and nr: "nr < l2_modulus s"
    using super_head [OF assms(3)] by blast
  define s1 where "s1 = (if IsRNR c s then set_peer_busy s else clear_peer_busy s)"
  have inv: "l2_core s1" "l2_tmr s1" "l2_m_state s1 = ST_L2_8" "nr < l2_modulus s1"
    using assms nr by (simp_all add: s1_def l2_inv_core)
  let ?fin = "\<lambda>s. Some (if l2_i_queue s \<noteq> [] \<and> cansend s then pull_req s else s)"
  have eq: "l2_st8_got_super (Skb skb) s =
    (if rsp_bit s d0 \<and> pf then
       (if legalnr nr s1 then do {
          s \<leftarrow> (if IsRNR c s then Some (restart_t200 s1) else setva nr (add_t203 (stop_t200 s1)));
          s \<leftarrow> invoke_retransmission nr s;
          ?fin (FsmChangeState2 ST_L2_7 s)
        } else Some (nrerrorrecovery s1))
     else do {
       let s = (if \<not> rsp_bit s d0 \<and> pf then enquiry_response s1 else s1);
       if legalnr nr s then setva nr s else Some (nrerrorrecovery s)
     })"
    by (simp add: l2_st8_got_super_def rds s1_def Let_def split_beta)
  have retr: "wpo (invoke_retransmission nr s2) (\<lambda>s. wpo (?fin (FsmChangeState2 ST_L2_7 s)) l2_inv)"
    if s2: "l2_core s2" "l2_dist s2 nr \<le> l2_dist s2 (l2_vs s2)" "nr < l2_modulus s2"
      and tm: "l2_tmr (FsmChangeState2 ST_L2_7 (s2\<lparr>l2_vs := nr\<rparr>))" for s2
  proof (rule wpo_mono [OF invoke_retransmission_ok [OF s2(1,3,2)]], elim conjE)
    fix s assume s: "l2_core s" "same_link s2 s" "l2_va s = l2_va s2" "l2_vs s = nr"
    have "l2_tmr (FsmChangeState2 ST_L2_7 s)"
      using tm s(2-4) by (simp add: l2_tmr_def same_link_def)
    then show "wpo (?fin (FsmChangeState2 ST_L2_7 s)) l2_inv"
      using s(1) by (simp add: l2_invI7)
  qed
  show ?thesis
  proof (cases "rsp_bit s d0 \<and> pf")
    case True
    show ?thesis
    proof (cases "legalnr nr s1")
      case legal: True
      show ?thesis
      proof (cases "IsRNR c s")
        case rnr: True
        have "l2_tmr (FsmChangeState2 ST_L2_7 ((restart_t200 s1)\<lparr>l2_vs := nr\<rparr>))"
          using inv(2) by (simp add: l2_tmr_def)
        then have "wpo (invoke_retransmission nr (restart_t200 s1))
            (\<lambda>s. wpo (?fin (FsmChangeState2 ST_L2_7 s)) l2_inv)"
          using inv legal by (intro retr) (simp_all add: legalnr_def)
        then show ?thesis using True legal rnr by (simp add: eq)
      next
        case rr: False
        let ?s2 = "add_t203 (stop_t200 s1)"
        have core2: "l2_core ?s2" "nr < l2_modulus ?s2" "legalnr nr ?s2" using inv legal by simp_all
        have "wpo (setva nr ?s2) (\<lambda>s3. wpo (invoke_retransmission nr s3)
            (\<lambda>s. wpo (?fin (FsmChangeState2 ST_L2_7 s)) l2_inv))"
        proof (rule wpo_mono [OF setva_ok [OF core2]], elim conjE, rule retr)
          fix s3 assume s3: "l2_core s3" "same_link ?s2 s3" "l2_va s3 = nr" "l2_vs s3 = l2_vs ?s2"
          show "l2_dist s3 nr \<le> l2_dist s3 (l2_vs s3)" "nr < l2_modulus s3"
            using s3(1,3) dist_va [of s3] by (simp_all add: l2_core_def l2_win_def)
          show "l2_tmr (FsmChangeState2 ST_L2_7 (s3\<lparr>l2_vs := nr\<rparr>))"
            using s3(2,3) inv(2) by (simp add: same_link_def l2_tmr_def)
        qed
        then show ?thesis using True legal rr by (simp add: eq)
      qed
    next
      case False
      then show ?thesis using True inv by (simp add: eq nrerrorrecovery_inv l2_core_cfg)
    qed
  next
    case False
    define s2 where "s2 = (if \<not> rsp_bit s d0 \<and> pf then enquiry_response s1 else s1)"
    have inv2: "l2_core s2" "nr < l2_modulus s2" "l2_tmr s2" "l2_m_state s2 = ST_L2_8"
      using inv by (simp_all add: s2_def)
    have "wpo (setva nr s2) l2_inv" if "legalnr nr s2"
      by (rule wpo_mono [OF setva_ok [OF inv2(1,2) that]])
        (use inv2(3,4) in \<open>simp add: l2_invI7 same_link_def l2_tmr_def\<close>)
    then show ?thesis
      unfolding eq if_not_P [OF False] Let_def s2_def [symmetric]
      using inv2 by (simp add: nrerrorrecovery_inv l2_core_cfg)
  qed
qed

subsection \<open>I frames\<close>

lemma iframe_receive_core: "l2_core s \<Longrightarrow> l2_core (iframe_receive skb pf ns s)"
  by (simp add: core_defs) (auto simp: iframe_receive_def Let_def mod_less_seq)

lemma iframe_receive_tmr [simp]: "l2_tmr (iframe_receive skb pf ns s) = l2_tmr s"
  by (simp add: l2_tmr_def)

text \<open>Stopping or restarting T200 for N(R) is right for the window that N(R) leaves.\<close>

lemma iframe_timers_tmr:
  assumes "l2_tmr s" "nr < l2_modulus s" "l2_va s < l2_modulus s" "legalnr nr s"
  shows "l2_tmr ((iframe_timers nr s)\<lparr>l2_va := nr\<rparr>)"
proof (cases "\<not> test_bit FLG_PEER_BUSY s \<and> l2_m_state s = ST_L2_7")
  case True
  have "nr = l2_va s" if "l2_vs s = l2_va s"
    using that assms(2-4) dist_0_iff [of nr s] by (simp add: legalnr_def)
  then show ?thesis using True assms(1) by (simp add: iframe_timers_def l2_tmr_def)
next
  case False
  have "nr = l2_va s" if "l2_vs s = l2_va s"
    using that assms(2-4) dist_0_iff [of nr s] by (simp add: legalnr_def)
  then have "l2_vs s \<noteq> nr \<Longrightarrow> l2_vs s \<noteq> l2_va s" by auto
  then show ?thesis using False assms(1) by (auto simp: iframe_timers_def l2_tmr_def)
qed

lemma l2_got_iframe_ok [handler_ok]:
  assumes "l2_inv s" "ST_L2_7 \<le> l2_m_state s" "super_len s \<le> skb_len skb"
  shows "wpo (l2_got_iframe (Skb skb) s) l2_inv"
proof -
  obtain pf ns nr where flds: "iframe_fields s (skb_bytes skb) = Some (pf, ns, nr)"
    and nr: "nr < l2_modulus s"
    using iframe_fields_ok [of s "skb_bytes skb"] assms(3) by (auto simp: skb_len_def)
  define s1 where "s1 = iframe_receive skb pf ns s"
  have s1: "l2_core s1" "l2_tmr s1" "nr < l2_modulus s1"
    using assms nr by (simp_all add: s1_def l2_inv_core iframe_receive_core)
  let ?fin = "\<lambda>s. let s = (if l2_i_queue s \<noteq> [] \<and> l2_m_state s = ST_L2_7 then pull_req s else s)
    in if test_bit FLG_ACK_PEND s then enquiry_cr F_RR RSP False (clear_bit2 FLG_ACK_PEND s) else s"
  have eq: "l2_got_iframe (Skb skb) s =
    (if legalnr nr s1 then do { s \<leftarrow> setva nr (iframe_timers nr s1); Some (?fin s) }
     else Some (nrerrorrecovery s1))"
    by (simp add: l2_got_iframe_def flds s1_def Let_def)
  show ?thesis
  proof (cases "legalnr nr s1")
    case True
    have pre: "l2_core (iframe_timers nr s1)" "nr < l2_modulus (iframe_timers nr s1)"
        "legalnr nr (iframe_timers nr s1)"
      using s1 True by simp_all
    have tm: "l2_tmr ((iframe_timers nr s1)\<lparr>l2_va := nr\<rparr>)"
      using iframe_timers_tmr [OF s1(2,3) _ True] s1(1) by (simp add: l2_core_def l2_win_def)
    have "wpo (setva nr (iframe_timers nr s1)) (\<lambda>s. l2_inv (?fin s))"
    proof (rule wpo_mono [OF setva_ok [OF pre]], elim conjE)
      fix s' assume s': "l2_core s'" "same_link (iframe_timers nr s1) s'" "l2_va s' = nr"
        "l2_vs s' = l2_vs (iframe_timers nr s1)"
      have "l2_tmr s'" using tm s'(2-4) by (simp add: l2_tmr_def same_link_def)
      then show "l2_inv (?fin s')" using s'(1) by (simp add: l2_invI7 Let_def)
    qed
    then show ?thesis using True by (simp add: eq)
  next
    case False
    then show ?thesis using s1 by (simp add: eq nrerrorrecovery_inv l2_core_cfg)
  qed
qed

subsection \<open>Errors reported by the peer, TEI assignment, timers\<close>

lemma l2_got_FRMR_ok [handler_ok]:
  assumes "l2_inv s" "l2addrsize s + 1 < skb_len skb"
  shows "wpo (l2_got_FRMR (Skb skb) s) l2_inv"
proof -
  obtain d where "rd (skb_bytes (skb_pull (l2addrsize s + 1) skb)) 0 = Some d"
    using assms(2) by (simp add: rd_def skb_len_def)
  then show ?thesis using assms(1) by (simp add: l2_got_FRMR_def l2_inv_defs)
qed

lemma l2_got_tei_ok [handler_ok]:
  assumes "l2_inv s" "l2_m_state s < ST_L2_4"
  shows "wpo (l2_got_tei (TeiArg tei) s) l2_inv"
proof -
  let ?s = "if l2_m_state s = ST_L2_3 then set_bit2 FLG_L3_INIT (establishlink (s\<lparr>l2_tei := tei\<rparr>))
            else FsmChangeState2 ST_L2_4 (s\<lparr>l2_tei := tei\<rparr>)"
  have "l2_inv ?s" using assms by (simp add: l2_inv_defs)
  then show ?thesis using tx_ui_ok [of ?s] by (simp add: l2_got_tei_def Let_def)
qed

text \<open>
  When T200 runs out it is no longer pending while its flag is still set; the handlers of the four
  waiting states restart it or clear the flag.
\<close>

definition t200_expired :: "Layer2 \<Rightarrow> bool" where
  "t200_expired s \<longleftrightarrow> l2_cfg s \<and> ST_L2_5 \<le> l2_m_state s \<and> (ST_L2_7 \<le> l2_m_state s \<longrightarrow> l2_win s) \<and>
     test_bit FLG_T200_RUN s \<and> \<not> tl_pending (l2_t200 s) \<and>
     (tl_pending (l2_t203 s) \<longrightarrow> tm_event (l2_t203 s) = EV_L2_T203)"

definition t203_expired :: "Layer2 \<Rightarrow> bool" where
  "t203_expired s \<longleftrightarrow> l2_cfg s \<and> (ST_L2_7 \<le> l2_m_state s \<longrightarrow> l2_win s) \<and>
     (test_bit FLG_T200_RUN s \<longleftrightarrow> tl_pending (l2_t200 s)) \<and>
     (tl_pending (l2_t200 s) \<longrightarrow> tm_event (l2_t200 s) = EV_L2_T200) \<and>
     \<not> tl_pending (l2_t203 s) \<and>
     (l2_m_state s \<in> {ST_L2_5, ST_L2_6, ST_L2_8} \<longrightarrow> tl_pending (l2_t200 s)) \<and>
     (l2_m_state s < ST_L2_5 \<longrightarrow> \<not> tl_pending (l2_t200 s))"

lemmas tout_defs = t200_expired_def t203_expired_def l2_inv_defs Let_def

lemma l2_st5_tout_200_ok [handler_ok]:
  "t200_expired s \<Longrightarrow> l2_m_state s = ST_L2_5 \<Longrightarrow> wpo (l2_st5_tout_200 arg s) l2_inv"
  by (simp add: l2_st5_tout_200_def tout_defs)

lemma l2_st6_tout_200_ok [handler_ok]:
  "t200_expired s \<Longrightarrow> l2_m_state s = ST_L2_6 \<Longrightarrow> wpo (l2_st6_tout_200 arg s) l2_inv"
  by (simp add: l2_st6_tout_200_def tout_defs)

lemma l2_st7_tout_200_ok [handler_ok]:
  "t200_expired s \<Longrightarrow> l2_m_state s = ST_L2_7 \<Longrightarrow> wpo (l2_st7_tout_200 arg s) l2_inv"
  by (simp add: l2_st7_tout_200_def tout_defs)

lemma l2_st8_tout_200_ok [handler_ok]:
  "t200_expired s \<Longrightarrow> l2_m_state s = ST_L2_8 \<Longrightarrow> wpo (l2_st8_tout_200 arg s) l2_inv"
  by (simp add: l2_st8_tout_200_def tout_defs)

lemma l2_st7_tout_203_ok [handler_ok]:
  "t203_expired s \<Longrightarrow> l2_m_state s = ST_L2_7 \<Longrightarrow> wpo (l2_st7_tout_203 arg s) l2_inv"
  by (simp add: l2_st7_tout_203_def tout_defs)

subsection \<open>Pulling a frame from the queue\<close>

text \<open>
  What \<open>l2_pull_iqueue\<close> does when it may send: the head of the queue becomes the newest frame of the
  window and goes down to layer 1 behind a header with N(S) = V(S) and N(R) = V(R).
\<close>

definition pulled :: "sk_buff \<Rightarrow> Layer2 \<Rightarrow> Layer2 \<Rightarrow> bool" where
  "pulled skb s s' \<longleftrightarrow>
     l2_core s' \<and> l2_va s' = l2_va s \<and> l2_vs s' = (l2_vs s + 1) mod l2_modulus s \<and>
     l2_vr s' = l2_vr s \<and> l2_m_state s' = l2_m_state s \<and> l2_modulus s' = l2_modulus s \<and>
     unacked s' = unacked s @ [skb] \<and> l2_i_queue s' = tl (l2_i_queue s) \<and>
     (\<exists>skb' more. skb_bytes skb' = iframe_header s @ skb_bytes skb \<and>
        l2_outs s' = l2_outs s @ L2L1 (PH_PULL, INDICATION) (Some skb') # more \<and>
        set more \<subseteq> {L2L1 (PH_PULL, REQUEST) None}) \<and>
     (l2_tmr s \<longrightarrow> l2_tmr s')"

lemma pull_slot_eq: "pull_slot s = l2_slot s (l2_dist s (l2_vs s))"
  by (simp add: pull_slot_def l2_slot_def add.commute)

text \<open>The next slot of the window is filled and V(S) advances over it.\<close>

lemma extend_window:
  fixes skb
  assumes c: "l2_core s" and lt: "l2_dist s (l2_vs s) < l2_window s"
  defines "s1 \<equiv> s\<lparr>l2_windowar := (l2_windowar s)[pull_slot s := Some skb],
                     l2_vs := (l2_vs s + 1) mod l2_modulus s\<rparr>"
  shows "l2_core s1" "unacked s1 = unacked s @ [skb]"
proof -
  let ?d = "l2_dist s (l2_vs s)"
  have vs: "l2_vs s < l2_modulus s" and va: "l2_va s < l2_modulus s"
    and wm: "l2_window s < unat (l2_modulus s)"
    using c by (simp_all add: core_defs)
  have d1: "l2_dist s1 (l2_vs s1) = ?d + 1"
    using dist_inc_vs [OF vs va] lt wm by (simp add: s1_def)
  have len: "l2_slot s ?d < length (l2_windowar s)"
    using c by (intro l2_slot_less) (simp add: l2_core_def l2_cfg_def)
  have slot: "l2_windowar s1 ! l2_slot s1 k =
      (if k = ?d then Some skb else l2_windowar s ! l2_slot s k)" if "k \<le> ?d" for k
    using l2_slot_inj [of k s ?d] that lt len
    by (auto simp: s1_def pull_slot_eq l2_slot_def nth_list_update)
  have "l2_windowar s1 ! l2_slot s1 k \<noteq> None" if "k < l2_dist s1 (l2_vs s1)" for k
  proof -
    have "k \<le> ?d" using that d1 by simp
    moreover have "k < ?d \<Longrightarrow> l2_windowar s ! l2_slot s k \<noteq> None"
      using c by (simp add: l2_core_def l2_win_def)
    ultimately show ?thesis using slot [of k] by (cases "k = ?d") simp_all
  qed
  then have "l2_win s1"
    using c d1 lt by (simp add: l2_core_def l2_win_def s1_def mod_less_seq del: not_None_eq)
  moreover have "l2_cfg s1" using c by (simp add: core_defs s1_def)
  ultimately show "l2_core s1" by (simp add: l2_core_def)
  have "[0..<l2_dist s1 (l2_vs s1)] = [0..<?d] @ [?d]" using d1 by simp
  then show "unacked s1 = unacked s @ [skb]"
    using slot by (simp add: unacked_def)
qed

text \<open>What goes down: the header in the headroom of the frame, or in a new buffer.\<close>

definition pull_frame :: "u8 list \<Rightarrow> sk_buff \<Rightarrow> sk_buff" where
  "pull_frame header skb =
     (if length header \<le> skb_head skb
      then skb\<lparr>skb_head := skb_head skb - length header, skb_bytes := header @ skb_bytes skb\<rparr>
      else skb_new 0 (header @ skb_bytes skb))"

lemma iframe_header_frame [simp]:
  "iframe_header (s\<lparr>l2_windowar := w\<rparr>) = iframe_header s"
  "iframe_header (s\<lparr>l2_i_queue := q\<rparr>) = iframe_header s"
  "iframe_header (s\<lparr>l2_env := k\<rparr>) = iframe_header s"
  by (simp_all add: iframe_header_def sethdraddr_def)

lemma l2_pull_iqueue_pulled:
  assumes c: "l2_core s" and st: "l2_m_state s = ST_L2_7" and cs: "cansend s"
    and q: "l2_i_queue s = skb # rest"
  shows "\<exists>s'. l2_pull_iqueue arg s = Some s' \<and> pulled skb s s'"
proof -
  define s1 where "s1 = s\<lparr>l2_windowar := (l2_windowar s)[pull_slot s := Some skb],
                     l2_vs := (l2_vs s + 1) mod l2_modulus s\<rparr>"
  have lt: "l2_dist s (l2_vs s) < l2_window s" using cs by (simp add: cansend_def)
  note ext = extend_window [OF c lt, of skb, folded s1_def]
  have len: "pull_slot s < length (l2_windowar s)"
    using c unfolding pull_slot_eq by (intro l2_slot_less) (simp add: l2_core_def l2_cfg_def)
  have mem: "clones_ok (l2_env s)" using c by (simp add: core_defs)
  define h where "h = iframe_header s"
  obtain env s2 where env: "clones_ok env" and s2: "s2 = s1\<lparr>l2_i_queue := rest, l2_env := env\<rparr>"
    and eq: "l2_pull_iqueue arg s = Some (pull_send (pull_frame h skb) s2)"
  proof (cases "length h \<le> skb_head skb")
    case True
    let ?e = "snd (k_clone (l2_env s))"
    show thesis
      by (rule that [of ?e "s\<lparr>l2_i_queue := rest, l2_env := ?e,
            l2_windowar := (l2_windowar s)[pull_slot s := Some skb],
            l2_vs := (l2_vs s + 1) mod l2_modulus s\<rparr>"])
        (use True cs q len mem in \<open>simp_all add: l2_pull_iqueue_def clone_skb2_def pull_frame_def
          skb_push_def s1_def h_def Let_def pull_slot_def\<close>)
  next
    case False
    let ?e = "snd (k_clone (snd (k_clone (l2_env s))))"
    show thesis
      by (rule that [of ?e "s\<lparr>l2_i_queue := rest,
            l2_windowar := (l2_windowar s)[pull_slot s := Some skb],
            l2_vs := (l2_vs s + 1) mod l2_modulus s, l2_env := ?e\<rparr>"])
        (use False cs q len mem in \<open>simp_all add: l2_pull_iqueue_def clone_skb2_def pull_frame_def
          skb_push_def s1_def h_def Let_def pull_slot_def\<close>)
  qed
  have core2: "l2_core s2" using ext(1) env by (simp add: s2 core_defs)
  have un2: "unacked s2 = unacked s @ [skb]"
    using ext(2) by (simp add: s2 unacked_def l2_slot_def)
  let ?s' = "pull_send (pull_frame h skb) s2"
  have "l2_core ?s'" using core2 by (simp add: pull_send_def Let_def)
  moreover have "unacked ?s' = unacked s2"
    by (simp add: pull_send_def Let_def unacked_def l2_slot_def)
  moreover have "\<exists>more. l2_outs ?s' =
      l2_outs s @ L2L1 (PH_PULL, INDICATION) (Some (pull_frame h skb)) # more \<and>
      set more \<subseteq> {L2L1 (PH_PULL, REQUEST) None}"
    by (simp add: pull_send_def Let_def s2 s1_def)
  moreover have "skb_bytes (pull_frame h skb) = h @ skb_bytes skb"
    by (simp add: pull_frame_def)
  moreover have "l2_tmr s \<Longrightarrow> l2_tmr ?s'"
    using st by (simp add: pull_send_def Let_def l2_tmr_def s2 s1_def)
  ultimately have "pulled skb s ?s'"
    unfolding pulled_def h_def [symmetric] using un2 q
    by (auto simp: pull_send_def Let_def s2 s1_def l2_modulus_def)
  then show ?thesis using eq by blast
qed

lemma l2_pull_iqueue_ok [handler_ok]:
  assumes "l2_inv s" "l2_m_state s = ST_L2_7"
  shows "wpo (l2_pull_iqueue arg s) l2_inv"
proof (cases "cansend s \<and> l2_i_queue s \<noteq> []")
  case True
  then obtain skb rest where q: "l2_i_queue s = skb # rest" by (auto simp: neq_Nil_conv)
  have "l2_core s" "l2_tmr s" using assms by (simp_all add: l2_inv_core)
  then obtain s' where "l2_pull_iqueue arg s = Some s'" "pulled skb s s'"
    using l2_pull_iqueue_pulled [OF _ assms(2) _ q, of arg] True by auto
  then show ?thesis using \<open>l2_tmr s\<close> by (simp add: pulled_def l2_invI7)
next
  case False
  then show ?thesis using assms(1) by (auto simp: l2_pull_iqueue_def)
qed

text \<open>
  The contract of the table of layer 2, for every event with the argument its handlers expect: the
  state machine never faults and the link keeps its invariant.
\<close>

definition l2_arg_ok :: "nat \<Rightarrow> l2arg \<Rightarrow> Layer2 \<Rightarrow> bool" where
  "l2_arg_ok ev arg s =
    (case arg of
       Skb skb \<Rightarrow>
         (ev \<in> {EV_L2_SABME, EV_L2_DISC, EV_L2_DM, EV_L2_UA} \<longrightarrow> l2addrsize s < skb_len skb) \<and>
         (ev = EV_L2_FRMR \<longrightarrow> l2addrsize s + 1 < skb_len skb) \<and>
         (ev = EV_L2_SUPER \<longrightarrow> skb_len skb = super_len s) \<and>
         (ev = EV_L2_I \<longrightarrow> super_len s \<le> skb_len skb) \<and>
         (ev = EV_L2_DL_UNIT_DATA \<longrightarrow> 3 \<le> skb_head skb) \<and>
         ev \<noteq> EV_L2_MDL_ASSIGN \<and> ev \<noteq> EV_L2_FRAME_ERROR
     | TeiArg tei \<Rightarrow> EV_L2_DL_UNIT_DATA < ev \<and> ev \<noteq> EV_L2_FRAME_ERROR \<or> ev = EV_L2_ACK_PULL
     | ErrArg c \<Rightarrow> EV_L2_DL_UNIT_DATA < ev \<and> ev \<noteq> EV_L2_MDL_ASSIGN \<or> ev = EV_L2_ACK_PULL
     | NoArg \<Rightarrow> EV_L2_DL_UNIT_DATA < ev \<and> ev \<noteq> EV_L2_MDL_ASSIGN \<and> ev \<noteq> EV_L2_FRAME_ERROR \<or>
         ev = EV_L2_ACK_PULL)"

definition l2_pre :: "nat \<Rightarrow> l2arg \<Rightarrow> Layer2 \<Rightarrow> bool" where
  "l2_pre ev arg s =
     (if ev = EV_L2_T200 then t200_expired s
      else if ev = EV_L2_T203 then t203_expired s
      else l2_inv s \<and> l2_arg_ok ev arg s)"

definition l2_node_ok :: "(l2arg \<Rightarrow> Layer2 \<Rightarrow> Layer2 option) FsmNode \<Rightarrow> bool" where
  "l2_node_ok n \<longleftrightarrow> (\<forall>arg s. l2_m_state s = nd_state n \<longrightarrow> l2_pre (nd_event n) arg s \<longrightarrow>
     wpo (nd_routine n arg s) l2_inv)"

lemma l2_node_okI:
  "(\<And>arg s. l2_m_state s = k \<Longrightarrow> l2_pre ev arg s \<Longrightarrow> wpo (h arg s) l2_inv) \<Longrightarrow>
   l2_node_ok (FsmNode k ev h)"
  by (simp add: l2_node_ok_def)

lemma L2FnList_ok: "list_all l2_node_ok L2FnList"
  unfolding L2FnList_def list.pred_inject
  by (intro conjI l2_node_okI TrueI;
      simp add: l2_pre_def l2_arg_ok_def handler_ok split: l2arg.splits)

lemma L2FnList_range:
  "list_all (\<lambda>n. nd_state n < L2_STATE_COUNT \<and> nd_event n < L2_EVENT_COUNT) L2FnList"
  by (simp add: L2FnList_def)

lemma L2FnList_distinct: "fsm_distinct L2FnList"
  by (simp add: fsm_distinct_def L2FnList_def)

text \<open>Every state that waits for T200 has a routine for it, and state 7 has one for T203.\<close>

lemma L2FnList_timeouts:
  "\<exists>n \<in> set L2FnList. nd_state n = ST_L2_5 \<and> nd_event n = EV_L2_T200"
  "\<exists>n \<in> set L2FnList. nd_state n = ST_L2_6 \<and> nd_event n = EV_L2_T200"
  "\<exists>n \<in> set L2FnList. nd_state n = ST_L2_7 \<and> nd_event n = EV_L2_T200"
  "\<exists>n \<in> set L2FnList. nd_state n = ST_L2_8 \<and> nd_event n = EV_L2_T200"
  "\<exists>n \<in> set L2FnList. nd_state n = ST_L2_7 \<and> nd_event n = EV_L2_T203"
  by (simp_all add: L2FnList_def)

lemma l2_no_routine:
  assumes none: "\<forall>n \<in> set L2FnList. \<not> (nd_state n = l2_m_state s \<and> nd_event n = ev)"
    and pre: "l2_pre ev arg s"
  shows "l2_inv s"
proof -
  have no: "\<And>k. \<exists>n \<in> set L2FnList. nd_state n = k \<and> nd_event n = ev \<Longrightarrow> l2_m_state s \<noteq> k"
    using none by blast
  consider "ev = EV_L2_T200" | "ev = EV_L2_T203" | "ev \<noteq> EV_L2_T200" "ev \<noteq> EV_L2_T203" by blast
  then show ?thesis
  proof cases
    case 1
    then have "l2_m_state s \<notin> {ST_L2_5, ST_L2_6, ST_L2_7, ST_L2_8}"
      using no L2FnList_timeouts(1-4) by simp
    moreover have "ST_L2_5 \<le> l2_m_state s" "l2_m_state s < L2_STATE_COUNT"
      using pre 1 by (simp_all add: l2_pre_def t200_expired_def l2_cfg_def)
    ultimately show ?thesis by simp
  next
    case 2
    then have "l2_m_state s \<noteq> ST_L2_7" using no L2FnList_timeouts(5) by simp
    then show ?thesis
      using pre 2 by (simp add: l2_pre_def t203_expired_def l2_inv_def l2_tmr_def)
  next
    case 3
    then show ?thesis using pre by (simp add: l2_pre_def)
  qed
qed

interpretation l2_table: fsm_table L2_STATE_COUNT L2_EVENT_COUNT L2FnList l2_m_state l2_pre l2_inv
proof
  show "wpo (nd_routine n a s) l2_inv"
    if "n \<in> set L2FnList" "nd_state n = l2_m_state s" "l2_pre (nd_event n) a s" for n a s
    using L2FnList_ok that by (auto simp: list_all_iff l2_node_ok_def)
  show "l2_inv s"
    if "\<forall>n \<in> set L2FnList. \<not> (nd_state n = l2_m_state s \<and> nd_event n = e)" "l2_pre e a s" for e a s
    using that by (rule l2_no_routine)
  show "nd_state n < L2_STATE_COUNT \<and> nd_event n < L2_EVENT_COUNT" if "n \<in> set L2FnList" for n
    using L2FnList_range that by (simp add: list_all_iff)
qed

lemma l2_event_ok: "l2_pre ev arg s \<Longrightarrow> wpo (l2_event ev arg s) l2_inv"
  using l2_table.event_ok [of ev arg s] by (auto simp: l2_event_def l2fsm_def wpo_iff)

subsection \<open>The entry points\<close>

lemma checked_event_ok:
  assumes "l2_inv s" "chk = Some c" "c = 0 \<Longrightarrow> l2_arg_ok ev (Skb skb) s"
    "ev \<noteq> EV_L2_T200" "ev \<noteq> EV_L2_T203"
  shows "wpo (checked_event chk ev skb s) l2_inv"
  using assms l2_event_ok [of ev "Skb skb" s] l2_event_ok [of EV_L2_FRAME_ERROR "ErrArg c" s]
  by (simp add: checked_event_def l2_pre_def l2_arg_ok_def)

text \<open>Whatever a frame from the line contains, and however long it is.\<close>

lemma l2_ph_data_ind_ok:
  assumes "l2_inv s"
  shows "wpo (l2_ph_data_ind skb s) l2_inv"
proof (cases "l2addrsize s < skb_len skb")
  case False
  then show ?thesis
    using assms l2_event_ok [of EV_L2_FRAME_ERROR "ErrArg (charno CHR ''N'')" s]
    by (simp add: l2_ph_data_ind_def l2_pre_def l2_arg_ok_def)
next
  case True
  then have "skb_bytes skb \<noteq> []" by (auto simp: skb_len_def)
  then obtain d0 where d0: "rd (skb_bytes skb) 0 = Some d0" by (simp add: rd_def)
  obtain c where c: "rd (skb_bytes skb) (l2addrsize s) = Some c"
    using True by (simp add: rd_def skb_len_def)
  have err: "wpo (l2_event EV_L2_FRAME_ERROR (ErrArg e) s) l2_inv" for e
    using assms l2_event_ok [of EV_L2_FRAME_ERROR "ErrArg e" s]
    by (simp add: l2_pre_def l2_arg_ok_def)
  have i: "wpo (checked_event (iframe_error s skb) EV_L2_I skb s) l2_inv"
    by (rule checked_event_ok [OF assms])
      (auto simp: iframe_error_def d0 l2_arg_ok_def Let_def charno_def split: if_splits)
  have su: "wpo (checked_event (super_error s skb) EV_L2_SUPER skb s) l2_inv"
    by (rule checked_event_ok [OF assms])
      (auto simp: super_error_def d0 l2_arg_ok_def Let_def charno_def split: if_splits)
  have ui: "wpo (checked_event (UI_error s skb) EV_L2_UI skb s) l2_inv"
    by (rule checked_event_ok [OF assms])
      (auto simp: UI_error_def d0 l2_arg_ok_def Let_def charno_def split: if_splits)
  have un: "wpo (checked_event (unnum_error s skb w) ev skb s) l2_inv"
    if "ev \<in> {EV_L2_SABME, EV_L2_DISC, EV_L2_DM, EV_L2_UA}" for w ev
    by (rule checked_event_ok [OF assms])
      (use that in \<open>auto simp: unnum_error_def d0 l2_arg_ok_def Let_def charno_def split: if_splits\<close>)
  have fr: "wpo (checked_event (FRMR_error s skb) EV_L2_FRMR skb s) l2_inv"
    by (rule checked_event_ok [OF assms])
      (auto simp: FRMR_error_def d0 l2_arg_ok_def Let_def charno_def split: if_splits)
  show ?thesis
    using True i su ui un fr err by (simp add: l2_ph_data_ind_def c)
qed

text \<open>The argument that goes with a primitive of layer 1, layer 3 or the TEI manager.\<close>

definition l2_prim_arg :: "prim \<Rightarrow> l2arg \<Rightarrow> bool" where
  "l2_prim_arg pr arg \<longleftrightarrow>
     (if pr = (PH_DATA, INDICATION) \<or> pr = (DL_DATA, REQUEST)
      then (case arg of Skb skb \<Rightarrow> True | _ \<Rightarrow> False)
      else if pr = (DL_UNIT_DATA, REQUEST)
      then (case arg of Skb skb \<Rightarrow> 3 \<le> skb_head skb | _ \<Rightarrow> False)
      else if pr = (MDL_ASSIGN, REQUEST) then (case arg of TeiArg tei \<Rightarrow> True | _ \<Rightarrow> False)
      else arg = NoArg)"

lemma l2_inv_set_bit2 [simp]:
  "f \<noteq> FLG_MOD128 \<Longrightarrow> f \<noteq> FLG_T200_RUN \<Longrightarrow> l2_inv (set_bit2 f s) = l2_inv s"
  "f \<noteq> FLG_MOD128 \<Longrightarrow> f \<noteq> FLG_T200_RUN \<Longrightarrow> l2_inv (clear_bit2 f s) = l2_inv s"
  by (simp_all add: l2_inv_defs)

lemma l2_inv_emit [simp]: "l2_inv (emit out s) = l2_inv s"
  by (simp add: l2_inv_defs)

lemma l2_event_inv:
  "l2_inv s \<Longrightarrow> l2_arg_ok ev arg s \<Longrightarrow> ev \<noteq> EV_L2_T200 \<Longrightarrow> ev \<noteq> EV_L2_T203 \<Longrightarrow>
   wpo (l2_event ev arg s) l2_inv"
  by (rule l2_event_ok) (simp add: l2_pre_def)

lemma isdnl2_l1l2_ok:
  assumes "l2_inv s" "l2_prim_arg pr arg"
  shows "wpo (isdnl2_l1l2 pr arg s) l2_inv"
proof (cases "pr = (PH_DATA, INDICATION)")
  case True
  then obtain skb where "arg = Skb skb"
    using assms(2) by (auto simp: l2_prim_arg_def split: l2arg.splits)
  then show ?thesis using True assms(1) by (simp add: isdnl2_l1l2_def l2_ph_data_ind_ok)
next
  case False
  have none: "l2_arg_ok ev NoArg s'" if "EV_L2_DL_UNIT_DATA < ev \<or> ev = EV_L2_ACK_PULL"
      "ev \<noteq> EV_L2_MDL_ASSIGN" "ev \<noteq> EV_L2_FRAME_ERROR" for ev s'
    using that by (simp add: l2_arg_ok_def)
  consider "pr = (PH_PULL, CONFIRM)" | "pr = (PH_ACTIVATE, CONFIRM)" | "pr = (PH_ACTIVATE, INDICATION)"
    | "pr = (PH_DEACTIVATE, INDICATION)" | "pr = (PH_DEACTIVATE, CONFIRM)"
    | "pr \<notin> {(PH_PULL, CONFIRM), (PH_ACTIVATE, CONFIRM), (PH_ACTIVATE, INDICATION),
         (PH_DEACTIVATE, INDICATION), (PH_DEACTIVATE, CONFIRM)}" by auto
  then show ?thesis
    by cases
      (use False assms none in \<open>simp_all add: isdnl2_l1l2_def l2_prim_arg_def l2_event_inv Let_def\<close>)
qed

lemma isdnl2_l3l2_ok:
  assumes "l2_inv s" "l2_prim_arg pr arg"
  shows "wpo (isdnl2_l3l2 pr arg s) l2_inv"
proof -
  have none: "l2_arg_ok ev NoArg s'" if "EV_L2_DL_UNIT_DATA < ev \<or> ev = EV_L2_ACK_PULL"
      "ev \<noteq> EV_L2_MDL_ASSIGN" "ev \<noteq> EV_L2_FRAME_ERROR" for ev s'
    using that by (simp add: l2_arg_ok_def)
  consider "pr = (DL_DATA, REQUEST)" | "pr = (DL_UNIT_DATA, REQUEST)" | "pr = (MDL_ASSIGN, REQUEST)"
    | "pr = (DL_ESTABLISH, REQUEST)" | "pr = (DL_RELEASE, REQUEST)" | "pr = (MDL_REMOVE, REQUEST)"
    | "pr = (MDL_ERROR, RESPONSE)"
    | "pr \<notin> {(DL_DATA, REQUEST), (DL_UNIT_DATA, REQUEST), (MDL_ASSIGN, REQUEST),
        (DL_ESTABLISH, REQUEST), (DL_RELEASE, REQUEST), (MDL_REMOVE, REQUEST), (MDL_ERROR, RESPONSE)}"
    by auto
  then show ?thesis
  proof cases
    case 1
    then show ?thesis using assms
      by (auto simp: isdnl2_l3l2_def l2_prim_arg_def l2_arg_ok_def intro!: l2_event_inv
          split: l2arg.splits)
  next
    case 2
    then show ?thesis using assms
      by (auto simp: isdnl2_l3l2_def l2_prim_arg_def l2_arg_ok_def intro!: l2_event_inv
          split: l2arg.splits)
  next
    case 3
    then show ?thesis using assms
      by (auto simp: isdnl2_l3l2_def l2_prim_arg_def l2_arg_ok_def intro!: l2_event_inv
          split: l2arg.splits)
  qed (use assms none in \<open>simp_all add: isdnl2_l3l2_def l2_prim_arg_def l2_event_inv\<close>)
qed

lemma l2_expire_t200_ok:
  assumes "l2_inv s"
  shows "wpo (l2_expire_t200 s) l2_inv"
proof (cases "tl_pending (l2_t200 s)")
  case True
  let ?s = "s\<lparr>l2_t200 := FsmDelTimer (l2_t200 s)\<rparr>"
  have "t200_expired ?s" using assms True by (simp add: t200_expired_def l2_inv_defs; linarith)
  then show ?thesis
    using True assms l2_event_ok [of EV_L2_T200 NoArg ?s]
    by (simp add: l2_expire_t200_def l2_pre_def l2_inv_def l2_tmr_def)
next
  case False
  then show ?thesis using assms by (simp add: l2_expire_t200_def)
qed

lemma l2_expire_t203_ok:
  assumes "l2_inv s"
  shows "wpo (l2_expire_t203 s) l2_inv"
proof (cases "tl_pending (l2_t203 s)")
  case True
  let ?s = "s\<lparr>l2_t203 := FsmDelTimer (l2_t203 s)\<rparr>"
  have "t203_expired ?s" using assms True by (simp add: t203_expired_def l2_inv_defs)
  then show ?thesis
    using True assms l2_event_ok [of EV_L2_T203 NoArg ?s]
    by (simp add: l2_expire_t203_def l2_pre_def l2_inv_def l2_tmr_def)
next
  case False
  then show ?thesis using assms by (simp add: l2_expire_t203_def)
qed

end
