(* ===== verification/Hisax_L2_Arq.thy ===== *)
theory Hisax_L2_Arq
  imports Hisax_L2_Safety
begin

text \<open>
  Layer 2 as a sender with acknowledged transfer. Its abstract state is the list of frames accepted
  from layer 3 and not yet acknowledged (\<open>l2_pending\<close>: the window, then the queue), with the sequence
  number V(A) of the first. The contract: while the link stays in the multi-frame states 7 and 8,
  every event drops acknowledged frames from the head of that list, or appends the frame of a
  DL-DATA request; it never loses, repeats or reorders one, and the number of a frame never changes.
\<close>

subsection \<open>The abstract sender\<close>

definition l2_pending :: "Layer2 \<Rightarrow> sk_buff list" where
  "l2_pending s = unacked s @ l2_i_queue s"

text \<open>The step of the abstract sender: \<open>n\<close> frames acknowledged, the frames \<open>new\<close> accepted.\<close>

definition arq_step :: "nat \<Rightarrow> sk_buff list \<Rightarrow> Layer2 \<Rightarrow> Layer2 \<Rightarrow> bool" where
  "arq_step n new s s' \<longleftrightarrow>
     n \<le> length (unacked s) \<and> l2_pending s' = drop n (l2_pending s) @ new \<and>
     l2_modulus s' = l2_modulus s \<and> l2_va s' = (l2_va s + of_nat n) mod l2_modulus s"

lemma unacked_frame [simp]:
  "f \<noteq> FLG_MOD128 \<Longrightarrow> unacked (set_bit2 f s) = unacked s"
  "f \<noteq> FLG_MOD128 \<Longrightarrow> unacked (clear_bit2 f s) = unacked s"
  "unacked (emit out s) = unacked s"
  "unacked (ma_error c s) = unacked s"
  "unacked (pull_req s) = unacked s"
  "unacked (add_t200 s) = unacked s"
  "unacked (add_t203 s) = unacked s"
  "unacked (restart_t203 s) = unacked s"
  "unacked (del_t203 s) = unacked s"
  "unacked (restart_t200 s) = unacked s"
  "unacked (stop_t200 s) = unacked s"
  "unacked (set_peer_busy s) = unacked s"
  "unacked (clear_peer_busy s) = unacked s"
  "unacked (iframe_timers nr s) = unacked s"
  "unacked (iframe_receive skb pf ns s) = unacked s"
  "unacked (FsmChangeState2 k s) = unacked s"
  "unacked (enquiry_response s) = unacked s"
  "unacked (transmit_enquiry s) = unacked s"
  "unacked (enquiry_cr typ cr pf s) = unacked s"
  "unacked (queue_i skb s) = unacked s"
  "unacked (count_tx skb s) = unacked s"
  "unacked (s\<lparr>l2_rc := rc\<rparr>) = unacked s"
  by (simp_all add: unacked_def l2_slot_def)

lemma va_mod: "l2_core s \<Longrightarrow> l2_va s mod l2_modulus s = l2_va s"
  by (simp add: core_defs mod_word_less)

lemma unat_add_mod:
  assumes "seq_modulus m" "a < m" "d < unat m"
  shows "unat ((a + of_nat d) mod m) = (unat a + d) mod unat m"
proof -
  have m: "unat m = 8 \<or> unat m = 128" using assms(1) by (rule seq_modulus_unat)
  have "unat a < unat m" using assms(2) by (simp add: word_less_nat_alt)
  moreover have "unat (of_nat d :: u32) = d"
    using m assms(3) by (auto simp: unsigned_of_nat take_bit_nat_eq_self)
  ultimately have "unat (a + of_nat d) = unat a + d"
    using m assms(3) by (subst unat_add_lem [THEN iffD1]) auto
  then show ?thesis by (simp add: unat_mod)
qed

lemma dist_add:
  assumes "x < l2_modulus s" "l2_va s < l2_modulus s"
  shows "(l2_va s + of_nat (l2_dist s x)) mod l2_modulus s = x"
proof -
  let ?m = "unat (l2_modulus s)"
  have lt: "unat x < ?m" "unat (l2_va s) < ?m" using assms by (simp_all add: word_less_nat_alt)
  have "unat ((l2_va s + of_nat (l2_dist s x)) mod l2_modulus s) =
        (unat (l2_va s) + (unat x + ?m - unat (l2_va s)) mod ?m) mod ?m"
    using unat_add_mod [of "l2_modulus s" "l2_va s" "l2_dist s x"] assms(2) dist_less [of s x]
      dist_unat [OF assms] by simp
  also have "\<dots> = (unat (l2_va s) + (unat x + ?m - unat (l2_va s))) mod ?m"
    by (simp only: mod_add_right_eq)
  also have "\<dots> = (unat x + ?m) mod ?m" using lt by simp
  also have "\<dots> = unat x" using lt by simp
  finally show ?thesis by (simp add: word_unat_eq_iff)
qed

lemma arq_step_acked:
  assumes "l2_core s" "nr < l2_modulus s" "legalnr nr s" "acked nr s s'"
  shows "arq_step (l2_dist s nr) [] s s'"
proof -
  have q: "l2_i_queue s' = l2_i_queue s" "l2_modulus s' = l2_modulus s" "l2_va s' = nr"
    using assms(4) unfolding acked_def by auto
  moreover have "unacked s' = drop (l2_dist s nr) (unacked s)"
    using assms(4) by (simp add: acked_def)
  moreover have "l2_va s < l2_modulus s" using assms(1) by (simp add: core_defs)
  ultimately show ?thesis
    using legalnr_le [OF assms(3)] dist_add [OF assms(2)] by (simp add: arq_step_def l2_pending_def)
qed

lemma arq_step_sent_back:
  assumes "l2_core s" "l2_dist s nr \<le> l2_dist s (l2_vs s)" "sent_back nr s s'"
  shows "arq_step 0 [] s s'"
proof -
  have "unacked s' = take (l2_dist s nr) (unacked s)" "l2_modulus s' = l2_modulus s"
      "l2_i_queue s' = drop (l2_dist s nr) (unacked s) @ l2_i_queue s" "l2_va s' = l2_va s"
    using assms(3) unfolding sent_back_def by auto
  then show ?thesis using va_mod [OF assms(1)] by (simp add: arq_step_def l2_pending_def)
qed

lemma arq_step_trans0:
  assumes "arq_step n new s s1" "arq_step 0 [] s1 s'" "l2_core s1"
  shows "arq_step n new s s'"
  using assms va_mod [of s1] by (simp add: arq_step_def)

lemma arq_step_same:
  "l2_va s < l2_modulus s \<Longrightarrow> unacked s' = unacked s \<Longrightarrow> l2_i_queue s' = l2_i_queue s @ new \<Longrightarrow>
   l2_va s' = l2_va s \<Longrightarrow> l2_modulus s' = l2_modulus s \<Longrightarrow> arq_step 0 new s s'"
  by (simp add: arq_step_def l2_pending_def mod_word_less)

lemma setva_arq:
  assumes "l2_core s" "nr < l2_modulus s" "legalnr nr s"
  shows "wpo (setva nr s) (\<lambda>s'. l2_core s' \<and> arq_step (l2_dist s nr) [] s s' \<and> l2_va s' = nr)"
proof -
  obtain s' where s': "setva nr s = Some s'" "acked nr s s'"
    using setva_acked [of s nr] assms by (auto simp: core_defs legalnr_def)
  then show ?thesis
    using setva_ok [OF assms] arq_step_acked [OF assms s'(2)] by simp
qed

lemma invoke_retransmission_arq:
  assumes "l2_core s" "nr < l2_modulus s" "l2_dist s nr \<le> l2_dist s (l2_vs s)"
  shows "wpo (invoke_retransmission nr s) (\<lambda>s'. l2_core s' \<and> arq_step 0 [] s s')"
proof (cases "l2_vs s = nr")
  case True
  then show ?thesis
    using assms va_mod [OF assms(1)] by (simp add: invoke_retransmission_def arq_step_def)
next
  case False
  obtain s' where s': "retrans_loop nr s = Some s'" "sent_back nr s s'"
    using retrans_loop_sent_back [of s nr] assms by (auto simp: l2_core_def l2_cfg_def)
  then show ?thesis
    using invoke_retransmission_ok [OF assms] arq_step_sent_back [OF assms(1,3) s'(2)] False
    by (simp add: invoke_retransmission_def arq_step_def l2_pending_def)
qed

text \<open>Acknowledge with N(R), then go back to N(R): nothing is outstanding afterwards.\<close>

lemma setva_retransmit_arq:
  assumes "l2_core s" "nr < l2_modulus s" "legalnr nr s"
  shows "wpo (setva nr s) (\<lambda>s1. wpo (invoke_retransmission nr s1)
     (\<lambda>s'. l2_core s' \<and> arq_step (l2_dist s nr) [] s s'))"
proof (rule wpo_mono [OF setva_arq [OF assms]], elim conjE)
  fix s1 assume s1: "l2_core s1" "arq_step (l2_dist s nr) [] s s1" "l2_va s1 = nr"
  have pre: "nr < l2_modulus s1" "l2_dist s1 nr \<le> l2_dist s1 (l2_vs s1)"
    using s1 dist_va [of s1] by (simp_all add: core_defs)
  show "wpo (invoke_retransmission nr s1) (\<lambda>s'. l2_core s' \<and> arq_step (l2_dist s nr) [] s s')"
    by (rule wpo_mono [OF invoke_retransmission_arq [OF s1(1) pre]])
      (use arq_step_trans0 [OF s1(2) _ s1(1)] in blast)
qed

subsection \<open>Every handler is a step of the abstract sender\<close>

named_theorems arq_ok \<open>the abstract step of each handler of the multi-frame states\<close>

definition arq_post :: "sk_buff list \<Rightarrow> Layer2 \<Rightarrow> Layer2 \<Rightarrow> bool" where
  "arq_post new s s' \<longleftrightarrow> (ST_L2_7 \<le> l2_m_state s' \<longrightarrow> (\<exists>n. arq_step n new s s'))"

lemma arq_post_left: "l2_m_state s' < ST_L2_7 \<Longrightarrow> arq_post new s s'"
  by (simp add: arq_post_def)

lemma arq_post_same:
  "l2_core s \<Longrightarrow> unacked s' = unacked s \<Longrightarrow> l2_i_queue s' = l2_i_queue s @ new \<Longrightarrow>
   l2_va s' = l2_va s \<Longrightarrow> l2_modulus s' = l2_modulus s \<Longrightarrow> arq_post new s s'"
  unfolding arq_post_def core_defs by (intro impI exI [of _ 0] arq_step_same) simp_all

lemma arq_step_frame [simp]:
  "arq_step n new s (pull_req s') = arq_step n new s s'"
  "arq_step n new s (add_t203 s') = arq_step n new s s'"
  "arq_step n new s (stop_t200 s') = arq_step n new s s'"
  "arq_step n new s (restart_t203 s') = arq_step n new s s'"
  "arq_step n new s (restart_t200 s') = arq_step n new s s'"
  "arq_step n new s (del_t203 s') = arq_step n new s s'"
  "arq_step n new s (FsmChangeState2 k s') = arq_step n new s s'"
  "f \<noteq> FLG_MOD128 \<Longrightarrow> arq_step n new s (clear_bit2 f s') = arq_step n new s s'"
  "arq_step n new s (enquiry_cr typ cr pf s') = arq_step n new s s'"
  "arq_step n new (set_peer_busy s) s' = arq_step n new s s'"
  "arq_step n new (clear_peer_busy s) s' = arq_step n new s s'"
  "arq_step n new (ma_error c s) s' = arq_step n new s s'"
  "arq_step n new (enquiry_response s) s' = arq_step n new s s'"
  "arq_step n new (iframe_receive skb pf ns s) s' = arq_step n new s s'"
  "arq_step n new (iframe_timers nr s) s' = arq_step n new s s'"
  "arq_step n new (stop_t200 s) s' = arq_step n new s s'"
  "arq_step n new (restart_t200 s) s' = arq_step n new s s'"
  "arq_step n new (add_t203 s) s' = arq_step n new s s'"
  by (simp_all add: arq_step_def l2_pending_def)

lemma st7_super_ack_arq:
  assumes "l2_core s" "nr < l2_modulus s" "legalnr nr s"
  shows "wpo (st7_super_ack typ nr s) (\<lambda>s'. \<exists>n. arq_step n [] s s')"
proof -
  let ?P = "\<lambda>s'. \<exists>n. arq_step n [] s s'"
  have retr: "wpo (setva nr s) (\<lambda>s1. wpo (invoke_retransmission nr s1) (\<lambda>s'. ?P (add_t203 (stop_t200 s'))))"
    by (rule wpo_mono [OF setva_retransmit_arq [OF assms]], erule wpo_mono) auto
  have ack: "wpo (setva nr s) (\<lambda>s'. ?P (g s'))" if "\<And>n s'. arq_step n [] s (g s') = arq_step n [] s s'" for g
    by (rule wpo_mono [OF setva_arq [OF assms]]) (auto simp: that)
  have "?P s"
    by (rule exI [of _ 0]) (use va_mod [OF assms(1)] in \<open>simp add: arq_step_def\<close>)
  then show ?thesis
    using retr ack [of "\<lambda>s. restart_t203 (stop_t200 s)"]
      ack [of "\<lambda>s. restart_t200 (if typ \<noteq> F_RR then del_t203 s else s)"]
    by (cases "typ = F_RR") (auto simp: st7_super_ack_def)
qed


lemma l2_st7_got_super_arq [arq_ok]:
  assumes "l2_core s" "skb_len skb = super_len s"
  shows "wpo (l2_st7_got_super (Skb skb) s) (arq_post [] s)"
proof -
  obtain d0 c pf nr where rds: "rd (skb_bytes skb) 0 = Some d0"
      "rd (skb_bytes (skb_pull (l2addrsize s) skb)) 0 = Some c"
      "super_fields s (skb_bytes (skb_pull (l2addrsize s) skb)) = Some (pf, nr)"
    and nr: "nr < l2_modulus s"
    using super_head [OF assms(2)] by blast
  define s1 where "s1 = (if IsRNR c s then set_peer_busy s else clear_peer_busy s)"
  define ty where "ty = (if IsREJ c s1 then F_REJ else if IsRNR c s then F_RNR else F_RR)"
  define s2 where "s2 = (if pf then (if rsp_bit s d0 then ma_error (charno CHR ''A'') s1
                                     else enquiry_response s1) else s1)"
  have core: "l2_core s2" "nr < l2_modulus s2" using assms nr by (simp_all add: s1_def s2_def)
  have fr: "arq_step n new s2 s' = arq_step n new s s'" for n new s'
    by (simp add: s2_def s1_def)
  have eq: "l2_st7_got_super (Skb skb) s =
    (if legalnr nr s2 then do {
       s \<leftarrow> st7_super_ack ty nr s2;
       Some (if l2_i_queue s \<noteq> [] \<and> ty = F_RR then pull_req s else s)
     } else Some (nrerrorrecovery s2))"
    by (simp add: l2_st7_got_super_def rds s1_def s2_def ty_def Let_def split_beta)
  show ?thesis
  proof (cases "legalnr nr s2")
    case True
    have "wpo (st7_super_ack ty nr s2)
      (\<lambda>s'. arq_post [] s (if l2_i_queue s' \<noteq> [] \<and> ty = F_RR then pull_req s' else s'))"
      by (rule wpo_mono [OF st7_super_ack_arq [OF core True]]) (auto simp: fr arq_post_def)
    then show ?thesis using True by (simp add: eq)
  next
    case False
    then show ?thesis by (simp add: eq arq_post_left)
  qed
qed

lemma l2_st8_got_super_arq [arq_ok]:
  assumes "l2_core s" "skb_len skb = super_len s"
  shows "wpo (l2_st8_got_super (Skb skb) s) (arq_post [] s)"
proof -
  obtain d0 c pf nr where rds: "rd (skb_bytes skb) 0 = Some d0"
      "rd (skb_bytes (skb_pull (l2addrsize s) skb)) 0 = Some c"
      "super_fields s (skb_bytes (skb_pull (l2addrsize s) skb)) = Some (pf, nr)"
    and nr: "nr < l2_modulus s"
    using super_head [OF assms(2)] by blast
  define s1 where "s1 = (if IsRNR c s then set_peer_busy s else clear_peer_busy s)"
  define s2 where "s2 = (if \<not> rsp_bit s d0 \<and> pf then enquiry_response s1 else s1)"
  have core: "l2_core s1" "nr < l2_modulus s1" "l2_core s2" "nr < l2_modulus s2"
    using assms nr by (simp_all add: s1_def s2_def)
  have fr: "arq_step n new s1 s' = arq_step n new s s'" "arq_step n new s2 s' = arq_step n new s s'"
    for n new s'
    by (simp_all add: s2_def s1_def)
  let ?fin = "\<lambda>s. Some (if l2_i_queue s \<noteq> [] \<and> cansend s then pull_req s else s)"
  have eq: "l2_st8_got_super (Skb skb) s =
    (if rsp_bit s d0 \<and> pf then
       (if legalnr nr s1 then do {
          s \<leftarrow> (if IsRNR c s then Some (restart_t200 s1) else setva nr (add_t203 (stop_t200 s1)));
          s \<leftarrow> invoke_retransmission nr s;
          ?fin (FsmChangeState2 ST_L2_7 s)
        } else Some (nrerrorrecovery s1))
     else if legalnr nr s2 then setva nr s2 else Some (nrerrorrecovery s2))"
    by (simp add: l2_st8_got_super_def rds s1_def s2_def Let_def split_beta)
  have fin: "arq_post [] s (FsmChangeState2 ST_L2_7 s')"
      "arq_post [] s (pull_req (FsmChangeState2 ST_L2_7 s'))" if "arq_step n [] s s'" for n s'
    using that by (auto simp: arq_post_def)
  have "wpo (invoke_retransmission nr (restart_t200 s1))
      (\<lambda>s'. wpo (?fin (FsmChangeState2 ST_L2_7 s')) (arq_post [] s))" if "legalnr nr s1"
    by (rule wpo_mono [OF invoke_retransmission_arq])
      (use core fr that in \<open>auto simp: legalnr_def intro: fin\<close>)
  moreover have "wpo (setva nr (add_t203 (stop_t200 s1))) (\<lambda>s2. wpo (invoke_retransmission nr s2)
      (\<lambda>s'. wpo (?fin (FsmChangeState2 ST_L2_7 s')) (arq_post [] s)))" if "legalnr nr s1"
    by (rule wpo_mono [OF setva_retransmit_arq], use core that in simp_all, erule wpo_mono)
      (use fr in \<open>auto intro: fin\<close>)
  moreover have "wpo (setva nr s2) (arq_post [] s)" if "legalnr nr s2"
    by (rule wpo_mono [OF setva_arq [OF core(3,4) that]]) (use fr in \<open>auto simp: arq_post_def\<close>)
  ultimately show ?thesis by (simp add: eq arq_post_left)
qed

lemma l2_got_iframe_arq [arq_ok]:
  assumes "l2_core s" "super_len s \<le> skb_len skb"
  shows "wpo (l2_got_iframe (Skb skb) s) (arq_post [] s)"
proof -
  obtain pf ns nr where flds: "iframe_fields s (skb_bytes skb) = Some (pf, ns, nr)"
    and nr: "nr < l2_modulus s"
    using iframe_fields_ok [of s "skb_bytes skb"] assms(2) by (auto simp: skb_len_def)
  define s1 where "s1 = iframe_receive skb pf ns s"
  have core: "l2_core (iframe_timers nr s1)" "nr < l2_modulus (iframe_timers nr s1)"
    using assms nr by (simp_all add: s1_def iframe_receive_core)
  have fr: "arq_step n new s1 s' = arq_step n new s s'" for n new s' by (simp add: s1_def)
  let ?fin = "\<lambda>s. let s = (if l2_i_queue s \<noteq> [] \<and> l2_m_state s = ST_L2_7 then pull_req s else s)
    in if test_bit FLG_ACK_PEND s then enquiry_cr F_RR RSP False (clear_bit2 FLG_ACK_PEND s) else s"
  have eq: "l2_got_iframe (Skb skb) s =
    (if legalnr nr s1 then do { s \<leftarrow> setva nr (iframe_timers nr s1); Some (?fin s) }
     else Some (nrerrorrecovery s1))"
    by (simp add: l2_got_iframe_def flds s1_def Let_def)
  have "wpo (setva nr (iframe_timers nr s1)) (\<lambda>s'. arq_post [] s (?fin s'))" if "legalnr nr s1"
    by (rule wpo_mono [OF setva_arq [OF core]]) (use that fr in \<open>auto simp: arq_post_def Let_def\<close>)
  then show ?thesis by (simp add: eq arq_post_left)
qed

lemma l2_pull_iqueue_arq [arq_ok]:
  assumes "l2_core s" "l2_m_state s = ST_L2_7"
  shows "wpo (l2_pull_iqueue arg s) (arq_post [] s)"
proof (cases "cansend s \<and> l2_i_queue s \<noteq> []")
  case True
  then obtain skb rest where q: "l2_i_queue s = skb # rest" by (auto simp: neq_Nil_conv)
  then obtain s' where s': "l2_pull_iqueue arg s = Some s'" "pulled skb s s'"
    using l2_pull_iqueue_pulled [OF assms _ q, of arg] True by auto
  then have "arq_step 0 [] s s'"
    using q va_mod [OF assms(1)] by (simp add: arq_step_def pulled_def l2_pending_def)
  then show ?thesis using s' by (auto simp: arq_post_def)
next
  case False
  then show ?thesis using assms(1) by (auto simp: l2_pull_iqueue_def intro: arq_post_same)
qed

lemma tx_ui_arq:
  assumes "l2_core s"
  shows "wpo (tx_ui s) (\<lambda>s'. unacked s' = unacked s \<and> l2_i_queue s' = l2_i_queue s \<and>
     l2_va s' = l2_va s \<and> l2_modulus s' = l2_modulus s)"
proof -
  have "length (sethdraddr s CMD @ [F_UI]) \<le> 3" using length_sethdraddr [of s CMD] by simp
  then have "\<forall>skb \<in> set (l2_ui_queue s). length (sethdraddr s CMD @ [F_UI]) \<le> skb_head skb"
    using assms unfolding core_defs by (meson le_trans)
  then obtain tx outs where
    "tx_ui s = Some (s\<lparr>l2_ui_queue := [], l2_tx_cnt := tx, l2_outs := outs\<rparr>)"
    using tx_ui_loop_ok [of "l2_ui_queue s" "sethdraddr s CMD @ [F_UI]" s]
    unfolding tx_ui_def by blast
  then show ?thesis by (simp add: unacked_def l2_slot_def)
qed

lemma l2_send_ui_arq [arq_ok]:
  assumes "l2_core s" "3 \<le> skb_head skb"
  shows "wpo (l2_send_ui (Skb skb) s) (arq_post [] s)"
proof -
  have "l2_core (queue_ui skb s)" using assms by (simp add: core_defs)
  moreover have "unacked (queue_ui skb s) = unacked s" by (simp add: unacked_def l2_slot_def)
  ultimately show ?thesis
    using assms(1) unfolding l2_send_ui_def with_skb_Skb
    by (intro wpo_mono [OF tx_ui_arq]) (auto intro: arq_post_same)
qed

lemma simple_arq [arq_ok]:
  "l2_core s \<Longrightarrow> l2addrsize s < skb_len skb \<Longrightarrow> wpo (l2_mdl_error_ua (Skb skb) s) (arq_post [] s)"
  "l2_core s \<Longrightarrow> l2addrsize s < skb_len skb \<Longrightarrow> wpo (l2_mdl_error_dm (Skb skb) s) (arq_post [] s)"
  "l2_core s \<Longrightarrow> l2addrsize s < skb_len skb \<Longrightarrow> wpo (l2_st8_mdl_error_dm (Skb skb) s) (arq_post [] s)"
  "l2_core s \<Longrightarrow> l2addrsize s < skb_len skb \<Longrightarrow> wpo (l2_stop_multi (Skb skb) s) (arq_post [] s)"
  "l2_core s \<Longrightarrow> wpo (l2_got_ui (Skb skb) s) (arq_post [] s)"
  "wpo (l2_l3_reestablish arg s) (arq_post [] s)"
  "wpo (l2_disconnect arg s) (arq_post [] s)"
  "wpo (l2_tei_remove arg s) (arq_post [] s)"
  "wpo (l2_persistant_da arg s) (arq_post [] s)"
  "wpo (l2_frame_error_reest (ErrArg c) s) (arq_post [] s)"
  "l2_core s \<Longrightarrow> wpo (l2_feed_i_pull (Skb skb) s) (arq_post [skb] s)"
  "l2_core s \<Longrightarrow> wpo (l2_feed_iqueue (Skb skb) s) (arq_post [skb] s)"
  "l2_core s \<Longrightarrow> wpo (l2_set_own_busy arg s) (arq_post [] s)"
  "l2_core s \<Longrightarrow> wpo (l2_clear_own_busy arg s) (arq_post [] s)"
  "l2_core s \<Longrightarrow> wpo (l2_st7_tout_200 arg s) (arq_post [] s)"
  "l2_core s \<Longrightarrow> wpo (l2_st8_tout_200 arg s) (arq_post [] s)"
  "l2_core s \<Longrightarrow> wpo (l2_st7_tout_203 arg s) (arq_post [] s)"
  by (auto simp: l2_mdl_error_ua_def l2_mdl_error_dm_def l2_st8_mdl_error_dm_def l2_stop_multi_def
      l2_got_ui_def l2_l3_reestablish_def l2_disconnect_def l2_tei_remove_def l2_persistant_da_def
      l2_frame_error_reest_def err_code_def l2_feed_i_pull_def l2_feed_iqueue_def
      l2_set_own_busy_def l2_clear_own_busy_def l2_st7_tout_200_def l2_st8_tout_200_def
      l2_st7_tout_203_def get_PollFlag_def skb_len_def l2addrsize_def Let_def
      intro: arq_post_left arq_post_same)

lemma l2_got_FRMR_arq [arq_ok]:
  assumes "l2_core s" "l2addrsize s + 1 < skb_len skb"
  shows "wpo (l2_got_FRMR (Skb skb) s) (arq_post [] s)"
proof -
  obtain d where "rd (skb_bytes (skb_pull (l2addrsize s + 1) skb)) 0 = Some d"
    using assms(2) by (simp add: rd_def skb_len_def)
  then show ?thesis
    using assms(1) by (auto simp: l2_got_FRMR_def intro: arq_post_left arq_post_same)
qed

text \<open>The frames that an event hands to layer 2 for acknowledged transfer.\<close>

definition l2_accepts :: "nat \<Rightarrow> l2arg \<Rightarrow> sk_buff list" where
  "l2_accepts ev arg = (case arg of Skb skb \<Rightarrow> if ev = EV_L2_DL_DATA then [skb] else [] | _ \<Rightarrow> [])"

definition arq_node_ok :: "(l2arg \<Rightarrow> Layer2 \<Rightarrow> Layer2 option) FsmNode \<Rightarrow> bool" where
  "arq_node_ok n \<longleftrightarrow> (\<forall>arg s. l2_m_state s = nd_state n \<longrightarrow> l2_pre (nd_event n) arg s \<longrightarrow>
     l2_core s \<longrightarrow> ST_L2_7 \<le> nd_state n \<longrightarrow> nd_event n \<noteq> EV_L2_SABME \<longrightarrow>
     wpo (nd_routine n arg s) (arq_post (l2_accepts (nd_event n) arg) s))"

lemma arq_node_okI:
  "(\<And>arg s. l2_m_state s = k \<Longrightarrow> l2_pre ev arg s \<Longrightarrow> l2_core s \<Longrightarrow> ST_L2_7 \<le> k \<Longrightarrow>
      ev \<noteq> EV_L2_SABME \<Longrightarrow> wpo (h arg s) (arq_post (l2_accepts ev arg) s)) \<Longrightarrow>
   arq_node_ok (FsmNode k ev h)"
  by (simp add: arq_node_ok_def)

lemma L2FnList_arq: "list_all arq_node_ok L2FnList"
  unfolding L2FnList_def list.pred_inject
  by (intro conjI arq_node_okI TrueI;
      simp add: l2_pre_def l2_arg_ok_def l2_accepts_def arq_ok split: l2arg.splits)

lemma L2FnList_DL_DATA:
  "\<exists>n \<in> set L2FnList. nd_state n = ST_L2_7 \<and> nd_event n = EV_L2_DL_DATA"
  "\<exists>n \<in> set L2FnList. nd_state n = ST_L2_8 \<and> nd_event n = EV_L2_DL_DATA"
  by (simp_all add: L2FnList_def)

text \<open>The same table under a second contract: each event is a step of the abstract sender.\<close>

definition l2_arq_pre :: "nat \<Rightarrow> l2arg \<Rightarrow> Layer2 \<Rightarrow> bool" where
  "l2_arq_pre ev arg s \<longleftrightarrow>
     l2_pre ev arg s \<and> l2_core s \<and> ST_L2_7 \<le> l2_m_state s \<and> ev \<noteq> EV_L2_SABME"

interpretation l2_arq: fsm_table L2_STATE_COUNT L2_EVENT_COUNT L2FnList l2_m_state
  "\<lambda>ev arg s. l2_arq_pre ev arg s \<and> ev = e0 \<and> arg = a0 \<and> s = s0"
  "arq_post (l2_accepts e0 a0) s0"
  for e0 :: nat and a0 :: l2arg and s0 :: Layer2
proof
  show "wpo (nd_routine n a s) (arq_post (l2_accepts e0 a0) s0)"
    if "n \<in> set L2FnList" "nd_state n = l2_m_state s"
      "l2_arq_pre (nd_event n) a s \<and> nd_event n = e0 \<and> a = a0 \<and> s = s0" for n a s
    using L2FnList_arq that by (auto simp: list_all_iff arq_node_ok_def l2_arq_pre_def)
  show "arq_post (l2_accepts e0 a0) s0 s"
    if none: "\<forall>n \<in> set L2FnList. \<not> (nd_state n = l2_m_state s \<and> nd_event n = e)"
      and pre: "l2_arq_pre e a s \<and> e = e0 \<and> a = a0 \<and> s = s0" for e a s
  proof -
    have "l2_m_state s = ST_L2_7 \<or> l2_m_state s = ST_L2_8"
      using pre by (auto simp: l2_arq_pre_def core_defs)
    then have "e0 \<noteq> EV_L2_DL_DATA" using none pre L2FnList_DL_DATA by metis
    then have "l2_accepts e0 a0 = []" by (simp add: l2_accepts_def split: l2arg.split)
    then show ?thesis using pre by (auto simp: l2_arq_pre_def intro: arq_post_same)
  qed
qed (use L2FnList_range in \<open>auto simp: list_all_iff\<close>)

lemma l2_event_arq:
  "l2_arq_pre ev arg s \<Longrightarrow> wpo (l2_event ev arg s) (arq_post (l2_accepts ev arg) s)"
  using l2_arq.event_ok [of ev arg s ev arg s] by (auto simp: l2_event_def l2fsm_def wpo_iff)

subsection \<open>The receiver\<close>

text \<open>What layer 3 has been given for acknowledged transfer, in order.\<close>

definition delivery :: "l2out \<Rightarrow> sk_buff option" where
  "delivery x = (case x of L2L3 pr (Some skb) \<Rightarrow>
     if pr = (DL_DATA, INDICATION) then Some skb else None | _ \<Rightarrow> None)"

definition l2_delivered :: "Layer2 \<Rightarrow> sk_buff list" where
  "l2_delivered s =
     concat (map (\<lambda>x. case delivery x of Some skb \<Rightarrow> [skb] | None \<Rightarrow> []) (l2_outs s))"

lemma delivered_emit [simp]:
  "l2_delivered (emit out s) = l2_delivered s @ (case delivery out of Some skb \<Rightarrow> [skb] | None \<Rightarrow> [])"
  by (simp add: l2_delivered_def)

lemma delivered_cong: "l2_outs s' = l2_outs s \<Longrightarrow> l2_delivered s' = l2_delivered s"
  by (simp add: l2_delivered_def)

lemma delivered_frame [simp]:
  "l2_delivered (set_bit2 f s) = l2_delivered s"
  "l2_delivered (clear_bit2 f s) = l2_delivered s"
  "l2_delivered (restart_t200 s) = l2_delivered s"
  "l2_delivered (iframe_timers nr s) = l2_delivered s"
  "l2_delivered (pull_req s) = l2_delivered s"
  "l2_delivered (ma_error c s) = l2_delivered s"
  "l2_delivered (del_t203 s) = l2_delivered s"
  "l2_delivered (freewin s) = l2_delivered s"
  "l2_delivered (clear_exception s) = l2_delivered s"
  "l2_delivered (FsmChangeState2 k s) = l2_delivered s"
  "l2_delivered (s\<lparr>l2_rc := r\<rparr>) = l2_delivered s"
  "l2_delivered (s\<lparr>l2_vr := x\<rparr>) = l2_delivered s"
  "l2_delivered (snd (alloc_skb2 s)) = l2_delivered s"
  "l2_delivered (s\<lparr>l2_tx_cnt := tx\<rparr>) = l2_delivered s"
  by (simp_all add: l2_delivered_def delivery_def)

lemma delivered_send [simp]:
  "l2_delivered (enqueue_super skb s) = l2_delivered s"
  "l2_delivered (send_uframe cmd cr s) = l2_delivered s"
  "l2_delivered (enquiry_cr typ cr pf s) = l2_delivered s"
  "l2_delivered (enquiry_response s) = l2_delivered s"
  "l2_delivered (establishlink s) = l2_delivered s"
  "l2_delivered (nrerrorrecovery s) = l2_delivered s"
  by (simp_all add: enqueue_super_def send_uframe_def enquiry_cr_def enquiry_response_def
      establishlink_def nrerrorrecovery_def Let_def split_beta delivery_def)

lemma delivered_acked: "acked nr s s' \<Longrightarrow> l2_delivered s' = l2_delivered s"
  unfolding acked_def wakeups_def l2_delivered_def
  by (auto simp: concat_eq_Nil_conv delivery_def)

text \<open>An I frame is handed up exactly when it is the next one in sequence and there is room.\<close>

definition accepts_iframe :: "u32 \<Rightarrow> Layer2 \<Rightarrow> bool" where
  "accepts_iframe ns s \<longleftrightarrow> \<not> test_bit FLG_OWN_BUSY s \<and> ns = l2_vr s"

lemma iframe_receive_delivers:
  "l2_delivered (iframe_receive skb pf ns s) = l2_delivered s @
     (if accepts_iframe ns s then [skb_pull (l2headersize s False) skb] else [])"
  "l2_vr (iframe_receive skb pf ns s) =
     (if accepts_iframe ns s then (l2_vr s + 1) mod l2_modulus s else l2_vr s)"
  by (auto simp: iframe_receive_def accepts_iframe_def l2headersize_def Let_def delivery_def)

lemma l2_got_iframe_delivers:
  assumes "l2_inv s" "ST_L2_7 \<le> l2_m_state s" "super_len s \<le> skb_len skb"
    and flds: "iframe_fields s (skb_bytes skb) = Some (pf, ns, nr)"
  shows "wpo (l2_got_iframe (Skb skb) s) (\<lambda>s'.
     l2_delivered s' = l2_delivered s @
       (if accepts_iframe ns s then [skb_pull (l2headersize s False) skb] else []) \<and>
     l2_vr s' = (if accepts_iframe ns s then (l2_vr s + 1) mod l2_modulus s else l2_vr s))"
proof -
  have nr: "nr < l2_modulus s"
    using iframe_fields_ok [of s "skb_bytes skb"] assms(3) flds by (auto simp: skb_len_def)
  define s1 where "s1 = iframe_timers nr (iframe_receive skb pf ns s)"
  have core: "l2_core s1" "nr < l2_modulus s1"
    using assms nr by (simp_all add: s1_def iframe_receive_core l2_inv_core)
  show ?thesis
  proof (cases "legalnr nr (iframe_receive skb pf ns s)")
    case True
    then have "legalnr nr s1" by (simp add: s1_def)
    then obtain s' where s': "setva nr s1 = Some s'" "acked nr s1 s'"
      using setva_acked [of s1 nr] core by (auto simp: core_defs legalnr_def)
    then have "l2_delivered s' = l2_delivered s1" "l2_vr s' = l2_vr s1"
      using delivered_acked acked_same by (auto simp: same_link_def)
    then show ?thesis
      using True s'(1)
      by (simp add: l2_got_iframe_def flds s1_def [symmetric] Let_def)
        (simp add: s1_def iframe_receive_delivers)
  next
    case False
    then show ?thesis by (simp add: l2_got_iframe_def flds Let_def iframe_receive_delivers)
  qed
qed

end
