(* ===== verification/Hisax_L2_Codec.thy ===== *)
theory Hisax_L2_Codec
  imports Hisax_L2_Arq
begin

text \<open>
  The control fields of supervisory and I frames: what \<open>enquiry_cr\<close> and \<open>l2_pull_iqueue\<close> write is what
  \<open>l2_got_super\<close> and \<open>l2_got_iframe\<close> of the peer read, with modulo 8 and modulo 128 numbering.
\<close>

subsection \<open>Sequence numbers in octets\<close>

lemma bit_unat_less:
  assumes "unat (x :: u32) < 2 ^ k" "bit x n"
  shows "n < k"
proof (rule ccontr)
  assume "\<not> n < k"
  have "take_bit k (unat x) = unat x" using assms(1) by (simp add: take_bit_nat_eq_self)
  moreover have "bit (unat x) n" using assms(2) by (simp add: bit_unsigned_iff)
  ultimately have "bit (take_bit k (unat x)) n" by simp
  then show False using \<open>\<not> n < k\<close> by (simp add: bit_take_bit_iff)
qed

lemma octet_shift1:
  assumes "(x :: u32) < 128"
  shows "ucast (drop_bit 1 (ucast (push_bit 1 x) OR (if pf then 1 else 0) :: u8)) = x"
    "((ucast (push_bit 1 x) OR (if pf then 1 else 0) :: u8) AND 1 = 1) = pf"
proof -
  have nb: "bit x n \<Longrightarrow> n < 7" for n using bit_unat_less [of x 7 n] assms by (simp add: word_less_nat_alt)
  have nb': "bit x n \<Longrightarrow> n < 31" for n using nb [of n] by simp
  show "ucast (drop_bit 1 (ucast (push_bit 1 x) OR (if pf then 1 else 0) :: u8)) = x"
    using nb nb' by (intro bit_word_eqI) (auto simp: bit_simps not_le simp del: push_bit_Suc)
  show "((ucast (push_bit 1 x) OR (if pf then 1 else 0) :: u8) AND 1 = 1) = pf"
  proof -
    have "(w AND 1 = 1) = bit w 0" for w :: u8
      by (simp add: and_one_eq bit_0 odd_iff_mod_2_eq_one)
    then show ?thesis by (simp add: bit_simps del: push_bit_Suc One_nat_def)
  qed
qed

lemma less8_cases:
  assumes "(x :: u32) < 8"
  shows "x \<in> {0, 1, 2, 3, 4, 5, 6, 7}"
proof -
  have "unat x < 8" using assms by (simp add: word_less_nat_alt)
  then have "unat x \<in> set [0..<8]" by simp
  then have "word_of_nat (unat x) \<in> (word_of_nat ` set [0..<8] :: u32 set)" by blast
  then show ?thesis by (simp add: upt_rec)
qed

lemma octet_super8:
  assumes "(x :: u32) < 8" "typ \<in> {F_RR, F_RNR, F_REJ}"
  shows "ucast (drop_bit 5 (ucast (push_bit 5 x) OR typ OR (if pf then 0x10 else 0) :: u8) AND 7) = x"
    "((ucast (push_bit 5 x) OR typ OR (if pf then 0x10 else 0) :: u8) AND 0x10 \<noteq> 0) = pf"
    "(ucast (push_bit 5 x) OR typ OR (if pf then 0x10 else 0) :: u8) AND 0xf = typ"
  using less8_cases [OF assms(1)] assms(2) by (auto split: if_split)

lemma octet_iframe8:
  assumes "(r :: u32) < 8" "(x :: u32) < 8"
  shows "ucast (drop_bit 5 (ucast (push_bit 5 r) OR ucast (push_bit 1 x) :: u8) AND 7) = r"
    "ucast (drop_bit 1 (ucast (push_bit 5 r) OR ucast (push_bit 1 x) :: u8) AND 7) = x"
    "(ucast (push_bit 5 r) OR ucast (push_bit 1 x) :: u8) AND 0x10 = 0"
    "(ucast (push_bit 5 r) OR ucast (push_bit 1 x) :: u8) AND 1 = 0"
  using less8_cases [OF assms(1)] less8_cases [OF assms(2)] by auto


lemma drop1_and_7f: "drop_bit 1 (b :: u8) AND 0x7f = drop_bit 1 b"
proof -
  have "drop_bit 1 b AND 0x7f = take_bit 7 (drop_bit 1 b)"
    by (simp add: take_bit_eq_mask mask_eq_exp_minus_1)
  also have "\<dots> = drop_bit 1 b"
  proof (rule bit_word_eqI)
    fix n
    have "bit b (Suc n) \<Longrightarrow> n < 7" using bit_imp_le_length [of b "Suc n"] by simp
    then show "bit (take_bit 7 (drop_bit 1 b)) n = bit (drop_bit 1 b) n"
      by (auto simp: bit_take_bit_iff bit_drop_bit_eq)
  qed
  finally show ?thesis .
qed

subsection \<open>Frames and their headers\<close>

text \<open>Two ends of a link that agree on the address format and on the modulus.\<close>

definition same_format :: "Layer2 \<Rightarrow> Layer2 \<Rightarrow> bool" where
  "same_format s p \<longleftrightarrow> test_bit FLG_MOD128 p = test_bit FLG_MOD128 s \<and>
     test_bit FLG_LAPD p = test_bit FLG_LAPD s"

lemma length_sethdraddr_eq: "length (sethdraddr s cr) = l2addrsize s"
  by (simp add: sethdraddr_def l2addrsize_def Let_def)

lemma same_format_addrsize: "same_format s p \<Longrightarrow> l2addrsize p = l2addrsize s"
  by (simp add: same_format_def l2addrsize_def)

lemma same_format_modulus: "same_format s p \<Longrightarrow> l2_modulus p = l2_modulus s"
  by (simp add: same_format_def l2_modulus_def)

text \<open>The control field of a supervisory frame.\<close>

definition super_control :: "u8 \<Rightarrow> bool \<Rightarrow> Layer2 \<Rightarrow> u8 list" where
  "super_control typ pf s =
     (if test_bit FLG_MOD128 s
      then [typ, ucast (push_bit 1 (l2_vr s)) OR (if pf then 1 else 0)]
      else [ucast (push_bit 5 (l2_vr s)) OR typ OR (if pf then 0x10 else 0)])"

lemma enquiry_cr_outs:
  assumes "mem_ok (l2_env s)"
  shows "l2_outs (enquiry_cr typ cr pf s) = l2_outs s @
    [L2L1 (PH_DATA, REQUEST) (Some (skb_new 0 (sethdraddr s cr @ super_control typ pf s)))]"
  using assms
  by (simp add: enquiry_cr_def super_control_def alloc_skb2_def enqueue_super_def emit_def Let_def)

lemma super_control_parse:
  assumes "l2_vr s < l2_modulus s" "typ \<in> {F_RR, F_RNR, F_REJ}" "same_format s p"
  shows "super_fields p (super_control typ pf s) = Some (pf, l2_vr s)"
    "\<exists>c cs. super_control typ pf s = c # cs \<and> c AND 1 = 1 \<and> IsSFrame c p \<and>
       (IsREJ c p \<longleftrightarrow> typ = F_REJ) \<and> (IsRNR c p \<longleftrightarrow> typ = F_RNR)"
    "length (super_control typ pf s) = (if test_bit FLG_MOD128 p then 2 else 1)"
proof -
  have m: "test_bit FLG_MOD128 p = test_bit FLG_MOD128 s" using assms(3) by (simp add: same_format_def)
  show "length (super_control typ pf s) = (if test_bit FLG_MOD128 p then 2 else 1)"
    by (simp add: super_control_def m)
  show "super_fields p (super_control typ pf s) = Some (pf, l2_vr s)"
    using assms(1,2) octet_shift1 [of "l2_vr s" pf] octet_super8 [of "l2_vr s" "typ" pf]
    by (auto simp: super_fields_def super_control_def m l2_modulus_def split: if_splits)
  show "\<exists>c cs. super_control typ pf s = c # cs \<and> c AND 1 = 1 \<and> IsSFrame c p \<and>
       (IsREJ c p \<longleftrightarrow> typ = F_REJ) \<and> (IsRNR c p \<longleftrightarrow> typ = F_RNR)"
  proof (cases "test_bit FLG_MOD128 s")
    case True
    then show ?thesis
      using assms(2) m by (auto simp: super_control_def IsSFrame_def IsREJ_def IsRNR_def)
  next
    case False
    let ?c = "ucast (push_bit 5 (l2_vr s)) OR typ OR (if pf then 0x10 else 0) :: u8"
    have low: "?c AND 0xf = typ"
      using octet_super8(3) [of "l2_vr s" "typ" pf] assms(1,2) False by (simp add: l2_modulus_def)
    have "?c AND 1 = (?c AND 0xf) AND 1" by (simp add: and.assoc)
    then have "?c AND 1 = 1" using assms(2) by (auto simp: low)
    moreover have "IsSFrame ?c p"
      using assms(2) False m unfolding IsSFrame_def by (auto simp: low Let_def)
    ultimately show ?thesis
      using assms(2) False m
      unfolding super_control_def IsREJ_def IsRNR_def by (simp add: low)
  qed
qed

lemma iframe_header_length: "same_format s p \<Longrightarrow> length (iframe_header s) = l2headersize p False"
  by (simp add: iframe_header_def length_sethdraddr_eq l2headersize_def l2addrsize_def same_format_def)

lemma iframe_header_parse:
  assumes "l2_vs s < l2_modulus s" "l2_vr s < l2_modulus s" "same_format s p"
  shows "iframe_fields p (iframe_header s @ d) = Some (False, l2_vs s, l2_vr s)"
    "(iframe_header s @ d) ! l2addrsize p AND 1 = 0"
proof -
  have m: "test_bit FLG_MOD128 p = test_bit FLG_MOD128 s" using assms(3) by (simp add: same_format_def)
  have a: "l2addrsize p = length (sethdraddr s CMD)"
    using same_format_addrsize [OF assms(3)] by (simp add: length_sethdraddr_eq)
  let ?k = "ucast (push_bit 5 (l2_vr s)) OR ucast (push_bit 1 (l2_vs s)) :: u8"
  have vs7: "ucast (drop_bit 1 (ucast (push_bit 1 (l2_vs s)) :: u8)) = l2_vs s"
      "(ucast (push_bit 1 (l2_vs s)) :: u8) AND 1 = 0" if "test_bit FLG_MOD128 s"
    using octet_shift1 [of "l2_vs s" False] assms(1) that
    by (auto simp: l2_modulus_def and_one_eq) 
  have vr7: "ucast (drop_bit 1 (ucast (push_bit 1 (l2_vr s)) :: u8) AND 0x7f) = l2_vr s"
    if "test_bit FLG_MOD128 s"
    using octet_shift1(1) [of "l2_vr s" False] assms(2) that
    unfolding drop1_and_7f by (simp add: l2_modulus_def)
  have nth: "(sethdraddr s CMD @ xs) ! l2addrsize p = xs ! 0"
    "(sethdraddr s CMD @ xs) ! Suc (l2addrsize p) = xs ! Suc 0" for xs
    by (simp_all add: a nth_append)
  show "iframe_fields p (iframe_header s @ d) = Some (False, l2_vs s, l2_vr s)"
  proof (cases "test_bit FLG_MOD128 s")
    case True
    have bnd: "l2addrsize p + 1 < length (iframe_header s @ d)"
      using a True by (simp add: iframe_header_def)
    show ?thesis
      unfolding iframe_fields_def Let_def m if_P [OF True] rd_in [OF bnd]
        rd_in [OF Suc_lessD [OF bnd [unfolded Suc_eq_plus1 [symmetric]]]]
      using vs7 vr7 True octet_shift1(2) [of "l2_vr s" False] assms(2)
      by (simp add: iframe_header_def nth l2_modulus_def)
  next
    case False
    have bnd: "l2addrsize p < length (iframe_header s @ d)"
      using a False by (simp add: iframe_header_def)
    show ?thesis
      unfolding iframe_fields_def Let_def m if_not_P [OF False] rd_in [OF bnd]
      using octet_iframe8 [of "l2_vr s" "l2_vs s"] assms(1,2) False
      by (simp add: iframe_header_def nth l2_modulus_def)
  qed
  show "(iframe_header s @ d) ! l2addrsize p AND 1 = 0"
    using vs7(2) octet_iframe8(4) [of "l2_vr s" "l2_vs s"] assms(1,2)
    by (cases "test_bit FLG_MOD128 s") (simp_all add: iframe_header_def nth l2_modulus_def)
qed

end
