(* ===== verification/Hisax_L2_Retry.thy ===== *)
theory Hisax_L2_Retry
  imports Hisax_L2_Codec
begin

text \<open>
  Retries of an unanswered SABME, counted up to N200, and the legal values of N(R).
\<close>

subsection \<open>Giving up\<close>

text \<open>\<open>k\<close> expiries of T200 in a row.\<close>

primrec l2_expire_times :: "nat \<Rightarrow> Layer2 \<Rightarrow> Layer2 option" where
  "l2_expire_times 0 s = Some s"
| "l2_expire_times (Suc k) s = do { s' \<leftarrow> l2_expire_t200 s; l2_expire_times k s' }"

lemma L2FnList_lookup_st5: "fsm_lookup L2FnList ST_L2_5 EV_L2_T200 = Some l2_st5_tout_200"
  using fsm_lookup_distinct [OF L2FnList_distinct, of "FsmNode ST_L2_5 EV_L2_T200 l2_st5_tout_200"]
  by (simp add: L2FnList_def)

lemma L2FnList_lookup_st6: "fsm_lookup L2FnList ST_L2_6 EV_L2_T200 = Some l2_st6_tout_200"
  using fsm_lookup_distinct [OF L2FnList_distinct, of "FsmNode ST_L2_6 EV_L2_T200 l2_st6_tout_200"]
  by (simp add: L2FnList_def)

lemma l2_expire_st5:
  assumes "l2_inv s" "l2_m_state s = ST_L2_5"
  shows "l2_expire_t200 s = l2_st5_tout_200 NoArg (s\<lparr>l2_t200 := FsmDelTimer (l2_t200 s)\<rparr>)"
  using assms
  by (simp add: l2_expire_t200_def l2_event_def l2fsm_def FsmEvent_fsm_of L2FnList_lookup_st5
      l2_inv_def l2_tmr_def option.map_comp comp_def option.map_ident)

lemma establish_retry:
  assumes "l2_inv s" "l2_m_state s = ST_L2_5" "\<not> dchan_wait s" "l2_rc s \<noteq> l2_N200 s"
  shows "\<exists>s'. l2_expire_t200 s = Some s' \<and> l2_inv s' \<and> l2_m_state s' = ST_L2_5 \<and>
    \<not> dchan_wait s' \<and> l2_rc s' = l2_rc s + 1 \<and> l2_N200 s' = l2_N200 s"
proof -
  have d: "dchan_wait (s\<lparr>l2_t200 := t\<rparr>) = dchan_wait s" for t by (simp add: dchan_wait_def)
  have "wpo (l2_expire_t200 s) l2_inv" using assms(1) by (rule l2_expire_t200_ok)
  moreover have "wpo (l2_expire_t200 s) (\<lambda>s'. l2_m_state s' = ST_L2_5 \<and>
    \<not> dchan_wait s' \<and> l2_rc s' = l2_rc s + 1 \<and> l2_N200 s' = l2_N200 s)"
    unfolding l2_expire_st5 [OF assms(1,2)]
    using assms(2-4) by (simp add: l2_st5_tout_200_def d Let_def) (simp add: dchan_wait_def)
  ultimately show ?thesis by (auto simp: wpo_iff)
qed

lemma establish_last:
  assumes "l2_inv s" "l2_m_state s = ST_L2_5" "\<not> dchan_wait s" "l2_rc s = l2_N200 s"
  shows "\<exists>s'. l2_expire_t200 s = Some s' \<and> l2_m_state s' = ST_L2_4 \<and>
    \<not> tl_pending (l2_t200 s') \<and>
    (L2L3 (DL_RELEASE, CONFIRM) None \<in> set (l2_outs s') \<or>
     L2L3 (DL_RELEASE, INDICATION) None \<in> set (l2_outs s'))"
proof -
  have d: "dchan_wait (s\<lparr>l2_t200 := t\<rparr>) = dchan_wait s" for t by (simp add: dchan_wait_def)
  show ?thesis
    unfolding l2_expire_st5 [OF assms(1,2)]
    using assms(2-4) by (simp add: l2_st5_tout_200_def d Let_def) (simp add: st5_dl_release_l2l3_def)
qed

text \<open>
  A link that gets no answer to its SABME gives up after N200 retries: at the (N200 + 1)th expiry it
  is back in state 4 and layer 3 has been told.
\<close>

lemma establish_gives_up:
  assumes "l2_inv s" "l2_m_state s = ST_L2_5" "\<not> dchan_wait s"
    "l2_rc s \<le> l2_N200 s" "k = nat (l2_N200 s - l2_rc s)"
  shows "\<exists>s'. l2_expire_times (Suc k) s = Some s' \<and> l2_m_state s' = ST_L2_4 \<and>
    \<not> tl_pending (l2_t200 s') \<and>
    (L2L3 (DL_RELEASE, CONFIRM) None \<in> set (l2_outs s') \<or>
     L2L3 (DL_RELEASE, INDICATION) None \<in> set (l2_outs s'))"
  using assms
proof (induction k arbitrary: s)
  case 0
  then have "l2_rc s = l2_N200 s" by simp
  then show ?case using establish_last [of s] 0 by auto
next
  case (Suc k)
  then have "l2_rc s \<noteq> l2_N200 s" by auto
  then obtain s1 where s1: "l2_expire_t200 s = Some s1" "l2_inv s1" "l2_m_state s1 = ST_L2_5"
    "\<not> dchan_wait s1" "l2_rc s1 = l2_rc s + 1" "l2_N200 s1 = l2_N200 s"
    using establish_retry [of s] Suc.prems by auto
  moreover have "l2_rc s1 \<le> l2_N200 s1" "k = nat (l2_N200 s1 - l2_rc s1)"
    using s1 Suc.prems by auto
  ultimately show ?case using Suc.IH [of s1] by simp
qed

text \<open>The legal N(R): the sequence numbers from V(A) to V(S).\<close>

lemma legalnr_iff:
  assumes "l2_core s" "nr < l2_modulus s"
  shows "legalnr nr s \<longleftrightarrow> (\<exists>k \<le> length (unacked s). nr = (l2_va s + of_nat k) mod l2_modulus s)"
proof
  assume "legalnr nr s"
  then show "\<exists>k \<le> length (unacked s). nr = (l2_va s + of_nat k) mod l2_modulus s"
    using dist_add [OF assms(2)] assms(1) legalnr_le
    by (intro exI [of _ "l2_dist s nr"]) (simp add: core_defs)
next
  assume "\<exists>k \<le> length (unacked s). nr = (l2_va s + of_nat k) mod l2_modulus s"
  then obtain k where k: "k \<le> length (unacked s)" "nr = (l2_va s + of_nat k) mod l2_modulus s"
    by blast
  let ?m = "unat (l2_modulus s)" and ?a = "unat (l2_va s)"
  have va: "l2_va s < l2_modulus s" "?a < ?m"
    using assms(1) by (simp_all add: core_defs word_less_nat_alt)
  have km: "k < ?m" using k(1) assms(1) by (simp add: core_defs)
  have "l2_dist s nr = ((?a + k) mod ?m + ?m - ?a) mod ?m"
    using dist_unat [OF assms(2) va(1)] unat_add_mod [of "l2_modulus s" "l2_va s" k] va(1) km k(2)
    by simp
  also have "\<dots> = ((?a + k) mod ?m + (?m - ?a)) mod ?m" using va(2) by simp
  also have "\<dots> = (?a + k + (?m - ?a)) mod ?m" by (simp only: mod_add_left_eq)
  also have "\<dots> = (k + ?m) mod ?m" using va(2) by simp
  also have "\<dots> = k" using km by simp
  finally show "legalnr nr s" using k(1) by (simp add: legalnr_def)
qed

end
