(* ===== verification/Hisax_L2_Idle.thy ===== *)
theory Hisax_L2_Idle
  imports Hisax_L2_Safety
begin

text \<open>
  Layer 1 with an idle transmitter answers \<open>PH_PULL | REQUEST\<close> with \<open>PH_PULL | CONFIRM\<close> before the request
  returns (\<open>isac.c\<close>), so that \<open>l2_pull_iqueue\<close> runs inside the handler that asked. Where the request is
  the last thing a handler does, this is the same as the confirmation coming next, which is how the
  tables of \<open>Hisax_L2_Table\<close> take it. Two handlers of state 7 go on after it: REJ stops T200 and starts T203,
  and an I frame sends the acknowledgement that is still due. They are modelled here with the answer
  inside; \<open>l2_reach\<close> has both. (In state 8 the retransmission asks too, but the machine has no row for
  the answer there.)
\<close>

subsection \<open>The handlers with the answer inside\<close>

definition pull_now :: "Layer2 \<Rightarrow> Layer2 option" where
  "pull_now s = l2_event EV_L2_ACK_PULL NoArg (pull_req s)"

definition invoke_retransmission_now :: "u32 \<Rightarrow> Layer2 \<Rightarrow> Layer2 option" where
  "invoke_retransmission_now nr s =
     (if l2_vs s \<noteq> nr then do { s' \<leftarrow> retrans_loop nr s; pull_now s' } else Some s)"

definition st7_super_ack_now :: "u8 \<Rightarrow> u32 \<Rightarrow> Layer2 \<Rightarrow> Layer2 option" where
  "st7_super_ack_now typ nr s =
    (if typ = F_REJ then do {
       s \<leftarrow> setva nr s;
       s \<leftarrow> invoke_retransmission_now nr s;
       Some (add_t203 (stop_t200 s))
     } else st7_super_ack typ nr s)"

definition l2_st7_got_super_now :: "l2arg \<Rightarrow> Layer2 \<Rightarrow> Layer2 option" where
  "l2_st7_got_super_now arg s = with_skb arg (\<lambda>skb. do {
     d0 \<leftarrow> rd (skb_bytes skb) 0;
     let rsp = rsp_bit s d0;
     let d = skb_bytes (skb_pull (l2addrsize s) skb);
     c \<leftarrow> rd d 0;
     let (s, typ) = (if IsRNR c s then (set_peer_busy s, F_RNR) else (clear_peer_busy s, F_RR));
     let typ = (if IsREJ c s then F_REJ else typ);
     (PollFlag, nr) \<leftarrow> super_fields s d;
     let s = (if PollFlag then (if rsp then ma_error (charno CHR ''A'') s else enquiry_response s)
              else s);
     if legalnr nr s then do {
       s \<leftarrow> st7_super_ack_now typ nr s;
       if l2_i_queue s \<noteq> [] \<and> typ = F_RR then pull_now s else Some s
     } else Some (nrerrorrecovery s)
   })"

definition l2_got_iframe_now :: "l2arg \<Rightarrow> Layer2 \<Rightarrow> Layer2 option" where
  "l2_got_iframe_now arg s = with_skb arg (\<lambda>skb. do {
     (PollFlag, ns, nr) \<leftarrow> iframe_fields s (skb_bytes skb);
     let s = iframe_receive skb PollFlag ns s;
     if legalnr nr s then do {
       s \<leftarrow> setva nr (iframe_timers nr s);
       s \<leftarrow> (if l2_i_queue s \<noteq> [] \<and> l2_m_state s = ST_L2_7 then pull_now s else Some s);
       Some (if test_bit FLG_ACK_PEND s
             then enquiry_cr F_RR RSP False (clear_bit2 FLG_ACK_PEND s) else s)
     } else Some (nrerrorrecovery s)
   })"

text \<open>A frame from layer 1. All but the two handlers are as they are.\<close>

definition l2_ph_data_ind_now :: "sk_buff \<Rightarrow> Layer2 \<Rightarrow> Layer2 option" where
  "l2_ph_data_ind_now skb s =
     (if l2_m_state s \<noteq> ST_L2_7 \<or> \<not> l2addrsize s < skb_len skb then l2_ph_data_ind skb s
      else do {
        c \<leftarrow> rd (skb_bytes skb) (l2addrsize s);
        if c AND 1 = 0 \<and> iframe_error s skb = Some 0 then l2_got_iframe_now (Skb skb) s
        else if c AND 1 \<noteq> 0 \<and> IsSFrame c s \<and> super_error s skb = Some 0 then l2_st7_got_super_now (Skb skb) s
        else l2_ph_data_ind skb s
      })"

subsection \<open>They keep the invariant\<close>

lemma L2FnList_lookup_pull: "fsm_lookup L2FnList ST_L2_7 EV_L2_ACK_PULL = Some l2_pull_iqueue"
  using fsm_lookup_distinct [OF L2FnList_distinct, of "FsmNode ST_L2_7 EV_L2_ACK_PULL l2_pull_iqueue"]
  by (simp add: L2FnList_def)

lemma pull_now_eq: "l2_m_state s = ST_L2_7 \<Longrightarrow> pull_now s = l2_pull_iqueue NoArg (pull_req s)"
  by (cases "l2_pull_iqueue NoArg (pull_req s)")
    (simp_all add: pull_now_def l2_event_def l2fsm_def FsmEvent_fsm_of L2FnList_lookup_pull)

lemma pull_now_ok:
  assumes "l2_core s" "l2_tmr s" "l2_m_state s = ST_L2_7"
  shows "wpo (pull_now s) (\<lambda>s'. l2_core s' \<and> l2_tmr s' \<and> l2_m_state s' = ST_L2_7)"
proof -
  have s: "l2_core (pull_req s)" "l2_tmr (pull_req s)" "l2_m_state (pull_req s) = ST_L2_7"
    using assms by simp_all
  show ?thesis
  proof (cases "cansend (pull_req s) \<and> l2_i_queue (pull_req s) \<noteq> []")
    case True
    then obtain skb rest where "l2_i_queue (pull_req s) = skb # rest" by (auto simp: neq_Nil_conv)
    with l2_pull_iqueue_pulled [OF s(1,3), of skb rest NoArg] True
    obtain s' where "l2_pull_iqueue NoArg (pull_req s) = Some s'" "pulled skb (pull_req s) s'"
      by auto
    then show ?thesis using s assms(3) by (simp add: pull_now_eq pulled_def)
  next
    case False
    then have "l2_pull_iqueue NoArg (pull_req s) = Some (pull_req s)"
      by (auto simp: l2_pull_iqueue_def)
    then show ?thesis using s assms(3) by (simp add: pull_now_eq)
  qed
qed

lemma invoke_retransmission_now_ok:
  assumes "l2_core s" "l2_tmr s" "l2_m_state s = ST_L2_7" "nr < l2_modulus s"
    "l2_dist s nr \<le> l2_dist s (l2_vs s)"
  shows "wpo (invoke_retransmission_now nr s) (\<lambda>s'. l2_core s' \<and> l2_tmr s' \<and> l2_m_state s' = ST_L2_7)"
proof (cases "l2_vs s = nr")
  case True
  then show ?thesis using assms by (simp add: invoke_retransmission_now_def)
next
  case False
  obtain s' where s': "retrans_loop nr s = Some s'" "sent_back nr s s'"
    using retrans_loop_sent_back [of s nr] assms by (auto simp: l2_core_def l2_cfg_def)
  have "l2_core s'"
    using s'(2) sent_back_same [OF s'(2)] assms(1)
    by (simp add: l2_core_def l2_cfg_def l2_ring_def l2_win_def l2_slot_def same_link_def
        sent_back_def)
  moreover have "l2_tmr s'" "l2_m_state s' = ST_L2_7"
    using sent_back_same [OF s'(2)] assms(2,3) by (auto simp: same_link_def l2_tmr_def)
  ultimately show ?thesis
    using False s'(1) pull_now_ok [of s'] by (simp add: invoke_retransmission_now_def)
qed

lemma st7_super_ack_now_ok:
  assumes "l2_core s" "l2_tmr s" "l2_m_state s = ST_L2_7" "nr < l2_modulus s" "legalnr nr s"
  shows "wpo (st7_super_ack_now typ nr s) (\<lambda>s'. l2_core s' \<and> l2_tmr s' \<and> l2_m_state s' = ST_L2_7)"
proof (cases "typ = F_REJ")
  case False
  then show ?thesis using st7_super_ack_ok [OF assms, of "typ"] by (simp add: st7_super_ack_now_def)
next
  case True
  let ?Q = "\<lambda>s'. l2_core s' \<and> l2_tmr s' \<and> l2_m_state s' = ST_L2_7"
  have fin: "?Q (add_t203 (stop_t200 s2))" if "?Q s2" for s2
    using that by (simp add: l2_tmr_def)
  have "wpo (setva nr s) (\<lambda>s1. wpo (invoke_retransmission_now nr s1) (\<lambda>s2. ?Q (add_t203 (stop_t200 s2))))"
  proof (rule wpo_mono [OF setva_ok [OF assms(1,4,5)]], elim conjE)
    fix s1 assume s1: "l2_core s1" "same_link s s1" "l2_va s1 = nr" "l2_vs s1 = l2_vs s"
    have "nr < l2_modulus s1" using s1(1,3) by (simp add: l2_core_def l2_win_def)
    moreover have "l2_tmr s1" "l2_m_state s1 = ST_L2_7"
      using s1(2) assms(2,3) by (auto simp: same_link_def l2_tmr_def)
    ultimately show "wpo (invoke_retransmission_now nr s1) (\<lambda>s2. ?Q (add_t203 (stop_t200 s2)))"
      using s1 dist_va [of s1]
      by (intro wpo_mono [OF invoke_retransmission_now_ok [OF s1(1)] fin]) auto
  qed
  then show ?thesis using True by (simp add: st7_super_ack_now_def)
qed

lemma pull_now_inv: "l2_core s \<Longrightarrow> l2_tmr s \<Longrightarrow> l2_m_state s = ST_L2_7 \<Longrightarrow> wpo (pull_now s) l2_inv"
  by (rule wpo_mono [OF pull_now_ok]) (simp_all add: l2_invI7)

lemma l2_st7_got_super_now_ok:
  assumes "l2_inv s" "l2_m_state s = ST_L2_7" "skb_len skb = super_len s"
  shows "wpo (l2_st7_got_super_now (Skb skb) s) l2_inv"
proof -
  obtain d0 c pf nr where rds: "rd (skb_bytes skb) 0 = Some d0"
      "rd (skb_bytes (skb_pull (l2addrsize s) skb)) 0 = Some c"
      "super_fields s (skb_bytes (skb_pull (l2addrsize s) skb)) = Some (pf, nr)"
    and nr: "nr < l2_modulus s"
    using super_head [OF assms(3)] by blast
  define s1 where "s1 = (if IsRNR c s then set_peer_busy s else clear_peer_busy s)"
  define ty where "ty = (if IsREJ c s1 then F_REJ else if IsRNR c s then F_RNR else F_RR)"
  define s2 where "s2 = (if pf then (if rsp_bit s d0 then ma_error (charno CHR ''A'') s1
                                     else enquiry_response s1) else s1)"
  have core: "l2_core s2" "l2_tmr s2" "l2_m_state s2 = ST_L2_7" "nr < l2_modulus s2"
    using assms nr by (simp_all add: s1_def s2_def l2_inv_core)
  have eq: "l2_st7_got_super_now (Skb skb) s =
    (if legalnr nr s2 then do {
       s \<leftarrow> st7_super_ack_now ty nr s2;
       if l2_i_queue s \<noteq> [] \<and> ty = F_RR then pull_now s else Some s
     } else Some (nrerrorrecovery s2))"
    by (simp add: l2_st7_got_super_now_def rds s1_def s2_def ty_def Let_def split_beta)
  show ?thesis
  proof (cases "legalnr nr s2")
    case True
    have "wpo (st7_super_ack_now ty nr s2)
      (\<lambda>s. wpo (if l2_i_queue s \<noteq> [] \<and> ty = F_RR then pull_now s else Some s) l2_inv)"
      by (rule wpo_mono [OF st7_super_ack_now_ok [OF core True]]) (simp add: l2_invI7 pull_now_inv)
    then show ?thesis using True by (simp add: eq)
  next
    case False
    then show ?thesis using core by (simp add: eq nrerrorrecovery_inv l2_core_cfg)
  qed
qed

lemma l2_got_iframe_now_ok:
  assumes "l2_inv s" "l2_m_state s = ST_L2_7" "super_len s \<le> skb_len skb"
  shows "wpo (l2_got_iframe_now (Skb skb) s) l2_inv"
proof -
  obtain pf ns nr where flds: "iframe_fields s (skb_bytes skb) = Some (pf, ns, nr)"
    and nr: "nr < l2_modulus s"
    using iframe_fields_ok [of s "skb_bytes skb"] assms(3) by (auto simp: skb_len_def)
  define s1 where "s1 = iframe_receive skb pf ns s"
  have s1: "l2_core s1" "l2_tmr s1" "nr < l2_modulus s1"
    using assms nr by (simp_all add: s1_def l2_inv_core iframe_receive_core)
  let ?ack = "\<lambda>s. if test_bit FLG_ACK_PEND s
    then enquiry_cr F_RR RSP False (clear_bit2 FLG_ACK_PEND s) else s"
  let ?pull = "\<lambda>s. if l2_i_queue s \<noteq> [] \<and> l2_m_state s = ST_L2_7 then pull_now s else Some s"
  have eq: "l2_got_iframe_now (Skb skb) s =
    (if legalnr nr s1 then do { s \<leftarrow> setva nr (iframe_timers nr s1); s \<leftarrow> ?pull s; Some (?ack s) }
     else Some (nrerrorrecovery s1))"
    by (simp add: l2_got_iframe_now_def flds s1_def Let_def)
  have ack: "l2_inv (?ack s)" if "l2_core s" "l2_tmr s" for s
    using that by (simp add: l2_invI7)
  show ?thesis
  proof (cases "legalnr nr s1")
    case True
    have pre: "l2_core (iframe_timers nr s1)" "nr < l2_modulus (iframe_timers nr s1)"
        "legalnr nr (iframe_timers nr s1)"
      using s1 True by simp_all
    have tm: "l2_tmr ((iframe_timers nr s1)\<lparr>l2_va := nr\<rparr>)"
      using iframe_timers_tmr [OF s1(2,3) _ True] s1(1) by (simp add: l2_core_def l2_win_def)
    have "wpo (setva nr (iframe_timers nr s1)) (\<lambda>s. wpo (?pull s) (\<lambda>s. l2_inv (?ack s)))"
    proof (rule wpo_mono [OF setva_ok [OF pre]], elim conjE)
      fix s' assume s': "l2_core s'" "same_link (iframe_timers nr s1) s'" "l2_va s' = nr"
        "l2_vs s' = l2_vs (iframe_timers nr s1)"
      have "l2_tmr s'" using tm s'(2-4) by (simp add: l2_tmr_def same_link_def)
      then show "wpo (?pull s') (\<lambda>s. l2_inv (?ack s))"
        using s'(1) wpo_mono [OF pull_now_ok [of s']] ack by (auto split: if_splits)
    qed
    then show ?thesis using True by (simp add: eq)
  next
    case False
    then show ?thesis using s1 by (simp add: eq nrerrorrecovery_inv l2_core_cfg)
  qed
qed

lemma l2_ph_data_ind_now_ok:
  assumes "l2_inv s"
  shows "wpo (l2_ph_data_ind_now skb s) l2_inv"
proof (cases "l2_m_state s \<noteq> ST_L2_7 \<or> \<not> l2addrsize s < skb_len skb")
  case True
  then show ?thesis using l2_ph_data_ind_ok [OF assms] by (simp add: l2_ph_data_ind_now_def)
next
  case False
  then have st: "l2_m_state s = ST_L2_7" and len: "l2addrsize s < skb_len skb" by simp_all
  obtain c where c: "rd (skb_bytes skb) (l2addrsize s) = Some c"
    using len by (simp add: rd_def skb_len_def)
  have i: "super_len s \<le> skb_len skb" if "iframe_error s skb = Some 0"
    using that by (auto simp: iframe_error_def bind_eq_Some_conv Let_def charno_def split: if_splits)
  have su: "skb_len skb = super_len s" if "super_error s skb = Some 0"
    using that by (auto simp: super_error_def bind_eq_Some_conv Let_def charno_def split: if_splits)
  show ?thesis
    using l2_ph_data_ind_ok [OF assms, of skb] l2_got_iframe_now_ok [OF assms st, of skb]
      l2_st7_got_super_now_ok [OF assms st, of skb] i su st len
    by (simp add: l2_ph_data_ind_now_def c)
qed

subsection \<open>Reachable links\<close>

text \<open>A stack as the driver fills it in before \<open>setstack_isdnl2\<close>.\<close>

definition l2_fresh :: "Layer2 \<Rightarrow> bool" where
  "l2_fresh s \<longleftrightarrow> 0 < l2_window s \<and> l2_window s \<le> MAX_WINDOW \<and>
     l2_window s < unat (l2_modulus s) \<and> \<not> test_bit FLG_T200_RUN s"

inductive l2_reach :: "Layer2 \<Rightarrow> bool" where
  boot: "l2_fresh s \<Longrightarrow> clones_ok (l2_env s) \<Longrightarrow> l2_reach (setstack_isdnl2 s)"
| from_l1: "l2_reach s \<Longrightarrow> l2_prim_arg pr arg \<Longrightarrow> isdnl2_l1l2 pr arg s = Some s' \<Longrightarrow> l2_reach s'"
| from_l1_now: "l2_reach s \<Longrightarrow> l2_ph_data_ind_now skb s = Some s' \<Longrightarrow> l2_reach s'"
| from_l3: "l2_reach s \<Longrightarrow> l2_prim_arg pr arg \<Longrightarrow> isdnl2_l3l2 pr arg s = Some s' \<Longrightarrow> l2_reach s'"
| expire_t200: "l2_reach s \<Longrightarrow> l2_expire_t200 s = Some s' \<Longrightarrow> l2_reach s'"
| expire_t203: "l2_reach s \<Longrightarrow> l2_expire_t203 s = Some s' \<Longrightarrow> l2_reach s'"

lemma setstack_isdnl2_inv: "l2_fresh s \<Longrightarrow> clones_ok (l2_env s) \<Longrightarrow> l2_inv (setstack_isdnl2 s)"
  by (simp add: setstack_isdnl2_def l2_fresh_def InitWin_def l2_inv_defs MAX_WINDOW_def)

lemma l2_reach_l2_inv: "l2_reach s \<Longrightarrow> l2_inv s"
proof (induction rule: l2_reach.induct)
  case (boot s)
  then show ?case by (rule setstack_isdnl2_inv)
next
  case (from_l1 s pr arg s')
  then show ?case using isdnl2_l1l2_ok [of s pr arg] by simp
next
  case (from_l1_now s skb s')
  then show ?case using l2_ph_data_ind_now_ok [of s skb] by simp
next
  case (from_l3 s pr arg s')
  then show ?case using isdnl2_l3l2_ok [of s pr arg] by simp
next
  case (expire_t200 s s')
  then show ?case using l2_expire_t200_ok [of s] by simp
next
  case (expire_t203 s s')
  then show ?case using l2_expire_t203_ok [of s] by simp
qed

text \<open>What comes of T203 in state 7.\<close>

lemma L2FnList_lookup_t203: "fsm_lookup L2FnList ST_L2_7 EV_L2_T203 = Some l2_st7_tout_203"
  using fsm_lookup_distinct [OF L2FnList_distinct, of "FsmNode ST_L2_7 EV_L2_T203 l2_st7_tout_203"]
  by (simp add: L2FnList_def)

lemma l2_expire_t203_st7:
  assumes "l2_m_state s = ST_L2_7" "tl_pending (l2_t203 s)" "tm_event (l2_t203 s) = EV_L2_T203"
  shows "\<exists>s'. l2_expire_t203 s = Some s' \<and>
    (if dchan_wait s then l2_m_state s' = ST_L2_7 \<and> tl_pending (l2_t203 s')
     else l2_m_state s' = ST_L2_8 \<and> tl_pending (l2_t200 s'))"
  using assms
  by (simp add: l2_expire_t203_def l2_event_def l2fsm_def FsmEvent_fsm_of L2FnList_lookup_t203
      l2_st7_tout_203_def dchan_wait_def)

end
