(* ===== verification/Hisax_L2_Props.thy ===== *)
theory Hisax_L2_Props
  imports Hisax_L2_Retry Hisax_L2_Idle
begin

text \<open>
  The properties of layer 2, each with a concrete link on which its hypotheses hold.
\<close>

subsection \<open>Two links to evaluate the properties on\<close>

text \<open>
  \<open>link_new\<close> is a fresh LAPD stack with window 7 and modulo 128 numbers, \<open>link_up\<close> a link in state 7
  with one unacknowledged frame and one in the queue, \<open>link_wait\<close> one that has sent its SABME.
\<close>

definition env0 :: kenv where
  "env0 = \<lparr>k_allocs = [], k_clones = [], k_jiffies = 0, k_hz = 100, k_random = []\<rparr>"

definition idle_timer :: FsmTimer where
  "idle_timer = \<lparr>tl_pending = False, tl_expires = 0, tm_event = 0\<rparr>"

definition link_new :: Layer2 where
  "link_new = \<lparr>l2_tei = 0, l2_sap = 0, l2_maxlen = 260,
     l2_flag = (\<lambda>f. f \<in> {FLG_LAPD, FLG_MOD128, FLG_ORIG, FLG_L1_ACTIV}),
     l2_vs = 0, l2_va = 0, l2_vr = 0, l2_rc = 0, l2_window = 7, l2_sow = 0, l2_windowar = [],
     l2_i_queue = [], l2_ui_queue = [], l2_m_state = 0, l2_t200 = idle_timer,
     l2_t203 = idle_timer, l2_T200 = 1000, l2_N200 = 3, l2_T203 = 10000, l2_writewakeup = False,
     l2_tx_cnt = 0, l2_env = env0, l2_outs = []\<rparr>"

definition frame0 :: sk_buff where "frame0 = skb_new 4 [0xaa]"
definition frame1 :: sk_buff where "frame1 = skb_new 4 [0xbb]"

definition link_up :: Layer2 where
  "link_up = link_new\<lparr>l2_m_state := ST_L2_7, l2_vs := 6, l2_va := 5, l2_vr := 2,
     l2_sow := 3, l2_windowar := [None, None, None, Some frame0, None, None, None, None],
     l2_i_queue := [frame1], l2_t200 := \<lparr>tl_pending = True, tl_expires = 100, tm_event = EV_L2_T200\<rparr>,
     l2_flag := (\<lambda>f. f \<in> {FLG_LAPD, FLG_MOD128, FLG_ORIG, FLG_L1_ACTIV, FLG_T200_RUN})\<rparr>"

definition link_wait :: Layer2 where
  "link_wait = link_new\<lparr>l2_m_state := ST_L2_5, l2_windowar := replicate 8 None,
     l2_t200 := \<lparr>tl_pending = True, tl_expires = 100, tm_event = EV_L2_T200\<rparr>,
     l2_flag := (\<lambda>f. f \<in> {FLG_LAPD, FLG_MOD128, FLG_ORIG, FLG_L1_ACTIV, FLG_T200_RUN})\<rparr>"

lemmas link_defs = link_up_def link_wait_def link_new_def env0_def idle_timer_def

lemma link_new_fresh: "l2_fresh link_new"
  by (simp add: l2_fresh_def link_defs MAX_WINDOW_def l2_modulus_def clones_ok_def)

lemma link_new_clones: "clones_ok (l2_env link_new)"
  by (simp add: link_defs clones_ok_def)

lemma link_up_dist [simp]: "l2_dist link_up 6 = 1" "l2_dist link_up 5 = 0" "l2_modulus link_up = 128"
  by (simp_all add: l2_dist_def l2_modulus_def link_defs)

lemma link_up_fields [simp]:
  "l2_vs link_up = 6" "l2_va link_up = 5" "l2_m_state link_up = ST_L2_7"
  "l2_i_queue link_up = [frame1]" "l2_vr link_up = 2" "l2_window link_up = 7"
  by (simp_all add: link_defs)

lemma link_up_inv: "l2_inv link_up"
  by (simp add: l2_inv_defs) (simp add: link_defs MAX_WINDOW_def l2_modulus_def clones_ok_def)

lemma link_up_core: "l2_core link_up"
  using link_up_inv by (simp add: l2_inv_core)

lemma link_wait_inv: "l2_inv link_wait"
  by (simp add: l2_inv_defs) (simp add: link_defs MAX_WINDOW_def l2_modulus_def clones_ok_def)

lemma link_up_unacked: "unacked link_up = [frame0]"
  by (simp add: unacked_def) (simp add: link_defs l2_slot_def)

text \<open>A LAPB link that its peer has connected and that has sent one frame.\<close>

definition link_lapb :: "Layer2 option" where
  "link_lapb = do {
     s \<leftarrow> isdnl2_l1l2 (PH_DATA, INDICATION) (Skb (skb_new 0 [1, 0x3f]))
           (setstack_isdnl2 (link_new\<lparr>l2_flag := (\<lambda>f. f = FLG_LAPB)\<rparr>));
     s \<leftarrow> isdnl2_l3l2 (DL_DATA, REQUEST) (Skb frame0) s;
     isdnl2_l1l2 (PH_PULL, CONFIRM) NoArg s
   }"

lemma link_lapb_run:
  "map_option (\<lambda>s. (l2_m_state s, l2_dist s (l2_vs s), l2_vs s, l2_va s)) link_lapb =
    Some (ST_L2_7, 1, 1, 0)"
  by code_simp

lemma link_lapb_reachable:
  assumes "link_lapb = Some s"
  shows "l2_reach s"
proof -
  let ?s0 = "link_new\<lparr>l2_flag := (\<lambda>f. f = FLG_LAPB)\<rparr>"
  have "l2_fresh ?s0"
    by (simp add: l2_fresh_def link_defs MAX_WINDOW_def l2_modulus_def)
  then have r0: "l2_reach (setstack_isdnl2 ?s0)"
    by (rule l2_reach.boot) (simp add: link_defs clones_ok_def)
  obtain s1 s2 where
    s1: "isdnl2_l1l2 (PH_DATA, INDICATION) (Skb (skb_new 0 [1, 0x3f])) (setstack_isdnl2 ?s0) = Some s1"
    and s2: "isdnl2_l3l2 (DL_DATA, REQUEST) (Skb frame0) s1 = Some s2"
    and s3: "isdnl2_l1l2 (PH_PULL, CONFIRM) NoArg s2 = Some s"
    using assms unfolding link_lapb_def by (auto simp: bind_eq_Some_conv)
  show ?thesis
    by (rule l2_reach.from_l1 [OF l2_reach.from_l3 [OF l2_reach.from_l1 [OF r0 _ s1] _ s2] _ s3])
      (simp_all add: l2_prim_arg_def)
qed

lemma link_lapb_reach:
  obtains s where "l2_reach s" "l2_m_state s = ST_L2_7" "length (unacked s) = 1"
    "l2_vs s = 1" "l2_va s = 0"
proof -
  obtain s where s: "link_lapb = Some s" "l2_m_state s = ST_L2_7" "l2_dist s (l2_vs s) = 1"
    "l2_vs s = 1" "l2_va s = 0"
    using link_lapb_run by auto
  moreover have "length (unacked s) = 1" using s(3) by (simp add: unacked_def)
  ultimately show thesis using that [OF link_lapb_reachable] by blast
qed



text \<open>
  The copy that \<open>l2_pull_iqueue\<close> keeps is not checked. When it fails, the frame goes out and V(S)
  advances, but its slot is empty, and the acknowledgement of the frame meets a null buffer. Where
  the headroom is too short, the new buffer is not checked either.
\<close>

lemma failed_clone_faults:
  "map_option (\<lambda>s. (l2_m_state s, l2_vs s, setva (l2_vs s) s = None))
     (l2_pull_iqueue NoArg (link_up\<lparr>l2_env := env0\<lparr>k_clones := [False]\<rparr>\<rparr>)) = Some (ST_L2_7, 7, True)"
  "l2_pull_iqueue NoArg (link_up\<lparr>l2_i_queue := [skb_new 0 [0xbb]],
     l2_env := env0\<lparr>k_clones := [True, False]\<rparr>\<rparr>) = None"
  by code_simp+

subsection \<open>Properties\<close>

text \<open>
  C1. While the copies that \<open>l2_pull_iqueue\<close> makes of its frames succeed (\<open>clones_ok\<close>; it does not
  check them, see \<open>failed_clone_faults\<close>), a link set up with a window that fits never faults. Any other
  allocation may fail. Whatever primitives layer 1, layer 3 and the TEI manager send, whatever
  bytes a frame from the line contains and however short it is, whether layer 1 answers a pull
  request later or at once, and whenever its timers run out, no handler meets a null buffer, reads
  behind a frame, indexes outside the window or divides by zero.
\<close>

theorem l2_no_fault:
  assumes "l2_reach s" "l2_prim_arg pr arg"
  shows "isdnl2_l1l2 pr arg s \<noteq> None \<and> isdnl2_l3l2 pr arg s \<noteq> None \<and>
    (\<forall>skb. l2_ph_data_ind_now skb s \<noteq> None) \<and> l2_expire_t200 s \<noteq> None \<and> l2_expire_t203 s \<noteq> None"
proof -
  have inv: "l2_inv s" using assms(1) by (rule l2_reach_l2_inv)
  show ?thesis
    using isdnl2_l1l2_ok [OF inv assms(2)] isdnl2_l3l2_ok [OF inv assms(2)]
      l2_ph_data_ind_now_ok [OF inv] l2_expire_t200_ok [OF inv] l2_expire_t203_ok [OF inv]
    unfolding wpo_iff by blast
qed

theorem l2_no_fault_witness:
  "isdnl2_l1l2 (PH_DATA, INDICATION) (Skb (skb_new 0 [0xff])) (setstack_isdnl2 link_new) \<noteq> None"
  using l2_no_fault [OF l2_reach.boot [OF link_new_fresh link_new_clones], of "(PH_DATA, INDICATION)"
      "Skb (skb_new 0 [0xff])"]
  by (simp add: l2_prim_arg_def)

text \<open>
  C2. Layer 2 refines an abstract sender. While the link stays in the multi-frame states, an event
  (other than a SABME of the peer, which resets the link) removes a prefix of the frames not yet
  acknowledged, at most those that have been sent, and appends the frame that layer 3 hands over;
  no frame is lost, repeated or reordered. V(A) advances by the number removed, so every frame keeps
  its sequence number until it is acknowledged.
\<close>

theorem l2_sender_refinement:
  assumes "l2_arq_pre ev arg s"
  shows "\<exists>s'. l2_event ev arg s = Some s' \<and>
    (ST_L2_7 \<le> l2_m_state s' \<longrightarrow>
      (\<exists>n \<le> length (unacked s).
         l2_pending s' = drop n (l2_pending s) @ l2_accepts ev arg \<and>
         l2_va s' = (l2_va s + of_nat n) mod l2_modulus s \<and> l2_modulus s' = l2_modulus s))"
  using l2_event_arq [OF assms] by (auto simp: wpo_iff arq_post_def arq_step_def)

theorem l2_sender_refinement_witness:
  "\<exists>s'. l2_event EV_L2_DL_DATA (Skb frame1) link_up = Some s' \<and>
    (ST_L2_7 \<le> l2_m_state s' \<longrightarrow>
      (\<exists>n \<le> 1. l2_pending s' = drop n (l2_pending link_up) @ [frame1] \<and>
         l2_va s' = (5 + of_nat n) mod 128 \<and> l2_modulus s' = 128))"
  using l2_sender_refinement [of EV_L2_DL_DATA "Skb frame1" link_up]
  by (simp add: l2_arq_pre_def l2_pre_def l2_arg_ok_def link_up_inv link_up_core l2_accepts_def)

text \<open>
  C5. An I frame hands its information field to layer 3, once, exactly when its N(S) is V(R) and the
  link is not busy; then V(R) advances by one. Otherwise nothing is delivered and V(R) stays.
\<close>

theorem l2_in_sequence_delivery:
  assumes "l2_inv s" "ST_L2_7 \<le> l2_m_state s" "super_len s \<le> skb_len skb"
    and "iframe_fields s (skb_bytes skb) = Some (pf, ns, nr)"
  shows "\<exists>s'. l2_got_iframe (Skb skb) s = Some s' \<and>
    (if \<not> test_bit FLG_OWN_BUSY s \<and> ns = l2_vr s
     then l2_delivered s' = l2_delivered s @ [skb_pull (l2headersize s False) skb] \<and>
          l2_vr s' = (l2_vr s + 1) mod l2_modulus s
     else l2_delivered s' = l2_delivered s \<and> l2_vr s' = l2_vr s)"
  using l2_got_iframe_delivers [OF assms] by (auto simp: wpo_iff accepts_iframe_def)

theorem l2_in_sequence_delivery_witness:
  "\<exists>s'. l2_got_iframe (Skb (skb_new 0 [2, 1, 4, 10, 0x77])) link_up = Some s' \<and>
     l2_delivered s' = [skb_new 4 [0x77]] \<and> l2_vr s' = 3"
proof -
  have "iframe_fields link_up (skb_bytes (skb_new 0 [2, 1, 4, 10, 0x77])) = Some (False, 2, 5)"
    by (simp add: iframe_fields_def l2addrsize_def link_defs rd_def)
  moreover have "l2headersize link_up False = 4" "\<not> test_bit FLG_OWN_BUSY link_up"
      "super_len link_up = 4" "l2_delivered link_up = []"
    by (simp_all add: l2headersize_def l2addrsize_def link_defs l2_delivered_def)
  ultimately show ?thesis
    using l2_in_sequence_delivery [of link_up "skb_new 0 [2, 1, 4, 10, 0x77]" False 2 5]
    by (simp add: link_up_inv skb_len_def skb_pull_def skb_new_def)
qed



text \<open>
  C7. While the copies of \<open>l2_pull_iqueue\<close> succeed (\<open>clones_ok\<close>, the condition of \<open>l2_reach\<close>; a copy that
  fails leaves an empty slot: \<open>failed_clone_faults\<close>), the window of every reachable link is sound,
  also when layer 1 pulls at once: V(S) is at most the window size ahead of V(A), every
  slot between them holds a frame, and the sequence numbers are below the modulus.
\<close>

theorem l2_window_sound:
  assumes "l2_reach s" "ST_L2_7 \<le> l2_m_state s"
  shows "length (unacked s) \<le> l2_window s \<and> l2_window s \<le> MAX_WINDOW \<and>
    l2_window s < unat (l2_modulus s) \<and> l2_sow s < l2_window s \<and>
    (\<forall>k < length (unacked s). l2_windowar s ! ((l2_sow s + k) mod l2_window s) = Some (unacked s ! k)) \<and>
    l2_vs s < l2_modulus s \<and> l2_va s < l2_modulus s \<and> l2_vr s < l2_modulus s \<and>
    l2_vs s = (l2_va s + of_nat (length (unacked s))) mod l2_modulus s"
proof -
  have core: "l2_core s" using l2_reach_l2_inv [OF assms(1)] assms(2) by (simp add: l2_inv_core)
  then have "l2_vs s = (l2_va s + of_nat (length (unacked s))) mod l2_modulus s"
    using dist_add [of "l2_vs s" s] by (simp add: core_defs)
  then show ?thesis
    using core by (auto simp: core_defs unacked_def)
qed

theorem l2_window_sound_witness:
  "\<exists>s skb. l2_reach s \<and> l2_windowar s ! ((l2_sow s + 0) mod l2_window s) = Some skb \<and> l2_vs s = 1"
proof -
  obtain s where s: "l2_reach s" "l2_m_state s = ST_L2_7" "length (unacked s) = 1"
    "l2_vs s = 1" "l2_va s = 0"
    by (rule link_lapb_reach)
  have "ST_L2_7 \<le> l2_m_state s" using s(2) by simp
  from l2_window_sound [OF s(1) this]
  have "\<forall>k < length (unacked s).
      l2_windowar s ! ((l2_sow s + k) mod l2_window s) = Some (unacked s ! k)"
    by (elim conjE) assumption
  then have "l2_windowar s ! ((l2_sow s + 0) mod l2_window s) = Some (unacked s ! 0)"
    using s(3) by (metis zero_less_one)
  then show ?thesis using s(1,4) by blast
qed

text \<open>
  C8. On a legal N(R) the acknowledging loop of \<open>setva\<close> ends without a fault. Then V(A) = N(R), exactly
  the frames before N(R) have left the head of the window, and their senders have been woken up
  once each and in order (unless the frame is marked \<open>PACKET_NOACK\<close>).
\<close>

theorem setva_acknowledges:
  assumes "l2_core s" "nr < l2_modulus s" "legalnr nr s"
  shows "\<exists>s'. setva nr s = Some s' \<and> l2_va s' = nr \<and> l2_vs s' = l2_vs s \<and>
    unacked s' = drop (l2_dist s nr) (unacked s) \<and> l2_i_queue s' = l2_i_queue s \<and>
    l2_outs s' = l2_outs s @ wakeups s (take (l2_dist s nr) (unacked s)) \<and> l2_core s'"
proof -
  obtain s' where s': "setva nr s = Some s'" "acked nr s s'"
    using setva_acked [of s nr] assms by (auto simp: core_defs legalnr_def)
  then show ?thesis using setva_ok [OF assms] unfolding acked_def by auto
qed

theorem setva_acknowledges_witness:
  "\<exists>s'. setva 6 link_up = Some s' \<and> unacked s' = [] \<and> l2_va s' = 6"
  using setva_acknowledges [of link_up 6] link_up_core link_up_unacked
  by (auto simp: legalnr_def)

text \<open>
  C9. Retransmission from a legal N(R) on ends without a fault: V(S) goes back to N(R), and the frames
  from N(R) on are taken out of the window and stand, in order, before the rest of the queue.
\<close>

theorem retransmission_requeues:
  assumes "l2_core s" "nr < l2_modulus s" "legalnr nr s"
  shows "\<exists>s'. invoke_retransmission nr s = Some s' \<and> l2_vs s' = nr \<and> l2_va s' = l2_va s \<and>
    unacked s' = take (l2_dist s nr) (unacked s) \<and>
    l2_i_queue s' = drop (l2_dist s nr) (unacked s) @ l2_i_queue s \<and> l2_core s'"
proof (cases "l2_vs s = nr")
  case True
  then show ?thesis using assms by (simp add: invoke_retransmission_def)
next
  case False
  obtain s' where s': "retrans_loop nr s = Some s'" "sent_back nr s s'"
    using retrans_loop_sent_back [of s nr] assms by (auto simp: core_defs legalnr_def)
  then show ?thesis
    using invoke_retransmission_ok [OF assms(1,2) legalnr_le [OF assms(3)]] False
    unfolding sent_back_def by (auto simp: invoke_retransmission_def)
qed

theorem retransmission_requeues_witness:
  "\<exists>s'. invoke_retransmission 5 link_up = Some s' \<and> l2_vs s' = 5 \<and> unacked s' = [] \<and>
     l2_i_queue s' = [frame0, frame1]"
  using retransmission_requeues [of link_up 5] link_up_core link_up_unacked
  by (auto simp: legalnr_def)

text \<open>
  C10. When layer 1 pulls and the window is open, the first frame of the queue is sent: behind a header
  that the peer reads as N(S) = V(S) and N(R) = V(R), and followed by exactly the bytes of the
  frame. It becomes the last of the unacknowledged frames, and V(S) advances by one.
\<close>

theorem pull_sends_next:
  assumes "l2_core s" "l2_m_state s = ST_L2_7" "cansend s" "l2_i_queue s = skb # rest"
    and "same_format s p"
  shows "\<exists>s' out more. l2_pull_iqueue arg s = Some s' \<and>
    unacked s' = unacked s @ [skb] \<and> l2_i_queue s' = rest \<and>
    l2_vs s' = (l2_vs s + 1) mod l2_modulus s \<and>
    l2_outs s' = l2_outs s @ L2L1 (PH_PULL, INDICATION) (Some out) # more \<and>
    iframe_fields p (skb_bytes out) = Some (False, l2_vs s, l2_vr s) \<and>
    skb_bytes (skb_pull (l2headersize p False) out) = skb_bytes skb"
proof -
  obtain s' where s': "l2_pull_iqueue arg s = Some s'" "pulled skb s s'"
    using l2_pull_iqueue_pulled [OF assms(1-4)] by blast
  obtain out more where out: "skb_bytes out = iframe_header s @ skb_bytes skb"
    "l2_outs s' = l2_outs s @ L2L1 (PH_PULL, INDICATION) (Some out) # more"
    using s'(2) unfolding pulled_def by blast
  have "l2_vs s < l2_modulus s" "l2_vr s < l2_modulus s" using assms(1) by (simp_all add: core_defs)
  then have "iframe_fields p (skb_bytes out) = Some (False, l2_vs s, l2_vr s)"
    using iframe_header_parse(1) [OF _ _ assms(5)] out(1) by simp
  moreover have "skb_bytes (skb_pull (l2headersize p False) out) = skb_bytes skb"
    using iframe_header_length [OF assms(5)] out(1) by simp
  ultimately show ?thesis using s' out(2) assms(4) unfolding pulled_def by auto
qed

theorem pull_sends_next_witness:
  "\<exists>s' out more. l2_pull_iqueue NoArg link_up = Some s' \<and> unacked s' = [frame0, frame1] \<and>
     l2_outs s' = L2L1 (PH_PULL, INDICATION) (Some out) # more \<and>
     iframe_fields link_up (skb_bytes out) = Some (False, 6, 2)"
proof -
  have "cansend link_up" by (simp add: cansend_def) (simp add: link_defs)
  moreover have "l2_outs link_up = []" by (simp add: link_defs)
  ultimately show ?thesis
    using pull_sends_next [of link_up frame1 "[]" link_up NoArg] link_up_core link_up_unacked
    by (auto simp: same_format_def)
qed

text \<open>
  A supervisory frame survives the line: RR, RNR or REJ with a poll/final bit and N(R), as
  \<open>enquiry_cr\<close> sends it, passes the length check of the peer, is classified as the same type, and
  carries the same bit and N(R), in modulo 8 and in modulo 128 format.
\<close>

lemma supervisory_roundtrip:
  assumes "l2_vr s < l2_modulus s" "typ \<in> {F_RR, F_RNR, F_REJ}" "same_format s p"
    and "mem_ok (l2_env s)"
  shows "\<exists>out. l2_outs (enquiry_cr typ cr pf s) = l2_outs s @ [L2L1 (PH_DATA, REQUEST) (Some out)] \<and>
    super_error p out = Some 0 \<and>
    super_fields p (skb_bytes (skb_pull (l2addrsize p) out)) = Some (pf, l2_vr s) \<and>
    (let c = skb_bytes out ! l2addrsize p in
       c AND 1 = 1 \<and> IsSFrame c p \<and> (IsREJ c p \<longleftrightarrow> typ = F_REJ) \<and> (IsRNR c p \<longleftrightarrow> typ = F_RNR))"
proof -
  let ?out = "skb_new 0 (sethdraddr s cr @ super_control typ pf s)"
  note pc = super_control_parse [OF assms(1-3), of pf]
  have a: "length (sethdraddr s cr) = l2addrsize p"
    using same_format_addrsize [OF assms(3)] by (simp add: length_sethdraddr_eq)
  obtain c cs where c: "super_control typ pf s = c # cs" "c AND 1 = 1" "IsSFrame c p"
    "IsREJ c p \<longleftrightarrow> typ = F_REJ" "IsRNR c p \<longleftrightarrow> typ = F_RNR"
    using pc(2) by blast
  show ?thesis
    by (rule exI [of _ ?out])
      (use c pc(1,3) a in \<open>simp add: enquiry_cr_outs [OF assms(4)] super_error_def skb_len_def
        skb_pull_def nth_append\<close>)
qed

text \<open>
  C11. A SABME that nobody answers is repeated until the N200-th retry; the next expiry of T200 ends in
  state 4 with no timer left and layer 3 informed, so establishing a link always comes to an end
  (while the D channel is not busy).
\<close>

theorem establish_terminates:
  assumes "l2_reach s" "l2_m_state s = ST_L2_5" "\<not> dchan_wait s" "l2_rc s \<le> l2_N200 s"
  shows "\<exists>s'. l2_expire_times (nat (l2_N200 s - l2_rc s) + 1) s = Some s' \<and>
    l2_m_state s' = ST_L2_4 \<and> \<not> tl_pending (l2_t200 s') \<and>
    (L2L3 (DL_RELEASE, CONFIRM) None \<in> set (l2_outs s') \<or>
     L2L3 (DL_RELEASE, INDICATION) None \<in> set (l2_outs s'))"
  using establish_gives_up [OF l2_reach_l2_inv [OF assms(1)] assms(2-4) refl] by simp

text \<open>A LAPB link that originates the call and has just sent its SABM.\<close>

definition link_calling :: "Layer2 option" where
  "link_calling = isdnl2_l3l2 (DL_ESTABLISH, REQUEST) NoArg
     (setstack_isdnl2 (link_new\<lparr>l2_flag := (\<lambda>f. f \<in> {FLG_LAPB, FLG_ORIG, FLG_L1_ACTIV})\<rparr>))"

lemma link_calling_run:
  "map_option (\<lambda>s. (l2_m_state s, l2_rc s, l2_N200 s, dchan_wait s)) link_calling =
    Some (ST_L2_5, 0, 3, False)"
  by code_simp

theorem establish_terminates_witness:
  "\<exists>s s'. link_calling = Some s \<and> l2_expire_times 4 s = Some s' \<and> l2_m_state s' = ST_L2_4"
proof -
  let ?s0 = "link_new\<lparr>l2_flag := (\<lambda>f. f \<in> {FLG_LAPB, FLG_ORIG, FLG_L1_ACTIV})\<rparr>"
  have "l2_fresh ?s0"
    by (simp add: l2_fresh_def link_defs MAX_WINDOW_def l2_modulus_def)
  then have r0: "l2_reach (setstack_isdnl2 ?s0)"
    by (rule l2_reach.boot) (simp add: link_defs clones_ok_def)
  obtain s where s: "link_calling = Some s" "l2_m_state s = ST_L2_5" "l2_rc s = 0"
    "l2_N200 s = 3" "\<not> dchan_wait s"
    using link_calling_run by (auto simp: map_option_eq_Some)
  have "l2_reach s"
    using l2_reach.from_l3 [OF r0, of "(DL_ESTABLISH, REQUEST)" NoArg s] s(1)
    by (simp add: link_calling_def l2_prim_arg_def)
  then show ?thesis using establish_terminates [of s] s by auto
qed

text \<open>
  C12. The test \<open>legalnr\<close>, a comparison of wrapped differences, accepts exactly the sequence numbers
  from V(A) up to V(A) plus the number of outstanding frames.
\<close>

theorem legalnr_window:
  assumes "l2_core s" "nr < l2_modulus s"
  shows "legalnr nr s \<longleftrightarrow> (\<exists>k \<le> length (unacked s). nr = (l2_va s + of_nat k) mod l2_modulus s)"
  by (rule legalnr_iff [OF assms])

theorem legalnr_window_witness:
  "legalnr 6 link_up \<and> legalnr 5 link_up"
  using legalnr_window [OF link_up_core, of 6] legalnr_window [OF link_up_core, of 5]
  by (auto simp: link_up_unacked intro: exI [of _ 0] exI [of _ 1])

text \<open>
  A state machine built by \<open>FsmNew\<close> dispatches as its node list says: a state and event with a node
  run the routine of the last such node and return 0; anything else, in particular an event or a
  state out of range, changes nothing and returns 1.
\<close>

lemma FsmEvent_dispatches:
  assumes "FsmNew True sc ec fnlist = Inr fsm"
  shows "FsmEvent fsm st event arg s =
    (case (if st s < sc \<and> event < ec then fsm_lookup fnlist (st s) event else None) of
       Some r \<Rightarrow> map_option (\<lambda>s'. (0, s')) (r arg s)
     | None \<Rightarrow> Some (1, s))"
  using assms by (auto simp: FsmNew_ok FsmEvent_fsm_of split: option.split)

end
