(* ===== verification/Hisax_L2_Tei.thy ===== *)
theory Hisax_L2_Tei
  imports Hisax_L2_Props
begin

text \<open>
  Where the TEI of a link comes from: every handler, every event and every entry point of layer 2
  keeps the TEI, drops it, or takes the one that comes with the event.
\<close>

subsection \<open>Where the TEI of a link comes from\<close>

text \<open>Layer 2 keeps its TEI, drops it, or takes the one it is given.\<close>

definition tei_from :: "l2arg \<Rightarrow> Layer2 \<Rightarrow> Layer2 \<Rightarrow> bool" where
  "tei_from arg s s' \<longleftrightarrow>
     l2_tei s' = l2_tei s \<or> l2_tei s' = -1 \<or> arg = TeiArg (l2_tei s')"

lemma acked_tei: "acked nr s s' \<Longrightarrow> l2_tei s' = l2_tei s"
  unfolding acked_def by (elim conjE exE) simp

lemma sent_back_tei: "sent_back nr s s' \<Longrightarrow> l2_tei s' = l2_tei s"
  unfolding sent_back_def by (elim conjE exE) simp

named_theorems tei_ok \<open>what each handler of layer 2 does to the TEI\<close>

lemma setva_step_tei [simp]: "l2_tei (setva_step skb s) = l2_tei s"
  by (simp add: setva_step_def emit_def Let_def)

lemma setva_tei: "setva nr s = Some s' \<Longrightarrow> l2_tei s' = l2_tei s"
proof (induction nr s rule: setva.induct)
  case (1 nr s)
  show ?case
    using 1 by (subst (asm) setva.simps) (auto split: if_splits option.splits)
qed

lemma retrans_loop_tei: "retrans_loop nr s = Some s' \<Longrightarrow> l2_tei s' = l2_tei s"
proof (induction nr s rule: retrans_loop.induct)
  case (1 nr s)
  have step: "l2_tei (retrans_step skb s) = l2_tei s" for skb by (simp add: retrans_step_def)
  show ?case
    using 1 step by (subst (asm) retrans_loop.simps) (auto split: if_splits option.splits)
qed

lemma invoke_retransmission_tei: "invoke_retransmission nr s = Some s' \<Longrightarrow> l2_tei s' = l2_tei s"
  by (auto simp: invoke_retransmission_def bind_eq_Some_conv dest: retrans_loop_tei split: if_splits)

lemma tx_ui_loop_tei: "tx_ui_loop h skbs s = Some s' \<Longrightarrow> l2_tei s' = l2_tei s"
  by (induction skbs arbitrary: s) (auto simp: bind_eq_Some_conv)

lemma tx_ui_tei: "tx_ui s = Some s' \<Longrightarrow> l2_tei s' = l2_tei s"
  by (auto simp: tx_ui_def dest: tx_ui_loop_tei)

lemma st7_super_ack_tei: "st7_super_ack typ nr s = Some s' \<Longrightarrow> l2_tei s' = l2_tei s"
  by (auto simp: st7_super_ack_def bind_eq_Some_conv Let_def split: if_splits
      dest!: setva_tei invoke_retransmission_tei)

lemmas tei_simps = with_skb_def tei_from_def bind_eq_Some_conv Let_def

lemma simple_tei [tei_ok]:
  "l2_mdl_assign arg s = Some s' \<Longrightarrow> tei_from arg s s'"
  "l2_go_st3 arg s = Some s' \<Longrightarrow> tei_from arg s s'"
  "l2_establish arg s = Some s' \<Longrightarrow> tei_from arg s s'"
  "l2_discard_i_setl3 arg s = Some s' \<Longrightarrow> tei_from arg s s'"
  "l2_l3_reestablish arg s = Some s' \<Longrightarrow> tei_from arg s s'"
  "l2_release arg s = Some s' \<Longrightarrow> tei_from arg s s'"
  "l2_pend_rel arg s = Some s' \<Longrightarrow> tei_from arg s s'"
  "l2_disconnect arg s = Some s' \<Longrightarrow> tei_from arg s s'"
  "l2_feed_i_if_reest arg s = Some s' \<Longrightarrow> tei_from arg s s'"
  "l2_feed_i_pull arg s = Some s' \<Longrightarrow> tei_from arg s s'"
  "l2_feed_iqueue arg s = Some s' \<Longrightarrow> tei_from arg s s'"
  "l2_queue_ui_assign arg s = Some s' \<Longrightarrow> tei_from arg s s'"
  "l2_queue_ui arg s = Some s' \<Longrightarrow> tei_from arg s s'"
  "l2_st24_tei_remove arg s = Some s' \<Longrightarrow> tei_from arg s s'"
  "l2_st3_tei_remove arg s = Some s' \<Longrightarrow> tei_from arg s s'"
  "l2_st5_tei_remove arg s = Some s' \<Longrightarrow> tei_from arg s s'"
  "l2_st6_tei_remove arg s = Some s' \<Longrightarrow> tei_from arg s s'"
  "l2_tei_remove arg s = Some s' \<Longrightarrow> tei_from arg s s'"
  "l2_start_multi arg s = Some s' \<Longrightarrow> tei_from arg s s'"
  "l2_send_UA arg s = Some s' \<Longrightarrow> tei_from arg s s'"
  "l2_send_DM arg s = Some s' \<Longrightarrow> tei_from arg s s'"
  "l2_stop_multi arg s = Some s' \<Longrightarrow> tei_from arg s s'"
  "l2_mdl_error_ua arg s = Some s' \<Longrightarrow> tei_from arg s s'"
  "l2_released arg s = Some s' \<Longrightarrow> tei_from arg s s'"
  "l2_reestablish arg s = Some s' \<Longrightarrow> tei_from arg s s'"
  "l2_st5_dm_release arg s = Some s' \<Longrightarrow> tei_from arg s s'"
  "l2_st6_dm_release arg s = Some s' \<Longrightarrow> tei_from arg s s'"
  "l2_mdl_error_dm arg s = Some s' \<Longrightarrow> tei_from arg s s'"
  "l2_st8_mdl_error_dm arg s = Some s' \<Longrightarrow> tei_from arg s s'"
  "l2_got_ui arg s = Some s' \<Longrightarrow> tei_from arg s s'"
  "l2_got_FRMR arg s = Some s' \<Longrightarrow> tei_from arg s s'"
  "l2_st5_tout_200 arg s = Some s' \<Longrightarrow> tei_from arg s s'"
  "l2_st6_tout_200 arg s = Some s' \<Longrightarrow> tei_from arg s s'"
  "l2_st7_tout_200 arg s = Some s' \<Longrightarrow> tei_from arg s s'"
  "l2_st8_tout_200 arg s = Some s' \<Longrightarrow> tei_from arg s s'"
  "l2_st7_tout_203 arg s = Some s' \<Longrightarrow> tei_from arg s s'"
  "l2_set_own_busy arg s = Some s' \<Longrightarrow> tei_from arg s s'"
  "l2_clear_own_busy arg s = Some s' \<Longrightarrow> tei_from arg s s'"
  "l2_frame_error arg s = Some s' \<Longrightarrow> tei_from arg s s'"
  "l2_frame_error_reest arg s = Some s' \<Longrightarrow> tei_from arg s s'"
  "l2_st14_persistant_da arg s = Some s' \<Longrightarrow> tei_from arg s s'"
  "l2_st5_persistant_da arg s = Some s' \<Longrightarrow> tei_from arg s s'"
  "l2_st6_persistant_da arg s = Some s' \<Longrightarrow> tei_from arg s s'"
  "l2_persistant_da arg s = Some s' \<Longrightarrow> tei_from arg s s'"
  by (auto simp: tei_simps l2_mdl_assign_def l2_go_st3_def l2_establish_def l2_discard_i_setl3_def l2_l3_reestablish_def l2_release_def l2_pend_rel_def l2_disconnect_def l2_feed_i_if_reest_def l2_feed_i_pull_def l2_feed_iqueue_def l2_queue_ui_assign_def l2_queue_ui_def l2_st24_tei_remove_def l2_st3_tei_remove_def l2_st5_tei_remove_def l2_st6_tei_remove_def l2_tei_remove_def l2_start_multi_def l2_send_UA_def l2_send_DM_def l2_stop_multi_def l2_mdl_error_ua_def l2_released_def l2_reestablish_def l2_st5_dm_release_def l2_st6_dm_release_def l2_mdl_error_dm_def l2_st8_mdl_error_dm_def l2_got_ui_def l2_got_FRMR_def l2_st5_tout_200_def l2_st6_tout_200_def l2_st7_tout_200_def l2_st8_tout_200_def l2_st7_tout_203_def l2_set_own_busy_def l2_clear_own_busy_def l2_frame_error_def l2_frame_error_reest_def l2_st14_persistant_da_def l2_st5_persistant_da_def l2_st6_persistant_da_def l2_persistant_da_def
      split: l2arg.splits if_splits)

text \<open>The branches of a handler end in links with the same TEI.\<close>

lemma tei_if: "l2_tei (if b then s else s') = (if b then l2_tei s else l2_tei s')"
  by simp

lemma l2_send_ui_tei [tei_ok]: "l2_send_ui arg s = Some s' \<Longrightarrow> tei_from arg s s'"
  by (auto simp: tei_simps l2_send_ui_def split: l2arg.splits dest!: tx_ui_tei)

lemma l2_got_tei_tei [tei_ok]: "l2_got_tei arg s = Some s' \<Longrightarrow> tei_from arg s s'"
  by (cases arg; simp add: tei_simps l2_got_tei_def split: if_splits) (auto dest!: tx_ui_tei)

lemma l2_got_iframe_tei [tei_ok]:
  assumes "l2_got_iframe arg s = Some s'"
  shows "tei_from arg s s'"
proof -
  obtain skb pf ns nr where skb: "arg = Skb skb" "iframe_fields s (skb_bytes skb) = Some (pf, ns, nr)"
    using assms by (auto simp: l2_got_iframe_def with_skb_def bind_eq_Some_conv split: l2arg.splits)
  define s1 where "s1 = iframe_receive skb pf ns s"
  have t1: "l2_tei s1 = l2_tei s" by (simp add: s1_def)
  show ?thesis
  proof (cases "legalnr nr s1")
    case True
    then obtain s2 where s2: "setva nr (iframe_timers nr s1) = Some s2"
      using assms skb by (auto simp: l2_got_iframe_def s1_def [symmetric] bind_eq_Some_conv Let_def)
    have "l2_tei s2 = l2_tei s" using setva_tei [OF s2] t1 by simp
    then show ?thesis
      using assms skb True s2
      by (simp add: l2_got_iframe_def s1_def [symmetric] Let_def tei_from_def tei_if) (auto simp: tei_if)
  next
    case False
    then show ?thesis
      using assms skb t1 by (auto simp: l2_got_iframe_def s1_def [symmetric] tei_from_def)
  qed
qed

lemma l2_connected_tei [tei_ok]: "l2_connected arg s = Some s' \<Longrightarrow> tei_from arg s s'"
  by (cases arg; cases "get_PollFlag s (case arg of Skb x \<Rightarrow> x)";
      simp add: tei_simps tei_if l2_connected_def l2_disconnect_def l2_mdl_error_ua_def
       split_beta split: option.split_asm if_split_asm) auto

lemma l2_restart_multi_tei [tei_ok]: "l2_restart_multi arg s = Some s' \<Longrightarrow> tei_from arg s s'"
  by (cases arg) (auto simp: tei_simps tei_if l2_restart_multi_def)

definition same_tei :: "int \<Rightarrow> Layer2 \<Rightarrow> bool" where
  "same_tei t s \<longleftrightarrow> l2_tei s = t"

lemma same_tei_if [simp]:
  "same_tei t (if b then s else s') = (if b then same_tei t s else same_tei t s')"
  "same_tei t (fst (if b then p else q)) = (if b then same_tei t (fst p) else same_tei t (fst q))"
  by simp_all

lemma setva_same: "same_tei t s \<Longrightarrow> wlp (setva nr s) (same_tei t)"
  using setva_tei by (simp add: wlp_def same_tei_def)

lemma invoke_retransmission_same: "same_tei t s \<Longrightarrow> wlp (invoke_retransmission nr s) (same_tei t)"
  using invoke_retransmission_tei by (simp add: wlp_def same_tei_def)

lemma st7_super_ack_same: "same_tei t s \<Longrightarrow> wlp (st7_super_ack typ nr s) (same_tei t)"
  using st7_super_ack_tei by (simp add: wlp_def same_tei_def)

lemma same_tei_ops [simp]:
  "same_tei t (set_peer_busy s) = same_tei t s"
  "same_tei t (clear_peer_busy s) = same_tei t s"
  "same_tei t (ma_error c s) = same_tei t s"
  "same_tei t (enquiry_response s) = same_tei t s"
  "same_tei t (pull_req s) = same_tei t s"
  "same_tei t (nrerrorrecovery s) = same_tei t s"
  "same_tei t (restart_t200 s) = same_tei t s"
  "same_tei t (add_t203 s) = same_tei t s"
  "same_tei t (stop_t200 s) = same_tei t s"
  "same_tei t (FsmChangeState2 k s) = same_tei t s"
  by (simp_all add: same_tei_def)

lemma l2_st7_got_super_same:
  assumes "same_tei t s"
  shows "wlp (l2_st7_got_super arg s) (same_tei t)"
proof (cases arg)
  case (Skb skb)
  show ?thesis
    unfolding l2_st7_got_super_def Skb with_skb_Skb split_beta
    by (rule wlp_bind_any, rule wlp_Let_any, rule wlp_Let_any, rule wlp_bind_any,
        rule wlp_LetI [where R = "\<lambda>x. same_tei t (fst x)"], simp add: assms,
        rule wlp_Let_any, rule wlp_bind_any, rule wlp_LetI [where R = "same_tei t"], simp,
        rule wlp_ifI, rule wlp_bindI, erule st7_super_ack_same, simp_all)
qed (simp_all add: l2_st7_got_super_def with_skb_def)

lemma l2_st8_got_super_same:
  assumes "same_tei t s"
  shows "wlp (l2_st8_got_super arg s) (same_tei t)"
proof (cases arg)
  case (Skb skb)
  have retr: "wlp (invoke_retransmission nr s2)
      (\<lambda>s. same_tei t (if l2_i_queue (FsmChangeState2 ST_L2_7 s) \<noteq> [] \<and> cansend (FsmChangeState2 ST_L2_7 s)
         then pull_req (FsmChangeState2 ST_L2_7 s) else FsmChangeState2 ST_L2_7 s))"
    if "same_tei t s2" for s2 nr
    using invoke_retransmission_same [OF that] by (simp add: wlp_def)
  show ?thesis
    unfolding l2_st8_got_super_def Skb with_skb_Skb split_beta
    by (rule wlp_bind_any, rule wlp_Let_any, rule wlp_Let_any, rule wlp_bind_any, rule wlp_Let_any,
        rule wlp_LetI [where R = "same_tei t"], simp add: assms, rule wlp_bind_any,
        rule wlp_ifI, rule wlp_ifI, rule wlp_bindI [where R = "same_tei t"], rule wlp_ifI, simp,
        rule setva_same, simp, rule wlp_bindI [where R = "same_tei t"],
        erule invoke_retransmission_same, simp add: Let_def, simp,
        rule wlp_LetI [where R = "same_tei t"], simp, rule wlp_ifI, erule setva_same, simp)
qed (simp_all add: l2_st8_got_super_def with_skb_def)

lemma super_tei [tei_ok]:
  "l2_st7_got_super arg s = Some s' \<Longrightarrow> tei_from arg s s'"
  "l2_st8_got_super arg s = Some s' \<Longrightarrow> tei_from arg s s'"
  using wlpD [OF l2_st7_got_super_same, of "l2_tei s" s arg s']
    wlpD [OF l2_st8_got_super_same, of "l2_tei s" s arg s']
  by (simp_all add: same_tei_def tei_from_def)

lemma pull_send_same [simp]: "l2_tei (pull_send skb s) = l2_tei s"
  by (simp add: pull_send_def Let_def)

lemma l2_pull_iqueue_same:
  assumes "same_tei t s"
  shows "wlp (l2_pull_iqueue arg s) (same_tei t)"
proof (cases "cansend s \<and> l2_i_queue s \<noteq> [] \<and> pull_slot s < length (l2_windowar s)")
  case True
  then obtain skb rest where q: "l2_i_queue s = skb # rest" by (auto simp: neq_Nil_conv)
  then show ?thesis
    using True assms
    unfolding l2_pull_iqueue_def clone_skb2_def
    by (simp add: Let_def split_beta del: same_tei_if)
      (intro conjI impI wlp_bindI [where R = "\<lambda>x. same_tei t (snd x)"];
       simp add: wlp_def bind_eq_Some_conv same_tei_def
         split: if_split_asm; auto)
next
  case False
  then show ?thesis using assms by (auto simp: l2_pull_iqueue_def split: list.split)
qed


lemma l2_pull_iqueue_tei [tei_ok]: "l2_pull_iqueue arg s = Some s' \<Longrightarrow> tei_from arg s s'"
  using wlpD [OF l2_pull_iqueue_same, of "l2_tei s" s arg s'] by (simp add: same_tei_def tei_from_def)

lemma L2FnList_tei:
  "\<forall>n \<in> set L2FnList. \<forall>arg s s'. nd_routine n arg s = Some s' \<longrightarrow> tei_from arg s s'"
  unfolding L2FnList_def by (simp add: tei_ok)

text \<open>Whatever happens to a link, its TEI is kept, dropped, or the one given with the event.\<close>

lemma l2_event_tei:
  assumes "l2_event ev arg s = Some s'"
  shows "tei_from arg s s'"
proof (cases "if L2_STATE_COUNT \<le> l2_m_state s \<or> L2_EVENT_COUNT \<le> ev then None
              else fsm_lookup L2FnList (l2_m_state s) ev")
  case None
  then have "s' = s"
    using assms by (auto simp: l2_event_def l2fsm_def FsmEvent_fsm_of split: if_splits)
  then show ?thesis by (simp add: tei_from_def)
next
  case (Some r)
  then have look: "fsm_lookup L2FnList (l2_m_state s) ev = Some r" by (simp split: if_splits)
  then obtain n where "n \<in> set L2FnList" "nd_routine n = r" by (auto dest: fsm_lookup_SomeD)
  moreover have "r arg s = Some s'"
    using assms Some look
    by (auto simp: l2_event_def l2fsm_def FsmEvent_fsm_of split: if_splits)
  ultimately show ?thesis using L2FnList_tei by auto
qed

lemma isdnl2_l3l2_tei: "isdnl2_l3l2 pr arg s = Some s' \<Longrightarrow> tei_from arg s s'"
  by (auto simp: isdnl2_l3l2_def tei_from_def dest!: l2_event_tei split: if_split_asm)

lemma checked_event_tei:
  "checked_event chk ev skb s = Some s' \<Longrightarrow> l2_tei s' = l2_tei s \<or> l2_tei s' = -1"
  by (auto simp: checked_event_def bind_eq_Some_conv tei_from_def dest!: l2_event_tei
      split: if_split_asm)

lemma l2_ph_data_ind_tei:
  "l2_ph_data_ind skb s = Some s' \<Longrightarrow> l2_tei s' = l2_tei s \<or> l2_tei s' = -1"
  by (auto simp: l2_ph_data_ind_def bind_eq_Some_conv tei_from_def
      dest!: l2_event_tei checked_event_tei split: if_split_asm)

lemma isdnl2_l1l2_tei:
  "isdnl2_l1l2 pr arg s = Some s' \<Longrightarrow> l2_prim_arg pr arg \<Longrightarrow> l2_tei s' = l2_tei s \<or> l2_tei s' = -1"
  by (auto simp: isdnl2_l1l2_def l2_prim_arg_def tei_from_def Let_def
      dest!: l2_event_tei l2_ph_data_ind_tei split: if_split_asm l2arg.split_asm)

text \<open>The same with the answer of layer 1 inside.\<close>

lemma pull_now_tei: "pull_now s = Some s' \<Longrightarrow> l2_tei s' = l2_tei s \<or> l2_tei s' = -1"
  using l2_event_tei [of EV_L2_ACK_PULL NoArg "pull_req s" s'] by (auto simp: pull_now_def tei_from_def)

lemma st7_super_ack_now_tei:
  "st7_super_ack_now rej nr s = Some s' \<Longrightarrow> l2_tei s' = l2_tei s \<or> l2_tei s' = -1"
  by (auto simp: st7_super_ack_now_def invoke_retransmission_now_def bind_eq_Some_conv
      dest!: pull_now_tei setva_tei retrans_loop_tei st7_super_ack_tei split: if_split_asm)

lemma l2_got_iframe_now_tei:
  assumes "l2_got_iframe_now (Skb skb) s = Some s'"
  shows "l2_tei s' = l2_tei s \<or> l2_tei s' = -1"
proof -
  obtain pf ns nr where flds: "iframe_fields s (skb_bytes skb) = Some (pf, ns, nr)"
    using assms by (auto simp: l2_got_iframe_now_def bind_eq_Some_conv)
  define s1 where "s1 = iframe_receive skb pf ns s"
  have t1: "l2_tei s1 = l2_tei s" by (simp add: s1_def)
  show ?thesis
  proof (cases "legalnr nr s1")
    case True
    then obtain s2 s3 where s2: "setva nr (iframe_timers nr s1) = Some s2"
      and s3: "(if l2_i_queue s2 \<noteq> [] \<and> l2_m_state s2 = ST_L2_7 then pull_now s2 else Some s2) = Some s3"
      and s': "s' = (if test_bit FLG_ACK_PEND s3
             then enquiry_cr F_RR RSP False (clear_bit2 FLG_ACK_PEND s3) else s3)"
      using assms flds unfolding l2_got_iframe_now_def s1_def [symmetric]
      by (auto simp: bind_eq_Some_conv Let_def s1_def [symmetric])
    have "l2_tei s2 = l2_tei s" using setva_tei [OF s2] t1 by simp
    then have "l2_tei s3 = l2_tei s \<or> l2_tei s3 = -1"
      using s3 pull_now_tei [of s2 s3] by (auto split: if_split_asm)
    then show ?thesis by (simp add: s' tei_if)
  next
    case False
    then show ?thesis
      using assms flds t1 by (auto simp: l2_got_iframe_now_def s1_def [symmetric])
  qed
qed

definition kept_tei :: "int \<Rightarrow> Layer2 \<Rightarrow> bool" where
  "kept_tei t s \<longleftrightarrow> l2_tei s = t \<or> l2_tei s = -1"

lemma st7_super_ack_now_kept: "same_tei t s \<Longrightarrow> wlp (st7_super_ack_now rej nr s) (kept_tei t)"
  using st7_super_ack_now_tei by (auto simp: wlp_def same_tei_def kept_tei_def)

lemma pull_now_kept: "kept_tei t s \<Longrightarrow> wlp (pull_now s) (kept_tei t)"
  unfolding wlp_def kept_tei_def by (metis pull_now_tei)

lemma l2_st7_got_super_now_tei:
  assumes "l2_st7_got_super_now (Skb skb) s = Some s'"
  shows "l2_tei s' = l2_tei s \<or> l2_tei s' = -1"
proof -
  have same: "same_tei (l2_tei s) s" by (simp add: same_tei_def)
  have rec: "same_tei t s1 \<Longrightarrow> kept_tei t (nrerrorrecovery s1)" for t s1
    by (simp add: kept_tei_def same_tei_def)
  have "wlp (l2_st7_got_super_now (Skb skb) s) (kept_tei (l2_tei s))"
    unfolding l2_st7_got_super_now_def with_skb_Skb split_beta
    by (rule wlp_bind_any, rule wlp_Let_any, rule wlp_Let_any, rule wlp_bind_any,
        rule wlp_LetI [where R = "\<lambda>x. same_tei (l2_tei s) (fst x)"], simp add: same,
        rule wlp_Let_any, rule wlp_bind_any, rule wlp_LetI [where R = "same_tei (l2_tei s)"], simp,
        rule wlp_ifI, rule wlp_bindI, erule st7_super_ack_now_kept, rule wlp_ifI,
        erule pull_now_kept, simp, simp add: rec)
  then show ?thesis using wlpD assms by (fastforce simp: kept_tei_def)
qed

lemma l2_ph_data_ind_now_tei:
  "l2_ph_data_ind_now skb s = Some s' \<Longrightarrow> l2_tei s' = l2_tei s \<or> l2_tei s' = -1"
  by (auto simp: l2_ph_data_ind_now_def bind_eq_Some_conv
      dest!: l2_ph_data_ind_tei l2_got_iframe_now_tei l2_st7_got_super_now_tei split: if_split_asm)

lemma l2_expire_tei:
  "l2_expire_t200 s = Some s' \<Longrightarrow> l2_tei s' = l2_tei s \<or> l2_tei s' = -1"
  "l2_expire_t203 s = Some s' \<Longrightarrow> l2_tei s' = l2_tei s \<or> l2_tei s' = -1"
  by (auto simp: l2_expire_t200_def l2_expire_t203_def tei_from_def dest!: l2_event_tei
      split: if_split_asm)

end
