(* ===== verification/Hisax_Tei.thy ===== *)
theory Hisax_Tei
  imports Hisax_L2_Tei
begin

text \<open>
  The TEI manager, \<open>hisax/tei.c\<close>: it asks the network for a terminal endpoint identifier when layer 2
  needs one, answers identity checks, verifies and removes identifiers. It sees all stacks of a
  card, because two of them must not use the same identifier.

  A card is the list of its stacks (\<open>cs->stlist\<close>); a handler gets the index of its stack. Calls to
  layer 2 are made on the model of \<open>isdnl2.c\<close>. \<open>cardmsg\<close> calls are recorded. A handler can raise an event
  on another stack, so the table takes the dispatcher as a parameter; \<open>tei_event\<close> ties the knot
  with a nesting depth, of which two levels are used.
\<close>

subsection \<open>Stacks and cards\<close>

record Management =
  ma_ri :: int
  ma_state :: nat
  ma_t202 :: FsmTimer
  ma_T202 :: int
  ma_N202 :: int

record PStack =
  stk_l2 :: Layer2
  stk_ma :: Management

record IsdnCard =
  stlist :: "PStack list"
  cardmsgs :: "prim list"

abbreviation (input) ST_TEI_NOP :: nat where "ST_TEI_NOP \<equiv> 0"
abbreviation (input) ST_TEI_IDREQ :: nat where "ST_TEI_IDREQ \<equiv> 1"
abbreviation (input) ST_TEI_IDVERIFY :: nat where "ST_TEI_IDVERIFY \<equiv> 2"
abbreviation (input) TEI_STATE_COUNT :: nat where "TEI_STATE_COUNT \<equiv> 3"

abbreviation (input) EV_IDREQ :: nat where "EV_IDREQ \<equiv> 0"
abbreviation (input) EV_ASSIGN :: nat where "EV_ASSIGN \<equiv> 1"
abbreviation (input) EV_DENIED :: nat where "EV_DENIED \<equiv> 2"
abbreviation (input) EV_CHKREQ :: nat where "EV_CHKREQ \<equiv> 3"
abbreviation (input) EV_REMOVE :: nat where "EV_REMOVE \<equiv> 4"
abbreviation (input) EV_VERIFY :: nat where "EV_VERIFY \<equiv> 5"
abbreviation (input) EV_T202 :: nat where "EV_T202 \<equiv> 6"
abbreviation (input) TEI_EVENT_COUNT :: nat where "TEI_EVENT_COUNT \<equiv> 7"

abbreviation (input) ID_REQUEST :: u8 where "ID_REQUEST \<equiv> 1"
abbreviation (input) ID_ASSIGNED :: u8 where "ID_ASSIGNED \<equiv> 2"
abbreviation (input) ID_DENIED :: u8 where "ID_DENIED \<equiv> 3"
abbreviation (input) ID_CHK_REQ :: u8 where "ID_CHK_REQ \<equiv> 4"
abbreviation (input) ID_CHK_RES :: u8 where "ID_CHK_RES \<equiv> 5"
abbreviation (input) ID_REMOVE :: u8 where "ID_REMOVE \<equiv> 6"
abbreviation (input) ID_VERIFY :: u8 where "ID_VERIFY \<equiv> 7"
abbreviation (input) TEI_ENTITY_ID :: u8 where "TEI_ENTITY_ID \<equiv> 0xf"

text \<open>Work on the stack with index \<open>i\<close>; a stack that is not there is a fault.\<close>

definition on_stack :: "nat \<Rightarrow> (PStack \<Rightarrow> PStack option) \<Rightarrow> IsdnCard \<Rightarrow> IsdnCard option" where
  "on_stack i f c =
     (if i < length (stlist c)
      then map_option (\<lambda>st. c\<lparr>stlist := (stlist c)[i := st]\<rparr>) (f (stlist c ! i)) else None)"

definition cardmsg :: "prim \<Rightarrow> IsdnCard \<Rightarrow> IsdnCard" where
  "cardmsg pr c = c\<lparr>cardmsgs := cardmsgs c @ [pr]\<rparr>"

definition st_tei :: "PStack \<Rightarrow> int" where
  "st_tei st = l2_tei (stk_l2 st)"

subsection \<open>Identities and messages\<close>

definition random_ri :: "PStack \<Rightarrow> int \<times> PStack" where
  "random_ri st = (case k_rand (l2_env (stk_l2 st)) of
     (x, env) \<Rightarrow> (uint (x AND 0xffff), st\<lparr>stk_l2 := (stk_l2 st)\<lparr>l2_env := env\<rparr>\<rparr>))"

text \<open>The index of the first stack with a TEI; 127 is the group TEI and belongs to nobody.\<close>

fun find_index :: "int \<Rightarrow> nat \<Rightarrow> PStack list \<Rightarrow> nat option" where
  "find_index tei k [] = None"
| "find_index tei k (st # sts) =
     (if st_tei st = tei then Some k else find_index tei (Suc k) sts)"

definition findtei :: "IsdnCard \<Rightarrow> int \<Rightarrow> nat option" where
  "findtei c tei = (if tei = 127 then None else find_index tei 0 (stlist c))"

definition tei_msg :: "u8 \<Rightarrow> int \<Rightarrow> int \<Rightarrow> u8 list" where
  "tei_msg m_id ri tei =
     [push_bit 2 TEI_SAPI, push_bit 1 GROUP_TEI OR 1, F_UI,
      TEI_ENTITY_ID, of_int (ri div 256), of_int (ri mod 256), m_id,
      push_bit 1 (of_int tei) OR 1]"

definition put_tei_msg :: "u8 \<Rightarrow> int \<Rightarrow> int \<Rightarrow> PStack \<Rightarrow> PStack" where
  "put_tei_msg m_id ri tei st =
     (case alloc_skb2 (stk_l2 st) of (ok, l2) \<Rightarrow>
        st\<lparr>stk_l2 := (if ok
                      then emit (L2L1 (PH_DATA, REQUEST) (Some (skb_new 0 (tei_msg m_id ri tei)))) l2
                      else l2)\<rparr>)"

definition msg_ri :: "u8 list \<Rightarrow> int" where
  "msg_ri d = uint (d ! 1) * 256 + uint (d ! 2)"

definition msg_tei :: "u8 list \<Rightarrow> int" where
  "msg_tei d = uint (drop_bit 1 (d ! 4))"

definition tei_state :: "nat \<Rightarrow> PStack \<Rightarrow> PStack" where
  "tei_state n st = st\<lparr>stk_ma := (stk_ma st)\<lparr>ma_state := n\<rparr>\<rparr>"

definition add_t202 :: "PStack \<Rightarrow> PStack" where
  "add_t202 st = st\<lparr>stk_ma := (stk_ma st)\<lparr>ma_t202 :=
     snd (FsmAddTimer (l2_env (stk_l2 st)) (ma_T202 (stk_ma st)) EV_T202 (ma_t202 (stk_ma st)))\<rparr>\<rparr>"

definition del_t202 :: "PStack \<Rightarrow> PStack" where
  "del_t202 st = st\<lparr>stk_ma := (stk_ma st)\<lparr>ma_t202 := FsmDelTimer (ma_t202 (stk_ma st))\<rparr>\<rparr>"

definition set_ri :: "int \<Rightarrow> PStack \<Rightarrow> PStack" where
  "set_ri ri st = st\<lparr>stk_ma := (stk_ma st)\<lparr>ma_ri := ri\<rparr>\<rparr>"

definition set_N202 :: "int \<Rightarrow> PStack \<Rightarrow> PStack" where
  "set_N202 n st = st\<lparr>stk_ma := (stk_ma st)\<lparr>ma_N202 := n\<rparr>\<rparr>"

text \<open>\<open>st->l3.l3l2\<close>: the request goes into layer 2 of the same stack.\<close>

definition tei_l3l2 :: "prim \<Rightarrow> l2arg \<Rightarrow> PStack \<Rightarrow> PStack option" where
  "tei_l3l2 pr arg st = map_option (\<lambda>l2. st\<lparr>stk_l2 := l2\<rparr>) (isdnl2_l3l2 pr arg (stk_l2 st))"

subsection \<open>Handlers\<close>

text \<open>The argument of an event: the frame behind its three octets of header, or nothing.\<close>

type_synonym tei_arg = "nat \<times> u8 list option"

definition with_msg :: "tei_arg \<Rightarrow> (nat \<Rightarrow> u8 list \<Rightarrow> IsdnCard option) \<Rightarrow> IsdnCard option" where
  "with_msg arg f =
     (case snd arg of Some d \<Rightarrow> if length d < 5 then None else f (fst arg) d | None \<Rightarrow> None)"

definition request_id :: "PStack \<Rightarrow> PStack" where
  "request_id st = (case random_ri st of (ri, st) \<Rightarrow> put_tei_msg ID_REQUEST ri 127 (set_ri ri st))"

definition tei_id_request :: "tei_arg \<Rightarrow> IsdnCard \<Rightarrow> IsdnCard option" where
  "tei_id_request arg c = on_stack (fst arg) (\<lambda>st.
     Some (if st_tei st \<noteq> -1 then st
           else set_N202 3 (add_t202 (tei_state ST_TEI_IDREQ (request_id st))))) c"

text \<open>\<open>l2tei\<close> is the entry point from layer 2 of the other stack, \<open>tei_l2tei\<close> below.\<close>

definition tei_id_assign ::
  "(nat \<Rightarrow> prim \<Rightarrow> IsdnCard \<Rightarrow> IsdnCard option) \<Rightarrow> tei_arg \<Rightarrow> IsdnCard \<Rightarrow> IsdnCard option" where
  "tei_id_assign l2tei arg c = with_msg arg (\<lambda>i d.
     case findtei c (msg_tei d) of
       Some ost \<Rightarrow> if msg_ri d \<noteq> ma_ri (stk_ma (stlist c ! ost))
                  then l2tei ost (MDL_ERROR, RESPONSE) c else Some c
     | None \<Rightarrow>
         if i < length (stlist c) \<and> msg_ri d \<noteq> ma_ri (stk_ma (stlist c ! i)) then Some c
         else map_option (cardmsg (MDL_ASSIGN, REQUEST))
                (on_stack i (\<lambda>st. tei_l3l2 (MDL_ASSIGN, REQUEST) (TeiArg (msg_tei d))
                                    (tei_state ST_TEI_NOP (del_t202 st))) c))"

definition tei_id_test_dup ::
  "(nat \<Rightarrow> tei_arg \<Rightarrow> IsdnCard \<Rightarrow> IsdnCard option) \<Rightarrow> tei_arg \<Rightarrow> IsdnCard \<Rightarrow> IsdnCard option" where
  "tei_id_test_dup event arg c = with_msg arg (\<lambda>i d.
     case findtei c (msg_tei d) of
       Some ost \<Rightarrow> if msg_ri d \<noteq> ma_ri (stk_ma (stlist c ! ost)) then event EV_VERIFY (ost, None) c
                  else Some c
     | None \<Rightarrow> Some c)"

definition tei_id_denied :: "tei_arg \<Rightarrow> IsdnCard \<Rightarrow> IsdnCard option" where
  "tei_id_denied arg c = with_msg arg (\<lambda>i d. Some c)"

text \<open>A message is for a stack that has a TEI if it names that TEI or the group.\<close>

definition for_stack :: "u8 list \<Rightarrow> PStack \<Rightarrow> bool" where
  "for_stack d st \<longleftrightarrow>
     st_tei st \<noteq> -1 \<and> (msg_tei d = uint GROUP_TEI \<or> msg_tei d = st_tei st)"

definition tei_id_chk_req :: "tei_arg \<Rightarrow> IsdnCard \<Rightarrow> IsdnCard option" where
  "tei_id_chk_req arg c = with_msg arg (\<lambda>i d. on_stack i (\<lambda>st.
     Some (if for_stack d st
           then (let st = tei_state ST_TEI_NOP (del_t202 st);
                     (ri, st) = random_ri st
                 in put_tei_msg ID_CHK_RES ri (st_tei st) st)
           else st)) c)"

definition tei_id_remove :: "tei_arg \<Rightarrow> IsdnCard \<Rightarrow> IsdnCard option" where
  "tei_id_remove arg c = with_msg arg (\<lambda>i d.
     if i < length (stlist c) \<and> \<not> for_stack d (stlist c ! i) then Some c
     else map_option (cardmsg (MDL_REMOVE, REQUEST))
            (on_stack i (\<lambda>st. tei_l3l2 (MDL_REMOVE, REQUEST) NoArg
                                (tei_state ST_TEI_NOP (del_t202 st))) c))"

definition tei_id_verify :: "tei_arg \<Rightarrow> IsdnCard \<Rightarrow> IsdnCard option" where
  "tei_id_verify arg c = on_stack (fst arg) (\<lambda>st.
     Some (set_N202 2 (add_t202 (tei_state ST_TEI_IDVERIFY
       (put_tei_msg ID_VERIFY 0 (st_tei st) st))))) c"

text \<open>Both timeouts count N202 down, repeat their message, and give up at zero.\<close>

definition N202_left :: "PStack \<Rightarrow> bool" where
  "N202_left st \<longleftrightarrow> ma_N202 (stk_ma st) - 1 \<noteq> 0"

definition count_N202 :: "PStack \<Rightarrow> PStack" where
  "count_N202 st = set_N202 (ma_N202 (stk_ma st) - 1) st"

definition tei_id_req_tout :: "tei_arg \<Rightarrow> IsdnCard \<Rightarrow> IsdnCard option" where
  "tei_id_req_tout arg c =
     (let i = fst arg in
      if \<not> i < length (stlist c) then None
      else if N202_left (stlist c ! i)
      then on_stack i (\<lambda>st. Some (add_t202 (request_id (count_N202 st)))) c
      else do {
        c \<leftarrow> on_stack i (\<lambda>st. tei_l3l2 (MDL_ERROR, RESPONSE) NoArg (count_N202 st)) c;
        on_stack i (\<lambda>st. Some (tei_state ST_TEI_NOP st)) (cardmsg (MDL_REMOVE, REQUEST) c)
      })"

definition tei_id_ver_tout :: "tei_arg \<Rightarrow> IsdnCard \<Rightarrow> IsdnCard option" where
  "tei_id_ver_tout arg c =
     (let i = fst arg in
      if \<not> i < length (stlist c) then None
      else if N202_left (stlist c ! i)
      then on_stack i (\<lambda>st. Some (add_t202 (put_tei_msg ID_VERIFY 0 (st_tei st) (count_N202 st)))) c
      else do {
        c \<leftarrow> on_stack i (\<lambda>st. tei_l3l2 (MDL_REMOVE, REQUEST) NoArg (count_N202 st)) c;
        on_stack i (\<lambda>st. Some (tei_state ST_TEI_NOP st)) (cardmsg (MDL_REMOVE, REQUEST) c)
      })"

subsection \<open>Requests from layer 2\<close>

definition fixed_tei :: "nat \<Rightarrow> IsdnCard \<Rightarrow> bool" where
  "fixed_tei i c \<longleftrightarrow> test_bit FLG_FIXED_TEI (stk_l2 (stlist c ! i))"

definition tei_l2tei_with ::
  "(nat \<Rightarrow> tei_arg \<Rightarrow> IsdnCard \<Rightarrow> IsdnCard option) \<Rightarrow> nat \<Rightarrow> prim \<Rightarrow> IsdnCard \<Rightarrow> IsdnCard option" where
  "tei_l2tei_with event i pr c =
     (if fixed_tei i c then
        (if pr = (MDL_ASSIGN, INDICATION)
         then map_option (cardmsg (MDL_ASSIGN, REQUEST))
                (on_stack i (\<lambda>st. tei_l3l2 (MDL_ASSIGN, REQUEST) (TeiArg (st_tei st)) st) c)
         else Some c)
      else if pr = (MDL_ASSIGN, INDICATION) then event EV_IDREQ (i, None) c
      else if pr = (MDL_ERROR, REQUEST) then event EV_VERIFY (i, None) c
      else Some c)"

subsection \<open>The table and its dispatcher\<close>

definition TeiFnList ::
  "(nat \<Rightarrow> tei_arg \<Rightarrow> IsdnCard \<Rightarrow> IsdnCard option) \<Rightarrow>
   (tei_arg \<Rightarrow> IsdnCard \<Rightarrow> IsdnCard option) FsmNode list" where
  "TeiFnList event =
    [FsmNode ST_TEI_NOP EV_IDREQ tei_id_request,
     FsmNode ST_TEI_NOP EV_ASSIGN (tei_id_test_dup event),
     FsmNode ST_TEI_NOP EV_VERIFY tei_id_verify,
     FsmNode ST_TEI_NOP EV_REMOVE tei_id_remove,
     FsmNode ST_TEI_NOP EV_CHKREQ tei_id_chk_req,
     FsmNode ST_TEI_IDREQ EV_T202 tei_id_req_tout,
     FsmNode ST_TEI_IDREQ EV_ASSIGN (tei_id_assign (tei_l2tei_with event)),
     FsmNode ST_TEI_IDREQ EV_DENIED tei_id_denied,
     FsmNode ST_TEI_IDVERIFY EV_T202 tei_id_ver_tout,
     FsmNode ST_TEI_IDVERIFY EV_REMOVE tei_id_remove,
     FsmNode ST_TEI_IDVERIFY EV_CHKREQ tei_id_chk_req]"

definition tei_st :: "nat \<Rightarrow> IsdnCard \<Rightarrow> nat" where
  "tei_st i c = ma_state (stk_ma (stlist c ! i))"

primrec tei_event :: "nat \<Rightarrow> nat \<Rightarrow> tei_arg \<Rightarrow> IsdnCard \<Rightarrow> IsdnCard option" where
  "tei_event 0 ev arg c = None"
| "tei_event (Suc depth) ev arg c =
     map_option snd (FsmEvent (fsm_of TEI_STATE_COUNT TEI_EVENT_COUNT (TeiFnList (tei_event depth)))
                       (tei_st (fst arg)) ev arg c)"

abbreviation tei_fsm_event :: "nat \<Rightarrow> tei_arg \<Rightarrow> IsdnCard \<Rightarrow> IsdnCard option" where
  "tei_fsm_event \<equiv> tei_event 2"

subsection \<open>Entry points\<close>

text \<open>A frame for the management SAPI: header and entity checked, then by message type.\<close>

definition tei_l1l2 :: "nat \<Rightarrow> prim \<Rightarrow> sk_buff \<Rightarrow> IsdnCard \<Rightarrow> IsdnCard option" where
  "tei_l1l2 i pr skb c =
     (let d = skb_bytes skb; m = drop 3 d in
      if fixed_tei i c then Some c
      else if pr \<noteq> (PH_DATA, INDICATION) then Some c
      else if length d < 3 then Some c
      else if d ! 0 \<noteq> push_bit 2 TEI_SAPI OR 2 \<or> d ! 1 \<noteq> push_bit 1 GROUP_TEI OR 1 then Some c
      else if d ! 2 AND 0xef \<noteq> F_UI then Some c
      else if length m < 5 then Some c
      else if m ! 0 \<noteq> TEI_ENTITY_ID then Some c
      else if m ! 3 = ID_ASSIGNED then tei_fsm_event EV_ASSIGN (i, Some m) c
      else if m ! 3 = ID_DENIED then tei_fsm_event EV_DENIED (i, Some m) c
      else if m ! 3 = ID_CHK_REQ then tei_fsm_event EV_CHKREQ (i, Some m) c
      else if m ! 3 = ID_REMOVE then tei_fsm_event EV_REMOVE (i, Some m) c
      else Some c)"

definition tei_l2tei :: "nat \<Rightarrow> prim \<Rightarrow> IsdnCard \<Rightarrow> IsdnCard option" where
  "tei_l2tei = tei_l2tei_with tei_fsm_event"

definition tei_expire :: "nat \<Rightarrow> IsdnCard \<Rightarrow> IsdnCard option" where
  "tei_expire i c =
     (if \<not> i < length (stlist c) then None
      else if tl_pending (ma_t202 (stk_ma (stlist c ! i)))
      then do {
        c' \<leftarrow> on_stack i (\<lambda>st. Some (del_t202 st)) c;
        tei_fsm_event (tm_event (ma_t202 (stk_ma (stlist c ! i)))) (i, None) c'
      } else Some c)"

definition setstack_tei :: "PStack \<Rightarrow> PStack" where
  "setstack_tei st = tei_state ST_TEI_NOP
     (st\<lparr>stk_ma := (stk_ma st)\<lparr>ma_T202 := 2000, ma_t202 := FsmInitTimer (ma_t202 (stk_ma st))\<rparr>\<rparr>)"

definition release_tei :: "IsdnCard \<Rightarrow> IsdnCard" where
  "release_tei c = c\<lparr>stlist := map del_t202 (stlist c)\<rparr>"

definition TeiNew :: "bool \<Rightarrow> int + (tei_arg \<Rightarrow> IsdnCard \<Rightarrow> IsdnCard option) Fsm" where
  "TeiNew kmalloc_ok =
     FsmNew kmalloc_ok TEI_STATE_COUNT TEI_EVENT_COUNT (TeiFnList (tei_event 1))"

subsection \<open>Layer 2 on top of the manager\<close>

text \<open>The calls \<open>st->l2.l2tei\<close> that a step of layer 2 made, in order.\<close>

fun deliver_tei :: "nat \<Rightarrow> l2out list \<Rightarrow> IsdnCard \<Rightarrow> IsdnCard option" where
  "deliver_tei i [] c = Some c"
| "deliver_tei i (L2TEI pr # outs) c = do { c' \<leftarrow> tei_l2tei i pr c; deliver_tei i outs c' }"
| "deliver_tei i (out # outs) c = deliver_tei i outs c"

text \<open>A step of layer 2 of stack \<open>i\<close>. The handlers call the TEI manager as their last action.\<close>

definition stack_l2 :: "nat \<Rightarrow> (Layer2 \<Rightarrow> Layer2 option) \<Rightarrow> IsdnCard \<Rightarrow> IsdnCard option" where
  "stack_l2 i f c =
     (if \<not> i < length (stlist c) then None
      else (let n = length (l2_outs (stk_l2 (stlist c ! i))) in do {
        c' \<leftarrow> on_stack i (\<lambda>st. map_option (\<lambda>l2. st\<lparr>stk_l2 := l2\<rparr>) (f (stk_l2 st))) c;
        deliver_tei i (drop n (l2_outs (stk_l2 (stlist c' ! i)))) c'
      }))"

end
