(* ===== verification/Hisax_Tei_Inv.thy ===== *)
theory Hisax_Tei_Inv
  imports Hisax_Tei
begin

text \<open>
  The TEI manager keeps its invariant and faults on nothing: every stack stays a sound layer 2 link,
  T202 runs exactly while an identity is being requested or verified, the retry counter stays
  between 1 and 3, and no two stacks of a card have the same TEI.
\<close>

subsection \<open>The invariant of a card\<close>

text \<open>A stack whose T202 may just have run out (\<open>late\<close>), or not.\<close>

definition ma_ok :: "bool \<Rightarrow> Management \<Rightarrow> bool" where
  "ma_ok late m \<longleftrightarrow> ma_state m < TEI_STATE_COUNT \<and>
     (tl_pending (ma_t202 m) \<longleftrightarrow> ma_state m \<noteq> ST_TEI_NOP \<and> \<not> late) \<and>
     (tl_pending (ma_t202 m) \<longrightarrow> tm_event (ma_t202 m) = EV_T202) \<and>
     (late \<longrightarrow> ma_state m \<noteq> ST_TEI_NOP) \<and>
     (ma_state m \<noteq> ST_TEI_NOP \<longrightarrow> 1 \<le> ma_N202 m \<and> ma_N202 m \<le> 3)"

definition stack_ok :: "bool \<Rightarrow> PStack \<Rightarrow> bool" where
  "stack_ok late st \<longleftrightarrow> l2_inv (stk_l2 st) \<and> ma_ok late (stk_ma st)"

text \<open>The TEIs in use: -1 is no TEI, 127 the group.\<close>

definition teis :: "IsdnCard \<Rightarrow> int list" where
  "teis c = filter (\<lambda>t. t \<noteq> -1 \<and> t \<noteq> 127) (map st_tei (stlist c))"

definition card_ok :: "nat option \<Rightarrow> IsdnCard \<Rightarrow> bool" where
  "card_ok late c \<longleftrightarrow>
     (\<forall>i < length (stlist c). stack_ok (late = Some i) (stlist c ! i)) \<and> distinct (teis c)"

abbreviation tei_inv :: "IsdnCard \<Rightarrow> bool" where
  "tei_inv \<equiv> card_ok None"

subsection \<open>Changing one stack\<close>

lemma findtei_None:
  assumes "findtei c tei = None" "tei \<noteq> 127" "st \<in> set (stlist c)"
  shows "st_tei st \<noteq> tei"
proof -
  have "find_index tei k sts = None \<Longrightarrow> st \<in> set sts \<Longrightarrow> st_tei st \<noteq> tei" for k sts
    by (induction tei k sts rule: find_index.induct) (auto split: if_splits)
  then show ?thesis using assms by (auto simp: findtei_def)
qed

lemma findtei_Some: "findtei c tei = Some j \<Longrightarrow> j < length (stlist c) \<and> st_tei (stlist c ! j) = tei"
proof -
  have "find_index tei k sts = Some j \<Longrightarrow> k \<le> j \<and> j - k < length sts \<and> st_tei (sts ! (j - k)) = tei"
    for k sts
  proof (induction tei k sts arbitrary: j rule: find_index.induct)
    case (2 tei k st sts)
    show ?case
    proof (cases "st_tei st = tei")
      case False
      then have s: "Suc k \<le> j \<and> j - Suc k < length sts \<and> st_tei (sts ! (j - Suc k)) = tei"
        using 2 by simp
      moreover have "j - k = Suc (j - Suc k)" using s by linarith
      ultimately show ?thesis by simp
    qed (use 2 in auto)
  qed simp
  from this [of 0 "stlist c"] show "findtei c tei = Some j \<Longrightarrow> ?thesis"
    by (auto simp: findtei_def split: if_splits)
qed

text \<open>A new TEI of one stack that no other stack has keeps the TEIs apart.\<close>

lemma distinct_teis_update:
  assumes "distinct (filter P (map f xs))" "i < length xs"
    and "f x = f (xs ! i) \<or> \<not> P (f x) \<or> (\<forall>y \<in> set xs. f y \<noteq> f x)"
  shows "distinct (filter P (map f (xs[i := x])))"
proof -
  have split: "xs = take i xs @ xs ! i # drop (Suc i) xs"
    using assms(2) by (rule id_take_nth_drop)
  have upd: "xs[i := x] = take i xs @ x # drop (Suc i) xs"
    using assms(2) by (rule upd_conv_take_nth_drop)
  let ?a = "filter P (map f (take i xs))" and ?b = "filter P (map f (drop (Suc i) xs))"
  have "distinct (?a @ filter P [f (xs ! i)] @ ?b)"
    using assms(1) by (subst (asm) split) (auto split: if_split_asm)
  note d = this
  show ?thesis
  proof (cases "f x = f (xs ! i)")
    case True
    then have "map f (xs[i := x]) = map f xs"
      using assms(2) by (simp add: map_update list_update_same_conv)
    then show ?thesis using assms(1) by simp
  next
    case False
    have "\<forall>y \<in> set xs. f y \<noteq> f x \<Longrightarrow> f x \<notin> set ?a \<and> f x \<notin> set ?b"
      by (auto dest: in_set_takeD in_set_dropD)
    then show ?thesis
      using False assms(3) d unfolding upd by (auto split: if_split_asm)
  qed
qed

lemma card_ok_update:
  assumes "card_ok late c" "i < length (stlist c)" "late' = None \<or> late' = Some i"
    "late = None \<or> late = Some i"
    "stack_ok (late' = Some i) st"
    "st_tei st = st_tei (stlist c ! i) \<or> st_tei st = -1 \<or> st_tei st = 127 \<or>
     (\<forall>y \<in> set (stlist c). st_tei y \<noteq> st_tei st)"
  shows "card_ok late' (c\<lparr>stlist := (stlist c)[i := st]\<rparr>)"
proof -
  have "distinct (teis (c\<lparr>stlist := (stlist c)[i := st]\<rparr>))"
    using assms(1,2,6) distinct_teis_update [of "\<lambda>t. t \<noteq> -1 \<and> t \<noteq> 127" st_tei "stlist c" i st]
    by (simp add: card_ok_def teis_def)
  moreover have "stack_ok (late' = Some j) ((stlist c)[i := st] ! j)" if "j < length (stlist c)" for j
    using assms that by (cases "j = i") (auto simp: card_ok_def)
  ultimately show ?thesis by (simp add: card_ok_def)
qed

lemma card_ok_cardmsg [simp]: "card_ok late (cardmsg pr c) = card_ok late c"
  by (simp add: card_ok_def cardmsg_def teis_def)

lemma length_cardmsg [simp]: "stlist (cardmsg pr c) = stlist c"
  by (simp add: cardmsg_def)

text \<open>The rule for a handler that works on its own stack.\<close>

lemma on_stack_ok:
  assumes "card_ok late c" "i < length (stlist c)" "late = None \<or> late = Some i"
    "late' = None \<or> late' = Some i"
    "wpo (f (stlist c ! i)) (\<lambda>st. stack_ok (late' = Some i) st \<and>
       (st_tei st = st_tei (stlist c ! i) \<or> st_tei st = -1 \<or> st_tei st = 127 \<or>
        (\<forall>y \<in> set (stlist c). st_tei y \<noteq> st_tei st)))"
  shows "wpo (on_stack i f c) (\<lambda>c'. card_ok late' c' \<and> length (stlist c') = length (stlist c))"
  using assms card_ok_update [OF assms(1,2,4,3)]
  by (auto simp: on_stack_def wpo_iff)

subsection \<open>Handlers\<close>

lemma l2_inv_env: "l2_inv s \<Longrightarrow> clones_ok k \<Longrightarrow> l2_inv (s\<lparr>l2_env := k\<rparr>)"
  by (simp add: l2_inv_defs)

lemma l2_inv_mem: "l2_inv s \<Longrightarrow> clones_ok (l2_env s)"
  by (simp add: l2_inv_defs)

lemma stack_ops [simp]:
  "stk_l2 (tei_state n st) = stk_l2 st" "stk_l2 (add_t202 st) = stk_l2 st"
  "stk_l2 (del_t202 st) = stk_l2 st" "stk_l2 (set_ri ri st) = stk_l2 st"
  "stk_l2 (set_N202 k st) = stk_l2 st"
  "st_tei (tei_state n st) = st_tei st" "st_tei (add_t202 st) = st_tei st"
  "st_tei (del_t202 st) = st_tei st" "st_tei (set_ri ri st) = st_tei st"
  "st_tei (set_N202 k st) = st_tei st" "st_tei (put_tei_msg m r t st) = st_tei st"
  "st_tei (snd (random_ri st)) = st_tei st"
  "stk_ma (put_tei_msg m r t st) = stk_ma st" "stk_ma (snd (random_ri st)) = stk_ma st"
  by (simp_all add: tei_state_def add_t202_def del_t202_def set_ri_def set_N202_def put_tei_msg_def
      random_ri_def st_tei_def alloc_skb2_def split_beta)

lemma l2_inv_put_tei_msg [simp]: "l2_inv (stk_l2 st) \<Longrightarrow> l2_inv (stk_l2 (put_tei_msg m r t st))"
  by (simp add: put_tei_msg_def alloc_skb2_def l2_inv_env l2_inv_mem split: prod.split)

lemma l2_inv_random_ri [simp]: "l2_inv (stk_l2 st) \<Longrightarrow> l2_inv (stk_l2 (snd (random_ri st)))"
  by (simp add: random_ri_def split_beta l2_inv_env l2_inv_mem)

lemma ma_ops [simp]:
  "ma_state (stk_ma (tei_state n st)) = n" "ma_state (stk_ma (add_t202 st)) = ma_state (stk_ma st)"
  "ma_state (stk_ma (del_t202 st)) = ma_state (stk_ma st)"
  "ma_state (stk_ma (set_ri ri st)) = ma_state (stk_ma st)"
  "ma_state (stk_ma (set_N202 k st)) = ma_state (stk_ma st)"
  "ma_t202 (stk_ma (tei_state n st)) = ma_t202 (stk_ma st)"
  "ma_t202 (stk_ma (set_ri ri st)) = ma_t202 (stk_ma st)"
  "ma_t202 (stk_ma (set_N202 k st)) = ma_t202 (stk_ma st)"
  "tl_pending (ma_t202 (stk_ma (add_t202 st)))"
  "tm_event (ma_t202 (stk_ma (add_t202 st))) =
     (if tl_pending (ma_t202 (stk_ma st)) then tm_event (ma_t202 (stk_ma st)) else EV_T202)"
  "ma_t202 (stk_ma (del_t202 st)) = FsmDelTimer (ma_t202 (stk_ma st))"
  "ma_N202 (stk_ma (tei_state n st)) = ma_N202 (stk_ma st)"
  "ma_N202 (stk_ma (add_t202 st)) = ma_N202 (stk_ma st)"
  "ma_N202 (stk_ma (del_t202 st)) = ma_N202 (stk_ma st)"
  "ma_N202 (stk_ma (set_ri ri st)) = ma_N202 (stk_ma st)"
  "ma_N202 (stk_ma (set_N202 k st)) = k"
  by (simp_all add: tei_state_def add_t202_def del_t202_def set_ri_def set_N202_def)

lemma request_id_ops [simp]:
  "st_tei (request_id st) = st_tei st"
  "ma_state (stk_ma (request_id st)) = ma_state (stk_ma st)"
  "ma_t202 (stk_ma (request_id st)) = ma_t202 (stk_ma st)"
  "ma_N202 (stk_ma (request_id st)) = ma_N202 (stk_ma st)"
  "l2_inv (stk_l2 st) \<Longrightarrow> l2_inv (stk_l2 (request_id st))"
  by (simp_all add: request_id_def split_beta)

text \<open>The arguments of the requests the TEI manager makes of layer 2.\<close>

lemma tei_l3l2_ok:
  assumes "stack_ok late st" "l2_prim_arg pr arg"
  shows "wpo (tei_l3l2 pr arg st) (\<lambda>st'. l2_inv (stk_l2 st') \<and> stk_ma st' = stk_ma st \<and>
     (st_tei st' = st_tei st \<or> st_tei st' = -1 \<or> arg = TeiArg (st_tei st')))"
  using isdnl2_l3l2_ok [of "stk_l2 st" pr arg] assms isdnl2_l3l2_tei [of pr arg "stk_l2 st"]
  by (auto simp: tei_l3l2_def wpo_iff stack_ok_def st_tei_def tei_from_def)

definition tei_arg_ok :: "nat \<Rightarrow> tei_arg \<Rightarrow> bool" where
  "tei_arg_ok ev arg \<longleftrightarrow>
     (ev \<in> {EV_ASSIGN, EV_DENIED, EV_CHKREQ, EV_REMOVE} \<longrightarrow>
        (case snd arg of Some d \<Rightarrow> 5 \<le> length d | None \<Rightarrow> False))"

definition tei_post :: "IsdnCard \<Rightarrow> IsdnCard \<Rightarrow> bool" where
  "tei_post c c' \<longleftrightarrow> tei_inv c' \<and> length (stlist c') = length (stlist c)"

lemma with_msg_ok [simp]: "5 \<le> length d \<Longrightarrow> with_msg (i, Some d) f = f i d"
  by (simp add: with_msg_def)

lemma card_stack: "card_ok late c \<Longrightarrow> i < length (stlist c) \<Longrightarrow> stack_ok (late = Some i) (stlist c ! i)"
  by (simp add: card_ok_def)

named_theorems tei_handler \<open>one fact per handler of the TEI manager\<close>

lemma tei_post_refl [simp]: "tei_inv c \<Longrightarrow> tei_post c c"
  by (simp add: tei_post_def)

lemma on_stack_post:
  assumes "card_ok late c" "i < length (stlist c)" "late = None \<or> late = Some i"
    "wpo (f (stlist c ! i)) (\<lambda>st. stack_ok False st \<and>
       (st_tei st = st_tei (stlist c ! i) \<or> st_tei st = -1 \<or> st_tei st = 127 \<or>
        (\<forall>y \<in> set (stlist c). st_tei y \<noteq> st_tei st)))"
  shows "wpo (on_stack i f c) (tei_post c)"
  by (rule wpo_mono [OF on_stack_ok [OF assms(1-3), of None f]])
    (use assms(4) in \<open>simp_all add: tei_post_def\<close>)

lemma tei_id_request_ok [tei_handler]:
  assumes "tei_inv c" "i < length (stlist c)" "tei_st i c = ST_TEI_NOP"
  shows "wpo (tei_id_request (i, d) c) (tei_post c)"
  unfolding tei_id_request_def fst_conv
  by (rule on_stack_post [OF assms(1,2)])
    (use card_stack [OF assms(1,2)] assms(3) in \<open>simp_all add: stack_ok_def ma_ok_def tei_st_def\<close>)

lemma tei_id_verify_ok [tei_handler]:
  assumes "tei_inv c" "i < length (stlist c)" "tei_st i c = ST_TEI_NOP"
  shows "wpo (tei_id_verify (i, d) c) (tei_post c)"
  unfolding tei_id_verify_def fst_conv
  by (rule on_stack_post [OF assms(1,2)])
    (use card_stack [OF assms(1,2)] assms(3) in \<open>simp_all add: stack_ok_def ma_ok_def tei_st_def\<close>)

lemma tei_id_chk_req_ok [tei_handler]:
  assumes "tei_inv c" "i < length (stlist c)" "5 \<le> length d"
  shows "wpo (tei_id_chk_req (i, Some d) c) (tei_post c)"
  unfolding tei_id_chk_req_def with_msg_ok [OF assms(3)]
  by (rule on_stack_post [OF assms(1,2)])
    (use card_stack [OF assms(1,2)] in \<open>simp_all add: stack_ok_def ma_ok_def Let_def split_beta\<close>)

lemma tei_id_denied_ok [tei_handler]:
  "tei_inv c \<Longrightarrow> 5 \<le> length d \<Longrightarrow> wpo (tei_id_denied (i, Some d) c) (tei_post c)"
  by (simp add: tei_id_denied_def)

lemma wpo_map [simp]: "wpo (map_option g m) Q = wpo m (\<lambda>x. Q (g x))"
  by (cases m) simp_all

lemma tei_post_cardmsg [simp]: "tei_post c (cardmsg pr c') = tei_post c c'"
  by (simp add: tei_post_def)

lemma tei_id_remove_ok [tei_handler]:
  assumes "tei_inv c" "i < length (stlist c)" "5 \<le> length d"
  shows "wpo (tei_id_remove (i, Some d) c) (tei_post c)"
proof -
  let ?st = "tei_state ST_TEI_NOP (del_t202 (stlist c ! i))"
  have st: "stack_ok False ?st"
    using card_stack [OF assms(1,2)] by (simp add: stack_ok_def ma_ok_def)
  have "wpo (on_stack i (\<lambda>st. tei_l3l2 (MDL_REMOVE, REQUEST) NoArg
               (tei_state ST_TEI_NOP (del_t202 st))) c) (tei_post c)"
    by (rule on_stack_post [OF assms(1,2)],
        simp, rule wpo_mono [OF tei_l3l2_ok [OF st]])
      (use st in \<open>auto simp: l2_prim_arg_def stack_ok_def\<close>)
  then show ?thesis
    unfolding tei_id_remove_def with_msg_ok [OF assms(3)] using assms(1) by simp
qed

lemma tei_id_assign_ok [tei_handler]:
  assumes "tei_inv c" "i < length (stlist c)" "5 \<le> length d"
    and "\<And>j. wpo (l2tei j (MDL_ERROR, RESPONSE) c) (tei_post c)"
  shows "wpo (tei_id_assign l2tei (i, Some d) c) (tei_post c)"
proof (cases "findtei c (msg_tei d)")
  case (Some ost)
  then show ?thesis
    unfolding tei_id_assign_def with_msg_ok [OF assms(3)] using assms(1,4) by simp
next
  case None
  let ?st = "tei_state ST_TEI_NOP (del_t202 (stlist c ! i))"
  have st: "stack_ok False ?st"
    using card_stack [OF assms(1,2)] by (simp add: stack_ok_def ma_ok_def)
  have "wpo (on_stack i (\<lambda>st. tei_l3l2 (MDL_ASSIGN, REQUEST) (TeiArg (msg_tei d))
               (tei_state ST_TEI_NOP (del_t202 st))) c) (tei_post c)"
    by (rule on_stack_post [OF assms(1,2)],
        simp, rule wpo_mono [OF tei_l3l2_ok [OF st]])
      (use st findtei_None [OF None] in \<open>auto simp: l2_prim_arg_def stack_ok_def\<close>)
  then show ?thesis
    unfolding tei_id_assign_def with_msg_ok [OF assms(3)] using None assms(1) by simp
qed

lemma tei_id_test_dup_ok [tei_handler]:
  assumes "tei_inv c" "5 \<le> length d"
    and "\<And>j. j < length (stlist c) \<Longrightarrow> wpo (event EV_VERIFY (j, None) c) (tei_post c)"
  shows "wpo (tei_id_test_dup event (i, Some d) c) (tei_post c)"
  unfolding tei_id_test_dup_def with_msg_ok [OF assms(2)]
  using assms(1,3) findtei_Some [of c "msg_tei d"] by (auto split: option.split)

subsection \<open>Timeouts\<close>

text \<open>Two pieces of work on one stack with a card message between them.\<close>

lemma on_stack_twice:
  "(on_stack i f c \<bind> (\<lambda>c. on_stack i g (cardmsg pr c))) =
   map_option (cardmsg pr) (on_stack i (\<lambda>st. f st \<bind> g) c)"
proof (cases "f (stlist c ! i)")
  case (Some st)
  then show ?thesis by (cases "g st") (simp_all add: on_stack_def cardmsg_def)
qed (simp add: on_stack_def)

lemma giveup_ok:
  assumes "card_ok (Some i) c" "i < length (stlist c)" "l2_prim_arg pr NoArg"
  shows "wpo (on_stack i (\<lambda>st. tei_l3l2 pr NoArg (count_N202 st) \<bind>
           (\<lambda>st. Some (tei_state ST_TEI_NOP st))) c) (tei_post c)"
proof -
  let ?st = "stlist c ! i"
  have st: "stack_ok True ?st" using card_stack [OF assms(1,2)] by simp
  have l3l2: "wpo (tei_l3l2 pr NoArg (count_N202 ?st)) (\<lambda>st'. l2_inv (stk_l2 st') \<and>
      stk_ma st' = stk_ma (count_N202 ?st) \<and> (st_tei st' = st_tei ?st \<or> st_tei st' = -1))"
    using isdnl2_l3l2_ok [of "stk_l2 ?st" pr NoArg] assms(3) st
      isdnl2_l3l2_tei [of pr NoArg "stk_l2 ?st"]
    by (auto simp: tei_l3l2_def wpo_iff stack_ok_def st_tei_def tei_from_def count_N202_def)
  have ma: "\<not> tl_pending (ma_t202 (stk_ma (count_N202 ?st)))"
    using st by (simp add: stack_ok_def ma_ok_def count_N202_def)
  show ?thesis
    by (rule on_stack_post [OF assms(1,2)], simp, simp, rule wpo_mono [OF l3l2])
      (use ma in \<open>auto simp: stack_ok_def ma_ok_def\<close>)
qed

lemma tei_id_req_tout_ok [tei_handler]:
  assumes "card_ok (Some i) c" "i < length (stlist c)" "tei_st i c = ST_TEI_IDREQ"
  shows "wpo (tei_id_req_tout (i, d) c) (tei_post c)"
proof (cases "N202_left (stlist c ! i)")
  case True
  have "wpo (on_stack i (\<lambda>st. Some (add_t202 (request_id (count_N202 st)))) c) (tei_post c)"
    by (rule on_stack_post [OF assms(1,2)])
      (use True card_stack [OF assms(1,2)] assms(3) in
        \<open>simp_all add: stack_ok_def ma_ok_def tei_st_def count_N202_def N202_left_def\<close>)
  then show ?thesis using True assms(2) by (simp add: tei_id_req_tout_def)
next
  case False
  then show ?thesis
    using giveup_ok [OF assms(1,2), of "(MDL_ERROR, RESPONSE)"] assms(2)
    by (simp add: tei_id_req_tout_def on_stack_twice l2_prim_arg_def)
qed

lemma tei_id_ver_tout_ok [tei_handler]:
  assumes "card_ok (Some i) c" "i < length (stlist c)" "tei_st i c = ST_TEI_IDVERIFY"
  shows "wpo (tei_id_ver_tout (i, d) c) (tei_post c)"
proof (cases "N202_left (stlist c ! i)")
  case True
  have "wpo (on_stack i (\<lambda>st. Some (add_t202 (put_tei_msg ID_VERIFY 0 (st_tei st) (count_N202 st)))) c)
      (tei_post c)"
    by (rule on_stack_post [OF assms(1,2)])
      (use True card_stack [OF assms(1,2)] assms(3) in
        \<open>simp_all add: stack_ok_def ma_ok_def tei_st_def count_N202_def N202_left_def\<close>)
  then show ?thesis using True assms(2) by (simp add: tei_id_ver_tout_def)
next
  case False
  then show ?thesis
    using giveup_ok [OF assms(1,2), of "(MDL_REMOVE, REQUEST)"] assms(2)
    by (simp add: tei_id_ver_tout_def on_stack_twice l2_prim_arg_def)
qed

subsection \<open>The table\<close>

lemma TeiFnList_VERIFY:
  "fsm_lookup (TeiFnList event) s EV_VERIFY =
     (if s = ST_TEI_NOP then Some tei_id_verify else None)"
  by (simp add: fsm_lookup_def TeiFnList_def)

lemma tei_event_VERIFY:
  assumes "tei_inv c" "j < length (stlist c)"
  shows "wpo (tei_event (Suc depth) EV_VERIFY (j, None) c) (tei_post c)"
proof -
  have "tei_st j c < TEI_STATE_COUNT"
    using card_stack [OF assms] by (simp add: stack_ok_def ma_ok_def tei_st_def)
  then show ?thesis
    using tei_id_verify_ok [OF assms, of None] assms(1)
    by (auto simp: FsmEvent_fsm_of TeiFnList_VERIFY wpo_iff)
qed

lemma tei_l2tei_with_ok:
  assumes "tei_inv c" "i < length (stlist c)" "\<And>ev. ev \<in> {EV_IDREQ, EV_VERIFY} \<Longrightarrow>
      wpo (event ev (i, None) c) (tei_post c)"
  shows "wpo (tei_l2tei_with event i pr c) (tei_post c)"
proof -
  have st: "stack_ok False (stlist c ! i)" using card_stack [OF assms(1,2)] by simp
  have "wpo (on_stack i (\<lambda>st. tei_l3l2 (MDL_ASSIGN, REQUEST) (TeiArg (st_tei st)) st) c) (tei_post c)"
    by (rule on_stack_post [OF assms(1,2)], simp, rule wpo_mono [OF tei_l3l2_ok [OF st]])
      (use st in \<open>auto simp: l2_prim_arg_def stack_ok_def\<close>)
  then show ?thesis using assms by (simp add: tei_l2tei_with_def)
qed

lemma tei_l2tei_error: "tei_inv c \<Longrightarrow> wpo (tei_l2tei_with event i (MDL_ERROR, RESPONSE) c) (tei_post c)"
  by (simp add: tei_l2tei_with_def)

definition tei_pre :: "nat \<Rightarrow> tei_arg \<Rightarrow> IsdnCard \<Rightarrow> bool" where
  "tei_pre ev arg c \<longleftrightarrow> fst arg < length (stlist c) \<and> tei_arg_ok ev arg \<and>
     card_ok (if ev = EV_T202 then Some (fst arg) else None) c"

lemma TeiFnList_ok:
  assumes "n \<in> set (TeiFnList (tei_event (Suc 0)))" "nd_state n = tei_st (fst arg) c"
    "tei_pre (nd_event n) arg c"
  shows "wpo (nd_routine n arg c) (tei_post c)"
proof -
  obtain i d where arg: "arg = (i, d)" by (cases arg)
  have "\<And>j. j < length (stlist c) \<Longrightarrow> tei_inv c \<Longrightarrow>
      wpo (tei_event (Suc 0) EV_VERIFY (j, None) c) (tei_post c)"
    by (rule tei_event_VERIFY)
  then show ?thesis
    using assms unfolding TeiFnList_def arg
    by (auto simp: tei_pre_def tei_arg_ok_def tei_l2tei_error split: option.splits
        intro!: tei_handler simp del: tei_event.simps)
qed

lemma TeiFnList_range:
  "\<forall>n \<in> set (TeiFnList event). nd_state n < TEI_STATE_COUNT \<and> nd_event n < TEI_EVENT_COUNT"
  by (simp add: TeiFnList_def)

lemma TeiFnList_T202:
  "\<exists>n \<in> set (TeiFnList event). nd_state n = ST_TEI_IDREQ \<and> nd_event n = EV_T202"
  "\<exists>n \<in> set (TeiFnList event). nd_state n = ST_TEI_IDVERIFY \<and> nd_event n = EV_T202"
  by (simp_all add: TeiFnList_def)

interpretation tei_table: fsm_table TEI_STATE_COUNT TEI_EVENT_COUNT
  "TeiFnList (tei_event (Suc 0))" "tei_st i"
  "\<lambda>ev arg c. tei_pre ev arg c \<and> fst arg = i \<and> c = c0" "tei_post c0"
  for i :: nat and c0 :: IsdnCard
proof
  show "wpo (nd_routine n a s) (tei_post c0)"
    if "n \<in> set (TeiFnList (tei_event (Suc 0)))" "nd_state n = tei_st i s"
      "tei_pre (nd_event n) a s \<and> fst a = i \<and> s = c0" for n a s
    using TeiFnList_ok [OF that(1), of a s] that(2,3) by auto
  show "tei_post c0 s"
    if none: "\<forall>n \<in> set (TeiFnList (tei_event (Suc 0))). \<not> (nd_state n = tei_st i s \<and> nd_event n = e)"
      and pre: "tei_pre e a s \<and> fst a = i \<and> s = c0" for e a s
  proof (cases "e = EV_T202")
    case True
    have "stack_ok True (stlist s ! i)"
      using pre True card_stack [of "Some i" s i] by (auto simp: tei_pre_def)
    then have "tei_st i s = ST_TEI_IDREQ \<or> tei_st i s = ST_TEI_IDVERIFY"
      by (auto simp: stack_ok_def ma_ok_def tei_st_def)
    then show ?thesis using none True TeiFnList_T202 by metis
  next
    case False
    then show ?thesis using pre by (auto simp: tei_pre_def)
  qed
qed (use TeiFnList_range in blast)

lemma tei_fsm_event_ok:
  assumes "tei_pre ev arg c"
  shows "wpo (tei_fsm_event ev arg c) (tei_post c)"
  using tei_table.event_ok [of ev arg c "fst arg" c] assms
  by (auto simp: numeral_2_eq_2 wpo_iff)


subsection \<open>The entry points\<close>

lemma tei_fsm_event_ok':
  "tei_inv c \<Longrightarrow> i < length (stlist c) \<Longrightarrow> tei_arg_ok ev (i, d) \<Longrightarrow> ev \<noteq> EV_T202 \<Longrightarrow>
   wpo (tei_fsm_event ev (i, d) c) (tei_post c)"
  by (rule tei_fsm_event_ok) (simp add: tei_pre_def)

lemma tei_l2tei_ok:
  "tei_inv c \<Longrightarrow> i < length (stlist c) \<Longrightarrow> wpo (tei_l2tei i pr c) (tei_post c)"
  unfolding tei_l2tei_def
  by (rule tei_l2tei_with_ok) (auto intro!: tei_fsm_event_ok' simp: tei_arg_ok_def)

lemma tei_l1l2_ok:
  assumes "tei_inv c" "i < length (stlist c)"
  shows "wpo (tei_l1l2 i pr skb c) (tei_post c)"
proof -
  have ev: "wpo (tei_fsm_event ev (i, Some m) c) (tei_post c)" if "5 \<le> length m" "ev \<noteq> EV_T202" for ev m
    using assms that by (intro tei_fsm_event_ok') (simp_all add: tei_arg_ok_def)
  show ?thesis
    using assms(1) ev [of "drop 3 (skb_bytes skb)"]
    by (simp add: tei_l1l2_def Let_def del: tei_event.simps)
qed

lemma tei_expire_ok:
  assumes "tei_inv c" "i < length (stlist c)"
  shows "wpo (tei_expire i c) (tei_post c)"
proof (cases "tl_pending (ma_t202 (stk_ma (stlist c ! i)))")
  case True
  have st: "stack_ok False (stlist c ! i)" using card_stack [OF assms] by simp
  let ?c = "c\<lparr>stlist := (stlist c)[i := del_t202 (stlist c ! i)]\<rparr>"
  have "card_ok (Some i) ?c"
    by (rule card_ok_update [OF assms(1,2)]) (use st True in \<open>simp_all add: stack_ok_def ma_ok_def\<close>)
  moreover have "tei_post ?c = tei_post c" by (simp add: fun_eq_iff tei_post_def)
  ultimately have "wpo (tei_fsm_event EV_T202 (i, None) ?c) (tei_post c)"
    using tei_fsm_event_ok [of EV_T202 "(i, None)" ?c] assms(2)
    by (simp add: tei_pre_def tei_arg_ok_def del: tei_event.simps)
  moreover have "tm_event (ma_t202 (stk_ma (stlist c ! i))) = EV_T202"
    using st True by (simp add: stack_ok_def ma_ok_def)
  ultimately show ?thesis
    using True assms(2) by (simp add: tei_expire_def on_stack_def del: tei_event.simps)
next
  case False
  then show ?thesis using assms by (simp add: tei_expire_def)
qed

text \<open>Equal elements of a list that the filter finds once are at the same place.\<close>

lemma distinct_filter_nth:
  assumes "distinct (filter P xs)" "a < length xs" "b < length xs" "xs ! a = xs ! b" "P (xs ! a)"
  shows "a = b"
proof -
  have False if "a < b" "b < length xs" "xs ! a = xs ! b" "P (xs ! a)" for a b
  proof -
    have "xs = take b xs @ xs ! b # drop (Suc b) xs" using that(2) by (rule id_take_nth_drop)
    then have "distinct (filter P (take b xs @ xs ! b # drop (Suc b) xs))" using assms(1) by simp
    then have "xs ! b \<notin> set (take b xs)" using that by auto
    moreover have "xs ! a \<in> set (take b xs)"
      using that(1,2) by (auto simp: in_set_conv_nth intro!: exI [of _ a])
    ultimately show False using that(3) by simp
  qed
  from this [of a b] this [of b a] show ?thesis using assms by (cases a b rule: linorder_cases) auto
qed

lemma teis_unique:
  assumes "tei_inv c" "i < length (stlist c)" "j < length (stlist c)"
    "st_tei (stlist c ! i) = st_tei (stlist c ! j)"
  shows "st_tei (stlist c ! i) = -1 \<or> st_tei (stlist c ! i) = 127 \<or> i = j"
proof -
  let ?P = "\<lambda>t. t \<noteq> -1 \<and> t \<noteq> (127 :: int)"
  have "distinct (filter ?P (map st_tei (stlist c)))"
    using assms(1) by (simp add: card_ok_def teis_def)
  from distinct_filter_nth [OF this, of i j] show ?thesis using assms(2-4) by auto
qed

subsection \<open>Cards that can be reached\<close>

lemma deliver_tei_ok:
  assumes "i < length (stlist c)" "tei_post c c'"
  shows "wpo (deliver_tei i outs c') (tei_post c)"
  using assms
proof (induction i outs c' rule: deliver_tei.induct)
  case (2 i pr outs c')
  have "wpo (tei_l2tei i pr c') (tei_post c')"
    using 2 by (intro tei_l2tei_ok) (simp_all add: tei_post_def)
  then obtain c1 where c1: "tei_l2tei i pr c' = Some c1" "tei_post c' c1" by (auto simp: wpo_iff)
  then have "tei_post c c1" using 2 by (simp add: tei_post_def)
  then show ?case using 2 c1 by simp
qed simp_all

lemma stack_l2_ok:
  assumes "tei_inv c" "i < length (stlist c)"
    and f: "\<And>s. l2_inv s \<Longrightarrow> wpo (f s) (\<lambda>s'. l2_inv s' \<and>
       (l2_tei s' = l2_tei s \<or> l2_tei s' = -1))"
  shows "wpo (stack_l2 i f c) (tei_post c)"
proof -
  have st: "stack_ok False (stlist c ! i)" using card_stack [OF assms(1,2)] by simp
  have "wpo (on_stack i (\<lambda>st. map_option (\<lambda>l2. st\<lparr>stk_l2 := l2\<rparr>) (f (stk_l2 st))) c) (tei_post c)"
    by (rule on_stack_post [OF assms(1,2)], simp, simp, rule wpo_mono [OF f])
      (use st in \<open>auto simp: stack_ok_def st_tei_def\<close>)
  then show ?thesis
    using assms(2) deliver_tei_ok [OF assms(2)] by (auto simp: stack_l2_def Let_def wpo_iff)
qed

lemma l2_now_tei:
  "l2_inv s \<Longrightarrow> wpo (l2_ph_data_ind_now skb s) (\<lambda>s'. l2_inv s' \<and> (l2_tei s' = l2_tei s \<or> l2_tei s' = -1))"
  using l2_ph_data_ind_now_ok [of s skb] l2_ph_data_ind_now_tei [of skb s] by (auto simp: wpo_iff)

lemma l2_steps_tei:
  "l2_inv s \<Longrightarrow> l2_prim_arg pr arg \<Longrightarrow> wpo (isdnl2_l1l2 pr arg s) (\<lambda>s'. l2_inv s' \<and>
     (l2_tei s' = l2_tei s \<or> l2_tei s' = -1))"
  "l2_inv s \<Longrightarrow> l2_prim_arg pr arg \<Longrightarrow> pr \<noteq> (MDL_ASSIGN, REQUEST) \<Longrightarrow>
   wpo (isdnl2_l3l2 pr arg s) (\<lambda>s'. l2_inv s' \<and> (l2_tei s' = l2_tei s \<or> l2_tei s' = -1))"
  "l2_inv s \<Longrightarrow> wpo (l2_expire_t200 s) (\<lambda>s'. l2_inv s' \<and> (l2_tei s' = l2_tei s \<or> l2_tei s' = -1))"
  "l2_inv s \<Longrightarrow> wpo (l2_expire_t203 s) (\<lambda>s'. l2_inv s' \<and> (l2_tei s' = l2_tei s \<or> l2_tei s' = -1))"
proof -
  show "l2_inv s \<Longrightarrow> l2_prim_arg pr arg \<Longrightarrow> wpo (isdnl2_l1l2 pr arg s) (\<lambda>s'. l2_inv s' \<and>
     (l2_tei s' = l2_tei s \<or> l2_tei s' = -1))"
    using isdnl2_l1l2_ok [of s pr arg] isdnl2_l1l2_tei [of pr arg s] by (auto simp: wpo_iff)
  show "l2_inv s \<Longrightarrow> l2_prim_arg pr arg \<Longrightarrow> pr \<noteq> (MDL_ASSIGN, REQUEST) \<Longrightarrow>
   wpo (isdnl2_l3l2 pr arg s) (\<lambda>s'. l2_inv s' \<and> (l2_tei s' = l2_tei s \<or> l2_tei s' = -1))"
    using isdnl2_l3l2_ok [of s pr arg] isdnl2_l3l2_tei [of pr arg s]
    by (auto simp: wpo_iff tei_from_def l2_prim_arg_def split: l2arg.splits if_splits)
  show "l2_inv s \<Longrightarrow> wpo (l2_expire_t200 s) (\<lambda>s'. l2_inv s' \<and> (l2_tei s' = l2_tei s \<or> l2_tei s' = -1))"
    using l2_expire_t200_ok [of s] l2_expire_tei(1) [of s] by (auto simp: wpo_iff)
  show "l2_inv s \<Longrightarrow> wpo (l2_expire_t203 s) (\<lambda>s'. l2_inv s' \<and> (l2_tei s' = l2_tei s \<or> l2_tei s' = -1))"
    using l2_expire_t203_ok [of s] l2_expire_tei(2) [of s] by (auto simp: wpo_iff)
qed

text \<open>
  The stacks of a card as \<open>setstack_isdnl2\<close> and \<open>setstack_tei\<close> leave them. The copies that layer 2
  keeps of its I frames can be made; the other allocations of layer 2 and the TEI manager may fail.
\<close>

definition boot_stack :: "PStack \<Rightarrow> PStack" where
  "boot_stack st = setstack_tei (st\<lparr>stk_l2 := setstack_isdnl2 (stk_l2 st)\<rparr>)"

inductive card_reach :: "IsdnCard \<Rightarrow> bool" where
  boot: "\<forall>st \<in> set sts. l2_fresh (stk_l2 st) \<Longrightarrow> \<forall>st \<in> set sts. clones_ok (l2_env (stk_l2 st)) \<Longrightarrow>
     distinct (filter (\<lambda>t. t \<noteq> -1 \<and> t \<noteq> 127) (map st_tei sts)) \<Longrightarrow>
     card_reach \<lparr>stlist = map boot_stack sts, cardmsgs = []\<rparr>"
| frame: "card_reach c \<Longrightarrow> i < length (stlist c) \<Longrightarrow> tei_l1l2 i pr skb c = Some c' \<Longrightarrow> card_reach c'"
| timeout: "card_reach c \<Longrightarrow> i < length (stlist c) \<Longrightarrow> tei_expire i c = Some c' \<Longrightarrow> card_reach c'"
| from_l2: "card_reach c \<Longrightarrow> i < length (stlist c) \<Longrightarrow> tei_l2tei i pr c = Some c' \<Longrightarrow> card_reach c'"
| l2_from_l1: "card_reach c \<Longrightarrow> i < length (stlist c) \<Longrightarrow> l2_prim_arg pr arg \<Longrightarrow>
     stack_l2 i (isdnl2_l1l2 pr arg) c = Some c' \<Longrightarrow> card_reach c'"
| l2_from_l1_now: "card_reach c \<Longrightarrow> i < length (stlist c) \<Longrightarrow>
     stack_l2 i (l2_ph_data_ind_now skb) c = Some c' \<Longrightarrow> card_reach c'"
| l2_from_l3: "card_reach c \<Longrightarrow> i < length (stlist c) \<Longrightarrow> l2_prim_arg pr arg \<Longrightarrow>
     pr \<noteq> (MDL_ASSIGN, REQUEST) \<Longrightarrow> stack_l2 i (isdnl2_l3l2 pr arg) c = Some c' \<Longrightarrow> card_reach c'"
| l2_t200: "card_reach c \<Longrightarrow> i < length (stlist c) \<Longrightarrow> stack_l2 i l2_expire_t200 c = Some c' \<Longrightarrow>
     card_reach c'"
| l2_t203: "card_reach c \<Longrightarrow> i < length (stlist c) \<Longrightarrow> stack_l2 i l2_expire_t203 c = Some c' \<Longrightarrow>
     card_reach c'"

lemma boot_stack_tei [simp]: "st_tei (boot_stack st) = st_tei st"
  by (simp add: boot_stack_def setstack_tei_def tei_state_def st_tei_def setstack_isdnl2_def InitWin_def)

lemma boot_stack_ok: "l2_fresh (stk_l2 st) \<Longrightarrow> clones_ok (l2_env (stk_l2 st)) \<Longrightarrow> stack_ok False (boot_stack st)"
  by (simp add: boot_stack_def setstack_tei_def tei_state_def stack_ok_def ma_ok_def
      setstack_isdnl2_inv)

lemma tei_postD: "wpo m (tei_post c) \<Longrightarrow> m = Some c' \<Longrightarrow> tei_inv c'"
  by (simp add: tei_post_def)

lemma card_reach_inv: "card_reach c \<Longrightarrow> tei_inv c"
proof (induction rule: card_reach.induct)
  case (boot sts)
  then show ?case by (simp add: card_ok_def boot_stack_ok teis_def comp_def)
next
  case (frame c i pr skb c')
  then show ?case using tei_postD [OF tei_l1l2_ok] by blast
next
  case (timeout c i c')
  then show ?case using tei_postD [OF tei_expire_ok] by blast
next
  case (from_l2 c i pr c')
  then show ?case using tei_postD [OF tei_l2tei_ok] by blast
next
  case (l2_from_l1 c i pr arg c')
  then show ?case using tei_postD [OF stack_l2_ok] l2_steps_tei(1) by blast
next
  case (l2_from_l1_now c i skb c')
  then show ?case using tei_postD [OF stack_l2_ok] l2_now_tei by blast
next
  case (l2_from_l3 c i pr arg c')
  then show ?case using tei_postD [OF stack_l2_ok] l2_steps_tei(2) by blast
next
  case (l2_t200 c i c')
  then show ?case using tei_postD [OF stack_l2_ok] l2_steps_tei(3) by blast
next
  case (l2_t203 c i c')
  then show ?case using tei_postD [OF stack_l2_ok] l2_steps_tei(4) by blast
qed

end
