(* ===== verification/Hisax_Tei_Proc.thy ===== *)
theory Hisax_Tei_Proc imports Hisax_Tei_Inv begin

text \<open>
  Two procedures of the TEI manager from end to end: the repetition of identity requests and
  verifications by T202, which ends, and the assignment of a TEI by the network.
\<close>

subsection \<open>Retries end\<close>

lemma TeiFnList_lookup:
  "fsm_lookup (TeiFnList event) ST_TEI_IDREQ EV_T202 = Some tei_id_req_tout"
  "fsm_lookup (TeiFnList event) ST_TEI_IDVERIFY EV_T202 = Some tei_id_ver_tout"
  "fsm_lookup (TeiFnList event) ST_TEI_IDREQ EV_ASSIGN =
     Some (tei_id_assign (tei_l2tei_with event))"
  by (simp_all add: fsm_lookup_def TeiFnList_def)

lemma tei_fsm_event_eq:
  "tei_fsm_event ev arg c =
     map_option snd (FsmEvent (fsm_of TEI_STATE_COUNT TEI_EVENT_COUNT (TeiFnList (tei_event 1)))
       (tei_st (fst arg)) ev arg c)"
  by (simp add: numeral_2_eq_2)

definition tei_N202 :: "nat \<Rightarrow> IsdnCard \<Rightarrow> int" where
  "tei_N202 i c = ma_N202 (stk_ma (stlist c ! i))"

text \<open>\<open>k\<close> expiries of T202 in a row.\<close>

primrec tei_expire_times :: "nat \<Rightarrow> nat \<Rightarrow> IsdnCard \<Rightarrow> IsdnCard option" where
  "tei_expire_times 0 i c = Some c"
| "tei_expire_times (Suc k) i c = do { c' \<leftarrow> tei_expire i c; tei_expire_times k i c' }"

lemma on_stack_Some:
  "on_stack i (\<lambda>st. Some (g st)) c = Some c' \<longleftrightarrow>
     i < length (stlist c) \<and> c' = c\<lparr>stlist := (stlist c)[i := g (stlist c ! i)]\<rparr>"
  by (auto simp: on_stack_def)

lemma tei_expire_tout:
  assumes "tei_inv c" "i < length (stlist c)" "tei_st i c \<noteq> ST_TEI_NOP"
  defines "c1 \<equiv> c\<lparr>stlist := (stlist c)[i := del_t202 (stlist c ! i)]\<rparr>"
  shows "tei_expire i c = (if tei_st i c = ST_TEI_IDREQ then tei_id_req_tout (i, None) c1
                           else tei_id_ver_tout (i, None) c1)"
proof -
  have st: "stack_ok False (stlist c ! i)" using card_stack [OF assms(1,2)] by simp
  then have s: "tei_st i c = ST_TEI_IDREQ \<or> tei_st i c = ST_TEI_IDVERIFY"
    and p: "tl_pending (ma_t202 (stk_ma (stlist c ! i)))"
      "tm_event (ma_t202 (stk_ma (stlist c ! i))) = EV_T202"
    using assms(3) by (auto simp: stack_ok_def ma_ok_def tei_st_def)
  have s1: "tei_st i c1 = tei_st i c" using assms(2) by (simp add: tei_st_def c1_def)
  have o: "on_stack i (\<lambda>st. Some (del_t202 st)) c = Some c1"
    using assms(2) by (simp add: on_stack_def c1_def)
  show ?thesis
    using s p assms(2) unfolding tei_expire_def o
    by (auto simp: tei_fsm_event_eq FsmEvent_fsm_of TeiFnList_lookup TeiFnList_lookup [simplified]
        s1 option.map_comp comp_def option.map_ident simp del: tei_event.simps)
qed

lemma tei_expire_counts:
  assumes "tei_inv c" "i < length (stlist c)" "tei_st i c \<noteq> ST_TEI_NOP"
  shows "\<exists>c'. tei_expire i c = Some c' \<and> tei_post c c' \<and>
    (if tei_N202 i c = 1 then tei_st i c' = ST_TEI_NOP
     else tei_st i c' = tei_st i c \<and> tei_N202 i c' = tei_N202 i c - 1)"
proof -
  obtain c' where c': "tei_expire i c = Some c'" "tei_post c c'"
    using tei_expire_ok [OF assms(1,2)] by (auto simp: wpo_iff)
  let ?c1 = "c\<lparr>stlist := (stlist c)[i := del_t202 (stlist c ! i)]\<rparr>"
  have left: "N202_left (stlist ?c1 ! i) \<longleftrightarrow> tei_N202 i c \<noteq> 1"
    using assms(2) by (simp add: N202_left_def tei_N202_def)
  have "tei_id_req_tout (i, None) ?c1 = Some c' \<or> tei_id_ver_tout (i, None) ?c1 = Some c'"
    using tei_expire_tout [OF assms(1-3)] c'(1) by (auto split: if_splits)
  moreover have "tei_st i c' = tei_st i c \<and> tei_N202 i c' = tei_N202 i c - 1"
    if "tei_N202 i c \<noteq> 1" "tei_id_req_tout (i, None) ?c1 = Some c'"
    using that left assms(2)
    by (auto simp: tei_id_req_tout_def tei_st_def tei_N202_def count_N202_def on_stack_Some)
  moreover have "tei_st i c' = tei_st i c \<and> tei_N202 i c' = tei_N202 i c - 1"
    if "tei_N202 i c \<noteq> 1" "tei_id_ver_tout (i, None) ?c1 = Some c'"
    using that left assms(2)
    by (auto simp: tei_id_ver_tout_def tei_st_def tei_N202_def count_N202_def on_stack_Some)
  moreover have "tei_st i c' = ST_TEI_NOP"
    if "tei_N202 i c = 1" "tei_id_req_tout (i, None) ?c1 = Some c'"
    using that left assms(2)
    by (auto simp: tei_id_req_tout_def tei_st_def bind_eq_Some_conv on_stack_Some)
  moreover have "tei_st i c' = ST_TEI_NOP"
    if "tei_N202 i c = 1" "tei_id_ver_tout (i, None) ?c1 = Some c'"
    using that left assms(2)
    by (auto simp: tei_id_ver_tout_def tei_st_def bind_eq_Some_conv on_stack_Some)
  ultimately show ?thesis using c' by auto
qed

lemma tei_retries_end:
  assumes "tei_inv c" "i < length (stlist c)" "tei_st i c \<noteq> ST_TEI_NOP" "tei_N202 i c = int (Suc k)"
  shows "\<exists>c'. tei_expire_times (Suc k) i c = Some c' \<and> tei_inv c' \<and> tei_st i c' = ST_TEI_NOP"
  using assms
proof (induction k arbitrary: c)
  case 0
  then show ?case using tei_expire_counts [of c i] by (auto simp: tei_post_def)
next
  case (Suc k)
  then obtain c1 where c1: "tei_expire i c = Some c1" "tei_post c c1" "tei_st i c1 = tei_st i c"
      "tei_N202 i c1 = tei_N202 i c - 1"
    using tei_expire_counts [of c i] by auto
  then show ?case using Suc.IH [of c1] Suc.prems by (simp add: tei_post_def)
qed

subsection \<open>Getting a TEI\<close>

lemma L2FnList_ASSIGN:
  "s < ST_L2_4 \<Longrightarrow> fsm_lookup L2FnList s EV_L2_MDL_ASSIGN = Some l2_got_tei"
proof -
  have "fsm_lookup L2FnList ST_L2_1 EV_L2_MDL_ASSIGN = Some l2_got_tei"
    "fsm_lookup L2FnList ST_L2_2 EV_L2_MDL_ASSIGN = Some l2_got_tei"
    "fsm_lookup L2FnList ST_L2_3 EV_L2_MDL_ASSIGN = Some l2_got_tei"
    using fsm_lookup_distinct [OF L2FnList_distinct, of "FsmNode ST_L2_1 EV_L2_MDL_ASSIGN l2_got_tei"]
      fsm_lookup_distinct [OF L2FnList_distinct, of "FsmNode ST_L2_2 EV_L2_MDL_ASSIGN l2_got_tei"]
      fsm_lookup_distinct [OF L2FnList_distinct, of "FsmNode ST_L2_3 EV_L2_MDL_ASSIGN l2_got_tei"]
    by (simp_all add: L2FnList_def)
  then show "s < ST_L2_4 \<Longrightarrow> ?thesis" by (auto simp: less_Suc_eq numeral_eq_Suc)
qed

lemma tx_ui_state: "tx_ui s = Some s' \<Longrightarrow> l2_m_state s' = l2_m_state s"
proof -
  have "tx_ui_loop h skbs s = Some s' \<Longrightarrow> l2_m_state s' = l2_m_state s" for h skbs
    by (induction skbs arbitrary: s) (auto simp: bind_eq_Some_conv)
  then show "tx_ui s = Some s' \<Longrightarrow> l2_m_state s' = l2_m_state s" by (simp add: tx_ui_def)
qed

lemma tx_ui_keeps: "tx_ui s = Some s' \<Longrightarrow> l2_tei s' = l2_tei s \<and> l2_m_state s' = l2_m_state s"
  by (simp add: tx_ui_tei tx_ui_state)

lemma isdnl2_assign:
  assumes "l2_inv s" "l2_m_state s < ST_L2_4"
  shows "\<exists>s'. isdnl2_l3l2 (MDL_ASSIGN, REQUEST) (TeiArg tei) s = Some s' \<and> l2_tei s' = tei \<and>
    l2_m_state s' = (if l2_m_state s = ST_L2_3 then ST_L2_5 else ST_L2_4)"
proof -
  have eq: "isdnl2_l3l2 (MDL_ASSIGN, REQUEST) (TeiArg tei) s = l2_got_tei (TeiArg tei) s"
    using L2FnList_ASSIGN [OF assms(2)] assms(2)
    by (simp add: isdnl2_l3l2_def l2_event_def l2fsm_def FsmEvent_fsm_of option.map_comp comp_def
        option.map_ident)
  obtain s' where s': "l2_got_tei (TeiArg tei) s = Some s'"
    using l2_got_tei_ok [OF assms, of tei] by (auto simp: wpo_iff)
  have "l2_tei s' = tei \<and> l2_m_state s' = (if l2_m_state s = ST_L2_3 then ST_L2_5 else ST_L2_4)"
    using s' by (auto simp: l2_got_tei_def Let_def split: if_split_asm dest!: tx_ui_keeps)
  then show ?thesis using eq s' by simp
qed

text \<open>A management frame as \<open>tei_l1l2\<close> accepts it: its header, then the message.\<close>

definition mgr_frame :: "u8 list \<Rightarrow> u8 list \<Rightarrow> bool" where
  "mgr_frame d m \<longleftrightarrow> d = [push_bit 2 TEI_SAPI OR 2, push_bit 1 GROUP_TEI OR 1, F_UI] @ m \<and>
     5 \<le> length m \<and> m ! 0 = TEI_ENTITY_ID"

lemma tei_l1l2_assigned:
  assumes "mgr_frame (skb_bytes skb) m" "m ! 3 = ID_ASSIGNED" "\<not> fixed_tei i c"
    "tei_st i c = ST_TEI_IDREQ"
  shows "tei_l1l2 i (PH_DATA, INDICATION) skb c = tei_id_assign (tei_l2tei_with (tei_event 1)) (i, Some m) c"
  using assms
  by (simp add: tei_l1l2_def mgr_frame_def Let_def tei_fsm_event_eq FsmEvent_fsm_of
      TeiFnList_lookup TeiFnList_lookup [simplified] option.map_comp comp_def option.map_ident
      del: tei_event.simps)

lemma tei_assign_takes:
  assumes "tei_inv c" "i < length (stlist c)" "\<not> fixed_tei i c" "tei_st i c = ST_TEI_IDREQ"
    and "mgr_frame (skb_bytes skb) m" "m ! 3 = ID_ASSIGNED"
    and "msg_ri m = ma_ri (stk_ma (stlist c ! i))" "findtei c (msg_tei m) = None"
    and "l2_m_state (stk_l2 (stlist c ! i)) < ST_L2_4"
  shows "\<exists>st'. tei_l1l2 i (PH_DATA, INDICATION) skb c =
      Some (cardmsg (MDL_ASSIGN, REQUEST) (c\<lparr>stlist := (stlist c)[i := st']\<rparr>)) \<and>
    st_tei st' = msg_tei m \<and> ma_state (stk_ma st') = ST_TEI_NOP \<and>
    \<not> tl_pending (ma_t202 (stk_ma st')) \<and>
    l2_m_state (stk_l2 st') =
      (if l2_m_state (stk_l2 (stlist c ! i)) = ST_L2_3 then ST_L2_5 else ST_L2_4)"
proof -
  have inv: "l2_inv (stk_l2 (stlist c ! i))"
    using card_stack [OF assms(1,2)] by (simp add: stack_ok_def)
  obtain s' where s': "isdnl2_l3l2 (MDL_ASSIGN, REQUEST) (TeiArg (msg_tei m)) (stk_l2 (stlist c ! i)) = Some s'"
    "l2_tei s' = msg_tei m"
    "l2_m_state s' = (if l2_m_state (stk_l2 (stlist c ! i)) = ST_L2_3 then ST_L2_5 else ST_L2_4)"
    using isdnl2_assign [OF inv assms(9)] by blast
  have m5: "5 \<le> length m" using assms(5) by (simp add: mgr_frame_def)
  show ?thesis
    unfolding tei_l1l2_assigned [OF assms(5,6,3,4)] tei_id_assign_def with_msg_ok [OF m5]
    by (rule exI [of _ "(tei_state ST_TEI_NOP (del_t202 (stlist c ! i)))\<lparr>stk_l2 := s'\<rparr>"])
      (use assms(2,7,8) s' in \<open>simp add: on_stack_def tei_l3l2_def st_tei_def\<close>)
qed

lemma tei_assign_dup_ignored:
  assumes "\<not> fixed_tei i c" "tei_st i c = ST_TEI_IDREQ" "mgr_frame (skb_bytes skb) m"
    "m ! 3 = ID_ASSIGNED" "findtei c (msg_tei m) = Some ost"
  shows "tei_l1l2 i (PH_DATA, INDICATION) skb c = Some c"
proof -
  have m5: "5 \<le> length m" using assms(3) by (simp add: mgr_frame_def)
  show ?thesis
    unfolding tei_l1l2_assigned [OF assms(3,4,1,2)] tei_id_assign_def with_msg_ok [OF m5]
    using assms(5) by (simp add: tei_l2tei_with_def)
qed

end
