(* ===== verification/Hisax_Tei_Props.thy ===== *)
theory Hisax_Tei_Props imports Hisax_Tei_Proc Hisax_L2_Props begin

text \<open>
  The properties of the TEI manager together with the layer 2 links of a card, each with a run of
  the model on a card of two stacks that shows its hypotheses can hold.
\<close>

subsection \<open>A card to evaluate the properties on\<close>

text \<open>Two stacks on one card: the first without a TEI, the second with TEI 64.\<close>

definition ma0 :: Management where
  "ma0 = \<lparr>ma_ri = 0, ma_state = 0, ma_t202 = idle_timer, ma_T202 = 0, ma_N202 = 0\<rparr>"

definition stack_a :: PStack where
  "stack_a = \<lparr>stk_l2 = link_new\<lparr>l2_tei := -1\<rparr>, stk_ma = ma0\<rparr>"

definition stack_b :: PStack where
  "stack_b = \<lparr>stk_l2 = link_new\<lparr>l2_tei := 64\<rparr>, stk_ma = ma0\<rparr>"

definition card2 :: IsdnCard where
  "card2 = \<lparr>stlist = map boot_stack [stack_a, stack_b], cardmsgs = []\<rparr>"

lemma card2_reach: "card_reach card2"
  unfolding card2_def
  by (rule card_reach.boot)
    (simp_all add: stack_a_def stack_b_def st_tei_def l2_fresh_def link_defs MAX_WINDOW_def
      l2_modulus_def clones_ok_def)

lemma card2_length [simp]: "length (stlist card2) = 2"
  by (simp add: card2_def)

text \<open>The first stack after layer 2 has asked for a TEI.\<close>

definition card2_asking :: "IsdnCard option" where
  "card2_asking = tei_l2tei 0 (MDL_ASSIGN, INDICATION) card2"

lemma card2_asking_run:
  "map_option (\<lambda>c. (tei_st 0 c, tei_N202 0 c, findtei c 64, findtei c 70, fixed_tei 0 c,
      length (stlist c), l2_m_state (stk_l2 (stlist c ! 0)), ma_ri (stk_ma (stlist c ! 0)))) card2_asking =
   Some (ST_TEI_IDREQ, 3, Some 1, None, False, 2, ST_L2_1, 0)"
  by code_simp

lemma card2_asking_reach:
  obtains c where "card2_asking = Some c" "card_reach c" "length (stlist c) = 2"
    "tei_st 0 c = ST_TEI_IDREQ" "tei_N202 0 c = 3" "findtei c 64 = Some 1" "findtei c 70 = None"
    "\<not> fixed_tei 0 c" "l2_m_state (stk_l2 (stlist c ! 0)) = ST_L2_1"
    "ma_ri (stk_ma (stlist c ! 0)) = 0"
proof -
  obtain c where c: "card2_asking = Some c" "length (stlist c) = 2"
    "tei_st 0 c = ST_TEI_IDREQ" "tei_N202 0 c = 3" "findtei c 64 = Some 1" "findtei c 70 = None"
    "\<not> fixed_tei 0 c" "l2_m_state (stk_l2 (stlist c ! 0)) = ST_L2_1"
    "ma_ri (stk_ma (stlist c ! 0)) = 0"
    using card2_asking_run by auto
  have "card_reach c"
    using card_reach.from_l2 [OF card2_reach, of 0] c(1) by (simp add: card2_asking_def)
  then show thesis using that [OF c(1)] c(2-) by blast
qed

text \<open>The answer of the network: reference 0, TEI 70 or 64.\<close>

definition assign_frame :: "u8 \<Rightarrow> sk_buff" where
  "assign_frame t = skb_new 0 [0xfe, 0xff, 0x03, 0x0f, 0, 0, 2, t]"

lemma assign_frame_mgr: "mgr_frame (skb_bytes (assign_frame t)) [0x0f, 0, 0, 2, t]"
  by (simp add: mgr_frame_def assign_frame_def TEI_SAPI_def GROUP_TEI_def)

subsection \<open>Properties\<close>

text \<open>
  C13. On a card whose copies of I frames succeed (\<open>clones_ok\<close>, the premise of \<open>card_reach.boot\<close>), no
  management frame (of any content and length), no request of layer 2, no timeout of T202 and no
  step of a layer 2 link makes the TEI manager or layer 2 fault. Any other allocation may fail, the
  one of \<open>put_tei_msg\<close> included: the message is then not sent.
\<close>

theorem tei_no_fault:
  assumes "card_reach c" "i < length (stlist c)" "l2_prim_arg pr arg"
  shows "tei_l1l2 i pr skb c \<noteq> None \<and> tei_l2tei i pr c \<noteq> None \<and> tei_expire i c \<noteq> None \<and>
    stack_l2 i (isdnl2_l1l2 pr arg) c \<noteq> None \<and> stack_l2 i (l2_ph_data_ind_now frame) c \<noteq> None"
proof -
  have inv: "tei_inv c" using assms(1) by (rule card_reach_inv)
  have "wpo (stack_l2 i (isdnl2_l1l2 pr arg) c) (tei_post c)"
    by (rule stack_l2_ok [OF inv assms(2)]) (rule l2_steps_tei(1) [OF _ assms(3)])
  moreover have "wpo (stack_l2 i (l2_ph_data_ind_now frame) c) (tei_post c)"
    by (rule stack_l2_ok [OF inv assms(2)]) (rule l2_now_tei)
  ultimately show ?thesis
    using tei_l1l2_ok [OF inv assms(2), of pr skb] tei_l2tei_ok [OF inv assms(2), of pr]
      tei_expire_ok [OF inv assms(2)]
    by (auto simp: wpo_iff)
qed

theorem tei_no_fault_witness:
  "tei_l1l2 0 (PH_PULL, CONFIRM) (assign_frame 0x8d) card2 \<noteq> None \<and> tei_expire 0 card2 \<noteq> None"
  using tei_no_fault [OF card2_reach, of 0 "(PH_PULL, CONFIRM)" NoArg "assign_frame 0x8d"]
  by (simp add: l2_prim_arg_def)

text \<open>
  C14. Two stacks of a card never hold the same TEI: whatever the network assigns, and in whatever
  order assignments, removals and the procedures of layer 2 are interleaved.
\<close>

theorem tei_unique:
  assumes "card_reach c" "i < length (stlist c)" "j < length (stlist c)" "i \<noteq> j"
    and "st_tei (stlist c ! i) = st_tei (stlist c ! j)"
  shows "st_tei (stlist c ! i) = -1 \<or> st_tei (stlist c ! i) = 127"
  using teis_unique [OF card_reach_inv [OF assms(1)] assms(2,3,5)] assms(4) by blast

theorem tei_unique_witness:
  "st_tei (stlist card2 ! 0) \<noteq> st_tei (stlist card2 ! 1)"
proof
  assume eq: "st_tei (stlist card2 ! 0) = st_tei (stlist card2 ! 1)"
  have "st_tei (stlist card2 ! 1) = 64"
    by (simp add: card2_def stack_b_def) (simp add: st_tei_def)
  then show False using tei_unique [OF card2_reach, of 0 1] eq by simp
qed

text \<open>
  C15. An identity request or verification that gets no answer ends: after as many timeouts of T202
  as \<open>N202\<close> says, which is at most three, the manager is idle again.
\<close>

theorem tei_retries_bounded:
  assumes "card_reach c" "i < length (stlist c)" "tei_st i c \<noteq> ST_TEI_NOP"
  shows "1 \<le> tei_N202 i c \<and> tei_N202 i c \<le> 3 \<and>
    (\<exists>c'. tei_expire_times (nat (tei_N202 i c)) i c = Some c' \<and> tei_st i c' = ST_TEI_NOP)"
proof -
  have inv: "tei_inv c" using assms(1) by (rule card_reach_inv)
  have n: "1 \<le> tei_N202 i c" "tei_N202 i c \<le> 3"
    using card_stack [OF inv assms(2)] assms(3)
    by (simp_all add: stack_ok_def ma_ok_def tei_st_def tei_N202_def)
  then have "tei_N202 i c = int (Suc (nat (tei_N202 i c) - 1))" by simp
  from tei_retries_end [OF inv assms(2,3) this] n show ?thesis
    by (metis Suc_diff_1 int_one_le_iff_zero_less zero_less_nat_eq)
qed

theorem tei_retries_bounded_witness:
  "\<exists>c c'. card2_asking = Some c \<and> tei_expire_times 3 0 c = Some c' \<and> tei_st 0 c' = ST_TEI_NOP"
proof -
  obtain c where c: "card2_asking = Some c" "card_reach c" "length (stlist c) = 2"
    "tei_st 0 c = ST_TEI_IDREQ" "tei_N202 0 c = 3"
    by (rule card2_asking_reach)
  then show ?thesis using tei_retries_bounded [of c 0] by auto
qed

text \<open>
  C16. When the network answers a pending request with the reference number of that request and a TEI
  that no stack of the card has, the stack gets that TEI, its request is closed (idle state, no
  timer), layer 2 goes on to state 4, or to establishing the link if that was asked for, and nothing
  else changes.
\<close>

theorem tei_assignment:
  assumes "card_reach c" "i < length (stlist c)" "\<not> fixed_tei i c" "tei_st i c = ST_TEI_IDREQ"
    and "mgr_frame (skb_bytes skb) m" "m ! 3 = ID_ASSIGNED"
    and "msg_ri m = ma_ri (stk_ma (stlist c ! i))" "findtei c (msg_tei m) = None"
    and "l2_m_state (stk_l2 (stlist c ! i)) < ST_L2_4"
  shows "\<exists>st'. tei_l1l2 i (PH_DATA, INDICATION) skb c =
      Some (cardmsg (MDL_ASSIGN, REQUEST) (c\<lparr>stlist := (stlist c)[i := st']\<rparr>)) \<and>
    st_tei st' = msg_tei m \<and> ma_state (stk_ma st') = ST_TEI_NOP \<and>
    \<not> tl_pending (ma_t202 (stk_ma st')) \<and>
    l2_m_state (stk_l2 st') =
      (if l2_m_state (stk_l2 (stlist c ! i)) = ST_L2_3 then ST_L2_5 else ST_L2_4)"
  by (rule tei_assign_takes [OF card_reach_inv [OF assms(1)] assms(2-9)])

theorem tei_assignment_witness:
  "\<exists>c c'. card2_asking = Some c \<and> tei_l1l2 0 (PH_DATA, INDICATION) (assign_frame 0x8d) c = Some c' \<and>
     st_tei (stlist c' ! 0) = 70 \<and> tei_st 0 c' = ST_TEI_NOP"
proof -
  obtain c where c: "card2_asking = Some c" "card_reach c" "length (stlist c) = 2"
    "tei_st 0 c = ST_TEI_IDREQ" "findtei c 70 = None" "\<not> fixed_tei 0 c"
    "l2_m_state (stk_l2 (stlist c ! 0)) = ST_L2_1" "ma_ri (stk_ma (stlist c ! 0)) = 0"
    by (rule card2_asking_reach)
  have "msg_tei [0x0f, 0, 0, 2, 0x8d] = 70" "msg_ri [0x0f, 0, 0, 2, 0x8d] = 0"
    by (simp_all add: msg_tei_def msg_ri_def)
  then show ?thesis
    using tei_assignment [OF c(2) _ c(6,4) assign_frame_mgr [of "0x8d"]] c
    by (auto simp: cardmsg_def tei_st_def)
qed

text \<open>
  C17. While a stack waits for its own TEI, an assignment of a TEI that another stack already has is
  dropped: the manager calls \<open>l2tei\<close> with \<open>MDL_ERROR | RESPONSE\<close>, and \<open>tei_l2tei\<close> handles
  \<open>MDL_ERROR | REQUEST\<close> only, so the identity of the other stack is not verified.
\<close>

theorem tei_duplicate_not_verified:
  assumes "\<not> fixed_tei i c" "tei_st i c = ST_TEI_IDREQ" "mgr_frame (skb_bytes skb) m"
    "m ! 3 = ID_ASSIGNED" "findtei c (msg_tei m) = Some ost"
  shows "tei_l1l2 i (PH_DATA, INDICATION) skb c = Some c"
  by (rule tei_assign_dup_ignored [OF assms])

theorem tei_duplicate_not_verified_witness:
  "\<exists>c. card2_asking = Some c \<and> tei_l1l2 0 (PH_DATA, INDICATION) (assign_frame 0x81) c = Some c"
proof -
  obtain c where c: "card2_asking = Some c" "tei_st 0 c = ST_TEI_IDREQ" "findtei c 64 = Some 1"
    "\<not> fixed_tei 0 c"
    by (rule card2_asking_reach)
  have "msg_tei [0x0f, 0, 0, 2, 0x81] = 64" by (simp add: msg_tei_def)
  then show ?thesis
    using tei_duplicate_not_verified [OF c(4,2) assign_frame_mgr [of "0x81"]] c(1,3) by auto
qed

end
