(* ===== verification/Hisax_Card.thy ===== *)
theory Hisax_Card
  imports Hisax_L1_B Hisax_Tei_Props
begin

text \<open>
  The layers put together. On the D channel the stacks of a card are driven by the models of
  layer 1, layer 2 and the TEI manager; on a B channel layer 1 carries a layer 2 link of its own.
  These are the instances on which the contracts \<open>l1_client\<close> and \<open>b_client\<close> are proved. Calls down
  to the driver are recorded; a request of layer 2 reaches layer 1 in a step of its own.
\<close>

subsection \<open>The D channel of a card\<close>

record DCard = L1Card +
  dc_card :: IsdnCard
  dc_hw :: "(nat \<times> prim \<times> l1arg) list"

definition l2arg_of :: "sk_buff option \<Rightarrow> l2arg" where
  "l2arg_of skb = (case skb of None \<Rightarrow> NoArg | Some s \<Rightarrow> Skb s)"

definition l1arg_of :: "sk_buff option \<Rightarrow> l1arg" where
  "l1arg_of skb = (case skb of None \<Rightarrow> L1None | Some s \<Rightarrow> L1Skb s)"

definition on_card :: "(IsdnCard \<Rightarrow> IsdnCard option) \<Rightarrow> DCard \<Rightarrow> DCard option" where
  "on_card f c = map_option (\<lambda>k. c\<lparr>dc_card := k\<rparr>) (f (dc_card c))"

definition dcard_ops :: "DCard l1_ops" where
  "dcard_ops =
    \<lparr>op_l1l2 = (\<lambda>i pr skb. on_card (stack_l2 i (isdnl2_l1l2 pr (l2arg_of skb)))),
     op_l1tei = (\<lambda>i pr skb. on_card (tei_l1l2 i pr skb)),
     op_l1hw = (\<lambda>i pr arg c. Some (c\<lparr>dc_hw := dc_hw c @ [(i, pr, arg)]\<rparr>)),
     op_l2tei = (\<lambda>i c. st_tei (stlist (dc_card c) ! i))\<rparr>"

definition dcard_good :: "DCard \<Rightarrow> bool" where
  "dcard_good c \<longleftrightarrow> tei_inv (dc_card c) \<and> length (stlist (dc_card c)) = length (l1_st c)"

definition dcard_arg :: "prim \<Rightarrow> sk_buff option \<Rightarrow> bool" where
  "dcard_arg pr skb = l2_prim_arg pr (l2arg_of skb)"

lemma on_card_ok:
  assumes "dcard_good c" "wpo (f (dc_card c)) (tei_post (dc_card c))"
  shows "wpo (on_card f c) (\<lambda>c'. dcard_good c' \<and> l1_st c' = l1_st c \<and> l1_rq c' = l1_rq c)"
  using assms by (auto simp: on_card_def dcard_good_def tei_post_def wpo_iff)

interpretation dcard: l1_client dcard_ops dcard_good dcard_arg
proof (unfold_locales, goal_cases)
  case (1 i pr skb c)
  have "wpo (stack_l2 i (isdnl2_l1l2 pr (l2arg_of skb)) (dc_card c)) (tei_post (dc_card c))"
    by (rule stack_l2_ok) (use 1 in \<open>simp_all add: dcard_good_def dcard_arg_def l2_steps_tei\<close>)
  then show ?case using on_card_ok [OF 1(1)] by (simp add: dcard_ops_def)
next
  case (2 i skb c)
  have "wpo (tei_l1l2 i (PH_DATA, INDICATION) skb (dc_card c)) (tei_post (dc_card c))"
    by (rule tei_l1l2_ok) (use 2 in \<open>simp_all add: dcard_good_def\<close>)
  then show ?case using on_card_ok [OF 2(1)] by (simp add: dcard_ops_def)
qed (simp_all add: dcard_ops_def dcard_good_def dcard_arg_def l2arg_of_def l2_prim_arg_def)

text \<open>
  What happens to a card. A request that layer 2 has made is delivered to layer 1 at any later
  point, or, where the transmitter is idle, answered inside the handler of the frame that led to it
  (\<open>frame_now\<close>); frames of the line, messages of the chip, timers and requests of layer 3 come in any order.
\<close>

definition dcard_boot :: "u32 \<Rightarrow> DLayer1 list \<Rightarrow> PStack list \<Rightarrow> kenv \<Rightarrow> DCard" where
  "dcard_boot HW_Flags ls sts k =
     \<lparr>l1_st = map (setstack_HiSax HW_Flags) ls, l1_HW_Flags = HW_Flags, l1_rq = [],
      l1_tx_busy = False, l1_kenv = k,
      dc_card = \<lparr>stlist = map boot_stack sts, cardmsgs = []\<rparr>, dc_hw = []\<rparr>"

definition dcard_receive :: "sk_buff \<Rightarrow> DCard \<Rightarrow> DCard" where
  "dcard_receive skb c = c\<lparr>l1_rq := l1_rq c @ [skb]\<rparr>"

inductive dcard_step :: "DCard \<Rightarrow> DCard option \<Rightarrow> bool" where
  chip: "dcard_step c (l1_msg dcard_ops pr c)"
| l1_timeout: "i < length (l1_st c) \<Longrightarrow> dcard_step c (l1_expire dcard_ops i c)"
| line: "dcard_step c (Some (dcard_receive skb c))"
| rcv: "dcard_step c (DChannel_proc_rcv dcard_ops c)"
| transmitter: "dcard_step c (Some (c\<lparr>l1_tx_busy := b\<rparr>))"
| xmt: "dcard_step c (DChannel_proc_xmt dcard_ops c)"
| l2_request: "i < length (l1_st c) \<Longrightarrow>
     L2L1 pr skb \<in> set (l2_outs (stk_l2 (stlist (dc_card c) ! i))) \<Longrightarrow>
     dcard_step c (dch_l2l1 dcard_ops i pr (l1arg_of skb) c)"
| frame_now: "i < length (l1_st c) \<Longrightarrow> dcard_step c (on_card (stack_l2 i (l2_ph_data_ind_now skb)) c)"
| l3: "i < length (l1_st c) \<Longrightarrow> l2_prim_arg pr arg \<Longrightarrow> pr \<noteq> (MDL_ASSIGN, REQUEST) \<Longrightarrow>
     dcard_step c (on_card (stack_l2 i (isdnl2_l3l2 pr arg)) c)"
| t200: "i < length (l1_st c) \<Longrightarrow> dcard_step c (on_card (stack_l2 i l2_expire_t200) c)"
| t203: "i < length (l1_st c) \<Longrightarrow> dcard_step c (on_card (stack_l2 i l2_expire_t203) c)"
| t202: "i < length (l1_st c) \<Longrightarrow> dcard_step c (on_card (tei_expire i) c)"

inductive dcard_reach :: "DCard \<Rightarrow> bool" where
  boot: "\<not> bit HW_Flags FLG_HW_L1_UINT \<Longrightarrow> length ls = length sts \<Longrightarrow>
     \<forall>st \<in> set sts. l2_fresh (stk_l2 st) \<Longrightarrow> \<forall>st \<in> set sts. clones_ok (l2_env (stk_l2 st)) \<Longrightarrow>
     distinct (filter (\<lambda>t. t \<noteq> -1 \<and> t \<noteq> 127) (map st_tei sts)) \<Longrightarrow>
     dcard_reach (dcard_boot HW_Flags ls sts k)"
| step: "dcard_reach c \<Longrightarrow> dcard_step c (Some c') \<Longrightarrow> dcard_reach c'"

lemma setstack_HiSax_ok: "\<not> bit HW_Flags FLG_HW_L1_UINT \<Longrightarrow> l1_ok (setstack_HiSax HW_Flags st)"
  by (simp add: setstack_HiSax_def l1_ok_def l1_waits_def Let_def)

definition dcard_inv :: "DCard \<Rightarrow> bool" where
  "dcard_inv c \<longleftrightarrow> dcard_good c \<and> (\<forall>s \<in> set (l1_st c). l1_ok s)"

lemma dcard_inv_l1: "dcard_inv c \<longleftrightarrow> dcard.l1_inv (length (l1_st c)) (l1_rq c) c"
  by (simp add: dcard_inv_def dcard.l1_inv_def)

lemma dcard_boot_inv:
  assumes "\<not> bit HW_Flags FLG_HW_L1_UINT" "length ls = length sts"
    "\<forall>st \<in> set sts. l2_fresh (stk_l2 st)" "\<forall>st \<in> set sts. clones_ok (l2_env (stk_l2 st))"
    "distinct (filter (\<lambda>t. t \<noteq> -1 \<and> t \<noteq> 127) (map st_tei sts))"
  shows "dcard_inv (dcard_boot HW_Flags ls sts k)"
proof -
  have "card_reach \<lparr>stlist = map boot_stack sts, cardmsgs = []\<rparr>"
    by (rule card_reach.boot [OF assms(3,4,5)])
  then show ?thesis
    using assms(1,2) card_reach_inv
    by (auto simp: dcard_inv_def dcard_boot_def dcard_good_def setstack_HiSax_ok)
qed

text \<open>A step keeps the invariant and the stacks of the card.\<close>

definition dcard_post :: "DCard \<Rightarrow> DCard \<Rightarrow> bool" where
  "dcard_post c c' \<longleftrightarrow> dcard_inv c' \<and> length (l1_st c') = length (l1_st c)"

lemma dcard_inv_post:
  "wpo m (dcard.l1_inv (length (l1_st c)) q) \<Longrightarrow> wpo m (dcard_post c)"
  by (erule wpo_mono) (simp add: dcard.l1_inv_def dcard_inv_def dcard_post_def)

lemma dcard_inv_on_card:
  assumes "dcard_inv c" "wpo (f (dc_card c)) (tei_post (dc_card c))"
  shows "wpo (on_card f c) (dcard_post c)"
  using assms on_card_ok [of c f] by (auto simp: dcard_inv_def wpo_iff dcard_post_def)

lemma dcard_step_ok: "dcard_step c r \<Longrightarrow> dcard_inv c \<Longrightarrow> wpo r (dcard_post c)"
proof (induction rule: dcard_step.induct)
  case (chip c pr)
  then show ?case by (intro dcard_inv_post [OF dcard.l1_msg_ok]) (simp_all add: dcard_inv_l1)
next
  case (l1_timeout i c)
  then show ?case by (intro dcard_inv_post [OF dcard.l1_expire_ok]) (simp_all add: dcard_inv_l1)
next
  case (rcv c)
  then show ?case by (intro dcard_inv_post [OF dcard.DChannel_proc_rcv_ok]) (simp_all add: dcard_inv_l1)
next
  case (xmt c)
  then show ?case by (intro dcard_inv_post [OF dcard.DChannel_proc_xmt_ok]) (simp_all add: dcard_inv_l1)
next
  case (l2_request i c pr skb)
  then show ?case by (intro dcard_inv_post [OF dcard.dch_l2l1_ok]) (simp_all add: dcard_inv_l1)
next
  case (l3 i c pr arg)
  then show ?case
    by (intro dcard_inv_on_card stack_l2_ok l2_steps_tei(2)) (simp_all add: dcard_inv_def dcard_good_def)
next
  case (frame_now i c skb)
  then show ?case
    by (intro dcard_inv_on_card stack_l2_ok l2_now_tei) (simp_all add: dcard_inv_def dcard_good_def)
next
  case (t200 i c)
  then show ?case
    by (intro dcard_inv_on_card stack_l2_ok l2_steps_tei(3)) (simp_all add: dcard_inv_def dcard_good_def)
next
  case (t203 i c)
  then show ?case
    by (intro dcard_inv_on_card stack_l2_ok l2_steps_tei(4)) (simp_all add: dcard_inv_def dcard_good_def)
next
  case (t202 i c)
  then show ?case
    by (intro dcard_inv_on_card tei_expire_ok) (simp_all add: dcard_inv_def dcard_good_def)
qed (simp_all add: dcard_inv_def dcard_receive_def dcard_good_def dcard_post_def)

lemma dcard_reach_inv: "dcard_reach c \<Longrightarrow> dcard_inv c"
proof (induction rule: dcard_reach.induct)
  case (boot HW_Flags ls sts k)
  then show ?case by (rule dcard_boot_inv)
next
  case (step c c')
  then show ?case using dcard_step_ok [OF step(2)] by (simp add: dcard_post_def)
qed

end
