(* ===== verification/Hisax_Card_Props.thy ===== *)
theory Hisax_Card_Props
  imports Hisax_Card
begin

text \<open>
  Properties of a whole D channel and of a B channel, with runs on a card of two stacks.
\<close>

subsection \<open>A card to evaluate the properties on\<close>

definition layer1_0 :: DLayer1 where
  "layer1_0 = \<lparr>l1_Flags = 0, l1_state = 0, l1_timer = idle_timer, l1_delay = 0, l1_fsm = L1FSM_S\<rparr>"

definition dcard2 :: DCard where
  "dcard2 = dcard_boot 0 [layer1_0, layer1_0] [stack_a, stack_b] env0"

lemma dcard2_reach: "dcard_reach dcard2"
  unfolding dcard2_def
  by (rule dcard_reach.boot)
    (simp_all add: stack_a_def stack_b_def st_tei_def l2_fresh_def link_defs MAX_WINDOW_def
      l2_modulus_def clones_ok_def)

lemma dcard_reach_step: "dcard_reach c \<Longrightarrow> dcard_step c r \<Longrightarrow> r = Some c' \<Longrightarrow> dcard_reach c'"
  using dcard_reach.step by blast

lemma dcard2_sel [simp]:
  "length (l1_st dcard2) = 2" "l1_rq dcard2 = []" "length (stlist (dc_card dcard2)) = 2"
  by (simp_all add: dcard2_def dcard_boot_def)

text \<open>The chip has reported INFO 4: both stacks are in F7 and wait for the confirmation timer.\<close>

definition dcard2_F7 :: "DCard option" where
  "dcard2_F7 = l1_msg dcard_ops (HW_INFO4_P8, INDICATION) dcard2"

lemma dcard2_F7_run:
  "map_option (\<lambda>c. (map l1_state (l1_st c), length (l1_st c))) dcard2_F7 =
   Some ([ST_L1_F7, ST_L1_F7], 2)"
  by code_simp

lemma dcard2_F7_reach:
  obtains c where "dcard2_F7 = Some c" "dcard_reach c" "length (l1_st c) = 2"
    "l1_state (l1_st c ! 0) = ST_L1_F7"
proof -
  obtain c where c: "dcard2_F7 = Some c" "map l1_state (l1_st c) = [ST_L1_F7, ST_L1_F7]"
    using dcard2_F7_run by auto
  have "dcard_reach c"
    using c(1) dcard_reach_step [OF dcard2_reach dcard_step.chip] unfolding dcard2_F7_def by blast
  moreover have "length (l1_st c) = 2" "l1_state (l1_st c ! 0) = ST_L1_F7"
    using c(2) by (auto simp: map_eq_Cons_conv)
  ultimately show thesis using that c(1) by blast
qed

subsection \<open>Properties\<close>

text \<open>
  C18. The D channel of an S interface card (\<open>dcard_reach\<close> starts from \<open>setstack_HiSax\<close> without
  \<open>FLG_HW_L1_UINT\<close>; the U interface is C22), from layer 1 up to layer 2 and the TEI manager, does not
  fault as long as the copies that layer 2 keeps of its I frames can be made (\<open>clones_ok\<close>, the
  premise of \<open>dcard_reach.boot\<close>; any other allocation may fail): whatever the chip reports, the line sends, layer 3 asks for, and in whatever order timers expire
  and the requests of layer 2 get to layer 1.
\<close>

theorem dchannel_no_fault:
  assumes "dcard_reach c" "dcard_step c r"
  shows "r \<noteq> None"
  using dcard_step_ok [OF assms(2) dcard_reach_inv [OF assms(1)]] by (auto simp: wpo_iff)

theorem dchannel_no_fault_witness:
  "DChannel_proc_rcv dcard_ops dcard2 \<noteq> None"
  by (rule dchannel_no_fault [OF dcard2_reach dcard_step.rcv])

text \<open>
  C19. A stack of an S interface in F7, the activated state, has its activation reported, or the timer
  that will report it runs; the deactivation timer never runs there.
\<close>

theorem l1_activation_timed:
  assumes "dcard_reach c" "i < length (l1_st c)" "l1_state (l1_st c ! i) = ST_L1_F7"
  shows "(l1_test FLG_L1_ACTIVATED i c \<or> l1_waits EV_TIMER_ACT (l1_st c ! i)) \<and>
    \<not> l1_waits EV_TIMER_DEACT (l1_st c ! i)"
proof -
  have "l1_ok (l1_st c ! i)" using dcard_reach_inv [OF assms(1)] assms(2) by (simp add: dcard_inv_def)
  then show ?thesis using assms(3) by (auto simp: l1_ok_def l1_test_def)
qed

theorem l1_activation_timed_witness:
  "\<exists>c. dcard2_F7 = Some c \<and> \<not> l1_waits EV_TIMER_DEACT (l1_st c ! 0)"
proof -
  obtain c where "dcard2_F7 = Some c" "dcard_reach c" "length (l1_st c) = 2"
    "l1_state (l1_st c ! 0) = ST_L1_F7" by (rule dcard2_F7_reach)
  then show ?thesis using l1_activation_timed [of c 0] by auto
qed

text \<open>
  C20. The receive loop of the D channel ends, and it works off the queue up to and including the
  first frame without a LAPD address; what is behind such a frame stays queued.
\<close>

theorem dchannel_receive_ends:
  assumes "dcard_reach c"
  shows "\<exists>c'. DChannel_proc_rcv dcard_ops c = Some c' \<and> l1_rq c' = rcv_rest (l1_rq c) \<and>
    length (l1_st c') = length (l1_st c)"
proof -
  have "wpo (DChannel_proc_rcv dcard_ops c)
      (dcard.l1_inv (length (l1_st c)) (rcv_rest (l1_rq c)))"
    by (rule dcard.DChannel_proc_rcv_ok) (use dcard_reach_inv [OF assms] in \<open>simp add: dcard_inv_l1\<close>)
  then show ?thesis by (auto simp: wpo_iff dcard.l1_inv_def)
qed

text \<open>The broken frame of one octet in front of a good one.\<close>

definition two_frames :: "sk_buff list" where
  "two_frames = [skb_new 0 [0], skb_new 0 [0, 1, F_UI]]"

theorem dchannel_receive_ends_witness:
  "\<exists>c'. DChannel_proc_rcv dcard_ops (dcard2\<lparr>l1_rq := two_frames\<rparr>) = Some c' \<and>
     l1_rq c' = [skb_new 0 [0, 1, F_UI]]"
proof -
  have r: "dcard_reach (dcard_receive (two_frames ! 1) (dcard_receive (two_frames ! 0) dcard2))"
    by (intro dcard_reach.step [OF _ dcard_step.line] dcard2_reach)
  have eq: "dcard_receive (two_frames ! 1) (dcard_receive (two_frames ! 0) dcard2) =
      dcard2\<lparr>l1_rq := two_frames\<rparr>"
    by (simp add: dcard_receive_def two_frames_def)
  show ?thesis
    using dchannel_receive_ends [OF r] unfolding eq
    by (auto simp: two_frames_def lapd_address_def)
qed

lemma rcv_for_tei_first:
  "i \<in> set is \<Longrightarrow> op_l2tei up i c = t \<Longrightarrow> \<forall>j \<in> set is. j \<noteq> i \<longrightarrow> op_l2tei up j c \<noteq> t \<Longrightarrow>
   rcv_for_tei up t skb is c = op_l1l2 up i (PH_DATA, INDICATION) (Some skb) c"
proof (induction "is")
  case (Cons j js)
  show ?case
  proof (cases "j = i")
    case False
    then have "i \<in> set js" "t \<noteq> op_l2tei up j c" using Cons.prems by auto
    then show ?thesis using Cons by simp
  qed (use Cons.prems(2) in simp)
qed simp

text \<open>
  C21. A frame on the signalling SAPI with the TEI of a stack is handled by layer 2 of that stack and
  by no other.
\<close>

theorem dchannel_routing:
  assumes "dcard_reach c" "i < length (l1_st c)"
    and "drop_bit 2 (skb_bytes skb ! 0) = CTRL_SAPI" "drop_bit 1 (skb_bytes skb ! 1) \<noteq> GROUP_TEI"
    and "st_tei (stlist (dc_card c) ! i) = uint (drop_bit 1 (skb_bytes skb ! 1))"
  shows "rcv_frame dcard_ops skb c =
    on_card (stack_l2 i (isdnl2_l1l2 (PH_DATA, INDICATION) (Skb skb))) c"
proof -
  let ?t = "uint (drop_bit 1 (skb_bytes skb ! 1))"
  have inv: "tei_inv (dc_card c)" and len: "length (stlist (dc_card c)) = length (l1_st c)"
    using dcard_reach_inv [OF assms(1)] by (simp_all add: dcard_inv_def dcard_good_def)
  have "?t \<noteq> 127"
    using assms(4) by (auto simp: GROUP_TEI_def word_uint_eq_iff)
  moreover have "?t \<noteq> -1" using uint_nonnegative [of "drop_bit 1 (skb_bytes skb ! 1)"] by linarith
  ultimately have uniq: "st_tei (stlist (dc_card c) ! j) \<noteq> ?t" if "j < length (l1_st c)" "j \<noteq> i" for j
    using teis_unique [OF inv, of j i] that assms(2,5) len by metis
  have tei: "op_l2tei dcard_ops j c = st_tei (stlist (dc_card c) ! j)" for j
    by (simp add: dcard_ops_def)
  have "rcv_for_tei dcard_ops ?t skb (l1_stacks c) c =
      op_l1l2 dcard_ops i (PH_DATA, INDICATION) (Some skb) c"
    by (rule rcv_for_tei_first) (use assms(2,5) uniq in \<open>simp_all add: tei\<close>)
  also have "\<dots> = on_card (stack_l2 i (isdnl2_l1l2 (PH_DATA, INDICATION) (Skb skb))) c"
    by (simp add: dcard_ops_def l2arg_of_def)
  finally show ?thesis using assms(3,4) by (simp add: rcv_frame_def Let_def)
qed

theorem dchannel_routing_witness:
  "rcv_frame dcard_ops (skb_new 0 [0, 0x81, F_UI]) dcard2 =
   on_card (stack_l2 1 (isdnl2_l1l2 (PH_DATA, INDICATION) (Skb (skb_new 0 [0, 0x81, F_UI])))) dcard2"
proof (rule dchannel_routing [OF dcard2_reach])
  show "st_tei (stlist (dc_card dcard2) ! 1) =
      uint (drop_bit 1 (skb_bytes (skb_new 0 [0, 0x81, F_UI]) ! 1))"
    by (simp add: dcard2_def dcard_boot_def stack_b_def) (simp add: st_tei_def)
qed (simp_all add: CTRL_SAPI_def GROUP_TEI_def)

text \<open>
  C22. A stack that \<open>setstack_HiSax\<close> sets up for a U interface takes itself for active before any
  signal of the line, and once it has seen INFO 2 it ignores every later event: the flag word is
  assigned the number of \<open>FLG_L1_UINT\<close> and not its bit, so the handler takes the stack for an S
  interface and puts the U machine into a state it does not have.
\<close>

theorem l1_u_interface_stuck:
  assumes "i < length (l1_st c)" "bit HW_Flags FLG_HW_L1_UINT"
    and "l1_st c ! i = (setstack_HiSax HW_Flags s)\<lparr>l1_state := st\<rparr>" "st \<in> {ST_L1_DEACT, ST_L1_TRANS}"
  shows "dch_l2l1 dcard_ops i (PH_ACTIVATE, REQUEST) arg c =
      op_l1l2 dcard_ops i (PH_ACTIVATE, CONFIRM) None c \<and>
    (\<exists>c'. l1_event dcard_ops EV_INFO2_IND i c = Some c' \<and>
       (\<forall>ev. l1_event dcard_ops ev i c' = Some c'))"
proof -
  let ?l = "l1_st c ! i"
  let ?c' = "(l1_change ST_L1_F6 i c)\<lparr>dc_hw := dc_hw c @ [(i, (HW_INFO3, REQUEST), L1None)]\<rparr>"
  have l: "l1_fsm ?l = L1FSM_U" "l1_Flags ?l = 7" "l1_state ?l = st"
    using assms(2,3) by (simp_all add: setstack_HiSax_def Let_def)
  have "fsm_lookup (L1UFnList dcard_ops) st EV_INFO2_IND = Some (l1_info2_ind dcard_ops)"
    using assms(4) by (auto simp: L1UFnList_def fsm_lookup_def)
  then have "l1_event dcard_ops EV_INFO2_IND i c = l1_info2_ind dcard_ops i c"
    using assms(1,4) l by (auto simp: l1_event_def FsmEvent_fsm_of option.map_comp comp_def option.map_ident)
  also have "\<dots> = Some ?c'"
    using l by (simp add: l1_info2_ind_def l1_test_def dcard_ops_def l1_change_def l1_upd_def bit_numeral_rec)
  finally have step: "l1_event dcard_ops EV_INFO2_IND i c = Some ?c'" .
  have "l1_st ?c' ! i = (l1_st c ! i)\<lparr>l1_state := ST_L1_F6\<rparr>" "length (l1_st ?c') = length (l1_st c)"
    using assms(1) by (simp_all add: l1_change_def)
  then have "l1_event dcard_ops ev i ?c' = Some ?c'" for ev
    using assms(1) l(1) by (simp add: l1_event_def FsmEvent_fsm_of)
  then show ?thesis
    using step l(2) by (auto simp: dch_l2l1_def l1_test_def bit_numeral_rec)
qed

definition dcard_u :: DCard where
  "dcard_u = dcard2\<lparr>l1_st := [(setstack_HiSax 0x400 layer1_0)\<lparr>l1_state := ST_L1_DEACT\<rparr>]\<rparr>"

theorem l1_u_interface_stuck_witness:
  "\<exists>c'. l1_event dcard_ops EV_INFO2_IND 0 dcard_u = Some c' \<and>
     l1_event dcard_ops EV_INFO4_IND 0 c' = Some c'"
  using l1_u_interface_stuck [where i = 0 and c = dcard_u and HW_Flags = "0x400" and s = layer1_0 and
      st = ST_L1_DEACT and arg = L1None]
  by (auto simp: dcard_u_def)

text \<open>
  An activation that the first received frame has reported is reported a second time by the
  timer, which \<open>DChannel_proc_rcv\<close> does not stop.
\<close>

definition activation_twice :: "DCard option" where
  "activation_twice = do {
     c \<leftarrow> dcard2_F7;
     c \<leftarrow> DChannel_proc_rcv dcard_ops c;
     Some c
   }"

lemma activation_reported_twice:
  "map_option (\<lambda>c. (l1_test FLG_L1_ACTIVATED 0 c, l1_waits EV_TIMER_ACT (l1_st c ! 0))) activation_twice =
   Some (True, True)"
  by code_simp

end
