(* ===== verification/Hisax_BChan.thy ===== *)
theory Hisax_BChan
  imports Hisax_Card_Props
begin

text \<open>
  A B channel of HiSax with the link layer (X.75, LAPB) on top of it: the instance of \<open>b_client\<close> and
  what it guarantees.
\<close>

subsection \<open>A B channel\<close>

record BChan = BCState +
  bch_l2 :: Layer2
  bch_hw :: "prim list"

definition on_bch :: "(Layer2 \<Rightarrow> Layer2 option) \<Rightarrow> BChan \<Rightarrow> BChan option" where
  "on_bch f b = map_option (\<lambda>l. b\<lparr>bch_l2 := l\<rparr>) (f (bch_l2 b))"

definition bchan_ops :: "BChan b_ops" where
  "bchan_ops =
    \<lparr>op_b_l1l2 = (\<lambda>pr skb. on_bch (isdnl2_l1l2 pr (l2arg_of skb))),
     op_b_l2l1 = (\<lambda>pr b. Some (b\<lparr>bch_hw := bch_hw b @ [pr]\<rparr>))\<rparr>"

definition bchan_good :: "BChan \<Rightarrow> bool" where
  "bchan_good b \<longleftrightarrow> l2_inv (bch_l2 b)"

lemma on_bch_ok:
  "wpo (f (bch_l2 b)) l2_inv \<Longrightarrow>
   wpo (on_bch f b) (\<lambda>b'. bchan_good b' \<and> bc_l1 b' = bc_l1 b \<and> bc_rqueue b' = bc_rqueue b)"
  by (auto simp: on_bch_def bchan_good_def wpo_iff)

interpretation bchan: b_client bchan_ops bchan_good
proof (unfold_locales, goal_cases)
  case (1 pr skb b)
  then have "wpo (isdnl2_l1l2 pr (l2arg_of skb) (bch_l2 b)) l2_inv"
    by (intro isdnl2_l1l2_ok)
      (auto simp: bchan_good_def l2arg_of_def l2_prim_arg_def split: option.splits)
  then show ?case
    using on_bch_ok [of "isdnl2_l1l2 pr (l2arg_of skb)" b] by (simp add: bchan_ops_def)
qed (simp_all add: bchan_ops_def bchan_good_def)

definition bchan_boot :: "Layer1 \<Rightarrow> Layer2 \<Rightarrow> BChan \<Rightarrow> BChan" where
  "bchan_boot l1 l2 b =
     (init_bcstate b)\<lparr>bc_rqueue := [], bc_l1 := setstack_l1_B l1, bch_l2 := setstack_isdnl2 l2\<rparr>"

text \<open>
  The interrupt handler of the driver queues frames and sets event and flag bits. In \<open>frame_now\<close> the
  idle transmitter answers the pull request of layer 2 inside the handler of the frame.
\<close>

inductive bchan_step :: "BChan \<Rightarrow> BChan option \<Rightarrow> bool" where
  request: "bchan_step b (l1_msg_b bchan_ops pr b)"
| timeout: "bchan_step b (b_expire bchan_ops b)"
| interrupt: "bchan_step b (Some (b\<lparr>bc_rqueue := bc_rqueue b @ skbs, bc_event := e, bc_Flag := fl,
     bc_squeue := sq\<rparr>))"
| bottom_half: "bchan_step b (BChannel_bh bchan_ops b)"
| frame_now: "bchan_step b (on_bch (l2_ph_data_ind_now skb) b)"
| l3: "l2_prim_arg pr arg \<Longrightarrow> bchan_step b (on_bch (isdnl2_l3l2 pr arg) b)"
| t200: "bchan_step b (on_bch l2_expire_t200 b)"
| t203: "bchan_step b (on_bch l2_expire_t203 b)"

inductive bchan_reach :: "BChan \<Rightarrow> bool" where
  boot: "l2_fresh l2 \<Longrightarrow> clones_ok (l2_env l2) \<Longrightarrow> bchan_reach (bchan_boot l1 l2 b)"
| step: "bchan_reach b \<Longrightarrow> bchan_step b (Some b') \<Longrightarrow> bchan_reach b'"

definition bchan_inv :: "BChan \<Rightarrow> bool" where
  "bchan_inv b \<longleftrightarrow> bchan_good b \<and> b_ok (bc_l1 b)"

lemma bchan_inv_b: "bchan_inv b \<longleftrightarrow> bchan.b_inv (bc_rqueue b) b"
  by (simp add: bchan_inv_def bchan.b_inv_def)

lemma bchan_inv_post: "wpo m (bchan.b_inv q) \<Longrightarrow> wpo m bchan_inv"
  by (erule wpo_mono) (simp add: bchan_inv_def bchan.b_inv_def)

lemma bchan_inv_on_bch:
  "bchan_inv b \<Longrightarrow> wpo (f (bch_l2 b)) l2_inv \<Longrightarrow> wpo (on_bch f b) bchan_inv"
  using on_bch_ok [of f b] by (auto simp: bchan_inv_def wpo_iff)

lemma bchan_inv_l2: "bchan_inv b \<Longrightarrow> l2_inv (bch_l2 b)"
  by (simp add: bchan_inv_def bchan_good_def)

lemma bchan_step_ok: "bchan_step b r \<Longrightarrow> bchan_inv b \<Longrightarrow> wpo r bchan_inv"
proof (induction rule: bchan_step.induct)
  case (request b pr)
  then show ?case by (intro bchan_inv_post [OF bchan.l1_msg_b_ok]) (simp add: bchan_inv_b)
next
  case (timeout b)
  then show ?case by (intro bchan_inv_post [OF bchan.b_expire_ok]) (simp add: bchan_inv_b)
next
  case (bottom_half b)
  then show ?case
    using bchan.BChannel_bh_ok [of "bc_rqueue b" b]
    by (auto simp: bchan_inv_b wpo_iff) (auto simp: bchan_inv_def bchan.b_inv_def)
next
  case (l3 pr arg b)
  then show ?case by (intro bchan_inv_on_bch isdnl2_l3l2_ok bchan_inv_l2)
next
  case (frame_now b skb)
  then show ?case by (intro bchan_inv_on_bch l2_ph_data_ind_now_ok bchan_inv_l2)
next
  case (t200 b)
  then show ?case by (intro bchan_inv_on_bch l2_expire_t200_ok bchan_inv_l2)
next
  case (t203 b)
  then show ?case by (intro bchan_inv_on_bch l2_expire_t203_ok bchan_inv_l2)
qed (simp add: bchan_inv_def bchan_good_def)

lemma bchan_reach_inv: "bchan_reach b \<Longrightarrow> bchan_inv b"
proof (induction rule: bchan_reach.induct)
  case (boot l2 l1 b)
  then show ?case
    by (simp add: bchan_inv_def bchan_good_def bchan_boot_def setstack_l1_B_ok setstack_isdnl2_inv)
next
  case (step b b')
  then show ?case using bchan_step_ok [OF step(2)] by simp
qed

subsection \<open>Properties of a B channel\<close>

definition bchan0 :: BChan where
  "bchan0 = \<lparr>bc_Flag = 0, bc_event = 0, bc_rqueue = [], bc_squeue = [],
     bc_l1 = \<lparr>l1_Flags = 0, l1_state = 0, l1_timer = idle_timer, l1_delay = 10\<rparr>,
     bc_kenv = env0, bch_l2 = link_new, bch_hw = []\<rparr>"

definition bchan_up :: BChan where
  "bchan_up = bchan_boot (bc_l1 bchan0) link_new bchan0"

lemma bchan_up_reach: "bchan_reach bchan_up"
  unfolding bchan_up_def
  by (rule bchan_reach.boot)
    (simp_all add: l2_fresh_def link_defs MAX_WINDOW_def l2_modulus_def clones_ok_def)

text \<open>
  C23. A B channel with its layer 2 link does not fault, whatever the driver, layer 3 and the timers
  do and in whatever order, as long as the copies that layer 2 keeps of its frames can be made
  (\<open>clones_ok\<close>, the premise of \<open>bchan_reach.boot\<close>; any other allocation may fail); and its layer 1 never hangs while it starts or stops: in a waiting
  state the timer runs that leaves the state, in the others no timer runs.
\<close>

theorem bchannel_safe:
  assumes "bchan_reach b"
  shows "(\<forall>r. bchan_step b r \<longrightarrow> r \<noteq> None) \<and>
    (l1_state (bc_l1 b) = ST_L1_WAIT_ACT \<longleftrightarrow> l1_waits EV_TIMER_ACT (bc_l1 b)) \<and>
    (l1_state (bc_l1 b) = ST_L1_WAIT_DEACT \<longleftrightarrow> l1_waits EV_TIMER_DEACT (bc_l1 b))"
proof -
  have inv: "bchan_inv b" using assms by (rule bchan_reach_inv)
  have "r \<noteq> None" if "bchan_step b r" for r
    using bchan_step_ok [OF that inv] by (auto simp: wpo_iff)
  moreover have "b_ok (bc_l1 b)" using inv by (simp add: bchan_inv_def)
  ultimately show ?thesis by (auto simp: b_ok_def l1_waits_def)
qed

theorem bchannel_safe_witness:
  "\<exists>b. l1_msg_b bchan_ops (PH_ACTIVATE, REQUEST) bchan_up = Some b \<and>
     l1_state (bc_l1 b) = ST_L1_WAIT_ACT \<and> l1_waits EV_TIMER_ACT (bc_l1 b)"
proof -
  have "map_option (\<lambda>b. l1_state (bc_l1 b)) (l1_msg_b bchan_ops (PH_ACTIVATE, REQUEST) bchan_up) =
      Some ST_L1_WAIT_ACT"
    by code_simp
  then obtain b where b: "l1_msg_b bchan_ops (PH_ACTIVATE, REQUEST) bchan_up = Some b"
    "l1_state (bc_l1 b) = ST_L1_WAIT_ACT"
    by auto
  have "bchan_reach b"
    using bchan_reach.step [OF bchan_up_reach] bchan_step.request [of bchan_up "(PH_ACTIVATE, REQUEST)"]
      b(1) by simp
  from bchannel_safe [OF this] b show ?thesis by auto
qed

end
