(* ===== verification/Hisax_L3_Inv.thy ===== *)
theory Hisax_L3_Inv
  imports Hisax_L3
begin

text \<open>
  What \<open>isdnl3.c\<close> needs from layer 2 (the locale \<open>l3_link\<close>) and from the protocol above it (the
  locale \<open>l3_client\<close>), and what it guarantees on top of them: the release timer runs exactly in the
  release delay, no message stays queued on an established link, the walk over the processes never
  touches a freed one, and messages go down in the order they came.
\<close>

subsection \<open>The events one by one\<close>

lemmas l3_dispatch = l3_event.simps FsmEvent_fsm_of fsm_lookup_def L3FnList_def

lemma l3_event_establish_req:
  "l3_event (Suc d) up EV_ESTABLISH_REQ c =
     (if l3_m_state c = ST_L3_LC_REL \<or> l3_m_state c = ST_L3_LC_REL_WAIT then lc_activate up () c
      else if l3_m_state c = ST_L3_LC_REL_DELAY then lc_connected up (l3_event d up) () c
      else Some c)"
  by (simp add: l3_dispatch option.map_comp comp_def option.map_ident)

lemma l3_event_establish_ind:
  "l3_event (Suc d) up EV_ESTABLISH_IND c =
     (if l3_m_state c = ST_L3_LC_REL then lc_connect up (l3_event d up) () c else Some c)"
  by (simp add: l3_dispatch option.map_comp comp_def option.map_ident)

lemma l3_event_establish_cnf:
  "l3_event (Suc d) up EV_ESTABLISH_CNF c =
     (if l3_m_state c = ST_L3_LC_REL then lc_connect up (l3_event d up) () c
      else if l3_m_state c = ST_L3_LC_ESTAB_WAIT then lc_connected up (l3_event d up) () c
      else Some c)"
  by (simp add: l3_dispatch option.map_comp comp_def option.map_ident)

lemma l3_event_release_req:
  "l3_event (Suc d) up EV_RELEASE_REQ c =
     (if l3_m_state c = ST_L3_LC_ESTAB_WAIT then lc_start_delay () c
      else if l3_m_state c = ST_L3_LC_ESTAB then lc_start_delay_check () c
      else Some c)"
  by (simp add: l3_dispatch option.map_comp comp_def option.map_ident)

lemma l3_event_release_cnf:
  "l3_event (Suc d) up EV_RELEASE_CNF c =
     (if l3_m_state c = ST_L3_LC_REL_WAIT then lc_release_cnf up () c else Some c)"
  by (simp add: l3_dispatch option.map_comp comp_def option.map_ident)

lemma l3_event_release_ind:
  "l3_event (Suc d) up EV_RELEASE_IND c =
     (if l3_m_state c = ST_L3_LC_ESTAB_WAIT \<or> l3_m_state c = ST_L3_LC_ESTAB \<or>
         l3_m_state c = ST_L3_LC_REL_DELAY then lc_release_ind up () c else Some c)"
  by (simp add: l3_dispatch option.map_comp comp_def option.map_ident)

lemma l3_event_timeout:
  "l3_event (Suc d) up EV_TIMEOUT c =
     (if l3_m_state c = ST_L3_LC_REL_DELAY then lc_release_req up () c else Some c)"
  by (simp add: l3_dispatch option.map_comp comp_def option.map_ident)

lemmas l3_events =
  l3_event_establish_req l3_event_establish_ind l3_event_establish_cnf l3_event_release_req
  l3_event_release_cnf l3_event_release_ind l3_event_timeout

declare l3_event.simps [simp del]

lemmas l3_fsm_events = l3_events [of "Suc 0", folded numeral_2_eq_2]

subsection \<open>The invariant\<close>

abbreviation l3_addrs :: "'z Layer3_scheme \<Rightarrow> nat list" where
  "l3_addrs c \<equiv> map p_addr (l3_proc c)"

text \<open>
  The timer is the release timer: it runs in the release delay and nowhere else, except that an
  NI1 stack keeps the delay without one. A queue is only kept while layer 2 comes up or goes down.
\<close>

definition l3_ok :: "'z Layer3_scheme \<Rightarrow> bool" where
  "l3_ok c \<longleftrightarrow>
     l3_m_state c < L3_STATE_COUNT \<and>
     (tl_pending (l3_m_timer c) \<longrightarrow>
        tm_event (l3_m_timer c) = EV_TIMEOUT \<and> l3_m_state c = ST_L3_LC_REL_DELAY) \<and>
     (l3_m_state c = ST_L3_LC_REL_DELAY \<and> l3_protocol c \<noteq> ISDN_PTYPE_NI1 \<longrightarrow>
        tl_pending (l3_m_timer c)) \<and>
     (l3_m_state c \<in> {ST_L3_LC_REL, ST_L3_LC_ESTAB} \<longrightarrow> l3_squeue c = []) \<and>
     distinct (l3_addrs c) \<and> (\<forall>p \<in> set (l3_proc c). p_addr p < l3_next_addr c) \<and>
     (\<forall>g. l3_global c = Some g \<longrightarrow> p_addr g \<notin> set (l3_addrs c) \<and> p_addr g < l3_next_addr c)"

text \<open>A call down leaves layer 3 as it was.\<close>

definition l3_same :: "'z Layer3_scheme \<Rightarrow> 'z Layer3_scheme \<Rightarrow> bool" where
  "l3_same c c' \<longleftrightarrow>
     l3_m_state c' = l3_m_state c \<and> l3_m_timer c' = l3_m_timer c \<and> l3_squeue c' = l3_squeue c \<and>
     l3_proc c' = l3_proc c \<and> l3_global c' = l3_global c \<and> l3_N303 c' = l3_N303 c \<and>
     l3_protocol c' = l3_protocol c \<and> l3_next_addr c' = l3_next_addr c \<and>
     l3_fresh c' = l3_fresh c \<and> l3_kenv c' = l3_kenv c"

lemma l3_same_refl [simp]: "l3_same c c"
  by (simp add: l3_same_def)

lemma l3_same_trans: "l3_same a b \<Longrightarrow> l3_same b c \<Longrightarrow> l3_same a c"
  by (simp add: l3_same_def)

lemma l3_ok_same: "l3_same c c' \<Longrightarrow> l3_ok c' = l3_ok c"
  by (simp add: l3_same_def l3_ok_def)

text \<open>What an operation of this machine leaves alone.\<close>

definition procs_same :: "'z Layer3_scheme \<Rightarrow> 'z Layer3_scheme \<Rightarrow> bool" where
  "procs_same c c' \<longleftrightarrow> l3_proc c' = l3_proc c \<and> l3_next_addr c' = l3_next_addr c \<and>
     l3_protocol c' = l3_protocol c \<and> l3_fresh c' = l3_fresh c \<and> l3_global c' = l3_global c"

text \<open>The calls layer 3 makes to layer 2.\<close>

definition l3l2_call :: "prim \<Rightarrow> sk_buff option \<Rightarrow> bool" where
  "l3l2_call pr skb \<longleftrightarrow>
     pr = (DL_DATA, REQUEST) \<and> skb \<noteq> None \<or>
     pr \<in> {(DL_ESTABLISH, REQUEST), (DL_RELEASE, REQUEST)} \<and> skb = None"

subsection \<open>The contract with layer 2\<close>

text \<open>
  \<open>sent\<close> is what layer 2 was given to transmit. The calls layer 2 makes while it serves a request
  are delivered later; so a request leaves layer 3 as it was.
\<close>

locale l3_link =
  fixes up :: "'z Layer3_scheme l3_ops"
    and good :: "'z Layer3_scheme \<Rightarrow> bool"
    and sent :: "'z Layer3_scheme \<Rightarrow> sk_buff list"
  assumes l3l2_ok:
      "\<And>pr skb c. good c \<Longrightarrow> l3l2_call pr skb \<Longrightarrow>
         wpo (op_l3l2 up pr skb c)
           (\<lambda>c'. good c' \<and> l3_same c c' \<and>
              sent c' = sent c @ (if pr = (DL_DATA, REQUEST) then [the skb] else []))"
    and good_more: "\<And>c c'. Layer3.more c' = Layer3.more c \<Longrightarrow> l3_kenv c' = l3_kenv c \<Longrightarrow>
         l3_fresh c' = l3_fresh c \<Longrightarrow> good c' = good c"
    and sent_more: "\<And>c c'. Layer3.more c' = Layer3.more c \<Longrightarrow> sent c' = sent c"
begin

lemma more_upd [simp]:
  "Layer3.more (c\<lparr>l3_m_state := n\<rparr>) = Layer3.more c"
  "Layer3.more (c\<lparr>l3_m_timer := t\<rparr>) = Layer3.more c"
  "Layer3.more (c\<lparr>l3_squeue := q\<rparr>) = Layer3.more c"
  "Layer3.more (c\<lparr>l3_proc := ps\<rparr>) = Layer3.more c"
  "Layer3.more (c\<lparr>l3_global := g\<rparr>) = Layer3.more c"
  "Layer3.more (c\<lparr>l3_next_addr := a\<rparr>) = Layer3.more c"
  "Layer3.more (c\<lparr>l3_kenv := k\<rparr>) = Layer3.more c"
  by simp_all

lemma good_upd [simp]:
  "good (c\<lparr>l3_m_state := n\<rparr>) = good c" "good (c\<lparr>l3_m_timer := t\<rparr>) = good c"
  "good (c\<lparr>l3_squeue := q\<rparr>) = good c" "good (c\<lparr>l3_proc := ps\<rparr>) = good c"
  "good (c\<lparr>l3_global := g\<rparr>) = good c" "good (c\<lparr>l3_next_addr := a\<rparr>) = good c"
  "good (l3_change n c) = good c" "good (l3_add_timer c) = good c" "good (l3_del_timer c) = good c"
  by (rule good_more; simp add: l3_change_def l3_add_timer_def l3_del_timer_def)+

lemma sent_upd [simp]:
  "sent (c\<lparr>l3_m_state := n\<rparr>) = sent c" "sent (c\<lparr>l3_m_timer := t\<rparr>) = sent c"
  "sent (c\<lparr>l3_squeue := q\<rparr>) = sent c" "sent (c\<lparr>l3_proc := ps\<rparr>) = sent c"
  "sent (c\<lparr>l3_global := g\<rparr>) = sent c" "sent (c\<lparr>l3_next_addr := a\<rparr>) = sent c"
  "sent (c\<lparr>l3_kenv := k\<rparr>) = sent c"
  "sent (l3_change n c) = sent c" "sent (l3_add_timer c) = sent c" "sent (l3_del_timer c) = sent c"
  by (rule sent_more, simp add: l3_change_def l3_add_timer_def l3_del_timer_def)+

lemma send_ok:
  "good c \<Longrightarrow> wpo (op_l3l2 up (DL_DATA, REQUEST) (Some skb) c)
     (\<lambda>c'. good c' \<and> l3_same c c' \<and> sent c' = sent c @ [skb])"
  using l3l2_ok [of c "(DL_DATA, REQUEST)" "Some skb"] by (simp add: l3l2_call_def)

lemma call_ok:
  "good c \<Longrightarrow> pr \<in> {(DL_ESTABLISH, REQUEST), (DL_RELEASE, REQUEST)} \<Longrightarrow>
     wpo (op_l3l2 up pr None c) (\<lambda>c'. good c' \<and> l3_same c c' \<and> sent c' = sent c)"
  using l3l2_ok [of c pr None] by (auto simp: l3l2_call_def)

text \<open>The whole queue is sent, in its order.\<close>

lemma flush_squeue_ok:
  assumes "good c"
  shows "wpo (flush_squeue up b c)
    (\<lambda>(b', c'). good c' \<and> l3_same (c\<lparr>l3_squeue := []\<rparr>) c' \<and> sent c' = sent c @ l3_squeue c \<and>
       b' = (b \<or> l3_squeue c \<noteq> []))"
  using assms
proof (induction "l3_squeue c" arbitrary: b c)
  case Nil
  then show ?case by (subst flush_squeue.simps) (simp add: l3_same_def)
next
  case (Cons skb q)
  let ?c = "c\<lparr>l3_squeue := q\<rparr>"
  have ind: "wpo (flush_squeue up True c1) (\<lambda>(b', c'). good c' \<and>
      l3_same (c\<lparr>l3_squeue := []\<rparr>) c' \<and> sent c' = sent c @ l3_squeue c \<and> b' = (b \<or> l3_squeue c \<noteq> []))"
    if "good c1 \<and> l3_same ?c c1 \<and> sent c1 = sent ?c @ [skb]" for c1
    by (rule wpo_mono [OF Cons.hyps(1) [of c1 True]])
      (use that Cons.hyps(2) [symmetric] in \<open>auto simp: l3_same_def\<close>)
  have q: "l3_squeue c = skb # q" using Cons.hyps(2) by simp
  have "wpo (op_l3l2 up (DL_DATA, REQUEST) (Some skb) ?c) (\<lambda>c1. wpo (flush_squeue up True c1)
      (\<lambda>(b', c'). good c' \<and> l3_same (c\<lparr>l3_squeue := []\<rparr>) c' \<and> sent c' = sent c @ l3_squeue c \<and>
        b' = (b \<or> l3_squeue c \<noteq> [])))"
    by (rule wpo_mono [OF send_ok]) (use Cons.prems in simp, rule ind, simp)
  then show ?case by (subst flush_squeue.simps) (simp add: q)
qed

lemma lc_activate_ok:
  assumes "good c" "l3_ok c" "l3_m_state c = ST_L3_LC_REL \<or> l3_m_state c = ST_L3_LC_REL_WAIT"
  shows "wpo (lc_activate up () c) (\<lambda>c'. good c' \<and> l3_ok c' \<and> procs_same c c' \<and>
    l3_m_state c' = ST_L3_LC_ESTAB_WAIT \<and> l3_squeue c' = l3_squeue c \<and> sent c' = sent c)"
  unfolding lc_activate_def
  by (rule wpo_mono [OF call_ok])
    (use assms in \<open>auto simp: l3_ok_same l3_ok_def l3_change_def l3_same_def procs_same_def\<close>)

text \<open>A process goes; the machine only hears of it when no process is left.\<close>

lemma l3ml3p_none: "l3_proc c = [] \<Longrightarrow> l3ml3p up pr c = Some c"
  by (simp add: l3ml3p_def l3ml3p_loop.simps)

lemma remove_addrs:
  "distinct (map p_addr ps) \<Longrightarrow> map p_addr (remove_proc a ps) = remove1 a (map p_addr ps)"
  by (induction ps) (auto simp: remove_proc_def remove1_idem filter_id_conv)

lemma remove_ok:
  assumes "good c" "l3_ok c"
  shows "good (c\<lparr>l3_proc := remove_proc a (l3_proc c)\<rparr>)"
    "l3_ok (c\<lparr>l3_proc := remove_proc a (l3_proc c)\<rparr>)"
  using assms distinct_map_filter [of p_addr "l3_proc c" "\<lambda>p. p_addr p \<noteq> a"]
  by (simp_all add: l3_ok_def remove_proc_def image_iff)

lemma last_process_ok:
  assumes "good c" "l3_ok c" "l3_proc c = []" "l3_squeue c = []"
    "ev = (if l3_protocol c \<noteq> ISDN_PTYPE_NI1 then EV_RELEASE_REQ else EV_RELEASE_IND)"
  shows "wpo (l3_fsm_event up ev c)
    (\<lambda>c'. good c' \<and> l3_ok c' \<and> procs_same c c' \<and> sent c' = sent c \<and> l3_squeue c' = [] \<and>
       (l3_protocol c \<noteq> ISDN_PTYPE_NI1 \<longrightarrow> l3_m_state c' =
          (if l3_m_state c \<in> {ST_L3_LC_ESTAB, ST_L3_LC_ESTAB_WAIT} then ST_L3_LC_REL_DELAY
           else l3_m_state c)) \<and>
       (l3_protocol c = ISDN_PTYPE_NI1 \<longrightarrow> l3_m_state c' =
          (if l3_m_state c = ST_L3_LC_REL_WAIT then ST_L3_LC_REL_WAIT else ST_L3_LC_REL)))"
proof (cases "l3_protocol c = ISDN_PTYPE_NI1")
  case True
  let ?c = "(l3_change ST_L3_LC_REL (l3_del_timer c))\<lparr>l3_squeue := []\<rparr>"
  have "l3_proc ?c = []" using assms(3) by (simp add: l3_change_def l3_del_timer_def)
  then have "lc_release_ind up () c = Some ?c" by (simp add: lc_release_ind_def l3ml3p_none)
  moreover have "good ?c \<and> l3_ok ?c \<and> procs_same c ?c \<and> sent ?c = sent c \<and> l3_squeue ?c = [] \<and>
      l3_m_state ?c = ST_L3_LC_REL"
    using assms(1-3)
    by (simp add: l3_ok_def l3_change_def l3_del_timer_def procs_same_def)
  moreover have "procs_same c c" by (simp add: procs_same_def)
  moreover have "l3_m_state c \<in> {0, 1, 2, 3, 4}" using assms(2) by (auto simp: l3_ok_def)
  ultimately show ?thesis using True assms by (auto simp: l3_fsm_events)
next
  case False
  have d: "lc_start_delay () c = Some (l3_add_timer (l3_change ST_L3_LC_REL_DELAY c))"
    "lc_start_delay_check () c = Some (l3_add_timer (l3_change ST_L3_LC_REL_DELAY c))"
    using False by (simp_all add: lc_start_delay_def lc_start_delay_check_def Let_def l3_change_def)
  let ?c = "l3_add_timer (l3_change ST_L3_LC_REL_DELAY c)"
  have ok: "good ?c \<and> l3_ok ?c \<and> procs_same c ?c \<and> sent ?c = sent c \<and> l3_squeue ?c = [] \<and>
      l3_m_state ?c = ST_L3_LC_REL_DELAY" if "l3_m_state c = 1 \<or> l3_m_state c = 4"
    using assms(1-4) that
    by (auto simp: l3_ok_def l3_change_def l3_add_timer_def procs_same_def FsmAddTimer_def)
  show ?thesis
  proof (cases "l3_m_state c = 1 \<or> l3_m_state c = 4")
    case True
    with ok [OF this] False show ?thesis by (auto simp: assms(5) l3_fsm_events d)
  next
    case nst: False
    with False assms(1-4) show ?thesis by (simp add: assms(5) l3_fsm_events procs_same_def)
  qed
qed

lemma release_l3_process_ok:
  assumes "good c" "l3_ok c"
  shows "wpo (release_l3_process up a c)
    (\<lambda>c'. good c' \<and> l3_ok c' \<and> l3_proc c' = remove_proc a (l3_proc c) \<and>
       l3_next_addr c' = l3_next_addr c \<and> l3_protocol c' = l3_protocol c \<and>
       l3_fresh c' = l3_fresh c \<and> l3_global c' = l3_global c \<and> sent c' = sent c \<and>
       (l3_m_state c' = l3_m_state c \<or> l3_proc c' = [] \<and>
          (l3_m_state c \<in> {ST_L3_LC_ESTAB, ST_L3_LC_ESTAB_WAIT} \<and> l3_m_state c' = ST_L3_LC_REL_DELAY \<or>
           l3_m_state c' = ST_L3_LC_REL)))"
proof (cases "a \<in> p_addr ` set (l3_proc c)")
  case True
  let ?c = "c\<lparr>l3_proc := remove_proc a (l3_proc c)\<rparr>"
  have nn: "(if a \<notin> p_addr ` set (l3_proc c) then x else y) = y" for x y :: "'z Layer3_scheme option"
    using True by simp
  show ?thesis
  proof (cases "p_addr (hd (l3_proc c)) = a \<and> l3_proc ?c = [] \<and> \<not> op_l2flag up FLG_PTP ?c \<and>
      l3_squeue ?c = []")
    case last: True
    have "wpo (release_l3_process up a c) (\<lambda>c'. good c' \<and> l3_ok c' \<and> procs_same ?c c' \<and>
        sent c' = sent ?c \<and>
        (l3_m_state c' = l3_m_state c \<or>
          l3_m_state c \<in> {ST_L3_LC_ESTAB, ST_L3_LC_ESTAB_WAIT} \<and> l3_m_state c' = ST_L3_LC_REL_DELAY \<or>
           l3_m_state c' = ST_L3_LC_REL))"
      unfolding release_l3_process_def Let_def nn if_P [OF last]
      by (rule wpo_mono [OF last_process_ok [OF remove_ok [OF assms] _ _ refl]])
        (use last in \<open>auto split: if_splits\<close>)
    then show ?thesis by (rule wpo_mono) (use last in \<open>auto simp: procs_same_def\<close>)
  next
    case False
    then show ?thesis
      using True remove_ok [OF assms] assms by (auto simp: release_l3_process_def Let_def)
  qed
next
  case False
  then have "remove_proc a (l3_proc c) = l3_proc c"
    by (auto simp: remove_proc_def filter_id_conv)
  then show ?thesis using False assms by (simp add: release_l3_process_def)
qed

text \<open>A message on an established link goes straight down.\<close>

lemma l3_msg_data_estab:
  assumes "good c" "l3_m_state c = ST_L3_LC_ESTAB"
  shows "wpo (l3_msg up (DL_DATA, REQUEST) (Some skb) c)
    (\<lambda>c'. good c' \<and> l3_same c c' \<and> sent c' = sent c @ [skb])"
  using send_ok [OF assms(1)] assms(2) by (simp add: l3_msg_def)

lemma l3_msg_establish_down:
  assumes "good c" "l3_ok c" "l3_m_state c = ST_L3_LC_REL \<or> l3_m_state c = ST_L3_LC_ESTAB_WAIT"
  shows "wpo (l3_msg up (DL_ESTABLISH, REQUEST) None c) (\<lambda>c'. good c' \<and> l3_ok c' \<and>
    procs_same c c' \<and> l3_m_state c' = ST_L3_LC_ESTAB_WAIT \<and> sent c' = sent c)"
proof (cases "l3_m_state c = ST_L3_LC_REL")
  case True
  then show ?thesis
    using assms by (auto simp: l3_msg_def l3_fsm_events intro: wpo_mono [OF lc_activate_ok])
next
  case False
  then show ?thesis using assms by (simp add: l3_msg_def l3_fsm_events procs_same_def)
qed

end

text \<open>The walk: the rest of the list that is still to be visited is always in the list.\<close>

lemma next_proc_at:
  "distinct (map p_addr ps) \<Longrightarrow> map p_addr ps = pre @ a # rest \<Longrightarrow>
     next_proc a ps = Some (case rest of [] \<Rightarrow> None | b # bs \<Rightarrow> Some b)"
proof (induction ps arbitrary: pre)
  case Nil
  then show ?case by simp
next
  case (Cons p ps)
  show ?case
  proof (cases "p_addr p = a")
    case True
    have "pre = []"
    proof (cases pre)
      case pre: (Cons x pre')
      then have "a \<in> set (map p_addr ps)" using Cons.prems(2) by simp
      then show ?thesis using Cons.prems(1) True by simp
    qed simp
    then show ?thesis using Cons.prems True by (cases ps) auto
  next
    case False
    then obtain x pre' where "pre = x # pre'" using Cons.prems(2) by (cases pre) auto
    then show ?thesis using False Cons.IH [of pre'] Cons.prems by simp
  qed
qed

definition head :: "nat list \<Rightarrow> nat option" where
  "head as = (case as of [] \<Rightarrow> None | a # _ \<Rightarrow> Some a)"

subsection \<open>The contract with the protocol\<close>

text \<open>
  \<open>pinv\<close> is the invariant of a process, \<open>ginv\<close> that of the global one, and \<open>conf\<close> says how a confirmed link may change one. While the
  link is up the protocol releases no process; when it goes down the protocol may release the
  process it is called for, and may ask for the link again.
\<close>

locale l3_client = l3_link +
  fixes pinv :: "l3_process \<Rightarrow> bool"
    and conf :: "l3_process \<Rightarrow> l3_process \<Rightarrow> bool"
    and ginv :: "l3_process option \<Rightarrow> bool"
  assumes confirm_ok:
      "\<And>a c. good c \<Longrightarrow> l3_ok c \<Longrightarrow> l3_m_state c = ST_L3_LC_ESTAB \<Longrightarrow> a \<in> set (l3_addrs c) \<Longrightarrow>
         wpo (op_l3ml3 up (DL_ESTABLISH, CONFIRM) a c)
           (\<lambda>c'. good c' \<and> l3_ok c' \<and> l3_m_state c' = ST_L3_LC_ESTAB \<and>
              list_all2 conf (l3_proc c) (l3_proc c') \<and> l3_global c' = l3_global c \<and>
              (\<exists>m. sent c' = sent c @ m))"
    and indicate_ok:
      "\<And>a c. good c \<Longrightarrow> l3_ok c \<Longrightarrow> l3_m_state c = ST_L3_LC_ESTAB \<Longrightarrow> a \<in> set (l3_addrs c) \<Longrightarrow>
         list_all pinv (l3_proc c) \<Longrightarrow> ginv (l3_global c) \<Longrightarrow>
         wpo (op_l3ml3 up (DL_ESTABLISH, INDICATION) a c)
           (\<lambda>c'. good c' \<and> l3_ok c' \<and> l3_m_state c' = ST_L3_LC_ESTAB \<and>
              l3_addrs c' = l3_addrs c \<and> list_all pinv (l3_proc c') \<and>
              l3_global c' = l3_global c)"
    and release_ok:
      "\<And>pr a c. good c \<Longrightarrow> l3_ok c \<Longrightarrow> l3_m_state c \<in> {ST_L3_LC_REL, ST_L3_LC_ESTAB_WAIT} \<Longrightarrow>
         a \<in> set (l3_addrs c) \<Longrightarrow> list_all pinv (l3_proc c) \<Longrightarrow> ginv (l3_global c) \<Longrightarrow>
         pr \<in> {(DL_RELEASE, INDICATION), (DL_RELEASE, CONFIRM)} \<Longrightarrow>
         wpo (op_l3ml3 up pr a c)
           (\<lambda>c'. good c' \<and> l3_ok c' \<and>
              (l3_m_state c' \<in> {ST_L3_LC_REL, ST_L3_LC_ESTAB_WAIT} \<or>
               l3_m_state c' = ST_L3_LC_REL_DELAY \<and> l3_proc c' = []) \<and>
              l3_addrs c' \<in> {l3_addrs c, remove1 a (l3_addrs c)} \<and> list_all pinv (l3_proc c') \<and>
              l3_global c' = l3_global c)"
    and conf_refl: "\<And>p. conf p p"
    and conf_trans: "\<And>p q r. conf p q \<Longrightarrow> conf q r \<Longrightarrow> conf p r"
    and conf_addr: "\<And>p q. conf p q \<Longrightarrow> p_addr q = p_addr p"
    and conf_pinv: "\<And>p q. conf p q \<Longrightarrow> pinv p \<Longrightarrow> pinv q"
begin

lemma conf_list_refl: "list_all2 conf ps ps"
  by (rule list_all2_refl) (rule conf_refl)

lemma conf_list_trans: "list_all2 conf ps qs \<Longrightarrow> list_all2 conf qs rs \<Longrightarrow> list_all2 conf ps rs"
  by (rule list_all2_trans) (rule conf_trans)

lemma conf_list_addrs: "list_all2 conf ps qs \<Longrightarrow> map p_addr qs = map p_addr ps"
  by (induction rule: list_all2_induct) (simp_all add: conf_addr)

lemma conf_list_pinv: "list_all2 conf ps qs \<Longrightarrow> list_all pinv ps \<Longrightarrow> list_all pinv qs"
  by (induction rule: list_all2_induct) (auto dest: conf_pinv)

lemma l3ml3p_loop_ok:
  assumes step: "\<And>a c. I c \<Longrightarrow> a \<in> set (l3_addrs c) \<Longrightarrow>
      wpo (op_l3ml3 up pr a c) (\<lambda>c'. I c' \<and> l3_addrs c' \<in> {l3_addrs c, remove1 a (l3_addrs c)})"
    and dist: "\<And>c. I c \<Longrightarrow> distinct (l3_addrs c)"
    and c: "I c" "l3_addrs c = pre @ rest"
  shows "wpo (l3ml3p_loop up pr (head rest) c) I"
  using c
proof (induction rest arbitrary: pre c)
  case Nil
  then show ?case by (subst l3ml3p_loop.simps) (simp add: head_def)
next
  case (Cons a rest)
  have nx: "next_proc a (l3_proc c) = Some (head rest)"
    using next_proc_at [OF dist [OF Cons.prems(1)] Cons.prems(2)] by (simp add: head_def)
  have "wpo (op_l3ml3 up pr a c) (\<lambda>c1. wpo (l3ml3p_loop up pr (head rest) c1) I)"
  proof (rule wpo_mono [OF step [OF Cons.prems(1)]])
    fix c1
    assume c1: "I c1 \<and> l3_addrs c1 \<in> {l3_addrs c, remove1 a (l3_addrs c)}"
    have "a \<notin> set pre" using dist [OF Cons.prems(1)] Cons.prems(2) by auto
    then have "l3_addrs c1 = (pre @ [a]) @ rest \<or> l3_addrs c1 = pre @ rest"
      using c1 Cons.prems(2) by (auto simp: remove1_append)
    then show "wpo (l3ml3p_loop up pr (head rest) c1) I"
      using Cons.IH [of c1] c1 by blast
  qed (use Cons.prems(2) in simp)
  then show ?case by (subst l3ml3p_loop.simps) (simp add: nx head_def)
qed

lemma l3ml3p_ok:
  assumes "\<And>a c. I c \<Longrightarrow> a \<in> set (l3_addrs c) \<Longrightarrow>
      wpo (op_l3ml3 up pr a c) (\<lambda>c'. I c' \<and> l3_addrs c' \<in> {l3_addrs c, remove1 a (l3_addrs c)})"
    and "\<And>c. I c \<Longrightarrow> distinct (l3_addrs c)" "I c"
  shows "wpo (l3ml3p up pr c) I"
proof -
  have "(case l3_proc c of [] \<Rightarrow> None | p # ps \<Rightarrow> Some (p_addr p)) = head (l3_addrs c)"
    by (simp add: head_def split: list.split)
  then show ?thesis
    using l3ml3p_loop_ok [of I pr c "[]" "l3_addrs c"] assms by (simp add: l3ml3p_def)
qed

subsection \<open>Events\<close>

text \<open>
  What a request leaves: the processes as before, up to a confirmed link; and every message that
  was sent or waits stays so, in its place.
\<close>

definition l3_down :: "'a Layer3_scheme \<Rightarrow> 'a Layer3_scheme \<Rightarrow> bool" where
  "l3_down c c' \<longleftrightarrow> good c' \<and> l3_ok c' \<and> list_all2 conf (l3_proc c) (l3_proc c') \<and>
     l3_global c' = l3_global c \<and>
     (\<exists>m. sent c' @ l3_squeue c' = (sent c @ l3_squeue c) @ m)"

definition l3_inv :: "l3_process option \<Rightarrow> 'a Layer3_scheme \<Rightarrow> bool" where
  "l3_inv g c \<longleftrightarrow> good c \<and> l3_ok c \<and> list_all pinv (l3_proc c) \<and> l3_global c = g \<and> ginv g"

lemma l3_down_inv: "l3_down c c' \<Longrightarrow> l3_inv g c \<Longrightarrow> l3_inv g c'"
  by (auto simp: l3_down_def l3_inv_def dest: conf_list_pinv)

lemma l3_down_refl: "good c \<Longrightarrow> l3_ok c \<Longrightarrow> l3_down c c"
  by (simp add: l3_down_def conf_list_refl)

lemma l3_down_trans: "l3_down a b \<Longrightarrow> l3_down b c \<Longrightarrow> l3_down a c"
  unfolding l3_down_def using conf_list_trans by (metis append.assoc)

lemma estab_queue: "l3_ok c \<Longrightarrow> l3_m_state c = ST_L3_LC_ESTAB \<Longrightarrow> l3_squeue c = []"
  by (simp add: l3_ok_def)

lemma walk_confirm_ok:
  assumes "good c" "l3_ok c" "l3_m_state c = ST_L3_LC_ESTAB"
  shows "wpo (l3ml3p up (DL_ESTABLISH, CONFIRM) c)
    (\<lambda>c'. l3_down c c' \<and> l3_m_state c' = ST_L3_LC_ESTAB)"
proof (rule l3ml3p_ok)
  fix a c1
  assume c1: "l3_down c c1 \<and> l3_m_state c1 = ST_L3_LC_ESTAB" and a: "a \<in> set (l3_addrs c1)"
  then have ok: "good c1" "l3_ok c1" "l3_m_state c1 = ST_L3_LC_ESTAB" by (simp_all add: l3_down_def)
  show "wpo (op_l3ml3 up (DL_ESTABLISH, CONFIRM) a c1)
      (\<lambda>c'. (l3_down c c' \<and> l3_m_state c' = ST_L3_LC_ESTAB) \<and>
         l3_addrs c' \<in> {l3_addrs c1, remove1 a (l3_addrs c1)})"
  proof (rule wpo_mono [OF confirm_ok [OF ok a]])
    fix c2
    assume c2: "good c2 \<and> l3_ok c2 \<and> l3_m_state c2 = ST_L3_LC_ESTAB \<and>
        list_all2 conf (l3_proc c1) (l3_proc c2) \<and> l3_global c2 = l3_global c1 \<and>
        (\<exists>m. sent c2 = sent c1 @ m)"
    then have "l3_down c1 c2" using ok by (simp add: l3_down_def estab_queue)
    moreover have "l3_addrs c2 = l3_addrs c1" using c2 conf_list_addrs by blast
    ultimately show "(l3_down c c2 \<and> l3_m_state c2 = ST_L3_LC_ESTAB) \<and>
        l3_addrs c2 \<in> {l3_addrs c1, remove1 a (l3_addrs c1)}"
      using c1 c2 l3_down_trans by blast
  qed
qed (use assms in \<open>auto simp: l3_down_def l3_ok_def conf_list_refl\<close>)

lemma walk_indicate_ok:
  assumes "l3_inv g c" "l3_m_state c = ST_L3_LC_ESTAB"
  shows "wpo (l3ml3p up (DL_ESTABLISH, INDICATION) c) (\<lambda>c'. l3_inv g c' \<and> l3_m_state c' = ST_L3_LC_ESTAB)"
proof (rule l3ml3p_ok)
  fix a c1
  assume c1: "l3_inv g c1 \<and> l3_m_state c1 = ST_L3_LC_ESTAB" and a: "a \<in> set (l3_addrs c1)"
  show "wpo (op_l3ml3 up (DL_ESTABLISH, INDICATION) a c1)
      (\<lambda>c'. (l3_inv g c' \<and> l3_m_state c' = ST_L3_LC_ESTAB) \<and>
         l3_addrs c' \<in> {l3_addrs c1, remove1 a (l3_addrs c1)})"
    by (rule wpo_mono [OF indicate_ok [OF _ _ _ a]]) (use c1 in \<open>auto simp: l3_inv_def\<close>)
qed (use assms in \<open>auto simp: l3_inv_def l3_ok_def\<close>)

lemma walk_release_ok:
  assumes "l3_inv g c" "l3_m_state c = ST_L3_LC_REL"
    "pr \<in> {(DL_RELEASE, INDICATION), (DL_RELEASE, CONFIRM)}"
  shows "wpo (l3ml3p up pr c) (l3_inv g)"
proof -
  let ?I = "\<lambda>c. l3_inv g c \<and> (l3_m_state c \<in> {ST_L3_LC_REL, ST_L3_LC_ESTAB_WAIT} \<or>
      l3_m_state c = ST_L3_LC_REL_DELAY \<and> l3_proc c = [])"
  have "wpo (l3ml3p up pr c) ?I"
  proof (rule l3ml3p_ok)
    fix a c1
    assume c1: "?I c1" and a: "a \<in> set (l3_addrs c1)"
    show "wpo (op_l3ml3 up pr a c1) (\<lambda>c'. ?I c' \<and> l3_addrs c' \<in> {l3_addrs c1, remove1 a (l3_addrs c1)})"
      by (rule wpo_mono [OF release_ok [OF _ _ _ a _ _ assms(3)]])
        (use c1 a in \<open>auto simp: l3_inv_def\<close>)
  qed (use assms in \<open>auto simp: l3_inv_def l3_ok_def\<close>)
  then show ?thesis by (rule wpo_mono) simp
qed

text \<open>The link is up: what waited is sent, the processes are told; or, without a process, the
  release delay starts.\<close>

lemma lc_connected_ok:
  assumes "good c" "l3_ok c"
    "l3_m_state c = ST_L3_LC_ESTAB_WAIT \<or> l3_m_state c = ST_L3_LC_REL_DELAY"
  shows "wpo (lc_connected up (l3_event (Suc d) up) () c) (l3_down c)"
proof -
  let ?c = "l3_change ST_L3_LC_ESTAB (l3_del_timer c)"
  have "wpo (flush_squeue up False ?c) (\<lambda>(b, c1).
      wpo (if l3_proc c1 = [] \<and> b then l3_event (Suc d) up EV_RELEASE_REQ c1
           else l3ml3p up (DL_ESTABLISH, CONFIRM) c1) (l3_down c))"
  proof (rule wpo_mono [OF flush_squeue_ok], use assms(1) in simp, clarsimp)
    fix c1
    assume c1: "good c1" "l3_same (?c\<lparr>l3_squeue := []\<rparr>) c1" "sent c1 = sent c @ l3_squeue ?c"
    have st: "l3_m_state c1 = ST_L3_LC_ESTAB" "l3_squeue c1 = []" "l3_proc c1 = l3_proc c"
      "l3_global c1 = l3_global c"
      using c1(2) by (simp_all add: l3_same_def l3_change_def l3_del_timer_def)
    have ok: "l3_ok c1"
      using c1(2) assms(2) by (simp add: l3_same_def l3_ok_def l3_change_def l3_del_timer_def)
    have down: "l3_down c c1"
      using c1 st ok by (simp add: l3_down_def conf_list_refl l3_change_def l3_del_timer_def)
    have rel: "l3_ok c' \<and> l3_proc c' = l3_proc c1 \<and> l3_global c' = l3_global c1 \<and> l3_squeue c' = [] \<and> sent c' = sent c1 \<and> good c'"
      if "lc_start_delay_check () c1 = Some c'" for c'
      using that c1(1) ok st(1,2)
      by (auto simp: lc_start_delay_check_def Let_def l3_ok_def l3_change_def l3_add_timer_def
          FsmAddTimer_def split: if_splits)
    obtain c2 where c2: "lc_start_delay_check () c1 = Some c2" by (simp add: lc_start_delay_check_def Let_def)
    have "l3_down c1 c2" using rel [OF c2] st by (simp add: l3_down_def conf_list_refl)
    then have "wpo (l3_event (Suc d) up EV_RELEASE_REQ c1) (l3_down c)"
      using st(1) c2 l3_down_trans [OF down] by (simp add: l3_event_release_req)
    moreover have "wpo (l3ml3p up (DL_ESTABLISH, CONFIRM) c1) (l3_down c)"
      by (rule wpo_mono [OF walk_confirm_ok [OF c1(1) ok st(1)]]) (auto intro: l3_down_trans [OF down])
    ultimately show "(l3_proc c1 = [] \<and> l3_squeue ?c \<noteq> [] \<longrightarrow> wpo (l3_event (Suc d) up EV_RELEASE_REQ c1) (l3_down c)) \<and>
        ((l3_proc c1 = [] \<longrightarrow> l3_squeue ?c = []) \<longrightarrow> wpo (l3ml3p up (DL_ESTABLISH, CONFIRM) c1) (l3_down c))"
      by simp
  qed
  then show ?thesis
    unfolding lc_connected_def wpo_bind by (rule wpo_mono) (simp add: case_prod_unfold)
qed

lemma lc_connect_ok:
  assumes "l3_inv g c" "l3_m_state c = ST_L3_LC_REL"
  shows "wpo (lc_connect up ev () c) (l3_inv g)"
proof -
  let ?c = "l3_change ST_L3_LC_ESTAB c"
  have "l3_squeue c = []" using assms by (simp add: l3_inv_def l3_ok_def)
  then have "lc_connect up ev () c = l3ml3p up (DL_ESTABLISH, INDICATION) ?c"
    by (simp add: lc_connect_def flush_squeue.simps l3_change_def)
  moreover have "l3_inv g ?c" using assms by (simp add: l3_inv_def l3_ok_def l3_change_def)
  then have "wpo (l3ml3p up (DL_ESTABLISH, INDICATION) ?c) (l3_inv g)"
    by (rule wpo_mono [OF walk_indicate_ok]) (simp_all add: l3_change_def)
  ultimately show ?thesis by simp
qed

lemma lc_release_ind_ok:
  assumes "l3_inv g c"
  shows "wpo (lc_release_ind up () c) (l3_inv g)"
  unfolding lc_release_ind_def
  by (rule walk_release_ok)
    (use assms in \<open>simp_all add: l3_inv_def l3_ok_def l3_change_def l3_del_timer_def\<close>)

lemma lc_release_cnf_ok:
  assumes "l3_inv g c" "l3_m_state c = ST_L3_LC_REL_WAIT"
  shows "wpo (lc_release_cnf up () c) (l3_inv g)"
  unfolding lc_release_cnf_def
  by (rule walk_release_ok)
    (use assms in \<open>simp_all add: l3_inv_def l3_ok_def l3_change_def\<close>)

lemma lc_release_req_ok:
  assumes "good c" "l3_ok (c\<lparr>l3_m_state := ST_L3_LC_REL_WAIT\<rparr>)" "l3_m_state c = ST_L3_LC_REL_DELAY"
  shows "wpo (lc_release_req up () c)
    (\<lambda>c'. good c' \<and> l3_ok c' \<and> l3_proc c' = l3_proc c \<and> sent c' = sent c \<and>
       l3_squeue c' = l3_squeue c \<and> l3_global c' = l3_global c)"
proof (cases "op_l2flag up FLG_L2BLOCK c")
  case True
  then show ?thesis
    using assms by (auto simp: lc_release_req_def l3_ok_def l3_add_timer_def FsmAddTimer_def)
next
  case False
  then show ?thesis
    unfolding lc_release_req_def if_not_P [OF False]
    by (intro wpo_mono [OF call_ok])
      (use assms in \<open>auto simp: l3_same_def l3_change_def l3_ok_def\<close>)
qed

lemma start_delay_ok:
  assumes "l3_inv g c"
  shows "l3_m_state c = ST_L3_LC_ESTAB_WAIT \<Longrightarrow> wpo (lc_start_delay () c) (l3_inv g)"
    and "l3_m_state c = ST_L3_LC_ESTAB \<Longrightarrow> wpo (lc_start_delay_check () c) (l3_inv g)"
  using assms
  by (auto simp: lc_start_delay_def lc_start_delay_check_def Let_def l3_inv_def l3_ok_def
      l3_change_def l3_add_timer_def FsmAddTimer_def)

subsection \<open>The entry points\<close>

text \<open>A request for the link; messages may already wait for it.\<close>

lemma establish_req_ok:
  assumes "good c" "l3_ok (c\<lparr>l3_squeue := []\<rparr>)" "l3_m_state c \<noteq> ST_L3_LC_ESTAB"
  shows "wpo (l3_fsm_event up EV_ESTABLISH_REQ c) (l3_down c)"
proof -
  have st: "l3_m_state c \<in> {0, 1, 2, 3}" using assms(2,3) by (auto simp: l3_ok_def)
  have act: "wpo (lc_activate up () c) (l3_down c)" if "l3_m_state c = 0 \<or> l3_m_state c = 3"
    unfolding lc_activate_def
    by (rule wpo_mono [OF call_ok])
      (use assms that in \<open>auto simp: l3_down_def l3_same_def l3_change_def l3_ok_def conf_list_refl\<close>)
  have ok: "l3_ok c" if "l3_m_state c = 1 \<or> l3_m_state c = 2" using assms(2) that by (auto simp: l3_ok_def)
  show ?thesis
    using st act ok lc_connected_ok [OF assms(1), of 0] assms(1)
    by (auto simp: l3_fsm_events l3_down_refl)
qed

lemma l3_msg_data_ok:
  assumes "good c" "l3_ok c"
  shows "wpo (l3_msg up (DL_DATA, REQUEST) (Some skb) c)
    (\<lambda>c'. l3_down c c' \<and> (\<exists>m. sent c' @ l3_squeue c' = sent c @ l3_squeue c @ skb # m))"
proof (cases "l3_m_state c = ST_L3_LC_ESTAB")
  case True
  show ?thesis
  proof (rule wpo_mono [OF l3_msg_data_estab [OF assms(1) True]])
    fix c'
    assume c': "good c' \<and> l3_same c c' \<and> sent c' = sent c @ [skb]"
    then have "l3_ok c'" using assms(2) l3_ok_same by blast
    moreover have "l3_proc c' = l3_proc c" "l3_squeue c' = []" "l3_squeue c = []"
      "l3_global c' = l3_global c"
      using c' estab_queue [OF assms(2) True] by (simp_all add: l3_same_def)
    ultimately show "l3_down c c' \<and> (\<exists>m. sent c' @ l3_squeue c' = sent c @ l3_squeue c @ skb # m)"
      using c' by (simp add: l3_down_def conf_list_refl)
  qed
next
  case False
  let ?c = "c\<lparr>l3_squeue := l3_squeue c @ [skb]\<rparr>"
  have "wpo (l3_fsm_event up EV_ESTABLISH_REQ ?c) (l3_down ?c)"
    by (rule establish_req_ok) (use assms False in \<open>simp_all add: l3_ok_def\<close>)
  then have "wpo (l3_msg up (DL_DATA, REQUEST) (Some skb) c) (l3_down ?c)"
    using False by (simp add: l3_msg_def)
  then show ?thesis by (rule wpo_mono) (auto simp: l3_down_def)
qed

lemma l3_msg_establish_ok:
  assumes "good c" "l3_ok c"
  shows "wpo (l3_msg up (DL_ESTABLISH, REQUEST) arg c) (l3_down c)"
proof (cases "l3_m_state c = ST_L3_LC_ESTAB")
  case True
  then show ?thesis using assms by (simp add: l3_msg_def l3_fsm_events l3_down_refl)
next
  case False
  then show ?thesis
    using establish_req_ok [OF assms(1) _ False] assms(2) by (simp add: l3_msg_def l3_ok_def)
qed

lemma l3_msg_ok:
  assumes "l3_inv g c" "pr = (DL_DATA, REQUEST) \<Longrightarrow> arg \<noteq> None"
  shows "wpo (l3_msg up pr arg c) (l3_inv g)"
proof -
  have c: "good c" "l3_ok c" using assms(1) by (simp_all add: l3_inv_def)
  have est: "wpo (l3_msg up (DL_ESTABLISH, REQUEST) arg c) (l3_inv g)"
    by (rule wpo_mono [OF l3_msg_establish_ok [OF c]]) (rule l3_down_inv [OF _ assms(1)])
  have data: "wpo (l3_msg up (DL_DATA, REQUEST) (Some skb) c) (l3_inv g)" for skb
    by (rule wpo_mono [OF l3_msg_data_ok [OF c]]) (use l3_down_inv [OF _ assms(1)] in blast)
  have up: "wpo (lc_connected up (l3_event (Suc 0) up) () c) (l3_inv g)" if "l3_m_state c = ST_L3_LC_ESTAB_WAIT"
    by (rule wpo_mono [OF lc_connected_ok [OF c]]) (use that l3_down_inv [OF _ assms(1)] in auto)
  have cnf: "wpo (l3_fsm_event up EV_ESTABLISH_CNF c) (l3_inv g)"
    using assms(1) lc_connect_ok [OF assms(1)] up by (simp add: l3_fsm_events)
  have ind: "wpo (l3_fsm_event up EV_ESTABLISH_IND c) (l3_inv g)"
    using assms(1) lc_connect_ok [OF assms(1)] unfolding l3_fsm_events by simp
  have rel: "wpo (l3_fsm_event up EV_RELEASE_IND c) (l3_inv g)"
    "wpo (l3_fsm_event up EV_RELEASE_CNF c) (l3_inv g)" "wpo (l3_fsm_event up EV_RELEASE_REQ c) (l3_inv g)"
    using assms(1) lc_release_ind_ok lc_release_cnf_ok start_delay_ok by (simp_all add: l3_fsm_events)
  show ?thesis
  proof (cases "pr = (DL_DATA, REQUEST)")
    case True
    then show ?thesis using assms(2) data by auto
  next
    case False
    then show ?thesis using assms(1) est cnf ind rel by (simp add: l3_msg_def)
  qed
qed

lemma l3_expire_ok:
  assumes "l3_inv g c"
  shows "wpo (l3_expire up c) (l3_inv g)"
proof (cases "tl_pending (l3_m_timer c)")
  case True
  let ?c = "l3_del_timer c"
  have st: "l3_m_state c = ST_L3_LC_REL_DELAY" "tm_event (l3_m_timer c) = EV_TIMEOUT"
    using assms True by (simp_all add: l3_inv_def l3_ok_def)
  have "wpo (lc_release_req up () ?c) (l3_inv g)"
    by (rule wpo_mono [OF lc_release_req_ok])
      (use assms st in \<open>auto simp: l3_inv_def l3_ok_def l3_del_timer_def\<close>)
  then show ?thesis
    using True st by (simp add: l3_expire_def l3_fsm_events l3_del_timer_def)
next
  case False
  then show ?thesis using assms by (simp add: l3_expire_def)
qed

text \<open>Taking the stack down frees every process and keeps no message and no timer.\<close>

lemma release_all_ok:
  assumes "good c" "l3_ok c"
  shows "wpo (release_all up c) (\<lambda>c'. good c' \<and> l3_ok c' \<and> l3_proc c' = [])"
  using assms
proof (induction "length (l3_proc c)" arbitrary: c rule: less_induct)
  case less
  show ?case
  proof (cases "l3_proc c")
    case Nil
    then show ?thesis using less.prems by (subst release_all.simps) simp
  next
    case (Cons p ps)
    have len: "length (remove_proc (p_addr p) (l3_proc c)) < length (l3_proc c)"
      using Cons by (simp add: remove_proc_def le_imp_less_Suc)
    have "wpo (release_l3_process up (p_addr p) c)
        (\<lambda>c1. wpo (release_all up c1) (\<lambda>c'. good c' \<and> l3_ok c' \<and> l3_proc c' = []))"
      by (rule wpo_mono [OF release_l3_process_ok [OF less.prems]]) (rule less.hyps, use len in simp_all)
    then show ?thesis by (subst release_all.simps) (simp add: Cons)
  qed
qed

lemma releasestack_ok:
  assumes "good c" "l3_ok c"
  shows "wpo (releasestack_isdnl3 up c)
    (\<lambda>c'. l3_proc c' = [] \<and> l3_global c' = None \<and> l3_squeue c' = [] \<and> \<not> tl_pending (l3_m_timer c'))"
  unfolding releasestack_isdnl3_def wpo_bind
  by (rule wpo_mono [OF release_all_ok [OF assms]]) (simp add: l3_del_timer_def)

end

end
