(* ===== verification/Hisax_Dss1_Inv.thy ===== *)
theory Hisax_Dss1_Inv
  imports Hisax_Dss1_Codec Hisax_L3_Inv
begin

text \<open>
  The invariant of a DSS1 stack and the rules by which its handlers are run. A handler works on
  one process; \<open>focus\<close> says that this process is \<open>p\<close> now and that everything else is sound. Every
  operation of a handler has a rule that runs it on such a state, so that a handler is proved by
  running it. The rules are proved once, in the locales \<open>dss1_focus\<close> and \<open>dss1_send\<close>, for any way
  messages are sent.
\<close>

subsection \<open>A sound process\<close>

definition f_shape :: "l3_process \<Rightarrow> bool" where
  "f_shape p \<longleftrightarrow> length (p_uus1_data p) = 35 \<and> length (p_diag p) = 6 \<and>
     length (su_phone (p_setup p)) = 32 \<and> length (su_eazmsn (p_setup p)) = 32"

text \<open>The timer that supervises a state: the message it waits for may never come.\<close>

definition wait_timers :: "nat \<Rightarrow> cc_name list" where
  "wait_timers st =
     (if st = 1 then [CC_T303] else if st = 2 then [CC_T304] else if st = 3 then [CC_T310]
      else if st = 8 then [CC_T313] else if st = 11 then [CC_T305] else if st = 17 then [CC_T318]
      else if st = 19 then [CC_T308_1, CC_T308_2] else if st = 25 then [CC_T302] else [])"

definition p_timed :: "l3_process \<Rightarrow> bool" where
  "p_timed p \<longleftrightarrow> wait_timers (p_state p) = [] \<or>
     lt_pending (p_timer p) \<and> snd (lt_event (p_timer p)) = REQUEST \<and>
     fst (lt_event (p_timer p)) \<in> set (wait_timers (p_state p))"

text \<open>The requests a timer can raise.\<close>

definition timer_names :: "cc_name list" where
  "timer_names = [CC_T302, CC_T303, CC_T304, CC_T305, CC_T308_1, CC_T308_2, CC_T309, CC_T310, CC_T313,
     CC_T318, CC_T319, CC_TDSS1_IO]"

definition p_event :: "l3_process \<Rightarrow> bool" where
  "p_event p \<longleftrightarrow> (lt_pending (p_timer p) \<longrightarrow>
     snd (lt_event (p_timer p)) = REQUEST \<and> fst (lt_event (p_timer p)) \<in> set timer_names)"

text \<open>Where a handler reads a number as a string, the string has an end.\<close>

definition p_strings :: "l3_process \<Rightarrow> bool" where
  "p_strings p \<longleftrightarrow>
     (p_state p = 1 \<longrightarrow> 0 \<in> set (su_phone (p_setup p)) \<and> 0 \<in> set (su_eazmsn (p_setup p)) \<and>
        prefix_ok (su_phone (p_setup p))) \<and>
     (p_state p = 6 \<or> p_state p = 25 \<longrightarrow> 0 \<in> set (su_eazmsn (p_setup p)))"

text \<open>
  \<open>m\<close>: no allocation fails. Without memory a handler may return before it starts the timer, and what
  is left is \<open>p_soft\<close>.
\<close>

definition valid_state :: "nat \<Rightarrow> bool" where
  "valid_state n \<longleftrightarrow> n \<in> set l3_valid_states"

lemma valid_state_simps [simp]:
  "valid_state 0" "valid_state 1" "valid_state (Suc 0)" "valid_state 2" "valid_state 3" "valid_state 4"
  "valid_state 6" "valid_state 7" "valid_state 8" "valid_state 9" "valid_state 10" "valid_state 11"
  "valid_state 12" "valid_state 15" "valid_state 17" "valid_state 19" "valid_state 25"
  by (simp_all add: valid_state_def l3_valid_states_def)

definition p_soft :: "l3_process \<Rightarrow> bool" where
  "p_soft p \<longleftrightarrow> f_shape p \<and> valid_state (p_state p) \<and> 0 \<in> set (p_uus1_data p) \<and> p_strings p \<and> p_event p"

definition p_ok :: "bool \<Rightarrow> l3_process \<Rightarrow> bool" where
  "p_ok m p \<longleftrightarrow> p_soft p \<and> (m \<longrightarrow> p_timed p)"

text \<open>What a confirmed link does to a call: an active one is asked for its state.\<close>

definition conf :: "l3_process \<Rightarrow> l3_process \<Rightarrow> bool" where
  "conf p q \<longleftrightarrow> q = p \<or> p_state p = 10 \<and> q = (L3DelTimer p)\<lparr>p_cause := 0x1F\<rparr>"

lemma conf_refl [simp]: "conf p p"
  by (simp add: conf_def)

lemma conf_trans: "conf p q \<Longrightarrow> conf q r \<Longrightarrow> conf p r"
  by (auto simp: conf_def L3DelTimer_def)

lemma conf_sel:
  "conf p q \<Longrightarrow> p_addr q = p_addr p" "conf p q \<Longrightarrow> p_state q = p_state p"
  "conf p q \<Longrightarrow> p_callref q = p_callref p" "conf p q \<Longrightarrow> p_setup q = p_setup p"
  "conf p q \<Longrightarrow> p_uus1_data q = p_uus1_data p" "conf p q \<Longrightarrow> p_diag q = p_diag p"
  "conf p q \<Longrightarrow> p_chan q = p_chan p" "conf p q \<Longrightarrow> p_invoke_id q = p_invoke_id p"
  "conf p q \<Longrightarrow> p_state p \<noteq> 10 \<Longrightarrow> p_timer q = p_timer p"
  by (auto simp: conf_def L3DelTimer_def)

lemma conf_ok: "conf p q \<Longrightarrow> p_ok m p \<Longrightarrow> p_ok m q"
proof (cases "q = p")
  case False
  assume "conf p q" "p_ok m p"
  then have st: "p_state p = 10" "q = (L3DelTimer p)\<lparr>p_cause := 0x1F\<rparr>" using False by (simp_all add: conf_def)
  then show ?thesis
    using \<open>p_ok m p\<close> unfolding st(2)
    by (simp add: p_ok_def p_soft_def f_shape_def p_strings_def p_event_def p_timed_def
        wait_timers_def L3DelTimer_def)
qed simp

subsection \<open>A sound stack\<close>

definition chan_ok :: "Channel \<Rightarrow> bool" where
  "chan_ok ch \<longleftrightarrow> length (su_phone (ch_setup ch)) = 32 \<and> length (su_eazmsn (ch_setup ch)) = 32 \<and>
     0 \<in> set (su_phone (ch_setup ch)) \<and> 0 \<in> set (su_eazmsn (ch_setup ch))"

definition dss1_good :: "('z Dss1_scheme \<Rightarrow> bool) \<Rightarrow> bool \<Rightarrow> 'z Dss1_scheme \<Rightarrow> bool" where
  "dss1_good low m c \<longleftrightarrow> low c \<and> (m \<longrightarrow> mem_ok (l3_kenv c)) \<and> (\<forall>a. f_shape (l3_fresh c a)) \<and>
     invoke_ok (d_invoke_used c) \<and> (\<forall>ch. chan_ok (d_chan c ch))"

text \<open>
  A handler at the process \<open>a\<close>, which is \<open>p\<close> now. \<open>md\<close> restricts the state of the link, \<open>as\<close> are the
  calls of the stack; when \<open>a\<close> is one of them, the global process stays what it was, \<open>gl\<close>.
\<close>

definition focus ::
  "('z Dss1_scheme \<Rightarrow> bool) \<Rightarrow> bool \<Rightarrow> (nat \<Rightarrow> bool) \<Rightarrow> nat list \<Rightarrow> l3_process option \<Rightarrow> nat \<Rightarrow>
   l3_process \<Rightarrow> 'z Dss1_scheme \<Rightarrow> bool" where
  "focus low m md as gl a p c \<longleftrightarrow>
     dss1_good low m c \<and> l3_ok c \<and> md (l3_m_state c) \<and> pc_get a c = Some p \<and> l3_addrs c = as \<and>
     l3_global c \<noteq> None \<and>
     (\<forall>q \<in> set (l3_proc c). p_addr q \<noteq> a \<longrightarrow> p_ok m q) \<and>
     (\<forall>g. l3_global c = Some g \<longrightarrow> p_addr g \<noteq> a \<longrightarrow> f_shape g) \<and>
     (a \<in> set as \<longrightarrow> l3_global c = gl)"

definition dss1_inv :: "('z Dss1_scheme \<Rightarrow> bool) \<Rightarrow> bool \<Rightarrow> (nat \<Rightarrow> bool) \<Rightarrow> 'z Dss1_scheme \<Rightarrow> bool" where
  "dss1_inv low m md c \<longleftrightarrow>
     dss1_good low m c \<and> l3_ok c \<and> md (l3_m_state c) \<and> list_all (p_ok m) (l3_proc c) \<and>
     (\<exists>g. l3_global c = Some g \<and> f_shape g)"

subsection \<open>Looking a process up and changing it\<close>

lemma find_addr:
  "distinct (map p_addr ps) \<Longrightarrow>
     List.find (\<lambda>p. p_addr p = a) ps = Some p \<longleftrightarrow> p \<in> set ps \<and> p_addr p = a"
  by (induction ps) auto

lemma find_addr_None: "List.find (\<lambda>p. p_addr p = a) ps = None \<longleftrightarrow> a \<notin> p_addr ` set ps"
  by (induction ps) auto

lemma find_at_addr:
  "(\<And>p. p_addr (f p) = p_addr p) \<Longrightarrow>
     List.find (\<lambda>p. p_addr p = a) (map (at_addr b f) ps) =
     map_option (at_addr b f) (List.find (\<lambda>p. p_addr p = a) ps)"
  by (induction ps) (auto simp: at_addr_def)

lemma at_addr_addr [simp]: "(\<And>p. p_addr (f p) = p_addr p) \<Longrightarrow> p_addr (at_addr a f p) = p_addr p"
  by (simp add: at_addr_def)

lemma find_SomeD: "List.find P xs = Some x \<Longrightarrow> x \<in> set xs \<and> P x"
  by (induction xs) (auto split: if_splits)

lemma pc_get_cases:
  assumes "pc_get a c = Some p"
  shows "p \<in> set (l3_proc c) \<and> p_addr p = a \<or> a \<notin> set (l3_addrs c) \<and> l3_global c = Some p \<and> p_addr p = a"
proof (cases "List.find (\<lambda>p. p_addr p = a) (l3_proc c)")
  case None
  then have "a \<notin> set (l3_addrs c)" by (simp add: find_addr_None)
  then show ?thesis using assms None by (simp add: pc_get_def split: option.splits if_splits)
next
  case (Some q)
  then show ?thesis using assms find_SomeD [OF Some] by (simp add: pc_get_def)
qed

lemma pc_get_addr: "pc_get a c = Some p \<Longrightarrow> p_addr p = a"
  using pc_get_cases by blast

lemma pc_get_upd:
  assumes "\<And>p. p_addr (f p) = p_addr p"
  shows "pc_get a (pc_upd a f c) = map_option f (pc_get a c)"
proof (cases "List.find (\<lambda>p. p_addr p = a) (l3_proc c)")
  case None
  then show ?thesis
    using assms by (auto simp: pc_get_def pc_upd_def find_at_addr at_addr_def split: option.split)
next
  case (Some q)
  then have "p_addr q = a" using find_SomeD by fastforce
  then show ?thesis using Some assms by (simp add: pc_get_def pc_upd_def find_at_addr at_addr_def)
qed

lemma pc_get_mem:
  assumes "l3_ok c" "p \<in> set (l3_proc c)"
  shows "pc_get (p_addr p) c = Some p"
  using assms find_addr [of "l3_proc c" "p_addr p" p] by (simp add: pc_get_def l3_ok_def)

lemma pc_get_global:
  assumes "l3_ok c" "l3_global c = Some g"
  shows "pc_get (p_addr g) c = Some g"
proof -
  have "List.find (\<lambda>p. p_addr p = p_addr g) (l3_proc c) = None"
    unfolding find_addr_None using assms by (auto simp: l3_ok_def)
  then show ?thesis using assms(2) by (simp add: pc_get_def)
qed

lemma pc_upd_sel [simp]:
  "l3_m_state (pc_upd a f c) = l3_m_state c" "l3_m_timer (pc_upd a f c) = l3_m_timer c"
  "l3_squeue (pc_upd a f c) = l3_squeue c" "l3_kenv (pc_upd a f c) = l3_kenv c"
  "l3_fresh (pc_upd a f c) = l3_fresh c" "l3_next_addr (pc_upd a f c) = l3_next_addr c"
  "l3_protocol (pc_upd a f c) = l3_protocol c" "Layer3.more (pc_upd a f c) = Layer3.more c"
  by (simp_all add: pc_upd_def)

lemma pc_upd_dss1 [simp]:
  "d_invoke_used (pc_upd a f c) = d_invoke_used c" "d_chan (pc_upd a f c) = d_chan c"
  "d_last_invoke_id (pc_upd a f c) = d_last_invoke_id c" "Dss1.more (pc_upd a f c) = Dss1.more c"
  "d_out (pc_upd a f c) = d_out c"
  by (simp_all add: pc_upd_def)

lemma pc_upd_l3_ok:
  assumes "l3_ok c" "\<And>p. p_addr (f p) = p_addr p"
  shows "l3_ok (pc_upd a f c)"
proof -
  let ?c = "pc_upd a f c"
  have adr: "l3_addrs ?c = l3_addrs c" using assms(2) by (simp add: pc_upd_def)
  have lt: "(\<forall>p \<in> set (l3_proc c). p_addr p < n) \<longleftrightarrow> (\<forall>x \<in> set (l3_addrs c). x < n)"
    for c :: "'a Layer3_scheme" and n by auto
  have "\<forall>g. l3_global ?c = Some g \<longrightarrow> (\<exists>h. l3_global c = Some h \<and> p_addr g = p_addr h)"
    using assms(2) by (auto simp: pc_upd_def)
  then show ?thesis
    using assms(1) unfolding l3_ok_def pc_upd_sel adr lt by metis
qed

subsection \<open>Running a handler\<close>

lemma wp_if: "(b \<Longrightarrow> wpo x Q) \<Longrightarrow> (\<not> b \<Longrightarrow> wpo y Q) \<Longrightarrow> wpo (if b then x else y) Q"
  by simp

lemma wp_option:
  "(x = None \<Longrightarrow> wpo n Q) \<Longrightarrow> (\<And>y. x = Some y \<Longrightarrow> wpo (f y) Q) \<Longrightarrow>
     wpo (case x of None \<Rightarrow> n | Some y \<Rightarrow> f y) Q"
  by (cases x) simp_all

lemma wp_pair: "wpo (f a b) Q \<Longrightarrow> wpo (case (a, b) of (x, y) \<Rightarrow> f x y) Q"
  by simp

lemma wp_Some: "Q c \<Longrightarrow> wpo (Some c) Q"
  by simp

lemmas wp_branch = wp_if wp_option wp_pair wp_Some

definition timer_on :: "u32 \<Rightarrow> cc_prim \<Rightarrow> l3_process \<Rightarrow> l3_process" where
  "timer_on x ev p =
     (if lt_pending (p_timer p) then p
      else p\<lparr>p_timer := \<lparr>lt_pending = True, lt_expires = x, lt_event = ev\<rparr>\<rparr>)"

lemmas p_run =
  newl3state_def L3DelTimer_def StopAllL3Timer_def timer_on_def uus_clear_def

lemmas p_ok_simps =
  p_ok_def p_soft_def f_shape_def p_strings_def p_event_def p_timed_def wait_timers_def p_run

lemma pc_get_cong: "l3_proc c' = l3_proc c \<Longrightarrow> l3_global c' = l3_global c \<Longrightarrow> pc_get a c' = pc_get a c"
  by (simp only: pc_get_def)

lemma l3_ok_cong:
  "l3_m_state c' = l3_m_state c \<Longrightarrow> l3_m_timer c' = l3_m_timer c \<Longrightarrow> l3_squeue c' = l3_squeue c \<Longrightarrow>
     l3_proc c' = l3_proc c \<Longrightarrow> l3_global c' = l3_global c \<Longrightarrow> l3_protocol c' = l3_protocol c \<Longrightarrow>
     l3_next_addr c' = l3_next_addr c \<Longrightarrow> l3_ok c' = l3_ok c"
  by (simp only: l3_ok_def)

locale dss1_focus =
  fixes low :: "'z Dss1_scheme \<Rightarrow> bool"
    and m :: bool
    and md :: "nat \<Rightarrow> bool"
  assumes low_more: "\<And>c c'. Dss1.more c' = Dss1.more c \<Longrightarrow> low c' = low c"
begin

abbreviation foc :: "nat list \<Rightarrow> l3_process option \<Rightarrow> nat \<Rightarrow> l3_process \<Rightarrow> 'z Dss1_scheme \<Rightarrow> bool" where
  "foc \<equiv> focus low m md"

abbreviation inv :: "'z Dss1_scheme \<Rightarrow> bool" where
  "inv \<equiv> dss1_inv low m md"

abbreviation good :: "'z Dss1_scheme \<Rightarrow> bool" where
  "good \<equiv> dss1_good low m"

lemma good_cong:
  "Dss1.more c' = Dss1.more c \<Longrightarrow> l3_kenv c' = l3_kenv c \<Longrightarrow> l3_fresh c' = l3_fresh c \<Longrightarrow>
     d_invoke_used c' = d_invoke_used c \<Longrightarrow> d_chan c' = d_chan c \<Longrightarrow> good c' = good c"
  using low_more [of c' c] by (simp add: dss1_good_def)

lemma conf_list_others:
  "list_all2 conf ps qs \<Longrightarrow> \<forall>p \<in> set ps. p_addr p \<noteq> a \<longrightarrow> p_ok m p \<Longrightarrow>
     \<forall>q \<in> set qs. p_addr q \<noteq> a \<longrightarrow> p_ok m q"
  by (induction rule: list_all2_induct) (auto dest: conf_ok simp: conf_sel(1))

lemma conf_list_find:
  "list_all2 conf ps qs \<Longrightarrow> p \<in> set ps \<Longrightarrow> \<exists>q \<in> set qs. conf p q"
  by (induction rule: list_all2_induct) auto

lemma conf_list_map: "list_all2 conf ps qs \<Longrightarrow> map p_addr qs = map p_addr ps"
  by (induction rule: list_all2_induct) (simp_all add: conf_sel(1))

text \<open>The state has changed no more than a confirmed link changes it.\<close>

lemma focus_conf:
  assumes "foc as gl a p c" "good c'" "l3_ok c'" "md (l3_m_state c')"
    "list_all2 conf (l3_proc c) (l3_proc c')" "l3_global c' = l3_global c"
  shows "\<exists>p'. foc as gl a p' c' \<and> conf p p'"
proof -
  have p: "pc_get a c = Some p" "p_addr p = a" using assms(1) pc_get_addr by (auto simp: focus_def)
  have others: "\<forall>q \<in> set (l3_proc c'). p_addr q \<noteq> a \<longrightarrow> p_ok m q"
    using conf_list_others [OF assms(5), of a] assms(1) unfolding focus_def by blast
  have addrs: "l3_addrs c' = as" using assms(1) conf_list_map [OF assms(5)] by (simp add: focus_def)
  from pc_get_cases [OF p(1)] have "\<exists>p'. pc_get a c' = Some p' \<and> conf p p'"
  proof
    assume "p \<in> set (l3_proc c) \<and> p_addr p = a"
    then obtain q where q: "q \<in> set (l3_proc c')" "conf p q" using conf_list_find [OF assms(5)] by blast
    then show ?thesis using pc_get_mem [OF assms(3) q(1)] conf_sel(1) [OF q(2)] p(2) by auto
  next
    assume "a \<notin> set (l3_addrs c) \<and> l3_global c = Some p \<and> p_addr p = a"
    then show ?thesis using pc_get_global [OF assms(3), of p] assms(6) by auto
  qed
  then show ?thesis using assms others addrs by (auto simp: focus_def)
qed

lemma focus_same:
  assumes "foc as gl a p c" "good c'" "l3_ok c' = l3_ok c" "l3_m_state c' = l3_m_state c"
    "l3_proc c' = l3_proc c" "l3_global c' = l3_global c"
  shows "foc as gl a p c'"
  using assms pc_get_cong [OF assms(5,6), of a] by (simp add: focus_def)

lemma get_wp: "foc as gl a p c \<Longrightarrow> Q p \<Longrightarrow> wpo (pc_get a c) Q"
  by (simp add: focus_def)

lemma mod_wp:
  assumes "foc as gl a p c" "\<And>p. p_addr (f p) = p_addr p" "\<And>c'. foc as gl a (f p) c' \<Longrightarrow> Q c'"
  shows "wpo (pc_mod a f c) Q"
proof -
  let ?c = "pc_upd a f c"
  have p: "pc_get a c = Some p" using assms(1) by (simp add: focus_def)
  have good: "good ?c" using assms(1) good_cong [of ?c c] by (simp add: focus_def)
  have ok: "l3_ok ?c" using assms(1) pc_upd_l3_ok [of c f a, OF _ assms(2)] by (simp add: focus_def)
  have get: "pc_get a ?c = Some (f p)" using pc_get_upd [of f a c, OF assms(2)] p by simp
  have "p_addr \<circ> at_addr a f = p_addr" using assms(2) by (simp add: fun_eq_iff)
  then have adr: "l3_addrs ?c = as" using assms(1) by (simp add: focus_def pc_upd_def)
  have others: "\<forall>q \<in> set (l3_proc ?c). p_addr q \<noteq> a \<longrightarrow> p_ok m q"
    using assms(1,2) by (auto simp: focus_def pc_upd_def at_addr_def)
  have gl: "l3_global ?c \<noteq> None \<and> (\<forall>g. l3_global ?c = Some g \<longrightarrow> p_addr g \<noteq> a \<longrightarrow> f_shape g)"
    using assms(1,2) by (auto simp: focus_def pc_upd_def at_addr_def)
  have "l3_global ?c = gl" if "a \<in> set as"
  proof -
    have "l3_global c = gl" "\<forall>g. l3_global c = Some g \<longrightarrow> p_addr g \<noteq> a"
      using assms(1) that by (auto simp: focus_def l3_ok_def)
    then show ?thesis by (cases gl) (simp_all add: pc_upd_def at_addr_def)
  qed
  then have "foc as gl a (f p) ?c"
    using assms(1) good ok get adr others gl by (simp add: focus_def)
  then show ?thesis using p assms(3) by (simp add: pc_mod_def)
qed

lemma new_state_wp:
  "foc as gl a p c \<Longrightarrow> (\<And>c'. foc as gl a (newl3state n p) c' \<Longrightarrow> Q c') \<Longrightarrow> wpo (pc_mod a (newl3state n) c) Q"
  by (erule mod_wp) (simp_all add: p_run)

lemma del_timer_wp:
  "foc as gl a p c \<Longrightarrow> (\<And>c'. foc as gl a (L3DelTimer p) c' \<Longrightarrow> Q c') \<Longrightarrow> wpo (pc_mod a L3DelTimer c) Q"
  by (erule mod_wp) (simp_all add: p_run)

lemma stop_timer_wp:
  "foc as gl a p c \<Longrightarrow> (\<And>c'. foc as gl a (StopAllL3Timer p) c' \<Longrightarrow> Q c') \<Longrightarrow>
     wpo (pc_mod a StopAllL3Timer c) Q"
  by (erule mod_wp) (simp_all add: p_run)

lemma uus_clear_wp:
  "foc as gl a p c \<Longrightarrow> (\<And>c'. foc as gl a (uus_clear p) c' \<Longrightarrow> Q c') \<Longrightarrow> wpo (pc_mod a uus_clear c) Q"
  by (erule mod_wp) (simp_all add: p_run)

lemma set_cause_wp:
  "foc as gl a p c \<Longrightarrow> (\<And>c'. foc as gl a (p\<lparr>p_cause := x\<rparr>) c' \<Longrightarrow> Q c') \<Longrightarrow> wpo (set_cause a x c) Q"
  by (erule mod_wp) simp_all

lemma add_timer_wp:
  assumes "foc as gl a p c" "\<And>c' x. foc as gl a (timer_on x ev p) c' \<Longrightarrow> Q c'"
  shows "wpo (add_timer a ms ev c) Q"
proof -
  have "(\<lambda>p. snd (L3AddTimer (l3_kenv c) ms ev p)) = timer_on (timer_expires (l3_kenv c) ms) ev"
    by (simp add: fun_eq_iff L3AddTimer_def timer_on_def)
  then show ?thesis
    using mod_wp [OF assms(1), of "timer_on (timer_expires (l3_kenv c) ms) ev" Q] assms(2)
    by (simp add: add_timer_def timer_on_def)
qed

lemma timed_out_wp:
  "foc as gl a p c \<Longrightarrow> (\<And>c'. foc as gl a (p\<lparr>p_loc := 0, p_cause := x\<rparr>) c' \<Longrightarrow> Q c') \<Longrightarrow>
     wpo (timed_out a x c) Q"
  unfolding timed_out_def by (erule mod_wp) simp_all

text \<open>Without memory the handler returns; with \<open>m\<close> that does not happen.\<close>

lemma alloc_wp:
  assumes "foc as gl a p c" "\<And>skb c'. foc as gl a p c' \<Longrightarrow> wpo (k skb c') Q"
    "\<And>c'. \<not> m \<Longrightarrow> foc as gl a p c' \<Longrightarrow> Q c'"
  shows "wpo (alloc_then d k c) Q"
proof -
  obtain ok e where e: "k_alloc (l3_kenv c) = (ok, e)" by (cases "k_alloc (l3_kenv c)")
  let ?c = "c\<lparr>l3_kenv := e\<rparr>"
  have "m \<longrightarrow> ok \<and> mem_ok e"
    using assms(1) mem_ok_alloc [of "l3_kenv c"] e by (auto simp: focus_def dss1_good_def)
  moreover have "low ?c = low c" by (rule low_more) simp
  ultimately have "good ?c \<and> (m \<longrightarrow> ok)" using assms(1) by (simp add: focus_def dss1_good_def)
  moreover have "l3_ok ?c = l3_ok c" by (rule l3_ok_cong) simp_all
  ultimately have "foc as gl a p ?c \<and> (m \<longrightarrow> ok)" using focus_same [OF assms(1), of ?c] by simp
  then show ?thesis
    using e assms(2) [of ?c] assms(3) [of ?c] by (cases ok) (auto simp: alloc_then_def l3_alloc_skb_def)
qed

lemma focus_out:
  assumes "foc as gl a p c"
  shows "foc as gl a p (c\<lparr>d_out := x\<rparr>)"
proof (rule focus_same [OF assms])
  have "good (c\<lparr>d_out := x\<rparr>) = good c" by (rule good_cong) simp_all
  then show "good (c\<lparr>d_out := x\<rparr>)" using assms by (simp add: focus_def)
  show "l3_ok (c\<lparr>d_out := x\<rparr>) = l3_ok c" by (rule l3_ok_cong) simp_all
qed simp_all

lemma focus_l3l4: "foc as gl a p c \<Longrightarrow> foc as gl a p (l3l4 pr b c)"
  by (simp add: l3l4_def focus_out)

lemma focus_statcallb: "foc as gl a p c \<Longrightarrow> foc as gl a p (statcallb ic c)"
  by (simp add: statcallb_def focus_out)

lemma focus_invoke:
  assumes "foc as gl a p c" "invoke_ok u"
  shows "foc as gl a p (c\<lparr>d_last_invoke_id := x, d_invoke_used := u\<rparr>)"
    "foc as gl a p (c\<lparr>d_invoke_used := u\<rparr>)"
proof -
  have low: "low (c\<lparr>d_last_invoke_id := x, d_invoke_used := u\<rparr>) = low c" "low (c\<lparr>d_invoke_used := u\<rparr>) = low c"
    by (rule low_more, simp)+
  have ok: "l3_ok (c\<lparr>d_last_invoke_id := x, d_invoke_used := u\<rparr>) = l3_ok c"
    "l3_ok (c\<lparr>d_invoke_used := u\<rparr>) = l3_ok c" by (rule l3_ok_cong; simp)+
  show "foc as gl a p (c\<lparr>d_last_invoke_id := x, d_invoke_used := u\<rparr>)"
    by (rule focus_same [OF assms(1)]) (use assms low ok in \<open>simp_all add: focus_def dss1_good_def\<close>)
  show "foc as gl a p (c\<lparr>d_invoke_used := u\<rparr>)"
    by (rule focus_same [OF assms(1)]) (use assms low ok in \<open>simp_all add: focus_def dss1_good_def\<close>)
qed

lemma focus_free_id: "foc as gl a p c \<Longrightarrow> foc as gl a p (free_invoke_id ii c)"
proof -
  assume c: "foc as gl a p c"
  then have "invoke_ok (d_invoke_used c)" by (simp add: focus_def dss1_good_def)
  from free_invoke_id_ok(1) [OF this, of ii] show ?thesis
    using c focus_invoke(2) [OF c] by (simp add: free_invoke_id_def Let_def split: if_splits)
qed

lemma new_id_wp:
  assumes "foc as gl a p c" "\<And>ii c'. foc as gl a p c' \<Longrightarrow> Q (ii, c')"
  shows "wpo (new_invoke_id c) Q"
proof -
  have "invoke_ok (d_invoke_used c)" using assms(1) by (simp add: focus_def dss1_good_def)
  from new_invoke_id_ok [OF this] obtain r c' where
    r: "new_invoke_id c = Some (r, c')" "invoke_ok (d_invoke_used c')" by blast
  then have "\<exists>u x. c' = c\<lparr>d_last_invoke_id := x, d_invoke_used := u\<rparr>"
    by (fastforce simp: new_invoke_id_def Let_def split: prod.splits bind_splits)
  then show ?thesis using r assms(2) focus_invoke(1) [OF assms(1)] by auto
qed

text \<open>The end of a handler that leaves the process where it is.\<close>

lemma done_wp:
  assumes "foc as gl a p c" "f_shape p" "a \<in> set as \<Longrightarrow> p_ok m p"
  shows "inv c \<and> l3_addrs c = as \<and> (a \<in> set as \<longrightarrow> l3_global c = gl)"
proof -
  have p: "pc_get a c = Some p" "l3_ok c" using assms(1) by (simp_all add: focus_def)
  have "p_ok m q" if "q \<in> set (l3_proc c)" for q
    using that assms pc_get_mem [OF p(2) that] p by (cases "p_addr q = a") (auto simp: focus_def)
  moreover have "f_shape g" if "l3_global c = Some g" for g
    using that assms pc_get_global [OF p(2) that] p
    by (cases "p_addr g = a") (auto simp: focus_def)
  ultimately show ?thesis using assms(1) by (auto simp: dss1_inv_def focus_def list_all_iff)
qed

lemma focus_start:
  assumes "inv c" "p \<in> set (l3_proc c)"
  shows "foc (l3_addrs c) (l3_global c) (p_addr p) p c" "p_ok m p"
  using assms pc_get_mem [of c p] by (auto simp: dss1_inv_def focus_def list_all_iff)

lemma focus_start_global:
  assumes "inv c" "l3_global c = Some g"
  shows "foc (l3_addrs c) gl (p_addr g) g c" "f_shape g" "p_addr g \<notin> set (l3_addrs c)"
  using assms pc_get_global [of c g] by (auto simp: dss1_inv_def focus_def list_all_iff l3_ok_def)

end

text \<open>What a send, and the cause that is set before it, leave of the process.\<close>

definition kept :: "l3_process \<Rightarrow> l3_process \<Rightarrow> bool" where
  "kept p p' \<longleftrightarrow> p_state p' = p_state p \<and> p_callref p' = p_callref p \<and> p_setup p' = p_setup p \<and>
     p_chan p' = p_chan p \<and>
     (p_state p \<noteq> 10 \<longrightarrow> p_timer p' = p_timer p) \<and>
     (lt_pending (p_timer p') \<longrightarrow> p_timer p' = p_timer p) \<and>
     length (p_uus1_data p') = length (p_uus1_data p) \<and> length (p_diag p') = length (p_diag p) \<and>
     (0 \<in> set (p_uus1_data p) \<longrightarrow> 0 \<in> set (p_uus1_data p'))"

lemma kept_refl [simp]: "kept p p"
  by (simp add: kept_def)

lemma kept_trans: "kept p q \<Longrightarrow> kept q r \<Longrightarrow> kept p r"
  by (auto simp: kept_def)

lemma kept_cause [simp]: "kept p (p\<lparr>p_cause := x\<rparr>)" "kept (p\<lparr>p_cause := x\<rparr>) p' = kept p p'"
  by (simp_all add: kept_def)

lemma kept_uus: "length (p_uus1_data p) = 35 \<Longrightarrow> kept p (uus_clear p)"
  by (auto simp: kept_def uus_clear_def intro: set_update_memI)

lemma conf_kept: "conf p p' \<Longrightarrow> kept p p'"
  by (auto simp: kept_def conf_def L3DelTimer_def)

lemma kept_f_shape: "kept p p' \<Longrightarrow> f_shape p' = f_shape p"
  by (simp add: kept_def f_shape_def)

lemma kept_soft: "kept p p' \<Longrightarrow> p_soft p \<Longrightarrow> p_soft p'"
  by (auto simp: kept_def p_soft_def f_shape_def p_strings_def p_event_def)

lemma kept_timed: "kept p p' \<Longrightarrow> p_timed p \<Longrightarrow> p_timed p'"
  by (cases "p_state p = 10") (simp_all add: kept_def p_timed_def, simp add: wait_timers_def)

lemma kept_ok: "kept p p' \<Longrightarrow> p_ok m p \<Longrightarrow> p_ok m p'"
  using kept_soft kept_timed by (auto simp: p_ok_def)

locale dss1_send = dss1_focus low m md
  for low :: "'z Dss1_scheme \<Rightarrow> bool" and m and md :: "nat \<Rightarrow> bool" +
  fixes up :: "'z Dss1_scheme l3_ops"
  assumes send_ok:
      "\<And>skb c. dss1_good low m c \<Longrightarrow> l3_ok c \<Longrightarrow> md (l3_m_state c) \<Longrightarrow>
         wpo (l3_msg up (DL_DATA, REQUEST) (Some skb) c)
           (\<lambda>c'. dss1_good low m c' \<and> l3_ok c' \<and> md (l3_m_state c') \<and>
              list_all2 conf (l3_proc c) (l3_proc c') \<and> l3_global c' = l3_global c)"
begin

lemma send_wp:
  assumes "foc as gl a p c" "\<And>c' p'. foc as gl a p' c' \<Longrightarrow> kept p p' \<Longrightarrow> Q c'"
  shows "wpo (l3_msg up (DL_DATA, REQUEST) (Some skb) c) Q"
proof (rule wpo_mono [OF send_ok])
  fix c'
  assume "good c' \<and> l3_ok c' \<and> md (l3_m_state c') \<and>
      list_all2 conf (l3_proc c) (l3_proc c') \<and> l3_global c' = l3_global c"
  then obtain p' where "foc as gl a p' c'" "conf p p'" using focus_conf [OF assms(1)] by blast
  then show "Q c'" using assms(2) conf_kept by blast
qed (use assms(1) in \<open>simp_all add: focus_def\<close>)

end

end
