(* ===== verification/Hisax_Dss1_Run.thy ===== *)
theory Hisax_Dss1_Run
  imports Hisax_Dss1_Inv
begin

text \<open>
  The requests of call control and the timers of calls, run on a sound stack: none of them faults,
  and each leaves the stack sound.
\<close>

subsection \<open>Soft processes\<close>

lemma p_sel [simp]:
  "p_state (newl3state n p) = n" "p_timer (newl3state n p) = p_timer p"
  "p_state (L3DelTimer p) = p_state p" "\<not> lt_pending (p_timer (L3DelTimer p))"
  "p_state (StopAllL3Timer p) = p_state p" "\<not> lt_pending (p_timer (StopAllL3Timer p))"
  "p_state (timer_on x ev p) = p_state p" "p_state (uus_clear p) = p_state p"
  "p_timer (uus_clear p) = p_timer p"
  by (simp_all add: p_run)

lemma p_setup_sel [simp]:
  "p_setup (newl3state n p) = p_setup p" "p_setup (L3DelTimer p) = p_setup p"
  "p_setup (StopAllL3Timer p) = p_setup p" "p_setup (timer_on x ev p) = p_setup p"
  "p_chan (L3DelTimer p) = p_chan p" "p_chan (newl3state n p) = p_chan p"
  by (simp_all add: p_run)

lemma soft_shape: "p_soft p \<Longrightarrow> f_shape p"
  by (simp add: p_soft_def)

lemma soft_uus_end: "p_soft p \<Longrightarrow> 0 \<in> set (p_uus1_data p)"
  by (simp add: p_soft_def)

lemma soft_state: "p_soft p \<Longrightarrow> valid_state n \<Longrightarrow> n \<noteq> 1 \<Longrightarrow> n \<noteq> 6 \<Longrightarrow> n \<noteq> 25 \<Longrightarrow> p_soft (newl3state n p)"
  by (simp add: p_soft_def f_shape_def p_strings_def p_event_def p_run)

lemma soft_del: "p_soft p \<Longrightarrow> p_soft (L3DelTimer p)" "p_soft p \<Longrightarrow> p_soft (StopAllL3Timer p)"
  by (simp_all add: p_soft_def f_shape_def p_strings_def p_event_def p_run)

lemma soft_uus: "p_soft p \<Longrightarrow> p_soft (uus_clear p)"
  by (auto simp: p_soft_def f_shape_def p_strings_def p_event_def p_run intro: set_update_memI)

lemma soft_upd [simp]:
  "p_soft (p\<lparr>p_cause := x\<rparr>) = p_soft p" "p_soft (p\<lparr>p_loc := l\<rparr>) = p_soft p" "p_soft (p\<lparr>p_loc := l, p_cause := x\<rparr>) = p_soft p"
  "p_soft (p\<lparr>p_bchannel := b\<rparr>) = p_soft p" "p_soft (p\<lparr>p_chargeinfo := b\<rparr>) = p_soft p"
  "p_soft (p\<lparr>p_invoke_id := i\<rparr>) = p_soft p" "p_soft (p\<lparr>p_N303 := n3\<rparr>) = p_soft p"
  by (simp_all add: p_soft_def f_shape_def p_strings_def p_event_def)

lemma ok_upd [simp]:
  "p_ok m (p\<lparr>p_cause := x\<rparr>) = p_ok m p" "p_ok m (p\<lparr>p_loc := l, p_cause := x\<rparr>) = p_ok m p"
  "p_ok m (p\<lparr>p_bchannel := b\<rparr>) = p_ok m p" "p_ok m (p\<lparr>p_chargeinfo := b\<rparr>) = p_ok m p"
  "p_ok m (p\<lparr>p_invoke_id := i\<rparr>) = p_ok m p"
  by (simp_all add: p_ok_def p_timed_def)

lemma soft_timer: "p_soft p \<Longrightarrow> n \<in> set timer_names \<Longrightarrow> p_soft (timer_on x (n, REQUEST) p)"
  by (simp add: p_soft_def f_shape_def p_strings_def p_event_def timer_on_def)

lemma ok_soft: "p_ok m p \<Longrightarrow> p_soft p"
  by (simp add: p_ok_def)

lemma untimed_ok: "wait_timers (p_state p) = [] \<Longrightarrow> p_soft p \<Longrightarrow> p_ok m p"
  by (simp add: p_ok_def p_timed_def)

lemma nomem_ok: "\<not> m \<Longrightarrow> p_soft p \<Longrightarrow> p_ok m p"
  by (simp add: p_ok_def)

lemma timer_ok:
  "n \<in> set (wait_timers (p_state p)) \<Longrightarrow> n \<in> set timer_names \<Longrightarrow> p_soft p \<Longrightarrow>
     \<not> lt_pending (p_timer p) \<Longrightarrow> p_ok m (timer_on x (n, REQUEST) p)"
  using soft_timer [of p n x] by (simp add: p_ok_def p_timed_def timer_on_def)

lemma kept_sel: "kept p p' \<Longrightarrow> p_state p' = p_state p" "kept p p' \<Longrightarrow> p_setup p' = p_setup p"
  by (simp_all add: kept_def)

lemma kept_timer_ok:
  "kept p p' \<Longrightarrow> n \<in> set (wait_timers (p_state p)) \<Longrightarrow> n \<in> set timer_names \<Longrightarrow> p_soft p \<Longrightarrow>
     \<not> lt_pending (p_timer p) \<Longrightarrow> p_ok m (timer_on x (n, REQUEST) p')"
  using timer_ok [of n p' m x] kept_soft [of p p'] by (auto simp: kept_def)

lemma kept_del_timer_ok:
  "kept p p' \<Longrightarrow> n \<in> set (wait_timers (p_state p)) \<Longrightarrow> n \<in> set timer_names \<Longrightarrow> p_soft p \<Longrightarrow>
     p_ok m (timer_on x (n, REQUEST) (L3DelTimer p'))"
  using timer_ok [of n "L3DelTimer p'" m x] kept_soft [of p p'] by (auto simp: kept_def intro: soft_del)

lemma wait_timers_simps [simp]:
  "wait_timers 0 = []" "wait_timers 1 = [CC_T303]" "wait_timers (Suc 0) = [CC_T303]" "wait_timers 2 = [CC_T304]" "wait_timers 3 = [CC_T310]"
  "wait_timers 4 = []" "wait_timers 6 = []" "wait_timers 7 = []" "wait_timers 8 = [CC_T313]"
  "wait_timers 9 = []" "wait_timers 10 = []" "wait_timers 11 = [CC_T305]" "wait_timers 12 = []"
  "wait_timers 15 = []" "wait_timers 17 = [CC_T318]" "wait_timers 19 = [CC_T308_1, CC_T308_2]"
  "wait_timers 25 = [CC_T302]"
  by (simp_all add: wait_timers_def)

lemma timer_names_simps [simp]:
  "{CC_T302, CC_T303, CC_T304, CC_T305, CC_T308_1, CC_T308_2, CC_T309, CC_T310, CC_T313, CC_T318, CC_T319,
    CC_TDSS1_IO} \<subseteq> set timer_names"
  "CC_T302 \<in> set timer_names" "CC_T303 \<in> set timer_names" "CC_T304 \<in> set timer_names"
  "CC_T305 \<in> set timer_names" "CC_T308_1 \<in> set timer_names" "CC_T308_2 \<in> set timer_names"
  "CC_T309 \<in> set timer_names" "CC_T310 \<in> set timer_names" "CC_T313 \<in> set timer_names"
  "CC_T318 \<in> set timer_names" "CC_T319 \<in> set timer_names" "CC_TDSS1_IO \<in> set timer_names"
  by (simp_all add: timer_names_def)

text \<open>The rules that show a process sound at the end of a handler.\<close>

lemmas p_close = timer_ok soft_state soft_del soft_uus soft_timer soft_uus_end ok_soft

lemma cstr_some: "0 \<in> set s \<Longrightarrow> \<exists>t. cstr s = Some t"
  by (simp add: cstr_def)

text \<open>
  What call control must see to: a call it suspends or deflects has a channel. A process just made
  for a call has no timer, and for a SETUP its numbers are strings.
\<close>

definition down_ok :: "cc_prim \<Rightarrow> l3_process \<Rightarrow> bool" where
  "down_ok pr p \<longleftrightarrow>
     (pr \<in> {(CC_SUSPEND, REQUEST), (CC_REDIR, REQUEST)} \<longrightarrow> p_chan p \<noteq> None) \<and>
     (pr = (CC_RESUME, REQUEST) \<longrightarrow> \<not> lt_pending (p_timer p)) \<and>
     (pr = (CC_SETUP, REQUEST) \<longrightarrow> 0 \<in> set (su_phone (p_setup p)) \<and> 0 \<in> set (su_eazmsn (p_setup p)) \<and>
        prefix_ok (su_phone (p_setup p)))"

definition request_ok :: "cc_prim \<Rightarrow> down_arg \<Rightarrow> 'z Dss1_scheme \<Rightarrow> bool" where
  "request_ok pr arg c \<longleftrightarrow>
     (if pr \<in> {(CC_SETUP, REQUEST), (CC_RESUME, REQUEST)}
      then (case arg of ArgChan ch \<Rightarrow> pr = (CC_SETUP, REQUEST) \<longrightarrow> prefix_ok (su_phone (ch_setup (d_chan c ch)))
                      | _ \<Rightarrow> False)
      else (case arg of ArgProc a \<Rightarrow> \<exists>p \<in> set (l3_proc c). p_addr p = a \<and> down_ok pr p
                      | ArgNone \<Rightarrow> True | ArgChan ch \<Rightarrow> False))"

context dss1_send
begin

subsection \<open>Sending\<close>

lemma inv_of: "foc as gl a p c \<Longrightarrow> p_ok m p \<Longrightarrow> inv c"
  using done_wp [of as gl a p c] soft_shape [OF ok_soft] by blast

lemma send_alloc_wp:
  assumes "foc as gl a p c" "\<And>c' p'. foc as gl a p' c' \<Longrightarrow> kept p p' \<Longrightarrow> Q c'"
  shows "wpo (alloc_then d (l3_send up) c) Q"
  by (rule alloc_wp [OF assms(1)]) (erule send_wp, rule assms(2), assumption+, rule assms(2) [of p], simp_all)

lemma message_wp:
  assumes "foc as gl a p c" "\<And>c' p'. foc as gl a p' c' \<Longrightarrow> kept p p' \<Longrightarrow> Q c'"
  shows "wpo (l3dss1_message up a mt c) Q"
  unfolding l3dss1_message_def wpo_bind
  by (rule get_wp [OF assms(1)]) (rule send_alloc_wp [OF assms])

lemma message_cause_wp:
  assumes "foc as gl a p c" "\<And>c' p'. foc as gl a p' c' \<Longrightarrow> kept p p' \<Longrightarrow> Q c'"
  shows "wpo (l3dss1_message_cause up a mt x c) Q"
  unfolding l3dss1_message_cause_def wpo_bind
  by (rule get_wp [OF assms(1)]) (rule send_alloc_wp [OF assms])

lemma status_send_wp:
  assumes "foc as gl a p c" "\<And>c' p'. foc as gl a p' c' \<Longrightarrow> kept p p' \<Longrightarrow> Q c'"
  shows "wpo (l3dss1_status_send up a c) Q"
  unfolding l3dss1_status_send_def wpo_bind
  by (rule get_wp [OF assms(1)]) (rule send_alloc_wp [OF assms])

lemma status_cause_wp:
  assumes "foc as gl a p c" "\<And>c' p'. foc as gl a p' c' \<Longrightarrow> kept p p' \<Longrightarrow> Q c'"
  shows "wpo (status_cause up a x c) Q"
  unfolding status_cause_def wpo_bind
  by (rule set_cause_wp [OF assms(1)], erule status_send_wp) (rule assms(2), assumption, simp)

lemma std_ie_err_wp:
  assumes "foc as gl a p c" "\<And>c' p'. foc as gl a p' c' \<Longrightarrow> kept p p' \<Longrightarrow> Q c'"
  shows "wpo (l3dss1_std_ie_err up a ret c) Q"
  unfolding l3dss1_std_ie_err_def status_cause_def [symmetric]
  by (intro wp_if status_cause_wp [OF assms(1)] wp_Some) (auto intro: assms)

lemma send_uus_wp:
  assumes "foc as gl a p c" "p_soft p" "\<And>c' p'. foc as gl a p' c' \<Longrightarrow> kept p p' \<Longrightarrow> Q c'"
  shows "wpo (send_uus up a mt c) Q"
proof -
  obtain s where s: "cstr (p_uus1_data p) = Some s" "kept p (uus_clear p)"
    using assms(2) cstr_some kept_uus by (auto simp: p_soft_def f_shape_def)
  have "wpo (l3dss1_msg_with_uus up a mt c) Q"
    unfolding l3dss1_msg_with_uus_def wpo_bind
    apply (rule get_wp [OF assms(1)])
    apply (simp add: s(1))
    apply (rule uus_clear_wp [OF assms(1)])
    apply (erule send_alloc_wp)
    apply (erule assms(3))
    apply (erule kept_trans [OF s(2)])
    done
  then show ?thesis
    unfolding send_uus_def wpo_bind
    by (intro get_wp [OF assms(1)] wp_if) (rule message_wp [OF assms(1,3)])
qed

lemma get_wp': "foc as gl a p c \<Longrightarrow> (foc as gl a p c \<Longrightarrow> Q p) \<Longrightarrow> wpo (pc_get a c) Q"
  by (rule get_wp)

lemma cstr_wp: "0 \<in> set s \<Longrightarrow> (\<And>t. cstr s = Some t \<Longrightarrow> Q t) \<Longrightarrow> wpo (cstr s) Q"
  using cstr_some [of s] by auto

lemma disconnect_req_wp:
  assumes "foc as gl a p c" "p_soft p" "\<And>c' p'. foc as gl a p' c' \<Longrightarrow> p_ok m p' \<Longrightarrow> Q c'"
  shows "wpo (l3dss1_disconnect_req up a c) Q"
  unfolding l3dss1_disconnect_req_def wpo_bind
proof (rule stop_timer_wp [OF assms(1)], erule get_wp', rule cstr_wp, goal_cases)
  case 1
  show ?case by (rule soft_uus_end soft_del assms(2))+
next
  case (2 c1 s)
  have soft: "p_soft (uus_clear (StopAllL3Timer p))" by (rule soft_uus soft_del assms(2))+
  show ?case
  proof (rule uus_clear_wp [OF 2(1)], erule alloc_wp, goal_cases)
    case (1 c2 skb c3)
    show ?case
      unfolding wpo_bind
      by (rule new_state_wp [OF 1], erule send_wp, erule add_timer_wp, erule assms(3))
        (erule kept_timer_ok, use soft in \<open>simp_all add: soft_state\<close>)
  next
    case (2 c2 c3)
    then show ?case using assms(3) nomem_ok [OF _ soft] by blast
  qed
qed

end

locale dss1_calls = dss1_send low m "\<lambda>_. True" up
  for low :: "'z Dss1_scheme \<Rightarrow> bool" and m and up :: "'z Dss1_scheme l3_ops" +
  assumes release_law: "\<And>c. dss1_good low m c \<Longrightarrow> l3_ok c \<Longrightarrow>
      wpo (release_l3_process up a c)
        (\<lambda>c'. dss1_good low m c' \<and> l3_ok c' \<and> l3_proc c' = remove_proc a (l3_proc c) \<and>
           l3_global c' = l3_global c)"
begin

lemma remove_wp:
  assumes "foc as gl a p c" "f_shape p" "\<And>c'. inv c' \<Longrightarrow> Q c'"
  shows "wpo (release_l3_process up a c) Q"
proof (rule wpo_mono [OF release_law])
  fix c'
  assume c': "good c' \<and> l3_ok c' \<and> l3_proc c' = remove_proc a (l3_proc c) \<and> l3_global c' = l3_global c"
  have p: "pc_get a c = Some p" "l3_ok c" using assms(1) by (simp_all add: focus_def)
  have "list_all (p_ok m) (l3_proc c')"
    using assms(1) c' by (auto simp: focus_def remove_proc_def list_all_iff)
  moreover have "f_shape g" if g: "l3_global c' = Some g" for g
  proof (cases "p_addr g = a")
    case True
    then have "p = g" using pc_get_global [OF p(2), of g] p(1) c' g by simp
    then show ?thesis using assms(2) by simp
  qed (use assms(1) c' g in \<open>auto simp: focus_def\<close>)
  moreover have "l3_global c' \<noteq> None" using assms(1) c' by (simp add: focus_def)
  ultimately show "Q c'" using c' assms(3) by (auto simp: dss1_inv_def)
qed (use assms(1) in \<open>simp_all add: focus_def\<close>)

lemma release_wp:
  assumes "foc as gl a p c" "f_shape p" "\<And>c'. inv c' \<Longrightarrow> Q c'"
  shows "wpo (dss1_release_l3_process up a c) Q"
  unfolding dss1_release_l3_process_def wpo_bind
  by (rule get_wp [OF assms(1)]) (rule remove_wp [OF focus_free_id [OF assms(1)] assms(2,3)])

subsection \<open>Requests of the call control\<close>

lemma release_soft_wp:
  "foc as gl a p c \<Longrightarrow> p_soft p \<Longrightarrow> (\<And>c'. inv c' \<Longrightarrow> Q c') \<Longrightarrow> wpo (dss1_release_l3_process up a c) Q"
  by (erule release_wp, erule soft_shape, blast)

lemma setup_req_wp:
  assumes "foc as gl a p c" "p_soft p" "0 \<in> set (su_phone (p_setup p))" "0 \<in> set (su_eazmsn (p_setup p))"
    "prefix_ok (su_phone (p_setup p))" "\<And>c'. inv c' \<Longrightarrow> Q c'"
  shows "wpo (l3dss1_setup_req up a c) Q"
proof -
  have len: "length (su_phone (p_setup p)) = 32" "length (su_eazmsn (p_setup p)) = 32"
    using assms(2) by (simp_all add: p_soft_def f_shape_def)
  from setup_fits [OF len(1) assms(3,5) len(2) assms(4)] obtain sm where
    sm: "setup_message (p_callref p) (p_setup p) = Some sm" by blast
  have soft: "p_soft (newl3state 1 p)"
    using assms(2-5) by (simp add: p_soft_def f_shape_def p_strings_def p_event_def newl3state_def)
  have ok: "p_ok m (newl3state 1 (timer_on x (CC_T303, REQUEST) (L3DelTimer p)))" for x
  proof -
    have "newl3state 1 (timer_on x (CC_T303, REQUEST) (L3DelTimer p)) =
        timer_on x (CC_T303, REQUEST) (L3DelTimer (newl3state 1 p))" by (simp add: p_run)
    then show ?thesis using timer_ok [OF _ _ soft_del(1) [OF soft], of CC_T303 m x] by simp
  qed
  show ?thesis
    unfolding l3dss1_setup_req_def wpo_bind
  proof (rule get_wp [OF assms(1)], simp add: sm, rule alloc_wp [OF assms(1)], goal_cases)
    case (1 skb c1)
    show ?case
      unfolding wpo_bind
      by (rule del_timer_wp [OF 1], erule add_timer_wp, erule new_state_wp, erule send_wp,
          rule assms(6), erule inv_of, erule kept_ok) (use ok in simp)
  next
    case (2 c1)
    then show ?case using assms(2,6) inv_of [OF 2(2)] nomem_ok by blast
  qed
qed

lemma setup_rsp_ok: "foc as gl a p c \<Longrightarrow> p_ok m p \<Longrightarrow> wpo (l3dss1_setup_rsp up a c) inv"
  unfolding l3dss1_setup_rsp_def wpo_bind
  apply (erule get_wp')
  apply (rule wp_if)
   apply (erule disconnect_req_wp, erule ok_soft, erule inv_of, assumption)
  unfolding wpo_bind
  apply (erule new_state_wp, erule message_wp, erule del_timer_wp, erule add_timer_wp, erule inv_of)
  apply (erule kept_del_timer_ok, simp_all add: soft_state ok_soft)
  done

lemma release_req_wp:
  assumes "foc as gl a p c" "p_soft p" "\<And>c' p'. foc as gl a p' c' \<Longrightarrow> p_ok m p' \<Longrightarrow> p_state p' = 19 \<Longrightarrow> Q c'"
  shows "wpo (l3dss1_release_req up a c) Q"
  unfolding l3dss1_release_req_def wpo_bind
  apply (rule stop_timer_wp [OF assms(1)], erule new_state_wp, erule send_uus_wp)
   apply (simp add: soft_state soft_del assms(2))
  apply (erule add_timer_wp, erule assms(3))
   apply (erule kept_timer_ok, simp_all add: soft_state soft_del assms(2) kept_sel)
  done

lemma reject_req_ok: "foc as gl a p c \<Longrightarrow> p_ok m p \<Longrightarrow> wpo (l3dss1_reject_req up a c) inv"
  unfolding l3dss1_reject_req_def wpo_bind
  apply (erule get_wp', erule alloc_wp)
  unfolding wpo_bind
   apply (erule send_wp, erule new_state_wp [OF focus_l3l4], erule release_soft_wp)
    apply (simp add: soft_state kept_soft ok_soft)
   apply assumption
  apply (erule inv_of, assumption)
  done

lemma alert_req_ok: "foc as gl a p c \<Longrightarrow> p_soft p \<Longrightarrow> wpo (l3dss1_alert_req up a c) inv"
  unfolding l3dss1_alert_req_def wpo_bind
  apply (erule new_state_wp, erule send_uus_wp)
   apply (simp add: soft_state)
  apply (erule inv_of, erule kept_ok, simp add: untimed_ok soft_state)
  done

lemma proceed_req_wp:
  assumes "foc as gl a p c" "\<And>c' p'. foc as gl a p' c' \<Longrightarrow> kept (newl3state 9 p) p' \<Longrightarrow> Q c'"
  shows "wpo (l3dss1_proceed_req up a c) Q"
  unfolding l3dss1_proceed_req_def wpo_bind
  by (rule new_state_wp [OF assms(1)], erule message_wp, rule wp_Some, rule assms(2), erule focus_l3l4)

lemma proceed_req_ok: "foc as gl a p c \<Longrightarrow> p_soft p \<Longrightarrow> wpo (l3dss1_proceed_req up a c) inv"
  by (erule proceed_req_wp, erule inv_of, erule kept_ok) (simp add: untimed_ok soft_state)

lemma soft_state_25: "p_soft p \<Longrightarrow> p_state p = 6 \<Longrightarrow> p_soft (newl3state 25 p)"
  by (simp add: p_soft_def f_shape_def p_strings_def p_event_def p_run)

lemma setup_ack_req_ok:
  "foc as gl a p c \<Longrightarrow> p_soft p \<Longrightarrow> p_state p = 6 \<Longrightarrow> wpo (l3dss1_setup_ack_req up a c) inv"
  unfolding l3dss1_setup_ack_req_def wpo_bind
  apply (erule new_state_wp, erule del_timer_wp, erule add_timer_wp, erule message_wp, erule inv_of,
      erule kept_ok)
  apply (rule timer_ok, simp_all add: soft_del soft_state_25)
  done

lemma call_identity_wp:
  assumes "length s = 32" "\<And>r. Q r"
  shows "wpo (call_identity s) Q"
proof -
  have "s ! 0 \<le> 10 \<Longrightarrow> Suc (unat (s ! 0)) \<le> 32"
    by (simp add: word_le_nat_alt)
  then show ?thesis using assms by (auto simp: call_identity_def rd_list_def)
qed

lemma suspend_req_ok:
  assumes "foc as gl a p c" "p_ok m p" "p_chan p = Some ch"
  shows "wpo (l3dss1_suspend_req up a c) inv"
proof -
  have "length (su_phone (ch_setup (d_chan c ch))) = 32"
    using assms(1) by (simp add: focus_def dss1_good_def chan_ok_def)
  then show ?thesis
    unfolding l3dss1_suspend_req_def wpo_bind
  proof (intro get_wp [OF assms(1)], simp add: pc_chan_def assms(3), rule_tac call_identity_wp, simp, goal_cases)
    case (1 r)
    show ?case
    proof (rule wp_option, simp add: inv_of [OF assms(1,2)], rule alloc_wp [OF assms(1)], goal_cases)
      case (1 ident skb c')
      show ?case
        unfolding wpo_bind
        by (rule send_wp [OF 1(2)], erule new_state_wp, erule add_timer_wp, erule inv_of)
          (rule untimed_ok, simp, rule soft_timer, rule soft_state, erule kept_soft,
           use assms(2) in \<open>simp_all add: ok_soft\<close>)
    qed (rule inv_of, use assms(2) in simp_all)
  qed
qed

lemma resume_req_ok:
  assumes "foc as gl a p c" "p_ok m p" "\<not> lt_pending (p_timer p)"
  shows "wpo (l3dss1_resume_req up a c) inv"
proof -
  have s: "p_soft p" "length (su_phone (p_setup p)) = 32"
    using assms(2) by (simp_all add: p_ok_def p_soft_def f_shape_def)
  show ?thesis
    unfolding l3dss1_resume_req_def wpo_bind
  proof (intro get_wp [OF assms(1)] call_identity_wp [OF s(2)] wp_option wp_Some, goal_cases)
    case 1
    show ?case by (rule inv_of [OF assms(1,2)])
  next
    case (2 r ident)
    have "p_ok m (timer_on x (CC_T318, REQUEST) (newl3state 17 p'))" if "kept p p'" for p' x
      using that timer_ok [of CC_T318 "newl3state 17 p'" m x] soft_state [OF kept_soft [OF that s(1)], of 17] assms(3)
      by (auto simp: kept_def)
    then show ?case
      unfolding wpo_bind
      by (intro alloc_wp [OF assms(1)])
        (unfold wpo_bind, erule send_wp, erule new_state_wp, erule add_timer_wp, erule inv_of, blast,
         rule inv_of, use assms(2) in simp_all)
  qed
qed

lemma restart_ok: "foc as gl a p c \<Longrightarrow> p_soft p \<Longrightarrow> wpo (l3dss1_restart up a c) inv"
  unfolding l3dss1_restart_def wpo_bind
  by (erule del_timer_wp, erule release_soft_wp [OF focus_l3l4]) (simp_all add: soft_del)

subsection \<open>Deflection\<close>

lemma put_str_wp:
  assumes "length arr = n" "length s < n" "\<And>arr'. length arr' = n \<Longrightarrow> 0 \<in> set arr' \<Longrightarrow> Q arr'"
  shows "wpo (put_str arr 0 s) Q"
  using assms by (simp add: put_str_def)

lemma redir_fits:
  assumes "length phone \<le> 31"
  shows "length (MsgHead cr mt @ redir_facility ii (fst (split_sub phone)) (snd (split_sub phone)) sc) \<le> 128"
proof -
  have "length (redir_facility ii a s sc) \<le> 22 + length a + (case s of None \<Rightarrow> 0 | Some t \<Rightarrow> length t)" for a s
    by (cases s) (simp_all add: redir_facility_def Let_def)
  from this [of "fst (split_sub phone)" "snd (split_sub phone)"] show ?thesis
    using split_sub_length [of phone] length_MsgHead [of cr mt] assms
    by (cases "snd (split_sub phone)") auto
qed

lemma redir_req_ok:
  assumes "foc as gl a p c" "p_ok m p" "p_chan p = Some ch"
  shows "wpo (l3dss1_redir_req up a c) inv"
proof -
  let ?su = "ch_setup (d_chan c ch)"
  have ch: "chan_ok (d_chan c ch)" using assms(1) by (simp add: focus_def dss1_good_def)
  then have len: "length (su_phone ?su) = 32" "length (su_eazmsn ?su) = 32" by (simp_all add: chan_ok_def)
  obtain eaz phone where s: "cstr (su_eazmsn ?su) = Some eaz" "cstr (su_phone ?su) = Some phone"
    using ch cstr_some by (meson chan_ok_def)
  have l: "length eaz < 35" "length phone \<le> 31"
    using cstr_length [OF s(1)] cstr_length [OF s(2)] len by simp_all
  have uus: "length (p_uus1_data p) = 35" using assms(2) by (simp add: p_ok_simps)
  show ?thesis
    unfolding l3dss1_redir_req_def wpo_bind
  proof (rule get_wp [OF assms(1)], simp add: pc_chan_def assms(3) s, rule put_str_wp [OF uus l(1)], goal_cases)
    case (1 arr)
    let ?p = "p\<lparr>p_uus1_data := arr\<rparr>"
    have ok: "p_ok m ?p" using assms(2) 1
      by (simp add: p_ok_def p_timed_def p_soft_def f_shape_def p_strings_def p_event_def)
    have more: "wpo (let m = MsgHead (p_callref p) MT_FACILITY @
          redir_facility ii (fst (split_sub phone)) (snd (split_sub phone)) (su_screen ?su)
        in if 128 < length m then None else alloc_then m (l3_send up) c1) inv"
      if "foc as gl a (?p\<lparr>p_invoke_id := ii\<rparr>) c1" for ii c1
    proof -
      have "\<not> 128 < length (MsgHead (p_callref p) MT_FACILITY @
          redir_facility ii (fst (split_sub phone)) (snd (split_sub phone)) (su_screen ?su))"
        using redir_fits [OF l(2)] by (simp only: not_less)
      then show ?thesis
        unfolding Let_def by (subst if_not_P, assumption) (rule send_alloc_wp [OF that], erule inv_of, erule kept_ok, simp add: ok)
    qed
    show ?case
      apply (rule mod_wp [OF assms(1)], simp)
      apply (intro conjI impI; (erule set_cause_wp, erule disconnect_req_wp,
          simp add: ok_soft [OF ok], erule inv_of, assumption)?)
       apply (rule new_id_wp [where as = as and gl = gl and a = a and p = ?p], simp add: focus_free_id,
          rule wp_pair, unfold wpo_bind, erule mod_wp, simp, rule wp_if, rule wp_Some,
          erule inv_of, simp add: ok, rule more, assumption)+
      done
  qed
qed

lemma redir_req_early_ok:
  assumes "foc as gl a p c" "p_soft p" "p_chan p = Some ch"
  shows "wpo (l3dss1_redir_req_early up a c) inv"
  unfolding l3dss1_redir_req_early_def wpo_bind
proof (rule proceed_req_wp [OF assms(1)])
  fix c' p'
  assume c': "foc as gl a p' c'" "kept (newl3state 9 p) p'"
  have "p_ok m (newl3state 9 p)" using assms(2) by (simp add: untimed_ok soft_state)
  moreover have "p_chan p' = Some ch" using c'(2) assms(3) by (simp add: kept_def p_run)
  ultimately show "wpo (l3dss1_redir_req up a c') inv"
    using redir_req_ok [OF c'(1)] kept_ok [OF c'(2)] by blast
qed

subsection \<open>Timers\<close>

text \<open>The common course of most of them: the call is given up with a cause.\<close>

lemma give_up_wp:
  assumes "foc as gl a p c" "p_soft p"
  shows "wpo (timed_out a x c) (\<lambda>c. wpo (l3dss1_disconnect_req up a c) (\<lambda>c. inv (l3l4 pr b c)))"
  by (rule timed_out_wp [OF assms(1)], erule disconnect_req_wp)
    (use assms(2) in simp, erule inv_of [OF focus_l3l4])

lemma give_up_ok:
  "foc as gl a p c \<Longrightarrow> p_soft p \<Longrightarrow> wpo (l3dss1_t302 up a c) inv"
  "foc as gl a p c \<Longrightarrow> p_soft p \<Longrightarrow> wpo (l3dss1_t304 up a c) inv"
  "foc as gl a p c \<Longrightarrow> p_soft p \<Longrightarrow> wpo (l3dss1_t310 up a c) inv"
  "foc as gl a p c \<Longrightarrow> p_soft p \<Longrightarrow> wpo (l3dss1_t313 up a c) inv"
  "foc as gl a p c \<Longrightarrow> p_soft p \<Longrightarrow> wpo (l3dss1_dl_reset up a c) inv"
  unfolding l3dss1_t302_def l3dss1_t304_def l3dss1_t310_def l3dss1_t313_def l3dss1_dl_reset_def wpo_bind wpo_Some
  by (erule del_timer_wp, erule give_up_wp, erule soft_del | erule give_up_wp, assumption)+

lemma t303_ok:
  assumes "foc as gl a p c" "p_soft p" "p_state p = 1"
  shows "wpo (l3dss1_t303 up a c) inv"
proof -
  have s: "0 \<in> set (su_phone (p_setup p))" "0 \<in> set (su_eazmsn (p_setup p))" "prefix_ok (su_phone (p_setup p))"
    using assms(2,3) by (simp_all add: p_soft_def p_strings_def)
  show ?thesis
    unfolding l3dss1_t303_def wpo_bind
  proof (rule get_wp [OF assms(1)], rule wp_if, goal_cases)
    case 1
    show ?case
      unfolding wpo_bind
      by (rule mod_wp [OF assms(1)], simp, erule del_timer_wp, erule setup_req_wp)
        (use assms(2) s in \<open>simp_all add: soft_del\<close>)
  next
    case 2
    show ?case
      unfolding wpo_bind
      by (rule del_timer_wp [OF assms(1)], erule message_cause_wp, erule release_soft_wp [OF focus_l3l4],
          erule kept_soft) (simp_all add: soft_del assms(2))
  qed
qed

lemma t305_ok:
  assumes "foc as gl a p c" "p_soft p"
  shows "wpo (l3dss1_t305 up a c) inv"
  unfolding l3dss1_t305_def wpo_bind
proof (rule del_timer_wp [OF assms(1)], erule get_wp', erule alloc_wp, goal_cases)
  case (1 c1 skb c2)
  show ?case
    unfolding wpo_bind
    by (rule new_state_wp [OF 1], erule send_wp, erule add_timer_wp, erule inv_of, erule kept_timer_ok)
      (simp_all add: soft_state soft_del assms(2))
next
  case (2 c1 c2)
  then show ?case using inv_of [OF 2(2)] nomem_ok [OF 2(1) soft_del(1) [OF assms(2)]] by simp
qed

lemma t308_1_ok: "foc as gl a p c \<Longrightarrow> p_soft p \<Longrightarrow> wpo (l3dss1_t308_1 up a c) inv"
  unfolding l3dss1_t308_1_def wpo_bind
  by (erule new_state_wp, erule del_timer_wp, erule message_wp, erule add_timer_wp, erule inv_of,
      erule kept_timer_ok) (simp_all add: soft_state soft_del)

lemma t308_2_ok: "foc as gl a p c \<Longrightarrow> p_soft p \<Longrightarrow> wpo (l3dss1_t308_2 up a c) inv"
  unfolding l3dss1_t308_2_def wpo_bind
  by (erule del_timer_wp, erule release_soft_wp [OF focus_l3l4]) (simp_all add: soft_del)

lemma t318_ok: "foc as gl a p c \<Longrightarrow> p_soft p \<Longrightarrow> wpo (l3dss1_t318 up a c) inv"
  unfolding l3dss1_t318_def wpo_bind
  by (erule del_timer_wp, erule timed_out_wp, erule new_state_wp [OF focus_l3l4], erule message_wp,
      erule add_timer_wp, erule inv_of, erule kept_timer_ok) (simp_all add: soft_state soft_del)

lemma t319_ok: "foc as gl a p c \<Longrightarrow> p_soft p \<Longrightarrow> wpo (l3dss1_t319 up a c) inv"
  unfolding l3dss1_t319_def wpo_bind
  by (erule del_timer_wp, erule timed_out_wp, erule new_state_wp [OF focus_l3l4], erule inv_of)
    (simp add: untimed_ok soft_state soft_del)

lemma io_timer_ok: "foc as gl a p c \<Longrightarrow> p_soft p \<Longrightarrow> wpo (l3dss1_io_timer up a c) inv"
  unfolding l3dss1_io_timer_def wpo_bind
  by (erule del_timer_wp, erule get_wp', erule mod_wp [OF focus_free_id], simp,
      erule release_soft_wp [OF focus_statcallb]) (simp_all add: soft_del)

lemma dl_release_ok: "foc as gl a p c \<Longrightarrow> p_soft p \<Longrightarrow> wpo (l3dss1_dl_release up a c) inv"
  unfolding l3dss1_dl_release_def wpo_bind
  by (erule new_state_wp, erule timed_out_wp, erule remove_wp [OF focus_l3l4])
    (simp_all add: soft_state soft_shape)

subsection \<open>Requests by table\<close>

lemma find_entry_SomeD:
  "find_entry tbl pr st = Some r \<Longrightarrow>
     \<exists>e \<in> set tbl. se_primitive e = pr \<and> st \<in> set (se_state e) \<and> se_rout e = r"
  by (auto simp: find_entry_def dest!: find_SomeD)

lemma find_entry_NoneD:
  "find_entry tbl pr st = None \<Longrightarrow> e \<in> set tbl \<Longrightarrow> se_primitive e = pr \<Longrightarrow> st \<notin> set (se_state e)"
  by (auto simp: find_entry_def find_None_iff)

lemma down_rows_ok:
  assumes "foc as gl a p c" "p_ok m p" "down_ok pr p" "find_entry (downstatelist up) pr (p_state p) = Some r"
    "pr \<noteq> (CC_T303, REQUEST)"
  shows "wpo (r a c) inv"
proof -
  note s = assms(1) ok_soft [OF assms(2)]
  obtain e where e: "e \<in> set (downstatelist up)" "se_primitive e = pr" "p_state p \<in> set (se_state e)"
    "se_rout e = r" using find_entry_SomeD [OF assms(4)] by blast
  have dummy: "wpo (l3dss1_dummy a c) inv" using inv_of [OF assms(1,2)] by (simp add: l3dss1_dummy_def)
  have disc: "wpo (l3dss1_disconnect_req up a c) inv"
    by (rule disconnect_req_wp [OF s]) (rule inv_of)
  have rel: "wpo (l3dss1_release_req up a c) inv"
    by (rule release_req_wp [OF s]) (rule inv_of)
  have reset: "wpo (l3dss1_reset up a c) inv"
    unfolding l3dss1_reset_def by (rule release_soft_wp [OF s])
  have sreq: "wpo (l3dss1_setup_req up a c) inv" if "pr = (CC_SETUP, REQUEST)"
    by (rule setup_req_wp [OF s]) (use that assms(3) in \<open>simp_all add: down_ok_def\<close>)
  have hasch: "\<exists>ch. p_chan p = Some ch" if "pr = (CC_SUSPEND, REQUEST) \<or> pr = (CC_REDIR, REQUEST)"
    using that assms(3) by (auto simp: down_ok_def)
  have resume: "wpo (l3dss1_resume_req up a c) inv" if "pr = (CC_RESUME, REQUEST)"
    by (rule resume_req_ok [OF assms(1,2)]) (use that assms(3) in \<open>simp add: down_ok_def\<close>)
  have redir: "wpo (l3dss1_redir_req up a c) inv" "wpo (l3dss1_redir_req_early up a c) inv"
    if "pr = (CC_REDIR, REQUEST)"
    using hasch that redir_req_ok [OF assms(1,2)] redir_req_early_ok [OF s] by blast+
  have susp: "wpo (l3dss1_suspend_req up a c) inv" if "pr = (CC_SUSPEND, REQUEST)"
    using hasch that suspend_req_ok [OF assms(1,2)] by blast
  have ack: "wpo (l3dss1_setup_ack_req up a c) inv" if "p_state p \<in> set [6]"
    using setup_ack_req_ok [OF s] that by simp
  note plain = dummy disc rel reset setup_rsp_ok [OF assms(1,2)] reject_req_ok [OF assms(1,2)]
    alert_req_ok [OF s] proceed_req_ok [OF s] restart_ok [OF s] give_up_ok [OF s] t305_ok [OF s]
    t308_1_ok [OF s] t308_2_ok [OF s] t318_ok [OF s] t319_ok [OF s] dl_release_ok [OF s]
  have "list_all (\<lambda>e. se_primitive e = pr \<longrightarrow> p_state p \<in> set (se_state e) \<longrightarrow> wpo (se_rout e a c) inv)
      (downstatelist up)"
    unfolding downstatelist_def list.pred_inject stateentry.sel
    using assms(5) sreq resume redir susp ack by (intro conjI impI TrueI) (simp_all only: plain, simp_all)
  then show ?thesis using e by (auto simp: list_all_iff)
qed

text \<open>The timer a state waits with has a row for that state.\<close>

lemma wait_rows:
  assumes "foc as gl a p c" "p_soft p" "n \<in> set (wait_timers (p_state p))"
  shows "\<exists>r. find_entry (downstatelist up) (n, REQUEST) (p_state p) = Some r \<and> wpo (r a c) inv"
proof -
  note s = assms(1,2)
  have "p_state p = 1 \<and> n = CC_T303 \<or> p_state p = 2 \<and> n = CC_T304 \<or> p_state p = 3 \<and> n = CC_T310 \<or>
      p_state p = 8 \<and> n = CC_T313 \<or> p_state p = 11 \<and> n = CC_T305 \<or> p_state p = 17 \<and> n = CC_T318 \<or>
      p_state p = 19 \<and> n = CC_T308_1 \<or> p_state p = 19 \<and> n = CC_T308_2 \<or> p_state p = 25 \<and> n = CC_T302"
    using assms(3) by (auto simp: wait_timers_def split: if_splits)
  then show ?thesis
    by (elim disjE conjE)
      (simp_all add: downstatelist_def find_entry_def give_up_ok [OF s] t303_ok [OF s] t305_ok [OF s]
        t308_1_ok [OF s] t308_2_ok [OF s] t318_ok [OF s])
qed

lemma t303_row: "find_entry (downstatelist up) (CC_T303, REQUEST) st = Some r \<Longrightarrow> st = 1"
  by (auto simp: downstatelist_def dest!: find_entry_SomeD)

lemma down_proc_ok:
  assumes "foc as gl a p c" "p_soft p" "down_ok pr p"
    "m \<Longrightarrow> p_timed p \<or> snd pr = REQUEST \<and> fst pr \<in> set (wait_timers (p_state p))"
  shows "wpo (dss1down_proc up pr a c) inv"
  unfolding dss1down_proc_def wpo_bind
proof (rule get_wp [OF assms(1)], rule wp_if, goal_cases)
  case 1
  show ?case by (rule io_timer_ok [OF assms(1,2)])
next
  case 2
  show ?case
  proof (cases "snd pr = REQUEST \<and> fst pr \<in> set (wait_timers (p_state p))")
    case True
    then obtain n where n: "pr = (n, REQUEST)" "n \<in> set (wait_timers (p_state p))" by (cases pr) auto
    obtain r where "find_entry (downstatelist up) pr (p_state p) = Some r" "wpo (r a c) inv"
      using wait_rows [OF assms(1,2) n(2)] n(1) by blast
    then show ?thesis by simp
  next
    case False
    have ok: "p_ok m p" using False assms(2,4) by (auto simp: p_ok_def)
    show ?thesis
    proof (rule wp_option, simp add: inv_of [OF assms(1) ok])
      fix r
      assume r: "find_entry (downstatelist up) pr (p_state p) = Some r"
      then have "pr \<noteq> (CC_T303, REQUEST)" using False t303_row by fastforce
      then show "wpo (r a c) inv" by (rule down_rows_ok [OF assms(1) ok assms(3) r])
    qed
  qed
qed

subsection \<open>New processes\<close>

lemma new_process_wp:
  assumes "inv c" "\<And>c'. inv c' \<Longrightarrow> d_chan c' = d_chan c \<Longrightarrow> Q (None, c')"
    "\<And>a p c'. foc (l3_addrs c @ [a]) (l3_global c) a p c' \<Longrightarrow> p_soft p \<Longrightarrow> p_state p = 0 \<Longrightarrow>
       \<not> lt_pending (p_timer p) \<Longrightarrow> p_chan p = None \<Longrightarrow> d_chan c' = d_chan c \<Longrightarrow> Q (Some a, c')"
  shows "Q (dss1_new_l3_process cr c)"
proof -
  obtain ok k where k: "k_alloc (l3_kenv c) = (ok, k)" by (cases "k_alloc (l3_kenv c)")
  have mem: "m \<longrightarrow> mem_ok k"
    using assms(1) mem_ok_alloc [of "l3_kenv c"] k by (auto simp: dss1_inv_def dss1_good_def)
  have low: "low c" and l3: "l3_ok c" and procs: "list_all (p_ok m) (l3_proc c)"
    and shape: "\<And>a. f_shape (l3_fresh c a)" and inv: "invoke_ok (d_invoke_used c)"
    and ch: "\<And>ch. chan_ok (d_chan c ch)" and gl: "\<And>g. l3_global c = Some g \<Longrightarrow> f_shape g"
    and some: "l3_global c \<noteq> None"
    using assms(1) by (auto simp: dss1_inv_def dss1_good_def)
  show ?thesis
  proof (cases ok)
    case False
    let ?c = "c\<lparr>l3_kenv := k\<rparr>"
    have "low ?c = low c" by (rule low_more) simp
    moreover have "l3_ok ?c = l3_ok c" by (rule l3_ok_cong) simp_all
    ultimately have "inv ?c"
      using low l3 procs shape inv ch gl mem some by (auto simp: dss1_inv_def dss1_good_def)
    then show ?thesis
      using assms(2) [of ?c] k False by (simp add: dss1_new_l3_process_def new_l3_process_def)
  next
    case True
    let ?a = "l3_next_addr c"
    let ?q = "L3InitTimer ((l3_fresh c ?a)\<lparr>p_addr := ?a, p_callref := cr, p_state := 0,
      p_chan := None, p_N303 := l3_N303 c\<rparr>)"
    let ?f = "\<lambda>p. p\<lparr>p_invoke_id := 0, p_remote_operation := 0, p_uus1_data := (p_uus1_data p)[0 := 0]\<rparr>"
    let ?n = "c\<lparr>l3_kenv := k, l3_next_addr := Suc ?a, l3_proc := l3_proc c @ [?q]\<rparr>"
    let ?c = "pc_upd ?a ?f ?n"
    have new: "dss1_new_l3_process cr c = (Some ?a, ?c)"
      using k True by (simp add: dss1_new_l3_process_def new_l3_process_def Let_def)
    have fresh: "?a \<notin> set (l3_addrs c)" "\<And>g. l3_global c = Some g \<Longrightarrow> p_addr g \<noteq> ?a"
      using l3 by (auto simp: l3_ok_def)
    have adr0: "p_addr ?q = ?a" by (simp add: L3InitTimer_def)
    have ok0: "l3_ok ?n"
    proof -
      have "distinct (l3_addrs c @ [?a])" using l3 fresh(1) by (simp add: l3_ok_def)
      moreover have "\<forall>p \<in> set (l3_proc c @ [?q]). p_addr p < Suc ?a"
        using l3 adr0 by (simp add: l3_ok_def less_Suc_eq)
      moreover have "\<forall>g. l3_global c = Some g \<longrightarrow> p_addr g \<notin> set (l3_addrs c @ [?a]) \<and> p_addr g < Suc ?a"
        using l3 fresh(2) by (simp add: l3_ok_def less_Suc_eq)
      moreover have "l3_addrs ?n = l3_addrs c @ [?a]" using adr0 by simp
      ultimately show ?thesis using l3 unfolding l3_ok_def by simp
    qed
    have ok: "l3_ok ?c" by (rule pc_upd_l3_ok [OF ok0]) simp
    have get0: "pc_get ?a ?n = Some ?q"
      using pc_get_mem [OF ok0, of ?q] adr0 by simp
    have get: "pc_get ?a ?c = Some (?f ?q)"
      using pc_get_upd [of ?f ?a ?n] get0 by simp
    have same: "map (at_addr ?a ?f) (l3_proc c) = l3_proc c"
      using fresh(1) by (intro map_idI) (force simp: at_addr_def)
    have procs': "l3_proc ?c = l3_proc c @ [?f ?q]"
      using same adr0 by (simp add: pc_upd_def at_addr_def)
    have gl': "l3_global ?c = l3_global c"
      using fresh(2) by (cases "l3_global c") (simp_all add: pc_upd_def at_addr_def)
    have "low ?c = low c" by (rule low_more) simp
    then have good: "good ?c" using low shape inv ch mem by (simp add: dss1_good_def)
    have adr: "p_addr (?f ?q) = ?a" using adr0 by simp
    have others: "\<forall>q \<in> set (l3_proc ?c). p_addr q \<noteq> ?a \<longrightarrow> p_ok m q"
      unfolding procs' using procs adr by (simp add: list_all_iff)
    have adrs: "l3_addrs ?c = l3_addrs c @ [?a]" by (simp only: procs' map_append list.map adr)
    have foc: "foc (l3_addrs c @ [?a]) (l3_global c) ?a (?f ?q) ?c"
      unfolding focus_def adrs gl' using good ok get others gl some by blast
    have sh: "f_shape (l3_fresh c ?a)" by (rule shape)
    then have "0 \<in> set ((p_uus1_data (l3_fresh c ?a))[0 := 0])"
      by (intro set_update_memI) (simp add: f_shape_def)
    then have "p_soft (?f ?q)"
      using sh by (simp add: p_soft_def f_shape_def p_strings_def p_event_def L3InitTimer_def)
    then show ?thesis
      unfolding new by (rule assms(3) [OF foc]) (simp_all add: L3InitTimer_def)
  qed
qed

lemma attach_focus:
  assumes "foc as gl a p c"
  shows "foc as gl a (p\<lparr>p_chan := Some ch, p_setup := ch_setup (d_chan c ch), p_callref := cr\<rparr>)
    (attach_channel ch a cr c)"
proof -
  let ?d = "c\<lparr>d_chan := (d_chan c)(ch := (d_chan c ch)\<lparr>ch_proc := Some a\<rparr>)\<rparr>"
  let ?f = "\<lambda>p. p\<lparr>p_chan := Some ch, p_setup := ch_setup (d_chan c ch), p_callref := cr\<rparr>"
  have "low ?d = low c" by (rule low_more) simp
  then have "good ?d" using assms by (simp add: focus_def dss1_good_def chan_ok_def)
  moreover have "l3_ok ?d = l3_ok c" by (rule l3_ok_cong) simp_all
  ultimately have d: "foc as gl a p ?d" using focus_same [OF assms, of ?d] by simp
  have "wpo (pc_mod a ?f ?d) (foc as gl a (?f p))" by (rule mod_wp [OF d]) simp_all
  moreover have "pc_mod a ?f ?d = Some (attach_channel ch a cr c)"
    using d by (simp add: pc_mod_def focus_def attach_channel_def)
  ultimately show ?thesis by simp
qed

lemma newcallref_inv:
  assumes "inv c"
  shows "inv (snd (newcallref_st c))" "d_chan (snd (newcallref_st c)) = d_chan c"
proof -
  let ?c = "c\<lparr>d_OrigCallRef := newcallref (d_OrigCallRef c)\<rparr>"
  have "good ?c = good c" by (rule good_cong) simp_all
  moreover have "l3_ok ?c = l3_ok c" by (rule l3_ok_cong) simp_all
  ultimately show "inv (snd (newcallref_st c))"
    using assms by (simp add: newcallref_st_def Let_def dss1_inv_def)
qed (simp add: newcallref_st_def Let_def)

lemma dss1down_ok:
  assumes "inv c" "request_ok pr arg c"
  shows "wpo (dss1down up pr arg c) inv"
proof (cases "pr \<in> {(CC_SETUP, REQUEST), (CC_RESUME, REQUEST)}")
  case True
  then obtain ch where arg: "arg = ArgChan ch"
    and pre: "pr = (CC_SETUP, REQUEST) \<Longrightarrow> prefix_ok (su_phone (ch_setup (d_chan c ch)))"
    using assms(2) by (auto simp: request_ok_def split: down_arg.splits)
  obtain r c1 where c1: "newcallref_st c = (r, c1)" "inv c1" "d_chan c1 = d_chan c"
    using newcallref_inv [OF assms(1)] by (cases "newcallref_st c") auto
  let ?cr = "word_of_int r OR 0x80 :: u8"
  have "wpo (case dss1_new_l3_process (uint ?cr) c1 of (None, c) \<Rightarrow> Some c
      | (Some a, c) \<Rightarrow> dss1down_proc up pr a (attach_channel ch a (uint ?cr) c)) inv"
  proof (rule new_process_wp [OF c1(2), where Q = "\<lambda>r. wpo (case r of (None, c) \<Rightarrow> Some c
      | (Some a, c) \<Rightarrow> dss1down_proc up pr a (attach_channel ch a (uint ?cr) c)) inv"], simp, goal_cases)
    case (1 a p c2)
    let ?p = "p\<lparr>p_chan := Some ch, p_setup := ch_setup (d_chan c2 ch), p_callref := uint ?cr\<rparr>"
    have ch: "chan_ok (d_chan c2 ch)" using 1(1) by (simp add: focus_def dss1_good_def)
    have "p_soft ?p" using 1(2,3) ch by (simp add: p_soft_def f_shape_def p_strings_def p_event_def chan_ok_def)
    moreover have "down_ok pr ?p" using 1(4,6) ch pre c1(3) by (auto simp: down_ok_def chan_ok_def)
    moreover have "p_timed ?p" using 1(3) by (simp add: p_timed_def)
    ultimately show ?case using down_proc_ok [OF attach_focus [OF 1(1)]] by simp
  qed
  then show ?thesis using True arg c1(1) by (simp add: dss1down_def Let_def)
next
  case False
  then consider "arg = ArgNone" | p where "arg = ArgProc (p_addr p)" "p \<in> set (l3_proc c)" "down_ok pr p"
    using assms(2) by (auto simp: request_ok_def split: down_arg.splits)
  then show ?thesis
  proof cases
    case 1
    then show ?thesis using False assms(1) by (simp add: dss1down_def)
  next
    case 2
    have "wpo (dss1down_proc up pr (p_addr p) c) inv"
      using down_proc_ok [OF focus_start(1) [OF assms(1) 2(2)] _ 2(3)] focus_start(2) [OF assms(1) 2(2)]
      by (simp add: p_ok_def)
    then show ?thesis using False 2(1) by (simp add: dss1down_def)
  qed
qed

text \<open>A timer of a call.\<close>

lemma expire_ok:
  assumes "inv c" "p \<in> set (l3_proc c)"
  shows "wpo (L3ExpireTimer up (p_addr p) c) inv"
proof -
  note start = focus_start [OF assms]
  have get: "pc_get (p_addr p) c = Some p" using start(1) by (simp add: focus_def)
  show ?thesis
  proof (cases "lt_pending (p_timer p)")
    case True
    then obtain n where n: "lt_event (p_timer p) = (n, REQUEST)" "n \<in> set timer_names"
      using start(2) by (cases "lt_event (p_timer p)") (auto simp: p_ok_def p_soft_def p_event_def)
    have "wpo (pc_mod (p_addr p) L3DelTimer c) (\<lambda>c1. wpo (dss1down_proc up (n, REQUEST) (p_addr p) c1) inv)"
    proof (rule del_timer_wp [OF start(1)], rule down_proc_ok, assumption)
      show "p_soft (L3DelTimer p)" using start(2) by (simp add: p_ok_def soft_del)
      show "down_ok (n, REQUEST) (L3DelTimer p)" using n(2) by (auto simp: down_ok_def timer_names_def)
      show "m \<Longrightarrow> p_timed (L3DelTimer p) \<or> snd (n, REQUEST) = REQUEST \<and>
          fst (n, REQUEST) \<in> set (wait_timers (p_state (L3DelTimer p)))"
        using start(2) n(1) by (auto simp: p_ok_def p_timed_def)
    qed
    moreover have "n \<noteq> CC_SETUP" "n \<noteq> CC_RESUME" using n(2) by (auto simp: timer_names_def)
    ultimately show ?thesis
      using True n(1) get by (simp add: L3ExpireTimer_def dss1down_def pc_mod_def)
  next
    case False
    then show ?thesis using assms(1) get by (simp add: L3ExpireTimer_def)
  qed
qed

end

end
