(* ===== verification/Hisax_Dss1_Rcv.thy ===== *)
theory Hisax_Dss1_Rcv
  imports Hisax_Dss1_Run
begin

text \<open>
  The received messages of a DSS1 stack, run on a sound stack: the handlers, the tables, the global
  process, frames, and the remote operations outside a call. What a message must not do is named:
  numbers that do not fit (\<open>numbers_fit\<close>, \<open>digits_fit\<close>) and a RESTART of a live call
  (\<open>restart_hits\<close>), which \<open>global_restart_faults\<close> shows to read a freed process.
\<close>

subsection \<open>What a handler expects of a message\<close>

declare kept_soft [simp]

lemma kept_cause_ie: "length x = length (p_diag p) \<Longrightarrow> kept p (p\<lparr>p_cause := k, p_loc := l, p_diag := x\<rparr>)"
  by (simp add: kept_def)

lemma kept_result: "kept p (p\<lparr>p_remote_result := r, p_invoke_id := i, p_redir_result := r'\<rparr>)"
  by (simp add: kept_def)

lemma kept_invoke: "kept p (p\<lparr>p_invoke_id := i\<rparr>)"
  by (simp add: kept_def)

text \<open>A parser of facility elements: refused, or its result and what is left of the memory.\<close>

lemma fac_number_step:
  "p + unat nlen \<le> length d \<Longrightarrow> wpo n Q \<Longrightarrow>
     (\<And>v p' n'. p' + unat n' \<le> length d \<Longrightarrow> wpo (f v p' n') Q) \<Longrightarrow>
     wpo (fac_number d p nlen len_ok \<bind> case_option n (\<lambda>(v, p', n'). f v p' n')) Q"
  by (simp, erule fac_number_wp) simp_all

lemma fac_header_step:
  "i + 2 + unat (d ! (i + 1)) \<le> length d \<Longrightarrow> wpo n Q \<Longrightarrow>
     (\<And>v n' p'. p' + unat n' \<le> length d \<Longrightarrow> wpo (f v n' p') Q) \<Longrightarrow>
     wpo (fac_header d i \<bind> case_option n (\<lambda>(v, n', p'). f v n' p')) Q"
  by (simp, rule fac_header_wp) simp_all

subsection \<open>Numbers in a message\<close>

text \<open>
  The numbers of a SETUP are copied into arrays of 32 octets without a look at their length; what
  the environment must see to is that they fit. It only depends on the message.
\<close>

definition blank_setup :: setup_parm where
  "blank_setup = \<lparr>su_phone = replicate 32 0, su_eazmsn = replicate 32 0, su_si1 = 0, su_si2 = 0,
     su_plan = 0, su_screen = 0\<rparr>"

definition numbers_fit :: "u8 list \<Rightarrow> nat \<Rightarrow> bool" where
  "numbers_fit d sz \<longleftrightarrow>
     (case setup_called d sz blank_setup of None \<Rightarrow> False | Some su \<Rightarrow> setup_calling d sz su \<noteq> None)"

text \<open>Two arrays that hold the same string, and two computations of which the second follows the first.\<close>

definition same_str :: "u8 list \<Rightarrow> u8 list \<Rightarrow> bool" where
  "same_str x y \<longleftrightarrow> length x = length y \<and> 0 \<in> set x \<and> 0 \<in> set y \<and> cstr x = cstr y"

definition follows :: "('a \<Rightarrow> 'b \<Rightarrow> bool) \<Rightarrow> 'a option \<Rightarrow> 'b option \<Rightarrow> bool" where
  "follows R x y \<longleftrightarrow> (\<forall>x'. x = Some x' \<longrightarrow> (\<exists>y'. y = Some y' \<and> R x' y'))"

lemma follows_bind:
  "follows S x y \<Longrightarrow> (\<And>v w. S v w \<Longrightarrow> follows R (f v) (g w)) \<Longrightarrow> follows R (x \<bind> f) (y \<bind> g)"
  by (fastforce simp: follows_def bind_eq_Some_conv)

lemma follows_same: "(\<And>v. follows R (f v) (g v)) \<Longrightarrow> follows R (x \<bind> f) (x \<bind> g)"
  by (auto simp: follows_def bind_eq_Some_conv)

lemma follows_if: "(b \<Longrightarrow> follows R x y) \<Longrightarrow> (\<not> b \<Longrightarrow> follows R x' y') \<Longrightarrow>
    follows R (if b then x else x') (if b then y else y')"
  by simp

lemma follows_option: "follows R n n' \<Longrightarrow> (\<And>v. follows R (f v) (g v)) \<Longrightarrow>
    follows R (case x of None \<Rightarrow> n | Some v \<Rightarrow> f v) (case x of None \<Rightarrow> n' | Some v \<Rightarrow> g v)"
  by (cases x) simp_all

lemma follows_None: "follows R None y"
  by (simp add: follows_def)

lemma follows_Some: "R x y \<Longrightarrow> follows R (Some x) (Some y)"
  by (simp add: follows_def)

lemmas follows_rules = follows_same follows_if follows_option follows_None follows_Some

lemma put_str_follows:
  assumes "length y = length x" "take k y = take k x"
  shows "follows same_str (put_str x k s) (put_str y k s)"
proof -
  let ?z = "\<lambda>z. take k x @ s @ [0] @ drop (k + length s + 1) z"
  have "takeWhile (\<lambda>b. b \<noteq> 0) (?z z) = takeWhile (\<lambda>b. b \<noteq> 0) (take k x @ s @ [0])" for z :: "u8 list"
    using takeWhile_append1 [of 0 "take k x @ s @ [0]" "\<lambda>b. b \<noteq> 0"] by simp
  then have "same_str (?z x) (?z y)" if "k + length s < length x"
    unfolding same_str_def cstr_def using that assms(1) by simp
  then show ?thesis using assms by (auto simp: put_str_def follows_def)
qed

lemma strcat_follows:
  assumes "same_str x y"
  shows "follows same_str (strcat x s) (strcat y s)"
proof -
  let ?w = "takeWhile (\<lambda>b. b \<noteq> 0)"
  have t: "0 \<in> set x" "0 \<in> set y" "length y = length x" using assms by (simp_all add: same_str_def)
  have w: "?w y = ?w x" using assms by (auto simp: same_str_def cstr_def)
  have "take (length (?w z)) z = ?w z" for z :: "u8 list" by (metis takeWhile_eq_take)
  then have "take (length (?w x)) y = take (length (?w x)) x" using w by metis
  from put_str_follows [OF t(3) this] show ?thesis using t(1,2) w by (simp add: strcat_def cstr_def)
qed

lemma append_sub_follows: "same_str x y \<Longrightarrow> follows same_str (append_sub d i x) (append_sub d i y)"
  unfolding append_sub_def by (intro follows_rules strcat_follows)

definition same_numbers :: "setup_parm \<Rightarrow> setup_parm \<Rightarrow> bool" where
  "same_numbers su su' \<longleftrightarrow> length (su_phone su) = length (su_phone su') \<and>
     length (su_eazmsn su) = length (su_eazmsn su')"

lemma setup_called_follows:
  assumes "same_numbers su su'"
  shows "follows (\<lambda>r r'. same_str (su_eazmsn r) (su_eazmsn r') \<and>
      length (su_phone r) = length (su_phone su) \<and> length (su_phone r') = length (su_phone su'))
    (setup_called d sz su) (setup_called d sz su')"
proof -
  have put: "follows same_str (put_str (su_eazmsn su) 0 s) (put_str (su_eazmsn su') 0 s)" for s
    using assms by (intro put_str_follows) (simp_all add: same_numbers_def)
  show ?thesis
    unfolding setup_called_def
    apply (rule follows_same, rule follows_bind [where S = same_str])
     apply (intro follows_rules put)
    apply (rule follows_same, rule follows_bind [where S = same_str])
     apply (intro follows_rules append_sub_follows, assumption+)
    apply (rule follows_Some, simp)
    done
qed

lemma setup_calling_follows:
  assumes "length (su_phone su) = length (su_phone su')"
  shows "follows (\<lambda>r r'. same_str (su_phone r) (su_phone r') \<and> su_eazmsn r = su_eazmsn su \<and>
      su_eazmsn r' = su_eazmsn su') (setup_calling d sz su) (setup_calling d sz su')"
proof -
  have put: "follows same_str (put_str (su_phone su) 0 s) (put_str (su_phone su') 0 s)" for s
    using assms by (intro put_str_follows) simp_all
  let ?S = "\<lambda>r r'. same_str (su_phone r) (su_phone r') \<and> su_eazmsn r = su_eazmsn su \<and>
      su_eazmsn r' = su_eazmsn su'"
  show ?thesis
    unfolding setup_calling_def
    apply (rule follows_same, rule follows_bind [where S = ?S])
     apply (rule follows_option)
      apply (rule follows_bind [OF put], rule follows_Some, simp)
     apply (rule follows_same, rule follows_if)
      apply (rule follows_same, rule follows_bind [OF put], rule follows_Some, simp)
     apply (rule follows_same, rule follows_bind [OF put], rule follows_same, rule follows_Some, simp)
    apply (rule follows_same, rule follows_bind [where S = same_str])
     apply (intro follows_rules append_sub_follows, simp, simp)
    apply (rule follows_Some, simp)
    done
qed

lemma setup_called_length:
  "setup_called d sz su = Some r \<Longrightarrow> length (su_eazmsn r) = length (su_eazmsn su)"
  by (auto simp: setup_called_def append_sub_def strcat_def bind_eq_Some_conv dest!: put_str_length
      split: option.splits if_splits)

lemma setup_calling_length:
  "setup_calling d sz su = Some r \<Longrightarrow> length (su_phone r) = length (su_phone su)"
  by (auto simp: setup_calling_def append_sub_def strcat_def bind_eq_Some_conv dest!: put_str_length
      split: option.splits if_splits)

lemma numbers_fit_wp:
  assumes "numbers_fit d sz" "length (su_phone su) = 32" "length (su_eazmsn su) = 32"
    "\<And>r. length (su_phone r) = 32 \<Longrightarrow> length (su_eazmsn r) = 32 \<Longrightarrow> 0 \<in> set (su_phone r) \<Longrightarrow>
       0 \<in> set (su_eazmsn r) \<Longrightarrow> Q r"
  shows "wpo (setup_called d sz su) (\<lambda>su. wpo (setup_calling d sz su) Q)"
proof -
  have same: "same_numbers blank_setup su" using assms(2,3) by (simp add: same_numbers_def blank_setup_def)
  obtain b1 b2 where b: "setup_called d sz blank_setup = Some b1" "setup_calling d sz b1 = Some b2"
    using assms(1) by (auto simp: numbers_fit_def split: option.splits)
  obtain r1 where r1: "setup_called d sz su = Some r1" "same_str (su_eazmsn b1) (su_eazmsn r1)"
    "length (su_phone b1) = length (su_phone r1)"
    using setup_called_follows [OF same, of d sz] same b(1) by (auto simp: follows_def same_numbers_def)
  obtain r2 where r2: "setup_calling d sz r1 = Some r2" "same_str (su_phone b2) (su_phone r2)"
    "su_eazmsn r2 = su_eazmsn r1"
    using setup_calling_follows [OF r1(3), of d sz] b(2) by (auto simp: follows_def)
  have "length (su_phone b1) = 32"
    using setup_called_follows [OF same, of d sz] b(1) by (auto simp: follows_def blank_setup_def)
  then have "length (su_phone r2) = 32" using setup_calling_length [OF r2(1)] r1(3) by simp
  moreover have "length (su_eazmsn r2) = 32" using setup_called_length [OF r1(1)] assms(3) r2(3) by simp
  moreover have "0 \<in> set (su_phone r2)" "0 \<in> set (su_eazmsn r2)"
    using r1(2) r2(2,3) by (simp_all add: same_str_def)
  ultimately show ?thesis using r1(1) r2(1) assms(4) by simp
qed

lemma setup_bearer_wp:
  assumes "msg_ok d sz" "i + 2 + unat (d ! (i + 1)) \<le> sz"
    "\<And>e q. p_addr q = p_addr p \<Longrightarrow> p_state q = p_state p \<Longrightarrow> p_soft q = p_soft p \<Longrightarrow>
       su_phone (p_setup q) = su_phone (p_setup p) \<Longrightarrow>
       su_eazmsn (p_setup q) = su_eazmsn (p_setup p) \<Longrightarrow> Q (e, q)"
  shows "wpo (setup_bearer d sz i p) Q"
proof -
  have len: "i + 1 < length d" "i + 2 < length d" "i + 3 < length d"
    using assms(1,2) by (simp_all add: msg_ok_def)
  have Q: "Q (e, p)" "Q (e, p\<lparr>p_setup := su\<rparr>)" "Q (e, p\<lparr>p_setup := su, p_moderate := md'\<rparr>)"
    if "su_phone su = su_phone (p_setup p)" "su_eazmsn su = su_eazmsn (p_setup p)" for e su md'
    by (rule assms(3); use that in \<open>simp add: p_soft_def f_shape_def p_strings_def p_event_def\<close>)+
  have si2: "wpo (if b then DecodeSI2 d sz else Some 0) R" if "\<And>x. R x" for b R
    using DecodeSI2_wp [OF assms(1)] that by simp
  show ?thesis
    unfolding setup_bearer_def wpo_bind
    apply (rule rd_wp [OF len(1)], rule wp_if)
     apply (rule wp_Some, rule assms(3); simp)
    apply (unfold Let_def wpo_bind)
    apply (rule rd_wp [OF len(2)], rule si2)
    apply (split prod.split, intro allI impI)
    apply (unfold wpo_bind)
    apply (rule rd_wp [OF len(3)], rule wp_Some)
    apply (auto intro!: Q split: if_splits)
    done
qed

text \<open>More digits of a called number must fit behind those that are there.\<close>

definition digits_fit :: "u8 list \<Rightarrow> nat \<Rightarrow> l3_process \<Rightarrow> bool" where
  "digits_fit d sz p \<longleftrightarrow>
     (case find_ie d sz IE_CALLED_PN of
        Some (Some i) \<Rightarrow>
          (case iecpy d i 1 of None \<Rightarrow> False
           | Some s \<Rightarrow> length s < 32 \<and> strcat (su_eazmsn (p_setup p)) s \<noteq> None)
      | _ \<Rightarrow> True)"

lemma strcat_end: "strcat arr s = Some arr' \<Longrightarrow> length arr' = length arr \<and> 0 \<in> set arr'"
  by (auto simp: strcat_def put_str_def bind_eq_Some_conv split: if_splits)

definition msg_fits :: "u8 \<Rightarrow> u8 list \<Rightarrow> nat \<Rightarrow> l3_process \<Rightarrow> bool" where
  "msg_fits mt d sz p \<longleftrightarrow>
     (mt = MT_SETUP \<and> p_state p = 0 \<longrightarrow> numbers_fit d sz) \<and>
     (mt = MT_INFORMATION \<and> p_state p = 25 \<longrightarrow> digits_fit d sz p)"

text \<open>Whether a RESTART concerns a call of the stack.\<close>

definition restart_class :: "u8 list \<Rightarrow> nat \<Rightarrow> (u8 \<times> u8) option" where
  "restart_class d sz = do {
     r \<leftarrow> find_ie d sz IE_RESTART_IND;
     ri \<leftarrow> (case r of Some i \<Rightarrow> rd d (i + 2) | None \<Rightarrow> Some 0x86);
     r \<leftarrow> find_ie d sz IE_CHANNEL_ID;
     ch \<leftarrow> (case r of Some i \<Rightarrow> rd d (i + 2) | None \<Rightarrow> Some 0);
     Some (ri, ch)
   }"

definition restart_hit :: "u8 \<Rightarrow> u8 \<Rightarrow> l3_process \<Rightarrow> bool" where
  "restart_hit ri ch q \<longleftrightarrow> ri AND 7 = 7 \<or> p_bchannel q = uint ch"

definition restart_hits :: "u8 list \<Rightarrow> nat \<Rightarrow> 'z Layer3_scheme \<Rightarrow> bool" where
  "restart_hits d sz c \<longleftrightarrow>
     (case restart_class d sz of None \<Rightarrow> False
      | Some (ri, ch) \<Rightarrow> list_ex (restart_hit ri (ch AND 3)) (l3_proc c))"

lemma restart_class_Some: "msg_ok d sz \<Longrightarrow> \<exists>x. restart_class d sz = Some x"
proof -
  assume ok: "msg_ok d sz"
  have "wpo (restart_class d sz) (\<lambda>_. True)"
    unfolding restart_class_def wpo_bind
    by (rule find_ie_wp [OF ok]; (unfold option.case)?; (rule wp_Some | rule rd_wp, simp add: msg_len [OF ok])?;
        rule find_ie_wp [OF ok]; simp add: msg_len [OF ok])
  then show ?thesis by (auto simp: wpo_iff)
qed

lemma restart_misses:
  assumes "l3_ok c" "\<forall>q \<in> set (l3_proc c). \<not> restart_hit ri ch q" "l3_addrs c = pre @ rest"
  shows "restart_loop up ri ch (head rest) c = Some c"
  using assms(3)
proof (induction rest arbitrary: pre)
  case Nil
  then show ?case by (subst restart_loop.simps) (simp add: head_def)
next
  case (Cons a rest)
  then have "a \<in> set (l3_addrs c)" by simp
  then obtain q where q: "q \<in> set (l3_proc c)" "p_addr q = a" by auto
  have "pc_get a c = Some q" using pc_get_mem [OF assms(1) q(1)] q(2) by simp
  moreover have "next_proc a (l3_proc c) = Some (head rest)"
    using next_proc_at [OF _ Cons.prems] assms(1) by (simp add: head_def l3_ok_def)
  moreover have "restart_loop up ri ch (head rest) c = Some c"
    using Cons.IH [of "pre @ [a]"] Cons.prems by simp
  ultimately show ?case
    using assms(2) q(1) by (subst restart_loop.simps) (simp add: head_def restart_hit_def)
qed

lemma head_procs: "(case l3_proc c of [] \<Rightarrow> None | p # ps \<Rightarrow> Some (p_addr p)) = head (l3_addrs c)"
  by (simp add: head_def split: list.split)

lemma global_restart_eq:
  "l3dss1_global_restart up a d sz c = do {
     c \<leftarrow> new_state a 2 c;
     c \<leftarrow> del_timer a c;
     (ri, ch) \<leftarrow> restart_class d sz;
     c \<leftarrow> new_state a 2 c;
     c \<leftarrow> restart_loop up ri (ch AND 3)
            (case l3_proc c of [] \<Rightarrow> None | p # ps \<Rightarrow> Some (p_addr p)) c;
     p \<leftarrow> pc_get a c;
     alloc_then (MsgHead (p_callref p) MT_RESTART_ACKNOWLEDGE @
               (if ch AND 3 \<noteq> 0 then [IE_CHANNEL_ID, 1, ch OR 0x80] else []) @ [0x79, 1, ri])
       (\<lambda>skb c. do { c \<leftarrow> new_state a 0 c; l3_send up skb c }) c
   }"
  by (simp add: l3dss1_global_restart_def restart_class_def)

text \<open>What the environment must see to in a received frame.\<close>

definition frame_ok :: "u8 list \<Rightarrow> nat \<Rightarrow> 'z Layer3_scheme \<Rightarrow> bool" where
  "frame_ok d sz c \<longleftrightarrow> sz + 3 \<le> length d \<and> 258 \<le> length d \<and>
     (let mt = d ! (unat (d ! 1) + 2) in
      (mt = MT_SETUP \<longrightarrow> numbers_fit d sz) \<and>
      (mt = MT_INFORMATION \<longrightarrow> list_all (\<lambda>p. p_state p = 25 \<longrightarrow> digits_fit d sz p) (l3_proc c)) \<and>
      (mt = MT_RESTART \<longrightarrow> \<not> restart_hits d sz c))"

definition cmd_fits :: "dss1_cmd \<Rightarrow> bool" where
  "cmd_fits cmd \<longleftrightarrow>
     (case cmd of
        DSS1_CMD_INVOKE io \<Rightarrow> 0 < io_timeout io \<and> 0 \<le> io_proc io \<and> io_proc io < 256 \<and>
          io_datalen io \<le> int (length (io_data io))
      | _ \<Rightarrow> True)"

context dss1_calls
begin

lemma mod_const_wp:
  assumes "foc as gl a p c" "p_addr q = p_addr p" "\<And>c'. foc as gl a q c' \<Longrightarrow> Q c'"
  shows "wpo (pc_mod a (\<lambda>_. q) c) Q"
proof -
  have a: "p_addr p = a" using assms(1) pc_get_addr by (auto simp: focus_def)
  let ?f = "\<lambda>r. if p_addr r = a then q else r"
  have "at_addr a (\<lambda>_. q) = at_addr a ?f" by (auto simp: at_addr_def fun_eq_iff)
  then have "pc_mod a (\<lambda>_. q) c = pc_mod a ?f c" by (simp add: pc_mod_def pc_upd_def)
  moreover have "wpo (pc_mod a ?f c) Q"
    by (rule mod_wp [OF assms(1)]) (use assms(2,3) a in auto)
  ultimately show ?thesis by simp
qed

lemma if_cause_wp:
  assumes "foc as gl a p c" "\<And>c' p'. foc as gl a p' c' \<Longrightarrow> kept p p' \<Longrightarrow> Q c'"
  shows "wpo (if b then set_cause a x c else Some c) Q"
  by (rule wp_if, rule set_cause_wp [OF assms(1)], erule assms(2), simp)
    (rule wp_Some, rule assms(2) [OF assms(1)], simp)

lemma if_err_wp:
  assumes "foc as gl a p c" "\<And>c' p'. foc as gl a p' c' \<Longrightarrow> kept p p' \<Longrightarrow> Q c'"
  shows "wpo (if b then l3dss1_std_ie_err up a ret c else Some c) Q"
  by (rule wp_if, rule std_ie_err_wp [OF assms], assumption+)
    (rule wp_Some, rule assms(2) [OF assms(1)], simp)

lemma pc_get_cause_wp:
  assumes "foc as gl a p c" "f_shape p" "msg_ok d sz"
    "\<And>ret c' p'. foc as gl a p' c' \<Longrightarrow> kept p p' \<Longrightarrow> Q (ret, c')"
  shows "wpo (pc_get_cause a d sz c) Q"
proof -
  have len: "length (p_diag p) = 6" using assms(2) by (simp add: f_shape_def)
  show ?thesis
    unfolding pc_get_cause_def wpo_bind
    apply (rule get_wp [OF assms(1)], rule get_cause_wp [OF assms(3) len])
    apply (rule mod_wp [OF assms(1)])
     apply simp
    apply (rule wp_Some, erule assms(4))
    apply (rule kept_cause_ie, simp add: len)
    done
qed

subsection \<open>Facilities\<close>

lemma fac_result_wp:
  assumes "foc as gl a p c" "\<And>c' p'. foc as gl a p' c' \<Longrightarrow> kept p p' \<Longrightarrow> Q c'"
  shows "wpo (fac_result a ii r c) Q"
  unfolding fac_result_def wpo_bind
  apply (rule get_wp [OF assms(1)], rule wp_if)
  unfolding wpo_bind
   apply (rule mod_wp [OF focus_free_id [OF assms(1)]], simp)
   apply (rule wp_Some, rule assms(2), erule focus_l3l4, rule kept_result)
  apply (rule wp_Some, rule assms(2) [OF assms(1)], simp)
  done

lemma parse_facility_wp:
  assumes "foc as gl a p c" "i + 2 + unat (d ! (i + 1)) \<le> length d"
    "\<And>c' p'. foc as gl a p' c' \<Longrightarrow> kept p p' \<Longrightarrow> Q c'"
  shows "wpo (l3dss1_parse_facility up (Some a) cr d i c) Q"
proof -
  have keep: "wpo (Some c) Q" by (rule wp_Some, rule assms(3) [OF assms(1)]) simp
  show ?thesis
    unfolding l3dss1_parse_facility_def option.case
    by (intro wp_if keep fac_header_step [OF assms(2)] fac_number_step fac_result_wp [OF assms(1,3)])
qed

lemma facility_wp:
  assumes "foc as gl a p c" "msg_ok d sz" "\<And>c' p'. foc as gl a p' c' \<Longrightarrow> kept p p' \<Longrightarrow> Q c'"
  shows "wpo (pc_facility up a d sz c) Q"
  unfolding pc_facility_def wpo_bind
proof (rule find_ie_wp [OF assms(2)])
  show "wpo (case None of None \<Rightarrow> Some c | Some i \<Rightarrow>
      do { p \<leftarrow> pc_get a c; l3dss1_parse_facility up (Some a) (p_callref p) d i c }) Q"
    using assms(3) [OF assms(1)] by simp
next
  fix i
  assume i: "i + 2 + unat (d ! (i + 1)) \<le> sz"
  have "i + 2 + unat (d ! (i + 1)) \<le> length d" using i assms(2) by (simp add: msg_ok_def)
  then show "wpo (case Some i of None \<Rightarrow> Some c | Some i \<Rightarrow>
      do { p \<leftarrow> pc_get a c; l3dss1_parse_facility up (Some a) (p_callref p) d i c }) Q"
    unfolding option.case wpo_bind by (intro get_wp [OF assms(1)] parse_facility_wp [OF assms(1) _ assms(3)])
qed

lemma search_dummy: "l3dss1_search_dummy_proc ii c = Some a \<Longrightarrow> \<exists>p \<in> set (l3_proc c). p_addr p = a"
  by (auto simp: l3dss1_search_dummy_proc_def dest!: find_SomeD split: if_splits)

lemma dummy_done_ok:
  assumes "inv c" "p \<in> set (l3_proc c)"
  shows "wpo (do {
      c \<leftarrow> del_timer (p_addr p) c;
      p' \<leftarrow> pc_get (p_addr p) c;
      c \<leftarrow> pc_mod (p_addr p) (\<lambda>p. p\<lparr>p_invoke_id := 0\<rparr>) (free_invoke_id (p_invoke_id p') c);
      dss1_release_l3_process up (p_addr p) (statcallb (ic p') c)
    }) inv"
  unfolding wpo_bind
  apply (rule del_timer_wp [OF focus_start(1) [OF assms]], erule get_wp')
  apply (rule mod_wp, erule focus_free_id, simp)
  apply (rule release_soft_wp, erule focus_statcallb)
   apply (simp add: soft_del ok_soft [OF focus_start(2) [OF assms]])
  apply assumption
  done

lemma dummy_results_ok:
  assumes "inv c"
  shows "wpo (l3dss1_dummy_return_result up ii data c) inv"
    "wpo (l3dss1_dummy_error_return up ii err c) inv"
proof -
  have "wpo (case l3dss1_search_dummy_proc ii c of None \<Rightarrow> Some c | Some a \<Rightarrow> do {
      c \<leftarrow> del_timer a c;
      p \<leftarrow> pc_get a c;
      c \<leftarrow> pc_mod a (\<lambda>p. p\<lparr>p_invoke_id := 0\<rparr>) (free_invoke_id (p_invoke_id p) c);
      dss1_release_l3_process up a (statcallb (ic p) c)
    }) inv" for ic
  proof (rule wp_option)
    fix a
    assume "l3dss1_search_dummy_proc ii c = Some a"
    then obtain p where "p \<in> set (l3_proc c)" "p_addr p = a" using search_dummy by blast
    then show "wpo (do {
      c \<leftarrow> del_timer a c;
      p \<leftarrow> pc_get a c;
      c \<leftarrow> pc_mod a (\<lambda>p. p\<lparr>p_invoke_id := 0\<rparr>) (free_invoke_id (p_invoke_id p) c);
      dss1_release_l3_process up a (statcallb (ic p) c)
    }) inv" using dummy_done_ok [OF assms, of p ic] by blast
  qed (simp add: assms)
  note this [rule_format, intro]
  show "wpo (l3dss1_dummy_return_result up ii data c) inv"
    "wpo (l3dss1_dummy_error_return up ii err c) inv"
    unfolding l3dss1_dummy_return_result_def l3dss1_dummy_error_return_def by rule+
qed

lemma inv_out: "inv c \<Longrightarrow> inv (c\<lparr>d_out := x\<rparr>)"
proof -
  have "good (c\<lparr>d_out := x\<rparr>) = good c" by (rule good_cong) simp_all
  moreover have "l3_ok (c\<lparr>d_out := x\<rparr>) = l3_ok c" by (rule l3_ok_cong) simp_all
  ultimately show "inv c \<Longrightarrow> inv (c\<lparr>d_out := x\<rparr>)" by (simp add: dss1_inv_def)
qed

lemma parse_dummy_ok:
  assumes "inv c" "i + 2 + unat (d ! (i + 1)) \<le> length d"
  shows "wpo (l3dss1_parse_facility up None cr d i c) inv"
proof -
  have keep: "wpo (Some c) inv" using assms(1) by simp
  have inv': "inv (l3dss1_dummy_invoke cr ii ident data c)" for ii ident data
    using assms(1) by (simp add: l3dss1_dummy_invoke_def statcallb_def inv_out)
  have data: "wpo (rd_list d p (unat n) \<bind> f) inv" if "p + unat n \<le> length d" "\<And>x. wpo (f x) inv"
    for p n f
    using that by (simp add: rd_list_def)
  show ?thesis
    unfolding l3dss1_parse_facility_def option.case
    by (intro wp_if keep fac_header_step [OF assms(2)] fac_number_step data dummy_results_ok assms(1)
        wp_Some inv')
qed

subsection \<open>Handlers\<close>

text \<open>The state a handler moves a call to, and the timer it starts there.\<close>

lemma call_moves_ok:
  assumes "foc as gl a p c" "p_soft p" "st \<notin> {1, 6, 25} \<and> valid_state st"
    "case tm of None \<Rightarrow> wait_timers st = []
     | Some (ms, ev) \<Rightarrow> snd ev = REQUEST \<and> fst ev \<in> set (wait_timers st) \<and> fst ev \<in> set timer_names"
  shows "wpo (call_moves up a st tm ret pr c) inv"
proof -
  let ?p = "newl3state st (L3DelTimer p)"
  have soft: "p_soft ?p" using assms(2,3) by (simp add: soft_state soft_del)
  have fin: "wpo (if ret \<noteq> 0 then l3dss1_std_ie_err up a ret c else Some c) (\<lambda>c. wpo (Some (l3l4 pr a c)) inv)"
    if "foc as gl a q c" "p_ok m q" for q c
    by (rule if_err_wp [OF that(1)], rule wp_Some, rule inv_of, erule focus_l3l4, rule kept_ok [OF _ that(2)])
  show ?thesis
  proof (cases tm)
    case None
    then have "p_ok m ?p" using assms(4) soft by (simp add: untimed_ok)
    then show ?thesis
      unfolding call_moves_def wpo_bind None option.case
      by (intro del_timer_wp [OF assms(1)] new_state_wp wp_Some fin)
  next
    case (Some x)
    then obtain ms n where x: "tm = Some (ms, (n, REQUEST))" "n \<in> set (wait_timers st)"
      "n \<in> set timer_names" using assms(4) by (cases x) auto
    have ok: "p_ok m (timer_on e (n, REQUEST) ?p)" for e
      by (rule timer_ok) (use x(2,3) soft in simp_all)
    show ?thesis
      unfolding call_moves_def wpo_bind x(1) option.case prod.case
      by (rule del_timer_wp [OF assms(1)], erule new_state_wp, erule add_timer_wp, erule fin, rule ok)
  qed
qed

lemma release_cmpl_ok:
  assumes "foc as gl a p c" "p_soft p" "msg_ok d sz"
  shows "wpo (l3dss1_release_cmpl up a d sz c) inv"
  unfolding l3dss1_release_cmpl_def wpo_bind
  apply (rule pc_get_cause_wp [OF assms(1) soft_shape [OF assms(2)] assms(3)])
  apply (unfold prod.case wpo_bind)
  apply (erule if_cause_wp, erule stop_timer_wp, erule new_state_wp)
  apply (rule release_soft_wp, erule focus_l3l4)
   apply (simp add: soft_state soft_del kept_soft assms(2))
  apply assumption
  done

lemma bchannel_wp:
  assumes "foc as gl a p c" "\<And>c' p'. foc as gl a p' c' \<Longrightarrow> kept p p' \<Longrightarrow> Q c'"
  shows "wpo (pc_mod a (\<lambda>p. p\<lparr>p_bchannel := ii\<rparr>) c) Q"
  by (rule mod_wp [OF assms(1)], simp, erule assms(2)) (simp add: kept_def)

lemma if_bchannel_wp:
  assumes "foc as gl a p c" "\<And>c' p'. foc as gl a p' c' \<Longrightarrow> kept p p' \<Longrightarrow> Q c'"
  shows "wpo (if b then pc_mod a (\<lambda>p. p\<lparr>p_bchannel := ii\<rparr>) c else Some c) Q"
  by (rule wp_if, rule bchannel_wp [OF assms], assumption+)
    (rule wp_Some, rule assms(2) [OF assms(1)], simp)

text \<open>A handler that reports an error leaves the call as it is.\<close>

lemma status_cause_ok: "foc as gl a p c \<Longrightarrow> p_ok m p \<Longrightarrow> wpo (status_cause up a x c) inv"
  by (erule status_cause_wp, erule inv_of, erule kept_ok)

lemma std_ie_err_ok: "foc as gl a p c \<Longrightarrow> p_ok m p \<Longrightarrow> wpo (l3dss1_std_ie_err up a x c) inv"
  by (erule std_ie_err_wp, erule inv_of, erule kept_ok)

lemma call_proc_ok:
  assumes "foc as gl a p c" "p_ok m p" "msg_ok d sz"
  shows "wpo (l3dss1_call_proc up a d sz c) inv"
  unfolding l3dss1_call_proc_def wpo_bind
  apply (rule get_channel_id_wp [OF assms(3)], rule get_wp [OF assms(1)])
  apply (intro wp_if status_cause_ok [OF assms(1,2)])
  apply (unfold wpo_bind)
  apply (rule if_bchannel_wp [OF assms(1)], rule check_infoelements_wp [OF assms(3)], rule wp_if)
   apply (erule std_ie_err_ok, erule kept_ok [OF _ assms(2)])
  apply (erule call_moves_ok, erule kept_soft, rule ok_soft [OF assms(2)], simp_all)
  done

lemma setup_ack_ok:
  assumes "foc as gl a p c" "p_ok m p" "msg_ok d sz"
  shows "wpo (l3dss1_setup_ack up a d sz c) inv"
  unfolding l3dss1_setup_ack_def wpo_bind
  apply (rule get_channel_id_wp [OF assms(3)], rule get_wp [OF assms(1)])
  apply (intro wp_if status_cause_ok [OF assms(1,2)])
  apply (unfold wpo_bind)
  apply (rule bchannel_wp [OF assms(1)], rule check_infoelements_wp [OF assms(3)], rule wp_if)
   apply (erule std_ie_err_ok, erule kept_ok [OF _ assms(2)])
  apply (erule call_moves_ok, erule kept_soft, rule ok_soft [OF assms(2)], simp_all)
  done

lemma disconnect_ok:
  assumes "foc as gl a p c" "p_soft p" "msg_ok d sz"
  shows "wpo (l3dss1_disconnect up a d sz c) inv"
proof -
  have moved: "wpo (if cause \<noteq> 0 then new_state a 19 c else Some c) (\<lambda>c.
      wpo (if p_state q \<noteq> 11 then Some (l3l4 (CC_DISCONNECT, INDICATION) a c)
           else if cause = 0 then l3dss1_release_req up a c else Some c) (\<lambda>c.
      wpo (if cause \<noteq> 0 then l3dss1_message_cause up a MT_RELEASE cause c \<bind> add_timer a T308 (CC_T308_1, REQUEST)
           else Some c) inv))"
    if q: "foc as gl a (newl3state 12 q) c" "p_soft q" "\<not> lt_pending (p_timer q)" for q c cause
  proof (cases "cause = 0")
    case True
    have ok: "p_ok m (newl3state 12 q)" using q(2) by (simp add: untimed_ok soft_state)
    have "wpo (l3dss1_release_req up a c) inv"
      by (rule release_req_wp [OF q(1)]) (use q(2) in \<open>simp_all add: soft_state inv_of\<close>)
    moreover have "inv (l3l4 (CC_DISCONNECT, INDICATION) a c)"
      using inv_of [OF focus_l3l4 [OF q(1)] ok] .
    moreover have "inv c" by (rule inv_of [OF q(1) ok])
    ultimately show ?thesis using True by simp
  next
    case False
    have soft: "p_soft (newl3state 19 (newl3state 12 q))" using q(2) by (simp add: soft_state)
    have send: "wpo (l3dss1_message_cause up a MT_RELEASE cause c1) (\<lambda>c. wpo (add_timer a T308 (CC_T308_1, REQUEST) c) inv)"
      if c1: "foc as gl a (newl3state 19 (newl3state 12 q)) c1" for c1
      by (rule message_cause_wp [OF c1], erule add_timer_wp, erule inv_of, erule kept_timer_ok)
        (use soft q(3) in simp_all)
    have "wpo (new_state a 19 c) (\<lambda>c. wpo (if p_state q \<noteq> 11
        then Some (l3l4 (CC_DISCONNECT, INDICATION) a c) else Some c) (\<lambda>c.
        wpo (l3dss1_message_cause up a MT_RELEASE cause c) (\<lambda>c. wpo (add_timer a T308 (CC_T308_1, REQUEST) c) inv)))"
      by (rule new_state_wp [OF q(1)]) (auto intro: send focus_l3l4)
    then show ?thesis using False by (simp cong: if_cong)
  qed
  have np: "\<not> lt_pending (p_timer q)" if "kept p1 q" "\<not> lt_pending (p_timer p1)" for p1 q
    using that by (auto simp: kept_def)
  show ?thesis
    unfolding l3dss1_disconnect_def wpo_bind Let_def
    apply (rule stop_timer_wp [OF assms(1)])
    apply (erule pc_get_cause_wp [OF _ _ assms(3)], simp add: soft_shape soft_del assms(2))
    apply (unfold prod.case wpo_bind)
    apply (erule facility_wp [OF _ assms(3)], rule check_infoelements_wp [OF assms(3)])
    apply (erule get_wp', erule new_state_wp, erule moved)
     apply (erule kept_soft, erule kept_soft, rule soft_del, rule assms(2))
    apply (erule np, erule np, simp)
    done
qed

lemma connect_ok:
  assumes "foc as gl a p c" "p_ok m p" "msg_ok d sz"
  shows "wpo (l3dss1_connect up a d sz c) inv"
  unfolding l3dss1_connect_def wpo_bind
  apply (rule check_infoelements_wp [OF assms(3)], rule wp_if, rule std_ie_err_ok [OF assms(1,2)])
  apply (unfold wpo_bind)
  apply (rule mod_wp [OF assms(1)], simp, erule call_moves_ok)
  apply (simp_all add: ok_soft [OF assms(2)])
  done

lemma alerting_ok:
  assumes "foc as gl a p c" "p_ok m p" "msg_ok d sz"
  shows "wpo (l3dss1_alerting up a d sz c) inv"
  unfolding l3dss1_alerting_def wpo_bind
  apply (rule check_infoelements_wp [OF assms(3)], rule wp_if, rule std_ie_err_ok [OF assms(1,2)])
  apply (rule call_moves_ok [OF assms(1) ok_soft [OF assms(2)]], simp_all)
  done

lemma connect_ack_ok:
  assumes "foc as gl a p c" "p_ok m p" "msg_ok d sz"
  shows "wpo (l3dss1_connect_ack up a d sz c) inv"
  unfolding l3dss1_connect_ack_def wpo_bind
  apply (rule check_infoelements_wp [OF assms(3)], rule wp_if, rule std_ie_err_ok [OF assms(1,2)])
  apply (rule call_moves_ok [OF assms(1) ok_soft [OF assms(2)]], simp_all)
  done

text \<open>A refused SETUP ends its process, if there is memory for the answer.\<close>

lemma setup_fails_ok:
  assumes "foc as gl a p c" "p_soft p" "wait_timers (p_state p) = []"
  shows "wpo (setup_fails up a cause c) inv"
proof -
  have ok: "p_ok m (p\<lparr>p_cause := cause\<rparr>)" using assms(2,3) by (simp add: untimed_ok)
  show ?thesis
    unfolding setup_fails_def l3dss1_msg_without_setup_def wpo_bind
    apply (rule set_cause_wp [OF assms(1)], erule get_wp', rule wp_if, erule alloc_wp)
    apply (unfold wpo_bind)
      apply (erule send_wp, erule release_soft_wp, erule kept_soft, simp add: assms(2), assumption)
     apply (erule inv_of, rule ok)
    apply (rule wp_Some, erule inv_of, rule ok)
    done
qed

lemma setup_ok:
  assumes "foc as gl a p c" "p_soft p" "p_state p = 0" "msg_ok d sz" "numbers_fit d sz"
  shows "wpo (l3dss1_setup up a d sz c) inv"
proof -
  have fails: "wpo (setup_fails up a cause c) inv" if "foc as gl a q c" "p_soft q" "p_state q = 0" for q c cause
    by (rule setup_fails_ok [OF that(1,2)]) (simp add: that(3))
  have soft: "p_soft (newl3state 6 (q\<lparr>p_bchannel := ii, p_setup := su\<rparr>))"
    if "p_soft q" "length (su_phone su) = 32" "length (su_eazmsn su) = 32" "0 \<in> set (su_eazmsn su)" for q ii su
    using that by (simp add: p_soft_def f_shape_def p_strings_def p_event_def newl3state_def)
  have shape: "length (su_phone (p_setup p)) = 32" "length (su_eazmsn (p_setup p)) = 32"
    using assms(2) by (simp_all add: p_soft_def f_shape_def)
  show ?thesis
    unfolding l3dss1_setup_def wpo_bind
    apply (rule find_ie_wp [OF assms(4)])
     apply (simp only: option.case fails [OF assms(1-3)])
    apply (unfold option.case wpo_bind)
    apply (rule get_wp [OF assms(1)], erule setup_bearer_wp [OF assms(4)])
    apply (unfold prod.case wpo_bind)
    apply (rule mod_const_wp [OF assms(1)], assumption)
    apply (rule wp_if, erule fails, simp add: assms(2), simp add: assms(3))
    apply (unfold wpo_bind)
    apply (rule get_channel_id_wp [OF assms(4)])
    apply (rule wp_if, erule fails, simp add: assms(2), simp add: assms(3))
    apply (unfold wpo_bind)
    apply (erule mod_wp, simp)
    apply (rule wp_if, erule fails, simp add: assms(2), simp add: assms(3))
    apply (unfold wpo_bind)
    apply (rule check_infoelements_wp [OF assms(4)])
    apply (rule wp_if, erule fails, simp add: assms(2), simp add: assms(3))
    apply (unfold wpo_bind)
    apply (rule numbers_fit_wp [OF assms(5)], simp add: shape, simp add: shape)
    apply (erule mod_wp, simp)
    apply (erule new_state_wp, erule if_err_wp, rule wp_Some, rule inv_of, erule focus_l3l4, erule kept_ok)
    apply (rule untimed_ok, simp, rule soft, simp_all add: assms(2))
    done
qed

lemma release_ok:
  assumes "foc as gl a p c" "p_soft p" "msg_ok d sz"
  shows "wpo (l3dss1_release up a d sz c) inv"
proof -
  have answer: "wpo (if b then l3dss1_message_cause up a mt x c else l3dss1_message up a mt c) Q"
    if "foc as gl a q c" "\<And>c' q'. foc as gl a q' c' \<Longrightarrow> kept q q' \<Longrightarrow> Q c'" for b mt x c q Q
    by (rule wp_if; rule message_cause_wp [OF that] message_wp [OF that]; assumption)
  show ?thesis
    unfolding l3dss1_release_def wpo_bind Let_def
    apply (rule stop_timer_wp [OF assms(1)])
    apply (erule pc_get_cause_wp [OF _ _ assms(3)], simp add: soft_shape soft_del assms(2))
    apply (unfold prod.case wpo_bind)
    apply (erule if_cause_wp, erule facility_wp [OF _ assms(3)], erule get_wp')
    apply (rule check_infoelements_wp [OF assms(3)], erule answer)
    apply (rule new_state_wp, erule focus_l3l4, erule release_soft_wp)
     apply (simp add: soft_state soft_del kept_soft assms(2))
    apply assumption
    done
qed

lemma deliver_display_wp:
  assumes "foc as gl a p c" "i + 2 + unat (d ! (i + 1)) \<le> length d" "\<And>c'. foc as gl a p c' \<Longrightarrow> Q c'"
  shows "wpo (l3dss1_deliver_display a d i c) Q"
proof -
  have len: "i < length d" "i + 1 < length d" using assms(2) by simp_all
  show ?thesis
    unfolding l3dss1_deliver_display_def wpo_bind
    apply (rule rd_wp [OF len(1)], rule wp_if, rule wp_Some, rule assms(3) [OF assms(1)])
    apply (unfold wpo_bind)
    apply (rule rd_wp [OF len(2)], rule wp_if, rule wp_Some, rule assms(3) [OF assms(1)])
    apply (unfold wpo_bind)
    apply (rule get_wp [OF assms(1)], rule wp_option, rule wp_Some, rule assms(3) [OF assms(1)])
    apply (unfold wpo_bind)
    apply (rule rd_list_wp [OF assms(2)], rule wp_Some, rule assms(3), rule focus_statcallb [OF assms(1)])
    done
qed

text \<open>PROGRESS and NOTIFY: an error of the message is reported, else the user is told.\<close>

lemma told_ok:
  assumes "foc as gl a p c" "p_ok m p"
  shows "wpo (if b then l3dss1_std_ie_err up a ret c else Some c)
    (\<lambda>c. wpo (Some (if b' then l3l4 pr a c else c)) inv)"
  by (rule if_err_wp [OF assms(1)]) (auto intro: inv_of [OF focus_l3l4] inv_of kept_ok [OF _ assms(2)])

lemma progress_ok:
  assumes "foc as gl a p c" "p_ok m p" "msg_ok d sz"
  shows "wpo (l3dss1_progress up a d sz c) inv"
  unfolding l3dss1_progress_def wpo_bind
  apply (rule progress_error_wp [OF assms(3)], rule wp_if, rule status_cause_ok [OF assms(1,2)])
  apply (unfold wpo_bind)
  apply (rule check_infoelements_wp [OF assms(3)], rule told_ok [OF assms(1,2)])
  done

lemma notify_ok:
  assumes "foc as gl a p c" "p_ok m p" "msg_ok d sz"
  shows "wpo (l3dss1_notify up a d sz c) inv"
  unfolding l3dss1_notify_def wpo_bind
  apply (rule notify_error_wp [OF assms(3)], rule wp_if, rule status_cause_ok [OF assms(1,2)])
  apply (unfold wpo_bind)
  apply (rule check_infoelements_wp [OF assms(3)], rule told_ok [OF assms(1,2)])
  done

lemma status_enq_ok:
  assumes "foc as gl a p c" "p_ok m p" "msg_ok d sz"
  shows "wpo (l3dss1_status_enq up a d sz c) inv"
  unfolding l3dss1_status_enq_def wpo_bind
  by (rule check_infoelements_wp [OF assms(3)], rule std_ie_err_wp [OF assms(1)], erule status_cause_ok,
      erule kept_ok [OF _ assms(2)])

lemma facility_ok:
  assumes "foc as gl a p c" "p_ok m p" "msg_ok d sz"
  shows "wpo (l3dss1_facility up a d sz c) inv"
  unfolding l3dss1_facility_def wpo_bind
  by (rule check_infoelements_wp [OF assms(3)], rule std_ie_err_wp [OF assms(1)],
      erule facility_wp [OF _ assms(3)], erule inv_of, erule kept_ok, erule kept_ok [OF _ assms(2)])

lemma information_ok:
  assumes "foc as gl a p c" "p_ok m p" "msg_ok d sz" "p_state p = 25 \<Longrightarrow> digits_fit d sz p"
  shows "wpo (l3dss1_information up a d sz c) inv"
proof -
  have digits: "wpo (case r of None \<Rightarrow> Some c | Some i \<Rightarrow> do {
        s \<leftarrow> iecpy d i 1;
        if 32 \<le> length s then None
        else do {
          arr \<leftarrow> strcat (su_eazmsn (p_setup q)) s;
          c \<leftarrow> pc_mod a (\<lambda>p. p\<lparr>p_setup := (p_setup p)\<lparr>su_eazmsn := arr\<rparr>\<rparr>) c;
          Some (l3l4 (CC_MORE_INFO, INDICATION) a c)
        }
      }) (\<lambda>c. wpo (add_timer a T302 (CC_T302, REQUEST) c) inv)"
    if c: "foc as gl a (L3DelTimer q) c" "p_soft q" "p_state q = 25" "p_setup q = p_setup p" "p_state p = 25"
      "find_ie d sz IE_CALLED_PN = Some r" for c q r
  proof -
    have fin: "wpo (add_timer a T302 (CC_T302, REQUEST) c) inv"
      if "foc as gl a q' c" "p_soft q'" "p_state q' = 25" "\<not> lt_pending (p_timer q')" for q' c
      by (rule add_timer_wp [OF that(1)], erule inv_of, rule timer_ok) (use that in simp_all)
    show ?thesis
    proof (cases r)
      case None
      then show ?thesis using fin [OF c(1)] c(2,3) by (simp add: soft_del)
    next
      case (Some i)
      obtain s arr where s: "iecpy d i 1 = Some s" "length s < 32"
        "strcat (su_eazmsn (p_setup q)) s = Some arr"
        using assms(4) [OF c(5)] c(4,6) Some by (auto simp: digits_fit_def split: option.splits)
      let ?q = "(L3DelTimer q)\<lparr>p_setup := (p_setup (L3DelTimer q))\<lparr>su_eazmsn := arr\<rparr>\<rparr>"
      have "p_soft ?q"
        using soft_del(1) [OF c(2)] strcat_end [OF s(3)] c(3)
        by (simp add: p_soft_def f_shape_def p_strings_def p_event_def)
      moreover have "wpo (pc_mod a (\<lambda>p. p\<lparr>p_setup := (p_setup p)\<lparr>su_eazmsn := arr\<rparr>\<rparr>) c)
          (\<lambda>c. wpo (add_timer a T302 (CC_T302, REQUEST) (l3l4 (CC_MORE_INFO, INDICATION) a c)) inv)"
        by (rule mod_wp [OF c(1)], simp, erule fin [OF focus_l3l4])
          (use calculation c(3) in simp_all)
      ultimately show ?thesis using Some s by simp
    qed
  qed
  obtain r where r: "find_ie d sz IE_CALLED_PN = Some r"
    using find_ie_wp [OF assms(3), of "\<lambda>_. True" IE_CALLED_PN] by (auto simp: wpo_iff)
  show ?thesis
    unfolding l3dss1_information_def wpo_bind
    apply (rule check_infoelements_wp [OF assms(3)], rule if_err_wp [OF assms(1)], erule get_wp')
    apply (rule wp_if, unfold wpo_bind, erule del_timer_wp)
     apply (unfold r, rule wp_Some, rule digits)
          apply (assumption, simp add: kept_soft ok_soft [OF assms(2)], assumption, simp add: kept_sel)
      apply (simp add: kept_sel)
     apply (rule r)
    apply (rule wp_Some, erule inv_of, erule kept_ok [OF _ assms(2)])
    done
qed

lemma release_ind_ok:
  assumes "foc as gl a p c" "p_ok m p" "msg_ok d sz"
  shows "wpo (l3dss1_release_ind up a d sz c) inv"
proof -
  have fin: "wpo (if b then do { c \<leftarrow> new_state a 0 (l3l4 pr a c); dss1_release_l3_process up a c }
      else Some (l3l4 pr' a c)) inv" for b pr pr'
    unfolding wpo_bind
    by (rule wp_if, unfold wpo_bind, rule new_state_wp [OF focus_l3l4 [OF assms(1)]], erule release_soft_wp)
      (simp_all add: soft_state ok_soft [OF assms(2)] inv_of [OF focus_l3l4 [OF assms(1)] assms(2)])
  show ?thesis
    unfolding l3dss1_release_ind_def wpo_bind
    apply (rule find_ie_wp [OF assms(3)])
     apply (unfold option.case wpo_bind)
     apply (rule wp_Some, rule fin)
    apply (rule rd_wp, simp add: msg_len [OF assms(3)], rule wp_if)
     apply (rule rd_wp, simp add: msg_len [OF assms(3)], rule fin)
    apply (rule wp_Some, rule fin)
    done
qed

text \<open>STATUS may come for a call and for the global process.\<close>

lemma status_ok:
  assumes "foc as gl a p c" "f_shape p" "a \<in> set as \<Longrightarrow> p_ok m p" "msg_ok d sz"
  shows "wpo (l3dss1_status up a d sz c) inv"
proof -
  have keep: "inv c'" if "foc as gl a q c'" "kept p q" for c' q
    using done_wp [OF that(1)] kept_f_shape [OF that(2)] kept_ok [OF that(2)] assms(2,3) by blast
  have fin: "wpo (if b then Some c' else if b' then do {
        c \<leftarrow> new_state a 0 (l3l4 pr a c'); dss1_release_l3_process up a c } else Some c') inv"
    if "foc as gl a q c'" "kept p q" for b b' pr c' q
    apply (rule wp_if, rule wp_Some, rule keep [OF that])
    apply (rule wp_if, unfold wpo_bind)
     apply (rule new_state_wp, rule focus_l3l4, rule that(1), erule release_wp)
      apply (use assms(2) kept_f_shape [OF that(2)] in \<open>simp add: f_shape_def newl3state_def\<close>)
     apply assumption
    apply (rule wp_Some, rule keep [OF that])
    done
  have sc: "wpo (if b then status_cause up a x c else Some c) Q"
    if "foc as gl a q c" "\<And>c' q'. foc as gl a q' c' \<Longrightarrow> kept q q' \<Longrightarrow> Q c'" for b x c q Q
    by (rule wp_if, rule status_cause_wp [OF that], assumption+)
      (rule wp_Some, rule that(2) [OF that(1)], simp)
  show ?thesis
    unfolding l3dss1_status_def wpo_bind
    apply (rule pc_get_cause_wp [OF assms(1,2,4)])
    apply (unfold prod.case wpo_bind)
    apply (rule status_error_wp [OF assms(4)])
    apply (split prod.split, intro allI impI, unfold wpo_bind)
    apply (erule get_wp', erule sc, erule if_cause_wp, erule get_wp', erule fin)
    apply (blast intro: kept_trans)
    done
qed

lemma suspend_ack_ok:
  assumes "foc as gl a p c" "p_soft p" "msg_ok d sz"
  shows "wpo (l3dss1_suspend_ack up a d sz c) inv"
  unfolding l3dss1_suspend_ack_def wpo_bind
  apply (rule del_timer_wp [OF assms(1)], erule new_state_wp, erule set_cause_wp)
  apply (rule check_infoelements_wp [OF assms(3)])
  apply (rule release_soft_wp, erule focus_l3l4)
   apply (simp add: soft_state soft_del assms(2))
  apply assumption
  done

lemma suspend_rej_ok:
  assumes "foc as gl a p c" "p_ok m p" "msg_ok d sz"
  shows "wpo (l3dss1_suspend_rej up a d sz c) inv"
  unfolding l3dss1_suspend_rej_def wpo_bind
  apply (rule pc_get_cause_wp [OF assms(1) soft_shape [OF ok_soft [OF assms(2)]] assms(3)])
  apply (unfold prod.case wpo_bind)
  apply (rule wp_if, erule status_cause_ok, erule kept_ok [OF _ assms(2)])
  apply (unfold wpo_bind)
  apply (rule check_infoelements_wp [OF assms(3)], rule wp_if, erule std_ie_err_ok, erule kept_ok [OF _ assms(2)])
  apply (unfold wpo_bind)
  apply (erule del_timer_wp, rule new_state_wp, erule focus_l3l4, erule if_err_wp, erule inv_of, erule kept_ok)
  apply (simp add: untimed_ok soft_state soft_del kept_soft ok_soft [OF assms(2)])
  done

lemma resume_ack_ok:
  assumes "foc as gl a p c" "p_ok m p" "msg_ok d sz"
  shows "wpo (l3dss1_resume_ack up a d sz c) inv"
  unfolding l3dss1_resume_ack_def wpo_bind
  apply (rule get_channel_id_wp [OF assms(3)], rule get_wp [OF assms(1)])
  apply (intro wp_if status_cause_ok [OF assms(1,2)])
  apply (unfold wpo_bind)
  apply (rule if_bchannel_wp [OF assms(1)], rule check_infoelements_wp [OF assms(3)], rule wp_if)
   apply (erule std_ie_err_ok, erule kept_ok [OF _ assms(2)])
  apply (unfold wpo_bind)
  apply (erule del_timer_wp, rule new_state_wp, erule focus_l3l4, erule if_err_wp, erule inv_of, erule kept_ok)
  apply (simp add: untimed_ok soft_state soft_del kept_soft ok_soft [OF assms(2)])
  done

lemma resume_rej_ok:
  assumes "foc as gl a p c" "p_ok m p" "msg_ok d sz"
  shows "wpo (l3dss1_resume_rej up a d sz c) inv"
  unfolding l3dss1_resume_rej_def wpo_bind
  apply (rule pc_get_cause_wp [OF assms(1) soft_shape [OF ok_soft [OF assms(2)]] assms(3)])
  apply (unfold prod.case wpo_bind)
  apply (rule wp_if, erule status_cause_ok, erule kept_ok [OF _ assms(2)])
  apply (unfold wpo_bind)
  apply (rule check_infoelements_wp [OF assms(3)], rule wp_if, erule std_ie_err_ok, erule kept_ok [OF _ assms(2)])
  apply (unfold wpo_bind)
  apply (erule del_timer_wp, rule new_state_wp, erule focus_l3l4, erule if_err_wp, erule release_soft_wp)
   apply (simp add: soft_state soft_del kept_soft ok_soft [OF assms(2)])
  apply assumption
  done

subsection \<open>Messages by table\<close>

text \<open>What the environment must see to in a message: the numbers it carries fit.\<close>

lemma data_rows_ok:
  assumes "foc as gl a p c" "p_ok m p" "msg_ok d sz" "msg_fits mt d sz p"
    "find_entry (datastatelist up) mt (p_state p) = Some r"
  shows "wpo (r a d sz c) inv"
proof -
  note s = assms(1) ok_soft [OF assms(2)]
  obtain e where e: "e \<in> set (datastatelist up)" "se_primitive e = mt" "p_state p \<in> set (se_state e)"
    "se_rout e = r" using find_entry_SomeD [OF assms(5)] by blast
  have dummy: "wpo (l3dss1_data_dummy a d sz c) inv"
    using inv_of [OF assms(1,2)] by (simp add: l3dss1_data_dummy_def)
  have stat: "wpo (l3dss1_status up a d sz c) inv"
    by (rule status_ok [OF assms(1) soft_shape [OF s(2)] assms(2,3)])
  have sreq: "wpo (l3dss1_setup up a d sz c) inv" if "mt = MT_SETUP" "p_state p = 0"
    by (rule setup_ok [OF s that(2) assms(3)]) (use that assms(4) in \<open>simp add: msg_fits_def\<close>)
  have info: "wpo (l3dss1_information up a d sz c) inv" if "mt = MT_INFORMATION"
    by (rule information_ok [OF assms(1-3)]) (use that assms(4) in \<open>simp add: msg_fits_def\<close>)
  note full = assms(1-3)
  note plain = dummy stat status_enq_ok [OF full] facility_ok [OF full] release_ind_ok [OF full]
    call_proc_ok [OF full] setup_ack_ok [OF full] alerting_ok [OF full] progress_ok [OF full]
    notify_ok [OF full] release_cmpl_ok [OF s assms(3)] release_ok [OF s assms(3)]
    disconnect_ok [OF s assms(3)] connect_ok [OF full] connect_ack_ok [OF full]
    suspend_ack_ok [OF s assms(3)] suspend_rej_ok [OF full] resume_ack_ok [OF full] resume_rej_ok [OF full]
  have "list_all (\<lambda>e. se_primitive e = mt \<longrightarrow> p_state p \<in> set (se_state e) \<longrightarrow> wpo (se_rout e a d sz c) inv)
      (datastatelist up)"
    unfolding datastatelist_def list.pred_inject stateentry.sel
    using sreq info by (intro conjI impI TrueI) (simp_all only: plain, simp_all)
  then show ?thesis using e by (auto simp: list_all_iff)
qed

text \<open>A message for a call.\<close>

lemma dispatch_ok:
  assumes "foc as gl a p c" "p_ok m p" "msg_ok d sz" "msg_fits mt d sz p"
  shows "wpo (dss1_dispatch up mt a d sz c) inv"
proof -
  have disp: "wpo (case r of None \<Rightarrow> Some c | Some i \<Rightarrow> l3dss1_deliver_display a d i c) Q"
    if "\<And>c'. foc as gl a p c' \<Longrightarrow> Q c'" "\<forall>i. r = Some i \<longrightarrow> i + 2 + unat (d ! (i + 1)) \<le> length d" for r Q
    by (rule wp_option, rule wp_Some, rule that(1) [OF assms(1)])
      (rule deliver_display_wp [OF assms(1) _ that(1)], use that(2) in simp_all)
  have run: "wpo (do { p \<leftarrow> pc_get a c; case find_entry (datastatelist up) mt (p_state p) of
        None \<Rightarrow> if b then status_cause up a 101 c else Some c
      | Some rout \<Rightarrow> rout a d sz c }) inv" if c: "foc as gl a p c" for c b
    unfolding wpo_bind
    by (rule get_wp [OF c], rule wp_option)
      (auto intro: status_cause_ok [OF c assms(2)] inv_of [OF c assms(2)] data_rows_ok [OF c assms(2-4)])
  show ?thesis
    unfolding dss1_dispatch_def l3dss1_check_messagetype_validity_def wpo_bind
    apply (rule wp_if, rule wp_Some)
     apply (unfold prod.case if_True if_False wpo_bind)
     apply (rule find_ie_wp [OF assms(3)])
      apply (rule disp, rule run [unfolded wpo_bind], assumption, simp)
     apply (rule disp, rule run [unfolded wpo_bind], assumption)
     apply (use assms(3) in \<open>simp add: msg_ok_def\<close>)
    apply (rule set_cause_wp [OF assms(1)], erule status_send_wp, rule wp_Some)
    apply (unfold prod.case if_True)
    apply (rule wp_Some, erule inv_of, erule kept_ok, simp add: assms(2))
    done
qed

subsection \<open>Messages of the global process\<close>

lemma mod_global_wp:
  assumes "foc as gl a p c" "a \<notin> set as" "\<And>p. p_addr (f p) = p_addr p"
    "\<And>c'. foc as gl a (f p) c' \<Longrightarrow> l3_proc c' = l3_proc c \<Longrightarrow> Q c'"
  shows "wpo (pc_mod a f c) Q"
proof -
  have "wpo (pc_mod a f c) (foc as gl a (f p))" by (rule mod_wp [OF assms(1,3)])
  moreover have "l3_proc (pc_upd a f c) = l3_proc c"
    using assms(1,2) by (auto simp: pc_upd_def at_addr_def focus_def intro!: map_idI)
  ultimately show ?thesis using assms(4) by (auto simp: pc_mod_def wpo_iff bind_eq_Some_conv)
qed

lemma inv_of_global:
  "foc as gl a p c \<Longrightarrow> a \<notin> set as \<Longrightarrow> f_shape p \<Longrightarrow> inv c"
  using done_wp by blast

lemma global_restart_ok:
  assumes "foc as gl a p c" "a \<notin> set as" "f_shape p" "msg_ok d sz" "\<not> restart_hits d sz c"
  shows "wpo (l3dss1_global_restart up a d sz c) inv"
proof -
  obtain ri ch where rc: "restart_class d sz = Some (ri, ch)" using restart_class_Some [OF assms(4)] by auto
  have shape: "f_shape (newl3state n q) = f_shape q" "f_shape (L3DelTimer q) = f_shape q" for n q
    by (simp_all add: f_shape_def newl3state_def L3DelTimer_def)
  have addr: "p_addr (newl3state n q) = p_addr q" "p_addr (L3DelTimer q) = p_addr q" for n q
    by (simp_all add: newl3state_def L3DelTimer_def)
  have loop: "restart_loop up ri (ch AND 3) (case l3_proc c1 of [] \<Rightarrow> None | p # ps \<Rightarrow> Some (p_addr p)) c1 =
      Some c1" if "foc as gl a q c1" "l3_proc c1 = l3_proc c" for c1 q
    unfolding head_procs
    by (rule restart_misses [of _ _ _ "[]"])
      (use that assms(5) rc in \<open>auto simp: focus_def restart_hits_def list_ex_iff\<close>)
  show ?thesis
    unfolding global_restart_eq rc bind.bind_lunit prod.case wpo_bind
    apply (rule mod_global_wp [OF assms(1,2) addr(1)])
    apply (erule mod_global_wp [OF _ assms(2) addr(2)])
    apply (erule mod_global_wp [OF _ assms(2) addr(1)])
    apply (subst loop, assumption, simp)
    apply (rule wp_Some, erule get_wp', erule alloc_wp)
     apply (unfold wpo_bind)
     apply (erule new_state_wp, erule send_wp, erule inv_of_global [OF _ assms(2)])
     apply (simp add: kept_f_shape shape assms(3))
    apply (erule inv_of_global [OF _ assms(2)], simp add: shape assms(3))
    done
qed

lemma gone_wp:
  assumes "foc as gl a p c"
  shows "wpo (dss1_release_l3_process up a c) (\<lambda>c'. a \<notin> set (l3_addrs c'))"
  unfolding dss1_release_l3_process_def wpo_bind
proof (rule get_wp [OF assms], rule wpo_mono [OF release_law], goal_cases)
  case (3 c')
  then show ?case by (auto simp: remove_proc_def)
qed (use focus_free_id [OF assms, of "p_invoke_id p"] in \<open>simp_all add: focus_def\<close>)

text \<open>A RESTART that concerns a call releases it, and the walk goes on from the freed process.\<close>

lemma restart_faults:
  assumes "inv c" "l3_addrs c = pre @ rest" "\<exists>q \<in> set (l3_proc c). p_addr q \<in> set rest \<and> restart_hit ri ch q"
  shows "restart_loop up ri ch (head rest) c = None"
  using assms(2,3)
proof (induction rest arbitrary: pre)
  case Nil
  then show ?case by simp
next
  case (Cons a rest)
  have ok: "l3_ok c" using assms(1) by (simp add: dss1_inv_def)
  have "a \<in> set (l3_addrs c)" using Cons.prems(1) by simp
  then obtain q where q: "q \<in> set (l3_proc c)" "p_addr q = a" by auto
  have get: "pc_get a c = Some q" using pc_get_mem [OF ok q(1)] q(2) by simp
  show ?case
  proof (cases "restart_hit ri ch q")
    case True
    have foc: "foc (l3_addrs c) (l3_global c) a q c" and soft: "p_soft q"
      using focus_start [OF assms(1) q(1)] q(2) by (simp_all add: ok_soft)
    have "p_state q \<in> set ALL_STATES"
      using soft by (auto simp: p_soft_def valid_state_def l3_valid_states_def ALL_STATES_def)
    then have "dss1down up (CC_RESTART, REQUEST) (ArgProc a) c = l3dss1_restart up a c"
      using get by (simp add: dss1down_def dss1down_proc_def find_entry_def downstatelist_def)
    moreover have "wpo (l3dss1_restart up a c) (\<lambda>c'. a \<notin> set (l3_addrs c'))"
      unfolding l3dss1_restart_def wpo_bind
      by (rule del_timer_wp [OF foc], erule gone_wp [OF focus_l3l4])
    ultimately obtain c' where c': "dss1down up (CC_RESTART, REQUEST) (ArgProc a) c = Some c'" "a \<notin> set (l3_addrs c')"
      by (auto simp: wpo_iff)
    have "next_proc a ps = None" if "a \<notin> p_addr ` set ps" for ps using that by (induction ps) auto
    then have "next_proc a (l3_proc c') = None" using c'(2) by simp
    then show ?thesis
      using True get c'(1) by (subst restart_loop.simps) (simp add: head_def restart_hit_def)
  next
    case False
    have "next_proc a (l3_proc c) = Some (head rest)"
      using next_proc_at [OF _ Cons.prems(1)] ok by (simp add: head_def l3_ok_def)
    moreover have "restart_loop up ri ch (head rest) c = None"
    proof (rule Cons.IH [of "pre @ [a]"])
      obtain q' where q': "q' \<in> set (l3_proc c)" "p_addr q' \<in> set (a # rest)" "restart_hit ri ch q'"
        using Cons.prems(2) by blast
      have "p_addr q' \<noteq> a" using pc_get_mem [OF ok q'(1)] get q'(3) False by auto
      then show "\<exists>q \<in> set (l3_proc c). p_addr q \<in> set rest \<and> restart_hit ri ch q" using q' by auto
    qed (use Cons.prems(1) in simp)
    ultimately show ?thesis
      using False get by (subst restart_loop.simps) (simp add: head_def restart_hit_def)
  qed
qed

lemma global_restart_faults:
  assumes "inv c" "l3_global c = Some g" "msg_ok d sz" "restart_hits d sz c"
  shows "l3dss1_global_restart up (p_addr g) d sz c = None"
proof -
  let ?a = "p_addr g"
  obtain ri ch where rc: "restart_class d sz = Some (ri, ch)" using restart_class_Some [OF assms(3)] by auto
  note start = focus_start_global(1) [OF assms(1,2), of gl] focus_start_global(2,3) [OF assms(1,2)]
  have addr: "p_addr (newl3state n q) = p_addr q" "p_addr (L3DelTimer q) = p_addr q" for n q
    by (simp_all add: newl3state_def L3DelTimer_def)
  have shape: "f_shape (newl3state n q) = f_shape q" "f_shape (L3DelTimer q) = f_shape q" for n q
    by (simp_all add: f_shape_def newl3state_def L3DelTimer_def)
  have hit: "\<exists>q \<in> set (l3_proc c). restart_hit ri (ch AND 3) q"
    using assms(4) rc by (auto simp: restart_hits_def list_ex_iff)
  have loop: "restart_loop up ri (ch AND 3) (case l3_proc c1 of [] \<Rightarrow> None | p # ps \<Rightarrow> Some (p_addr p)) c1 = None"
    if "inv c1" "l3_proc c1 = l3_proc c" for c1
    unfolding head_procs by (rule restart_faults [OF that(1), of "[]"]) (use that(2) hit in auto)
  have "wpo (new_state ?a 2 c) (\<lambda>c. wpo (del_timer ?a c) (\<lambda>c1. wpo (new_state ?a 2 c1)
      (\<lambda>c1. restart_loop up ri (ch AND 3) (case l3_proc c1 of [] \<Rightarrow> None | p # ps \<Rightarrow> Some (p_addr p)) c1 = None)))"
    apply (rule mod_global_wp [OF start(1,3) addr(1)])
    apply (erule mod_global_wp [OF _ start(3) addr(2)])
    apply (erule mod_global_wp [OF _ start(3) addr(1)])
    apply (rule loop, erule inv_of_global [OF _ start(3)])
     apply (simp_all add: shape start(2))
    done
  then show ?thesis
    unfolding global_restart_eq rc by (auto simp: wpo_iff)
qed

lemma global_handler_ok:
  assumes "inv c" "msg_ok d sz" "2 < length d" "mt = MT_RESTART \<Longrightarrow> \<not> restart_hits d sz c"
  shows "wpo (global_handler up mt d sz c) inv"
proof -
  obtain g where g: "l3_global c = Some g" using assms(1) by (auto simp: dss1_inv_def)
  note start = focus_start_global(1) [OF assms(1) g, of gl] focus_start_global(2,3) [OF assms(1) g]
  let ?a = "p_addr g" and ?g = "g\<lparr>p_callref := uint (d ! 2)\<rparr>"
  have shape: "f_shape ?g" using start(2) by (simp add: f_shape_def)
  have miss: "mt = MT_RESTART \<Longrightarrow> \<not> restart_hits d sz c'" if "l3_proc c' = l3_proc c" for c'
    using assms(4) unfolding restart_hits_def that by simp
  have rows: "wpo (case find_entry (globalmes_list up) mt (p_state ?g) of
        None \<Rightarrow> alloc_then x (l3_send up) c' | Some rout \<Rightarrow> rout ?a d sz c') inv"
    if c': "foc (l3_addrs c) gl ?a ?g c'" "l3_proc c' = l3_proc c" for c' x
  proof (rule wp_option)
    show "wpo (alloc_then x (l3_send up) c') inv"
      by (rule send_alloc_wp [OF c'(1)], erule inv_of_global [OF _ start(3)]) (simp add: kept_f_shape shape)
  next
    fix rout
    assume "find_entry (globalmes_list up) mt (p_state ?g) = Some rout"
    then have "rout = l3dss1_status up \<or> rout = l3dss1_global_restart up \<and> mt = MT_RESTART"
      by (auto simp: globalmes_list_def dest!: find_entry_SomeD)
    then show "wpo (rout ?a d sz c') inv"
      using status_ok [OF c'(1) shape _ assms(2)] global_restart_ok [OF c'(1) start(3) shape assms(2)]
        miss [OF c'(2)] start(3) by blast
  qed
  show ?thesis
    unfolding global_handler_def g bind.bind_lunit Let_def wpo_bind
    apply (rule rd_wp [OF assms(3)], rule mod_global_wp [OF start(1,3)], simp)
    apply (erule get_wp', rule rows, assumption+)
    done
qed

subsection \<open>Frames\<close>

lemma answer_unknown_ok:
  assumes "inv c"
  shows "wpo (answer_unknown up cr cause c) inv"
  unfolding answer_unknown_def
  by (rule new_process_wp [OF assms, where Q = "\<lambda>r. wpo (case r of (None, c) \<Rightarrow> Some c
      | (Some a, c) \<Rightarrow> setup_fails up a cause c) inv"])
    (auto intro: setup_fails_ok)

lemma unknown_ok:
  assumes "inv c" "msg_ok d sz" "2 < length d" "mt = MT_SETUP \<Longrightarrow> numbers_fit d sz"
  shows "wpo (dss1_unknown up cr mt d sz c) inv"
proof -
  have keep: "wpo (Some c) inv" using assms(1) by simp
  have callin: "wpo (case dss1_new_l3_process cr c of (None, c) \<Rightarrow> Some c
      | (Some a, c) \<Rightarrow> dss1_dispatch up mt a d sz c) inv" if "mt = MT_SETUP"
  proof (rule new_process_wp [OF assms(1), where Q = "\<lambda>r. wpo (case r of (None, c) \<Rightarrow> Some c
      | (Some a, c) \<Rightarrow> dss1_dispatch up mt a d sz c) inv"], simp, goal_cases)
    case (1 a p c')
    have "p_ok m p" using 1(2,3) by (simp add: untimed_ok)
    moreover have "msg_fits mt d sz p" using that 1(3) assms(4) by (simp add: msg_fits_def)
    ultimately show ?case using dispatch_ok [OF 1(1) _ assms(2)] by simp
  qed
  show ?thesis
    unfolding dss1_unknown_def
    apply (rule wp_if, unfold wpo_bind)
     apply (rule rd_wp [OF assms(3)], rule wp_if, rule keep, erule callin)
    apply (rule wp_if, unfold wpo_bind)
     apply (rule short_value_wp [OF assms(2)], rule short_value_wp [OF assms(2)])
     apply (rule wp_if, rule answer_unknown_ok [OF assms(1)], rule keep)
    apply (rule wp_if, rule keep, rule answer_unknown_ok [OF assms(1)])
    done
qed

lemma getl3proc_SomeD: "getl3proc c cr = Some p \<Longrightarrow> p \<in> set (l3_proc c)"
proof -
  have "find_proc cr ps = Some p \<Longrightarrow> p \<in> set ps" for ps
    by (induction ps) (auto split: if_splits)
  then show "getl3proc c cr = Some p \<Longrightarrow> p \<in> set (l3_proc c)" by (simp add: getl3proc_def)
qed

lemma dss1_frame_ok:
  assumes "inv c" "frame_ok d sz c"
  shows "wpo (dss1_frame up pr d sz c) inv"
proof -
  let ?mt = "d ! (unat (d ! 1) + 2)"
  have keep: "wpo (Some c) inv" using assms(1) by simp
  have len: "sz + 3 \<le> length d" "258 \<le> length d" using assms(2) by (simp_all add: frame_ok_def)
  have fits: "?mt = MT_SETUP \<Longrightarrow> numbers_fit d sz" "?mt = MT_RESTART \<Longrightarrow> \<not> restart_hits d sz c"
    "?mt = MT_INFORMATION \<Longrightarrow> p \<in> set (l3_proc c) \<Longrightarrow> p_state p = 25 \<Longrightarrow> digits_fit d sz p" for p
    using assms(2) by (auto simp: frame_ok_def Let_def list_all_iff)
  have i: "0 < length d" "1 < length d" "2 < length d" "unat (d ! 1) + 2 < length d"
    using len(2) unat_u8 [of "d ! 1"] by linarith+
  have cref: "wpo (getcallref d) Q" if "\<And>cr. Q cr" for Q
    using that i(2,3) by (simp add: getcallref_def)
  show ?thesis
  proof (cases "unat (d ! 1 AND 0x0f) + 3 \<le> sz")
    case False
    show ?thesis
      unfolding dss1_frame_def
      apply (rule wp_if, rule keep, unfold wpo_bind)
      apply (rule rd_wp [OF i(1)], rule wp_if, rule keep, unfold wpo_bind)
      apply (rule cref, rule rd_wp [OF i(2)], rule wp_if, rule keep)
      apply (use False in simp)
      done
  next
    case True
    then have ok: "msg_ok d sz" using len(1) by (simp add: msg_ok_def)
    have dummy: "wpo (find_ie d sz IE_FACILITY) (\<lambda>r. wpo (case r of None \<Rightarrow> Some c
        | Some i \<Rightarrow> l3dss1_parse_facility up None cr d i c) inv)" for cr
      apply (rule find_ie_wp [OF ok], simp only: option.case keep)
      apply (unfold option.case, rule parse_dummy_ok [OF assms(1)])
      apply (use len(1) in simp)
      done
    have call: "wpo (dss1_dispatch up ?mt (p_addr p) d sz c) inv" if "getl3proc c cr = Some p" for cr p
    proof -
      note p = getl3proc_SomeD [OF that]
      have "msg_fits ?mt d sz p" using fits p by (simp add: msg_fits_def)
      then show ?thesis
        using dispatch_ok [OF focus_start(1) [OF assms(1) p] focus_start(2) [OF assms(1) p] ok] by blast
    qed
    show ?thesis
      unfolding dss1_frame_def
      apply (rule wp_if, rule keep, unfold wpo_bind)
      apply (rule rd_wp [OF i(1)], rule wp_if, rule keep, unfold wpo_bind)
      apply (rule cref, rule rd_wp [OF i(2)], rule wp_if, rule keep, unfold wpo_bind)
      apply (rule rd_wp [OF i(4)])
      apply (intro wp_if wp_option keep)
         apply (unfold wpo_bind, rule dummy)
        apply (rule global_handler_ok [OF assms(1) ok i(3)], erule fits(2))
       apply (rule unknown_ok [OF assms(1) ok i(3)], erule fits(1))
      apply (erule call)
      done
  qed
qed

subsection \<open>Remote operations\<close>

text \<open>What the caller must see to: a time limit, a code of one octet, and the data it names.\<close>

lemma proc_len_one:
  assumes "0 \<le> i" "i < 256"
  shows "proc_len_loop (drop_bit 8 i) = Some 1"
proof -
  have "drop_bit 8 i = 0" using assms by (simp add: drop_bit_eq_div)
  then show ?thesis by (simp add: proc_len_loop.simps)
qed

lemma inv_invoke_id:
  assumes "inv c"
  shows "wpo (new_invoke_id c) (\<lambda>(ii, c'). inv c')" "inv (free_invoke_id ii c)"
proof -
  obtain g where g: "l3_global c = Some g" using assms by (auto simp: dss1_inv_def)
  note start = focus_start_global(1) [OF assms g, of None] focus_start_global(2,3) [OF assms g]
  show "wpo (new_invoke_id c) (\<lambda>(ii, c'). inv c')"
    by (rule new_id_wp [OF start(1)]) (simp add: inv_of_global [OF _ start(3,2)])
  show "inv (free_invoke_id ii c)" by (rule inv_of_global [OF focus_free_id [OF start(1)] start(3,2)])
qed

lemma alloc_focus: "foc as gl a p c \<Longrightarrow> l3_alloc_skb d (l3_kenv c) = (r, e) \<Longrightarrow> foc as gl a p (c\<lparr>l3_kenv := e\<rparr>)"
  using alloc_wp [of as gl a p c "\<lambda>_ c. Some c" "foc as gl a p" d]
  by (simp add: alloc_then_def split: option.splits)

text \<open>The process of an operation, from its message on.\<close>

lemma invoke_process_ok:
  assumes "foc as gl a p c" "p_soft p" "p_state p = 0" "\<not> lt_pending (p_timer p)"
  shows "wpo (do {
      c \<leftarrow> pc_mod a (\<lambda>p. p\<lparr>p_ll_id := ll, p_proc := pr\<rparr>) c;
      let (skb, e) = l3_alloc_skb d (l3_kenv c);
      let c = c\<lparr>l3_kenv := e\<rparr>;
      case skb of
        None \<Rightarrow> do { c \<leftarrow> dss1_release_l3_process up a (free_invoke_id ii c); Some (x, y, c) }
      | Some skb \<Rightarrow> do {
          c \<leftarrow> pc_mod a (\<lambda>p. p\<lparr>p_invoke_id := ii\<rparr>) c;
          c \<leftarrow> add_timer a ms (CC_TDSS1_IO, REQUEST) c;
          c \<leftarrow> l3_send up skb c;
          Some (x', y', c)
        }
    }) (\<lambda>(r, ll, c). inv c)"
proof -
  let ?p = "p\<lparr>p_ll_id := ll, p_proc := pr\<rparr>"
  have soft: "p_soft ?p" using assms(2) by (simp add: p_soft_def f_shape_def p_strings_def p_event_def)
  have body: "wpo (let (skb, e) = l3_alloc_skb d (l3_kenv c); c = c\<lparr>l3_kenv := e\<rparr> in
      case skb of
        None \<Rightarrow> do { c \<leftarrow> dss1_release_l3_process up a (free_invoke_id ii c); Some (x, y, c) }
      | Some skb \<Rightarrow> do {
          c \<leftarrow> pc_mod a (\<lambda>p. p\<lparr>p_invoke_id := ii\<rparr>) c;
          c \<leftarrow> add_timer a ms (CC_TDSS1_IO, REQUEST) c;
          c \<leftarrow> l3_send up skb c;
          Some (x', y', c)
        }) (\<lambda>(r, ll, c). inv c)" if c: "foc as gl a ?p c" for c
  proof -
    obtain r e where e: "l3_alloc_skb d (l3_kenv c) = (r, e)" by (cases "l3_alloc_skb d (l3_kenv c)")
    note c' = alloc_focus [OF c e]
    show ?thesis
      unfolding e Let_def prod.case
      apply (rule wp_option, unfold wpo_bind)
       apply (rule release_soft_wp [OF focus_free_id [OF c'] soft], simp)
      apply (rule mod_wp [OF c'], simp, erule add_timer_wp, erule send_wp, rule wp_Some)
      apply (unfold prod.case, erule inv_of, erule kept_ok, rule untimed_ok, simp add: assms(3))
      apply (rule soft_timer, use soft in simp_all)
      done
  qed
  show ?thesis
    unfolding wpo_bind by (rule mod_wp [OF assms(1)], simp, rule body)
qed

lemma cmd_invoke_ok:
  assumes "inv c" "cmd_fits (DSS1_CMD_INVOKE io)"
  shows "wpo (l3dss1_cmd_invoke up io c) (\<lambda>(r, ll, c). inv c)"
proof -
  have io: "0 < io_timeout io" "0 \<le> io_proc io" "io_proc io < 256" "io_datalen io \<le> int (length (io_data io))"
    using assms(2) by (simp_all add: cmd_fits_def)
  have data: "nat (io_datalen io) \<le> length (io_data io)" using io(4) by simp
  have keep: "wpo (Some (r, y, c)) (\<lambda>(r, ll, c). inv c)" if "inv c" for r :: int and y :: int and c
    using that by simp
  have new: "wpo (let (pc, c) = (if io_timeout io > 0 then dss1_new_l3_process (-1) c else (None, c)) in
      if io_timeout io > 0 \<and> pc = None then Some (-2, io_hl_id io, free_invoke_id ii c)
      else do {
        a \<leftarrow> pc;
        c \<leftarrow> pc_mod a (\<lambda>p. p\<lparr>p_ll_id := io_ll_id io, p_proc := io_proc io\<rparr>) c;
        let (skb, e) = l3_alloc_skb d (l3_kenv c);
        let c = c\<lparr>l3_kenv := e\<rparr>;
        case skb of
          None \<Rightarrow> do {
            c \<leftarrow> dss1_release_l3_process up a (free_invoke_id ii c);
            Some (-2, io_hl_id io, c)
          }
        | Some skb \<Rightarrow> do {
            c \<leftarrow> pc_mod a (\<lambda>p. p\<lparr>p_invoke_id := ii\<rparr>) c;
            c \<leftarrow> add_timer a (io_timeout io) (CC_TDSS1_IO, REQUEST) c;
            c \<leftarrow> l3_send up skb c;
            Some (0, uint ii, c)
          }
      }) (\<lambda>(r, ll, c). inv c)" (is "wpo (Let _ ?f) ?Q") if "inv c" for c ii d
  proof -
    have "wpo (?f (dss1_new_l3_process (-1) c)) ?Q"
      by (rule new_process_wp [OF that, where Q = "\<lambda>r. wpo (?f r) ?Q"])
        (simp_all add: io(1) inv_invoke_id(2) invoke_process_ok [simplified])
    then show ?thesis using io(1) by simp
  qed
  show ?thesis
    unfolding l3dss1_cmd_invoke_def proc_len_one [OF io(2,3)] bind.bind_lunit
    apply (intro wp_if keep assms(1), unfold wpo_bind)
    apply (rule wpo_mono [OF inv_invoke_id(1) [OF assms(1)]], clarify)
    apply (rule wp_if, erule keep, unfold wpo_bind)
    apply (rule rd_list_wp, simp add: data)
    apply (erule new)
    done
qed

lemma cmd_ok:
  assumes "inv c" "cmd_fits cmd"
  shows "wpo (l3dss1_cmd_global up cmd c) (\<lambda>(r, ll, c). inv c)"
proof (cases cmd)
  case (DSS1_CMD_INVOKE io)
  then show ?thesis using cmd_invoke_ok [OF assms(1)] assms(2) by (simp add: l3dss1_cmd_global_def)
next
  case (DSS1_CMD_INVOKE_ABORT io)
  have "wpo (l3dss1_cmd_abort up io c) (\<lambda>(r, ll, c). inv c)"
    unfolding l3dss1_cmd_abort_def
  proof (rule wp_option)
    fix a
    assume "l3dss1_search_dummy_proc (io_hl_id io) c = Some a"
    then obtain p where p: "p \<in> set (l3_proc c)" "p_addr p = a" using search_dummy by blast
    note start = focus_start [OF assms(1) p(1), unfolded p(2)]
    show "wpo (do { c \<leftarrow> del_timer a c; c \<leftarrow> dss1_release_l3_process up a c; Some (0, io_hl_id io, c) })
        (\<lambda>(r, ll, c). inv c)"
      unfolding wpo_bind
      by (rule del_timer_wp [OF start(1)], erule release_soft_wp)
        (simp_all add: soft_del ok_soft [OF start(2)])
  qed (simp add: assms(1))
  then show ?thesis using DSS1_CMD_INVOKE_ABORT by (simp add: l3dss1_cmd_global_def)
next
  case DSS1_CMD_OTHER
  then show ?thesis using assms(1) by (simp add: l3dss1_cmd_global_def)
qed

end

end
