(* ===== verification/Hisax_Dss1_Now.thy ===== *)
theory Hisax_Dss1_Now
  imports Hisax_Dss1_Rcv
begin

text \<open>
  Where it matters that call control answers before \<open>l3l4\<close> returns. All handlers of DSS1 but one touch
  the process after \<open>l3l4\<close> only when no answer can have released it; \<open>l3dss1_information\<close> starts T302
  after it has passed on digits of a call in state 25, which call control may ignore.
\<close>

lemma information_now_later: "l3dss1_information_now Some up a d sz c = l3dss1_information up a d sz c"
  by (simp add: l3dss1_information_now_def l3dss1_information_def)

context dss1_calls
begin

lemma gone_global_wp:
  assumes "foc as gl a p c" "a \<in> set as"
  shows "wpo (dss1_release_l3_process up a c) (\<lambda>c'. pc_get a c' = None)"
  unfolding dss1_release_l3_process_def wpo_bind
proof (rule get_wp [OF assms(1)], rule wpo_mono [OF release_law], goal_cases)
  case (3 c')
  let ?c = "free_invoke_id (p_invoke_id p) c"
  have "foc as gl a p ?c" by (rule focus_free_id [OF assms(1)])
  then have c: "l3_ok ?c" "a \<in> set (l3_addrs ?c)" using assms(2) by (simp_all add: focus_def)
  have eq: "l3_proc c' = remove_proc a (l3_proc ?c)" "l3_global c' = l3_global ?c" using 3 by simp_all
  have glob: "p_addr g \<noteq> a" if "l3_global ?c = Some g" for g
    using c that by (auto simp: l3_ok_def)
  have gone: "find (\<lambda>p. p_addr p = a) (remove_proc a (l3_proc ?c)) = None"
    by (simp add: remove_proc_def find_None_iff)
  show ?case
    unfolding pc_get_def eq gone using glob by (cases "l3_global ?c") simp_all
qed (use focus_free_id [OF assms(1), of "p_invoke_id p"] in \<open>simp_all add: focus_def\<close>)

lemma ignored_wp:
  assumes "foc as gl a p c" "a \<in> set as" "p_state p = 25"
  shows "wpo (dss1down up (CC_IGNORE, REQUEST) (ArgProc a) c) (\<lambda>c'. pc_get a c' = None)"
proof -
  have "pc_get a c = Some p" using assms(1) by (simp add: focus_def)
  then have "dss1down up (CC_IGNORE, REQUEST) (ArgProc a) c = dss1_release_l3_process up a c"
    using assms(3) by (simp add: dss1down_def dss1down_proc_def find_entry_def downstatelist_def l3dss1_reset_def)
  then show ?thesis using gone_global_wp [OF assms(1,2)] by simp
qed

text \<open>The timer is then started in the freed process.\<close>

lemma information_now_faults:
  assumes "foc as gl a p c" "a \<in> set as" "p_ok m p" "msg_ok d sz" "p_state p = 25" "digits_fit d sz p"
    "find_ie d sz IE_CALLED_PN = Some (Some i)"
  shows "l3dss1_information_now (dss1down up (CC_IGNORE, REQUEST) (ArgProc a)) up a d sz c = None"
proof -
  obtain ret where ret: "check_infoelements d sz ie_INFORMATION = Some ret"
    using check_infoelements_wp [OF assms(4), of "\<lambda>_. True" ie_INFORMATION] by (auto simp: wpo_iff)
  have "wpo (if ret \<noteq> 0 then l3dss1_std_ie_err up a ret c else Some c) (\<lambda>c'. \<exists>q. foc as gl a q c' \<and> kept p q)"
    by (rule if_err_wp [OF assms(1)]) blast
  then obtain c1 q where c1: "(if ret \<noteq> 0 then l3dss1_std_ie_err up a ret c else Some c) = Some c1"
    "foc as gl a q c1" "kept p q" unfolding wpo_iff by blast
  have get: "pc_get a c1 = Some q" "p_state q = 25" "p_setup q = p_setup p"
    using c1(2) kept_sel [OF c1(3)] assms(5) by (simp_all add: focus_def)
  have "wpo (del_timer a c1) (foc as gl a (L3DelTimer q))" by (rule del_timer_wp [OF c1(2)])
  then obtain c2 where c2: "del_timer a c1 = Some c2" "foc as gl a (L3DelTimer q) c2" unfolding wpo_iff by blast
  obtain s arr where s: "iecpy d i 1 = Some s" "length s < 32" "strcat (su_eazmsn (p_setup q)) s = Some arr"
    using assms(6,7) get(3) by (auto simp: digits_fit_def split: option.splits)
  let ?f = "\<lambda>p. p\<lparr>p_setup := (p_setup p)\<lparr>su_eazmsn := arr\<rparr>\<rparr>"
  have "wpo (pc_mod a ?f c2) (foc as gl a (?f (L3DelTimer q)))"
    by (rule mod_wp [OF c2(2)]) simp_all
  then obtain c3 where c3: "pc_mod a ?f c2 = Some c3" "foc as gl a (?f (L3DelTimer q)) c3" unfolding wpo_iff by blast
  have "p_state (?f (L3DelTimer q)) = 25" using get(2) by (simp add: L3DelTimer_def)
  from ignored_wp [OF focus_l3l4 [OF c3(2)] assms(2) this]
  obtain c4 where c4: "dss1down up (CC_IGNORE, REQUEST) (ArgProc a) (l3l4 (CC_MORE_INFO, INDICATION) a c3) = Some c4"
    "pc_get a c4 = None" unfolding wpo_iff by blast
  have "add_timer a ms ev c4 = None" for ms ev using c4(2) by (simp add: add_timer_def pc_mod_def)
  then show ?thesis
    using s c4(1) get(2) unfolding l3dss1_information_now_def ret bind.bind_lunit c1(1) get(1) c2(1) assms(7)
    by (simp add: c2(1) assms(7) c3(1))
qed

end

end
