(* ===== verification/Hisax_Dss1_Link.thy ===== *)
theory Hisax_Dss1_Link
  imports Hisax_Dss1_Now
begin

text \<open>
  The link control of layer 3 and the DSS1 protocol call each other: the protocol sends through the
  link, the link tells the protocol when it comes up or goes down. The locale \<open>dss1_link\<close> takes
  only the calls to layer 2 as given and gives the contracts of both sides, level by level.
\<close>

text \<open>The fields of DSS1, as functions of what extends layer 3.\<close>

lemma more_dss1:
  fixes c c' :: "'z Dss1_scheme"
  assumes "Layer3.more c' = Layer3.more c"
  shows "d_last_invoke_id c' = d_last_invoke_id c" "d_invoke_used c' = d_invoke_used c"
    "d_OrigCallRef c' = d_OrigCallRef c" "d_chan c' = d_chan c" "d_garbage c' = d_garbage c"
    "d_out c' = d_out c" "Dss1.more c' = Dss1.more c"
  using assms by (cases c; cases c'; simp)+

definition dss1_same :: "'z Dss1_scheme \<Rightarrow> 'z Dss1_scheme \<Rightarrow> bool" where
  "dss1_same c c' \<longleftrightarrow> l3_same c c' \<and> d_invoke_used c' = d_invoke_used c \<and> d_chan c' = d_chan c"

lemma dss1_good_same: "dss1_same c c' \<Longrightarrow> low c' \<Longrightarrow> dss1_good low m c \<Longrightarrow> dss1_good low m c'"
  by (simp add: dss1_same_def l3_same_def dss1_good_def)

locale dss1_link =
  fixes dn :: "'z Dss1_scheme l3_ops"
    and low :: "'z Dss1_scheme \<Rightarrow> bool"
    and sent :: "'z Dss1_scheme \<Rightarrow> sk_buff list"
    and m :: bool
  assumes dn_ok:
      "\<And>pr skb c. low c \<Longrightarrow> l3l2_call pr skb \<Longrightarrow>
         wpo (op_l3l2 dn pr skb c)
           (\<lambda>c'. low c' \<and> dss1_same c c' \<and>
              sent c' = sent c @ (if pr = (DL_DATA, REQUEST) then [the skb] else []))"
    and low_cong: "\<And>c c'. Dss1.more c' = Dss1.more c \<Longrightarrow> low c' = low c"
    and sent_cong: "\<And>c c'. Dss1.more c' = Dss1.more c \<Longrightarrow> sent c' = sent c"
begin

lemma op_l3l2_ops [simp]: "op_l3l2 (dss1_ops dn n) = op_l3l2 dn"
  by (cases n) simp_all

end

sublocale dss1_link \<subseteq> link: l3_link "dss1_ops dn n" "dss1_good low m" sent for n
proof (unfold_locales, goal_cases)
  case (1 pr skb c)
  have "low c" using 1(1) by (simp add: dss1_good_def)
  from dn_ok [OF this 1(2)] show ?case
    unfolding op_l3l2_ops
    by (rule wpo_mono) (use 1(1) dss1_good_same [of c _ low m] in \<open>auto simp: dss1_same_def\<close>)
next
  case (2 c c')
  have "low c' = low c" by (rule low_cong) (rule more_dss1(7) [OF 2(1)])
  then show ?case using more_dss1 [OF 2(1)] 2(2,3) by (simp add: dss1_good_def)
next
  case (3 c c')
  then show ?case by (rule sent_cong [OF more_dss1(7)])
qed

sublocale dss1_link \<subseteq> est: dss1_send low m "\<lambda>st. st = ST_L3_LC_ESTAB" "dss1_ops dn n" for n
proof (unfold_locales, goal_cases)
  case (1 c c')
  then show ?case by (rule low_cong)
next
  case (2 skb c)
  show ?case
  proof (rule wpo_mono [OF link.l3_msg_data_estab [OF 2(1,3)]])
    fix c'
    assume c': "dss1_good low m c' \<and> l3_same c c' \<and> sent c' = sent c @ [skb]"
    then have "l3_ok c'" using 2(2) l3_ok_same by blast
    then show "dss1_good low m c' \<and> l3_ok c' \<and> l3_m_state c' = ST_L3_LC_ESTAB \<and>
        list_all2 conf (l3_proc c) (l3_proc c') \<and> l3_global c' = l3_global c"
      using c' 2(3) by (simp add: l3_same_def list_all2_refl)
  qed
qed

sublocale dss1_link \<subseteq> rel: dss1_focus low m "\<lambda>st. st = ST_L3_LC_REL \<or> st = ST_L3_LC_ESTAB_WAIT"
  by unfold_locales (rule low_cong)

context dss1_link
begin

lemma man_step: "op_l3ml3 (dss1_ops dn (Suc n)) = dss1man (dss1_ops dn n)"
  by simp

text \<open>The answers of the calls when the link changes.\<close>

lemma man_entry:
  "find_entry (manstatelist up) (DL_ESTABLISH, CONFIRM) st =
     (if st = 10 then Some (l3dss1_dl_reest_status up) else None)"
  "find_entry (manstatelist up) (DL_ESTABLISH, INDICATION) st =
     (if st = 2 then Some (l3dss1_dl_reset up) else None)"
  "find_entry (manstatelist up) (DL_RELEASE, CONFIRM) st = None"
  "st < 26 \<Longrightarrow> find_entry (manstatelist up) (DL_RELEASE, INDICATION) st =
     (if st = 10 then Some (l3dss1_dl_reestablish up) else Some (l3dss1_dl_release up))"
  by (simp_all add: find_entry_def manstatelist_def ALL_STATES_def)

lemma pc_upd_global:
  assumes "l3_ok c" "a \<in> set (l3_addrs c)"
  shows "l3_global (pc_upd a f c) = l3_global c"
  using assms by (cases "l3_global c") (auto simp: pc_upd_def at_addr_def l3_ok_def)

lemma pc_upd_upd:
  assumes "\<And>p. p_addr (f p) = p_addr p"
  shows "pc_upd a g (pc_upd a f c) = pc_upd a (g \<circ> f) c"
proof -
  have "at_addr a g \<circ> at_addr a f = at_addr a (g \<circ> f)" using assms by (auto simp: at_addr_def)
  then show ?thesis by (simp add: pc_upd_def option.map_comp)
qed

lemma pc_upd_good: "dss1_good low m (pc_upd a f c) = dss1_good low m c"
  by (rule est.good_cong) simp_all

lemma man_confirm_ok:
  assumes "dss1_good low m c" "l3_ok c" "l3_m_state c = ST_L3_LC_ESTAB" "a \<in> set (l3_addrs c)"
  shows "wpo (dss1man (dss1_ops dn n) (DL_ESTABLISH, CONFIRM) a c)
    (\<lambda>c'. dss1_good low m c' \<and> l3_ok c' \<and> l3_m_state c' = ST_L3_LC_ESTAB \<and>
       list_all2 conf (l3_proc c) (l3_proc c') \<and> l3_global c' = l3_global c \<and>
       (\<exists>m. sent c' = sent c @ m))"
proof -
  obtain p where p: "p \<in> set (l3_proc c)" "p_addr p = a" using assms(4) by auto
  have get: "pc_get a c = Some p" using pc_get_mem [OF assms(2) p(1)] p(2) by simp
  let ?J = "\<lambda>c'. dss1_good low m c' \<and> l3_ok c' \<and> l3_m_state c' = ST_L3_LC_ESTAB \<and>
       list_all2 conf (l3_proc c) (l3_proc c') \<and> l3_global c' = l3_global c \<and>
       (\<exists>m. sent c' = sent c @ m)"
  let ?f = "\<lambda>p. (L3DelTimer p)\<lparr>p_cause := 0x1F\<rparr>"
  show ?thesis
  proof (cases "p_state p = 10")
    case False
    then show ?thesis using get assms by (simp add: dss1man_def man_entry list_all2_refl)
  next
    case True
    let ?c = "pc_upd a ?f c"
    have two: "pc_upd a (\<lambda>p. p\<lparr>p_cause := 0x1F\<rparr>) (pc_upd a L3DelTimer c) = ?c"
      by (subst pc_upd_upd) (simp_all add: L3DelTimer_def comp_def)
    have addr: "p_addr (?f q) = p_addr q" for q by (simp add: L3DelTimer_def)
    have get': "pc_get a ?c = Some (?f p)" using pc_get_upd [of ?f a c, OF addr] get by simp
    have "list_all2 conf (l3_proc c) (map (at_addr a ?f) (l3_proc c))"
    proof -
      have "conf q (at_addr a ?f q)" if "q \<in> set (l3_proc c)" for q
        using pc_get_mem [OF assms(2) that] get True by (auto simp: at_addr_def conf_def)
      then show ?thesis by (auto simp: list_all2_map2 intro: list.rel_refl_strong)
    qed
    then have J: "?J ?c"
      using assms pc_upd_l3_ok [OF assms(2) addr] pc_upd_global [OF assms(2,4)] sent_cong [of ?c c]
      by (simp add: pc_upd_good) (simp add: pc_upd_def)
    have send: "wpo (l3_msg (dss1_ops dn n) (DL_DATA, REQUEST) (Some skb) c1) ?J" if c1: "?J c1" for c1 skb
    proof (rule wpo_mono [OF link.l3_msg_data_estab])
      fix c'
      assume c': "dss1_good low m c' \<and> l3_same c1 c' \<and> sent c' = sent c1 @ [skb]"
      moreover have "l3_ok c'" using c1 c' l3_ok_same by blast
      ultimately show "?J c'" using c1 by (auto simp: l3_same_def)
    qed (use c1 in auto)
    have "wpo (alloc_then d (l3_send (dss1_ops dn n)) ?c) ?J" for d
    proof -
      obtain ok e where e: "k_alloc (l3_kenv ?c) = (ok, e)" by (cases "k_alloc (l3_kenv ?c)")
      have "mem_ok (l3_kenv ?c)" if m using J that by (simp add: dss1_good_def)
      then have "m \<longrightarrow> mem_ok e" using mem_ok_alloc [of "l3_kenv ?c"] unfolding e by simp
      then have "dss1_good low m (?c\<lparr>l3_kenv := e\<rparr>)"
        using J low_cong [of "?c\<lparr>l3_kenv := e\<rparr>" ?c] by (simp add: dss1_good_def)
      moreover have "l3_ok (?c\<lparr>l3_kenv := e\<rparr>) = l3_ok ?c" by (rule l3_ok_cong) simp_all
      moreover have "sent (?c\<lparr>l3_kenv := e\<rparr>) = sent ?c" by (rule sent_cong) simp
      ultimately have "?J (?c\<lparr>l3_kenv := e\<rparr>)" using J by simp
      then show ?thesis using e send by (cases ok) (simp_all add: alloc_then_def l3_alloc_skb_def)
    qed
    then have "wpo (l3dss1_status_send (dss1_ops dn n) a ?c) ?J"
      using get' by (simp add: l3dss1_status_send_def)
    moreover have "pc_get a (pc_upd a L3DelTimer c) = Some (L3DelTimer p)"
      using pc_get_upd [of L3DelTimer a c] get by (simp add: L3DelTimer_def)
    ultimately show ?thesis
      using get True two get' by (simp add: dss1man_def man_entry l3dss1_dl_reest_status_def pc_mod_def)
  qed
qed

text \<open>What the protocol needs of the global process: it is there, with its arrays.\<close>

abbreviation ginv :: "l3_process option \<Rightarrow> bool" where
  "ginv g \<equiv> \<exists>x. g = Some x \<and> f_shape x"

lemma man_indicate_ok:
  assumes "dss1_good low m c" "l3_ok c" "l3_m_state c = ST_L3_LC_ESTAB" "a \<in> set (l3_addrs c)"
    "list_all (p_ok m) (l3_proc c)" "ginv (l3_global c)"
  shows "wpo (dss1man (dss1_ops dn n) (DL_ESTABLISH, INDICATION) a c)
    (\<lambda>c'. dss1_good low m c' \<and> l3_ok c' \<and> l3_m_state c' = ST_L3_LC_ESTAB \<and>
       l3_addrs c' = l3_addrs c \<and> list_all (p_ok m) (l3_proc c') \<and> l3_global c' = l3_global c)"
proof -
  obtain p where p: "p \<in> set (l3_proc c)" "p_addr p = a" using assms(4) by auto
  have inv: "est.inv c" using assms by (simp add: dss1_inv_def)
  note start = est.focus_start [OF inv p(1), unfolded p(2)]
  have fin: "dss1_good low m c' \<and> l3_ok c' \<and> l3_m_state c' = ST_L3_LC_ESTAB \<and>
       l3_addrs c' = l3_addrs c \<and> list_all (p_ok m) (l3_proc c') \<and> l3_global c' = l3_global c"
    if "est.foc (l3_addrs c) (l3_global c) a q c'" "p_ok m q" for q c'
    using est.done_wp [OF that(1) _ that(2)] soft_shape [OF ok_soft [OF that(2)]] assms(4)
    by (simp add: dss1_inv_def)
  have reset: "wpo (l3dss1_dl_reset (dss1_ops dn n) a c) (\<lambda>c'. dss1_good low m c' \<and> l3_ok c' \<and>
      l3_m_state c' = ST_L3_LC_ESTAB \<and> l3_addrs c' = l3_addrs c \<and> list_all (p_ok m) (l3_proc c') \<and>
      l3_global c' = l3_global c)"
    unfolding l3dss1_dl_reset_def wpo_bind
    apply (rule est.timed_out_wp [OF start(1)])
    apply (erule est.disconnect_req_wp, simp add: ok_soft [OF start(2)])
    apply (rule wp_Some, rule fin, erule est.focus_l3l4, assumption)
    done
  have "pc_get a c = Some p" using start(1) by (simp add: focus_def)
  then show ?thesis using reset fin [OF start] by (simp add: dss1man_def man_entry)
qed

lemma man_release_ok:
  assumes "dss1_good low m c" "l3_ok c" "l3_m_state c \<in> {ST_L3_LC_REL, ST_L3_LC_ESTAB_WAIT}"
    "a \<in> set (l3_addrs c)" "list_all (p_ok m) (l3_proc c)" "ginv (l3_global c)"
    "pr \<in> {(DL_RELEASE, INDICATION), (DL_RELEASE, CONFIRM)}"
  shows "wpo (dss1man (dss1_ops dn n) pr a c)
    (\<lambda>c'. dss1_good low m c' \<and> l3_ok c' \<and>
       (l3_m_state c' \<in> {ST_L3_LC_REL, ST_L3_LC_ESTAB_WAIT} \<or>
        l3_m_state c' = ST_L3_LC_REL_DELAY \<and> l3_proc c' = []) \<and>
       l3_addrs c' \<in> {l3_addrs c, remove1 a (l3_addrs c)} \<and> list_all (p_ok m) (l3_proc c') \<and>
       l3_global c' = l3_global c)" (is "wpo _ ?J")
proof -
  obtain p where p: "p \<in> set (l3_proc c)" "p_addr p = a" using assms(4) by auto
  have inv: "rel.inv c" using assms by (simp add: dss1_inv_def)
  note start = rel.focus_start [OF inv p(1), unfolded p(2)]
  have get: "pc_get a c = Some p" using start(1) by (simp add: focus_def)
  have st: "p_state p < 26"
    using ok_soft [OF start(2)] by (auto simp: p_soft_def valid_state_def l3_valid_states_def)
  have again: "wpo (l3dss1_dl_reestablish (dss1_ops dn n) a c) ?J" if "p_state p = 10"
    unfolding l3dss1_dl_reestablish_def wpo_bind
  proof (rule rel.del_timer_wp [OF start(1)], erule rel.add_timer_wp)
    fix c1 x
    assume c1: "rel.foc (l3_addrs c) (l3_global c) a (timer_on x (CC_T309, REQUEST) (L3DelTimer p)) c1"
    have "p_ok m (timer_on x (CC_T309, REQUEST) (L3DelTimer p))"
      using that by (intro untimed_ok soft_timer soft_del ok_soft [OF start(2)]) simp_all
    then have d: "rel.inv c1 \<and> l3_addrs c1 = l3_addrs c \<and> l3_global c1 = l3_global c"
      using rel.done_wp [OF c1] soft_shape [OF ok_soft] assms(4) by blast
    show "wpo (l3_msg (dss1_ops dn n) (DL_ESTABLISH, REQUEST) None c1) ?J"
      by (rule wpo_mono [OF link.l3_msg_establish_down])
        (use d in \<open>auto simp: dss1_inv_def procs_same_def\<close>)
  qed
  have gone: "wpo (l3dss1_dl_release (dss1_ops dn n) a c) ?J"
    unfolding l3dss1_dl_release_def wpo_bind
  proof (rule rel.new_state_wp [OF start(1)], erule rel.timed_out_wp, drule rel.focus_l3l4)
    fix c1
    assume c1: "rel.foc (l3_addrs c) (l3_global c) a (newl3state 0 p\<lparr>p_loc := 0, p_cause := 0x1b\<rparr>)
        (l3l4 (CC_RELEASE, INDICATION) a c1)"
    let ?c = "l3l4 (CC_RELEASE, INDICATION) a c1"
    have "p_ok m (newl3state 0 p\<lparr>p_loc := 0, p_cause := 0x1b\<rparr>)"
      by (rule untimed_ok) (simp_all add: soft_state ok_soft [OF start(2)])
    then have d: "rel.inv ?c \<and> l3_addrs ?c = l3_addrs c \<and> l3_global ?c = l3_global c"
      using rel.done_wp [OF c1] soft_shape [OF ok_soft] assms(4) by blast
    show "wpo (release_l3_process (dss1_ops dn n) a ?c) ?J"
    proof (rule wpo_mono [OF link.release_l3_process_ok], goal_cases)
      case (3 c')
      have "l3_addrs c' = remove1 a (l3_addrs c)"
      proof -
        have "distinct (l3_addrs ?c)" using d unfolding dss1_inv_def l3_ok_def by blast
        from link.remove_addrs [OF this] show ?thesis using 3 d by metis
      qed
      moreover have "list_all (p_ok m) (l3_proc c')"
        using 3 d by (auto simp: dss1_inv_def list_all_iff remove_proc_def)
      ultimately show ?case using 3 d by (auto simp: dss1_inv_def)
    qed (use d in \<open>auto simp: dss1_inv_def\<close>)
  qed
  show ?thesis
    using assms(7) get again gone assms
    by (auto simp: dss1man_def man_entry(3) man_entry(4) [OF st])
qed

end

sublocale dss1_link \<subseteq> client: l3_client "dss1_ops dn (Suc n)" "dss1_good low m" sent "p_ok m" conf
    "\<lambda>g. \<exists>x. g = Some x \<and> f_shape x" for n
proof (unfold_locales, goal_cases)
  case (1 a c)
  show ?case using man_confirm_ok [OF 1] by simp
next
  case (2 a c)
  show ?case using man_indicate_ok [OF 2] by simp
next
  case (3 pr a c)
  show ?case using man_release_ok [OF 3] by simp
qed (auto intro: conf_trans conf_sel conf_ok)

sublocale dss1_link \<subseteq> calls: dss1_calls low m "dss1_ops dn (Suc n)" for n
proof (unfold_locales, goal_cases)
  case (1 skb c)
  show ?case by (rule wpo_mono [OF client.l3_msg_data_ok [OF 1(1,2)]]) (auto simp: client.l3_down_def)
next
  case (2 c a)
  show ?case by (rule wpo_mono [OF link.release_l3_process_ok [OF 2]]) simp
qed

end
