(* ===== verification/Hisax_Stack.thy ===== *)
theory Hisax_Stack
  imports Hisax_Dss1_Link Hisax_Card
begin

text \<open>
  A D channel stack from layer 1 up to the DSS1 protocol: the instance on which the contracts of
  layer 3 and of the protocol are proved. Layer 2 is that of the stack \<open>ds_i\<close> of the card. What the
  layers below hand up comes in a step of its own, and so do the requests of call control.
\<close>

subsection \<open>The stack\<close>

record DStack = Dss1 +
  ds_card :: DCard
  ds_i :: nat
  ds_sent :: "sk_buff list"

definition dstack_l2 :: "DStack \<Rightarrow> Layer2" where
  "dstack_l2 c = stk_l2 (stlist (dc_card (ds_card c)) ! ds_i c)"

definition dstack_dn :: "DStack l3_ops" where
  "dstack_dn =
    \<lparr>op_l3l2 = (\<lambda>pr skb c. do {
       k \<leftarrow> on_card (stack_l2 (ds_i c) (isdnl2_l3l2 pr (l2arg_of skb))) (ds_card c);
       Some (c\<lparr>ds_card := k,
               ds_sent := ds_sent c @ (if pr = (DL_DATA, REQUEST) then [the skb] else [])\<rparr>)
     }),
     op_l3ml3 = (\<lambda>pr a c. None),
     op_l2flag = (\<lambda>f c. test_bit f (dstack_l2 c))\<rparr>"

text \<open>Two levels: a handler of the protocol sends, and the link may tell the protocol.\<close>

definition dstack_ops :: "DStack l3_ops" where
  "dstack_ops = dss1_ops dstack_dn 1"

definition dstack_low :: "DStack \<Rightarrow> bool" where
  "dstack_low c \<longleftrightarrow> dcard_inv (ds_card c) \<and> ds_i c < length (l1_st (ds_card c))"

lemma dstack_more:
  assumes "Dss1.more c' = Dss1.more c"
  shows "ds_card c' = ds_card c" "ds_i c' = ds_i c" "ds_sent c' = ds_sent c"
  using assms by (cases c; cases c'; simp)+

lemma l3l2_call_arg: "l3l2_call pr skb \<Longrightarrow> l2_prim_arg pr (l2arg_of skb) \<and> pr \<noteq> (MDL_ASSIGN, REQUEST)"
  by (auto simp: l3l2_call_def l2_prim_arg_def l2arg_of_def)

lemma card_l3l2_ok:
  assumes "dcard_inv k" "i < length (l1_st k)" "l2_prim_arg pr arg" "pr \<noteq> (MDL_ASSIGN, REQUEST)"
  shows "wpo (on_card (stack_l2 i (isdnl2_l3l2 pr arg)) k)
    (\<lambda>k'. dcard_inv k' \<and> length (l1_st k') = length (l1_st k))"
proof -
  have "wpo (stack_l2 i (isdnl2_l3l2 pr arg) (dc_card k)) (tei_post (dc_card k))"
    by (rule stack_l2_ok) (use assms in \<open>simp_all add: dcard_inv_def dcard_good_def l2_steps_tei(2)\<close>)
  moreover have "dcard_good k" using assms(1) by (simp add: dcard_inv_def)
  ultimately have "wpo (on_card (stack_l2 i (isdnl2_l3l2 pr arg)) k)
      (\<lambda>k'. dcard_good k' \<and> l1_st k' = l1_st k \<and> l1_rq k' = l1_rq k)"
    by (rule on_card_ok [rotated])
  then show ?thesis by (rule wpo_mono) (use assms(1) in \<open>simp add: dcard_inv_def\<close>)
qed

lemma dstack_dn_ok:
  assumes "dstack_low c" "l3l2_call pr skb"
  shows "wpo (op_l3l2 dstack_dn pr skb c) (\<lambda>c'. dstack_low c' \<and> dss1_same c c' \<and>
    ds_sent c' = ds_sent c @ (if pr = (DL_DATA, REQUEST) then [the skb] else []))"
proof -
  have arg: "l2_prim_arg pr (l2arg_of skb)" "pr \<noteq> (MDL_ASSIGN, REQUEST)"
    using l3l2_call_arg [OF assms(2)] by simp_all
  have low: "dcard_inv (ds_card c)" "ds_i c < length (l1_st (ds_card c))"
    using assms(1) by (simp_all add: dstack_low_def)
  from card_l3l2_ok [OF low arg] obtain k where
    k: "on_card (stack_l2 (ds_i c) (isdnl2_l3l2 pr (l2arg_of skb))) (ds_card c) = Some k"
    "dcard_inv k" "length (l1_st k) = length (l1_st (ds_card c))"
    by (auto simp: wpo_iff)
  show ?thesis
    using k low(2) by (simp add: dstack_dn_def dstack_low_def dss1_same_def l3_same_def)
qed

lemma dstack_link: "dss1_link dstack_dn dstack_low ds_sent"
proof (rule dss1_link.intro, goal_cases)
  case (1 pr skb c)
  then show ?case by (rule dstack_dn_ok)
next
  case (2 c c')
  then show ?case by (simp add: dstack_low_def dstack_more [OF 2])
next
  case (3 c c')
  then show ?case by (rule dstack_more(3))
qed

interpretation dstack: dss1_link dstack_dn dstack_low ds_sent m for m
  by (rule dstack_link)

subsection \<open>What happens to a stack\<close>

text \<open>
  Layer 2 hands up a message with memory \<open>pad\<close> behind it, or says that the link is up or down. Call
  control makes requests, gives a call its channel and cause, and fills the setup of a channel. The
  messages of the network are those that \<open>frame_ok\<close> admits.
\<close>

inductive dstack_step :: "DStack \<Rightarrow> DStack option \<Rightarrow> bool" where
  below: "dcard_step (ds_card c) (Some k) \<Longrightarrow> dstack_step c (Some (c\<lparr>ds_card := k\<rparr>))"
| message: "L2L3 pr (Some skb) \<in> set (l2_outs (dstack_l2 c)) \<Longrightarrow>
     pr \<in> {(DL_DATA, INDICATION), (DL_UNIT_DATA, INDICATION)} \<Longrightarrow>
     frame_ok (skb_bytes skb @ pad) (length (skb_bytes skb)) c \<Longrightarrow>
     dstack_step c (dss1up dstack_ops pr (skb_bytes skb @ pad) (length (skb_bytes skb)) c)"
| link: "L2L3 pr None \<in> set (l2_outs (dstack_l2 c)) \<Longrightarrow> pr \<noteq> (DL_DATA, INDICATION) \<Longrightarrow>
     pr \<noteq> (DL_UNIT_DATA, INDICATION) \<Longrightarrow> dstack_step c (dss1up dstack_ops pr [] 0 c)"
| call_timer: "p \<in> set (l3_proc c) \<Longrightarrow> dstack_step c (L3ExpireTimer dstack_ops (p_addr p) c)"
| link_timer: "dstack_step c (l3_expire dstack_ops c)"
| request: "request_ok pr arg c \<Longrightarrow> dstack_step c (dss1down dstack_ops pr arg c)"
| link_request: "dstack_step c (dss1down_link dstack_ops c)"
| operation: "cmd_fits cmd \<Longrightarrow> dstack_step c (map_option (snd \<circ> snd) (l3dss1_cmd_global dstack_ops cmd c))"
| user: "p \<in> set (l3_proc c) \<Longrightarrow>
     dstack_step c (Some (pc_upd (p_addr p) (\<lambda>p. p\<lparr>p_chan := x, p_cause := y\<rparr>) c))"
| channel: "chan_ok ch \<Longrightarrow> dstack_step c (Some (c\<lparr>d_chan := (d_chan c)(k := ch)\<rparr>))"

text \<open>A stack as the kernel sets it up; \<open>m\<close> says that no allocation will fail.\<close>

definition dstack_fresh :: "bool \<Rightarrow> DStack \<Rightarrow> bool" where
  "dstack_fresh m c \<longleftrightarrow> dcard_reach (ds_card c) \<and> ds_i c < length (l1_st (ds_card c)) \<and>
     (m \<longrightarrow> mem_ok (l3_kenv c)) \<and> (\<forall>a. f_shape (l3_fresh c a)) \<and> (\<forall>k. chan_ok (d_chan c k)) \<and>
     fst (k_alloc (l3_kenv c)) \<and> l3_protocol c \<noteq> ISDN_PTYPE_NI1"

definition dstack_boot :: "DStack \<Rightarrow> DStack" where
  "dstack_boot c = setstack_dss1 (setstack_l3dc c)"

inductive dstack_reach :: "bool \<Rightarrow> DStack \<Rightarrow> bool" for m where
  boot: "dstack_fresh m c \<Longrightarrow> dstack_reach m (dstack_boot c)"
| step: "dstack_reach m c \<Longrightarrow> dstack_step c (Some c') \<Longrightarrow> dstack_reach m c'"

inductive_cases dstack_stepE: "dstack_step c r"

subsection \<open>The invariant\<close>

abbreviation dstack_inv :: "bool \<Rightarrow> DStack \<Rightarrow> bool" where
  "dstack_inv m \<equiv> dss1_inv dstack_low m (\<lambda>_. True)"

lemma dstack_ops_Suc: "dstack_ops = dss1_ops dstack_dn (Suc 0)"
  by (simp add: dstack_ops_def)

lemma dstack_client_inv: "dstack_inv m c \<longleftrightarrow> (\<exists>g. dstack.client.l3_inv m g c)"
  by (auto simp: dss1_inv_def dstack.client.l3_inv_def)

lemma dstack_boot_inv:
  assumes "dstack_fresh m c"
  shows "dstack_inv m (dstack_boot c)"
proof -
  let ?k = "l3_kenv c" and ?a = "l3_next_addr c"
  have f: "dcard_inv (ds_card c)" "ds_i c < length (l1_st (ds_card c))" "m \<longrightarrow> mem_ok ?k"
    "\<forall>a. f_shape (l3_fresh c a)" "\<forall>k. chan_ok (d_chan c k)" "fst (k_alloc ?k)" "l3_protocol c \<noteq> ISDN_PTYPE_NI1"
    using assms by (simp_all add: dstack_fresh_def dcard_reach_inv)
  have inv1: "invoke_ok (1 # replicate 31 0)" by (simp add: invoke_ok_def invoke_bit_def)
  obtain k' where k': "k_alloc ?k = (True, k')" using f(6) by (cases "k_alloc ?k") auto
  have mem: "m \<longrightarrow> mem_ok k'" using f(3) mem_ok_alloc [of ?k] k' by auto
  show ?thesis
    using f inv1 mem k'
    by (simp add: dstack_boot_def setstack_dss1_def setstack_l3dc_def Let_def dss1_inv_def dss1_good_def
        dstack_low_def l3_ok_def L3InitTimer_def FsmInitTimer_def f_shape_def)
qed

text \<open>No step of the stack faults, and each keeps the stack sound.\<close>

lemma dss1up_link_ok:
  assumes "dstack_inv m c" "pr \<noteq> (DL_DATA, INDICATION)" "pr \<noteq> (DL_UNIT_DATA, INDICATION)"
  shows "wpo (dss1up dstack_ops pr d sz c) (dstack_inv m)"
proof -
  obtain g where g: "dstack.client.l3_inv m g c" using assms(1) by (auto simp: dstack_client_inv)
  have "wpo (l3_msg dstack_ops pr None c) (dstack_inv m)"
    if "pr \<in> {(DL_ESTABLISH, CONFIRM), (DL_ESTABLISH, INDICATION), (DL_RELEASE, INDICATION), (DL_RELEASE, CONFIRM)}"
    unfolding dstack_ops_Suc
    by (rule wpo_mono [OF dstack.client.l3_msg_ok [OF g]])
      (use that in \<open>auto simp: dstack_client_inv\<close>)
  then show ?thesis using assms by (simp add: dss1up_def)
qed

lemma dstack_step_ok: "dstack_step c r \<Longrightarrow> dstack_inv m c \<Longrightarrow> wpo r (dstack_inv m)"
proof (induction rule: dstack_step.induct)
  case (below c k)
  have "dcard_post (ds_card c) k"
    using dcard_step_ok [OF below(1)] below(2) by (simp add: dss1_inv_def dss1_good_def dstack_low_def)
  moreover have "l3_ok (c\<lparr>ds_card := k\<rparr>) = l3_ok c" by (rule l3_ok_cong) simp_all
  ultimately show ?case
    using below(2) by (simp add: dss1_inv_def dss1_good_def dstack_low_def dcard_post_def)
next
  case (message pr skb c pad)
  have "wpo (dss1_frame dstack_ops pr (skb_bytes skb @ pad) (length (skb_bytes skb)) c) (dstack_inv m)"
    unfolding dstack_ops_Suc by (rule dstack.calls.dss1_frame_ok [OF message(4,3)])
  then show ?case using message(2) by (auto simp: dss1up_def)
next
  case (link pr c)
  then show ?case by (intro dss1up_link_ok)
next
  case (call_timer p c)
  then show ?case unfolding dstack_ops_Suc by (intro dstack.calls.expire_ok)
next
  case (link_timer c)
  obtain g where "dstack.client.l3_inv m g c" using link_timer by (auto simp: dstack_client_inv)
  from dstack.client.l3_expire_ok [OF this] show ?case
    unfolding dstack_ops_Suc by (rule wpo_mono) (auto simp: dstack_client_inv)
next
  case (request pr arg c)
  then show ?case unfolding dstack_ops_Suc by (intro dstack.calls.dss1down_ok)
next
  case (link_request c)
  obtain g where "dstack.client.l3_inv m g c" using link_request by (auto simp: dstack_client_inv)
  then show ?case
    unfolding dstack_ops_Suc dss1down_link_def
    by (rule wpo_mono [OF dstack.client.l3_msg_ok]) (auto simp: dstack_client_inv)
next
  case (operation cmd c)
  have "wpo (l3dss1_cmd_global dstack_ops cmd c) (\<lambda>(r, ll, c). dstack_inv m c)"
    unfolding dstack_ops_Suc by (rule dstack.calls.cmd_ok [OF operation(2,1)])
  then show ?case by (auto simp: wpo_iff)
next
  case (user p c y x)
  note start = dstack.calls.focus_start [OF user(2,1)]
  have "wpo (pc_mod (p_addr p) (\<lambda>p. p\<lparr>p_chan := x, p_cause := y\<rparr>) c) (dstack_inv m)"
    by (rule dstack.calls.mod_wp [OF start(1)], simp, erule dstack.calls.inv_of)
      (use start(2) in \<open>simp add: p_ok_def p_soft_def f_shape_def p_strings_def p_event_def p_timed_def\<close>)
  then show ?case using start(1) by (simp add: pc_mod_def focus_def)
next
  case (channel ch c k)
  let ?c = "c\<lparr>d_chan := (d_chan c)(k := ch)\<rparr>"
  have "l3_ok ?c = l3_ok c" by (rule l3_ok_cong) simp_all
  then show ?case using channel by (simp add: dss1_inv_def dss1_good_def dstack_low_def)
qed

lemma dstack_reach_inv: "dstack_reach m c \<Longrightarrow> dstack_inv m c"
proof (induction rule: dstack_reach.induct)
  case (boot c)
  then show ?case by (rule dstack_boot_inv)
next
  case (step c c')
  then show ?case using dstack_step_ok [OF step(2)] by simp
qed

end
