(* ===== verification/Hisax_Stack_Props.thy ===== *)
theory Hisax_Stack_Props
  imports Hisax_Stack Hisax_Card_Props
begin

text \<open>
  What a stack from layer 1 to the DSS1 protocol guarantees: no fault, a timer for every call that
  waits, sound data, messages in order, a bounded release; and the RESTART message that breaks it.
\<close>

subsection \<open>A stack to apply the properties to\<close>

definition blank_proc :: l3_process where
  "blank_proc = \<lparr>p_addr = 0, p_callref = 0, p_state = 0,
     p_timer = \<lparr>lt_pending = False, lt_expires = 0, lt_event = (CC_SETUP, REQUEST)\<rparr>, p_N303 = 0,
     p_cause = 0, p_loc = 0, p_diag = replicate 6 0, p_bchannel = 0, p_chargeinfo = 0,
     p_setup = blank_setup, p_moderate = 0, p_chan = None, p_redir_result = 0, p_invoke_id = 0,
     p_ll_id = 0, p_remote_operation = 0, p_proc = 0, p_remote_result = 0,
     p_uus1_data = replicate 35 0\<rparr>"

definition dstack0 :: DStack where
  "dstack0 = dstack_boot
    \<lparr>l3_m_state = 0, l3_m_timer = idle_timer, l3_squeue = [], l3_proc = [], l3_global = None,
     l3_N303 = 0, l3_protocol = 2, l3_next_addr = 1, l3_fresh = (\<lambda>_. blank_proc), l3_kenv = env0,
     d_last_invoke_id = 0, d_invoke_used = [], d_OrigCallRef = 0,
     d_chan = (\<lambda>k. \<lparr>ch_chan = k, ch_setup = blank_setup\<lparr>su_phone := [49, 50] @ replicate 30 0, su_si1 := 1\<rparr>,
       ch_proc = None\<rparr>), d_garbage = 0, d_out = [], ds_card = dcard2, ds_i = 0, ds_sent = []\<rparr>"

text \<open>The same stack with an outgoing call.\<close>

definition dstack1 :: "DStack option" where
  "dstack1 = dss1down dstack_ops (CC_SETUP, REQUEST) (ArgChan 0) dstack0"

lemma dstack1_run:
  "map_option (\<lambda>c. (l3_m_state c, map (\<lambda>p. (p_addr p, p_state p, lt_pending (p_timer p), p_callref p)) (l3_proc c), 
    length (l3_squeue c), map_option (\<lambda>g. (p_addr g, p_state g)) (l3_global c))) dstack1 =
   Some (ST_L3_LC_ESTAB_WAIT, [(2, 1, True, 129)], 1, Some (1, 0))"
  by code_simp

lemma dstack0_reach: "dstack_reach True dstack0"
  unfolding dstack0_def
  by (rule dstack_reach.boot)
    (simp add: dstack_fresh_def dcard2_reach mem_ok_def env0_def chan_ok_def f_shape_def blank_proc_def
      blank_setup_def)

lemma dstack0_request: "request_ok (CC_SETUP, REQUEST) (ArgChan 0) dstack0"
proof -
  have "prefix_ok (su_phone (ch_setup (d_chan dstack0 0)))" by code_simp
  then show ?thesis by (simp add: request_ok_def)
qed

lemma dstack1_reach:
  obtains c p g where "dstack1 = Some c" "dstack_reach True c" "l3_proc c = [p]" "p_addr p = 2"
    "p_state p = 1" "length (l3_squeue c) = 1" "l3_m_state c = ST_L3_LC_ESTAB_WAIT"
    "l3_global c = Some g" "p_state g = 0"
proof -
  obtain c p g where c: "dstack1 = Some c" "l3_proc c = [p]" "p_addr p = 2" "p_state p = 1"
    "length (l3_squeue c) = 1" "l3_m_state c = ST_L3_LC_ESTAB_WAIT" "l3_global c = Some g" "p_state g = 0"
    using dstack1_run by (auto simp: map_eq_Cons_conv)
  have "dstack_step dstack0 dstack1"
    unfolding dstack1_def by (rule dstack_step.request [OF dstack0_request])
  then have "dstack_reach True c" using dstack_reach.step [OF dstack0_reach] c(1) by simp
  then show thesis using that c by blast
qed

text \<open>A timer that a state waits with has a row in this state.\<close>

lemma wait_timer_row:
  "x \<in> set (wait_timers st) \<Longrightarrow> find_entry (downstatelist up) (x, REQUEST) st \<noteq> None"
  by (auto simp: wait_timers_def find_entry_def downstatelist_def ALL_STATES_def split: if_splits)

subsection \<open>What the conditions of a step keep out\<close>

text \<open>
  The digits of a call in state 25 that call control ignores at once: \<open>l3dss1_information\<close> starts T302
  in the process that the request has released.
\<close>

lemma information_answer_faults:
  assumes "dstack_reach m c" "p \<in> set (l3_proc c)" "p_state p = 25" "msg_ok d sz" "digits_fit d sz p"
    "find_ie d sz IE_CALLED_PN = Some (Some i)"
  shows "l3dss1_information_now (dss1down dstack_ops (CC_IGNORE, REQUEST) (ArgProc (p_addr p))) dstack_ops
    (p_addr p) d sz c = None"
proof -
  note inv = dstack_reach_inv [OF assms(1)]
  have "p_addr p \<in> set (l3_addrs c)" using assms(2) by simp
  from dstack.calls.information_now_faults [OF dstack.calls.focus_start(1) [OF inv assms(2)] this
      dstack.calls.focus_start(2) [OF inv assms(2)] assms(4,3,5,6)]
  show ?thesis unfolding dstack_ops_Suc .
qed

text \<open>A SETUP whose called number has 31 digits is taken, with 32 digits it is written behind the array.\<close>

definition setup_digits :: "nat \<Rightarrow> u8 list" where
  "setup_digits n = [8, 1, 1, MT_SETUP, 0x04, 2, 0x88, 0x90, 0x18, 1, 0x89, IE_CALLED_PN, word_of_nat (n + 1), 0x81] @
     replicate n 0x31 @ replicate 10 0"

lemma long_number_overruns:
  "map_option (\<lambda>c. map p_state (l3_proc c)) (dss1up dstack_ops (DL_DATA, INDICATION) (setup_digits 31) 45 dstack0) =
     Some [6]"
  "dss1up dstack_ops (DL_DATA, INDICATION) (setup_digits 32) 46 dstack0 = None"
proof -
  show "map_option (\<lambda>c. map p_state (l3_proc c)) (dss1up dstack_ops (DL_DATA, INDICATION) (setup_digits 31) 45 dstack0) =
     Some [6]" by code_simp
  have "Option.is_none (dss1up dstack_ops (DL_DATA, INDICATION) (setup_digits 32) 46 dstack0)" by code_simp
  then show "dss1up dstack_ops (DL_DATA, INDICATION) (setup_digits 32) 46 dstack0 = None"
    by (simp add: Option.is_none_def)
qed

text \<open>
  A call in state 10 whose link is down: T309 runs, and the link is being set up. It is suspended: the
  call goes to state 15, but T319 is not started because T309 is pending. T309 then runs out without
  effect, and a disconnect has none either: only the network can end the call.
\<close>

definition dstack_t309 :: "DStack option" where
  "dstack_t309 = map_option (\<lambda>c. c\<lparr>l3_proc := map (\<lambda>p. p\<lparr>p_state := 10,
       p_timer := \<lparr>lt_pending = True, lt_expires = 0, lt_event = (CC_T309, REQUEST)\<rparr>\<rparr>) (l3_proc c),
     d_chan := (\<lambda>k. \<lparr>ch_chan = k, ch_setup = blank_setup, ch_proc = None\<rparr>)\<rparr>) dstack1"

lemma suspend_unguarded:
  "map_option (\<lambda>c. map (\<lambda>p. (p_state p, lt_pending (p_timer p), lt_event (p_timer p))) (l3_proc c))
     (dstack_t309 \<bind> dss1down dstack_ops (CC_SUSPEND, REQUEST) (ArgProc 2)) = Some [(15, True, (CC_T309, REQUEST))]"
  "map_option (\<lambda>c. map (\<lambda>p. (p_state p, lt_pending (p_timer p))) (l3_proc c))
     (dstack_t309 \<bind> dss1down dstack_ops (CC_SUSPEND, REQUEST) (ArgProc 2) \<bind> L3ExpireTimer dstack_ops 2 \<bind>
      dss1down dstack_ops (CC_DISCONNECT, REQUEST) (ArgProc 2)) = Some [(15, False)]"
  by code_simp+

subsection \<open>Properties\<close>

text \<open>
  C30. A stack from layer 1 up to the DSS1 protocol does not fault, in whatever order the messages of
  the network, timers, requests of call control and changes of the link come, under the conditions
  that \<open>dstack_reach\<close> and \<open>dstack_step\<close> state. The protocol of the stack is not NI1. Below, those of an S interface card (\<open>dcard_reach\<close>): the
  copies that layer 2 keeps of its frames can be made; when \<open>m\<close> is false every allocation of layer 3
  after the first may fail. A message (\<open>frame_ok\<close>) lies in a buffer of 258 octets at least with 3 octets
  behind it, the numbers of a SETUP and the digits of an INFORMATION fit their arrays of 32 octets
  (\<open>long_number_overruns\<close>), and a RESTART does not concern a call (C34). A request (\<open>request_ok\<close>) is for a
  call that exists, SUSPEND and REDIR for one with a channel, and the number to dial is not the letter
  C or P alone. An operation (\<open>cmd_fits\<close>) has a positive timeout, a code below 256 and data as long as
  it says (C29). Call control makes its requests after the handler that told it something has
  returned; an answer inside it is fatal in \<open>l3dss1_information\<close> (\<open>information_answer_faults\<close>).
\<close>

theorem dss1_no_fault:
  assumes "dstack_reach m c" "dstack_step c r"
  shows "r \<noteq> None"
  using dstack_step_ok [OF assms(2) dstack_reach_inv [OF assms(1)]] by (auto simp: wpo_iff)

lemma dss1_no_fault_witness: "dss1down dstack_ops (CC_SETUP, REQUEST) (ArgChan 0) dstack0 \<noteq> None"
  by (rule dss1_no_fault [OF dstack0_reach]) (rule dstack_step.request [OF dstack0_request])

text \<open>
  C31. As long as memory lasts (\<open>dstack_reach True\<close>), a call in state 1, 2, 3, 8, 11, 17, 19 or 25 has
  the timer of this state running: T303 after SETUP, T304 while more digits are sent, T310, T313,
  T305, T318, T308 for the first or second time, T302; and the protocol has a row for its expiry in
  this state. State 15, which waits for the answer to SUSPEND under T319, is not among them: a call
  suspended while T309 runs has no timer there (\<open>suspend_unguarded\<close>).
\<close>

theorem dss1_waits_with_timer:
  assumes "dstack_reach True c" "p \<in> set (l3_proc c)" "p_state p \<in> {1, 2, 3, 8, 11, 17, 19, 25}"
  shows "lt_pending (p_timer p) \<and> snd (lt_event (p_timer p)) = REQUEST \<and>
    fst (lt_event (p_timer p)) \<in> set (wait_timers (p_state p)) \<and>
    find_entry (downstatelist dstack_ops) (lt_event (p_timer p)) (p_state p) \<noteq> None"
proof -
  have "p_timed p"
    using dstack_reach_inv [OF assms(1)] assms(2) by (simp add: dss1_inv_def list_all_iff p_ok_def)
  moreover have "wait_timers (p_state p) \<noteq> []" using assms(3) by (auto simp: wait_timers_def)
  ultimately have t: "lt_pending (p_timer p)" "snd (lt_event (p_timer p)) = REQUEST"
    "fst (lt_event (p_timer p)) \<in> set (wait_timers (p_state p))" by (simp_all add: p_timed_def)
  then have "lt_event (p_timer p) = (fst (lt_event (p_timer p)), REQUEST)" by (metis prod.collapse)
  then show ?thesis using t wait_timer_row [OF t(3), of dstack_ops] by simp
qed

lemma dss1_waits_with_timer_witness:
  "\<exists>c p. dss1down dstack_ops (CC_SETUP, REQUEST) (ArgChan 0) dstack0 = Some c \<and> l3_proc c = [p] \<and>
     p_state p = 1 \<and> lt_pending (p_timer p) \<and> fst (lt_event (p_timer p)) = CC_T303"
proof -
  from dstack1_reach obtain c p where c: "dstack1 = Some c" "dstack_reach True c" "l3_proc c = [p]"
    "p_addr p = 2" "p_state p = 1" by metis
  then have "p \<in> set (l3_proc c)" "p_state p \<in> {1, 2, 3, 8, 11, 17, 19, 25}" by simp_all
  from dss1_waits_with_timer [OF c(2) this] show ?thesis
    using c by (auto simp: wait_timers_def dstack1_def)
qed

text \<open>
  C32. The data of a reachable stack are well-formed: the link is in one of its five states; a call is
  in a state of the protocol, its arrays have their declared sizes and its user data has an end; the
  process structures are distinct objects, and the global process is none of the calls.
\<close>

theorem dss1_well_formed:
  assumes "dstack_reach m c"
  shows "l3_m_state c < L3_STATE_COUNT \<and> distinct (l3_addrs c) \<and> invoke_ok (d_invoke_used c) \<and>
    (\<forall>p \<in> set (l3_proc c). p_state p \<in> set l3_valid_states \<and> f_shape p \<and> 0 \<in> set (p_uus1_data p)) \<and>
    (\<exists>g. l3_global c = Some g \<and> p_addr g \<notin> set (l3_addrs c) \<and> f_shape g)"
proof -
  note inv = dstack_reach_inv [OF assms, unfolded dss1_inv_def dss1_good_def]
  have "\<forall>p \<in> set (l3_proc c). p_state p \<in> set l3_valid_states \<and> f_shape p \<and> 0 \<in> set (p_uus1_data p)"
    using inv by (simp add: list_all_iff p_ok_def p_soft_def valid_state_def)
  then show ?thesis using inv by (auto simp: l3_ok_def)
qed

lemma dss1_well_formed_witness:
  "\<exists>c p. dss1down dstack_ops (CC_SETUP, REQUEST) (ArgChan 0) dstack0 = Some c \<and> l3_proc c = [p] \<and>
     p_state p \<in> set l3_valid_states \<and> f_shape p \<and> (\<exists>g. l3_global c = Some g \<and> p_addr g \<noteq> p_addr p)"
proof -
  obtain c p where c: "dstack1 = Some c" "dstack_reach True c" "l3_proc c = [p]" by (metis dstack1_reach)
  from dss1_well_formed [OF c(2)] show ?thesis using c(1,3) unfolding dstack1_def by auto
qed

text \<open>
  C33. Layer 3 keeps the order of messages and loses none by a request to send: in every state of the
  link a message that the protocol sends joins the end of what layer 2 was given and what waits for
  the link (a release of the link purges what waits). Only messages that the protocol writes
  because the link comes up may follow it.
\<close>

theorem l3_message_order:
  assumes "dstack_reach m c"
  shows "\<exists>c' later. l3_msg dstack_ops (DL_DATA, REQUEST) (Some skb) c = Some c' \<and>
    ds_sent c' @ l3_squeue c' = ds_sent c @ l3_squeue c @ skb # later"
proof -
  have "dss1_good dstack_low m c" "l3_ok c"
    using dstack_reach_inv [OF assms] by (simp_all add: dss1_inv_def)
  from dstack.client.l3_msg_data_ok [OF this, of 0 skb] show ?thesis
    by (auto simp: wpo_iff dstack_ops_Suc)
qed

lemma l3_message_order_witness:
  "\<exists>c c' later. dss1down dstack_ops (CC_SETUP, REQUEST) (ArgChan 0) dstack0 = Some c \<and>
     l3_msg dstack_ops (DL_DATA, REQUEST) (Some \<lparr>skb_head = 32, skb_bytes = [8, 1, 1, 0x5a], skb_pkt_type = 0\<rparr>) c = Some c' \<and>
     ds_sent c' @ l3_squeue c' =
       ds_sent c @ l3_squeue c @ \<lparr>skb_head = 32, skb_bytes = [8, 1, 1, 0x5a], skb_pkt_type = 0\<rparr> # later"
proof -
  obtain c where c: "dstack1 = Some c" "dstack_reach True c" by (metis dstack1_reach)
  from l3_message_order [OF c(2)] show ?thesis using c(1) unfolding dstack1_def by blast
qed

lemma find_restart: "find_entry (globalmes_list up) MT_RESTART 0 = Some (l3dss1_global_restart up)"
  by (simp add: find_entry_def globalmes_list_def ALL_STATES_def)

lemma global_handler_faults:
  assumes "dstack_inv m c" "l3_global c = Some g" "p_state g = 0" "msg_ok d sz" "2 < length d"
    "restart_hits d sz c"
  shows "global_handler dstack_ops MT_RESTART d sz c = None"
proof -
  let ?g = "g\<lparr>p_callref := uint (d ! 2)\<rparr>"
  note start = dstack.calls.focus_start_global(1) [OF assms(1,2), of None]
    dstack.calls.focus_start_global(2,3) [OF assms(1,2)]
  have fault: "l3dss1_global_restart dstack_ops (p_addr g) d sz c' = None"
    if c': "dstack.calls.foc m as gl (p_addr g) ?g c'" "l3_proc c' = l3_proc c" "p_addr g \<notin> set as" for c' as gl
  proof -
    have "dstack_inv m c'"
      by (rule dstack.calls.inv_of_global [OF c'(1,3)]) (use start(2) in \<open>simp add: f_shape_def\<close>)
    moreover have at: "pc_get (p_addr g) c' = Some ?g" "p_addr ?g \<notin> set (l3_addrs c')"
      using c'(1,3) by (auto simp: focus_def)
    moreover have "l3_global c' = Some ?g" using pc_get_cases [OF at(1)] at(2) imageI [of ?g "set (l3_proc c')" p_addr] by auto
    moreover have "restart_hits d sz c'" using assms(6) unfolding restart_hits_def c'(2) .
    ultimately show ?thesis
      using dstack.calls.global_restart_faults [of m c' ?g d sz 0] assms(4) by (simp add: dstack_ops_Suc)
  qed
  have "wpo (pc_mod (p_addr g) (\<lambda>p. p\<lparr>p_callref := uint (d ! 2)\<rparr>) c) (\<lambda>c'. wpo (pc_get (p_addr g) c')
      (\<lambda>p. p_state p = 0 \<and> l3dss1_global_restart dstack_ops (p_addr g) d sz c' = None))"
    apply (rule dstack.calls.mod_global_wp [OF start(1,3)], simp)
    apply (erule dstack.calls.get_wp')
    apply (rule conjI, simp add: assms(3), rule fault [OF _ _ start(3)], assumption+)
    done
  then obtain c' p where "pc_mod (p_addr g) (\<lambda>p. p\<lparr>p_callref := uint (d ! 2)\<rparr>) c = Some c'"
    "pc_get (p_addr g) c' = Some p" "p_state p = 0" "l3dss1_global_restart dstack_ops (p_addr g) d sz c' = None"
    by (auto simp: wpo_iff)
  then show ?thesis
    using assms(2,5) by (simp add: global_handler_def Let_def rd_def find_restart)
qed

text \<open>
  C34. A RESTART of the network that concerns a call is fatal: the request that it makes for the call
  releases the process, and the walk over the processes then reads the link of the freed one.
\<close>

theorem restart_reads_freed_process:
  assumes "dstack_reach m c" "l3_global c = Some g" "p_state g = 0"
    "d = 0x08 # 1 # x # MT_RESTART # xs" "x AND 0x7f = 0" "msg_ok d sz" "restart_hits d sz c"
  shows "dss1up dstack_ops (DL_DATA, INDICATION) d sz c = None"
proof -
  have len: "4 \<le> sz" using assms(6) by (simp add: assms(4) msg_ok_def)
  have "uint (x AND 0x7f) = uint x AND 0x7f" by (simp add: uint_and)
  then have cr: "uint x AND 0x7f = 0" using assms(5) by simp
  have fault: "global_handler dstack_ops MT_RESTART d sz c = None"
    by (rule global_handler_faults [OF dstack_reach_inv [OF assms(1)] assms(2,3,6) _ assms(7)])
      (simp add: assms(4))
  have rd: "rd d 0 = Some 8" "rd d 1 = Some 1" "rd d (unat (1 :: u8) + 2) = Some MT_RESTART"
    "getcallref d = Some (uint x)"
    by (simp_all add: assms(4) rd_def getcallref_def)
  have "uint x \<noteq> -1" "uint x \<noteq> -2" using uint_ge_0 [of x] by linarith+
  then have "dss1_frame dstack_ops (DL_DATA, INDICATION) d sz c = global_handler dstack_ops MT_RESTART d sz c"
    using len cr unfolding dss1_frame_def rd bind.bind_lunit by (simp only: rd bind.bind_lunit) simp
  then show ?thesis using fault by (simp add: dss1up_def)
qed

definition restart_all :: "u8 list" where
  "restart_all = [0x08, 1, 0, MT_RESTART, IE_RESTART_IND, 1, 0x87, 0, 0, 0]"

lemma restart_all_class: "restart_class restart_all 7 = Some (0x87, 0)"
  by code_simp

lemma restart_reads_freed_process_witness:
  "\<exists>c. dss1down dstack_ops (CC_SETUP, REQUEST) (ArgChan 0) dstack0 = Some c \<and>
     dss1up dstack_ops (DL_DATA, INDICATION) restart_all 7 c = None"
proof -
  from dstack1_reach obtain c p g where c: "dstack1 = Some c" "dstack_reach True c" "l3_proc c = [p]"
    "l3_global c = Some g" "p_state g = 0" by metis
  have "msg_ok restart_all 7" by code_simp
  moreover have "restart_hits restart_all 7 c"
    by (simp add: restart_hits_def restart_all_class restart_hit_def c(3))
  ultimately show ?thesis
    using restart_reads_freed_process [OF c(2,4,5) restart_all_def] c(1) by (auto simp: dstack1_def)
qed

text \<open>
  C35. The link of layer 3: the release timer runs exactly while the link is in its release delay,
  and then raises the timeout of the machine; no message waits on a link that is up or was released.
\<close>

theorem l3_release_delay:
  assumes "dstack_reach m c"
  shows "(tl_pending (l3_m_timer c) \<longrightarrow>
      l3_m_state c = ST_L3_LC_REL_DELAY \<and> tm_event (l3_m_timer c) = EV_TIMEOUT) \<and>
    (l3_m_state c = ST_L3_LC_REL_DELAY \<longrightarrow> tl_pending (l3_m_timer c) \<or> l3_protocol c = ISDN_PTYPE_NI1) \<and>
    (l3_m_state c = ST_L3_LC_REL \<or> l3_m_state c = ST_L3_LC_ESTAB \<longrightarrow> l3_squeue c = [])"
  using dstack_reach_inv [OF assms] by (auto simp: dss1_inv_def l3_ok_def)

lemma l3_release_delay_witness: "l3_squeue dstack0 = [] \<and> \<not> tl_pending (l3_m_timer dstack0)"
proof -
  have "l3_m_state dstack0 = ST_L3_LC_REL" by code_simp
  then show ?thesis using l3_release_delay [OF dstack0_reach] by auto
qed

end
