(* ===== verification/Spec2Isabelle.thy ===== *)
theory Spec2Isabelle
  imports Hisax_Callc_Props Hisax_Hdlc_Props Hisax_BChan Hisax_Stack_Props Hisax_Dss1_Props Hisax_L2_Props Hisax_Tei_Props
begin

text \<open>
  A verification of the HiSax driver of isdn4linux (\<open>src/drivers/isdn/hisax/\<close>), the protocol stack
  between an ISDN chip and the link level of the kernel.

  \<^bold>\<open>The program.\<close> A HiSax card has a D channel for signalling and two B channels for data. Layer 1
  (\<open>isdnl1.c\<close>) activates the line and hands frames up. Layer 2 (\<open>isdnl2.c\<close>) is the acknowledged link
  of Q.921 (LAPD, on the D channel) or X.75 (LAPB, on a B channel); the TEI manager (\<open>tei.c\<close>) gets a
  D channel link its address from the network. Layer 3 (\<open>isdnl3.c\<close>) brings layer 2 up when a call
  needs it and keeps messages back until it is up; the protocol module (\<open>l3dss1.c\<close>, EURO/DSS1) runs
  the calls with messages, timers and remote operations. Call control (\<open>callc.c\<close>) stands between the
  D channel calls, the B channels and the link level, which dials, accepts and hangs up. Each layer is
  a table-driven state machine (\<open>fsm.c\<close>). The layers call each other through function pointers of
  \<open>struct PStack\<close>.

  \<^bold>\<open>The model.\<close> Every \<open>struct\<close> is a record with the fields the code uses, every state table is a list
  with the rows of the code, every routine is a function from the state of its component to an
  option of it: \<open>None\<close> is a kernel fault (null or freed pointer, access outside an array, a loop that
  never ends). Octets and sequence numbers are words; what the code keeps in an \<open>int\<close> without relying on
  its width is an \<open>int\<close> or \<open>nat\<close>. An object of the heap that the code reaches by a pointer is named
  by an address that is never used twice, so that a use after free is a lookup that fails.

  \<^item> \<open>Isdn_Prelude\<close>: word widths, socket buffers, allocation, time and randomness of the kernel
    (\<open>kenv\<close>), triples \<open>wpo\<close> for routines that may fault, sequence number arithmetic.
  \<^item> \<open>Hisax_Fsm\<close>: \<open>FsmNew\<close>, \<open>FsmEvent\<close> and the timers of \<open>fsm.c\<close>; locale \<open>fsm_table\<close>: routines that
    keep an invariant make a machine that keeps it. The machines of layer 2, of the TEI manager and of call control
    interpret it; layer 1, whose table is chosen at run time, uses its theorem.
  \<^item> \<open>Hisax_L1\<close>: \<open>isdnl1.c\<close>. The S and U machines of the D channel, the B channel machine, the
    distribution of received frames, messages of the chip, setup. \<open>Hisax_L1_Inv\<close>: the contract
    \<open>l1_client\<close> with the layers above and the invariant under it; \<open>Hisax_L1_B\<close>: the same for a B
    channel (\<open>b_client\<close>).
  \<^item> \<open>Hisax_L2\<close>, \<open>Hisax_L2_Handlers\<close>, \<open>Hisax_L2_Table\<close>: \<open>isdnl2.c\<close>. \<open>Hisax_L2_Frame\<close>,
    \<open>Hisax_L2_Window\<close>, \<open>Hisax_L2_Inv\<close>, \<open>Hisax_L2_Safety\<close>: the invariant of a link and that every
    handler keeps it; \<open>Hisax_L2_Idle\<close>: the handlers that go on after a pull request, with an idle
    transmitter, and the reachable links; \<open>Hisax_L2_Arq\<close>: the abstract sender that layer 2 refines; \<open>Hisax_L2_Codec\<close>:
    control fields; \<open>Hisax_L2_Retry\<close>: retries; \<open>Hisax_L2_Tei\<close>: where the TEI comes from;
    \<open>Hisax_L2_Props\<close>: the properties.
  \<^item> \<open>Hisax_Tei\<close>, \<open>Hisax_Tei_Proc\<close>, \<open>Hisax_Tei_Inv\<close>, \<open>Hisax_Tei_Props\<close>: \<open>tei.c\<close> on a card of several
    stacks with their layer 2.
  \<^item> \<open>Hisax_Card\<close>, \<open>Hisax_Card_Props\<close>: layers 1 and 2 and TEI management of a D channel together, and
    \<open>Hisax_BChan\<close>: X.75 on a B channel. They interpret the contracts of layer 1.
  \<^item> \<open>Hisax_L3_Msg\<close>, \<open>Hisax_L3\<close>: \<open>isdnl3.c\<close>. \<open>Hisax_L3_Inv\<close>: the contracts \<open>l3_link\<close> (layer 2) and
    \<open>l3_client\<close> (the protocol), and the invariant of the link control.
  \<^item> \<open>Hisax_Dss1_Ie\<close>, \<open>Hisax_Dss1\<close>, \<open>Hisax_Dss1_Down\<close>, \<open>Hisax_Dss1_Up\<close>: \<open>l3dss1.c\<close>. \<open>Hisax_Dss1_Msg\<close>,
    \<open>Hisax_Dss1_Codec\<close>, \<open>Hisax_Dss1_Props\<close>: messages and identifiers; \<open>Hisax_Dss1_Inv\<close>: the invariant
    of a stack of calls and the rules that run a handler (\<open>dss1_focus\<close>, \<open>dss1_send\<close>);
    \<open>Hisax_Dss1_Run\<close>, \<open>Hisax_Dss1_Rcv\<close>: all handlers run by them (\<open>dss1_calls\<close>); \<open>Hisax_Dss1_Now\<close>: the
    handler that goes on after call control has answered; \<open>Hisax_Dss1_Link\<close>: link control and protocol tied together (\<open>dss1_link\<close>).
  \<^item> \<open>Hisax_Stack\<close>, \<open>Hisax_Stack_Props\<close>: the whole D channel stack on a card, its steps, and what every
    reachable stack satisfies. It interprets \<open>dss1_link\<close>.
  \<^item> \<open>Hisax_Callc\<close> (state), \<open>Hisax_Callc_Fsm\<close> (routines and table), \<open>Hisax_Callc_Cmd\<close> (entry points):
    \<open>callc.c\<close>. \<open>Hisax_Callc_Inv\<close>: the protocol \<open>ll_path\<close> that the link level sees, the life of a B channel
    stack (\<open>bc_run\<close>), and the invariant; \<open>Hisax_Callc_Run\<close>: every row of the table keeps it;
    \<open>Hisax_Callc_Step\<close>: the steps of a card and the contract of the D channel protocol;
    \<open>Hisax_Callc_Props\<close>: the properties.
  \<^item> \<open>Hisax_Hdlc\<close>: \<open>st5481_hdlc.c\<close>, the HDLC coder of the USB adapter, which does in software what the
    chips of the other cards do: decoder and encoder, one turn of a loop at a time. \<open>Hisax_Hdlc_Bits\<close>:
    the reference, the bits of a frame on the line (\<open>line_bits\<close>) with zero insertion and the
    residue of the CRC; \<open>Hisax_Hdlc_Enc\<close>: the encoder writes these bits; \<open>Hisax_Hdlc_Dec\<close>: the decoder
    reads them; \<open>Hisax_Hdlc_Short\<close>: with a buffer too short for the frame; \<open>Hisax_Hdlc_Props\<close>: the
    properties. The loops are \<open>partial_function\<close>s, so a run that returns is a theorem.

  \<^bold>\<open>Calls between layers.\<close> A call that returns before the caller goes on is made in the model where
  the code makes it: layer 3 and DSS1 down into layer 2, the link control up into DSS1, the TEI manager
  into layer 2. Calls in the other direction that would enter a component again (layer 2 to layer 3, DSS1
  to call control, layer 2 to layer 1) are recorded in order and delivered in later steps of
  the composition, in any order between components. For a call that is the last thing a handler does
  this is the same. Where a handler goes on and the difference was found to matter, there is a second
  model of it with the answer inside. Layer 1 with an idle transmitter answers a pull request at once
  (\<open>isac.c\<close>): the handlers of a REJ and of an I frame in state 7 are modelled both ways
  (\<open>l2_ph_data_ind_now\<close>), and reachable links, cards and B channels take both; the transmitter is busy
  after one frame, so it answers once. A REJ then leaves a frame without T200 (\<open>rej_now_unguarded\<close>).
  Call control may ignore a call while \<open>l3dss1_information\<close> tells it more digits
  (\<open>l3dss1_information_now\<close>): this releases the process that the handler goes on with
  (\<open>information_answer_faults\<close>), and the stacks of \<open>dstack_reach\<close> have a call control that answers later.
  Layer 3 that sends while layer 2 still works on an I frame, and who owns a buffer, are not modelled.

  \<^bold>\<open>Memory.\<close> \<open>kenv\<close> says which allocations succeed. Layer 2 checks those of its supervisory and
  unnumbered frames, the TEI manager those of its messages: they may fail in every property.
  \<open>l2_pull_iqueue\<close> does not check the copy that it keeps of a frame, nor the new buffer for a frame with
  too little headroom (\<open>clone_skb2\<close>); without them it faults (\<open>failed_clone_faults\<close>). That they succeed
  (\<open>clones_ok\<close>) is a premise of the first rule of \<open>l2_reach\<close>, \<open>card_reach\<close>, \<open>dcard_reach\<close> and
  \<open>bchan_reach\<close>. Layer 3 and DSS1 check all of theirs: \<open>dstack_reach m\<close> has failing ones for \<open>m\<close> false.
  Call control is taken with allocations that succeed (\<open>mem_ok\<close>, the premise of \<open>callc_reach\<close>); what
  a failed one leads to is \<open>stale_call_faults\<close>.

  \<^bold>\<open>Depths.\<close> Some routines raise an event of their own machine. Their models take the nesting depth as
  a number and dispatch no deeper: 2 for the TEI machine (\<open>tei_event\<close>) and for the link control
  (\<open>l3_event\<close>); the handlers that raise an event lead to rows whose handlers raise none, so 2 is
  reached and never exceeded. \<open>dss1_ops dn n\<close> gives DSS1 \<open>n\<close> further levels of calls through the link control; \<open>Hisax_Stack\<close>
  uses 1, and \<open>dss1_link\<close> is proved for any \<open>n\<close>. Loops whose end is a theorem are
  \<open>partial_function\<close>s or recursions with a measure.

  \<^bold>\<open>Timers\<close> are a flag with the event they raise; a pending timer may expire at any time. Debug output
  is ignored.

  \<^bold>\<open>What the environment must see to.\<close> \<open>dcard_reach\<close>: the card has an S interface; with a U interface
  layer 1 does not work (\<open>l1_u_interface_stuck\<close>). \<open>frame_ok\<close>: a received message has a readable tail,
  numbers that fit the 32 octets the code copies them to without a test (\<open>long_number_overruns\<close>), and
  is no RESTART of a live call (\<open>restart_reads_freed_process\<close>). \<open>request_ok\<close>: call control names a call
  that exists, with a channel for SUSPEND and REDIR, and passes numbers with an end. \<open>cmd_fits\<close>: a
  remote operation has a time limit, a code of one octet and the data it names (\<open>cmd_invoke_unusable\<close>).
  \<open>callc_step\<close>: the channel of a command exists (\<open>cmd_ok\<close>, \<open>command_out_of_range\<close>), and a channel is dialled
  that is leased or whose D channel is not (\<open>dial_ok\<close>, \<open>stale_call_faults\<close>); a CAPI identity is shorter
  than 32 octets (\<open>fac_ok\<close>, \<open>facility_overruns\<close>); a call on a second D channel finds a place inside the
  array (\<open>place_ok\<close>, \<open>second_dchan_overruns\<close>); the protocol frees a call when it tells its end to a
  channel that has a row for it (\<open>heard\<close>, \<open>proceed_send_release_lost\<close>), or when no channel works with it.
  The lemmas named show that the code faults without the condition. A call suspended while T309 runs
  waits without a timer (\<open>suspend_unguarded\<close>). Call control and DSS1 are two models: what one asks of the other is in its list
  of calls, and the steps of call control take any report that keeps the contract.

  \<^bold>\<open>Not modelled\<close>: the chip and card drivers (register access, the USB transfers around the HDLC coder), \<open>config.c\<close> (card setup), \<open>q931.c\<close>
  and \<open>cert.c\<close> (printing of messages), the other protocol modules (\<open>l3ni1.c\<close>, \<open>l3_1tr6.c\<close>), and the
  other parts of isdn4linux: the link level (network, tty, PPP), CAPI and the drivers of active cards. In the modelled files: log output and the
  controls that only change it; in \<open>callc.c\<close> finding the card of a driver id and the control 55 of a module; in
  \<open>l3dss1.c\<close> the advice of charge in facility elements, which only a macro that nothing
  defines would compile.
\<close>

end
